(* ===== verification/Clink_Prelude.thy ===== *)
theory Clink_Prelude
  imports Complex_Main "HOL-Library.Word" "HOL-Library.AList"
begin

text \<open>
  What every component of the development shares:
  \<^item> results of fallible Python code (\<open>and_then\<close>, \<open>lift_opt\<close>) as a sum, the error on the left;
  \<^item> the string tests the code writes as regular expressions (identifiers, hexadecimal
    addresses and hashes, reason codes), lower casing, and decimal printing and parsing;
  \<^item> tables: a SQL table is the list of its rows, read with \<open>find\<close> and \<open>filter\<close> and written
    through \<open>update_rows\<close>, or by primary key with \<open>sel_by\<close> and \<open>upd_by\<close>;
  \<^item> the locale \<open>invariant_system\<close>: what a step relation's invariant gives its clients.

  Strings are lists of 8-bit characters; every identifier, address and hash of the program is
  ASCII, so one \<open>char\<close> is one Python character.
\<close>

named_theorems result_simps \<open>rewrite rules for fallible computations\<close>
named_theorems row_simps \<open>rewrite rules for table reads and writes\<close>
named_theorems frame_simps \<open>fields an operation leaves alone\<close>

section \<open>Results\<close>

definition and_then :: "'e + 'a \<Rightarrow> ('a \<Rightarrow> 'e + 'b) \<Rightarrow> 'e + 'b" where
  "and_then r f = (case r of Inl e \<Rightarrow> Inl e | Inr x \<Rightarrow> f x)"

definition guard_that :: "bool \<Rightarrow> 'e \<Rightarrow> 'e + unit" where
  "guard_that c e = (if c then Inr () else Inl e)"

definition lift_opt :: "'e \<Rightarrow> 'a option \<Rightarrow> 'e + 'a" where
  "lift_opt e x = (case x of None \<Rightarrow> Inl e | Some v \<Rightarrow> Inr v)"

section \<open>Strings\<close>

abbreviation ord :: "char \<Rightarrow> nat" where
  "ord c \<equiv> of_char c"

definition is_digit_char :: "char \<Rightarrow> bool" where
  "is_digit_char c \<longleftrightarrow> 48 \<le> ord c \<and> ord c \<le> 57"

definition is_lower_char :: "char \<Rightarrow> bool" where
  "is_lower_char c \<longleftrightarrow> 97 \<le> ord c \<and> ord c \<le> 122"

definition is_upper_char :: "char \<Rightarrow> bool" where
  "is_upper_char c \<longleftrightarrow> 65 \<le> ord c \<and> ord c \<le> 90"

definition is_alnum_char :: "char \<Rightarrow> bool" where
  "is_alnum_char c \<longleftrightarrow> is_digit_char c \<or> is_lower_char c \<or> is_upper_char c"

definition is_hex_char :: "char \<Rightarrow> bool" where
  "is_hex_char c \<longleftrightarrow> is_digit_char c \<or> (97 \<le> ord c \<and> ord c \<le> 102) \<or> (65 \<le> ord c \<and> ord c \<le> 70)"

definition is_lower_hex_char :: "char \<Rightarrow> bool" where
  "is_lower_hex_char c \<longleftrightarrow> is_digit_char c \<or> (97 \<le> ord c \<and> ord c \<le> 102)"

definition is_control_char :: "char \<Rightarrow> bool" where
  "is_control_char c \<longleftrightarrow> ord c < 32 \<or> ord c = 127"

definition lower_char :: "char \<Rightarrow> char" where
  "lower_char c = (if is_upper_char c then char_of (ord c + 32) else c)"

definition lower :: "string \<Rightarrow> string" where
  "lower s = map lower_char s"

definition starts_0x :: "string \<Rightarrow> bool" where
  "starts_0x s \<longleftrightarrow> take 2 s = ''0x''"

text \<open>\<open>0x\<close> followed by \<open>n\<close> hexadecimal digits of either case.\<close>

definition is_hex_string :: "nat \<Rightarrow> string \<Rightarrow> bool" where
  "is_hex_string n s \<longleftrightarrow> starts_0x s \<and> length s = n + 2 \<and> list_all is_hex_char (drop 2 s)"

text \<open>\<open>0x\<close> followed by \<open>n\<close> lower-case hexadecimal digits.\<close>

definition is_lower_hex_string :: "nat \<Rightarrow> string \<Rightarrow> bool" where
  "is_lower_hex_string n s \<longleftrightarrow>
     starts_0x s \<and> length s = n + 2 \<and> list_all is_lower_hex_char (drop 2 s)"

text \<open>The identifier pattern \<open>[A-Za-z0-9][A-Za-z0-9_.:-]{0,255}\<close>.\<close>

definition is_ident_char :: "char \<Rightarrow> bool" where
  "is_ident_char c \<longleftrightarrow> is_alnum_char c \<or> c \<in> set ''_.:-''"

definition is_identifier :: "string \<Rightarrow> bool" where
  "is_identifier s \<longleftrightarrow>
     (case s of [] \<Rightarrow> False
      | c # cs \<Rightarrow> is_alnum_char c \<and> length cs \<le> 255 \<and> list_all is_ident_char cs)"

text \<open>The reason-code pattern \<open>[a-z][a-z0-9_]{0,n}\<close>.\<close>

definition is_reason_code :: "nat \<Rightarrow> string \<Rightarrow> bool" where
  "is_reason_code n s \<longleftrightarrow>
     (case s of [] \<Rightarrow> False
      | c # cs \<Rightarrow> is_lower_char c \<and> length cs \<le> n \<and>
          list_all (\<lambda>d. is_lower_char d \<or> is_digit_char d \<or> d = CHR ''_'') cs)"

text \<open>Decimal printing of a natural number, as Python's \<open>str\<close>.\<close>

fun show_nat :: "nat \<Rightarrow> string" where
  "show_nat n = (if n < 10 then [char_of (48 + n)] else show_nat (n div 10) @ [char_of (48 + n mod 10)])"

declare show_nat.simps [simp del]

definition show_int :: "int \<Rightarrow> string" where
  "show_int i = (if i < 0 then CHR ''-'' # show_nat (nat (- i)) else show_nat (nat i))"

text \<open>Decimal parsing of a string of digits, as Python's \<open>int\<close> on such a string.\<close>

definition read_nat :: "string \<Rightarrow> nat" where
  "read_nat s = foldl (\<lambda>a c. 10 * a + (ord c - 48)) 0 s"

definition is_digits :: "string \<Rightarrow> bool" where
  "is_digits s \<longleftrightarrow> s \<noteq> [] \<and> list_all is_digit_char s"

text \<open>The amount pattern \<open>[1-9][0-9]*\<close>.\<close>

definition is_positive_decimal :: "string \<Rightarrow> bool" where
  "is_positive_decimal s \<longleftrightarrow> is_digits s \<and> hd s \<noteq> CHR ''0''"

section \<open>Tables\<close>

text \<open>Assigning to the columns of the rows a predicate selects.\<close>

definition update_rows :: "('r \<Rightarrow> bool) \<Rightarrow> ('r \<Rightarrow> 'r) \<Rightarrow> 'r list \<Rightarrow> 'r list" where
  "update_rows p f t = map (\<lambda>r. if p r then f r else r) t"

text \<open>Reading and assigning to the row with a given primary key.\<close>

definition sel_by :: "('r \<Rightarrow> 'k) \<Rightarrow> 'k \<Rightarrow> 'r list \<Rightarrow> 'r option" where
  "sel_by key k t = find (\<lambda>r. key r = k) t"

definition upd_by :: "('r \<Rightarrow> 'k) \<Rightarrow> 'k \<Rightarrow> ('r \<Rightarrow> 'r) \<Rightarrow> 'r list \<Rightarrow> 'r list" where
  "upd_by key k f t = update_rows (\<lambda>r. key r = k) f t"

section \<open>Results: lemmas\<close>

lemma and_then_Inl [simp, result_simps]: "and_then (Inl e) f = Inl e"
  by (simp add: and_then_def)

lemma and_then_Inr [simp, result_simps]: "and_then (Inr x) f = f x"
  by (simp add: and_then_def)

lemma and_then_eq_Inr [result_simps]:
  "and_then r f = Inr y \<longleftrightarrow> (\<exists>x. r = Inr x \<and> f x = Inr y)"
  by (cases r) auto

lemma and_then_eq_Inl [result_simps]:
  "and_then r f = Inl e \<longleftrightarrow> r = Inl e \<or> (\<exists>x. r = Inr x \<and> f x = Inl e)"
  by (cases r) auto

lemma guard_that_eq_Inr [simp, result_simps]: "guard_that c e = Inr u \<longleftrightarrow> c"
  by (simp add: guard_that_def)

lemma guard_that_eq_Inl [simp, result_simps]: "guard_that c e = Inl e' \<longleftrightarrow> \<not> c \<and> e' = e"
  by (auto simp: guard_that_def)

lemma guard_that_simps [simp]:
  "guard_that True e = Inr ()" "guard_that False e = Inl e"
  by (simp_all add: guard_that_def)

lemma lift_opt_eq_Inr [simp, result_simps]: "lift_opt e x = Inr v \<longleftrightarrow> x = Some v"
  by (cases x) (auto simp: lift_opt_def)

lemma lift_opt_eq_Inl [simp, result_simps]: "lift_opt e x = Inl e' \<longleftrightarrow> x = None \<and> e' = e"
  by (cases x) (auto simp: lift_opt_def)

lemma lift_opt_simps [simp]: "lift_opt e None = Inl e" "lift_opt e (Some v) = Inr v"
  by (simp_all add: lift_opt_def)

section \<open>Strings: lemmas\<close>

lemma ord_lt_256: "ord c < 256"
  using of_char_mod_256 [of c] by (metis mod_less_divisor zero_less_numeral)

lemma ord_char_of [simp]: "ord (char_of (n::nat)) = n mod 256"
  by simp

lemma lower_char_idem [simp]: "lower_char (lower_char c) = lower_char c"
  by (auto simp: lower_char_def is_upper_char_def)

lemma lower_lower [simp]: "lower (lower s) = lower s"
  by (simp add: lower_def comp_def)

lemma length_lower [simp]: "length (lower s) = length s"
  by (simp add: lower_def)

lemma is_hex_lower_char: "is_hex_char c \<Longrightarrow> is_lower_hex_char (lower_char c)"
  by (auto simp: lower_char_def is_hex_char_def is_lower_hex_char_def is_digit_char_def
      is_upper_char_def)

lemma is_lower_hex_char_hex: "is_lower_hex_char c \<Longrightarrow> is_hex_char c \<and> lower_char c = c"
  by (auto simp: lower_char_def is_hex_char_def is_lower_hex_char_def is_digit_char_def
      is_upper_char_def)

lemma starts_0x_lower: "starts_0x s \<Longrightarrow> starts_0x (lower s)"
proof -
  assume "starts_0x s"
  then obtain t where "s = ''0x'' @ t"
    by (metis append_take_drop_id starts_0x_def)
  then show ?thesis
    by (simp add: starts_0x_def lower_def lower_char_def is_upper_char_def)
qed

lemma lower_hex_string: "is_hex_string n s \<Longrightarrow> is_lower_hex_string n (lower s)"
  using starts_0x_lower [of s]
  by (auto simp: is_hex_string_def is_lower_hex_string_def list_all_iff
      lower_def drop_map is_hex_lower_char)

lemma is_lower_hex_string_hex: "is_lower_hex_string n s \<Longrightarrow> is_hex_string n s"
  by (auto simp: is_hex_string_def is_lower_hex_string_def list_all_iff is_lower_hex_char_hex)

lemma is_lower_hex_string_lower:
  assumes "is_lower_hex_string n s"
  shows "lower s = s"
proof -
  from assms have s: "s = ''0x'' @ drop 2 s"
    by (metis append_take_drop_id is_lower_hex_string_def starts_0x_def)
  have "map lower_char (drop 2 s) = drop 2 s"
    using assms by (intro map_idI) (auto simp: is_lower_hex_string_def list_all_iff
        dest: is_lower_hex_char_hex)
  then have "lower (''0x'' @ drop 2 s) = ''0x'' @ drop 2 s"
    by (simp add: lower_def lower_char_def is_upper_char_def)
  with s show ?thesis by simp
qed

lemma read_nat_snoc: "read_nat (s @ [c]) = 10 * read_nat s + (ord c - 48)"
  by (simp add: read_nat_def)

lemma read_show_nat [simp]: "read_nat (show_nat n) = n"
proof (induction n rule: show_nat.induct)
  case (1 n)
  show ?case
  proof (cases "n < 10")
    case True
    then show ?thesis
      by (subst show_nat.simps) (simp add: read_nat_def)
  next
    case False
    with 1 have "read_nat (show_nat (n div 10)) = n div 10" by simp
    with False show ?thesis
      by (subst show_nat.simps) (simp add: read_nat_snoc)
  qed
qed

lemma show_nat_digits: "is_digits (show_nat n)"
proof (induction n rule: show_nat.induct)
  case (1 n)
  show ?case
  proof (cases "n < 10")
    case True
    then show ?thesis
      by (subst show_nat.simps) (simp add: is_digits_def is_digit_char_def)
  next
    case False
    with 1 show ?thesis
      by (subst show_nat.simps) (auto simp: is_digits_def is_digit_char_def)
  qed
qed

lemma show_nat_inject [simp]: "show_nat m = show_nat n \<longleftrightarrow> m = n"
  by (metis read_show_nat)

section \<open>Evaluation of the character tests\<close>

text \<open>
  The tests on the bits of a character: code equations with which concrete identifiers,
  addresses and hashes are checked by evaluation in the kernel.
\<close>

lemma is_digit_char_bits [code]:
  "is_digit_char (Char b0 b1 b2 b3 b4 b5 b6 b7) \<longleftrightarrow>
     \<not> b7 \<and> \<not> b6 \<and> b5 \<and> b4 \<and> (\<not> b3 \<or> \<not> b2 \<and> \<not> b1)"
  unfolding is_digit_char_def by (cases b0; cases b1; cases b2; cases b3; cases b4; cases b5; cases b6; cases b7) simp_all

lemma is_lower_char_bits [code]:
  "is_lower_char (Char b0 b1 b2 b3 b4 b5 b6 b7) \<longleftrightarrow>
     \<not> b7 \<and> b6 \<and> b5 \<and> (b0 \<or> b1 \<or> b2 \<or> b3 \<or> b4) \<and> (b4 \<and> b3 \<longrightarrow> \<not> b2 \<and> \<not> (b1 \<and> b0))"
  unfolding is_lower_char_def by (cases b0; cases b1; cases b2; cases b3; cases b4; cases b5; cases b6; cases b7) simp_all

lemma is_upper_char_bits [code]:
  "is_upper_char (Char b0 b1 b2 b3 b4 b5 b6 b7) \<longleftrightarrow>
     \<not> b7 \<and> b6 \<and> \<not> b5 \<and> (b0 \<or> b1 \<or> b2 \<or> b3 \<or> b4) \<and> (b4 \<and> b3 \<longrightarrow> \<not> b2 \<and> \<not> (b1 \<and> b0))"
  unfolding is_upper_char_def by (cases b0; cases b1; cases b2; cases b3; cases b4; cases b5; cases b6; cases b7) simp_all

lemma is_hex_letter_bits:
  "(97 \<le> ord (Char b0 b1 b2 b3 b4 b5 b6 b7) \<and> ord (Char b0 b1 b2 b3 b4 b5 b6 b7) \<le> 102) \<longleftrightarrow>
     \<not> b7 \<and> b6 \<and> b5 \<and> \<not> b4 \<and> \<not> b3 \<and> (b0 \<or> b1 \<or> b2) \<and> \<not> (b0 \<and> b1 \<and> b2)"
  "(65 \<le> ord (Char b0 b1 b2 b3 b4 b5 b6 b7) \<and> ord (Char b0 b1 b2 b3 b4 b5 b6 b7) \<le> 70) \<longleftrightarrow>
     \<not> b7 \<and> b6 \<and> \<not> b5 \<and> \<not> b4 \<and> \<not> b3 \<and> (b0 \<or> b1 \<or> b2) \<and> \<not> (b0 \<and> b1 \<and> b2)"
  by (cases b0; cases b1; cases b2; cases b3; cases b4; cases b5; cases b6; cases b7; simp)+

lemma is_hex_char_bits [code]:
  "is_hex_char (Char b0 b1 b2 b3 b4 b5 b6 b7) \<longleftrightarrow>
     is_digit_char (Char b0 b1 b2 b3 b4 b5 b6 b7) \<or>
     \<not> b7 \<and> b6 \<and> \<not> b4 \<and> \<not> b3 \<and> (b0 \<or> b1 \<or> b2) \<and> \<not> (b0 \<and> b1 \<and> b2)"
  unfolding is_hex_char_def is_hex_letter_bits by blast

lemma is_lower_hex_char_bits [code]:
  "is_lower_hex_char (Char b0 b1 b2 b3 b4 b5 b6 b7) \<longleftrightarrow>
     is_digit_char (Char b0 b1 b2 b3 b4 b5 b6 b7) \<or>
     \<not> b7 \<and> b6 \<and> b5 \<and> \<not> b4 \<and> \<not> b3 \<and> (b0 \<or> b1 \<or> b2) \<and> \<not> (b0 \<and> b1 \<and> b2)"
  unfolding is_lower_hex_char_def is_hex_letter_bits by blast

lemma is_control_char_bits [code]:
  "is_control_char (Char b0 b1 b2 b3 b4 b5 b6 b7) \<longleftrightarrow>
     \<not> b7 \<and> (\<not> b6 \<and> \<not> b5 \<or> b0 \<and> b1 \<and> b2 \<and> b3 \<and> b4 \<and> b5 \<and> b6)"
  unfolding is_control_char_def by (cases b0; cases b1; cases b2; cases b3; cases b4; cases b5; cases b6; cases b7) simp_all

lemma lower_char_bits [code]:
  "lower_char (Char b0 b1 b2 b3 b4 b5 b6 b7) =
     Char b0 b1 b2 b3 b4 (b5 \<or> is_upper_char (Char b0 b1 b2 b3 b4 b5 b6 b7)) b6 b7"
  unfolding lower_char_def is_upper_char_def by (cases b0; cases b1; cases b2; cases b3; cases b4; cases b5; cases b6; cases b7) (simp_all add: char_of_def bit_Suc_0_iff)
section \<open>Tables: lemmas\<close>

lemma update_rows_Nil [simp, row_simps]: "update_rows p f [] = []"
  by (simp add: update_rows_def)

lemma update_rows_Cons [simp, row_simps]:
  "update_rows p f (r # t) = (if p r then f r else r) # update_rows p f t"
  by (simp add: update_rows_def)

lemma length_update_rows [simp, row_simps]: "length (update_rows p f t) = length t"
  by (simp add: update_rows_def)

lemma set_update_rows [row_simps]:
  "set (update_rows p f t) = f ` {r \<in> set t. p r} \<union> {r \<in> set t. \<not> p r}"
  by (auto simp: update_rows_def image_iff)

lemma in_update_rowsE:
  assumes "r \<in> set (update_rows p f t)"
  obtains (kept) "r \<in> set t" "\<not> p r" | (changed) r' where "r' \<in> set t" "p r'" "r = f r'"
  using assms by (auto simp: set_update_rows)

lemma map_update_rows [row_simps]:
  "(\<And>r. g (f r) = g r) \<Longrightarrow> map g (update_rows p f t) = map g t"
  by (simp add: update_rows_def)

lemma update_rows_id: "(\<And>r. r \<in> set t \<Longrightarrow> p r \<Longrightarrow> f r = r) \<Longrightarrow> update_rows p f t = t"
  by (auto simp: update_rows_def intro: map_idI)

lemma find_SomeD: "find p t = Some r \<Longrightarrow> r \<in> set t \<and> p r"
  by (auto simp: find_Some_iff)

lemma find_NoneD: "find p t = None \<Longrightarrow> r \<in> set t \<Longrightarrow> \<not> p r"
  by (auto simp: find_None_iff)

lemma sel_by_in: "sel_by key k t = Some r \<Longrightarrow> r \<in> set t \<and> key r = k"
  by (auto simp: sel_by_def dest: find_SomeD)

lemma sel_by_None: "sel_by key k t = None \<longleftrightarrow> k \<notin> key ` set t"
  by (auto simp: sel_by_def find_None_iff)

lemma sel_by_eq: "distinct (map key t) \<Longrightarrow> r \<in> set t \<Longrightarrow> sel_by key (key r) t = Some r"
  by (induction t) (auto simp: sel_by_def)

lemma sel_by_Some_iff:
  "distinct (map key t) \<Longrightarrow> sel_by key k t = Some r \<longleftrightarrow> r \<in> set t \<and> key r = k"
  using sel_by_eq sel_by_in by metis

lemma key_unique:
  "distinct (map key t) \<Longrightarrow> r \<in> set t \<Longrightarrow> s \<in> set t \<Longrightarrow> key r = key s \<Longrightarrow> r = s"
  by (metis option.inject sel_by_eq)

lemma map_key_upd_by: "(\<And>r. key (f r) = key r) \<Longrightarrow> map key (upd_by key k f t) = map key t"
  by (simp add: upd_by_def map_update_rows)

lemma sel_by_upd_same:
  "(\<And>r. key (f r) = key r) \<Longrightarrow> sel_by key k (upd_by key k f t) = map_option f (sel_by key k t)"
  by (induction t) (auto simp: sel_by_def upd_by_def)

lemma sel_by_upd_other:
  "(\<And>r. key (f r) = key r) \<Longrightarrow> k' \<noteq> k \<Longrightarrow> sel_by key k' (upd_by key k f t) = sel_by key k' t"
  by (induction t) (auto simp: sel_by_def upd_by_def)

lemma in_upd_by:
  assumes "distinct (map key t)" "sel_by key k t = Some r"
  shows "x \<in> set (upd_by key k f t) \<longleftrightarrow> x = f r \<or> x \<in> set t \<and> key x \<noteq> k"
  using assms sel_by_in [OF assms(2)] key_unique [OF assms(1)]
  by (auto simp: upd_by_def set_update_rows)

lemma sel_by_append_new:
  "k \<notin> key ` set t \<Longrightarrow> key r = k \<Longrightarrow> sel_by key k (t @ [r]) = Some r"
  by (induction t) (auto simp: sel_by_def)

lemma find_eq_sel_by: "find (\<lambda>r. key r = k) t = sel_by key k t"
  by (simp add: sel_by_def)

lemma map_upd_by: "(\<And>r. g (f r) = g r) \<Longrightarrow> map g (upd_by key k f t) = map g t"
  by (simp add: upd_by_def map_update_rows)

text \<open>
  Sums and counts over the rows a condition selects: the contribution of the row with one
  key is split off, before and after that row is assigned to.
\<close>

lemma sum_rows_split:
  fixes h :: "'r \<Rightarrow> int"
  assumes "distinct (map key t)" "sel_by key k t = Some r"
  shows "sum_list (map h (filter p t)) =
    sum_list (map h (filter (\<lambda>x. p x \<and> key x \<noteq> k) t)) + (if p r then h r else 0)"
  using assms
proof (induction t)
  case (Cons x t)
  show ?case
  proof (cases "key x = k")
    case True
    with Cons.prems have "x = r" and "k \<notin> key ` set t"
      by (auto simp: sel_by_def)
    then have "filter (\<lambda>x. p x \<and> key x \<noteq> k) t = filter p t"
      by (auto intro!: filter_cong)
    with True \<open>x = r\<close> show ?thesis by simp
  next
    case False
    with Cons.prems have "sel_by key k t = Some r" by (simp add: sel_by_def)
    with Cons False show ?thesis by simp
  qed
qed (simp add: sel_by_def)

lemma sum_rows_upd:
  fixes h :: "'r \<Rightarrow> int"
  assumes "distinct (map key t)" "sel_by key k t = Some r" "\<And>x. key (f x) = key x"
  shows "sum_list (map h (filter p (upd_by key k f t))) =
    sum_list (map h (filter (\<lambda>x. p x \<and> key x \<noteq> k) t)) + (if p (f r) then h (f r) else 0)"
  using assms(1,2)
proof (induction t)
  case (Cons x t)
  show ?case
  proof (cases "key x = k")
    case True
    with Cons.prems have "x = r" and k: "k \<notin> key ` set t"
      by (auto simp: sel_by_def)
    from k have "upd_by key k f t = t"
      by (auto simp: upd_by_def intro!: update_rows_id)
    moreover from k have "filter (\<lambda>x. p x \<and> key x \<noteq> k) t = filter p t"
      by (auto intro!: filter_cong)
    ultimately show ?thesis using True \<open>x = r\<close> by (simp add: upd_by_def)
  next
    case False
    with Cons.prems have "sel_by key k t = Some r" by (simp add: sel_by_def)
    with Cons False show ?thesis by (simp add: upd_by_def)
  qed
qed (simp add: sel_by_def)

lemma count_as_sum: "int (length (filter p t)) = sum_list (map (\<lambda>_. 1) (filter p t))"
  by (induction t) auto

section \<open>Invariants of transition systems\<close>

text \<open>
  A component whose operations are the steps of a relation promises an invariant: it holds
  at the start and every step keeps it. A client then has it in every reachable state.
\<close>

locale invariant_system =
  fixes init :: "'s \<Rightarrow> bool"
    and step :: "'s \<Rightarrow> 's \<Rightarrow> bool"
    and inv :: "'s \<Rightarrow> bool"
  assumes inv_init: "init s \<Longrightarrow> inv s"
    and inv_step: "inv s \<Longrightarrow> step s t \<Longrightarrow> inv t"
begin

lemma inv_steps: "step\<^sup>*\<^sup>* s t \<Longrightarrow> inv s \<Longrightarrow> inv t"
  by (induction rule: rtranclp_induct) (auto intro: inv_step)

lemma inv_reachable: "init s \<Longrightarrow> step\<^sup>*\<^sup>* s t \<Longrightarrow> inv t"
  by (blast intro: inv_steps inv_init)

text \<open>A relation between states that every step from an invariant state respects.\<close>

lemma related_steps:
  assumes "step\<^sup>*\<^sup>* s t" "inv s"
    and "\<And>x. R x x" "\<And>x y z. R x y \<Longrightarrow> R y z \<Longrightarrow> R x z"
    and "\<And>x y. inv x \<Longrightarrow> step x y \<Longrightarrow> R x y"
  shows "R s t"
  using assms(1)
proof (induction rule: rtranclp_induct)
  case (step y z)
  then show ?case using inv_steps assms by blast
qed (rule assms(3))

end

end
