(* ===== verification/Py_Values.thy ===== *)
theory Py_Values
  imports Clink_Prelude
begin

text \<open>
  The Python values that JSON columns and request payloads hold, Python's \<open>==\<close> on them
  (a boolean equals the integer 0 or 1, dictionaries compare without regard to order), and
  dictionaries as association lists in insertion order. Floats are not modelled: the program
  keeps amounts as decimal strings and rejects floating-point values at its boundaries.
\<close>

section \<open>Values and dictionaries\<close>

datatype pyval =
    PNone
  | PBool bool
  | PInt int
  | PStr string
  | PList "pyval list"
  | PDict "(string \<times> pyval) list"

type_synonym pydict = "(string \<times> pyval) list"

text \<open>\<open>d.get(k)\<close>, \<open>d.get(k, v)\<close>, \<open>{**d, k: v}\<close> and \<open>d.pop(k, None)\<close>.\<close>

definition dget :: "pydict \<Rightarrow> string \<Rightarrow> pyval" where
  "dget d k = (case map_of d k of None \<Rightarrow> PNone | Some v \<Rightarrow> v)"

definition dget_or :: "pydict \<Rightarrow> string \<Rightarrow> pyval \<Rightarrow> pyval" where
  "dget_or d k v = (case map_of d k of None \<Rightarrow> v | Some w \<Rightarrow> w)"

definition dset :: "string \<Rightarrow> pyval \<Rightarrow> pydict \<Rightarrow> pydict" where
  "dset k v d = AList.update k v d"

definition dpop :: "string \<Rightarrow> pydict \<Rightarrow> pydict" where
  "dpop k d = AList.delete k d"

fun py_eq :: "pyval \<Rightarrow> pyval \<Rightarrow> bool"
  and py_eq_list :: "pyval list \<Rightarrow> pyval list \<Rightarrow> bool"
  and py_eq_dict :: "pydict \<Rightarrow> pydict \<Rightarrow> bool" where
  "py_eq PNone v = (v = PNone)"
| "py_eq (PBool b) v =
     (case v of PBool c \<Rightarrow> b = c | PInt i \<Rightarrow> i = (if b then 1 else 0) | _ \<Rightarrow> False)"
| "py_eq (PInt i) v =
     (case v of PInt j \<Rightarrow> i = j | PBool c \<Rightarrow> i = (if c then 1 else 0) | _ \<Rightarrow> False)"
| "py_eq (PStr s) v = (v = PStr s)"
| "py_eq (PList xs) v = (case v of PList ys \<Rightarrow> py_eq_list xs ys | _ \<Rightarrow> False)"
| "py_eq (PDict d) v =
     (case v of PDict e \<Rightarrow> length d = length e \<and> py_eq_dict d e | _ \<Rightarrow> False)"
| "py_eq_list [] ys = (ys = [])"
| "py_eq_list (x # xs) ys =
     (case ys of [] \<Rightarrow> False | y # zs \<Rightarrow> py_eq x y \<and> py_eq_list xs zs)"
| "py_eq_dict [] e = True"
| "py_eq_dict ((k, x) # d) e =
     ((case map_of e k of None \<Rightarrow> False | Some y \<Rightarrow> py_eq x y) \<and> py_eq_dict d e)"

text \<open>Values that a set may hold: testing \<open>x in {...}\<close> raises on a list or a dictionary.\<close>

fun hashable :: "pyval \<Rightarrow> bool" where
  "hashable (PList _) = False"
| "hashable (PDict _) = False"
| "hashable _ = True"

text \<open>
  Python's \<open>str\<close> on the values the code passes to it. A container prints with a leading
  bracket; the code compares these strings only with addresses, which never start so.
\<close>

fun py_str :: "pyval \<Rightarrow> string" where
  "py_str PNone = ''None''"
| "py_str (PBool b) = (if b then ''True'' else ''False'')"
| "py_str (PInt i) = show_int i"
| "py_str (PStr s) = s"
| "py_str (PList _) = ''[''"
| "py_str (PDict _) = ''{''"

fun is_py_int :: "pyval \<Rightarrow> bool" where
  "is_py_int (PInt _) = True"
| "is_py_int _ = False"

text \<open>Dictionaries with one entry per key, at every level: what JSON decoding yields.\<close>

fun wf_py :: "pyval \<Rightarrow> bool"
  and wf_py_list :: "pyval list \<Rightarrow> bool"
  and wf_py_dict :: "pydict \<Rightarrow> bool" where
  "wf_py (PList xs) = wf_py_list xs"
| "wf_py (PDict d) = (distinct (map fst d) \<and> wf_py_dict d)"
| "wf_py _ = True"
| "wf_py_list [] = True"
| "wf_py_list (x # xs) = (wf_py x \<and> wf_py_list xs)"
| "wf_py_dict [] = True"
| "wf_py_dict ((k, x) # d) = (wf_py x \<and> wf_py_dict d)"

section \<open>Errors\<close>

text \<open>The exceptions the services raise, each with the text a caller may see.\<close>

datatype py_error =
    ValueErr string
  | TypeErr
  | KeyErr string
  | AttributeErr
  | DecimalErr
  | CapabilityConflict string
  | DbIntegrityErr

section \<open>Lemmas\<close>

lemma dget_dset [simp]: "dget (dset k v d) k' = (if k' = k then v else dget d k')"
  by (simp add: dget_def dset_def update_conv')

lemma dget_or_dset [simp]: "dget_or (dset k v d) k' w = (if k' = k then v else dget_or d k' w)"
  by (simp add: dget_or_def dset_def update_conv')

lemma dget_dpop [simp]: "dget (dpop k d) k' = (if k' = k then PNone else dget d k')"
  by (simp add: dget_def dpop_def delete_conv')

lemma dget_or_dpop [simp]: "dget_or (dpop k d) k' w = (if k' = k then w else dget_or d k' w)"
  by (simp add: dget_or_def dpop_def delete_conv')

lemma dget_as_or: "dget d k = dget_or d k PNone"
  by (simp add: dget_def dget_or_def)

lemma dpop_dpop: "dpop k (dpop k d) = dpop k d"
  by (simp add: dpop_def delete_idem)

lemma py_eq_dict_iff:
  "py_eq_dict d e \<longleftrightarrow> (\<forall>(k, x) \<in> set d. case map_of e k of None \<Rightarrow> False | Some y \<Rightarrow> py_eq x y)"
  by (induction d) auto

lemma wf_py_dict_iff: "wf_py_dict d \<longleftrightarrow> (\<forall>(k, x) \<in> set d. wf_py x)"
  by (induction d) auto

lemma py_eq_refl_all:
  "wf_py v \<Longrightarrow> py_eq v v"
  "wf_py_list xs \<Longrightarrow> py_eq_list xs xs"
  "wf_py_dict d \<Longrightarrow> \<forall>(k, x) \<in> set d. py_eq x x"
  by (induction v and xs and d rule: wf_py_wf_py_list_wf_py_dict.induct)
    (auto simp: py_eq_dict_iff)

lemmas py_eq_refl = py_eq_refl_all(1)

lemma py_eq_None [simp]: "py_eq v PNone \<longleftrightarrow> v = PNone"
  by (cases v) auto

lemma py_eq_PStr [simp]: "py_eq v (PStr s) \<longleftrightarrow> v = PStr s"
  by (cases v) auto

end
