(* ===== verification/Json_Text.thy ===== *)
theory Json_Text
  imports Py_Values "HOL-Library.Char_ord" "HOL-Library.List_Lexorder"
begin

text \<open>
  Python's \<open>json.dumps\<close> as the code calls it for hashing: sorted keys, no spaces, ASCII
  escapes. Every string that is hashed is ASCII, where \<open>ensure_ascii\<close> makes no difference.
\<close>

definition hex_digit :: "nat \<Rightarrow> char" where
  "hex_digit n = char_of (if n < 10 then 48 + n else 87 + n)"

definition json_char :: "char \<Rightarrow> string" where
  "json_char c =
     (if ord c = 34 then [char_of (92::nat), c]
      else if ord c = 92 then [c, c]
      else if ord c = 10 then [char_of (92::nat), CHR ''n'']
      else if ord c = 13 then [char_of (92::nat), CHR ''r'']
      else if ord c = 9 then [char_of (92::nat), CHR ''t'']
      else if ord c = 8 then [char_of (92::nat), CHR ''b'']
      else if ord c = 12 then [char_of (92::nat), CHR ''f'']
      else if ord c < 32 \<or> 126 < ord c
        then [char_of (92::nat)] @ ''u00'' @ [hex_digit (ord c div 16), hex_digit (ord c mod 16)]
      else [c])"

definition json_string :: "string \<Rightarrow> string" where
  "json_string s = [char_of (34::nat)] @ concat (map json_char s) @ [char_of (34::nat)]"

fun json_members :: "(string \<times> string) list \<Rightarrow> string" where
  "json_members [] = []"
| "json_members [(k, v)] = json_string k @ '':'' @ v"
| "json_members ((k, v) # m # ms) = json_string k @ '':'' @ v @ '','' @ json_members (m # ms)"

definition json_object :: "(string \<times> string) list \<Rightarrow> string" where
  "json_object ms = ''{'' @ json_members ms @ ''}''"

fun json_commas :: "string list \<Rightarrow> string list" where
  "json_commas [] = []"
| "json_commas [x] = [x]"
| "json_commas (x # y # ys) = x # '','' # json_commas (y # ys)"

text \<open>A value of the JSON model; dictionary keys are strings and come out sorted.\<close>

fun json_of :: "pyval \<Rightarrow> string"
  and json_items :: "pyval list \<Rightarrow> string list"
  and json_pairs :: "pydict \<Rightarrow> (string \<times> string) list" where
  "json_of PNone = ''null''"
| "json_of (PBool b) = (if b then ''true'' else ''false'')"
| "json_of (PInt i) = show_int i"
| "json_of (PStr s) = json_string s"
| "json_of (PList xs) = ''['' @ concat (json_commas (json_items xs)) @ '']''"
| "json_of (PDict d) = json_object (sort_key fst (json_pairs d))"
| "json_items [] = []"
| "json_items (x # xs) = json_of x # json_items xs"
| "json_pairs [] = []"
| "json_pairs ((k, v) # d) = (k, json_of v) # json_pairs d"

end
