(* ===== verification/Hosted_Models.thy ===== *)
theory Hosted_Models
  imports Json_Text
begin

text \<open>
  The values of the Hosted facilitator: the chain profiles it may execute on
  (\<open>apps/core/shared/hosted_facilitator_protocol.py\<close>), the pilot-gate policy helpers
  (\<open>apps/facilitator/pilot_gate.py\<close>) and the immutable execution intent with its state
  machine and validators (\<open>apps/facilitator/execution_models.py\<close>). Pydantic raises one
  \<open>ValidationError\<close> whichever validator fails, so a model validator is one boolean test.
\<close>

section \<open>Chain profiles\<close>

record chain_profile =
  profile_chain :: string
  profile_chain_id :: int
  profile_token :: string
  finality_boundary_of :: string
  min_confirmation_depth :: int

definition HOSTED_BASE_USDC :: string where
  "HOSTED_BASE_USDC = ''0x833589fcd6edb6e08f4c7c32d4f71b54bda02913''"

definition HOSTED_POLYGON_USDC :: string where
  "HOSTED_POLYGON_USDC = ''0x3c499c542cef5e3811e1192ce70d8cc03d5c3359''"

definition HOSTED_BASE_SEPOLIA_USDC :: string where
  "HOSTED_BASE_SEPOLIA_USDC = ''0x036cbd53842c5426634e7929541ec2318f3dcf7e''"

definition HOSTED_POLYGON_AMOY_USDC :: string where
  "HOSTED_POLYGON_AMOY_USDC = ''0x41e94eb019c0762f9bfcf9fb1e58725bfb0e7582''"

definition mk_profile :: "string \<Rightarrow> int \<Rightarrow> string \<Rightarrow> string \<Rightarrow> int \<Rightarrow> chain_profile" where
  "mk_profile c i t b d =
     \<lparr>profile_chain = c, profile_chain_id = i, profile_token = t,
      finality_boundary_of = b, min_confirmation_depth = d\<rparr>"

definition HOSTED_CHAIN_PROFILES :: "(string \<times> chain_profile) list" where
  "HOSTED_CHAIN_PROFILES =
    [(''eip155:8453'', mk_profile ''eip155:8453'' 8453 HOSTED_BASE_USDC ''safe'' 2),
     (''eip155:137'', mk_profile ''eip155:137'' 137 HOSTED_POLYGON_USDC ''finalized'' 3),
     (''eip155:84532'', mk_profile ''eip155:84532'' 84532 HOSTED_BASE_SEPOLIA_USDC ''safe'' 2),
     (''eip155:80002'', mk_profile ''eip155:80002'' 80002 HOSTED_POLYGON_AMOY_USDC ''finalized'' 3)]"

text \<open>\<open>HOSTED_CHAIN_PROFILES.get(chain)\<close>, which \<open>hosted_chain_profile\<close> turns into an error.\<close>

definition hosted_chain_profile :: "string \<Rightarrow> chain_profile option" where
  "hosted_chain_profile c = map_of HOSTED_CHAIN_PROFILES c"

definition validate_hosted_chain_token :: "string \<Rightarrow> string \<Rightarrow> string option" where
  "validate_hosted_chain_token chain token =
     (case hosted_chain_profile chain of
        None \<Rightarrow> None
      | Some p \<Rightarrow> if lower token \<noteq> profile_token p then None else Some (lower token))"

section \<open>Pilot gate policy\<close>

record pilot_gate_policy =
  native_asset_usd_price_ceiling_micros :: int
  max_in_flight_per_node :: int
  max_accepted_per_node_utc_day :: int
  max_accepted_per_node_lifetime :: int
  max_gas_usd_micros_per_node_utc_day :: int
  max_gas_usd_micros_platform_utc_day :: int

text \<open>\<open>PilotGatePolicy.__post_init__\<close>: every ceiling is a positive integer.\<close>

definition valid_policy :: "pilot_gate_policy \<Rightarrow> bool" where
  "valid_policy p \<longleftrightarrow>
     0 < max_in_flight_per_node p \<and> 0 < max_accepted_per_node_utc_day p \<and>
     0 < max_accepted_per_node_lifetime p \<and> 0 < max_gas_usd_micros_per_node_utc_day p \<and>
     0 < max_gas_usd_micros_platform_utc_day p \<and> 0 < native_asset_usd_price_ceiling_micros p"

definition SECONDS_PER_UTC_DAY :: int where
  "SECONDS_PER_UTC_DAY = 86400"

definition WEI_PER_NATIVE_UNIT :: int where
  "WEI_PER_NATIVE_UNIT = 10 ^ 18"

text \<open>
  \<open>utc_day\<close> raises on a timestamp that is not positive; the repository only passes
  timestamps its \<open>_now\<close> has checked.
\<close>

definition utc_day_checked :: "int \<Rightarrow> int option" where
  "utc_day_checked t = (if t \<le> 0 then None else Some (t div SECONDS_PER_UTC_DAY))"

definition utc_day :: "int \<Rightarrow> int" where
  "utc_day t = t div SECONDS_PER_UTC_DAY"

definition worst_case_gas_usd_micros :: "int \<Rightarrow> int \<Rightarrow> int \<Rightarrow> int option" where
  "worst_case_gas_usd_micros gas_limit max_fee price_ceiling =
     (if gas_limit \<le> 0 \<or> max_fee \<le> 0 \<or> price_ceiling \<le> 0 then None
      else let numerator = gas_limit * max_fee * price_ceiling
           in Some ((numerator + WEI_PER_NATIVE_UNIT - 1) div WEI_PER_NATIVE_UNIT))"

section \<open>Execution states\<close>

datatype execution_state =
    REQUESTED
  | PREFLIGHT_APPROVED
  | SIGNING
  | SIGNED
  | SUBMITTED
  | SUBMISSION_UNKNOWN
  | SUBMISSION_REJECTED
  | CONFIRMED
  | FINALIZED
  | REVERTED
  | EXPIRED
  | RELEASED
  | REORG_REVIEW

fun state_value :: "execution_state \<Rightarrow> string" where
  "state_value REQUESTED = ''requested''"
| "state_value PREFLIGHT_APPROVED = ''preflight_approved''"
| "state_value SIGNING = ''signing''"
| "state_value SIGNED = ''signed''"
| "state_value SUBMITTED = ''submitted''"
| "state_value SUBMISSION_UNKNOWN = ''submission_unknown''"
| "state_value SUBMISSION_REJECTED = ''submission_rejected''"
| "state_value CONFIRMED = ''confirmed''"
| "state_value FINALIZED = ''finalized''"
| "state_value REVERTED = ''reverted''"
| "state_value EXPIRED = ''expired''"
| "state_value RELEASED = ''released''"
| "state_value REORG_REVIEW = ''reorg_review''"

definition all_states :: "execution_state list" where
  "all_states =
     [REQUESTED, PREFLIGHT_APPROVED, SIGNING, SIGNED, SUBMITTED, SUBMISSION_UNKNOWN,
      SUBMISSION_REJECTED, CONFIRMED, FINALIZED, REVERTED, EXPIRED, RELEASED, REORG_REVIEW]"

text \<open>\<open>ExecutionState(value)\<close>: the member with that value, or an error.\<close>

definition execution_state_of :: "string \<Rightarrow> execution_state option" where
  "execution_state_of s = find (\<lambda>x. state_value x = s) all_states"

fun allowed_transitions :: "execution_state \<Rightarrow> execution_state set" where
  "allowed_transitions REQUESTED = {PREFLIGHT_APPROVED, EXPIRED, RELEASED}"
| "allowed_transitions PREFLIGHT_APPROVED = {SIGNING, EXPIRED, RELEASED}"
| "allowed_transitions SIGNING = {SIGNED, EXPIRED, RELEASED}"
| "allowed_transitions SIGNED = {SUBMITTED, SUBMISSION_UNKNOWN, SUBMISSION_REJECTED}"
| "allowed_transitions SUBMISSION_REJECTED = {SUBMITTED, SUBMISSION_UNKNOWN}"
| "allowed_transitions SUBMITTED = {SUBMISSION_UNKNOWN, CONFIRMED, REVERTED}"
| "allowed_transitions SUBMISSION_UNKNOWN = {CONFIRMED, REVERTED}"
| "allowed_transitions CONFIRMED = {FINALIZED}"
| "allowed_transitions FINALIZED = {REORG_REVIEW}"
| "allowed_transitions REVERTED = {}"
| "allowed_transitions EXPIRED = {}"
| "allowed_transitions RELEASED = {}"
| "allowed_transitions REORG_REVIEW = {}"

section \<open>Execution intents\<close>

type_synonym bytes = "8 word list"

definition MAX_UINT256 :: int where
  "MAX_UINT256 = 2 ^ 256 - 1"

text \<open>
  The columns an execution shares with its intent. The request identity belongs to the
  intent only: \<open>_intent_columns\<close> drops it from the row, where it stays in the canonical
  payload.
\<close>

record intent_columns =
  tenant_id :: string
  node_id :: string
  wallet_binding_id :: string
  capability_id :: string
  reservation_id :: string
  purchase_id :: string
  idempotency_key :: string
  chain :: string
  owner :: string
  payee :: string
  token :: string
  amount_atomic :: string
  executor :: string
  signer_epoch :: int
  owner_nonce :: int
  deadline :: int
  capability_hash :: string
  reservation_hash :: string
  execution_scope_hash :: string
  execution_digest :: string
  relayer_address :: string

record execution_intent = intent_columns +
  request_id :: string
  request_hash :: string

text \<open>\<open>_identifier\<close>: the pattern already excludes control characters, which the code tests again.\<close>

definition identifier_ok :: "string \<Rightarrow> bool" where
  "identifier_ok s \<longleftrightarrow> is_identifier s \<and> \<not> list_ex is_control_char s"

text \<open>The field validators that test, and those that canonicalise to lower case.\<close>

definition intent_fields_ok :: "execution_intent \<Rightarrow> bool" where
  "intent_fields_ok i \<longleftrightarrow>
     list_all identifier_ok
       [tenant_id i, node_id i, wallet_binding_id i, capability_id i, reservation_id i,
        purchase_id i, request_id i, idempotency_key i] \<and>
     list_all (is_hex_string 40) [owner i, payee i, token i, executor i, relayer_address i] \<and>
     list_all (is_hex_string 64)
       [capability_hash i, reservation_hash i, execution_scope_hash i, execution_digest i,
        request_hash i] \<and>
     is_positive_decimal (amount_atomic i) \<and> int (read_nat (amount_atomic i)) \<le> MAX_UINT256 \<and>
     0 < signer_epoch i \<and> 0 < deadline i \<and>
     0 \<le> owner_nonce i \<and> owner_nonce i \<le> MAX_UINT256"

definition lower_intent :: "execution_intent \<Rightarrow> execution_intent" where
  "lower_intent i =
     i\<lparr>owner := lower (owner i), payee := lower (payee i), token := lower (token i),
       executor := lower (executor i), relayer_address := lower (relayer_address i),
       capability_hash := lower (capability_hash i),
       reservation_hash := lower (reservation_hash i),
       execution_scope_hash := lower (execution_scope_hash i),
       execution_digest := lower (execution_digest i),
       request_hash := lower (request_hash i)\<rparr>"

text \<open>\<open>validate_fixed_chain_scope\<close>: an approved chain and its canonical USDC.\<close>

definition chain_scope_ok :: "execution_intent \<Rightarrow> bool" where
  "chain_scope_ok i \<longleftrightarrow>
     (case hosted_chain_profile (chain i) of
        None \<Rightarrow> False
      | Some p \<Rightarrow> token i = profile_token p)"

text \<open>\<open>ExecutionIntent.model_validate\<close>: the canonical intent, or a validation error.\<close>

definition validate_intent :: "execution_intent \<Rightarrow> execution_intent option" where
  "validate_intent i =
     (if intent_fields_ok i then
        let c = lower_intent i in if chain_scope_ok c then Some c else None
      else None)"

text \<open>\<open>canonical_bytes\<close>: the intent as JSON with sorted keys, no spaces and ASCII escapes.\<close>

definition canonical_bytes :: "execution_intent \<Rightarrow> string" where
  "canonical_bytes i =
     json_object
       [(''amount_atomic'', json_string (amount_atomic i)),
        (''capability_hash'', json_string (capability_hash i)),
        (''capability_id'', json_string (capability_id i)),
        (''chain'', json_string (chain i)),
        (''deadline'', show_int (deadline i)),
        (''execution_digest'', json_string (execution_digest i)),
        (''execution_scope_hash'', json_string (execution_scope_hash i)),
        (''executor'', json_string (executor i)),
        (''idempotency_key'', json_string (idempotency_key i)),
        (''node_id'', json_string (node_id i)),
        (''owner'', json_string (owner i)),
        (''owner_nonce'', show_int (owner_nonce i)),
        (''payee'', json_string (payee i)),
        (''purchase_id'', json_string (purchase_id i)),
        (''relayer_address'', json_string (relayer_address i)),
        (''request_hash'', json_string (request_hash i)),
        (''request_id'', json_string (request_id i)),
        (''reservation_hash'', json_string (reservation_hash i)),
        (''reservation_id'', json_string (reservation_id i)),
        (''signer_epoch'', show_int (signer_epoch i)),
        (''tenant_id'', json_string (tenant_id i)),
        (''token'', json_string (token i)),
        (''wallet_binding_id'', json_string (wallet_binding_id i))]"

text \<open>\<open>canonical_hash\<close>; SHA-256 (as 64 lower-case hexadecimal digits) is a parameter.\<close>

definition canonical_hash_of :: "(string \<Rightarrow> string) \<Rightarrow> execution_intent \<Rightarrow> string" where
  "canonical_hash_of sha256 i = ''0x'' @ sha256 (canonical_bytes i)"

section \<open>Lemmas\<close>

lemma profile_cases:
  assumes "hosted_chain_profile c = Some p"
  obtains "finality_boundary_of p = ''safe''" "min_confirmation_depth p = 2"
  | "finality_boundary_of p = ''finalized''" "min_confirmation_depth p = 3"
  using assms
  by (auto simp: hosted_chain_profile_def HOSTED_CHAIN_PROFILES_def mk_profile_def split: if_splits)

lemma profile_depth: "hosted_chain_profile c = Some p \<Longrightarrow> 2 \<le> min_confirmation_depth p"
  by (erule profile_cases) auto

lemma profile_boundary:
  "hosted_chain_profile c = Some p \<Longrightarrow> finality_boundary_of p \<in> {''safe'', ''finalized''}"
  by (erule profile_cases) auto

lemma state_value_inject [simp]: "state_value x = state_value y \<longleftrightarrow> x = y"
  by (cases x; cases y) simp_all

lemma execution_state_of_value [simp]: "execution_state_of (state_value x) = Some x"
  by (cases x) (simp_all add: execution_state_of_def all_states_def)

lemma execution_state_of_Some: "execution_state_of s = Some x \<longleftrightarrow> s = state_value x"
  by (auto simp: execution_state_of_def dest: find_SomeD) (use execution_state_of_value in
    \<open>simp add: execution_state_of_def\<close>)

lemma utc_day_mono: "s \<le> t \<Longrightarrow> utc_day s \<le> utc_day t"
  by (simp add: utc_day_def SECONDS_PER_UTC_DAY_def zdiv_mono1)

lemma lower_intent_idem: "lower_intent (lower_intent i) = lower_intent i"
  by (simp add: lower_intent_def)

lemma is_hex_string_lower: "is_hex_string n s \<Longrightarrow> is_hex_string n (lower s)"
  by (simp add: lower_hex_string is_lower_hex_string_hex)

lemma intent_fields_ok_lower: "intent_fields_ok i \<Longrightarrow> intent_fields_ok (lower_intent i)"
  by (simp add: intent_fields_ok_def lower_intent_def is_hex_string_lower)

end
