(* ===== verification/Execution_Rows.thy ===== *)
theory Execution_Rows
  imports Hosted_Models
begin

text \<open>
  The tables of the Hosted execution repository (\<open>apps/facilitator/execution_repository.py\<close>):
  one record per row class with the column names of the source (prefixed where two classes
  share a name), the repository state, and the helpers every operation uses: reading and
  validating a row, appending attempts and gate events, and the write session with its
  rollback. A status or gate state column is an enumeration because its CHECK constraint
  admits no other value.
\<close>

section \<open>Errors and rows\<close>

datatype exec_error =
    ExecutionConflict string
  | ExecutionNotFound
  | PilotGateDenied string
  | RepoValueError string
  | ValidationError
  | IntegrityError

record hosted_execution_row = intent_columns +
  execution_id :: string
  canonical_payload :: execution_intent
  canonical_hash :: string
  signature :: "bytes option"
  relayer_nonce :: int
  signing_claim_generation :: int
  signing_claim_expires_at :: "int option"
  unsigned_transaction_hash :: "string option"
  raw_transaction :: "bytes option"
  raw_transaction_hash :: "string option"
  status :: execution_state
  broadcast_attempts :: int
  broadcasted_at :: "int option"
  receipt_status :: "int option"
  receipt_block_number :: "int option"
  receipt_block_hash :: "string option"
  confirmations :: int
  safe_block_number :: "int option"
  safe_block_hash :: "string option"
  watcher_version :: "string option"
  watcher_attempted_at :: "int option"
  finality_boundary :: "string option"
  reorg_state :: string
  reorg_evidence :: "pydict option"
  submission_failure_code :: "string option"
  release_evidence :: "pydict option"
  confirmed_at :: "int option"
  finalized_at :: "int option"
  reverted_at :: "int option"
  released_at :: "int option"
  expired_at :: "int option"
  reorg_reviewed_at :: "int option"
  created_at :: int
  updated_at :: int

record relayer_nonce_row =
  nonce_chain :: string
  nonce_relayer_address :: string
  next_nonce :: int
  nonce_updated_at :: int

record hosted_execution_attempt_row =
  attempt_execution_id :: string
  attempt_number :: int
  attempt_kind :: string
  attempt_raw_transaction_hash :: string
  attempt_created_at :: int

record hosted_execution_observation_row =
  observation_execution_id :: string
  observation_tx_hash :: string
  observation_block_number :: int
  observation_block_hash :: string
  observation_receipt_status :: int
  observation_confirmations :: int
  observation_safe_block_number :: "int option"
  observation_safe_block_hash :: "string option"
  observation_watcher_version :: string
  observation_canonical :: bool
  observation_evidence :: pydict
  observed_at :: int

text \<open>The primary key is (scope type, tenant, node).\<close>

record hosted_gate_control_row =
  control_key :: "string \<times> string \<times> string"
  paused :: bool
  control_reason_code :: string
  control_updated_at :: int

datatype gate_state = GateReserved | GateSettled | GateReleased

record hosted_gate_reservation_row =
  gate_execution_id :: string
  gate_tenant_id :: string
  gate_node_id :: string
  gate_idempotency_key :: string
  gate_utc_day :: int
  gate_state :: gate_state
  gas_cost_usd_micros :: int
  gas_utc_day :: "int option"
  gate_created_at :: int
  gate_updated_at :: int

record hosted_gate_event_row =
  event_execution_id :: "string option"
  event_tenant_id :: string
  event_node_id :: string
  event_idempotency_key :: string
  event_type :: string
  event_reason_code :: string
  event_gas_cost_usd_micros :: int
  event_created_at :: int

record repo =
  executions :: "hosted_execution_row list"
  nonces :: "relayer_nonce_row list"
  attempts :: "hosted_execution_attempt_row list"
  observations :: "hosted_execution_observation_row list"
  controls :: "hosted_gate_control_row list"
  gate_reservations :: "hosted_gate_reservation_row list"
  gate_events :: "hosted_gate_event_row list"

definition empty_repo :: repo where
  "empty_repo =
     \<lparr>executions = [], nonces = [], attempts = [], observations = [], controls = [],
      gate_reservations = [], gate_events = []\<rparr>"

text \<open>
  The repository's configuration: its pilot policy, Keccak-256 of a raw transaction (third
  party, as 64 hexadecimal digits) and SHA-256 of a string.
\<close>

record repo_config =
  pilot_policy :: "pilot_gate_policy option"
  keccak_hex :: "bytes \<Rightarrow> string"
  sha256_hex :: "string \<Rightarrow> string"

section \<open>Evidence\<close>

definition OBSERVATION_EVIDENCE_KEYS :: "string list" where
  "OBSERVATION_EVIDENCE_KEYS =
     [''accepted_transfer'', ''boundary'', ''capability_used'', ''confirmations'',
      ''finality_boundary_timestamp'', ''owner_nonce_used'', ''payment_event_found'',
      ''reason'', ''receipt_block_number'', ''safe_block_number'', ''transfer_event_found'',
      ''watcher_version'', ''finality_boundary'']"

definition RELEASE_EVIDENCE_KEYS :: "string list" where
  "RELEASE_EVIDENCE_KEYS =
     [''receipt_status'', ''canonical_receipt'', ''finality_boundary_timestamp'',
      ''capability_used'', ''owner_nonce_used'', ''payment_event_found'',
      ''transfer_event_found'']"

definition REORG_EVIDENCE_KEYS :: "string list" where
  "REORG_EVIDENCE_KEYS =
     [''canonical'', ''observed_block_hash'', ''previous_block_hash'', ''reason'',
      ''watcher_version'']"

fun public_evidence_items :: "pydict \<Rightarrow> exec_error + unit" where
  "public_evidence_items [] = Inr ()"
| "public_evidence_items ((key, value) # items) =
     (case value of
        PBool b \<Rightarrow> public_evidence_items items
      | PInt i \<Rightarrow>
          if 0 \<le> i then public_evidence_items items
          else Inl (ExecutionConflict ''watcher evidence field is invalid'')
      | PStr s \<Rightarrow>
          if 0 < length s \<and> length s \<le> 256 then
            if key = ''watcher_version'' \<and> 128 < length s
            then Inl (ExecutionConflict ''watcher version is invalid'')
            else if list_ex is_control_char s
            then Inl (ExecutionConflict ''watcher evidence field is invalid'')
            else public_evidence_items items
          else Inl (ExecutionConflict ''watcher evidence field is invalid'')
      | _ \<Rightarrow> Inl (ExecutionConflict ''watcher evidence field is invalid''))"

text \<open>The projection copies every accepted item in order, so it is the dictionary itself.\<close>

definition public_evidence :: "string list \<Rightarrow> pyval \<Rightarrow> exec_error + pydict" where
  "public_evidence allowed_keys evidence =
     (case evidence of
        PDict d \<Rightarrow>
          if \<not> list_all (\<lambda>(k, v). k \<in> set allowed_keys) d
          then Inl (ExecutionConflict ''watcher evidence contains a private or unknown field'')
          else and_then (public_evidence_items d) (\<lambda>_. Inr d)
      | _ \<Rightarrow> Inl (ExecutionConflict ''watcher evidence must be a public object''))"

definition release_evidence_of :: "pyval \<Rightarrow> exec_error + pydict" where
  "release_evidence_of value =
     and_then (public_evidence RELEASE_EVIDENCE_KEYS value) (\<lambda>projected.
       if \<not> list_all (\<lambda>k. k \<in> fst ` set projected) RELEASE_EVIDENCE_KEYS
       then Inl (ExecutionConflict ''release evidence is incomplete'')
       else if dget projected ''receipt_status'' \<noteq> PInt 0
         \<or> dget projected ''canonical_receipt'' \<noteq> PBool True
         \<or> dget projected ''capability_used'' \<noteq> PBool False
         \<or> dget projected ''owner_nonce_used'' \<noteq> PBool False
         \<or> dget projected ''payment_event_found'' \<noteq> PBool False
         \<or> dget projected ''transfer_event_found'' \<noteq> PBool False
         \<or> (case dget projected ''finality_boundary_timestamp'' of PInt t \<Rightarrow> t \<le> 0 | _ \<Rightarrow> True)
       then Inl (ExecutionConflict ''release evidence is invalid'')
       else Inr projected)"

definition require_finality_boundary ::
  "int \<Rightarrow> int \<Rightarrow> int \<Rightarrow> string \<Rightarrow> string \<Rightarrow> int \<Rightarrow> exec_error + unit" where
  "require_finality_boundary receipt_block_number' confirmations' safe_block_number'
     safe_block_hash' finality_boundary' minimum_confirmations =
     (if receipt_block_number' < 0
      then Inl (ExecutionConflict ''receipt block evidence is invalid'')
      else if finality_boundary' \<notin> {''safe'', ''finalized''}
      then Inl (ExecutionConflict ''finality boundary is invalid'')
      else if minimum_confirmations < 2
      then Inl (ExecutionConflict ''finality depth is invalid'')
      else if confirmations' < minimum_confirmations
      then Inl (ExecutionConflict ''confirmation depth is insufficient'')
      else if safe_block_number' < receipt_block_number'
      then Inl (ExecutionConflict ''safe boundary is behind receipt'')
      else if safe_block_hash' = ''''
      then Inl (ExecutionConflict ''safe boundary evidence is missing'')
      else Inr ())"

section \<open>Row validation\<close>

text \<open>\<open>_ethereum_transaction_hash\<close>: only a typed (0x02) envelope has a hash.\<close>

definition ethereum_transaction_hash :: "repo_config \<Rightarrow> bytes \<Rightarrow> exec_error + string" where
  "ethereum_transaction_hash cfg raw =
     (case raw of
        [] \<Rightarrow> Inl (ExecutionConflict ''raw transaction is invalid'')
      | b # _ \<Rightarrow>
          if b \<noteq> 2 then Inl (ExecutionConflict ''raw transaction is invalid'')
          else Inr (''0x'' @ keccak_hex cfg raw))"

definition require_raw_transaction ::
  "repo_config \<Rightarrow> hosted_execution_row \<Rightarrow> exec_error + bytes" where
  "require_raw_transaction cfg row =
     (case raw_transaction row of
        None \<Rightarrow> Inl (ExecutionConflict ''raw transaction is missing'')
      | Some raw \<Rightarrow>
          if raw = [] then Inl (ExecutionConflict ''raw transaction is missing'')
          else and_then (ethereum_transaction_hash cfg raw) (\<lambda>expected.
            if raw_transaction_hash row \<noteq> Some expected
            then Inl (ExecutionConflict ''raw transaction hash is inconsistent'')
            else Inr raw))"

text \<open>The intent a row projects to: its columns, and the request identity of its payload.\<close>

definition intent_of_row :: "hosted_execution_row \<Rightarrow> execution_intent" where
  "intent_of_row row =
     intent_columns.extend (intent_columns.truncate row)
       (execution_intent.fields (request_id (canonical_payload row))
         (request_hash (canonical_payload row)))"

definition opt_ok :: "('a \<Rightarrow> bool) \<Rightarrow> 'a option \<Rightarrow> bool" where
  "opt_ok p x \<longleftrightarrow> (case x of None \<Rightarrow> True | Some v \<Rightarrow> p v)"

text \<open>The validators \<open>HostedExecution\<close> adds to those of the intent.\<close>

definition hosted_fields_ok :: "hosted_execution_row \<Rightarrow> bool" where
  "hosted_fields_ok row \<longleftrightarrow>
     opt_ok (\<lambda>s. length s = 65) (signature row) \<and>
     opt_ok (\<lambda>r. r \<noteq> []) (raw_transaction row) \<and>
     identifier_ok (execution_id row) \<and>
     0 \<le> relayer_nonce row \<and> relayer_nonce row \<le> MAX_UINT256 \<and>
     0 \<le> signing_claim_generation row \<and>
     opt_ok (\<lambda>t. 0 < t) (signing_claim_expires_at row) \<and>
     0 \<le> broadcast_attempts row \<and> 0 \<le> confirmations row \<and>
     opt_ok (is_hex_string 64) (unsigned_transaction_hash row) \<and>
     opt_ok (is_hex_string 64) (raw_transaction_hash row) \<and>
     opt_ok (is_hex_string 64) (receipt_block_hash row) \<and>
     opt_ok (is_hex_string 64) (safe_block_hash row) \<and>
     opt_ok (\<lambda>r. r \<in> {0, 1}) (receipt_status row) \<and>
     opt_ok (\<lambda>b. b \<in> {''safe'', ''finalized''}) (finality_boundary row) \<and>
     opt_ok (is_reason_code 63) (submission_failure_code row) \<and>
     0 < created_at row \<and> 0 < updated_at row \<and>
     list_all (opt_ok (\<lambda>t. 0 < t))
       [confirmed_at row, finalized_at row, reverted_at row, released_at row, expired_at row,
        reorg_reviewed_at row]"

definition needs_finality :: "execution_state \<Rightarrow> bool" where
  "needs_finality s \<longleftrightarrow> s \<in> {CONFIRMED, FINALIZED, REVERTED, REORG_REVIEW}"

text \<open>\<open>validate_chain_finality\<close>.\<close>

definition chain_finality_ok :: "hosted_execution_row \<Rightarrow> bool" where
  "chain_finality_ok row \<longleftrightarrow>
     (case hosted_chain_profile (chain row) of
        None \<Rightarrow> False
      | Some p \<Rightarrow>
          opt_ok (\<lambda>b. b = finality_boundary_of p) (finality_boundary row) \<and>
          (needs_finality (status row) \<longrightarrow>
             finality_boundary row = Some (finality_boundary_of p)))"

text \<open>\<open>_record\<close>: the validated projection of a row. It exposes the row's own columns.\<close>

definition record_of :: "hosted_execution_row \<Rightarrow> exec_error + hosted_execution_row" where
  "record_of row =
     (if intent_fields_ok (intent_of_row row) \<and> chain_scope_ok (lower_intent (intent_of_row row))
         \<and> hosted_fields_ok row \<and> chain_finality_ok row
      then Inr row else Inl ValidationError)"

definition is_terminal :: "hosted_execution_row \<Rightarrow> bool" where
  "is_terminal row \<longleftrightarrow> status row \<in> {REVERTED, EXPIRED, RELEASED, REORG_REVIEW}"

text \<open>
  The CHECK constraints of \<open>hosted_executions\<close>. The finality constraint repeats the depth
  and boundary of the chain's profile.
\<close>

definition hash_lengths_ok :: "hosted_execution_row \<Rightarrow> bool" where
  "hash_lengths_ok row \<longleftrightarrow>
     length (capability_hash row) = 66 \<and> length (reservation_hash row) = 66 \<and>
     length (execution_scope_hash row) = 66 \<and> length (execution_digest row) = 66 \<and>
     length (canonical_hash row) = 66"

definition terminal_finality_check :: "hosted_execution_row \<Rightarrow> bool" where
  "terminal_finality_check row \<longleftrightarrow>
     \<not> needs_finality (status row) \<or>
     (((chain row \<in> {''eip155:8453'', ''eip155:84532''} \<and> 2 \<le> confirmations row
         \<and> finality_boundary row = Some ''safe'') \<or>
       (chain row \<in> {''eip155:137'', ''eip155:80002''} \<and> 3 \<le> confirmations row
         \<and> finality_boundary row = Some ''finalized''))
      \<and> safe_block_number row \<noteq> None \<and> safe_block_hash row \<noteq> None)"

definition execution_row_checks :: "hosted_execution_row \<Rightarrow> bool" where
  "execution_row_checks row \<longleftrightarrow>
     hosted_chain_profile (chain row) \<noteq> None \<and> amount_atomic row \<noteq> '''' \<and>
     hash_lengths_ok row \<and> 0 < signer_epoch row \<and> 0 \<le> relayer_nonce row \<and>
     0 \<le> signing_claim_generation row \<and>
     opt_ok (\<lambda>t. 0 < signing_claim_generation row \<and> 0 < t) (signing_claim_expires_at row) \<and>
     0 < deadline row \<and> terminal_finality_check row"

section \<open>Sessions and helpers\<close>

text \<open>
  \<open>_write_session\<close>: an exception inside the block rolls the session back; what the block
  leaves is committed, and an operation may still raise after that (a gate denial, whose
  audit event is kept).
\<close>

definition write_session ::
  "repo \<Rightarrow> (repo \<Rightarrow> exec_error + (repo \<times> (exec_error + 'a))) \<Rightarrow> repo \<times> (exec_error + 'a)" where
  "write_session s body = (case body s of Inl e \<Rightarrow> (s, Inl e) | Inr (s', r) \<Rightarrow> (s', r))"

text \<open>\<open>_now\<close> on the given or the system clock.\<close>

definition repo_now :: "int \<Rightarrow> exec_error + int" where
  "repo_now t = (if t \<le> 0 then Inl (ExecutionConflict ''execution clock is invalid'') else Inr t)"

definition MAX_RELAYER_NONCE :: int where
  "MAX_RELAYER_NONCE = 2 ^ 63 - 2"

definition canonical_nonce :: "int \<Rightarrow> exec_error + int" where
  "canonical_nonce v =
     (if v < 0 \<or> MAX_RELAYER_NONCE < v
      then Inl (ExecutionConflict ''chain pending nonce is invalid'') else Inr v)"

definition pilot_identity :: "string \<Rightarrow> string \<Rightarrow> exec_error + unit" where
  "pilot_identity tenant node =
     (if \<not> is_identifier tenant then Inl (ExecutionConflict ''tenant_id is invalid'')
      else if \<not> is_identifier node then Inl (ExecutionConflict ''node_id is invalid'')
      else Inr ())"

text \<open>\<open>_locked_execution\<close> and \<open>_require_row\<close>.\<close>

definition locked_execution :: "repo \<Rightarrow> string \<Rightarrow> hosted_execution_row option" where
  "locked_execution s eid = sel_by execution_id eid (executions s)"

definition require_row :: "repo \<Rightarrow> string \<Rightarrow> exec_error + hosted_execution_row" where
  "require_row s eid = lift_opt ExecutionNotFound (locked_execution s eid)"

text \<open>Flushing the columns of one row: the CHECK constraints are tested, then the row is stored.\<close>

definition save_row :: "hosted_execution_row \<Rightarrow> repo \<Rightarrow> exec_error + repo" where
  "save_row row s =
     (if execution_row_checks row
      then Inr (s\<lparr>executions := upd_by execution_id (execution_id row) (\<lambda>_. row) (executions s)\<rparr>)
      else Inl IntegrityError)"

text \<open>Flush the row and return its record, the end of every mutating operation.\<close>

definition finish ::
  "hosted_execution_row \<Rightarrow> repo \<Rightarrow> exec_error + (repo \<times> (exec_error + hosted_execution_row))" where
  "finish row s =
     and_then (save_row row s) (\<lambda>s'. and_then (record_of row) (\<lambda>r. Inr (s', Inr r)))"

text \<open>\<open>return self._record(row)\<close> without a change.\<close>

definition unchanged ::
  "hosted_execution_row \<Rightarrow> repo \<Rightarrow> exec_error + (repo \<times> (exec_error + hosted_execution_row))" where
  "unchanged row s = and_then (record_of row) (\<lambda>r. Inr (s, Inr r))"

text \<open>\<open>_add_attempt\<close>; (execution, number) is unique.\<close>

definition add_attempt ::
  "hosted_execution_row \<Rightarrow> string \<Rightarrow> string \<Rightarrow> int \<Rightarrow> int \<Rightarrow> repo \<Rightarrow> exec_error + repo" where
  "add_attempt row kind raw_hash number now s =
     (if list_ex (\<lambda>a. attempt_execution_id a = execution_id row \<and> attempt_number a = number)
           (attempts s)
      then Inl IntegrityError
      else Inr (s\<lparr>attempts := attempts s @
        [\<lparr>attempt_execution_id = execution_id row, attempt_number = number, attempt_kind = kind,
          attempt_raw_transaction_hash = raw_hash, attempt_created_at = now\<rparr>]\<rparr>))"

definition add_gate_event ::
  "string option \<Rightarrow> string \<Rightarrow> string \<Rightarrow> string \<Rightarrow> string \<Rightarrow> string \<Rightarrow> int \<Rightarrow> int \<Rightarrow> repo \<Rightarrow> repo" where
  "add_gate_event eid tenant node key type reason gas now s =
     s\<lparr>gate_events := gate_events s @
       [\<lparr>event_execution_id = eid, event_tenant_id = tenant, event_node_id = node,
         event_idempotency_key = key, event_type = type, event_reason_code = reason,
         event_gas_cost_usd_micros = gas, event_created_at = now\<rparr>]\<rparr>"

text \<open>The event of one execution's row.\<close>

definition row_gate_event ::
  "hosted_execution_row \<Rightarrow> string \<Rightarrow> string \<Rightarrow> int \<Rightarrow> int \<Rightarrow> repo \<Rightarrow> repo" where
  "row_gate_event row type reason gas now s =
     add_gate_event (Some (execution_id row)) (tenant_id row) (node_id row) (idempotency_key row)
       type reason gas now s"

text \<open>A denial commits its audit event and then raises.\<close>

definition deny ::
  "hosted_execution_row \<Rightarrow> string \<Rightarrow> int \<Rightarrow> int \<Rightarrow> repo \<Rightarrow> exec_error + (repo \<times> (exec_error + 'a))" where
  "deny row reason gas now s =
     Inr (row_gate_event row ''denied'' reason gas now s, Inl (PilotGateDenied reason))"

definition locked_gate_reservation :: "repo \<Rightarrow> string \<Rightarrow> hosted_gate_reservation_row option" where
  "locked_gate_reservation s eid = sel_by gate_execution_id eid (gate_reservations s)"

definition save_gate ::
  "string \<Rightarrow> (hosted_gate_reservation_row \<Rightarrow> hosted_gate_reservation_row) \<Rightarrow> repo \<Rightarrow> repo" where
  "save_gate eid f s =
     s\<lparr>gate_reservations := upd_by gate_execution_id eid f (gate_reservations s)\<rparr>"

end
