(* ===== verification/Pilot_Gate.thy ===== *)
theory Pilot_Gate
  imports Execution_Rows
begin

text \<open>
  The durable pilot gate of \<open>apps/facilitator/execution_repository.py\<close>: pause controls,
  admission quotas, the gas budget per node and per platform on each UTC day, and the gate
  reservation that follows an execution to its end. Advisory locks only serialise concurrent
  PostgreSQL sessions; every operation here is one serialised transaction, so
  \<open>_acquire_pilot_locks\<close> leaves no trace in the state.
\<close>

section \<open>Admission\<close>

definition control_paused :: "repo \<Rightarrow> string \<times> string \<times> string \<Rightarrow> bool" where
  "control_paused s key =
     (case sel_by control_key key (controls s) of None \<Rightarrow> False | Some c \<Rightarrow> paused c)"

definition paused_scope :: "repo \<Rightarrow> string \<Rightarrow> string \<Rightarrow> string option" where
  "paused_scope s tenant node =
     (if control_paused s (''platform'', '''', '''') then Some ''platform_paused''
      else if control_paused s (''tenant'', tenant, '''') then Some ''tenant_paused''
      else if control_paused s (''node'', tenant, node) then Some ''node_paused''
      else None)"

definition in_scope :: "string \<Rightarrow> string \<Rightarrow> hosted_gate_reservation_row \<Rightarrow> bool" where
  "in_scope tenant node g \<longleftrightarrow> gate_tenant_id g = tenant \<and> gate_node_id g = node"

definition in_flight :: "repo \<Rightarrow> string \<Rightarrow> string \<Rightarrow> int" where
  "in_flight s tenant node =
     int (length (filter (\<lambda>g. in_scope tenant node g \<and> gate_state g = GateReserved)
       (gate_reservations s)))"

definition accepted_on :: "repo \<Rightarrow> string \<Rightarrow> string \<Rightarrow> int \<Rightarrow> int" where
  "accepted_on s tenant node day =
     int (length (filter (\<lambda>g. in_scope tenant node g \<and> gate_utc_day g = day)
       (gate_reservations s)))"

definition accepted_lifetime :: "repo \<Rightarrow> string \<Rightarrow> string \<Rightarrow> int" where
  "accepted_lifetime s tenant node =
     int (length (filter (in_scope tenant node) (gate_reservations s)))"

text \<open>\<open>_pilot_admission_denial\<close>: the first reason to refuse, if any.\<close>

definition pilot_admission_denial ::
  "repo_config \<Rightarrow> repo \<Rightarrow> string \<Rightarrow> string \<Rightarrow> int \<Rightarrow> bool \<Rightarrow> string option" where
  "pilot_admission_denial cfg s tenant node timestamp include_quotas =
     (case pilot_policy cfg of
        None \<Rightarrow> None
      | Some policy \<Rightarrow>
          (case paused_scope s tenant node of
             Some reason \<Rightarrow> Some reason
           | None \<Rightarrow>
               if \<not> include_quotas then None
               else if max_in_flight_per_node policy \<le> in_flight s tenant node
               then Some ''node_in_flight_limit''
               else if max_accepted_per_node_utc_day policy
                 \<le> accepted_on s tenant node (utc_day timestamp)
               then Some ''node_daily_limit''
               else if max_accepted_per_node_lifetime policy \<le> accepted_lifetime s tenant node
               then Some ''node_lifetime_limit''
               else None))"

section \<open>The gas budget\<close>

definition gas_on :: "int \<Rightarrow> hosted_gate_reservation_row \<Rightarrow> int" where
  "gas_on day g = (if gas_utc_day g = Some day then gas_cost_usd_micros g else 0)"

text \<open>\<open>_pilot_gas_total\<close> with and without the node filter.\<close>

definition node_gas_total :: "repo \<Rightarrow> int \<Rightarrow> string \<Rightarrow> string \<Rightarrow> string \<Rightarrow> int" where
  "node_gas_total s day tenant node excluding =
     sum_list (map (gas_on day)
       (filter (\<lambda>g. in_scope tenant node g \<and> gate_execution_id g \<noteq> excluding)
         (gate_reservations s)))"

definition platform_gas_total :: "repo \<Rightarrow> int \<Rightarrow> string \<Rightarrow> int" where
  "platform_gas_total s day excluding =
     sum_list (map (gas_on day)
       (filter (\<lambda>g. gate_execution_id g \<noteq> excluding) (gate_reservations s)))"

definition set_gas ::
  "int \<Rightarrow> int \<Rightarrow> int \<Rightarrow> hosted_gate_reservation_row \<Rightarrow> hosted_gate_reservation_row" where
  "set_gas cost day now g =
     g\<lparr>gas_cost_usd_micros := cost, gas_utc_day := Some day, gate_updated_at := now\<rparr>"

text \<open>
  \<open>_ensure_pilot_gas_reservation\<close>: before a broadcast, the execution's gas must be metered
  on the current day; a reservation of an earlier day moves, one without gas is charged the
  node's whole daily ceiling. The result is a denial reason or none.
\<close>

definition ensure_pilot_gas_reservation ::
  "repo_config \<Rightarrow> hosted_execution_row \<Rightarrow> int \<Rightarrow> repo \<Rightarrow> exec_error + (repo \<times> string option)" where
  "ensure_pilot_gas_reservation cfg row timestamp s =
     and_then (lift_opt (ExecutionConflict ''pilot gate policy is unavailable'') (pilot_policy cfg))
     (\<lambda>policy.
     and_then (lift_opt (ExecutionConflict ''pilot gate reservation is unavailable'')
       (locked_gate_reservation s (execution_id row)))
     (\<lambda>reservation.
       if gate_state reservation \<noteq> GateReserved
       then Inl (ExecutionConflict ''pilot gate reservation is unavailable'')
       else
         let day = utc_day timestamp in
         if 0 < gas_cost_usd_micros reservation \<and> gas_utc_day reservation = None
         then Inl (ExecutionConflict ''pilot gate gas reservation is invalid'')
         else if 0 < gas_cost_usd_micros reservation \<and> gas_utc_day reservation = Some day
         then Inr (s, None)
         else if \<not> 0 < gas_cost_usd_micros reservation \<and> gas_utc_day reservation \<noteq> None
         then Inl (ExecutionConflict ''pilot gate gas reservation is invalid'')
         else
           let (gas_cost, reason_code) =
                 (if 0 < gas_cost_usd_micros reservation
                  then (gas_cost_usd_micros reservation, ''gas_budget_reassigned'')
                  else (max_gas_usd_micros_per_node_utc_day policy, ''legacy_gas_budget_reserved''))
           in
           if node_gas_total s day (tenant_id row) (node_id row) (execution_id row) + gas_cost
              > max_gas_usd_micros_per_node_utc_day policy
           then Inr (s, Some ''node_daily_gas_limit'')
           else if platform_gas_total s day (execution_id row) + gas_cost
              > max_gas_usd_micros_platform_utc_day policy
           then Inr (s, Some ''platform_daily_gas_limit'')
           else Inr (row_gate_event row ''gas_reserved'' reason_code gas_cost timestamp
                       (save_gate (execution_id row) (set_gas gas_cost day timestamp) s), None)))"

section \<open>Closing a gate reservation\<close>

definition close_gate ::
  "gate_state \<Rightarrow> bool \<Rightarrow> int \<Rightarrow> hosted_gate_reservation_row \<Rightarrow> hosted_gate_reservation_row" where
  "close_gate st clear_gas now g =
     (if clear_gas
      then g\<lparr>gate_state := st, gas_cost_usd_micros := 0, gas_utc_day := None, gate_updated_at := now\<rparr>
      else g\<lparr>gate_state := st, gate_updated_at := now\<rparr>)"

fun gate_state_value :: "gate_state \<Rightarrow> string" where
  "gate_state_value GateReserved = ''reserved''"
| "gate_state_value GateSettled = ''settled''"
| "gate_state_value GateReleased = ''released''"

definition mark_gate_terminal ::
  "repo_config \<Rightarrow> hosted_execution_row \<Rightarrow> gate_state \<Rightarrow> string \<Rightarrow> bool \<Rightarrow> int \<Rightarrow> repo
     \<Rightarrow> exec_error + repo" where
  "mark_gate_terminal cfg row st reason_code clear_gas now s =
     (if pilot_policy cfg = None then Inr s
      else
        and_then (lift_opt (ExecutionConflict ''pilot gate reservation is unavailable'')
          (locked_gate_reservation s (execution_id row)))
        (\<lambda>reservation.
          if gate_state reservation = st then Inr s
          else if gate_state reservation \<noteq> GateReserved
          then Inl (ExecutionConflict ''pilot gate reservation state conflicts'')
          else Inr (row_gate_event row (gate_state_value st) reason_code
                 (gas_cost_usd_micros (close_gate st clear_gas now reservation)) now
                 (save_gate (execution_id row) (close_gate st clear_gas now) s))))"

text \<open>\<open>_release_gate_reservation\<close>: a reverted execution's gas stays spent.\<close>

definition release_gate_reservation ::
  "repo_config \<Rightarrow> hosted_execution_row \<Rightarrow> int \<Rightarrow> repo \<Rightarrow> exec_error + repo" where
  "release_gate_reservation cfg row now s =
     (if pilot_policy cfg = None then Inr s
      else
        and_then (lift_opt (ExecutionConflict ''pilot gate reservation is unavailable'')
          (locked_gate_reservation s (execution_id row)))
        (\<lambda>reservation.
          if gate_state reservation = GateReleased then Inr s
          else Inr (row_gate_event row ''released'' ''safe_revert_release''
                 (gas_cost_usd_micros reservation) now
                 (save_gate (execution_id row) (close_gate GateReleased False now) s))))"

section \<open>Gate operations\<close>

definition assert_pilot_gate_open ::
  "repo_config \<Rightarrow> string \<Rightarrow> string \<Rightarrow> int \<Rightarrow> repo \<Rightarrow> exec_error + unit" where
  "assert_pilot_gate_open cfg tenant node now s =
     and_then (pilot_identity tenant node) (\<lambda>_.
       if pilot_policy cfg = None then Inr ()
       else and_then (repo_now now) (\<lambda>timestamp.
         case pilot_admission_denial cfg s tenant node timestamp False of
           Some reason \<Rightarrow> Inl (PilotGateDenied reason)
         | None \<Rightarrow> Inr ()))"

definition pause_scope_ok :: "string \<Rightarrow> string \<Rightarrow> string \<Rightarrow> exec_error + unit" where
  "pause_scope_ok scope_type tenant node =
     (if scope_type = ''platform'' then
        if tenant \<noteq> '''' \<or> node \<noteq> '''' then Inl (RepoValueError ''platform pause scope is invalid'')
        else Inr ()
      else if scope_type = ''tenant'' then
        if \<not> is_identifier tenant \<or> node \<noteq> ''''
        then Inl (RepoValueError ''tenant pause scope is invalid'') else Inr ()
      else pilot_identity tenant node)"

text \<open>Inserting the control row of a scope, or assigning to the one that exists.\<close>

definition put_control :: "hosted_gate_control_row \<Rightarrow> repo \<Rightarrow> repo" where
  "put_control row s =
     (case sel_by control_key (control_key row) (controls s) of
        None \<Rightarrow> s\<lparr>controls := controls s @ [row]\<rparr>
      | Some _ \<Rightarrow>
          s\<lparr>controls := upd_by control_key (control_key row) (\<lambda>_. row) (controls s)\<rparr>)"

text \<open>
  \<open>set_pilot_pause\<close>. The event carries the tenant for a tenant or node scope and the node
  for a node scope; the scope check leaves both empty for the platform.
\<close>

definition set_pilot_pause ::
  "string \<Rightarrow> bool \<Rightarrow> string \<Rightarrow> string \<Rightarrow> string \<Rightarrow> int \<Rightarrow> repo \<Rightarrow> repo \<times> (exec_error + unit)" where
  "set_pilot_pause scope_type is_paused reason_code tenant node now s =
     write_session s (\<lambda>s.
       if scope_type \<notin> {''platform'', ''tenant'', ''node''}
       then Inl (RepoValueError ''pilot pause scope is invalid'')
       else if \<not> is_reason_code 127 reason_code
       then Inl (RepoValueError ''pilot pause reason is invalid'')
       else and_then (pause_scope_ok scope_type tenant node) (\<lambda>_.
         and_then (repo_now now) (\<lambda>timestamp.
           let key = (scope_type, tenant, node);
               lock_tenant = (if tenant = '''' then ''_platform'' else tenant);
               lock_node = (if node \<noteq> '''' then node
                            else if tenant \<noteq> '''' then ''_tenant'' else ''_platform'');
               row = \<lparr>control_key = key, paused = is_paused, control_reason_code = reason_code,
                      control_updated_at = timestamp\<rparr>
           in Inr (add_gate_event None
                     (if scope_type = ''platform'' then '''' else lock_tenant)
                     (if scope_type \<noteq> ''node'' then '''' else lock_node)
                     '''' ''pause_changed'' reason_code 0 timestamp (put_control row s), Inr ()))))"

text \<open>\<open>reserve_pilot_gas\<close>: meter a conservative gas ceiling before the gas transaction is signed.\<close>

definition gas_denial ::
  "pilot_gate_policy \<Rightarrow> repo \<Rightarrow> hosted_execution_row \<Rightarrow> int \<Rightarrow> int \<Rightarrow> string option" where
  "gas_denial policy s row day cost =
     (if node_gas_total s day (tenant_id row) (node_id row) (execution_id row) + cost
         > max_gas_usd_micros_per_node_utc_day policy
      then Some ''node_daily_gas_limit''
      else if platform_gas_total s day (execution_id row) + cost
         > max_gas_usd_micros_platform_utc_day policy
      then Some ''platform_daily_gas_limit''
      else None)"

definition reserve_pilot_gas ::
  "repo_config \<Rightarrow> string \<Rightarrow> int \<Rightarrow> int \<Rightarrow> int \<Rightarrow> repo \<Rightarrow> repo \<times> (exec_error + int)" where
  "reserve_pilot_gas cfg eid cost generation now s =
     write_session s (\<lambda>s.
       and_then (lift_opt (ExecutionConflict ''pilot gate policy is unavailable'')
         (pilot_policy cfg)) (\<lambda>policy.
       if cost \<le> 0 then Inl (ExecutionConflict ''gas budget reservation is invalid'')
       else if generation \<le> 0 then Inl (ExecutionConflict ''signing claim is invalid'')
       else and_then (repo_now now) (\<lambda>timestamp.
       and_then (require_row s eid) (\<lambda>row.
       if status row \<noteq> SIGNING
       then Inl (ExecutionConflict ''execution is not awaiting gas reservation'')
       else if signing_claim_generation row \<noteq> generation
       then Inl (ExecutionConflict ''signing claim is stale'')
       else and_then (lift_opt (ExecutionConflict ''pilot gate reservation is unavailable'')
         (locked_gate_reservation s (execution_id row))) (\<lambda>reservation.
       if gate_state reservation \<noteq> GateReserved
       then Inl (ExecutionConflict ''pilot gate reservation is unavailable'')
       else
         let day = utc_day timestamp;
             denial_reason =
               (case pilot_admission_denial cfg s (tenant_id row) (node_id row) timestamp False of
                  Some reason \<Rightarrow> Some reason
                | None \<Rightarrow> gas_denial policy s row day cost)
         in case denial_reason of
              Some reason \<Rightarrow> deny row reason cost timestamp s
            | None \<Rightarrow>
                if gas_cost_usd_micros reservation \<noteq> cost \<or> gas_utc_day reservation \<noteq> Some day
                then Inr (row_gate_event row ''gas_reserved'' ''gas_budget_reserved'' cost timestamp
                            (save_gate (execution_id row) (set_gas cost day timestamp) s), Inr cost)
                else Inr (s, Inr cost))))))"

end
