(* ===== verification/Execution_Repository.thy ===== *)
theory Execution_Repository
  imports Pilot_Gate "HOL-Library.Char_ord" "HOL-Library.List_Lexorder" "HOL-Library.Product_Lexorder"
begin

text \<open>
  The operations of \<open>ExecutionRepository\<close> (\<open>apps/facilitator/execution_repository.py\<close>):
  allocation with its relayer nonce, the signing and submission claims, the submission
  outcomes, watcher observations, finality, reverts, releases and reorg review. Each takes
  the configuration, its arguments, the clock and the repository, and returns the committed
  repository and its result or error.
\<close>

section \<open>Relayer nonces\<close>

fun least_of :: "int list \<Rightarrow> int option" where
  "least_of [] = None"
| "least_of (x # xs) = (case least_of xs of None \<Rightarrow> Some x | Some y \<Rightarrow> Some (min x y))"

definition on_relayer :: "string \<Rightarrow> string \<Rightarrow> hosted_execution_row \<Rightarrow> bool" where
  "on_relayer c a e \<longleftrightarrow> chain e = c \<and> relayer_address e = a"

definition closed :: "hosted_execution_row \<Rightarrow> bool" where
  "closed e \<longleftrightarrow> status e \<in> {EXPIRED, RELEASED}"

definition tainted :: "hosted_execution_row \<Rightarrow> bool" where
  "tainted e \<longleftrightarrow> signature e \<noteq> None \<or> raw_transaction e \<noteq> None"

definition recyclable_nonces :: "repo \<Rightarrow> string \<Rightarrow> string \<Rightarrow> int \<Rightarrow> int list" where
  "recyclable_nonces s c a confirmed =
     map relayer_nonce
       (filter (\<lambda>e. on_relayer c a e \<and> closed e \<and> \<not> tainted e \<and> confirmed \<le> relayer_nonce e
          \<and> relayer_nonce e \<notin> relayer_nonce ` set (filter (\<lambda>x. on_relayer c a x \<and> \<not> closed x) (executions s))
          \<and> relayer_nonce e \<notin> relayer_nonce ` set (filter (\<lambda>x. on_relayer c a x \<and> tainted x) (executions s)))
         (executions s))"

definition nonce_key :: "relayer_nonce_row \<Rightarrow> string \<times> string" where
  "nonce_key r = (nonce_chain r, nonce_relayer_address r)"

definition allocate_relayer_nonce ::
  "string \<Rightarrow> string \<Rightarrow> int \<Rightarrow> int \<Rightarrow> int \<Rightarrow> repo \<Rightarrow> exec_error + (repo \<times> int)" where
  "allocate_relayer_nonce c a pending confirmed now s =
     (case sel_by nonce_key (c, a) (nonces s) of
        None \<Rightarrow>
          Inr (s\<lparr>nonces := nonces s @
                 [\<lparr>nonce_chain = c, nonce_relayer_address = a, next_nonce = pending + 1,
                   nonce_updated_at = now\<rparr>]\<rparr>, pending)
      | Some row \<Rightarrow>
          (case least_of (recyclable_nonces s c a confirmed) of
             Some n \<Rightarrow>
               Inr (s\<lparr>nonces := upd_by nonce_key (c, a) (\<lambda>r. r\<lparr>nonce_updated_at := now\<rparr>) (nonces s)\<rparr>, n)
           | None \<Rightarrow>
               if next_nonce row < 0
               then Inl (ExecutionConflict ''relayer nonce allocator is invalid'')
               else
                 let nonce = max (next_nonce row) pending
                 in Inr (s\<lparr>nonces := upd_by nonce_key (c, a)
                        (\<lambda>r. r\<lparr>next_nonce := nonce + 1, nonce_updated_at := now\<rparr>) (nonces s)\<rparr>, nonce)))"

section \<open>Lookup and allocation\<close>

text \<open>\<open>_intent_columns\<close> of a new row.\<close>

definition new_execution_row ::
  "repo_config \<Rightarrow> execution_intent \<Rightarrow> string \<Rightarrow> int \<Rightarrow> int \<Rightarrow> hosted_execution_row" where
  "new_execution_row cfg intent eid nonce now =
     intent_columns.extend (intent_columns.truncate intent)
       \<lparr>execution_id = eid, canonical_payload = intent,
        canonical_hash = canonical_hash_of (sha256_hex cfg) intent,
        signature = None, relayer_nonce = nonce, signing_claim_generation = 0,
        signing_claim_expires_at = None, unsigned_transaction_hash = None,
        raw_transaction = None, raw_transaction_hash = None, status = PREFLIGHT_APPROVED,
        broadcast_attempts = 0, broadcasted_at = None, receipt_status = None,
        receipt_block_number = None, receipt_block_hash = None, confirmations = 0,
        safe_block_number = None, safe_block_hash = None, watcher_version = None,
        watcher_attempted_at = None, finality_boundary = None, reorg_state = ''none'',
        reorg_evidence = None, submission_failure_code = None, release_evidence = None,
        confirmed_at = None, finalized_at = None, reverted_at = None, released_at = None,
        expired_at = None, reorg_reviewed_at = None, created_at = now, updated_at = now\<rparr>"

text \<open>\<open>_existing_for_intent\<close>: the rows bound to the intent's four unique keys.\<close>

definition same_request :: "execution_intent \<Rightarrow> hosted_execution_row \<Rightarrow> bool" where
  "same_request intent e \<longleftrightarrow>
     idempotency_key e = idempotency_key intent \<and> tenant_id e = tenant_id intent \<and>
     node_id e = node_id intent"

definition bound_rows :: "repo \<Rightarrow> execution_intent \<Rightarrow> hosted_execution_row option list" where
  "bound_rows s intent =
     [sel_by capability_id (capability_id intent) (executions s),
      sel_by reservation_id (reservation_id intent) (executions s),
      sel_by purchase_id (purchase_id intent) (executions s),
      find (same_request intent) (executions s)]"

fun somes :: "'a option list \<Rightarrow> 'a list" where
  "somes [] = []"
| "somes (None # xs) = somes xs"
| "somes (Some x # xs) = x # somes xs"

definition existing_for_intent ::
  "repo \<Rightarrow> execution_intent \<Rightarrow> exec_error + hosted_execution_row option" where
  "existing_for_intent s intent =
     (case remdups (somes (bound_rows s intent)) of
        [] \<Rightarrow> Inr None
      | [row] \<Rightarrow> Inr (Some row)
      | _ \<Rightarrow> Inl (ExecutionConflict ''execution uniqueness bindings are inconsistent''))"

definition require_exact_intent ::
  "repo_config \<Rightarrow> hosted_execution_row \<Rightarrow> execution_intent \<Rightarrow> exec_error + unit" where
  "require_exact_intent cfg row intent =
     (if canonical_hash row \<noteq> canonical_hash_of (sha256_hex cfg) intent
         \<or> canonical_payload row \<noteq> intent
      then Inl (ExecutionConflict ''immutable execution scope changed'') else Inr ())"

definition find_for_intent ::
  "repo_config \<Rightarrow> execution_intent \<Rightarrow> repo \<Rightarrow> exec_error + hosted_execution_row option" where
  "find_for_intent cfg intent s =
     and_then (existing_for_intent s intent) (\<lambda>existing.
       case existing of
         None \<Rightarrow> Inr None
       | Some row \<Rightarrow>
           and_then (require_exact_intent cfg row intent) (\<lambda>_.
             and_then (record_of row) (\<lambda>r. Inr (Some r))))"

definition find_for_identity ::
  "string \<Rightarrow> string \<Rightarrow> string \<Rightarrow> repo \<Rightarrow> exec_error + hosted_execution_row option" where
  "find_for_identity tenant node key s =
     (if \<not> is_identifier tenant then Inl (ExecutionConflict ''tenant_id is invalid'')
      else if \<not> is_identifier node then Inl (ExecutionConflict ''node_id is invalid'')
      else if \<not> is_identifier key then Inl (ExecutionConflict ''idempotency_key is invalid'')
      else case find (\<lambda>e. tenant_id e = tenant \<and> node_id e = node \<and> idempotency_key e = key)
                  (executions s) of
             None \<Rightarrow> Inr None
           | Some row \<Rightarrow> and_then (record_of row) (\<lambda>r. Inr (Some r)))"

definition get_execution :: "string \<Rightarrow> repo \<Rightarrow> exec_error + hosted_execution_row option" where
  "get_execution eid s =
     (case locked_execution s eid of
        None \<Rightarrow> Inr None
      | Some row \<Rightarrow> and_then (record_of row) (\<lambda>r. Inr (Some r)))"

text \<open>
  Inserting an execution: its CHECK constraints, the primary key, the unique constraints and
  the partial unique index of open executions by chain, relayer and nonce.
\<close>

definition unique_conflict :: "hosted_execution_row \<Rightarrow> hosted_execution_row \<Rightarrow> bool" where
  "unique_conflict row e \<longleftrightarrow>
     execution_id e = execution_id row \<or> capability_id e = capability_id row \<or>
     reservation_id e = reservation_id row \<or> purchase_id e = purchase_id row \<or>
     (tenant_id e = tenant_id row \<and> node_id e = node_id row \<and>
      idempotency_key e = idempotency_key row) \<or>
     (\<not> closed row \<and> \<not> closed e \<and> chain e = chain row \<and>
      relayer_address e = relayer_address row \<and> relayer_nonce e = relayer_nonce row)"

definition insert_execution :: "hosted_execution_row \<Rightarrow> repo \<Rightarrow> exec_error + repo" where
  "insert_execution row s =
     (if execution_row_checks row \<and> \<not> list_ex (unique_conflict row) (executions s)
      then Inr (s\<lparr>executions := executions s @ [row]\<rparr>) else Inl IntegrityError)"

definition insert_gate_reservation ::
  "repo_config \<Rightarrow> hosted_execution_row \<Rightarrow> int \<Rightarrow> repo \<Rightarrow> exec_error + repo" where
  "insert_gate_reservation cfg row now s =
     (if pilot_policy cfg = None then Inr s
      else if locked_gate_reservation s (execution_id row) \<noteq> None then Inl IntegrityError
      else Inr (row_gate_event row ''allowed'' ''pilot_admission_allowed'' 0 now
        (s\<lparr>gate_reservations := gate_reservations s @
           [\<lparr>gate_execution_id = execution_id row, gate_tenant_id = tenant_id row,
             gate_node_id = node_id row, gate_idempotency_key = idempotency_key row,
             gate_utc_day = utc_day now, gate_state = GateReserved, gas_cost_usd_micros = 0,
             gas_utc_day = None, gate_created_at = now, gate_updated_at = now\<rparr>]\<rparr>)))"

text \<open>One attempt of the savepoint loop, with the fresh identifier it draws.\<close>

definition try_allocate ::
  "repo_config \<Rightarrow> execution_intent \<Rightarrow> int \<Rightarrow> int \<Rightarrow> int \<Rightarrow> string \<Rightarrow> repo
     \<Rightarrow> exec_error + (repo \<times> hosted_execution_row)" where
  "try_allocate cfg intent pending confirmed now uuid s =
     and_then (allocate_relayer_nonce (chain intent) (relayer_address intent) pending confirmed now s)
     (\<lambda>(s1, nonce).
       let row = new_execution_row cfg intent (''exec_'' @ uuid) nonce now in
       and_then (insert_execution row s1) (\<lambda>s2.
       and_then (insert_gate_reservation cfg row now s2) (\<lambda>s3. Inr (s3, row))))"

text \<open>
  The loop: an integrity error rolls the savepoint back, looks for the winner of a race and
  tries again with the next identifier; any other error leaves the session.
\<close>

fun allocate_attempts ::
  "repo_config \<Rightarrow> execution_intent \<Rightarrow> int \<Rightarrow> int \<Rightarrow> int \<Rightarrow> string list \<Rightarrow> repo
     \<Rightarrow> exec_error + (repo \<times> (exec_error + hosted_execution_row))" where
  "allocate_attempts cfg intent pending confirmed now [] s =
     Inl (ExecutionConflict ''execution allocation could not be committed'')"
| "allocate_attempts cfg intent pending confirmed now (uuid # uuids) s =
     (case try_allocate cfg intent pending confirmed now uuid s of
        Inr (s', row) \<Rightarrow> unchanged row s'
      | Inl IntegrityError \<Rightarrow>
          and_then (existing_for_intent s intent) (\<lambda>existing.
            case existing of
              Some row \<Rightarrow> and_then (require_exact_intent cfg row intent) (\<lambda>_. unchanged row s)
            | None \<Rightarrow> allocate_attempts cfg intent pending confirmed now uuids s)
      | Inl e \<Rightarrow> Inl e)"

definition replay_or ::
  "repo_config \<Rightarrow> execution_intent \<Rightarrow> repo
     \<Rightarrow> (unit \<Rightarrow> exec_error + (repo \<times> (exec_error + hosted_execution_row)))
     \<Rightarrow> exec_error + (repo \<times> (exec_error + hosted_execution_row))" where
  "replay_or cfg intent s k =
     and_then (existing_for_intent s intent) (\<lambda>existing.
       case existing of
         Some row \<Rightarrow> and_then (require_exact_intent cfg row intent) (\<lambda>_. unchanged row s)
       | None \<Rightarrow> k ())"

text \<open>
  \<open>allocate_or_return\<close>: the intent is validated already; \<open>uuids\<close> supplies the fresh
  identifiers of its four attempts. The second replay lookup, under the pilot locks, sees
  the same serialised state as the first.
\<close>

definition allocate_or_return ::
  "repo_config \<Rightarrow> execution_intent \<Rightarrow> int \<Rightarrow> int option \<Rightarrow> int \<Rightarrow> string list \<Rightarrow> repo
     \<Rightarrow> repo \<times> (exec_error + hosted_execution_row)" where
  "allocate_or_return cfg intent chain_pending_nonce chain_confirmed_nonce now uuids s =
     write_session s (\<lambda>s.
       and_then (canonical_nonce chain_pending_nonce) (\<lambda>pending.
       and_then (canonical_nonce (case chain_confirmed_nonce of None \<Rightarrow> pending | Some c \<Rightarrow> c))
       (\<lambda>confirmed.
       if pending < confirmed
       then Inl (ExecutionConflict ''chain nonce observations are inconsistent'')
       else and_then (repo_now now) (\<lambda>timestamp.
       replay_or cfg intent s (\<lambda>_.
         case pilot_admission_denial cfg s (tenant_id intent) (node_id intent) timestamp True of
           Some reason \<Rightarrow>
             Inr (add_gate_event None (tenant_id intent) (node_id intent) (idempotency_key intent)
                    ''denied'' reason 0 timestamp s, Inl (PilotGateDenied reason))
         | None \<Rightarrow> allocate_attempts cfg intent pending confirmed timestamp (take 4 uuids) s)))))"

section \<open>Watching\<close>

definition watchable :: "hosted_execution_row \<Rightarrow> bool" where
  "watchable e \<longleftrightarrow>
     status e \<in> {PREFLIGHT_APPROVED, SIGNING, SUBMITTED, SUBMISSION_UNKNOWN,
                 SUBMISSION_REJECTED, CONFIRMED, FINALIZED} \<or>
     (status e = REVERTED \<and> release_evidence e = None)"

definition cursor_ok :: "string \<Rightarrow> bool" where
  "cursor_ok c \<longleftrightarrow>
     c \<noteq> '''' \<and> length c \<le> 96 \<and> \<not> list_ex (\<lambda>x. ord x < 33 \<or> 126 < ord x) c"

definition watch_key :: "hosted_execution_row \<Rightarrow> int \<times> string" where
  "watch_key e = (case watcher_attempted_at e of None \<Rightarrow> 0 | Some t \<Rightarrow> t, execution_id e)"

definition list_watchable_ids ::
  "string \<Rightarrow> string option \<Rightarrow> int \<Rightarrow> repo \<Rightarrow> exec_error + string list" where
  "list_watchable_ids c after_execution_id limit s =
     (if hosted_chain_profile c = None then Inl (RepoValueError ''watch chain is not supported'')
      else if \<not> opt_ok cursor_ok after_execution_id
      then Inl (RepoValueError ''execution cursor is invalid'')
      else if \<not> (1 \<le> limit \<and> limit \<le> 1000) then Inl (RepoValueError ''watch limit is unsafe'')
      else Inr (map execution_id (take (nat limit) (sort_key watch_key
             (filter (\<lambda>e. chain e = c \<and> watchable e
                \<and> opt_ok (\<lambda>cur. cur < execution_id e) after_execution_id) (executions s))))))"

definition record_watcher_attempt :: "string \<Rightarrow> int \<Rightarrow> repo \<Rightarrow> repo \<times> (exec_error + unit)" where
  "record_watcher_attempt eid now_ns s =
     write_session s (\<lambda>s.
       if eid = '''' then Inl (RepoValueError ''execution ID is invalid'')
       else if now_ns \<le> 0 then Inl (RepoValueError ''watcher attempt timestamp is invalid'')
       else and_then (require_row s eid) (\<lambda>row.
         and_then (save_row (row\<lparr>watcher_attempted_at := Some now_ns,
             updated_at := max (updated_at row) (now_ns div 1000000000)\<rparr>) s)
         (\<lambda>s'. Inr (s', Inr ()))))"

section \<open>Signing\<close>

definition SIGNING_CLAIM_LEASE_SECONDS :: int where
  "SIGNING_CLAIM_LEASE_SECONDS = 15"

text \<open>Taking a claim: the next generation, with a lease that never outlives the deadline.\<close>

definition take_claim :: "int \<Rightarrow> hosted_execution_row \<Rightarrow> hosted_execution_row" where
  "take_claim now row =
     row\<lparr>signing_claim_generation := signing_claim_generation row + 1,
        signing_claim_expires_at := Some (min (deadline row) (now + SIGNING_CLAIM_LEASE_SECONDS)),
        updated_at := now\<rparr>"

definition finish_claim ::
  "hosted_execution_row \<Rightarrow> repo
     \<Rightarrow> exec_error + (repo \<times> (exec_error + (hosted_execution_row \<times> bool)))" where
  "finish_claim row s =
     and_then (save_row row s) (\<lambda>s'. and_then (record_of row) (\<lambda>r. Inr (s', Inr (r, True))))"

definition keep_claim ::
  "hosted_execution_row \<Rightarrow> repo
     \<Rightarrow> exec_error + (repo \<times> (exec_error + (hosted_execution_row \<times> bool)))" where
  "keep_claim row s = and_then (record_of row) (\<lambda>r. Inr (s, Inr (r, False)))"

definition claim_signing ::
  "repo_config \<Rightarrow> string \<Rightarrow> int \<Rightarrow> repo \<Rightarrow> repo \<times> (exec_error + (hosted_execution_row \<times> bool))" where
  "claim_signing cfg eid now s =
     write_session s (\<lambda>s.
       and_then (repo_now now) (\<lambda>timestamp.
       and_then (require_row s eid) (\<lambda>row.
       case pilot_admission_denial cfg s (tenant_id row) (node_id row) timestamp False of
         Some reason \<Rightarrow> deny row reason 0 timestamp s
       | None \<Rightarrow>
           if status row = SIGNING then
             if deadline row \<le> timestamp
             then Inl (ExecutionConflict ''execution deadline has expired'')
             else if signing_claim_generation row \<le> 0
             then Inl (ExecutionConflict ''execution signing claim is invalid'')
             else case signing_claim_expires_at row of
                    None \<Rightarrow> Inl (ExecutionConflict ''execution signing claim is invalid'')
                  | Some expires \<Rightarrow>
                      if timestamp < expires then keep_claim row s
                      else finish_claim (take_claim timestamp row) s
           else if status row \<noteq> PREFLIGHT_APPROVED
           then Inl (ExecutionConflict ''execution cannot be claimed for signing'')
           else if deadline row \<le> timestamp
           then Inl (ExecutionConflict ''execution deadline has expired'')
           else finish_claim (take_claim timestamp (row\<lparr>status := SIGNING\<rparr>)) s)))"

definition gas_is_reserved :: "repo_config \<Rightarrow> hosted_execution_row \<Rightarrow> repo \<Rightarrow> bool" where
  "gas_is_reserved cfg row s \<longleftrightarrow>
     pilot_policy cfg = None \<or>
     (case locked_gate_reservation s (execution_id row) of
        None \<Rightarrow> False
      | Some g \<Rightarrow> gate_state g = GateReserved \<and> 0 < gas_cost_usd_micros g \<and> gas_utc_day g \<noteq> None)"

definition persist_signed_transaction ::
  "repo_config \<Rightarrow> string \<Rightarrow> bytes \<Rightarrow> bytes \<Rightarrow> int \<Rightarrow> string option \<Rightarrow> int \<Rightarrow> repo
     \<Rightarrow> repo \<times> (exec_error + hosted_execution_row)" where
  "persist_signed_transaction cfg eid sig raw generation unsigned_hash now s =
     write_session s (\<lambda>s.
       if length sig \<noteq> 65 then Inl (ExecutionConflict ''signature is invalid'')
       else if raw = [] then Inl (ExecutionConflict ''raw transaction is invalid'')
       else if generation \<le> 0 then Inl (ExecutionConflict ''signing claim is invalid'')
       else and_then (repo_now now) (\<lambda>timestamp.
       and_then (ethereum_transaction_hash cfg raw) (\<lambda>raw_hash.
       and_then (require_row s eid) (\<lambda>row.
       if signing_claim_generation row \<noteq> generation
       then Inl (ExecutionConflict ''signing claim is stale'')
       else if status row = SIGNED then
         if signature row \<noteq> Some sig \<or> raw_transaction row \<noteq> Some raw
         then Inl (ExecutionConflict ''signed raw transaction is immutable'')
         else unchanged row s
       else if status row \<noteq> SIGNING
       then Inl (ExecutionConflict ''execution is not awaiting signing'')
       else if deadline row \<le> timestamp
       then Inl (ExecutionConflict ''execution deadline has expired'')
       else case pilot_admission_denial cfg s (tenant_id row) (node_id row) timestamp False of
         Some reason \<Rightarrow> deny row reason 0 timestamp s
       | None \<Rightarrow>
           if \<not> gas_is_reserved cfg row s
           then Inl (ExecutionConflict ''gas budget reservation is unavailable'')
           else
             let row' = row\<lparr>signature := Some sig, raw_transaction := Some raw,
                   raw_transaction_hash := Some raw_hash,
                   unsigned_transaction_hash := unsigned_hash,
                   signing_claim_expires_at := None, status := SIGNED, updated_at := timestamp\<rparr>
             in and_then (add_attempt row' ''signed'' raw_hash 0 timestamp s) (\<lambda>s'. finish row' s')))))"

section \<open>Submission\<close>

definition require_hash :: "hosted_execution_row \<Rightarrow> exec_error + string" where
  "require_hash row = lift_opt (ExecutionConflict ''transaction hash is missing'') (raw_transaction_hash row)"

text \<open>Counting a broadcast: the attempt number grows and the time is noted.\<close>

definition count_broadcast :: "int \<Rightarrow> hosted_execution_row \<Rightarrow> hosted_execution_row" where
  "count_broadcast now row =
     row\<lparr>broadcast_attempts := broadcast_attempts row + 1, broadcasted_at := Some now\<rparr>"

text \<open>
  The pilot gate of a broadcast: pauses first, then the gas of the current day. The
  continuation runs when the gate is open; a denial commits its event.
\<close>

definition gated_broadcast ::
  "repo_config \<Rightarrow> hosted_execution_row \<Rightarrow> int \<Rightarrow> repo
     \<Rightarrow> (repo \<Rightarrow> exec_error + (repo \<times> (exec_error + 'a)))
     \<Rightarrow> exec_error + (repo \<times> (exec_error + 'a))" where
  "gated_broadcast cfg row timestamp s k =
     (if pilot_policy cfg = None then k s
      else case pilot_admission_denial cfg s (tenant_id row) (node_id row) timestamp False of
        Some reason \<Rightarrow> deny row reason 0 timestamp s
      | None \<Rightarrow>
          and_then (ensure_pilot_gas_reservation cfg row timestamp s) (\<lambda>(s', denial).
            case denial of
              Some reason \<Rightarrow> deny row reason 0 timestamp s'
            | None \<Rightarrow> k s'))"

definition claim_submission ::
  "repo_config \<Rightarrow> string \<Rightarrow> int \<Rightarrow> repo \<Rightarrow> repo \<times> (exec_error + (hosted_execution_row \<times> bool))" where
  "claim_submission cfg eid now s =
     write_session s (\<lambda>s.
       and_then (repo_now now) (\<lambda>timestamp.
       and_then (require_row s eid) (\<lambda>row.
       gated_broadcast cfg row timestamp s (\<lambda>s.
         if status row = SUBMISSION_UNKNOWN
         then and_then (require_raw_transaction cfg row) (\<lambda>_. keep_claim row s)
         else if status row \<noteq> SIGNED
         then Inl (ExecutionConflict ''execution cannot be claimed for submission'')
         else and_then (require_raw_transaction cfg row) (\<lambda>_.
           and_then (require_hash row) (\<lambda>raw_hash.
             let row' = (count_broadcast timestamp row)
                   \<lparr>status := SUBMISSION_UNKNOWN, updated_at := timestamp\<rparr>
             in and_then (add_attempt row' ''broadcast_claimed'' raw_hash
                    (broadcast_attempts row') timestamp s)
                  (\<lambda>s'. finish_claim row' s')))))))"

definition mark_submitted ::
  "repo_config \<Rightarrow> string \<Rightarrow> int \<Rightarrow> repo \<Rightarrow> repo \<times> (exec_error + hosted_execution_row)" where
  "mark_submitted cfg eid now s =
     write_session s (\<lambda>s.
       and_then (repo_now now) (\<lambda>timestamp.
       and_then (require_row s eid) (\<lambda>row.
       if status row = SUBMITTED
       then and_then (require_raw_transaction cfg row) (\<lambda>_. unchanged row s)
       else if status row \<notin> {SIGNED, SUBMISSION_UNKNOWN, SUBMISSION_REJECTED}
       then Inl (ExecutionConflict ''only a signed execution may be submitted'')
       else and_then (require_raw_transaction cfg row) (\<lambda>_.
         and_then (require_hash row) (\<lambda>raw_hash.
           let counted = (if status row = SIGNED then count_broadcast timestamp row else row);
               row' = counted\<lparr>status := SUBMITTED, submission_failure_code := None,
                      updated_at := timestamp\<rparr>
           in if status row = SIGNED
              then and_then (add_attempt row' ''broadcast'' raw_hash
                     (broadcast_attempts row') timestamp s) (\<lambda>s'. finish row' s')
              else finish row' s)))))"

definition mark_submission_unknown ::
  "repo_config \<Rightarrow> string \<Rightarrow> int \<Rightarrow> repo \<Rightarrow> repo \<times> (exec_error + hosted_execution_row)" where
  "mark_submission_unknown cfg eid now s =
     write_session s (\<lambda>s.
       and_then (repo_now now) (\<lambda>timestamp.
       and_then (require_row s eid) (\<lambda>row.
       if status row = SUBMISSION_UNKNOWN
       then and_then (require_raw_transaction cfg row) (\<lambda>_. unchanged row s)
       else if status row \<notin> {SIGNED, SUBMITTED, SUBMISSION_REJECTED}
       then Inl (ExecutionConflict ''execution cannot become submission_unknown'')
       else and_then (require_raw_transaction cfg row) (\<lambda>_.
         let cleared = (if status row = SUBMISSION_REJECTED
                        then row\<lparr>submission_failure_code := None\<rparr> else row)
         in if status row = SIGNED
            then and_then (require_hash row) (\<lambda>raw_hash.
              let row' = (count_broadcast timestamp cleared)
                    \<lparr>status := SUBMISSION_UNKNOWN, updated_at := timestamp\<rparr>
              in and_then (add_attempt row' ''broadcast_unknown'' raw_hash
                     (broadcast_attempts row') timestamp s) (\<lambda>s'. finish row' s'))
            else finish (cleared\<lparr>status := SUBMISSION_UNKNOWN, updated_at := timestamp\<rparr>) s))))"

definition mark_submission_rejected ::
  "repo_config \<Rightarrow> string \<Rightarrow> string \<Rightarrow> int \<Rightarrow> repo \<Rightarrow> repo \<times> (exec_error + hosted_execution_row)" where
  "mark_submission_rejected cfg eid reason_code now s =
     write_session s (\<lambda>s.
       if \<not> is_reason_code 63 reason_code
       then Inl (ExecutionConflict ''submission failure code is invalid'')
       else and_then (repo_now now) (\<lambda>timestamp.
       and_then (require_row s eid) (\<lambda>row.
       if status row = SUBMISSION_REJECTED
       then and_then (require_raw_transaction cfg row) (\<lambda>_.
         if submission_failure_code row \<noteq> Some reason_code
         then Inl (ExecutionConflict ''submission failure reason conflicts'')
         else unchanged row s)
       else if status row \<notin> {SIGNED, SUBMISSION_UNKNOWN}
       then Inl (ExecutionConflict ''only a signed execution may be rejected'')
       else and_then (require_raw_transaction cfg row) (\<lambda>_.
         and_then (require_hash row) (\<lambda>raw_hash.
           let counted = (if status row = SIGNED then count_broadcast timestamp row else row);
               row' = counted\<lparr>submission_failure_code := Some reason_code,
                      status := SUBMISSION_REJECTED, updated_at := timestamp\<rparr>
           in if status row = SIGNED
              then and_then (add_attempt row' ''broadcast_rejected'' raw_hash
                     (broadcast_attempts row') timestamp s) (\<lambda>s'. finish row' s')
              else finish row' s)))))"

definition rebroadcast_raw_transaction ::
  "repo_config \<Rightarrow> string \<Rightarrow> bytes option \<Rightarrow> int \<Rightarrow> repo \<Rightarrow> repo \<times> (exec_error + bytes)" where
  "rebroadcast_raw_transaction cfg eid raw now s =
     write_session s (\<lambda>s.
       and_then (repo_now now) (\<lambda>timestamp.
       and_then (require_row s eid) (\<lambda>row.
       if status row \<notin> {SUBMITTED, SUBMISSION_UNKNOWN, SUBMISSION_REJECTED}
       then Inl (ExecutionConflict ''replacement or rebroadcast is not allowed'')
       else and_then (require_raw_transaction cfg row) (\<lambda>stored.
         if raw \<noteq> None \<and> raw \<noteq> Some stored
         then Inl (ExecutionConflict ''raw transaction replacement is forbidden'')
         else and_then (require_hash row) (\<lambda>raw_hash.
           gated_broadcast cfg row timestamp s (\<lambda>s.
             let row' = row\<lparr>broadcast_attempts := broadcast_attempts row + 1,
                   updated_at := timestamp\<rparr>
             in and_then (add_attempt row' ''rebroadcast'' raw_hash
                    (broadcast_attempts row') timestamp s)
                (\<lambda>s'. and_then (save_row row' s') (\<lambda>s''. Inr (s'', Inr stored)))))))))"

section \<open>Release, finality and review\<close>

text \<open>The direct transition of the state table; most targets need a dedicated operation.\<close>

definition transition ::
  "repo_config \<Rightarrow> string \<Rightarrow> execution_state \<Rightarrow> execution_state option \<Rightarrow> int \<Rightarrow> repo
     \<Rightarrow> repo \<times> (exec_error + hosted_execution_row)" where
  "transition cfg eid target expected now s =
     write_session s (\<lambda>s.
       and_then (repo_now now) (\<lambda>timestamp.
       and_then (require_row s eid) (\<lambda>current.
       if expected \<noteq> None \<and> expected \<noteq> Some (status current)
       then Inl (ExecutionConflict ''execution state changed'')
       else if target \<notin> allowed_transitions (status current)
       then Inl (ExecutionConflict ''execution state transition is not allowed'')
       else if target \<in> {SIGNING, SIGNED, SUBMITTED, SUBMISSION_UNKNOWN, CONFIRMED, REVERTED,
                         REORG_REVIEW}
       then Inl (ExecutionConflict ''state requires dedicated persistence or watcher evidence'')
       else if target \<in> {EXPIRED, RELEASED}
         \<and> (signature current \<noteq> None \<or> raw_transaction current \<noteq> None)
       then Inl (ExecutionConflict ''signed execution cannot be released'')
       else if target \<in> {EXPIRED, RELEASED} \<and> timestamp < deadline current
       then Inl (ExecutionConflict ''execution deadline has not expired'')
       else
         let moved = current\<lparr>status := target\<rparr>;
             dated = (if target = RELEASED then moved\<lparr>released_at := Some timestamp\<rparr>
                      else if target = EXPIRED then moved\<lparr>expired_at := Some timestamp\<rparr>
                      else moved)
         in if target \<in> {EXPIRED, RELEASED}
            then and_then (mark_gate_terminal cfg current GateReleased ''deadline_expired'' True
                     timestamp s)
                   (\<lambda>s'. finish (dated\<lparr>signing_claim_expires_at := None,
                      updated_at := timestamp\<rparr>) s')
            else finish (dated\<lparr>updated_at := timestamp\<rparr>) s)))"

definition release_expired ::
  "repo_config \<Rightarrow> string \<Rightarrow> int \<Rightarrow> repo \<Rightarrow> repo \<times> (exec_error + hosted_execution_row)" where
  "release_expired cfg eid now s =
     write_session s (\<lambda>s.
       and_then (repo_now now) (\<lambda>timestamp.
       and_then (require_row s eid) (\<lambda>row.
       if status row \<in> {RELEASED, EXPIRED} then unchanged row s
       else if status row \<notin> {PREFLIGHT_APPROVED, SIGNING}
       then Inl (ExecutionConflict ''signed execution cannot be released'')
       else if timestamp < deadline row
       then Inl (ExecutionConflict ''execution deadline has not expired'')
       else if signature row \<noteq> None \<or> raw_transaction row \<noteq> None
       then Inl (ExecutionConflict ''signed execution cannot be released'')
       else and_then (mark_gate_terminal cfg row GateReleased ''deadline_expired'' True timestamp s)
         (\<lambda>s'. finish (row\<lparr>status := RELEASED, signing_claim_expires_at := None,
            released_at := Some timestamp, updated_at := timestamp\<rparr>) s'))))"

definition finalize ::
  "repo_config \<Rightarrow> string \<Rightarrow> string \<Rightarrow> int \<Rightarrow> repo \<Rightarrow> repo \<times> (exec_error + hosted_execution_row)" where
  "finalize cfg eid boundary now s =
     write_session s (\<lambda>s.
       and_then (repo_now now) (\<lambda>timestamp.
       and_then (require_row s eid) (\<lambda>row.
       and_then (lift_opt (ExecutionConflict ''execution chain is not supported'')
         (hosted_chain_profile (chain row))) (\<lambda>profile.
       if boundary \<noteq> finality_boundary_of profile
       then Inl (ExecutionConflict ''finality boundary does not match execution chain'')
       else if status row = FINALIZED then
         if safe_block_number row = None \<or> safe_block_hash row = None
         then Inl (ExecutionConflict ''finality evidence is missing'')
         else if finality_boundary row \<noteq> Some (finality_boundary_of profile)
         then Inl (ExecutionConflict ''finality boundary does not match execution chain'')
         else unchanged row s
       else if status row \<noteq> CONFIRMED
       then Inl (ExecutionConflict ''only a confirmed execution may be finalized'')
       else if safe_block_number row = None \<or> safe_block_hash row = None
       then Inl (ExecutionConflict ''finality evidence is missing'')
       else if finality_boundary row \<noteq> Some boundary
       then Inl (ExecutionConflict ''finality boundary conflicts with confirmation'')
       else and_then (mark_gate_terminal cfg row GateSettled ''execution_finalized'' False timestamp s)
         (\<lambda>s'. finish (row\<lparr>status := FINALIZED, finalized_at := Some timestamp,
            updated_at := timestamp\<rparr>) s')))))"

text \<open>What a watcher reports of a receipt.\<close>

record observation =
  obs_receipt_status :: int
  obs_block_number :: int
  obs_block_hash :: string
  obs_confirmations :: int
  obs_safe_block_number :: int
  obs_safe_block_hash :: string
  obs_watcher_version :: string
  obs_finality_boundary :: string

definition watcher_version_ok :: "string \<Rightarrow> bool" where
  "watcher_version_ok v \<longleftrightarrow> v \<noteq> '''' \<and> length v \<le> 128 \<and> \<not> list_ex is_control_char v"

text \<open>\<open>value.lower() if value else None\<close>.\<close>

definition lower_or_none :: "string \<Rightarrow> string option" where
  "lower_or_none h = (if h = '''' then None else Some (lower h))"

definition lower_column :: "string option \<Rightarrow> string option" where
  "lower_column h = (case h of None \<Rightarrow> None | Some v \<Rightarrow> lower_or_none v)"

text \<open>\<open>_replayed_observation\<close>: the exact replay, with no second observation.\<close>

definition observation_matches ::
  "hosted_execution_row \<Rightarrow> observation \<Rightarrow> pydict \<Rightarrow> hosted_execution_observation_row \<Rightarrow> bool" where
  "observation_matches row ob evidence o1 \<longleftrightarrow>
     Some (observation_tx_hash o1) = raw_transaction_hash row \<and>
     observation_block_number o1 = obs_block_number ob \<and>
     lower (observation_block_hash o1) = lower (obs_block_hash ob) \<and>
     observation_receipt_status o1 = obs_receipt_status ob \<and>
     observation_confirmations o1 = obs_confirmations ob \<and>
     observation_safe_block_number o1 = Some (obs_safe_block_number ob) \<and>
     lower_column (observation_safe_block_hash o1) = lower_or_none (obs_safe_block_hash ob) \<and>
     observation_watcher_version o1 = obs_watcher_version ob \<and>
     observation_canonical o1 \<and>
     py_eq (PDict (observation_evidence o1)) (PDict evidence)"

definition row_matches_observation :: "hosted_execution_row \<Rightarrow> observation \<Rightarrow> bool" where
  "row_matches_observation row ob \<longleftrightarrow>
     receipt_status row = Some (obs_receipt_status ob) \<and>
     receipt_block_number row = Some (obs_block_number ob) \<and>
     lower_column (receipt_block_hash row) = Some (lower (obs_block_hash ob)) \<and>
     confirmations row = obs_confirmations ob \<and>
     safe_block_number row = Some (obs_safe_block_number ob) \<and>
     lower_column (safe_block_hash row) = lower_or_none (obs_safe_block_hash ob) \<and>
     watcher_version row = Some (obs_watcher_version ob) \<and>
     finality_boundary row = Some (obs_finality_boundary ob)"

definition replayed_observation ::
  "repo_config \<Rightarrow> hosted_execution_row \<Rightarrow> observation \<Rightarrow> pydict \<Rightarrow> repo
     \<Rightarrow> exec_error + (repo \<times> (exec_error + hosted_execution_row))" where
  "replayed_observation cfg row ob evidence s =
     and_then (require_raw_transaction cfg row) (\<lambda>_.
       case filter (\<lambda>x. observation_execution_id x = execution_id row) (observations s) of
         [o1] \<Rightarrow>
           if observation_matches row ob evidence o1 \<and> row_matches_observation row ob
           then unchanged row s
           else Inl (ExecutionConflict ''watcher observation replay conflicts with evidence'')
       | _ \<Rightarrow> Inl (ExecutionConflict ''watcher observation replay is inconsistent''))"

text \<open>The columns an observation writes.\<close>

definition observed_row ::
  "execution_state \<Rightarrow> observation \<Rightarrow> int \<Rightarrow> hosted_execution_row \<Rightarrow> hosted_execution_row" where
  "observed_row target ob now row =
     (let r = row\<lparr>receipt_status := Some (obs_receipt_status ob),
            receipt_block_number := Some (obs_block_number ob),
            receipt_block_hash := Some (lower (obs_block_hash ob)),
            confirmations := obs_confirmations ob,
            safe_block_number := Some (obs_safe_block_number ob),
            safe_block_hash := lower_or_none (obs_safe_block_hash ob),
            watcher_version := Some (obs_watcher_version ob),
            finality_boundary := Some (obs_finality_boundary ob)\<rparr>
      in (if target = REVERTED then r\<lparr>reverted_at := Some now\<rparr> else r\<lparr>confirmed_at := Some now\<rparr>)
           \<lparr>status := target, updated_at := now\<rparr>)"

definition observation_row ::
  "hosted_execution_row \<Rightarrow> string \<Rightarrow> observation \<Rightarrow> pydict \<Rightarrow> int \<Rightarrow> hosted_execution_observation_row" where
  "observation_row row tx_hash ob evidence now =
     \<lparr>observation_execution_id = execution_id row, observation_tx_hash = tx_hash,
      observation_block_number = obs_block_number ob,
      observation_block_hash = lower (obs_block_hash ob),
      observation_receipt_status = obs_receipt_status ob,
      observation_confirmations = obs_confirmations ob,
      observation_safe_block_number = Some (obs_safe_block_number ob),
      observation_safe_block_hash = lower_or_none (obs_safe_block_hash ob),
      observation_watcher_version = obs_watcher_version ob, observation_canonical = True,
      observation_evidence = evidence, observed_at = now\<rparr>"

text \<open>Adding an observation; (execution, transaction, block) is unique.\<close>

definition insert_observation ::
  "hosted_execution_observation_row \<Rightarrow> repo \<Rightarrow> exec_error + repo" where
  "insert_observation o1 s =
     (if list_ex (\<lambda>x. observation_execution_id x = observation_execution_id o1
           \<and> observation_tx_hash x = observation_tx_hash o1
           \<and> observation_block_hash x = observation_block_hash o1) (observations s)
      then Inl IntegrityError
      else Inr (s\<lparr>observations := observations s @ [o1]\<rparr>))"

definition record_observation ::
  "repo_config \<Rightarrow> string \<Rightarrow> execution_state \<Rightarrow> observation \<Rightarrow> pyval \<Rightarrow> int \<Rightarrow> repo
     \<Rightarrow> repo \<times> (exec_error + hosted_execution_row)" where
  "record_observation cfg eid target ob evidence0 now s =
     write_session s (\<lambda>s.
       if \<not> watcher_version_ok (obs_watcher_version ob)
       then Inl (ExecutionConflict ''watcher evidence is invalid'')
       else and_then (public_evidence OBSERVATION_EVIDENCE_KEYS evidence0) (\<lambda>evidence.
       and_then (repo_now now) (\<lambda>timestamp.
       and_then (require_row s eid) (\<lambda>row.
       and_then (lift_opt (ExecutionConflict ''execution chain is not supported'')
         (hosted_chain_profile (chain row))) (\<lambda>profile.
       if obs_finality_boundary ob \<noteq> finality_boundary_of profile
       then Inl (ExecutionConflict ''finality boundary does not match execution chain'')
       else and_then (require_finality_boundary (obs_block_number ob) (obs_confirmations ob)
         (obs_safe_block_number ob) (obs_safe_block_hash ob) (obs_finality_boundary ob)
         (min_confirmation_depth profile)) (\<lambda>_.
       if status row = target then replayed_observation cfg row ob evidence s
       else if target = CONFIRMED
         \<and> status row \<notin> {SUBMITTED, SUBMISSION_UNKNOWN, SUBMISSION_REJECTED}
       then Inl (ExecutionConflict ''execution is not awaiting confirmation'')
       else if target = REVERTED
         \<and> status row \<notin> {SUBMITTED, SUBMISSION_UNKNOWN, SUBMISSION_REJECTED}
       then Inl (ExecutionConflict ''execution is not awaiting revert evidence'')
       else and_then (require_hash row) (\<lambda>tx_hash.
         let row' = observed_row target ob timestamp row in
         and_then (if target = REVERTED
                   then mark_gate_terminal cfg row GateSettled ''execution_reverted'' False timestamp s
                   else Inr s) (\<lambda>s1.
         and_then (insert_observation (observation_row row tx_hash ob evidence timestamp) s1)
           (\<lambda>s2. finish row' s2)))))))))"

definition confirm ::
  "repo_config \<Rightarrow> string \<Rightarrow> observation \<Rightarrow> pyval option \<Rightarrow> int \<Rightarrow> repo
     \<Rightarrow> repo \<times> (exec_error + hosted_execution_row)" where
  "confirm cfg eid ob evidence now s =
     (if obs_receipt_status ob \<noteq> 1
      then (s, Inl (ExecutionConflict ''only a successful receipt may be confirmed''))
      else record_observation cfg eid CONFIRMED ob
        (case evidence of
           None \<Rightarrow> PDict [(''boundary'', PStr (obs_finality_boundary ob))] | Some e \<Rightarrow> e) now s)"

definition revert ::
  "repo_config \<Rightarrow> string \<Rightarrow> observation \<Rightarrow> bool \<Rightarrow> pyval option \<Rightarrow> int \<Rightarrow> repo
     \<Rightarrow> repo \<times> (exec_error + hosted_execution_row)" where
  "revert cfg eid ob accepted_transfer evidence now s =
     (if obs_receipt_status ob \<noteq> 0 \<or> accepted_transfer
      then (s, Inl (ExecutionConflict ''revert requires proof of no accepted transfer''))
      else record_observation cfg eid REVERTED ob
        (case evidence of
           None \<Rightarrow> PDict [(''accepted_transfer'', PBool False)] | Some e \<Rightarrow> e) now s)"

text \<open>The receipt identity a release must repeat, and the exact replay of a release.\<close>

definition receipt_identity_matches :: "hosted_execution_row \<Rightarrow> observation \<Rightarrow> bool" where
  "receipt_identity_matches row ob \<longleftrightarrow>
     receipt_status row = Some (obs_receipt_status ob) \<and>
     receipt_block_number row = Some (obs_block_number ob) \<and>
     map_option lower (receipt_block_hash row) = Some (lower (obs_block_hash ob)) \<and>
     watcher_version row = Some (obs_watcher_version ob) \<and>
     finality_boundary row = Some (obs_finality_boundary ob)"

definition same_release :: "hosted_execution_row \<Rightarrow> observation \<Rightarrow> pydict \<Rightarrow> bool" where
  "same_release row ob evidence \<longleftrightarrow>
     confirmations row = obs_confirmations ob \<and>
     safe_block_number row = Some (obs_safe_block_number ob) \<and>
     map_option lower (safe_block_hash row) = Some (lower (obs_safe_block_hash ob)) \<and>
     (case release_evidence row of
        None \<Rightarrow> False | Some e \<Rightarrow> py_eq (PDict e) (PDict evidence))"

definition release_arguments_ok :: "observation \<Rightarrow> exec_error + unit" where
  "release_arguments_ok ob =
     (if obs_receipt_status ob \<noteq> 0
      then Inl (ExecutionConflict ''release requires a reverted receipt'')
      else if \<not> is_hex_string 64 (obs_block_hash ob)
      then Inl (ExecutionConflict ''receipt block evidence is invalid'')
      else if \<not> is_hex_string 64 (obs_safe_block_hash ob)
      then Inl (ExecutionConflict ''safe boundary evidence is invalid'')
      else if \<not> watcher_version_ok (obs_watcher_version ob)
      then Inl (ExecutionConflict ''watcher evidence is invalid'')
      else Inr ())"

definition evidence_timestamp :: "pydict \<Rightarrow> int" where
  "evidence_timestamp e =
     (case dget e ''finality_boundary_timestamp'' of PInt t \<Rightarrow> t | _ \<Rightarrow> 0)"

text \<open>The release of a reverted row, once its identity matched.\<close>

definition release_reverted_row ::
  "repo_config \<Rightarrow> hosted_execution_row \<Rightarrow> observation \<Rightarrow> pydict \<Rightarrow> int \<Rightarrow> repo
     \<Rightarrow> exec_error + (repo \<times> (exec_error + hosted_execution_row))" where
  "release_reverted_row cfg row ob evidence timestamp s =
     (if release_evidence row \<noteq> None
      then Inl (ExecutionConflict ''release evidence is already recorded'')
      else if (case reverted_at row of None \<Rightarrow> True | Some t \<Rightarrow> timestamp < t)
      then Inl (ExecutionConflict ''release timestamp is invalid'')
      else if obs_confirmations ob < confirmations row
        \<or> (case safe_block_number row of None \<Rightarrow> True | Some n \<Rightarrow> obs_safe_block_number ob < n)
      then Inl (ExecutionConflict ''release finality boundary regressed'')
      else if Some (obs_safe_block_number ob) = safe_block_number row
        \<and> map_option lower (safe_block_hash row) \<noteq> Some (lower (obs_safe_block_hash ob))
      then Inl (ExecutionConflict ''release finality boundary changed'')
      else and_then (release_gate_reservation cfg row timestamp s) (\<lambda>s'.
        finish (row\<lparr>release_evidence := Some evidence, confirmations := obs_confirmations ob,
          safe_block_number := Some (obs_safe_block_number ob),
          safe_block_hash := Some (lower (obs_safe_block_hash ob)), status := RELEASED,
          released_at := Some timestamp, updated_at := timestamp\<rparr>) s'))"

definition release_reverted ::
  "repo_config \<Rightarrow> string \<Rightarrow> observation \<Rightarrow> pyval \<Rightarrow> int \<Rightarrow> repo
     \<Rightarrow> repo \<times> (exec_error + hosted_execution_row)" where
  "release_reverted cfg eid ob release_evidence0 now s =
     write_session s (\<lambda>s.
       and_then (release_evidence_of release_evidence0) (\<lambda>evidence.
       and_then (release_arguments_ok ob) (\<lambda>_.
       and_then (repo_now now) (\<lambda>timestamp.
       and_then (require_row s eid) (\<lambda>row.
       and_then (lift_opt (ExecutionConflict ''execution chain is not supported'')
         (hosted_chain_profile (chain row))) (\<lambda>profile.
       if obs_finality_boundary ob \<noteq> finality_boundary_of profile
       then Inl (ExecutionConflict ''finality boundary does not match execution chain'')
       else and_then (require_finality_boundary (obs_block_number ob) (obs_confirmations ob)
         (obs_safe_block_number ob) (obs_safe_block_hash ob) (obs_finality_boundary ob)
         (min_confirmation_depth profile)) (\<lambda>_.
       if evidence_timestamp evidence < deadline row
       then Inl (ExecutionConflict ''release finality boundary precedes deadline'')
       else if timestamp < evidence_timestamp evidence
       then Inl (ExecutionConflict ''release finality boundary is in the future'')
       else if \<not> receipt_identity_matches row ob
       then Inl (ExecutionConflict ''release evidence identity conflicts'')
       else if status row = RELEASED then
         if \<not> same_release row ob evidence
         then Inl (ExecutionConflict ''release evidence changed'') else unchanged row s
       else if status row \<noteq> REVERTED
       then Inl (ExecutionConflict ''only a reverted execution can be released'')
       else release_reverted_row cfg row ob evidence timestamp s)))))))"

definition mark_reorg_review ::
  "string \<Rightarrow> pyval \<Rightarrow> int \<Rightarrow> repo \<Rightarrow> repo \<times> (exec_error + hosted_execution_row)" where
  "mark_reorg_review eid evidence0 now s =
     write_session s (\<lambda>s.
       and_then (public_evidence REORG_EVIDENCE_KEYS evidence0) (\<lambda>evidence.
       if dget evidence ''canonical'' \<noteq> PBool False
       then Inl (ExecutionConflict ''reorg evidence is invalid'')
       else and_then (repo_now now) (\<lambda>timestamp.
       and_then (require_row s eid) (\<lambda>row.
       if status row \<noteq> FINALIZED
       then Inl (ExecutionConflict ''only finalized execution can enter reorg_review'')
       else finish (row\<lparr>status := REORG_REVIEW, reorg_state := ''review'',
         reorg_evidence := Some evidence, reorg_reviewed_at := Some timestamp,
         updated_at := timestamp\<rparr>) s))))"

end
