(* ===== verification/Execution_Frame.thy ===== *)
theory Execution_Frame
  imports Execution_Repository
begin

text \<open>
  How one operation may change the execution table. \<open>row_evolves\<close> says what may happen to a
  row between two commits; \<open>rows_evolve\<close> lifts it to the table. The predicate \<open>commits\<close>
  states a postcondition of a transaction body, with one rule per construct of the bodies,
  so that each operation's proof follows its text.
\<close>

named_theorems commits_rules \<open>rules for the postcondition of a transaction body\<close>

section \<open>Postconditions of transaction bodies\<close>

definition commits :: "('s \<Rightarrow> 'r \<Rightarrow> bool) \<Rightarrow> 'e + ('s \<times> 'r) \<Rightarrow> bool" where
  "commits P x = (case x of Inl e \<Rightarrow> True | Inr (t, r) \<Rightarrow> P t r)"

definition delivers :: "('a \<Rightarrow> bool) \<Rightarrow> 'e + 'a \<Rightarrow> bool" where
  "delivers P x = (case x of Inl e \<Rightarrow> True | Inr v \<Rightarrow> P v)"

section \<open>Evolution of a row\<close>

text \<open>The edges an operation may move a status along.\<close>

fun lifecycle :: "execution_state \<Rightarrow> execution_state set" where
  "lifecycle REQUESTED = {PREFLIGHT_APPROVED, EXPIRED, RELEASED}"
| "lifecycle PREFLIGHT_APPROVED = {SIGNING, EXPIRED, RELEASED}"
| "lifecycle SIGNING = {SIGNED, EXPIRED, RELEASED}"
| "lifecycle SIGNED = {SUBMITTED, SUBMISSION_UNKNOWN, SUBMISSION_REJECTED}"
| "lifecycle SUBMITTED = {SUBMISSION_UNKNOWN, CONFIRMED, REVERTED}"
| "lifecycle SUBMISSION_UNKNOWN = {SUBMITTED, SUBMISSION_REJECTED, CONFIRMED, REVERTED}"
| "lifecycle SUBMISSION_REJECTED = {SUBMITTED, SUBMISSION_UNKNOWN, CONFIRMED, REVERTED}"
| "lifecycle CONFIRMED = {FINALIZED}"
| "lifecycle FINALIZED = {REORG_REVIEW}"
| "lifecycle REVERTED = {RELEASED}"
| "lifecycle EXPIRED = {}"
| "lifecycle RELEASED = {}"
| "lifecycle REORG_REVIEW = {}"

definition same_scope :: "hosted_execution_row \<Rightarrow> hosted_execution_row \<Rightarrow> bool" where
  "same_scope e e' \<longleftrightarrow>
     intent_columns.truncate e' = intent_columns.truncate e \<and>
     execution_id e' = execution_id e \<and> canonical_payload e' = canonical_payload e \<and>
     canonical_hash e' = canonical_hash e \<and> relayer_nonce e' = relayer_nonce e"

definition same_signed_material :: "hosted_execution_row \<Rightarrow> hosted_execution_row \<Rightarrow> bool" where
  "same_signed_material e e' \<longleftrightarrow>
     signature e' = signature e \<and> raw_transaction e' = raw_transaction e \<and>
     raw_transaction_hash e' = raw_transaction_hash e"

text \<open>Evidence that a receipt is beyond the finality boundary of the row's chain.\<close>

definition final_evidence :: "hosted_execution_row \<Rightarrow> bool" where
  "final_evidence e \<longleftrightarrow>
     (\<exists>p b n. hosted_chain_profile (chain e) = Some p \<and>
        finality_boundary e = Some (finality_boundary_of p) \<and>
        min_confirmation_depth p \<le> confirmations e \<and>
        receipt_block_number e = Some b \<and> safe_block_number e = Some n \<and> b \<le> n)"

definition has_signed_transaction :: "repo_config \<Rightarrow> hosted_execution_row \<Rightarrow> bool" where
  "has_signed_transaction cfg e \<longleftrightarrow>
     signature e \<noteq> None \<and>
     (\<exists>raw h. raw_transaction e = Some raw \<and> ethereum_transaction_hash cfg raw = Inr h \<and>
        raw_transaction_hash e = Some h)"

text \<open>What each status promises about the row's other columns.\<close>

definition row_inv :: "repo_config \<Rightarrow> hosted_execution_row \<Rightarrow> bool" where
  "row_inv cfg e \<longleftrightarrow>
     (status e \<in> {REQUESTED, PREFLIGHT_APPROVED, SIGNING, EXPIRED} \<longrightarrow> \<not> tainted e) \<and>
     (status e \<in> {SIGNED, SUBMITTED, SUBMISSION_UNKNOWN, SUBMISSION_REJECTED, CONFIRMED,
                  FINALIZED, REVERTED, REORG_REVIEW} \<longrightarrow> has_signed_transaction cfg e) \<and>
     (needs_finality (status e) \<longrightarrow> final_evidence e) \<and>
     (status e \<in> {CONFIRMED, FINALIZED, REORG_REVIEW} \<longrightarrow> receipt_status e = Some 1) \<and>
     (status e = REVERTED \<longrightarrow> receipt_status e = Some 0) \<and>
     (status e = RELEASED \<and> tainted e \<longrightarrow>
        receipt_status e = Some 0 \<and> final_evidence e \<and> release_evidence e \<noteq> None)"

text \<open>A signing lease is never shortened or dropped while its execution is being signed.\<close>

definition lease_kept :: "hosted_execution_row \<Rightarrow> hosted_execution_row \<Rightarrow> bool" where
  "lease_kept e e' \<longleftrightarrow>
     (status e = SIGNING \<and> status e' = SIGNING \<longrightarrow>
        (\<forall>a. signing_claim_expires_at e = Some a \<longrightarrow>
           (\<exists>b. signing_claim_expires_at e' = Some b \<and> a \<le> b)))"

definition row_evolves :: "repo_config \<Rightarrow> hosted_execution_row \<Rightarrow> hosted_execution_row \<Rightarrow> bool" where
  "row_evolves cfg e e' \<longleftrightarrow>
     same_scope e e' \<and>
     (status e' = status e \<or> status e' \<in> lifecycle (status e)) \<and>
     signing_claim_generation e \<le> signing_claim_generation e' \<and>
     broadcast_attempts e \<le> broadcast_attempts e' \<and> lease_kept e e' \<and>
     (row_inv cfg e \<longrightarrow>
        row_inv cfg e' \<and> (tainted e \<or> closed e \<longrightarrow> same_signed_material e e'))"

definition rows_evolve :: "repo_config \<Rightarrow> repo \<Rightarrow> repo \<Rightarrow> bool" where
  "rows_evolve cfg s t \<longleftrightarrow>
     list_all2 (row_evolves cfg) (executions s) (executions t) \<and> nonces t = nonces s"

section \<open>Rules for transaction bodies\<close>

lemma commits_simps [simp]:
  "commits P (Inl e)" "commits P (Inr (t, r)) \<longleftrightarrow> P t r"
  by (simp_all add: commits_def)

lemma delivers_simps [simp]: "delivers P (Inl e)" "delivers P (Inr v) \<longleftrightarrow> P v"
  by (simp_all add: delivers_def)

lemma commits_and_then [commits_rules]:
  "(\<And>x. r = Inr x \<Longrightarrow> commits P (f x)) \<Longrightarrow> commits P (and_then r f)"
  by (cases r) auto

lemma commits_if [commits_rules]:
  "(c \<Longrightarrow> commits P x) \<Longrightarrow> (\<not> c \<Longrightarrow> commits P y) \<Longrightarrow> commits P (if c then x else y)"
  by simp

lemma commits_Let [commits_rules]: "commits P (f x) \<Longrightarrow> commits P (Let x f)"
  by simp

lemma commits_option [commits_rules]:
  "(x = None \<Longrightarrow> commits P a) \<Longrightarrow> (\<And>v. x = Some v \<Longrightarrow> commits P (f v)) \<Longrightarrow>
   commits P (case x of None \<Rightarrow> a | Some v \<Rightarrow> f v)"
  by (cases x) auto

lemma commits_list [commits_rules]:
  "(xs = [] \<Longrightarrow> commits P a) \<Longrightarrow> (\<And>y ys. xs = y # ys \<Longrightarrow> commits P (f y ys)) \<Longrightarrow>
   commits P (case xs of [] \<Rightarrow> a | y # ys \<Rightarrow> f y ys)"
  by (cases xs) auto

lemma commits_prod [commits_rules]:
  "(\<And>a b. x = (a, b) \<Longrightarrow> commits P (f a b)) \<Longrightarrow> commits P (case x of (a, b) \<Rightarrow> f a b)"
  by (cases x) auto

lemma commits_Inl [commits_rules]: "commits P (Inl e)"
  by simp

lemma commits_mono: "commits P x \<Longrightarrow> (\<And>t r. P t r \<Longrightarrow> Q t r) \<Longrightarrow> commits Q x"
  by (auto simp: commits_def split: sum.splits)

lemma commits_Inr: "commits P x \<Longrightarrow> x = Inr (t, r) \<Longrightarrow> P t r"
  by simp

lemma write_session_commits:
  "(\<And>e. P s (Inl e)) \<Longrightarrow> commits P (body s) \<Longrightarrow> P (fst (write_session s body)) (snd (write_session s body))"
  by (auto simp: write_session_def commits_def split: sum.splits)

lemma write_session_state:
  "P s \<Longrightarrow> commits (\<lambda>t _. P t) (body s) \<Longrightarrow> P (fst (write_session s body))"
  by (auto simp: write_session_def commits_def split: sum.splits)

section \<open>Rows through the helpers\<close>

lemma require_row_eq [simp]: "require_row s eid = Inr row \<longleftrightarrow> locked_execution s eid = Some row"
  by (simp add: require_row_def)

lemma locked_execution_in:
  "locked_execution s eid = Some row \<Longrightarrow> row \<in> set (executions s) \<and> execution_id row = eid"
  by (auto simp: locked_execution_def dest: sel_by_in)

lemma add_gate_event_frame [simp, frame_simps]:
  "executions (add_gate_event a b c d ty rs g n s) = executions s"
  "nonces (add_gate_event a b c d ty rs g n s) = nonces s"
  "attempts (add_gate_event a b c d ty rs g n s) = attempts s"
  "observations (add_gate_event a b c d ty rs g n s) = observations s"
  "controls (add_gate_event a b c d ty rs g n s) = controls s"
  "gate_reservations (add_gate_event a b c d ty rs g n s) = gate_reservations s"
  by (simp_all add: add_gate_event_def)

lemma row_gate_event_frame [simp, frame_simps]:
  "executions (row_gate_event row ty rs g n s) = executions s"
  "nonces (row_gate_event row ty rs g n s) = nonces s"
  "attempts (row_gate_event row ty rs g n s) = attempts s"
  "observations (row_gate_event row ty rs g n s) = observations s"
  "controls (row_gate_event row ty rs g n s) = controls s"
  "gate_reservations (row_gate_event row ty rs g n s) = gate_reservations s"
  by (simp_all add: row_gate_event_def)

lemma save_gate_frame [simp, frame_simps]:
  "executions (save_gate eid f s) = executions s"
  "nonces (save_gate eid f s) = nonces s"
  "attempts (save_gate eid f s) = attempts s"
  "observations (save_gate eid f s) = observations s"
  "controls (save_gate eid f s) = controls s"
  by (simp_all add: save_gate_def)

lemma save_row_eq: "save_row row s = Inr t \<longleftrightarrow> execution_row_checks row \<and>
    t = s\<lparr>executions := upd_by execution_id (execution_id row) (\<lambda>_. row) (executions s)\<rparr>"
  by (auto simp: save_row_def)

lemma add_attempt_frame:
  "add_attempt row k h n t s = Inr s' \<Longrightarrow>
     executions s' = executions s \<and> nonces s' = nonces s \<and> observations s' = observations s \<and>
     controls s' = controls s \<and> gate_reservations s' = gate_reservations s \<and>
     gate_events s' = gate_events s"
  by (auto simp: add_attempt_def split: if_splits)

lemma mark_gate_terminal_frame:
  "mark_gate_terminal cfg row st rc cg now s = Inr s' \<Longrightarrow>
     executions s' = executions s \<and> nonces s' = nonces s \<and> attempts s' = attempts s \<and>
     observations s' = observations s \<and> controls s' = controls s"
  by (auto simp: mark_gate_terminal_def result_simps split: if_splits)

lemma release_gate_reservation_frame:
  "release_gate_reservation cfg row now s = Inr s' \<Longrightarrow>
     executions s' = executions s \<and> nonces s' = nonces s \<and> attempts s' = attempts s \<and>
     observations s' = observations s \<and> controls s' = controls s"
  by (auto simp: release_gate_reservation_def result_simps split: if_splits)

lemma ensure_pilot_gas_frame:
  "ensure_pilot_gas_reservation cfg row now s = Inr (s', d) \<Longrightarrow>
     executions s' = executions s \<and> nonces s' = nonces s \<and> attempts s' = attempts s \<and>
     observations s' = observations s \<and> controls s' = controls s"
  by (auto simp: ensure_pilot_gas_reservation_def result_simps Let_def split: if_splits)

lemma insert_observation_frame:
  "insert_observation o1 s = Inr s' \<Longrightarrow>
     executions s' = executions s \<and> nonces s' = nonces s \<and> attempts s' = attempts s \<and>
     controls s' = controls s \<and> gate_reservations s' = gate_reservations s \<and>
     gate_events s' = gate_events s"
  by (auto simp: insert_observation_def split: if_splits)

lemma require_raw_transaction_Inr:
  "require_raw_transaction cfg row = Inr raw \<Longrightarrow>
     raw_transaction row = Some raw \<and> raw \<noteq> [] \<and>
     (\<exists>h. ethereum_transaction_hash cfg raw = Inr h \<and> raw_transaction_hash row = Some h)"
  by (auto simp: require_raw_transaction_def result_simps split: option.splits if_splits)

section \<open>Evolution: closure properties\<close>

lemma same_scope_refl [simp]: "same_scope e e"
  by (simp add: same_scope_def)

lemma row_evolves_refl [simp]: "row_evolves cfg e e"
  by (simp add: row_evolves_def same_signed_material_def lease_kept_def)

lemma rows_evolve_refl: "executions t = executions s \<Longrightarrow> nonces t = nonces s \<Longrightarrow> rows_evolve cfg s t"
  by (simp add: rows_evolve_def list_all2_same)

lemma list_all2_upd_by:
  "(\<And>r. r \<in> set t \<Longrightarrow> key r = k \<Longrightarrow> R r (f r)) \<Longrightarrow> (\<And>r. R r r) \<Longrightarrow> list_all2 R t (upd_by key k f t)"
  by (induction t) (auto simp: upd_by_def)

definition ids_distinct :: "repo \<Rightarrow> bool" where
  "ids_distinct s \<longleftrightarrow> distinct (map execution_id (executions s))"

lemma rows_evolve_save:
  assumes "ids_distinct s" and "locked_execution s eid = Some row"
    and "executions s' = executions s" "nonces s' = nonces s"
    and "save_row row' s' = Inr t" and "row_evolves cfg row row'"
  shows "rows_evolve cfg s t"
proof -
  from assms(2) have row: "row \<in> set (executions s)" "execution_id row = eid"
    by (auto dest: locked_execution_in)
  from assms(6) row have id': "execution_id row' = eid"
    by (simp add: row_evolves_def same_scope_def)
  have "list_all2 (row_evolves cfg) (executions s)
      (upd_by execution_id (execution_id row') (\<lambda>_. row') (executions s))"
  proof (rule list_all2_upd_by)
    fix r assume r: "r \<in> set (executions s)" "execution_id r = execution_id row'"
    with assms(1) row id' have "r = row"
      by (auto simp: ids_distinct_def intro: key_unique)
    with assms(6) show "row_evolves cfg r row'" by simp
  qed simp
  with assms(3-5) show ?thesis
    by (auto simp: rows_evolve_def save_row_eq)
qed

end
