(* ===== verification/Execution_Evolution.thy ===== *)
theory Execution_Evolution
  imports Execution_Frame
begin

text \<open>Every operation but allocation only moves existing rows along \<open>row_evolves\<close>.\<close>

lemma scope_simps [simp]:
  "intent_columns.truncate (e\<lparr>status := a\<rparr>) = intent_columns.truncate e"
  "intent_columns.truncate (e\<lparr>signature := b\<rparr>) = intent_columns.truncate e"
  "intent_columns.truncate (e\<lparr>raw_transaction := b\<rparr>) = intent_columns.truncate e"
  "intent_columns.truncate (e\<lparr>raw_transaction_hash := c\<rparr>) = intent_columns.truncate e"
  "intent_columns.truncate (e\<lparr>unsigned_transaction_hash := c\<rparr>) = intent_columns.truncate e"
  "intent_columns.truncate (e\<lparr>signing_claim_generation := i\<rparr>) = intent_columns.truncate e"
  "intent_columns.truncate (e\<lparr>signing_claim_expires_at := t\<rparr>) = intent_columns.truncate e"
  "intent_columns.truncate (e\<lparr>broadcast_attempts := i\<rparr>) = intent_columns.truncate e"
  "intent_columns.truncate (e\<lparr>broadcasted_at := t\<rparr>) = intent_columns.truncate e"
  "intent_columns.truncate (e\<lparr>receipt_status := t\<rparr>) = intent_columns.truncate e"
  "intent_columns.truncate (e\<lparr>receipt_block_number := t\<rparr>) = intent_columns.truncate e"
  "intent_columns.truncate (e\<lparr>receipt_block_hash := c\<rparr>) = intent_columns.truncate e"
  "intent_columns.truncate (e\<lparr>confirmations := i\<rparr>) = intent_columns.truncate e"
  "intent_columns.truncate (e\<lparr>safe_block_number := t\<rparr>) = intent_columns.truncate e"
  "intent_columns.truncate (e\<lparr>safe_block_hash := c\<rparr>) = intent_columns.truncate e"
  "intent_columns.truncate (e\<lparr>watcher_version := c\<rparr>) = intent_columns.truncate e"
  "intent_columns.truncate (e\<lparr>watcher_attempted_at := t\<rparr>) = intent_columns.truncate e"
  "intent_columns.truncate (e\<lparr>finality_boundary := c\<rparr>) = intent_columns.truncate e"
  "intent_columns.truncate (e\<lparr>reorg_state := st\<rparr>) = intent_columns.truncate e"
  "intent_columns.truncate (e\<lparr>reorg_evidence := ev\<rparr>) = intent_columns.truncate e"
  "intent_columns.truncate (e\<lparr>submission_failure_code := c\<rparr>) = intent_columns.truncate e"
  "intent_columns.truncate (e\<lparr>release_evidence := ev\<rparr>) = intent_columns.truncate e"
  "intent_columns.truncate (e\<lparr>confirmed_at := t\<rparr>) = intent_columns.truncate e"
  "intent_columns.truncate (e\<lparr>finalized_at := t\<rparr>) = intent_columns.truncate e"
  "intent_columns.truncate (e\<lparr>reverted_at := t\<rparr>) = intent_columns.truncate e"
  "intent_columns.truncate (e\<lparr>released_at := t\<rparr>) = intent_columns.truncate e"
  "intent_columns.truncate (e\<lparr>expired_at := t\<rparr>) = intent_columns.truncate e"
  "intent_columns.truncate (e\<lparr>reorg_reviewed_at := t\<rparr>) = intent_columns.truncate e"
  "intent_columns.truncate (e\<lparr>updated_at := i\<rparr>) = intent_columns.truncate e"
  by (simp_all add: intent_columns.defs)

lemmas row_evolution_defs =
  row_evolves_def lease_kept_def same_scope_def same_signed_material_def row_inv_def tainted_def closed_def
  needs_finality_def has_signed_transaction_def final_evidence_def

lemma commits_finish:
  assumes "ids_distinct s" "locked_execution s eid = Some row"
    "executions s' = executions s" "nonces s' = nonces s" "row_evolves cfg row row'"
  shows "commits (\<lambda>t _. rows_evolve cfg s t) (finish row' s')"
  using assms
  by (auto simp: finish_def intro!: commits_and_then intro: rows_evolve_save)

lemma commits_finish_claim:
  assumes "ids_distinct s" "locked_execution s eid = Some row"
    "executions s' = executions s" "nonces s' = nonces s" "row_evolves cfg row row'"
  shows "commits (\<lambda>t _. rows_evolve cfg s t) (finish_claim row' s')"
  using assms
  by (auto simp: finish_claim_def intro!: commits_and_then intro: rows_evolve_save)

lemma commits_unchanged [commits_rules]:
  "executions s' = executions s \<Longrightarrow> nonces s' = nonces s \<Longrightarrow>
   commits (\<lambda>t _. rows_evolve cfg s t) (unchanged row s')"
  by (auto simp: unchanged_def intro!: commits_and_then rows_evolve_refl)

lemma commits_keep_claim [commits_rules]:
  "executions s' = executions s \<Longrightarrow> nonces s' = nonces s \<Longrightarrow>
   commits (\<lambda>t _. rows_evolve cfg s t) (keep_claim row s')"
  by (auto simp: keep_claim_def intro!: commits_and_then rows_evolve_refl)

lemma commits_deny [commits_rules]:
  "executions s' = executions s \<Longrightarrow> nonces s' = nonces s \<Longrightarrow>
   commits (\<lambda>t _. rows_evolve cfg s t) (deny row reason gas now s')"
  by (auto simp: deny_def intro!: rows_evolve_refl)

lemma commits_gated:
  assumes "executions s' = executions s" "nonces s' = nonces s"
    and "\<And>s''. executions s'' = executions s \<Longrightarrow> nonces s'' = nonces s \<Longrightarrow>
       commits (\<lambda>t _. rows_evolve cfg s t) (k s'')"
  shows "commits (\<lambda>t _. rows_evolve cfg s t) (gated_broadcast cfg row now s' k)"
  unfolding gated_broadcast_def
  by (intro commits_rules) (auto intro!: commits_rules assms dest!: ensure_pilot_gas_frame simp: assms(1,2))

lemma take_claim_evolves:
  "status row = SIGNING \<Longrightarrow> signing_claim_expires_at row = Some a \<Longrightarrow> a \<le> now \<Longrightarrow> now < deadline row \<Longrightarrow>
     row_evolves cfg row (take_claim now row)"
  "status row = PREFLIGHT_APPROVED \<Longrightarrow> row_evolves cfg row (take_claim now (row\<lparr>status := SIGNING\<rparr>))"
  by (simp_all add: row_evolution_defs take_claim_def SIGNING_CLAIM_LEASE_SECONDS_def)

lemma claim_signing_evolves:
  "ids_distinct s \<Longrightarrow> rows_evolve cfg s (fst (claim_signing cfg eid now s))"
  unfolding claim_signing_def
  apply (rule write_session_state)
   apply (simp add: rows_evolve_refl)
  apply (intro commits_rules)
  apply (auto intro!: commits_finish_claim take_claim_evolves)
  done

lemma persist_signed_evolves:
  "ids_distinct s \<Longrightarrow>
   rows_evolve cfg s (fst (persist_signed_transaction cfg eid sig raw gen uh now s))"
  unfolding persist_signed_transaction_def
  apply (rule write_session_state)
   apply (simp add: rows_evolve_refl)
  apply (intro commits_rules)
  apply (auto intro!: commits_finish dest!: add_attempt_frame simp: row_evolution_defs)
  done


lemma claim_submission_evolves:
  "ids_distinct s \<Longrightarrow> rows_evolve cfg s (fst (claim_submission cfg eid now s))"
  unfolding claim_submission_def
  apply (rule write_session_state)
   apply (simp add: rows_evolve_refl)
  apply (intro commits_rules)
  apply (auto intro!: commits_finish commits_finish_claim commits_gated commits_rules
      dest!: add_attempt_frame mark_gate_terminal_frame require_raw_transaction_Inr
      simp: row_evolution_defs count_broadcast_def Let_def)
  done

lemma mark_submitted_evolves:
  "ids_distinct s \<Longrightarrow> rows_evolve cfg s (fst (mark_submitted cfg eid now s))"
  unfolding mark_submitted_def
  apply (rule write_session_state)
   apply (simp add: rows_evolve_refl)
  apply (intro commits_rules)
  apply (auto intro!: commits_finish commits_finish_claim commits_gated commits_rules
      dest!: add_attempt_frame mark_gate_terminal_frame require_raw_transaction_Inr
      simp: row_evolution_defs count_broadcast_def Let_def)
  done

lemma mark_submission_unknown_evolves:
  "ids_distinct s \<Longrightarrow> rows_evolve cfg s (fst (mark_submission_unknown cfg eid now s))"
  unfolding mark_submission_unknown_def
  apply (rule write_session_state)
   apply (simp add: rows_evolve_refl)
  apply (intro commits_rules)
  apply (auto intro!: commits_finish commits_finish_claim commits_gated commits_rules
      dest!: add_attempt_frame mark_gate_terminal_frame require_raw_transaction_Inr
      simp: row_evolution_defs count_broadcast_def Let_def)
  done

lemma mark_submission_rejected_evolves:
  "ids_distinct s \<Longrightarrow> rows_evolve cfg s (fst (mark_submission_rejected cfg eid rc now s))"
  unfolding mark_submission_rejected_def
  apply (rule write_session_state)
   apply (simp add: rows_evolve_refl)
  apply (intro commits_rules)
  apply (auto intro!: commits_finish commits_finish_claim commits_gated commits_rules
      dest!: add_attempt_frame mark_gate_terminal_frame require_raw_transaction_Inr
      simp: row_evolution_defs count_broadcast_def Let_def)
  done

lemma release_expired_evolves:
  "ids_distinct s \<Longrightarrow> rows_evolve cfg s (fst (release_expired cfg eid now s))"
  unfolding release_expired_def
  apply (rule write_session_state)
   apply (simp add: rows_evolve_refl)
  apply (intro commits_rules)
  apply (auto intro!: commits_finish commits_finish_claim commits_gated commits_rules
      dest!: add_attempt_frame mark_gate_terminal_frame require_raw_transaction_Inr
      simp: row_evolution_defs)
  done

lemma finalize_evolves:
  "ids_distinct s \<Longrightarrow> rows_evolve cfg s (fst (finalize cfg eid b now s))"
  unfolding finalize_def
  apply (rule write_session_state)
   apply (simp add: rows_evolve_refl)
  apply (intro commits_rules)
  apply (auto intro!: commits_finish commits_finish_claim commits_gated commits_rules
      dest!: add_attempt_frame mark_gate_terminal_frame require_raw_transaction_Inr
      simp: row_evolution_defs)
  done

lemma mark_reorg_review_evolves:
  "ids_distinct s \<Longrightarrow> rows_evolve cfg s (fst (mark_reorg_review eid ev now s))"
  unfolding mark_reorg_review_def
  apply (rule write_session_state)
   apply (simp add: rows_evolve_refl)
  apply (intro commits_rules)
  apply (auto intro!: commits_finish commits_finish_claim commits_gated commits_rules
      dest!: add_attempt_frame mark_gate_terminal_frame require_raw_transaction_Inr
      simp: row_evolution_defs)
  done

lemma commits_save_row:
  assumes "ids_distinct s" "locked_execution s eid = Some row"
    "executions s' = executions s" "nonces s' = nonces s" "row_evolves cfg row row'"
  shows "commits (\<lambda>t _. rows_evolve cfg s t) (and_then (save_row row' s') (\<lambda>t. Inr (t, v)))"
  using assms by (auto intro!: commits_and_then intro: rows_evolve_save)

lemma rebroadcast_evolves:
  "ids_distinct s \<Longrightarrow> rows_evolve cfg s (fst (rebroadcast_raw_transaction cfg eid raw now s))"
  unfolding rebroadcast_raw_transaction_def
  apply (rule write_session_state)
   apply (simp add: rows_evolve_refl)
  apply (intro commits_rules)
  apply (auto intro!: commits_gated commits_and_then rows_evolve_save dest!: add_attempt_frame
      simp: row_evolution_defs Let_def)
  done

lemma record_watcher_attempt_evolves:
  "ids_distinct s \<Longrightarrow> rows_evolve cfg s (fst (record_watcher_attempt eid now s))"
  unfolding record_watcher_attempt_def
  apply (rule write_session_state)
   apply (simp add: rows_evolve_refl)
  apply (intro commits_if commits_Inl commits_and_then)
  apply (auto intro!: rows_evolve_save simp: row_evolution_defs)
  done

lemma transition_row_evolves:
  assumes "target \<in> allowed_transitions (status row)"
    and "target \<notin> {SIGNING, SIGNED, SUBMITTED, SUBMISSION_UNKNOWN, CONFIRMED, REVERTED, REORG_REVIEW}"
    and "target \<in> {EXPIRED, RELEASED} \<longrightarrow> signature row = None \<and> raw_transaction row = None"
    and "same_scope row row'" "status row' = target" "same_signed_material row row'"
    "signing_claim_generation row' = signing_claim_generation row"
    "broadcast_attempts row' = broadcast_attempts row" "receipt_status row' = receipt_status row"
    "release_evidence row' = release_evidence row" "chain row' = chain row"
    "finality_boundary row' = finality_boundary row" "confirmations row' = confirmations row"
    "receipt_block_number row' = receipt_block_number row"
    "safe_block_number row' = safe_block_number row"
  shows "row_evolves cfg row row'"
  using assms by (cases "status row") (auto simp: row_evolution_defs)

lemma transition_evolves:
  "ids_distinct s \<Longrightarrow> rows_evolve cfg s (fst (transition cfg eid target expected now s))"
  unfolding transition_def
proof (rule write_session_state, simp add: rows_evolve_refl, intro commits_rules, goal_cases)
  case (1 t row s1)
  then show ?case
    by (intro commits_finish [where row = row and eid = eid]
        transition_row_evolves [where target = target])
      (auto simp: mark_gate_terminal_frame same_scope_def same_signed_material_def)
next
  case (2 t row)
  then show ?case
    by (intro commits_finish [where row = row and eid = eid]
        transition_row_evolves [where target = target])
      (simp_all add: same_scope_def same_signed_material_def)
qed

lemma require_finality_Inr:
  "require_finality_boundary b c n h fb d = Inr u \<Longrightarrow> 0 \<le> b \<and> d \<le> c \<and> b \<le> n \<and> h \<noteq> ''''"
  by (auto simp: require_finality_boundary_def split: if_splits)

lemma observed_row_simps [simp]:
  "status (observed_row target ob now row) = target"
  "receipt_status (observed_row target ob now row) = Some (obs_receipt_status ob)"
  "receipt_block_number (observed_row target ob now row) = Some (obs_block_number ob)"
  "confirmations (observed_row target ob now row) = obs_confirmations ob"
  "safe_block_number (observed_row target ob now row) = Some (obs_safe_block_number ob)"
  "finality_boundary (observed_row target ob now row) = Some (obs_finality_boundary ob)"
  "chain (observed_row target ob now row) = chain row"
  "signature (observed_row target ob now row) = signature row"
  "raw_transaction (observed_row target ob now row) = raw_transaction row"
  "raw_transaction_hash (observed_row target ob now row) = raw_transaction_hash row"
  "signing_claim_generation (observed_row target ob now row) = signing_claim_generation row"
  "broadcast_attempts (observed_row target ob now row) = broadcast_attempts row"
  "execution_id (observed_row target ob now row) = execution_id row"
  "same_scope row (observed_row target ob now row)"
  by (simp_all add: observed_row_def Let_def same_scope_def)

lemma observed_row_evolves:
  assumes "status row \<in> {SUBMITTED, SUBMISSION_UNKNOWN, SUBMISSION_REJECTED}"
    and "hosted_chain_profile (chain row) = Some p"
    and "obs_finality_boundary ob = finality_boundary_of p"
    and "min_confirmation_depth p \<le> obs_confirmations ob" "obs_block_number ob \<le> obs_safe_block_number ob"
    and "target = CONFIRMED \<and> obs_receipt_status ob = 1 \<or> target = REVERTED \<and> obs_receipt_status ob = 0"
  shows "row_evolves cfg row (observed_row target ob now row)"
proof -
  have fin: "final_evidence (observed_row target ob now row)"
    using assms by (simp add: final_evidence_def)
  have edge: "target \<in> lifecycle (status row)"
    using assms by auto
  have signed: "row_inv cfg row \<Longrightarrow> has_signed_transaction cfg row"
    using assms(1) by (auto simp: row_inv_def)
  have signed': "has_signed_transaction cfg (observed_row target ob now row) = has_signed_transaction cfg row"
    by (simp add: has_signed_transaction_def)
  have inv: "row_inv cfg (observed_row target ob now row)" if "row_inv cfg row"
    unfolding row_inv_def signed' using assms(6) fin signed [OF that] by auto
  show ?thesis
    unfolding row_evolves_def same_signed_material_def lease_kept_def using edge inv assms(6) by auto
qed

lemma replayed_observation_evolves [commits_rules]:
  "commits (\<lambda>t _. rows_evolve cfg s t) (replayed_observation cfg' row ob ev s)"
  unfolding replayed_observation_def by (intro commits_rules) simp_all

lemma record_observation_evolves:
  assumes "ids_distinct s"
    and "target = CONFIRMED \<and> obs_receipt_status ob = 1 \<or> target = REVERTED \<and> obs_receipt_status ob = 0"
  shows "rows_evolve cfg s (fst (record_observation cfg eid target ob ev now s))"
  unfolding record_observation_def
proof (rule write_session_state, simp add: rows_evolve_refl, intro commits_rules, goal_cases)
  case (1 evidence t row p u h s1 s2)
  have s1: "executions s1 = executions s \<and> nonces s1 = nonces s"
    using 1(12) by (cases "target = REVERTED") (auto dest: mark_gate_terminal_frame)
  with 1(13) have s2: "executions s2 = executions s \<and> nonces s2 = nonces s"
    by (auto dest: insert_observation_frame)
  have st: "status row \<in> {SUBMITTED, SUBMISSION_UNKNOWN, SUBMISSION_REJECTED}"
    using assms(2) 1(9,10) by blast
  have fin: "min_confirmation_depth p \<le> obs_confirmations ob"
      "obs_block_number ob \<le> obs_safe_block_number ob"
    using 1(7) by (auto dest: require_finality_Inr)
  have "row_evolves cfg row (observed_row target ob t row)"
    using st _ _ fin assms(2) by (rule observed_row_evolves) (use 1 in simp_all)
  with assms(1) s2 1(4) show ?case
    by (intro commits_finish [where row = row and eid = eid]) simp_all
qed

lemma confirm_evolves:
  "ids_distinct s \<Longrightarrow> rows_evolve cfg s (fst (confirm cfg eid ob ev now s))"
  by (auto simp: confirm_def rows_evolve_refl intro!: record_observation_evolves)

lemma revert_evolves:
  "ids_distinct s \<Longrightarrow> rows_evolve cfg s (fst (revert cfg eid ob acc ev now s))"
  by (auto simp: revert_def rows_evolve_refl intro!: record_observation_evolves)

lemma release_reverted_row_evolves:
  assumes "ids_distinct s" "locked_execution s eid = Some row" "status row = REVERTED"
    and "hosted_chain_profile (chain row) = Some p" "receipt_identity_matches row ob"
    and "obs_receipt_status ob = 0" "obs_finality_boundary ob = finality_boundary_of p"
    and "min_confirmation_depth p \<le> obs_confirmations ob"
    and "obs_block_number ob \<le> obs_safe_block_number ob"
  shows "commits (\<lambda>t _. rows_evolve cfg s t) (release_reverted_row cfg row ob ev now s)"
  unfolding release_reverted_row_def
proof (intro commits_rules, goal_cases)
  case (1 s1)
  let ?row = "row\<lparr>release_evidence := Some ev, confirmations := obs_confirmations ob,
      safe_block_number := Some (obs_safe_block_number ob),
      safe_block_hash := Some (lower (obs_safe_block_hash ob)), status := RELEASED,
      released_at := Some now, updated_at := now\<rparr>"
  have fin: "final_evidence ?row"
    using assms(4-9) by (simp add: final_evidence_def receipt_identity_matches_def)
  have inv: "row_inv cfg ?row"
    unfolding row_inv_def using assms(5,6) fin
    by (simp add: needs_finality_def receipt_identity_matches_def)
  have "row_evolves cfg row ?row"
    unfolding row_evolves_def using assms(3) inv
    by (simp add: same_scope_def same_signed_material_def lease_kept_def)
  with 1 assms(1,2) show ?case
    by (intro commits_finish [where row = row and eid = eid])
      (auto dest: release_gate_reservation_frame)
qed

lemma release_reverted_evolves:
  "ids_distinct s \<Longrightarrow> rows_evolve cfg s (fst (release_reverted cfg eid ob ev now s))"
  unfolding release_reverted_def
proof (rule write_session_state, simp add: rows_evolve_refl, intro commits_rules, goal_cases)
  case (1 evidence u t row p v)
  then show ?case by simp
next
  case (2 evidence u t row p v)
  then show ?case by simp
next
  case (3 evidence u t row p v)
  have args: "obs_receipt_status ob = 0"
    using 3(3) by (simp add: release_arguments_ok_def split: if_splits)
  have fin: "min_confirmation_depth p \<le> obs_confirmations ob"
      "obs_block_number ob \<le> obs_safe_block_number ob"
    using 3(8) by (auto dest: require_finality_Inr)
  show ?case
    using 3 args fin by (intro release_reverted_row_evolves [where eid = eid and p = p]) simp_all
qed

lemma reserve_pilot_gas_evolves:
  "ids_distinct s \<Longrightarrow> rows_evolve cfg s (fst (reserve_pilot_gas cfg eid cost gen now s))"
  unfolding reserve_pilot_gas_def
  by (rule write_session_state, simp add: rows_evolve_refl, intro commits_rules)
    (auto intro: rows_evolve_refl)

lemma put_control_frame [simp, frame_simps]:
  "executions (put_control c s) = executions s"
  "nonces (put_control c s) = nonces s"
  "attempts (put_control c s) = attempts s"
  "observations (put_control c s) = observations s"
  "gate_reservations (put_control c s) = gate_reservations s"
  by (simp_all add: put_control_def split: option.split)

lemma set_pilot_pause_evolves:
  "rows_evolve cfg s (fst (set_pilot_pause st p rc tn nd now s))"
  unfolding set_pilot_pause_def
  by (rule write_session_state, simp add: rows_evolve_refl, intro commits_rules)
    (simp add: rows_evolve_refl)

end
