(* ===== verification/Nonce_Safety.thy ===== *)
theory Nonce_Safety
  imports Execution_Evolution
begin

text \<open>
  Relayer nonces of the Hosted repository: what one allocation does to the repository and
  the invariant that two executions on one relayer account share a nonce only when at most
  one of them can ever be broadcast.
\<close>

section \<open>What an allocation does\<close>

definition nonce_row_for :: "repo \<Rightarrow> hosted_execution_row \<Rightarrow> relayer_nonce_row option" where
  "nonce_row_for s e = sel_by nonce_key (chain e, relayer_address e) (nonces s)"

text \<open>An execution that can no longer reach the chain: closed before anything was signed.\<close>

definition harmless :: "hosted_execution_row \<Rightarrow> bool" where
  "harmless e \<longleftrightarrow> closed e \<and> \<not> tainted e"

definition nonce_clash :: "hosted_execution_row \<Rightarrow> hosted_execution_row \<Rightarrow> bool" where
  "nonce_clash e e' \<longleftrightarrow>
     chain e = chain e' \<and> relayer_address e = relayer_address e' \<and>
     relayer_nonce e = relayer_nonce e' \<and> \<not> harmless e \<and> \<not> harmless e'"

definition nonce_inv :: "repo \<Rightarrow> bool" where
  "nonce_inv s \<longleftrightarrow>
     ids_distinct s \<and> distinct (map nonce_key (nonces s)) \<and>
     (\<forall>e \<in> set (executions s). \<exists>r. nonce_row_for s e = Some r \<and> relayer_nonce e < next_nonce r) \<and>
     (\<forall>e \<in> set (executions s). \<forall>e' \<in> set (executions s).
        nonce_clash e e' \<longrightarrow> execution_id e = execution_id e')"

text \<open>The outcome of a successful allocation: one new row, its nonce and its gate row.\<close>

definition allocates ::
  "repo_config \<Rightarrow> execution_intent \<Rightarrow> int \<Rightarrow> int \<Rightarrow> repo \<Rightarrow> repo \<Rightarrow> hosted_execution_row \<Rightarrow> bool" where
  "allocates cfg intent pending now s t row \<longleftrightarrow>
     (\<exists>s1 eid nonce confirmed.
        allocate_relayer_nonce (chain intent) (relayer_address intent) pending confirmed now s
          = Inr (s1, nonce) \<and>
        row = new_execution_row cfg intent eid nonce now \<and>
        executions t = executions s @ [row] \<and> nonces t = nonces s1 \<and>
        \<not> list_ex (unique_conflict row) (executions s) \<and> execution_row_checks row \<and>
        gate_reservations t = gate_reservations s @
          (if pilot_policy cfg = None then [] else
             [\<lparr>gate_execution_id = eid, gate_tenant_id = tenant_id intent,
               gate_node_id = node_id intent, gate_idempotency_key = idempotency_key intent,
               gate_utc_day = utc_day now, gate_state = GateReserved, gas_cost_usd_micros = 0,
               gas_utc_day = None, gate_created_at = now, gate_updated_at = now\<rparr>]) \<and>
        (pilot_policy cfg \<noteq> None \<longrightarrow> locked_gate_reservation s eid = None))"

lemma allocate_nonce_frame:
  "allocate_relayer_nonce c a pending confirmed now s = Inr (s1, nonce) \<Longrightarrow>
     executions s1 = executions s \<and> gate_reservations s1 = gate_reservations s \<and>
     observations s1 = observations s \<and> attempts s1 = attempts s \<and> controls s1 = controls s \<and>
     gate_events s1 = gate_events s"
  by (auto simp: allocate_relayer_nonce_def Let_def split: option.splits if_splits)

lemma new_execution_row_simps [simp]:
  "execution_id (new_execution_row cfg i eid n now) = eid"
  "relayer_nonce (new_execution_row cfg i eid n now) = n"
  "status (new_execution_row cfg i eid n now) = PREFLIGHT_APPROVED"
  "signature (new_execution_row cfg i eid n now) = None"
  "raw_transaction (new_execution_row cfg i eid n now) = None"
  "raw_transaction_hash (new_execution_row cfg i eid n now) = None"
  "chain (new_execution_row cfg i eid n now) = chain i"
  "relayer_address (new_execution_row cfg i eid n now) = relayer_address i"
  "tenant_id (new_execution_row cfg i eid n now) = tenant_id i"
  "node_id (new_execution_row cfg i eid n now) = node_id i"
  "idempotency_key (new_execution_row cfg i eid n now) = idempotency_key i"
  "capability_id (new_execution_row cfg i eid n now) = capability_id i"
  "reservation_id (new_execution_row cfg i eid n now) = reservation_id i"
  "purchase_id (new_execution_row cfg i eid n now) = purchase_id i"
  "deadline (new_execution_row cfg i eid n now) = deadline i"
  "canonical_payload (new_execution_row cfg i eid n now) = i"
  "canonical_hash (new_execution_row cfg i eid n now) = canonical_hash_of (sha256_hex cfg) i"
  by (simp_all add: new_execution_row_def intent_columns.defs)

lemma insert_execution_Inr:
  "insert_execution row s = Inr t \<longleftrightarrow>
     execution_row_checks row \<and> \<not> list_ex (unique_conflict row) (executions s) \<and>
     t = s\<lparr>executions := executions s @ [row]\<rparr>"
  by (auto simp: insert_execution_def)

lemma try_allocate_allocates:
  assumes "try_allocate cfg intent pending confirmed now uuid s = Inr (t, row)"
  shows "allocates cfg intent pending now s t row"
proof -
  define eid where "eid = ''exec_'' @ uuid"
  from assms obtain s1 n s2 where
    al: "allocate_relayer_nonce (chain intent) (relayer_address intent) pending confirmed now s
      = Inr (s1, n)"
    and row: "row = new_execution_row cfg intent eid n now"
    and s2: "insert_execution row s1 = Inr s2"
    and t: "insert_gate_reservation cfg row now s2 = Inr t"
    unfolding try_allocate_def Let_def eid_def by (auto simp: result_simps)
  note frame = allocate_nonce_frame [OF al]
  show ?thesis
    unfolding allocates_def
  proof (intro exI conjI)
    show "allocate_relayer_nonce (chain intent) (relayer_address intent) pending confirmed now s
      = Inr (s1, n)" by (rule al)
    show "row = new_execution_row cfg intent eid n now" by (rule row)
  qed (use s2 t frame in \<open>auto simp: insert_execution_Inr insert_gate_reservation_def row
      locked_gate_reservation_def split: if_splits\<close>)
qed

lemma allocate_attempts_cases:
  "commits (\<lambda>t r. t = s \<or> (\<exists>row. allocates cfg intent pending now s t row \<and> r = Inr row))
     (allocate_attempts cfg intent pending confirmed now uuids s)"
proof (induction uuids)
  case (Cons u us)
  show ?case
  proof (cases "try_allocate cfg intent pending confirmed now u s")
    case (Inl e)
    have "commits (\<lambda>t r. t = s \<or> (\<exists>row. allocates cfg intent pending now s t row \<and> r = Inr row))
      (and_then (existing_for_intent s intent) (\<lambda>existing.
            case existing of
              Some row \<Rightarrow> and_then (require_exact_intent cfg row intent) (\<lambda>_. unchanged row s)
            | None \<Rightarrow> allocate_attempts cfg intent pending confirmed now us s))"
      by (intro commits_rules Cons) (simp add: unchanged_def commits_and_then)
    with Inl show ?thesis by (cases e) simp_all
  next
    case (Inr p)
    obtain t row where "p = (t, row)" by (cases p)
    with Inr try_allocate_allocates [of cfg intent pending confirmed now u s t row] show ?thesis
      by (auto simp: unchanged_def record_of_def)
  qed
qed simp

text \<open>Every outcome of \<open>allocate_or_return\<close>: the repository as it was but for its events, or
  one allocation.\<close>

lemma allocate_or_return_cases:
  obtains (kept) evs where
    "fst (allocate_or_return cfg intent p c now uuids s) = s\<lparr>gate_events := evs\<rparr>"
  | (new) row where
    "allocates cfg intent p now s (fst (allocate_or_return cfg intent p c now uuids s)) row"
    "snd (allocate_or_return cfg intent p c now uuids s) = Inr row"
    "0 \<le> p" "0 < now"
    "pilot_admission_denial cfg s (tenant_id intent) (node_id intent) now True = None"
proof -
  let ?P = "\<lambda>t r. (\<exists>evs. t = s\<lparr>gate_events := evs\<rparr>) \<or>
      (\<exists>row. allocates cfg intent p now s t row \<and> r = Inr row \<and> 0 \<le> p \<and> 0 < now \<and>
        pilot_admission_denial cfg s (tenant_id intent) (node_id intent) now True = None)"
  have refl: "\<exists>evs. s = s\<lparr>gate_events := evs\<rparr>"
    by (rule exI [of _ "gate_events s"]) simp
  have "?P (fst (allocate_or_return cfg intent p c now uuids s))
      (snd (allocate_or_return cfg intent p c now uuids s))"
    unfolding allocate_or_return_def replay_or_def
    apply (rule write_session_commits)
     apply (simp add: refl)
    apply (intro commits_rules)
      apply (rule commits_mono [OF allocate_attempts_cases])
      apply (use refl in \<open>auto simp: canonical_nonce_def repo_now_def split: if_splits\<close>)[1]
     apply (auto simp: add_gate_event_def)[1]
    using refl apply (auto simp: unchanged_def intro!: commits_and_then)
    done
  then show thesis using kept new by blast
qed

section \<open>The nonce invariant\<close>

lemma least_of_in: "least_of xs = Some n \<Longrightarrow> n \<in> set xs"
  by (induction xs arbitrary: n) (auto split: option.splits simp: min_def split: if_splits)

lemma least_of_None: "least_of xs = None \<longleftrightarrow> xs = []"
  by (cases xs) (auto split: option.splits)

lemma row_evolves_harmless:
  "row_evolves cfg e e' \<Longrightarrow> row_inv cfg e \<Longrightarrow> harmless e \<Longrightarrow> harmless e'"
  by (auto simp: row_evolves_def harmless_def closed_def tainted_def same_signed_material_def)

lemma row_evolves_scope:
  assumes "row_evolves cfg e e'"
  shows "execution_id e' = execution_id e" "relayer_nonce e' = relayer_nonce e"
    "chain e' = chain e" "relayer_address e' = relayer_address e" "tenant_id e' = tenant_id e"
    "node_id e' = node_id e" "deadline e' = deadline e"
    "idempotency_key e' = idempotency_key e"
  using assms by (auto simp: row_evolves_def same_scope_def intent_columns.defs)

lemma rows_evolve_in:
  assumes "rows_evolve cfg s t" "e' \<in> set (executions t)"
  obtains e where "e \<in> set (executions s)" "row_evolves cfg e e'"
proof -
  from assms(2) obtain i where "i < length (executions t)" "e' = executions t ! i"
    by (auto simp: in_set_conv_nth)
  with assms(1) have "executions s ! i \<in> set (executions s)" "row_evolves cfg (executions s ! i) e'"
    by (auto simp: rows_evolve_def list_all2_conv_all_nth)
  then show thesis by (rule that)
qed

lemma rows_evolve_ids:
  "rows_evolve cfg s t \<Longrightarrow> map execution_id (executions t) = map execution_id (executions s)"
  by (auto simp: rows_evolve_def list_all2_conv_all_nth row_evolves_def same_scope_def
      intro!: nth_equalityI)

lemma nonce_inv_evolve:
  assumes inv: "nonce_inv s" and rows: "\<forall>e \<in> set (executions s). row_inv cfg e"
    and ev: "rows_evolve cfg s t"
  shows "nonce_inv t"
proof -
  have ids: "ids_distinct t"
    using inv rows_evolve_ids [OF ev] by (simp add: nonce_inv_def ids_distinct_def)
  have ns: "nonces t = nonces s" using ev by (simp add: rows_evolve_def)
  have bound: "\<exists>r. nonce_row_for t e' = Some r \<and> relayer_nonce e' < next_nonce r"
    if "e' \<in> set (executions t)" for e'
  proof -
    obtain e where "e \<in> set (executions s)" "row_evolves cfg e e'"
      using ev \<open>e' \<in> set (executions t)\<close> by (rule rows_evolve_in)
    with inv ns show ?thesis
      by (auto simp: nonce_inv_def nonce_row_for_def row_evolves_scope)
  qed
  have clash: "execution_id e' = execution_id d'"
    if "e' \<in> set (executions t)" "d' \<in> set (executions t)" "nonce_clash e' d'" for e' d'
  proof -
    obtain e where e: "e \<in> set (executions s)" "row_evolves cfg e e'"
      using ev \<open>e' \<in> set (executions t)\<close> by (rule rows_evolve_in)
    obtain d where d: "d \<in> set (executions s)" "row_evolves cfg d d'"
      using ev \<open>d' \<in> set (executions t)\<close> by (rule rows_evolve_in)
    have "nonce_clash e d"
      using that(3) rows e d row_evolves_harmless [OF e(2)] row_evolves_harmless [OF d(2)]
      by (auto simp: nonce_clash_def row_evolves_scope [OF e(2)] row_evolves_scope [OF d(2)])
    with inv e(1) d(1) have "execution_id e = execution_id d"
      by (simp add: nonce_inv_def)
    then show ?thesis by (simp add: row_evolves_scope [OF e(2)] row_evolves_scope [OF d(2)])
  qed
  from ids ns bound clash inv show ?thesis by (simp add: nonce_inv_def)
qed

text \<open>
  The nonce an allocation hands out: no execution that may still reach the chain holds it,
  and the allocator moves past it.
\<close>

lemma allocate_nonce_fresh:
  assumes inv: "nonce_inv s"
    and al: "allocate_relayer_nonce c a pending confirmed now s = Inr (s1, n)"
    and e: "e \<in> set (executions s)" "on_relayer c a e" "relayer_nonce e = n"
  shows "harmless e"
proof (cases "sel_by nonce_key (c, a) (nonces s)")
  case None
  with inv e show ?thesis by (auto simp: nonce_inv_def nonce_row_for_def on_relayer_def)
next
  case (Some row)
  from inv e(1,2) Some have lt: "relayer_nonce e < next_nonce row"
    by (auto simp: nonce_inv_def nonce_row_for_def on_relayer_def)
  show ?thesis
  proof (cases "least_of (recyclable_nonces s c a confirmed)")
    case None
    with al Some have "n = max (next_nonce row) pending"
      by (auto simp: allocate_relayer_nonce_def Let_def split: if_splits)
    with lt e(3) show ?thesis by simp
  next
    case (Some m)
    with al \<open>sel_by nonce_key (c, a) (nonces s) = Some row\<close> have "m = n"
      by (simp add: allocate_relayer_nonce_def)
    with Some have "n \<in> set (recyclable_nonces s c a confirmed)" by (auto dest: least_of_in)
    then have "n \<notin> relayer_nonce ` {x \<in> set (executions s). on_relayer c a x \<and> \<not> closed x}"
      "n \<notin> relayer_nonce ` {x \<in> set (executions s). on_relayer c a x \<and> tainted x}"
      by (auto simp only: recyclable_nonces_def set_map set_filter image_iff mem_Collect_eq)
    with e show ?thesis unfolding harmless_def by blast
  qed
qed

lemma upd_by_sel_bound:
  assumes "sel_by key k t = Some r" "\<And>x. key (f x) = key x" "\<And>x. g x \<le> g (f x :: relayer_nonce_row) \<or> key x \<noteq> k"
    and "(g r :: int) \<le> g (f r)" "sel_by key k' t = Some q"
  shows "\<exists>q'. sel_by key k' (upd_by key k f t) = Some q' \<and> g q \<le> g q'"
  using assms by (cases "k' = k") (auto simp: sel_by_upd_same sel_by_upd_other)

lemma allocate_nonce_bound:
  assumes inv: "nonce_inv s"
    and al: "allocate_relayer_nonce c a pending confirmed now s = Inr (s1, n)"
  shows "distinct (map nonce_key (nonces s1))"
    and "\<exists>r. sel_by nonce_key (c, a) (nonces s1) = Some r \<and> n < next_nonce r"
    and "sel_by nonce_key k (nonces s) = Some q \<Longrightarrow>
      \<exists>q'. sel_by nonce_key k (nonces s1) = Some q' \<and> next_nonce q \<le> next_nonce q'"
proof -
  have dist: "distinct (map nonce_key (nonces s))" using inv by (simp add: nonce_inv_def)
  have "distinct (map nonce_key (nonces s1)) \<and>
    (\<exists>r. sel_by nonce_key (c, a) (nonces s1) = Some r \<and> n < next_nonce r) \<and>
    (\<forall>k q. sel_by nonce_key k (nonces s) = Some q \<longrightarrow>
      (\<exists>q'. sel_by nonce_key k (nonces s1) = Some q' \<and> next_nonce q \<le> next_nonce q'))"
  proof (cases "sel_by nonce_key (c, a) (nonces s)")
    case None
    with al have s1: "nonces s1 = nonces s @ [\<lparr>nonce_chain = c, nonce_relayer_address = a,
        next_nonce = pending + 1, nonce_updated_at = now\<rparr>]" "n = pending"
      by (auto simp: allocate_relayer_nonce_def)
    from None have new: "(c, a) \<notin> nonce_key ` set (nonces s)" by (simp add: sel_by_None)
    have old: "sel_by nonce_key k (xs @ ys) = Some q" if "sel_by nonce_key k xs = Some q"
      for k xs ys q
      using that by (induction xs) (auto simp: sel_by_def split: if_splits)
    from dist new s1 show ?thesis
      by (auto simp: sel_by_append_new nonce_key_def intro!: exI dest: old)
  next
    case (Some row)
    show ?thesis
    proof (cases "least_of (recyclable_nonces s c a confirmed)")
      case None
      with al Some have s1: "nonces s1 = upd_by nonce_key (c, a)
          (\<lambda>r. r\<lparr>next_nonce := n + 1, nonce_updated_at := now\<rparr>) (nonces s)"
        "n = max (next_nonce row) pending"
        by (auto simp: allocate_relayer_nonce_def Let_def split: if_splits)
      have "\<exists>q'. sel_by nonce_key k (nonces s1) = Some q' \<and> next_nonce q \<le> next_nonce q'"
        if "sel_by nonce_key k (nonces s) = Some q" for k q
        using that Some s1(2) unfolding s1(1)
        by (cases "k = (c, a)") (auto simp: sel_by_upd_same sel_by_upd_other nonce_key_def)
      with dist Some s1 show ?thesis
        by (simp add: map_key_upd_by sel_by_upd_same nonce_key_def)
    next
      case (Some m)
      with al \<open>sel_by nonce_key (c, a) (nonces s) = Some row\<close>
      have s1: "nonces s1 = upd_by nonce_key (c, a) (\<lambda>r. r\<lparr>nonce_updated_at := now\<rparr>) (nonces s)"
        "m = n"
        by (auto simp: allocate_relayer_nonce_def)
      from Some s1(2) have "n \<in> set (recyclable_nonces s c a confirmed)"
        by (auto dest: least_of_in)
      then obtain e where "e \<in> set (executions s)" "on_relayer c a e" "relayer_nonce e = n"
        by (auto simp: recyclable_nonces_def)
      with inv \<open>sel_by nonce_key (c, a) (nonces s) = Some row\<close> have "n < next_nonce row"
        by (auto simp: nonce_inv_def nonce_row_for_def on_relayer_def)
      moreover have "\<exists>q'. sel_by nonce_key k (nonces s1) = Some q' \<and> next_nonce q \<le> next_nonce q'"
        if "sel_by nonce_key k (nonces s) = Some q" for k q
        using that unfolding s1(1)
        by (cases "k = (c, a)") (auto simp: sel_by_upd_same sel_by_upd_other nonce_key_def)
      ultimately show ?thesis
        using dist \<open>sel_by nonce_key (c, a) (nonces s) = Some row\<close>
        unfolding s1(1) by (simp add: map_key_upd_by sel_by_upd_same nonce_key_def)
    qed
  qed
  then show "distinct (map nonce_key (nonces s1))"
    and "\<exists>r. sel_by nonce_key (c, a) (nonces s1) = Some r \<and> n < next_nonce r"
    and "sel_by nonce_key k (nonces s) = Some q \<Longrightarrow>
      \<exists>q'. sel_by nonce_key k (nonces s1) = Some q' \<and> next_nonce q \<le> next_nonce q'"
    by (simp, blast, metis)
qed

lemma nonce_inv_allocates:
  assumes inv: "nonce_inv s" and al: "allocates cfg intent p now s t row"
  shows "nonce_inv t"
proof -
  from al obtain s1 eid n cf where
    nonce: "allocate_relayer_nonce (chain intent) (relayer_address intent) p cf now s = Inr (s1, n)"
    and row: "row = new_execution_row cfg intent eid n now"
    and t: "executions t = executions s @ [row]" "nonces t = nonces s1"
    and uniq: "\<not> list_ex (unique_conflict row) (executions s)"
    by (auto simp: allocates_def)
  note bound = allocate_nonce_bound [OF inv nonce]
  have ids: "ids_distinct t"
    using inv uniq t(1)
    by (auto simp: ids_distinct_def nonce_inv_def list_ex_iff unique_conflict_def)
  have "\<exists>r. nonce_row_for t e = Some r \<and> relayer_nonce e < next_nonce r"
    if "e \<in> set (executions t)" for e
  proof (cases "e = row")
    case True
    then show ?thesis using bound(2) t(2) row by (simp add: nonce_row_for_def)
  next
    case False
    with that t(1) have "e \<in> set (executions s)" by simp
    with inv obtain r where "nonce_row_for s e = Some r" "relayer_nonce e < next_nonce r"
      by (auto simp: nonce_inv_def)
    with bound(3) [of "(chain e, relayer_address e)" r] t(2) show ?thesis
      by (auto simp: nonce_row_for_def)
  qed
  moreover have "execution_id e = execution_id d"
    if "e \<in> set (executions t)" "d \<in> set (executions t)" "nonce_clash e d" for e d
  proof -
    have fresh: "harmless x" if "x \<in> set (executions s)" "chain x = chain row"
      "relayer_address x = relayer_address row" "relayer_nonce x = relayer_nonce row" for x
      using allocate_nonce_fresh [OF inv nonce, of x] that row by (simp add: on_relayer_def)
    from that(3) have clash: "chain e = chain d" "relayer_address e = relayer_address d"
      "relayer_nonce e = relayer_nonce d" "\<not> harmless e" "\<not> harmless d"
      by (simp_all add: nonce_clash_def)
    from that(1,2) t(1) consider "e = row" "d = row" | "e = row" "d \<in> set (executions s)"
      | "d = row" "e \<in> set (executions s)" | "e \<in> set (executions s)" "d \<in> set (executions s)"
      by auto
    then show ?thesis
    proof cases
      case 2 with clash fresh [of d] show ?thesis by simp
    next
      case 3 with clash fresh [of e] show ?thesis by simp
    next
      case 4 with inv that(3) show ?thesis by (simp add: nonce_inv_def)
    qed simp
  qed
  ultimately show ?thesis using ids bound(1) t(2) by (simp add: nonce_inv_def)
qed

end
