(* ===== verification/Gate_Safety.thy ===== *)
theory Gate_Safety
  imports Nonce_Safety
begin

text \<open>
  The quotas and the gas budget of the pilot gate. \<open>gate_moves\<close> says how one operation may
  change the gate reservations; \<open>gate_inv\<close> is the promise of the gate in every state: each
  UTC day's gas within the node and platform ceilings and each admission quota respected.
\<close>

section \<open>The promise of the gate\<close>

definition gate_rows_of :: "repo \<Rightarrow> string \<Rightarrow> string \<Rightarrow> hosted_gate_reservation_row list" where
  "gate_rows_of s tenant node = filter (in_scope tenant node) (gate_reservations s)"

definition node_gas :: "repo \<Rightarrow> int \<Rightarrow> string \<Rightarrow> string \<Rightarrow> int" where
  "node_gas s day tenant node = sum_list (map (gas_on day) (gate_rows_of s tenant node))"

definition platform_gas :: "repo \<Rightarrow> int \<Rightarrow> int" where
  "platform_gas s day = sum_list (map (gas_on day) (gate_reservations s))"

definition gas_capped :: "pilot_gate_policy \<Rightarrow> repo \<Rightarrow> bool" where
  "gas_capped p s \<longleftrightarrow>
     (\<forall>day tenant node. node_gas s day tenant node \<le> max_gas_usd_micros_per_node_utc_day p) \<and>
     (\<forall>day. platform_gas s day \<le> max_gas_usd_micros_platform_utc_day p)"

definition quotas_kept :: "pilot_gate_policy \<Rightarrow> repo \<Rightarrow> bool" where
  "quotas_kept p s \<longleftrightarrow>
     (\<forall>tenant node.
        in_flight s tenant node \<le> max_in_flight_per_node p \<and>
        accepted_lifetime s tenant node \<le> max_accepted_per_node_lifetime p \<and>
        (\<forall>day. accepted_on s tenant node day \<le> max_accepted_per_node_utc_day p))"

text \<open>A gate reservation carries the tenant and node of the execution it belongs to.\<close>

definition gates_linked :: "repo \<Rightarrow> bool" where
  "gates_linked s \<longleftrightarrow>
     (\<forall>g \<in> set (gate_reservations s). \<forall>e \<in> set (executions s).
        execution_id e = gate_execution_id g \<longrightarrow> in_scope (tenant_id e) (node_id e) g)"

definition gate_inv :: "repo_config \<Rightarrow> repo \<Rightarrow> bool" where
  "gate_inv cfg s \<longleftrightarrow>
     distinct (map gate_execution_id (gate_reservations s)) \<and> gates_linked s \<and>
     (\<forall>g \<in> set (gate_reservations s). 0 \<le> gas_cost_usd_micros g) \<and>
     (case pilot_policy cfg of
        None \<Rightarrow> gate_reservations s = []
      | Some p \<Rightarrow> gas_capped p s \<and> quotas_kept p s)"

definition valid_config :: "repo_config \<Rightarrow> bool" where
  "valid_config cfg \<longleftrightarrow> (case pilot_policy cfg of None \<Rightarrow> True | Some p \<Rightarrow> valid_policy p)"

section \<open>How one operation moves the reservations\<close>

inductive gate_moves :: "repo_config \<Rightarrow> repo \<Rightarrow> repo \<Rightarrow> bool" for cfg s where
  kept: "gate_reservations t = gate_reservations s \<Longrightarrow> gate_moves cfg s t"
| closes: "st \<noteq> GateReserved \<Longrightarrow> locked_gate_reservation s eid = Some g \<Longrightarrow>
    gate_reservations t =
      upd_by gate_execution_id eid (close_gate st clear now) (gate_reservations s) \<Longrightarrow>
    gate_moves cfg s t"
| meters: "pilot_policy cfg = Some p \<Longrightarrow> row \<in> set (executions s) \<Longrightarrow>
    locked_gate_reservation s (execution_id row) = Some g \<Longrightarrow> 0 \<le> cost \<Longrightarrow>
    gas_denial p s row day cost = None \<Longrightarrow>
    gate_reservations t =
      upd_by gate_execution_id (execution_id row) (set_gas cost day now) (gate_reservations s) \<Longrightarrow>
    gate_moves cfg s t"

lemma close_gate_simps [simp]:
  "gate_execution_id (close_gate st c now g) = gate_execution_id g"
  "gate_tenant_id (close_gate st c now g) = gate_tenant_id g"
  "gate_node_id (close_gate st c now g) = gate_node_id g"
  "gate_utc_day (close_gate st c now g) = gate_utc_day g"
  "gate_state (close_gate st c now g) = st"
  "gas_cost_usd_micros (close_gate st c now g) = (if c then 0 else gas_cost_usd_micros g)"
  "gas_utc_day (close_gate st c now g) = (if c then None else gas_utc_day g)"
  by (simp_all add: close_gate_def)

lemma set_gas_simps [simp]:
  "gate_execution_id (set_gas cost day now g) = gate_execution_id g"
  "gate_tenant_id (set_gas cost day now g) = gate_tenant_id g"
  "gate_node_id (set_gas cost day now g) = gate_node_id g"
  "gate_utc_day (set_gas cost day now g) = gate_utc_day g"
  "gate_state (set_gas cost day now g) = gate_state g"
  "gas_cost_usd_micros (set_gas cost day now g) = cost"
  "gas_utc_day (set_gas cost day now g) = Some day"
  by (simp_all add: set_gas_def)

lemma gate_moves_scope:
  assumes "gate_moves cfg s t" "\<And>g st c now. h (close_gate st c now g) = h g"
    and "\<And>g cost day now. h (set_gas cost day now g) = h g"
  shows "map h (gate_reservations t) = map h (gate_reservations s)"
  using assms by (cases rule: gate_moves.cases) (simp_all add: map_upd_by)

section \<open>A move keeps the promise\<close>

lemma gas_on_bounds: "0 \<le> gas_cost_usd_micros g \<Longrightarrow> 0 \<le> gas_on day g"
  by (simp add: gas_on_def)

lemma sum_gas_closes:
  assumes "distinct (map gate_execution_id gs)" "sel_by gate_execution_id eid gs = Some g"
    and "0 \<le> gas_cost_usd_micros g" "\<And>x. p (close_gate st c now x) = p x"
  shows "sum_list (map (gas_on day) (filter p (upd_by gate_execution_id eid (close_gate st c now) gs)))
    \<le> sum_list (map (gas_on day) (filter p gs))"
  using assms(3,4) sum_rows_split [OF assms(1,2), of "gas_on day" p]
    sum_rows_upd [OF assms(1,2), of "close_gate st c now" "gas_on day" p]
  by (simp add: gas_on_def)

lemma sum_gas_meters:
  assumes "distinct (map gate_execution_id gs)" "sel_by gate_execution_id eid gs = Some g"
    and "0 \<le> gas_cost_usd_micros g" "\<And>x. p (set_gas cost d now x) = p x"
    and "sum_list (map (gas_on day) (filter p gs)) \<le> (cap :: int)"
    and "p g \<Longrightarrow> sum_list (map (gas_on d)
           (filter (\<lambda>x. p x \<and> gate_execution_id x \<noteq> eid) gs)) + cost \<le> cap"
  shows "sum_list (map (gas_on day) (filter p (upd_by gate_execution_id eid (set_gas cost d now) gs)))
    \<le> cap"
  using assms(3-6) sum_rows_split [OF assms(1,2), of "gas_on day" p]
    sum_rows_upd [OF assms(1,2), of "set_gas cost d now" "gas_on day" p]
  by (auto simp: gas_on_def split: if_splits)

lemma count_rows_upd:
  assumes "\<And>x. x \<in> set gs \<Longrightarrow> p (f x) \<Longrightarrow> p x"
  shows "length (filter p (upd_by key k f gs)) \<le> length (filter p gs)"
  using assms by (induction gs) (auto simp: upd_by_def intro: le_SucI)

lemma quotas_kept_move:
  assumes "gate_moves cfg s t" "quotas_kept p s"
  shows "quotas_kept p t"
proof -
  have le: "length (filter q (gate_reservations t)) \<le> length (filter q (gate_reservations s))"
    if "\<And>st c now x. st \<noteq> GateReserved \<Longrightarrow> q (close_gate st c now x) \<Longrightarrow> q x"
      "\<And>cost d now x. q (set_gas cost d now x) \<Longrightarrow> q x" for q
    using assms(1)
  proof cases
    case (closes st eid g clear now)
    show ?thesis unfolding closes(3) by (rule count_rows_upd) (rule that(1) [OF closes(1)])
  next
    case (meters p row g cost day now)
    show ?thesis unfolding meters(6) by (rule count_rows_upd) (rule that(2))
  qed simp
  have "in_flight t tn nd \<le> in_flight s tn nd" for tn nd
    unfolding in_flight_def of_nat_le_iff by (rule le) (simp_all add: in_scope_def)
  moreover have "accepted_on t tn nd d \<le> accepted_on s tn nd d" for tn nd d
    unfolding accepted_on_def of_nat_le_iff by (rule le) (simp_all add: in_scope_def)
  moreover have "accepted_lifetime t tn nd \<le> accepted_lifetime s tn nd" for tn nd
    unfolding accepted_lifetime_def of_nat_le_iff by (rule le) (simp_all add: in_scope_def)
  ultimately show ?thesis
    using assms(2) unfolding quotas_kept_def by (meson order_trans)
qed

lemma gas_capped_move:
  assumes "gate_moves cfg s t" "pilot_policy cfg = Some p" "gate_inv cfg s"
  shows "gas_capped p t"
  using assms(1)
proof cases
  case kept
  with assms(2,3) show ?thesis
    by (simp add: gate_inv_def gas_capped_def node_gas_def platform_gas_def gate_rows_of_def)
next
  case (closes st eid g clear now)
  have d: "distinct (map gate_execution_id (gate_reservations s))"
    using assms(3) by (simp add: gate_inv_def)
  have g: "sel_by gate_execution_id eid (gate_reservations s) = Some g"
    using closes by (simp add: locked_gate_reservation_def)
  have "0 \<le> gas_cost_usd_micros g"
    using assms(3) sel_by_in [OF g] by (simp add: gate_inv_def)
  note le = sum_gas_closes [OF d g this]
  have "node_gas t day tn nd \<le> node_gas s day tn nd" for day tn nd
    unfolding node_gas_def gate_rows_of_def closes by (rule le) (simp add: in_scope_def)
  moreover have "platform_gas t day \<le> platform_gas s day" for day
    using le [of "\<lambda>_. True"] by (simp add: platform_gas_def closes)
  moreover have "gas_capped p s" using assms(2,3) by (simp add: gate_inv_def)
  ultimately show ?thesis unfolding gas_capped_def by (meson order_trans)
next
  case (meters q row g cost day now)
  have d: "distinct (map gate_execution_id (gate_reservations s))"
    using assms(3) by (simp add: gate_inv_def)
  have g: "sel_by gate_execution_id (execution_id row) (gate_reservations s) = Some g"
    using meters by (simp add: locked_gate_reservation_def)
  have pos: "0 \<le> gas_cost_usd_micros g" and scope: "in_scope (tenant_id row) (node_id row) g"
    using assms(3) sel_by_in [OF g] meters(2) by (auto simp: gate_inv_def gates_linked_def)
  have q: "q = p" using meters assms(2) by simp
  have caps: "node_gas_total s day (tenant_id row) (node_id row) (execution_id row) + cost
      \<le> max_gas_usd_micros_per_node_utc_day p"
    "platform_gas_total s day (execution_id row) + cost \<le> max_gas_usd_micros_platform_utc_day p"
    using meters(5) q by (auto simp: gas_denial_def split: if_splits)
  have capped: "gas_capped p s" using assms(2,3) by (simp add: gate_inv_def)
  note le = sum_gas_meters [OF d g pos]
  have "node_gas t e tn nd \<le> max_gas_usd_micros_per_node_utc_day p" for e tn nd
    unfolding node_gas_def gate_rows_of_def meters(6)
  proof (rule le)
    show "sum_list (map (gas_on e) (filter (in_scope tn nd) (gate_reservations s)))
        \<le> max_gas_usd_micros_per_node_utc_day p"
      using capped by (simp add: gas_capped_def node_gas_def gate_rows_of_def)
    assume "in_scope tn nd g"
    with scope have "tn = tenant_id row" "nd = node_id row" by (auto simp: in_scope_def)
    with caps(1) show "sum_list (map (gas_on day) (filter
        (\<lambda>x. in_scope tn nd x \<and> gate_execution_id x \<noteq> execution_id row) (gate_reservations s)))
        + cost \<le> max_gas_usd_micros_per_node_utc_day p"
      by (simp add: node_gas_total_def)
  qed (simp add: in_scope_def)
  moreover have "platform_gas t e \<le> max_gas_usd_micros_platform_utc_day p" for e
    using le [of "\<lambda>_. True" cost day now e] capped caps(2)
    by (simp add: gas_capped_def platform_gas_def platform_gas_total_def meters(6))
  ultimately show ?thesis by (simp add: gas_capped_def)
qed

lemma rows_evolve_linked:
  assumes "rows_evolve cfg s t" "gate_moves cfg s t" "gates_linked s"
  shows "gates_linked t"
  unfolding gates_linked_def
proof (intro ballI impI)
  fix g e assume g: "g \<in> set (gate_reservations t)" and e: "e \<in> set (executions t)"
    and id: "execution_id e = gate_execution_id g"
  obtain e0 where e0: "e0 \<in> set (executions s)" "row_evolves cfg e0 e"
    using assms(1) e by (rule rows_evolve_in)
  let ?h = "\<lambda>g. (gate_execution_id g, gate_tenant_id g, gate_node_id g)"
  have eq: "map ?h (gate_reservations t) = map ?h (gate_reservations s)"
    by (rule gate_moves_scope [OF assms(2)]) simp_all
  from g have "?h g \<in> set (map ?h (gate_reservations t))" by simp
  then have "?h g \<in> set (map ?h (gate_reservations s))" unfolding eq .
  then obtain g0 where "g0 \<in> set (gate_reservations s)" "?h g = ?h g0" by auto
  with assms(3) e0 id show "in_scope (tenant_id e) (node_id e) g"
    by (auto simp: gates_linked_def in_scope_def row_evolves_scope [OF e0(2)])
qed

lemma gate_inv_move:
  assumes "rows_evolve cfg s t" "gate_moves cfg s t" "gate_inv cfg s"
  shows "gate_inv cfg t"
proof -
  have "distinct (map gate_execution_id (gate_reservations t))"
    using gate_moves_scope [OF assms(2), of gate_execution_id] assms(3) by (simp add: gate_inv_def)
  moreover have "gates_linked t"
    using rows_evolve_linked [OF assms(1,2)] assms(3) by (simp add: gate_inv_def)
  moreover have "0 \<le> gas_cost_usd_micros g" if "g \<in> set (gate_reservations t)" for g
    using assms(2)
  proof cases
    case kept
    with that assms(3) show ?thesis by (simp add: gate_inv_def)
  next
    case (closes st eid g' clear now)
    with that assms(3) show ?thesis by (auto simp: gate_inv_def upd_by_def elim!: in_update_rowsE)
  next
    case (meters p row g' cost day now)
    with that assms(3) show ?thesis by (auto simp: gate_inv_def upd_by_def elim!: in_update_rowsE)
  qed
  moreover have "gate_reservations t = []" if "pilot_policy cfg = None"
    using gate_moves_scope [OF assms(2), of gate_execution_id] assms(3) that
    by (simp add: gate_inv_def)
  moreover have "gas_capped p t \<and> quotas_kept p t" if "pilot_policy cfg = Some p" for p
    using gas_capped_move [OF assms(2) that assms(3)] quotas_kept_move [OF assms(2)] assms(3) that
    by (simp add: gate_inv_def)
  ultimately show ?thesis by (auto simp: gate_inv_def split: option.split)
qed

end
