(* ===== verification/Gate_Operations.thy ===== *)
theory Gate_Operations
  imports Gate_Safety
begin

text \<open>
  Every operation of the repository as a \<open>gate_moves\<close> step, and allocation, which adds one
  reservation within the admission quotas.
\<close>

section \<open>Allocation\<close>

lemma gate_inv_allocates:
  assumes al: "allocates cfg intent p now s t row" and inv: "gate_inv cfg s"
    and ok: "pilot_admission_denial cfg s (tenant_id intent) (node_id intent) now True = None"
  shows "gate_inv cfg t"
proof (cases "pilot_policy cfg")
  case None
  with al inv show ?thesis by (auto simp: allocates_def gate_inv_def gates_linked_def)
next
  case (Some pol)
  from al Some obtain eid n g where
    row: "row = new_execution_row cfg intent eid n now"
    and ex: "executions t = executions s @ [row]"
    and gates: "gate_reservations t = gate_reservations s @ [g]"
    and g: "gate_execution_id g = eid" "gate_tenant_id g = tenant_id intent"
      "gate_node_id g = node_id intent" "gate_utc_day g = utc_day now"
      "gas_cost_usd_micros g = 0" "gas_utc_day g = None"
    and new: "locked_gate_reservation s eid = None"
    and uniq: "\<not> list_ex (unique_conflict row) (executions s)"
    by (auto simp: allocates_def)
  have fresh: "eid \<notin> gate_execution_id ` set (gate_reservations s)"
    using new by (simp add: locked_gate_reservation_def sel_by_None)
  have fresh': "execution_id e \<noteq> eid" if "e \<in> set (executions s)" for e
    using uniq that row by (auto simp: list_ex_iff unique_conflict_def)
  have linked: "gates_linked t"
    using inv fresh fresh' row g unfolding gates_linked_def gates ex
    by (auto simp: gate_inv_def gates_linked_def in_scope_def)
  have capped: "gas_capped pol t"
    using inv Some g(5,6) unfolding gas_capped_def node_gas_def platform_gas_def gate_rows_of_def gates
    by (simp add: gate_inv_def gas_capped_def node_gas_def platform_gas_def gate_rows_of_def gas_on_def)
  have adm: "in_flight s (tenant_id intent) (node_id intent) < max_in_flight_per_node pol"
    "accepted_on s (tenant_id intent) (node_id intent) (utc_day now)
      < max_accepted_per_node_utc_day pol"
    "accepted_lifetime s (tenant_id intent) (node_id intent) < max_accepted_per_node_lifetime pol"
    using ok Some by (auto simp: pilot_admission_denial_def split: option.splits if_splits)
  have q: "quotas_kept pol s" using inv Some by (simp add: gate_inv_def)
  have scope: "in_scope tn nd g \<longleftrightarrow> tn = tenant_id intent \<and> nd = node_id intent" for tn nd
    using g by (auto simp: in_scope_def)
  have bump: "int (length (filter Q (gate_reservations t)))
      = int (length (filter Q (gate_reservations s))) + (if Q g then 1 else 0)" for Q
    by (simp add: gates)
  have "in_flight t tn nd \<le> max_in_flight_per_node pol" for tn nd
    using q adm(1) unfolding in_flight_def bump quotas_kept_def
    by (cases "tn = tenant_id intent \<and> nd = node_id intent") (simp_all add: scope)
  moreover have "accepted_on t tn nd d \<le> max_accepted_per_node_utc_day pol" for tn nd d
    using q adm(2) g(4) unfolding accepted_on_def bump quotas_kept_def
    by (cases "tn = tenant_id intent \<and> nd = node_id intent \<and> d = utc_day now")
      (auto simp: scope)
  moreover have "accepted_lifetime t tn nd \<le> max_accepted_per_node_lifetime pol" for tn nd
    using q adm(3) unfolding accepted_lifetime_def bump quotas_kept_def
    by (cases "tn = tenant_id intent \<and> nd = node_id intent") (simp_all add: scope)
  ultimately have "quotas_kept pol t" by (simp add: quotas_kept_def)
  with Some inv gates g fresh linked capped show ?thesis by (simp add: gate_inv_def)
qed

section \<open>The other operations\<close>

lemma gate_moves_same:
  "gate_moves cfg s s' \<Longrightarrow> gate_reservations t = gate_reservations s' \<Longrightarrow> gate_moves cfg s t"
  by (erule gate_moves.cases) (auto intro: gate_moves.intros)

lemma gate_moves_frame [simp]:
  "gate_moves cfg s (s'\<lparr>executions := x\<rparr>) \<longleftrightarrow> gate_moves cfg s s'"
  "gate_moves cfg s (row_gate_event row a b c d s') \<longleftrightarrow> gate_moves cfg s s'"
  by (auto elim!: gate_moves_same)

lemma moves_finish:
  "gate_moves cfg s s' \<Longrightarrow> commits (\<lambda>t _. gate_moves cfg s t) (finish row s')"
  by (auto simp: finish_def save_row_eq intro!: commits_and_then)

lemma moves_finish_claim:
  "gate_moves cfg s s' \<Longrightarrow> commits (\<lambda>t _. gate_moves cfg s t) (finish_claim row s')"
  by (auto simp: finish_claim_def save_row_eq intro!: commits_and_then)

lemma moves_save_row:
  "gate_moves cfg s s' \<Longrightarrow> commits (\<lambda>t _. gate_moves cfg s t) (and_then (save_row row s') (\<lambda>t. Inr (t, v)))"
  by (auto simp: save_row_eq intro!: commits_and_then)

lemma moves_unchanged:
  "gate_moves cfg s s' \<Longrightarrow> commits (\<lambda>t _. gate_moves cfg s t) (unchanged row s')"
  by (auto simp: unchanged_def intro!: commits_and_then)

lemma moves_keep_claim:
  "gate_moves cfg s s' \<Longrightarrow> commits (\<lambda>t _. gate_moves cfg s t) (keep_claim row s')"
  by (auto simp: keep_claim_def intro!: commits_and_then)

lemma moves_deny:
  "gate_moves cfg s s' \<Longrightarrow> commits (\<lambda>t _. gate_moves cfg s t) (deny row reason gas now s')"
  by (simp add: deny_def)

lemma moves_attempt:
  "add_attempt row k h n now s' = Inr s'' \<Longrightarrow> gate_moves cfg s s' \<Longrightarrow> gate_moves cfg s s''"
  by (auto dest!: add_attempt_frame elim: gate_moves_same)

lemma moves_terminal:
  "mark_gate_terminal cfg row st rc clear now s = Inr s' \<Longrightarrow> st \<noteq> GateReserved \<Longrightarrow> gate_moves cfg s s'"
  by (auto simp: mark_gate_terminal_def result_simps save_gate_def split: if_splits
      intro: gate_moves.intros)

lemma moves_release:
  "release_gate_reservation cfg row now s = Inr s' \<Longrightarrow> gate_moves cfg s s'"
  by (auto simp: release_gate_reservation_def result_simps save_gate_def split: if_splits
      intro: gate_moves.intros)

lemma moves_ensure:
  assumes "valid_config cfg" "row \<in> set (executions s)"
    and "ensure_pilot_gas_reservation cfg row now s = Inr (s', d)"
  shows "gate_moves cfg s s'"
proof -
  have pos: "0 \<le> max_gas_usd_micros_per_node_utc_day p" if "pilot_policy cfg = Some p" for p
    using assms(1) that by (simp add: valid_config_def valid_policy_def)
  obtain p g where p: "pilot_policy cfg = Some p"
    and g: "locked_gate_reservation s (execution_id row) = Some g"
    using assms(3) unfolding ensure_pilot_gas_reservation_def by (auto simp: result_simps)
  define cost where "cost = (if 0 < gas_cost_usd_micros g then gas_cost_usd_micros g
    else max_gas_usd_micros_per_node_utc_day p)"
  have "s' = s \<or> gas_denial p s row (utc_day now) cost = None \<and>
    gate_reservations s' = upd_by gate_execution_id (execution_id row)
      (set_gas cost (utc_day now) now) (gate_reservations s)"
    using assms(3) p g unfolding ensure_pilot_gas_reservation_def Let_def cost_def gas_denial_def
    by (cases "0 < gas_cost_usd_micros g")
      (auto simp: result_simps save_gate_def split: if_splits)
  moreover have "0 \<le> cost" using pos [OF p] by (simp add: cost_def)
  ultimately show ?thesis using meters [OF p assms(2) g] by (auto intro: kept)
qed

lemma moves_gated:
  assumes "valid_config cfg" "row \<in> set (executions s)"
    and "\<And>s'. gate_moves cfg s s' \<Longrightarrow> commits (\<lambda>t _. gate_moves cfg s t) (k s')"
  shows "commits (\<lambda>t _. gate_moves cfg s t) (gated_broadcast cfg row now s k)"
  unfolding gated_broadcast_def
  by (intro commits_rules) (auto intro!: assms(3) moves_deny kept commits_rules
      dest!: moves_ensure [OF assms(1,2)])

lemmas moves_rules =
  moves_finish moves_finish_claim moves_save_row moves_unchanged moves_keep_claim moves_deny

lemma moves_session:
  "commits (\<lambda>t _. gate_moves cfg s t) (body s) \<Longrightarrow> gate_moves cfg s (fst (write_session s body))"
  by (rule write_session_state [OF kept]) simp_all

lemma claim_signing_moves: "gate_moves cfg s (fst (claim_signing cfg eid now s))"
  unfolding claim_signing_def
  by (rule moves_session, intro commits_rules) (auto intro!: moves_rules kept)

lemma persist_signed_moves:
  "gate_moves cfg s (fst (persist_signed_transaction cfg eid sig raw gen uh now s))"
  unfolding persist_signed_transaction_def
  by (rule moves_session, intro commits_rules) (auto intro!: moves_rules kept dest!: add_attempt_frame)

lemma claim_submission_moves:
  "valid_config cfg \<Longrightarrow> gate_moves cfg s (fst (claim_submission cfg eid now s))"
  unfolding claim_submission_def
  by (rule moves_session, intro commits_rules)
    (auto intro!: moves_gated commits_rules moves_rules simp: Let_def
      dest: locked_execution_in moves_attempt)

lemma mark_submitted_moves: "gate_moves cfg s (fst (mark_submitted cfg eid now s))"
  unfolding mark_submitted_def
  by (rule moves_session, intro commits_rules) (auto intro!: moves_rules kept dest!: add_attempt_frame)

lemma mark_submission_unknown_moves:
  "gate_moves cfg s (fst (mark_submission_unknown cfg eid now s))"
  unfolding mark_submission_unknown_def
  by (rule moves_session, intro commits_rules) (auto intro!: moves_rules kept dest!: add_attempt_frame)

lemma mark_submission_rejected_moves:
  "gate_moves cfg s (fst (mark_submission_rejected cfg eid rc now s))"
  unfolding mark_submission_rejected_def
  by (rule moves_session, intro commits_rules) (auto intro!: moves_rules kept dest!: add_attempt_frame)

lemma rebroadcast_moves:
  "valid_config cfg \<Longrightarrow> gate_moves cfg s (fst (rebroadcast_raw_transaction cfg eid raw now s))"
  unfolding rebroadcast_raw_transaction_def
  by (rule moves_session, intro commits_rules)
    (auto intro!: moves_gated commits_and_then moves_rules simp: Let_def save_row_eq
      dest: locked_execution_in moves_attempt)

lemma record_watcher_attempt_moves: "gate_moves cfg s (fst (record_watcher_attempt eid now s))"
  unfolding record_watcher_attempt_def
  by (rule moves_session, intro commits_if commits_Inl commits_and_then)
    (auto simp: save_row_eq intro!: kept)

lemma transition_moves: "gate_moves cfg s (fst (transition cfg eid target ex now s))"
  unfolding transition_def
  by (rule moves_session, intro commits_rules) (auto intro!: moves_rules intro: kept dest: moves_terminal)

lemma release_expired_moves: "gate_moves cfg s (fst (release_expired cfg eid now s))"
  unfolding release_expired_def
  by (rule moves_session, intro commits_rules) (auto intro!: moves_rules intro: kept dest: moves_terminal)

lemma finalize_moves: "gate_moves cfg s (fst (finalize cfg eid b now s))"
  unfolding finalize_def
  by (rule moves_session, intro commits_rules) (auto intro!: moves_rules intro: kept dest: moves_terminal)

lemma replayed_observation_moves:
  "commits (\<lambda>t _. gate_moves cfg s t) (replayed_observation cfg row ob ev s)"
  unfolding replayed_observation_def
  by (intro commits_rules) (auto intro!: moves_rules kept)

lemma record_observation_moves:
  "gate_moves cfg s (fst (record_observation cfg eid target ob ev now s))"
  unfolding record_observation_def
proof (rule moves_session, intro commits_rules replayed_observation_moves, goal_cases)
  case (1 evidence t row p u h s1 s2)
  have "gate_moves cfg s s1"
    using 1(12) by (auto intro: kept moves_terminal split: if_splits)
  with 1(13) have "gate_moves cfg s s2"
    by (auto dest!: insert_observation_frame elim: gate_moves_same)
  then show ?case by (rule moves_finish)
qed

lemma confirm_moves: "gate_moves cfg s (fst (confirm cfg eid ob ev now s))"
  by (auto simp: confirm_def intro: kept record_observation_moves)

lemma revert_moves: "gate_moves cfg s (fst (revert cfg eid ob acc ev now s))"
  by (auto simp: revert_def intro: kept record_observation_moves)

lemma release_reverted_row_moves:
  "commits (\<lambda>t _. gate_moves cfg s t) (release_reverted_row cfg row ob ev now s)"
  unfolding release_reverted_row_def
  by (intro commits_rules) (auto intro!: moves_rules dest: moves_release)

lemma release_reverted_moves: "gate_moves cfg s (fst (release_reverted cfg eid ob ev now s))"
  unfolding release_reverted_def
  by (rule moves_session, intro commits_rules release_reverted_row_moves)
    (auto intro!: moves_rules kept)

lemma mark_reorg_review_moves: "gate_moves cfg s (fst (mark_reorg_review eid ev now s))"
  unfolding mark_reorg_review_def
  by (rule moves_session, intro commits_rules) (auto intro!: moves_rules kept)

lemma set_pilot_pause_moves: "gate_moves cfg s (fst (set_pilot_pause st p rc tn nd now s))"
  unfolding set_pilot_pause_def
  by (rule moves_session, intro commits_rules)
    (simp only: commits_simps, rule kept, simp only: frame_simps)

lemma reserve_pilot_gas_moves: "gate_moves cfg s (fst (reserve_pilot_gas cfg eid cost gen now s))"
  unfolding reserve_pilot_gas_def
proof (rule moves_session, intro commits_rules, goal_cases)
  case (1 policy t row g)
  then have "gas_denial policy s row (utc_day t) cost = None" by (simp split: option.splits)
  with 1 have "gate_moves cfg s (save_gate (execution_id row) (set_gas cost (utc_day t) t) s)"
    by (intro meters [where p = policy and row = row and g = g and cost = cost])
      (simp_all add: save_gate_def lift_opt_def locked_execution_in split: option.splits)
  then show ?case by simp
next
  case (2 policy t row g)
  then show ?case by (auto intro: kept)
next
  case (3 policy t row g reason)
  then show ?case by (auto simp: deny_def intro: kept)
qed

end
