(* ===== verification/Execution_Calls.thy ===== *)
theory Execution_Calls
  imports Gate_Operations
begin

text \<open>
  The repository as a transition system. \<open>repo_call\<close> lists the mutating methods of
  \<open>ExecutionRepository\<close> with their arguments, \<open>run_call\<close> runs one, \<open>repo_step\<close> is any one
  committed call and \<open>repo_reachable\<close> a state that calls lead to from the empty tables.
  \<open>repo_inv\<close> collects the invariants; it is the contract of \<open>invariant_system\<close>.
\<close>

section \<open>Calls\<close>

datatype repo_call =
    Allocate execution_intent int "int option" int "string list"
  | RecordWatcherAttempt string int
  | ClaimSigning string int
  | ReservePilotGas string int int int
  | PersistSigned string bytes bytes int "string option" int
  | ClaimSubmission string int
  | MarkSubmitted string int
  | MarkSubmissionUnknown string int
  | MarkSubmissionRejected string string int
  | Rebroadcast string "bytes option" int
  | Transition string execution_state "execution_state option" int
  | ReleaseExpired string int
  | Finalize string string int
  | Confirm string observation "pyval option" int
  | Revert string observation bool "pyval option" int
  | ReleaseReverted string observation pyval int
  | MarkReorgReview string pyval int
  | SetPilotPause string bool string string string int

text \<open>The committed state of a call, and its error if it raised one.\<close>

definition outcome :: "repo \<times> (exec_error + 'a) \<Rightarrow> repo \<times> exec_error option" where
  "outcome x = (fst x, case snd x of Inl e \<Rightarrow> Some e | Inr _ \<Rightarrow> None)"

fun run_call :: "repo_config \<Rightarrow> repo_call \<Rightarrow> repo \<Rightarrow> repo \<times> exec_error option" where
  "run_call cfg (Allocate intent p c now uuids) s = outcome (allocate_or_return cfg intent p c now uuids s)"
| "run_call cfg (RecordWatcherAttempt eid now) s = outcome (record_watcher_attempt eid now s)"
| "run_call cfg (ClaimSigning eid now) s = outcome (claim_signing cfg eid now s)"
| "run_call cfg (ReservePilotGas eid cost gen now) s = outcome (reserve_pilot_gas cfg eid cost gen now s)"
| "run_call cfg (PersistSigned eid sig raw gen uh now) s =
     outcome (persist_signed_transaction cfg eid sig raw gen uh now s)"
| "run_call cfg (ClaimSubmission eid now) s = outcome (claim_submission cfg eid now s)"
| "run_call cfg (MarkSubmitted eid now) s = outcome (mark_submitted cfg eid now s)"
| "run_call cfg (MarkSubmissionUnknown eid now) s = outcome (mark_submission_unknown cfg eid now s)"
| "run_call cfg (MarkSubmissionRejected eid rc now) s =
     outcome (mark_submission_rejected cfg eid rc now s)"
| "run_call cfg (Rebroadcast eid raw now) s = outcome (rebroadcast_raw_transaction cfg eid raw now s)"
| "run_call cfg (Transition eid target ex now) s = outcome (transition cfg eid target ex now s)"
| "run_call cfg (ReleaseExpired eid now) s = outcome (release_expired cfg eid now s)"
| "run_call cfg (Finalize eid b now) s = outcome (finalize cfg eid b now s)"
| "run_call cfg (Confirm eid ob ev now) s = outcome (confirm cfg eid ob ev now s)"
| "run_call cfg (Revert eid ob acc ev now) s = outcome (revert cfg eid ob acc ev now s)"
| "run_call cfg (ReleaseReverted eid ob ev now) s = outcome (release_reverted cfg eid ob ev now s)"
| "run_call cfg (MarkReorgReview eid ev now) s = outcome (mark_reorg_review eid ev now s)"
| "run_call cfg (SetPilotPause st p rc tn nd now) s = outcome (set_pilot_pause st p rc tn nd now s)"

definition is_allocate :: "repo_call \<Rightarrow> bool" where
  "is_allocate c = (case c of Allocate _ _ _ _ _ \<Rightarrow> True | _ \<Rightarrow> False)"

fun run_calls :: "repo_config \<Rightarrow> repo_call list \<Rightarrow> repo \<Rightarrow> repo" where
  "run_calls cfg [] s = s"
| "run_calls cfg (c # cs) s = run_calls cfg cs (fst (run_call cfg c s))"

inductive repo_step :: "repo_config \<Rightarrow> repo \<Rightarrow> repo \<Rightarrow> bool" for cfg where
  call: "repo_step cfg s (fst (run_call cfg c s))"

inductive_cases repo_stepE: "repo_step cfg s t"

definition repo_reachable :: "repo_config \<Rightarrow> repo \<Rightarrow> bool" where
  "repo_reachable cfg s \<longleftrightarrow> valid_config cfg \<and> (repo_step cfg)\<^sup>*\<^sup>* empty_repo s"

lemma fst_outcome [simp]: "fst (outcome x) = fst x"
  by (simp add: outcome_def)

lemma outcome_error [simp]: "snd (outcome x) = Some e \<longleftrightarrow> snd x = Inl e"
  by (auto simp: outcome_def split: sum.splits)

lemma run_calls_steps: "(repo_step cfg)\<^sup>*\<^sup>* s (run_calls cfg cs s)"
  by (induction cs arbitrary: s) (auto intro: converse_rtranclp_into_rtranclp call)

lemma run_calls_reachable: "valid_config cfg \<Longrightarrow> repo_reachable cfg (run_calls cfg cs empty_repo)"
  by (simp add: repo_reachable_def run_calls_steps)

section \<open>What one call does\<close>

lemmas call_evolves =
  record_watcher_attempt_evolves claim_signing_evolves reserve_pilot_gas_evolves
  persist_signed_evolves claim_submission_evolves mark_submitted_evolves
  mark_submission_unknown_evolves mark_submission_rejected_evolves rebroadcast_evolves
  transition_evolves release_expired_evolves finalize_evolves confirm_evolves revert_evolves
  release_reverted_evolves mark_reorg_review_evolves set_pilot_pause_evolves

lemmas call_moves =
  record_watcher_attempt_moves claim_signing_moves reserve_pilot_gas_moves
  persist_signed_moves claim_submission_moves mark_submitted_moves
  mark_submission_unknown_moves mark_submission_rejected_moves rebroadcast_moves
  transition_moves release_expired_moves finalize_moves confirm_moves revert_moves
  release_reverted_moves mark_reorg_review_moves set_pilot_pause_moves

lemma run_call_evolves:
  "ids_distinct s \<Longrightarrow> \<not> is_allocate c \<Longrightarrow> rows_evolve cfg s (fst (run_call cfg c s))"
  by (cases c) (simp_all add: is_allocate_def call_evolves)

lemma run_call_moves:
  "valid_config cfg \<Longrightarrow> \<not> is_allocate c \<Longrightarrow> gate_moves cfg s (fst (run_call cfg c s))"
  by (cases c) (simp_all add: is_allocate_def call_moves)

text \<open>A step evolves the rows, or changes gate events only, or is one allocation.\<close>

lemma repo_step_cases:
  assumes "repo_step cfg s t" "ids_distinct s" "valid_config cfg"
  obtains (evolves) "rows_evolve cfg s t" "gate_moves cfg s t"
  | (allocated) intent p now row where "allocates cfg intent p now s t row"
      "pilot_admission_denial cfg s (tenant_id intent) (node_id intent) now True = None"
proof -
  from assms(1) obtain c where t: "t = fst (run_call cfg c s)" by (rule repo_stepE)
  show thesis
  proof (cases "is_allocate c")
    case False
    with assms t show thesis by (simp add: evolves run_call_evolves run_call_moves)
  next
    case True
    then obtain i p c' now us where "c = Allocate i p c' now us"
      by (cases c) (simp_all add: is_allocate_def)
    with t have t: "t = fst (allocate_or_return cfg i p c' now us s)" by simp
    show thesis
    proof (cases rule: allocate_or_return_cases [of cfg i p c' now us s])
      case (kept evs)
      with t show thesis by (intro evolves) (simp_all add: rows_evolve_refl gate_moves.kept)
    next
      case (new row)
      with t show thesis by (intro allocated) simp_all
    qed
  qed
qed

section \<open>The invariant\<close>

definition repo_inv :: "repo_config \<Rightarrow> repo \<Rightarrow> bool" where
  "repo_inv cfg s \<longleftrightarrow>
     valid_config cfg \<and> nonce_inv s \<and> (\<forall>e \<in> set (executions s). row_inv cfg e) \<and> gate_inv cfg s"

lemma row_inv_new: "row_inv cfg (new_execution_row cfg i eid n now)"
  by (simp add: row_inv_def tainted_def needs_finality_def)

lemma rows_evolve_inv:
  "rows_evolve cfg s t \<Longrightarrow> \<forall>e \<in> set (executions s). row_inv cfg e \<Longrightarrow> e' \<in> set (executions t) \<Longrightarrow>
     row_inv cfg e'"
  by (erule (1) rows_evolve_in) (simp add: row_evolves_def)

lemma repo_inv_step:
  assumes "repo_inv cfg s" "repo_step cfg s t"
  shows "repo_inv cfg t"
proof -
  have ids: "ids_distinct s" and valid: "valid_config cfg"
    using assms(1) by (simp_all add: repo_inv_def nonce_inv_def)
  show ?thesis
  proof (cases rule: repo_step_cases [OF assms(2) ids valid])
    case 1
    with assms(1) show ?thesis
      unfolding repo_inv_def by (blast intro: nonce_inv_evolve rows_evolve_inv gate_inv_move)
  next
    case (2 intent p now row)
    then have "\<forall>e \<in> set (executions t). e \<in> set (executions s) \<or> row_inv cfg e"
      by (auto simp: allocates_def row_inv_new)
    with 2 assms(1) show ?thesis
      unfolding repo_inv_def by (blast intro: nonce_inv_allocates gate_inv_allocates)
  qed
qed

lemma repo_inv_empty: "valid_config cfg \<Longrightarrow> repo_inv cfg empty_repo"
  by (simp add: repo_inv_def empty_repo_def nonce_inv_def ids_distinct_def gate_inv_def
      gates_linked_def gas_capped_def quotas_kept_def node_gas_def platform_gas_def gate_rows_of_def
      in_flight_def accepted_on_def accepted_lifetime_def valid_config_def valid_policy_def
      split: option.splits)

interpretation hosted: invariant_system
  "\<lambda>s. valid_config cfg \<and> s = empty_repo" "repo_step cfg" "repo_inv cfg" for cfg
  by unfold_locales (auto intro: repo_inv_empty repo_inv_step)

lemma reachable_inv: "repo_reachable cfg s \<Longrightarrow> repo_inv cfg s"
  unfolding repo_reachable_def by (rule hosted.inv_reachable [of cfg empty_repo]) simp_all

section \<open>History of an execution\<close>

text \<open>What holds between an execution and the same execution any number of calls later.\<close>

definition row_history :: "hosted_execution_row \<Rightarrow> hosted_execution_row \<Rightarrow> bool" where
  "row_history e e' \<longleftrightarrow>
     same_scope e e' \<and> signing_claim_generation e \<le> signing_claim_generation e' \<and>
     broadcast_attempts e \<le> broadcast_attempts e' \<and>
     (tainted e \<or> closed e \<longrightarrow> same_signed_material e e') \<and> (closed e \<longrightarrow> status e' = status e)"

definition repo_history :: "repo \<Rightarrow> repo \<Rightarrow> bool" where
  "repo_history s t \<longleftrightarrow>
     (\<forall>e \<in> set (executions s). \<exists>e' \<in> set (executions t). row_history e e')"

lemma row_history_refl: "row_history e e"
  by (simp add: row_history_def same_signed_material_def)

lemma repo_history_subset: "set (executions s) \<subseteq> set (executions t) \<Longrightarrow> repo_history s t"
  unfolding repo_history_def using row_history_refl by blast

lemma row_history_trans: "row_history a b \<Longrightarrow> row_history b c \<Longrightarrow> row_history a c"
  by (auto simp: row_history_def same_scope_def same_signed_material_def tainted_def closed_def)

lemma row_history_evolve: "row_evolves cfg e e' \<Longrightarrow> row_inv cfg e \<Longrightarrow> row_history e e'"
  by (auto simp: row_evolves_def row_history_def closed_def)

lemma repo_history_step:
  assumes "repo_inv cfg s" "repo_step cfg s t"
  shows "repo_history s t"
proof -
  have ids: "ids_distinct s" and valid: "valid_config cfg"
    using assms(1) by (simp_all add: repo_inv_def nonce_inv_def)
  show ?thesis
  proof (cases rule: repo_step_cases [OF assms(2) ids valid])
    case 1
    show ?thesis
      unfolding repo_history_def
    proof
      fix e assume e: "e \<in> set (executions s)"
      then obtain i where i: "i < length (executions s)" "e = executions s ! i"
        by (auto simp: in_set_conv_nth)
      with 1(1) have "executions t ! i \<in> set (executions t)" "row_evolves cfg e (executions t ! i)"
        by (auto simp: rows_evolve_def list_all2_conv_all_nth)
      with e assms(1) show "\<exists>e' \<in> set (executions t). row_history e e'"
        by (auto simp: repo_inv_def intro: row_history_evolve)
    qed
  next
    case (2 intent p now row)
    then show ?thesis by (auto simp: allocates_def intro!: repo_history_subset)
  qed
qed

lemma repo_history_steps:
  "(repo_step cfg)\<^sup>*\<^sup>* s t \<Longrightarrow> repo_inv cfg s \<Longrightarrow> repo_history s t"
proof (rule hosted.related_steps)
  show "repo_history x x" for x by (simp add: repo_history_subset)
  show "repo_history x y \<Longrightarrow> repo_history y z \<Longrightarrow> repo_history x z" for x y z
    unfolding repo_history_def by (meson row_history_trans)
qed (auto intro: repo_history_step)

end
