(* ===== verification/Execution_Errors.thy ===== *)
theory Execution_Errors
  imports Execution_Calls
begin

text \<open>
  Error paths of the repository: a call that raises commits nothing, except that a gate
  denial keeps its audit event; and calls that need an open gate fail while a pause holds.
\<close>

section \<open>Errors leave the tables alone\<close>

definition event_only :: "repo \<Rightarrow> repo \<Rightarrow> bool" where
  "event_only s t \<longleftrightarrow> (\<exists>event. t = s\<lparr>gate_events := gate_events s @ [event]\<rparr>)"

definition err_ok :: "repo \<Rightarrow> repo \<Rightarrow> exec_error + 'a \<Rightarrow> bool" where
  "err_ok s t r \<longleftrightarrow>
     (case r of Inr _ \<Rightarrow> True
      | Inl e \<Rightarrow> t = s \<or> (\<exists>reason. e = PilotGateDenied reason) \<and> event_only s t)"

lemma err_ok_simps [simp]:
  "err_ok s t (Inr v)"
  "err_ok s s r"
  by (auto simp: err_ok_def split: sum.split)

lemma err_ok_add_gate_event:
  "err_ok s (add_gate_event a b c d ty rs g n s) (Inl (PilotGateDenied reason))"
  by (auto simp: err_ok_def event_only_def add_gate_event_def)

lemma err_ok_deny [commits_rules]: "commits (err_ok s) (deny row reason gas now s)"
  by (simp add: deny_def row_gate_event_def err_ok_add_gate_event)

lemma err_ok_Inr [commits_rules]: "commits (err_ok s) (Inr (t, Inr v))"
  by simp

lemma err_ok_finish [commits_rules]: "commits (err_ok s) (finish row s')"
  by (auto simp: finish_def intro!: commits_and_then)

lemma err_ok_finish_claim [commits_rules]: "commits (err_ok s) (finish_claim row s')"
  by (auto simp: finish_claim_def intro!: commits_and_then)

lemma err_ok_unchanged [commits_rules]: "commits (err_ok s) (unchanged row s')"
  by (auto simp: unchanged_def intro!: commits_and_then)

lemma err_ok_keep_claim [commits_rules]: "commits (err_ok s) (keep_claim row s')"
  by (auto simp: keep_claim_def intro!: commits_and_then)

lemma ensure_denied: "ensure_pilot_gas_reservation cfg row now s = Inr (s', Some reason) \<Longrightarrow> s' = s"
  unfolding ensure_pilot_gas_reservation_def Let_def
  by (auto simp: result_simps split: if_splits)

lemma err_ok_gated [commits_rules]:
  assumes "\<And>s'. commits (err_ok s) (k s')"
  shows "commits (err_ok s) (gated_broadcast cfg row now s k)"
  unfolding gated_broadcast_def
  by (intro commits_rules assms) (auto dest!: ensure_denied intro: err_ok_deny)

lemma err_ok_attempts [commits_rules]:
  "commits (err_ok s) (allocate_attempts cfg intent p c now us s)"
proof (induction us)
  case (Cons u us)
  show ?case
  proof (cases "try_allocate cfg intent p c now u s")
    case (Inl e)
    have "commits (err_ok s) (and_then (existing_for_intent s intent) (\<lambda>existing.
            case existing of
              Some row \<Rightarrow> and_then (require_exact_intent cfg row intent) (\<lambda>_. unchanged row s)
            | None \<Rightarrow> allocate_attempts cfg intent p c now us s))"
      by (intro commits_rules Cons)
    with Inl show ?thesis by (cases e) simp_all
  next
    case (Inr q)
    then show ?thesis by (cases q) (simp add: err_ok_unchanged)
  qed
qed simp

lemma err_ok_session:
  "commits (err_ok s) (body s) \<Longrightarrow>
     err_ok s (fst (write_session s body)) (snd (write_session s body))"
  by (rule write_session_commits) simp_all

lemmas call_defs =
  allocate_or_return_def record_watcher_attempt_def claim_signing_def reserve_pilot_gas_def
  persist_signed_transaction_def claim_submission_def mark_submitted_def
  mark_submission_unknown_def mark_submission_rejected_def rebroadcast_raw_transaction_def
  transition_def release_expired_def finalize_def record_observation_def release_reverted_def
  mark_reorg_review_def set_pilot_pause_def

lemma err_ok_replay [commits_rules]:
  "(\<And>u. commits (err_ok s) (k u)) \<Longrightarrow> commits (err_ok s) (replay_or cfg intent s k)"
  unfolding replay_or_def by (intro commits_rules)

lemma err_ok_replayed [commits_rules]:
  "commits (err_ok s) (replayed_observation cfg row ob ev s)"
  unfolding replayed_observation_def by (intro commits_rules)

lemma err_ok_release_row [commits_rules]:
  "commits (err_ok s) (release_reverted_row cfg row ob ev now s)"
  unfolding release_reverted_row_def by (intro commits_rules)

lemma record_observation_err_ok:
  "err_ok s (fst (record_observation cfg eid tg ob ev now s))
     (snd (record_observation cfg eid tg ob ev now s))"
  unfolding record_observation_def by (rule err_ok_session, intro commits_rules)

lemma allocate_err_ok:
  "err_ok s (fst (allocate_or_return cfg i p c now us s)) (snd (allocate_or_return cfg i p c now us s))"
  unfolding allocate_or_return_def
  by (rule err_ok_session, intro commits_rules) (simp_all add: err_ok_add_gate_event)

lemma confirm_err_ok:
  "err_ok s (fst (confirm cfg eid ob ev now s)) (snd (confirm cfg eid ob ev now s))"
  by (simp add: confirm_def record_observation_err_ok)

lemma revert_err_ok:
  "err_ok s (fst (revert cfg eid ob acc ev now s)) (snd (revert cfg eid ob acc ev now s))"
  by (simp add: revert_def record_observation_err_ok)

lemma err_ok_call:
  "err_ok s (fst x) (snd x) \<Longrightarrow> snd (outcome x) = Some e \<Longrightarrow>
     fst (outcome x) = s \<or> (\<exists>reason. e = PilotGateDenied reason) \<and> event_only s (fst (outcome x))"
  by (auto simp: err_ok_def)

lemma call_errors_keep:
  "snd (run_call cfg c s) = Some e \<Longrightarrow>
     fst (run_call cfg c s) = s \<or>
     (\<exists>reason. e = PilotGateDenied reason) \<and> event_only s (fst (run_call cfg c s))"
  by (cases c; simp only: run_call.simps; erule err_ok_call [rotated];
      (rule allocate_err_ok confirm_err_ok revert_err_ok |
       simp only: call_defs, rule err_ok_session, intro commits_rules))

section \<open>Pauses\<close>

text \<open>The calls that lead to a signature, to spent gas or to a broadcast of one execution.\<close>

fun gated_call :: "repo_call \<Rightarrow> string option" where
  "gated_call (ClaimSigning eid now) = Some eid"
| "gated_call (ReservePilotGas eid cost gen now) = Some eid"
| "gated_call (ClaimSubmission eid now) = Some eid"
| "gated_call (Rebroadcast eid raw now) = Some eid"
| "gated_call _ = None"

lemma paused_denial:
  "pilot_policy cfg = Some p \<Longrightarrow> paused_scope s tenant node = Some reason \<Longrightarrow>
     pilot_admission_denial cfg s tenant node now q = Some reason"
  by (simp add: pilot_admission_denial_def)

definition refuses :: "repo \<Rightarrow> exec_error + 'a \<Rightarrow> bool" where
  "refuses t r \<longleftrightarrow> (case r of Inl _ \<Rightarrow> True | Inr _ \<Rightarrow> False)"

lemma refuses_deny: "commits refuses (deny row reason gas now s)"
  by (simp add: deny_def refuses_def)

lemma refuses_session:
  "commits refuses (body s) \<Longrightarrow> snd (outcome (write_session s body)) \<noteq> None"
  by (auto simp: write_session_def commits_def refuses_def outcome_def split: sum.splits)

lemma refuses_gated:
  assumes "pilot_policy cfg = Some p" "paused_scope s (tenant_id row) (node_id row) = Some reason"
  shows "commits refuses (gated_broadcast cfg row now s k)"
  using assms by (simp add: gated_broadcast_def paused_denial refuses_deny)

lemma paused_call_refused:
  assumes "pilot_policy cfg = Some p" "locked_execution s eid = Some row"
    and "paused_scope s (tenant_id row) (node_id row) = Some reason"
    and "gated_call c = Some eid"
  shows "snd (run_call cfg c s) \<noteq> None"
  using assms(4)
proof (cases c)
  case (ClaimSigning e now)
  with assms show ?thesis
    by (simp only: run_call.simps claim_signing_def)
      (rule refuses_session, intro commits_and_then, simp add: paused_denial refuses_deny)
next
  case (ReservePilotGas e cost gen now)
  with assms show ?thesis
    by (simp only: run_call.simps reserve_pilot_gas_def)
      (rule refuses_session, intro commits_and_then commits_if, simp_all add: paused_denial refuses_deny
        Let_def commits_and_then)
next
  case (ClaimSubmission e now)
  with assms show ?thesis
    by (simp only: run_call.simps claim_submission_def)
      (rule refuses_session, intro commits_and_then, simp add: refuses_gated)
next
  case (Rebroadcast e raw now)
  with assms show ?thesis
    by (simp only: run_call.simps rebroadcast_raw_transaction_def)
      (rule refuses_session, intro commits_and_then commits_if, simp_all add: refuses_gated)
qed simp_all

end
