(* ===== verification/Execution_Retries.thy ===== *)
theory Execution_Retries
  imports Execution_Errors
begin

text \<open>
  Retries: a caller that lost the answer of a call may send it again. The second call returns
  the stored row and commits nothing.
\<close>

section \<open>What a successful body leaves\<close>

definition record_valid :: "hosted_execution_row \<Rightarrow> bool" where
  "record_valid row \<longleftrightarrow> record_of row = Inr row"

lemma record_of_eq: "record_of row = Inr r \<longleftrightarrow> r = row \<and> record_valid row"
  by (auto simp: record_valid_def record_of_def split: if_splits)

text \<open>The execution is stored, and the call returned its record.\<close>

definition stored ::
  "string \<Rightarrow> (hosted_execution_row \<Rightarrow> bool) \<Rightarrow> repo \<Rightarrow> exec_error + hosted_execution_row \<Rightarrow> bool" where
  "stored eid Q t r \<longleftrightarrow>
     (\<forall>row. r = Inr row \<longrightarrow> locked_execution t eid = Some row \<and> record_valid row \<and> Q row)"

lemma sel_by_put:
  "sel_by key k t \<noteq> None \<Longrightarrow> key r = k \<Longrightarrow> sel_by key k (upd_by key k (\<lambda>_. r) t) = Some r"
  by (induction t) (auto simp: sel_by_def upd_by_def)

lemma stored_finish:
  assumes "locked_execution s eid = Some row0" "executions s' = executions s"
    and "execution_id row = eid" "Q row"
  shows "commits (stored eid Q) (finish row s')"
  using assms
  by (auto simp: finish_def stored_def save_row_eq locked_execution_def sel_by_put record_of_eq
      intro!: commits_and_then)

lemma stored_unchanged:
  assumes "locked_execution s eid = Some row" "Q row"
  shows "commits (stored eid Q) (unchanged row s)"
  using assms by (auto simp: unchanged_def stored_def record_of_eq intro!: commits_and_then)

lemma stored_deny: "commits (stored eid Q) (deny row reason gas now s)"
  by (simp add: deny_def stored_def)

lemma stored_session:
  assumes "commits (stored eid Q) (body s)" "snd (write_session s body) = Inr row"
  shows "locked_execution (fst (write_session s body)) eid = Some row \<and> record_valid row \<and> Q row"
proof -
  have "stored eid Q (fst (write_session s body)) (snd (write_session s body))"
    by (rule write_session_commits [where P = "stored eid Q"])
      (use assms(1) in \<open>simp_all add: stored_def [of eid Q s "Inl _"]\<close>)
  with assms(2) show ?thesis by (simp add: stored_def)
qed

lemma repo_now_ok: "repo_now t = Inr u \<longleftrightarrow> 0 < t \<and> u = t"
  by (auto simp: repo_now_def)

lemma unchanged_retry: "record_valid row \<Longrightarrow> unchanged row s = Inr (s, Inr row)"
  by (simp add: unchanged_def record_valid_def)

text \<open>The row holds the raw transaction its hash commits to.\<close>

definition raw_ok :: "repo_config \<Rightarrow> hosted_execution_row \<Rightarrow> bool" where
  "raw_ok cfg row \<longleftrightarrow> (\<exists>raw. require_raw_transaction cfg row = Inr raw)"

lemma raw_ok_same:
  assumes "require_raw_transaction cfg row = Inr raw" "raw_transaction row' = raw_transaction row"
    and "raw_transaction_hash row' = raw_transaction_hash row"
  shows "raw_ok cfg row'"
proof -
  have "require_raw_transaction cfg row' = require_raw_transaction cfg row"
    unfolding require_raw_transaction_def assms(2,3) ..
  with assms(1) show ?thesis by (auto simp: raw_ok_def)
qed

lemmas stored_rules = stored_finish stored_unchanged stored_deny raw_ok_same

section \<open>The calls that may be retried\<close>

lemma release_expired_stored:
  assumes "snd (release_expired cfg eid now s) = Inr row"
  shows "locked_execution (fst (release_expired cfg eid now s)) eid = Some row \<and>
    record_valid row \<and> status row \<in> {RELEASED, EXPIRED}"
  unfolding release_expired_def
  by (rule stored_session [OF _ assms [unfolded release_expired_def]], intro commits_rules)
    (auto intro!: stored_unchanged stored_finish dest: mark_gate_terminal_frame locked_execution_in)

lemma finalize_stored:
  assumes "snd (finalize cfg eid b now s) = Inr row"
  shows "locked_execution (fst (finalize cfg eid b now s)) eid = Some row \<and>
    record_valid row \<and>
    (status row = FINALIZED \<and> safe_block_number row \<noteq> None \<and> safe_block_hash row \<noteq> None \<and>
     finality_boundary row = Some b \<and>
     (\<exists>p. hosted_chain_profile (chain row) = Some p \<and> b = finality_boundary_of p))"
  unfolding finalize_def
  by (rule stored_session [OF _ assms [unfolded finalize_def]], intro commits_rules)
    (auto intro!: stored_unchanged stored_finish dest: mark_gate_terminal_frame locked_execution_in)

lemma mark_submitted_stored:
  assumes "snd (mark_submitted cfg eid now s) = Inr row"
  shows "locked_execution (fst (mark_submitted cfg eid now s)) eid = Some row \<and>
    record_valid row \<and> (status row = SUBMITTED \<and> raw_ok cfg row)"
  unfolding mark_submitted_def
  by (rule stored_session [OF _ assms [unfolded mark_submitted_def]], intro commits_rules)
    (auto intro!: stored_rules dest!: add_attempt_frame dest: locked_execution_in raw_ok_same
      simp: count_broadcast_def)

lemma mark_submission_unknown_stored:
  assumes "snd (mark_submission_unknown cfg eid now s) = Inr row"
  shows "locked_execution (fst (mark_submission_unknown cfg eid now s)) eid = Some row \<and>
    record_valid row \<and> (status row = SUBMISSION_UNKNOWN \<and> raw_ok cfg row)"
  unfolding mark_submission_unknown_def
  by (rule stored_session [OF _ assms [unfolded mark_submission_unknown_def]], intro commits_rules)
    (auto intro!: stored_rules dest!: add_attempt_frame dest: locked_execution_in raw_ok_same
      simp: count_broadcast_def)

lemma mark_submission_rejected_stored:
  assumes "snd (mark_submission_rejected cfg eid rc now s) = Inr row"
  shows "locked_execution (fst (mark_submission_rejected cfg eid rc now s)) eid = Some row \<and>
    record_valid row \<and>
    (status row = SUBMISSION_REJECTED \<and> submission_failure_code row = Some rc \<and> raw_ok cfg row \<and>
     is_reason_code 63 rc)"
  unfolding mark_submission_rejected_def
  by (rule stored_session [OF _ assms [unfolded mark_submission_rejected_def]], intro commits_rules)
    (auto intro!: stored_rules dest!: add_attempt_frame dest: locked_execution_in raw_ok_same
      simp: count_broadcast_def)

lemma persist_signed_stored:
  assumes "snd (persist_signed_transaction cfg eid sig raw gen uh now s) = Inr row"
  shows "locked_execution (fst (persist_signed_transaction cfg eid sig raw gen uh now s)) eid = Some row \<and>
    record_valid row \<and>
    (status row = SIGNED \<and> signature row = Some sig \<and> raw_transaction row = Some raw \<and>
     signing_claim_generation row = gen \<and> length sig = 65 \<and> raw \<noteq> [] \<and> 0 < gen \<and>
     (\<exists>h. ethereum_transaction_hash cfg raw = Inr h))"
  unfolding persist_signed_transaction_def
  by (rule stored_session [OF _ assms [unfolded persist_signed_transaction_def]], intro commits_rules)
    (auto intro!: stored_finish stored_unchanged stored_deny dest!: add_attempt_frame
      dest: locked_execution_in)

section \<open>The retried call\<close>

lemma require_row_Some: "locked_execution s eid = Some row \<Longrightarrow> require_row s eid = Inr row"
  by simp

lemmas retry_defs = write_session_def repo_now_def require_row_Some unchanged_retry and_then_Inr

lemma release_expired_again:
  "locked_execution t eid = Some row \<Longrightarrow> record_valid row \<Longrightarrow> status row \<in> {RELEASED, EXPIRED} \<Longrightarrow>
     0 < now \<Longrightarrow> release_expired cfg eid now t = (t, Inr row)"
  by (auto simp: release_expired_def retry_defs)

lemma finalize_again:
  "locked_execution t eid = Some row \<Longrightarrow> record_valid row \<Longrightarrow>
     status row = FINALIZED \<and> safe_block_number row \<noteq> None \<and> safe_block_hash row \<noteq> None \<and>
     finality_boundary row = Some b \<and>
     (\<exists>p. hosted_chain_profile (chain row) = Some p \<and> b = finality_boundary_of p) \<Longrightarrow>
     0 < now \<Longrightarrow> finalize cfg eid b now t = (t, Inr row)"
  by (auto simp: finalize_def retry_defs)

lemma mark_submitted_again:
  "locked_execution t eid = Some row \<Longrightarrow> record_valid row \<Longrightarrow>
     status row = SUBMITTED \<and> raw_ok cfg row \<Longrightarrow> 0 < now \<Longrightarrow>
     mark_submitted cfg eid now t = (t, Inr row)"
  by (auto simp: mark_submitted_def raw_ok_def retry_defs)

lemma mark_submission_unknown_again:
  "locked_execution t eid = Some row \<Longrightarrow> record_valid row \<Longrightarrow>
     status row = SUBMISSION_UNKNOWN \<and> raw_ok cfg row \<Longrightarrow> 0 < now \<Longrightarrow>
     mark_submission_unknown cfg eid now t = (t, Inr row)"
  by (auto simp: mark_submission_unknown_def raw_ok_def retry_defs)

lemma mark_submission_rejected_again:
  "locked_execution t eid = Some row \<Longrightarrow> record_valid row \<Longrightarrow>
     status row = SUBMISSION_REJECTED \<and> submission_failure_code row = Some rc \<and> raw_ok cfg row \<and>
     is_reason_code 63 rc \<Longrightarrow> 0 < now \<Longrightarrow>
     mark_submission_rejected cfg eid rc now t = (t, Inr row)"
  by (auto simp: mark_submission_rejected_def raw_ok_def retry_defs)

lemma persist_signed_again:
  "locked_execution t eid = Some row \<Longrightarrow> record_valid row \<Longrightarrow>
     status row = SIGNED \<and> signature row = Some sig \<and> raw_transaction row = Some raw \<and>
     signing_claim_generation row = gen \<and> length sig = 65 \<and> raw \<noteq> [] \<and> 0 < gen \<and>
     (\<exists>h. ethereum_transaction_hash cfg raw = Inr h) \<Longrightarrow> 0 < now \<Longrightarrow>
     persist_signed_transaction cfg eid sig raw gen uh now t = (t, Inr row)"
  by (auto simp: persist_signed_transaction_def retry_defs)

text \<open>The same call at another clock reading, for the calls that answer a retry.\<close>

fun retry_at :: "int \<Rightarrow> repo_call \<Rightarrow> repo_call option" where
  "retry_at t (PersistSigned eid sig raw gen uh now) = Some (PersistSigned eid sig raw gen uh t)"
| "retry_at t (MarkSubmitted eid now) = Some (MarkSubmitted eid t)"
| "retry_at t (MarkSubmissionUnknown eid now) = Some (MarkSubmissionUnknown eid t)"
| "retry_at t (MarkSubmissionRejected eid rc now) = Some (MarkSubmissionRejected eid rc t)"
| "retry_at t (ReleaseExpired eid now) = Some (ReleaseExpired eid t)"
| "retry_at t (Finalize eid b now) = Some (Finalize eid b t)"
| "retry_at t _ = None"

lemma outcome_ok: "snd (outcome x) = None \<longleftrightarrow> (\<exists>v. snd x = Inr v)"
  by (auto simp: outcome_def split: sum.splits)

lemma outcome_pair: "outcome (t, Inr v) = (t, None)"
  by (simp add: outcome_def)

lemma retry_replays:
  assumes "retry_at now c = Some c'" "0 < now" "snd (run_call cfg c s) = None"
  shows "run_call cfg c' (fst (run_call cfg c s)) = (fst (run_call cfg c s), None)"
  using assms(1)
proof (cases c)
  case (PersistSigned eid sig raw gen uh n)
  with assms obtain row where "snd (persist_signed_transaction cfg eid sig raw gen uh n s) = Inr row"
    by (auto simp: outcome_ok)
  with assms(1,2) PersistSigned show ?thesis
    by (auto simp: outcome_pair persist_signed_again dest!: persist_signed_stored)
next
  case (MarkSubmitted eid n)
  with assms obtain row where "snd (mark_submitted cfg eid n s) = Inr row"
    by (auto simp: outcome_ok)
  with assms(1,2) MarkSubmitted show ?thesis
    by (auto simp: outcome_pair mark_submitted_again dest!: mark_submitted_stored)
next
  case (MarkSubmissionUnknown eid n)
  with assms obtain row where "snd (mark_submission_unknown cfg eid n s) = Inr row"
    by (auto simp: outcome_ok)
  with assms(1,2) MarkSubmissionUnknown show ?thesis
    by (auto simp: outcome_pair mark_submission_unknown_again dest!: mark_submission_unknown_stored)
next
  case (MarkSubmissionRejected eid rc n)
  with assms obtain row where "snd (mark_submission_rejected cfg eid rc n s) = Inr row"
    by (auto simp: outcome_ok)
  with assms(1,2) MarkSubmissionRejected show ?thesis
    by (auto simp: outcome_pair mark_submission_rejected_again dest!: mark_submission_rejected_stored)
next
  case (ReleaseExpired eid n)
  with assms obtain row where "snd (release_expired cfg eid n s) = Inr row"
    by (auto simp: outcome_ok)
  with assms(1,2) ReleaseExpired show ?thesis
    by (auto simp: outcome_pair release_expired_again dest!: release_expired_stored)
next
  case (Finalize eid b n)
  with assms obtain row where "snd (finalize cfg eid b n s) = Inr row"
    by (auto simp: outcome_ok)
  then have "finalize cfg eid b now (fst (finalize cfg eid b n s)) = (fst (finalize cfg eid b n s), Inr row)"
    using finalize_again [OF _ _ _ assms(2)] finalize_stored by blast
  with assms(1,2) Finalize show ?thesis by (auto simp: outcome_pair)
qed simp_all

section \<open>Replayed allocations\<close>

lemma find_bound:
  "find P (xs @ [x]) = Some x" if "P x" "\<And>y. y \<in> set xs \<Longrightarrow> \<not> P y"
  using that by (induction xs) auto

lemma bound_rows_allocated:
  assumes "\<not> list_ex (unique_conflict row) es" "executions t = es @ [row]"
    and "row = new_execution_row cfg intent eid n now"
  shows "bound_rows t intent = [Some row, Some row, Some row, Some row]"
proof -
  have "capability_id y \<noteq> capability_id intent \<and> reservation_id y \<noteq> reservation_id intent \<and>
      purchase_id y \<noteq> purchase_id intent \<and> \<not> same_request intent y" if "y \<in> set es" for y
    using assms(1,3) that by (auto simp: list_ex_iff unique_conflict_def same_request_def)
  moreover have "same_request intent row"
    by (simp add: assms(3) same_request_def)
  ultimately show ?thesis
    using assms(2,3) by (auto simp: bound_rows_def sel_by_def intro!: find_bound)
qed

lemma allocates_replayed:
  assumes "allocates cfg intent p now s t row"
  shows "existing_for_intent t intent = Inr (Some row)"
    and "require_exact_intent cfg row intent = Inr ()"
proof -
  from assms obtain eid n where row: "row = new_execution_row cfg intent eid n now"
    and "executions t = executions s @ [row]" "\<not> list_ex (unique_conflict row) (executions s)"
    by (auto simp: allocates_def)
  then have "bound_rows t intent = [Some row, Some row, Some row, Some row]"
    by (intro bound_rows_allocated) simp_all
  then show "existing_for_intent t intent = Inr (Some row)"
    by (simp add: existing_for_intent_def)
  show "require_exact_intent cfg row intent = Inr ()"
    by (simp add: require_exact_intent_def row)
qed

definition bound_to :: "repo_config \<Rightarrow> execution_intent \<Rightarrow> repo \<Rightarrow> exec_error + hosted_execution_row \<Rightarrow> bool" where
  "bound_to cfg intent t r \<longleftrightarrow>
     (\<forall>row. r = Inr row \<longrightarrow> existing_for_intent t intent = Inr (Some row) \<and>
        require_exact_intent cfg row intent = Inr () \<and> record_valid row)"

lemma bound_unchanged:
  "existing_for_intent s intent = Inr (Some row) \<Longrightarrow> require_exact_intent cfg row intent = Inr () \<Longrightarrow>
     commits (bound_to cfg intent) (unchanged row s)"
  by (auto simp: unchanged_def bound_to_def record_of_eq intro!: commits_and_then)

lemma bound_attempts: "commits (bound_to cfg intent) (allocate_attempts cfg intent p c now us s)"
proof (induction us)
  case (Cons u us)
  show ?case
  proof (cases "try_allocate cfg intent p c now u s")
    case (Inl e)
    have "commits (bound_to cfg intent) (and_then (existing_for_intent s intent) (\<lambda>existing.
            case existing of
              Some row \<Rightarrow> and_then (require_exact_intent cfg row intent) (\<lambda>_. unchanged row s)
            | None \<Rightarrow> allocate_attempts cfg intent p c now us s))"
      by (intro commits_rules Cons bound_unchanged) simp_all
    with Inl show ?thesis by (cases e) simp_all
  next
    case (Inr q)
    then show ?thesis
      by (cases q) (auto intro!: bound_unchanged dest!: try_allocate_allocates dest: allocates_replayed)
  qed
qed simp

lemma allocate_bound:
  "bound_to cfg intent (fst (allocate_or_return cfg intent p c now us s))
     (snd (allocate_or_return cfg intent p c now us s))"
  unfolding allocate_or_return_def
  apply (rule write_session_commits)
   apply (simp add: bound_to_def)
  apply (intro commits_and_then commits_if commits_Inl)
  apply (unfold replay_or_def)
  apply (intro commits_rules bound_unchanged bound_attempts)
    apply (simp_all add: bound_to_def)
  done

lemma allocate_replay:
  assumes "snd (allocate_or_return cfg intent p c now us s) = Inr row"
    and "canonical_nonce p' = Inr p'" "0 < now'"
  shows "allocate_or_return cfg intent p' None now' us' (fst (allocate_or_return cfg intent p c now us s))
    = (fst (allocate_or_return cfg intent p c now us s), Inr row)"
proof -
  note bound = allocate_bound [of cfg intent p c now us s]
  with assms(1) have "existing_for_intent (fst (allocate_or_return cfg intent p c now us s)) intent
      = Inr (Some row)" "require_exact_intent cfg row intent = Inr ()" "record_valid row"
    by (simp_all add: bound_to_def)
  then show ?thesis
    using assms(2,3)
    by (simp add: allocate_or_return_def [of cfg intent p'] write_session_def replay_or_def
        repo_now_def unchanged_retry)
qed

end
