(* ===== verification/Execution_Example.thy ===== *)
theory Execution_Example
  imports Execution_Retries
begin

text \<open>
  A concrete configuration, intent and history of calls on which the properties of the Hosted
  repository are evaluated. The digests are stand-ins of the right shape.
\<close>

definition hex_of :: "nat \<Rightarrow> char \<Rightarrow> string" where
  "hex_of n c = ''0x'' @ replicate n c"

definition example_policy :: pilot_gate_policy where
  "example_policy =
     \<lparr>native_asset_usd_price_ceiling_micros = 4000000000, max_in_flight_per_node = 2,
      max_accepted_per_node_utc_day = 5, max_accepted_per_node_lifetime = 9,
      max_gas_usd_micros_per_node_utc_day = 500000, max_gas_usd_micros_platform_utc_day = 900000\<rparr>"

definition example_config :: repo_config where
  "example_config =
     \<lparr>pilot_policy = Some example_policy, keccak_hex = (\<lambda>raw. replicate 64 CHR ''b''),
      sha256_hex = (\<lambda>s. replicate 64 CHR ''c'')\<rparr>"

definition example_intent :: execution_intent where
  "example_intent =
     \<lparr>tenant_id = ''tenant-1'', node_id = ''node-1'', wallet_binding_id = ''wallet-1'',
      capability_id = ''cap-1'', reservation_id = ''res-1'', purchase_id = ''pur-1'',
      idempotency_key = ''key-1'', chain = ''eip155:8453'', owner = hex_of 40 CHR ''1'',
      payee = hex_of 40 CHR ''2'', token = HOSTED_BASE_USDC, amount_atomic = ''25'',
      executor = hex_of 40 CHR ''3'', signer_epoch = 1, owner_nonce = 7, deadline = 2000,
      capability_hash = hex_of 64 CHR ''4'', reservation_hash = hex_of 64 CHR ''5'',
      execution_scope_hash = hex_of 64 CHR ''6'', execution_digest = hex_of 64 CHR ''7'',
      relayer_address = hex_of 40 CHR ''8'', request_id = ''req-1'',
      request_hash = hex_of 64 CHR ''9''\<rparr>"

definition example_raw :: bytes where
  "example_raw = [2, 1, 5]"

definition example_sig :: bytes where
  "example_sig = replicate 65 1"

definition example_seen :: observation where
  "example_seen =
     \<lparr>obs_receipt_status = 1, obs_block_number = 100, obs_block_hash = hex_of 64 CHR ''a'',
      obs_confirmations = 6, obs_safe_block_number = 104,
      obs_safe_block_hash = hex_of 64 CHR ''b'', obs_watcher_version = ''watcher-1'',
      obs_finality_boundary = ''safe''\<rparr>"

definition example_eid :: string where
  "example_eid = ''exec_u1''"

definition allocated_repo :: repo where
  "allocated_repo = run_calls example_config [Allocate example_intent 4 None 1000 [''u1'']] empty_repo"

definition signed_repo :: repo where
  "signed_repo = run_calls example_config
     [ClaimSigning example_eid 1001, ReservePilotGas example_eid 300000 1 1002,
      PersistSigned example_eid example_sig example_raw 1 None 1003] allocated_repo"

definition final_repo :: repo where
  "final_repo = run_calls example_config
     [ClaimSubmission example_eid 1004, MarkSubmitted example_eid 1005,
      Confirm example_eid example_seen None 1100, Finalize example_eid ''safe'' 1101] signed_repo"


lemma example_config_valid: "valid_config example_config"
  by (simp add: valid_config_def example_config_def example_policy_def valid_policy_def)

lemma run_calls_append: "run_calls cfg (cs @ ds) s = run_calls cfg ds (run_calls cfg cs s)"
  by (induction cs arbitrary: s) simp_all

lemma allocated_reachable: "repo_reachable example_config allocated_repo"
  unfolding allocated_repo_def by (rule run_calls_reachable [OF example_config_valid])

lemma reachable_run_calls: "repo_reachable cfg s \<Longrightarrow> repo_reachable cfg (run_calls cfg cs s)"
  unfolding repo_reachable_def by (blast intro: rtranclp_trans run_calls_steps)

lemma signed_reachable: "repo_reachable example_config signed_repo"
  unfolding signed_repo_def by (rule reachable_run_calls [OF allocated_reachable])

lemma final_reachable: "repo_reachable example_config final_repo"
  unfolding final_repo_def by (rule reachable_run_calls [OF signed_reachable])

lemma allocated_facts:
  "map (\<lambda>e. (execution_id e, status e, relayer_nonce e)) (executions allocated_repo)
    = [(example_eid, PREFLIGHT_APPROVED, 4)]"
  by code_simp

lemma signed_facts:
  "map (\<lambda>e. (execution_id e, status e, raw_transaction e, signing_claim_generation e,
      tenant_id e, node_id e)) (executions signed_repo)
    = [(example_eid, SIGNED, Some example_raw, 1, ''tenant-1'', ''node-1'')]"
  "map (\<lambda>g. (gate_state g, gas_cost_usd_micros g)) (gate_reservations signed_repo)
    = [(GateReserved, 300000)]"
  by code_simp+

lemma final_facts:
  "map (\<lambda>e. (execution_id e, status e, raw_transaction e)) (executions final_repo)
    = [(example_eid, FINALIZED, Some example_raw)]"
  by code_simp

section \<open>More states of the history\<close>

definition reserved_repo :: repo where
  "reserved_repo = run_calls example_config
     [ClaimSigning example_eid 1001, ReservePilotGas example_eid 300000 1 1002] allocated_repo"

definition submitted_repo :: repo where
  "submitted_repo = run_calls example_config
     [ClaimSubmission example_eid 1004, MarkSubmitted example_eid 1005]
     (fst (persist_signed_transaction example_config example_eid example_sig example_raw 1 None 1003
        reserved_repo))"

definition released_repo :: repo where
  "released_repo = run_calls example_config [ReleaseExpired example_eid 2000] allocated_repo"

definition paused_repo :: repo where
  "paused_repo = run_calls example_config
     [SetPilotPause ''platform'' True ''incident'' [] [] 1001] allocated_repo"

lemma reserved_reachable: "repo_reachable example_config reserved_repo"
  unfolding reserved_repo_def by (rule reachable_run_calls [OF allocated_reachable])

lemma released_reachable: "repo_reachable example_config released_repo"
  unfolding released_repo_def by (rule reachable_run_calls [OF allocated_reachable])

lemma released_facts:
  "map (\<lambda>e. (execution_id e, status e, raw_transaction e)) (executions released_repo)
    = [(example_eid, RELEASED, None)]"
  by code_simp

lemma example_claim_eval:
  "case snd (claim_signing example_config example_eid 1001 allocated_repo) of
     Inr (row, granted) \<Rightarrow> granted \<and> signing_claim_generation row = 1 \<and> deadline row = 2000
   | Inl _ \<Rightarrow> False"
  by code_simp

lemma example_claim:
  obtains row where "snd (claim_signing example_config example_eid 1001 allocated_repo) = Inr (row, True)"
    "signing_claim_generation row = 1" "deadline row = 2000"
  using example_claim_eval by (auto split: sum.splits prod.splits)

lemma example_persist_eval:
  "case snd (persist_signed_transaction example_config example_eid example_sig example_raw 1 None 1003
       reserved_repo) of Inr row \<Rightarrow> status row = SIGNED | Inl _ \<Rightarrow> False"
  by code_simp

lemma example_persist:
  obtains row where "snd (persist_signed_transaction example_config example_eid example_sig example_raw
    1 None 1003 reserved_repo) = Inr row" "status row = SIGNED"
  using example_persist_eval by (auto split: sum.splits)

lemma example_rebroadcast_eval:
  "case snd (rebroadcast_raw_transaction example_config example_eid None 1010 submitted_repo) of
     Inr b \<Rightarrow> b \<noteq> [] | Inl _ \<Rightarrow> False"
  by code_simp

lemma example_rebroadcast:
  obtains b where "snd (rebroadcast_raw_transaction example_config example_eid None 1010 submitted_repo)
    = Inr b"
  using example_rebroadcast_eval by (auto split: sum.splits)

lemma paused_facts:
  "control_paused paused_repo (''platform'', [], [])"
  "map execution_id (executions paused_repo) = [example_eid]"
  by code_simp+

lemma example_allocate_eval:
  "case snd (allocate_or_return example_config example_intent 4 None 1000 [''u1''] empty_repo) of
     Inr row \<Rightarrow> relayer_nonce row = 4 | Inl _ \<Rightarrow> False"
  by code_simp

lemma example_allocate:
  obtains row where "snd (allocate_or_return example_config example_intent 4 None 1000 [''u1''] empty_repo)
    = Inr row" "relayer_nonce row = 4"
  using example_allocate_eval by (auto split: sum.splits)

text \<open>A second execution of the same node, for the watch list.\<close>

definition example_intent2 :: execution_intent where
  "example_intent2 = example_intent\<lparr>capability_id := ''cap-2'', reservation_id := ''res-2'',
     purchase_id := ''pur-2'', idempotency_key := ''key-2''\<rparr>"

definition crowded_repo :: repo where
  "crowded_repo = run_calls example_config [Allocate example_intent2 5 None 1001 [''u2'']] allocated_repo"

lemma crowded_reachable: "repo_reachable example_config crowded_repo"
  unfolding crowded_repo_def by (rule reachable_run_calls [OF allocated_reachable])

lemma crowded_watch_eval:
  "case list_watchable_ids ''eip155:8453'' None 1 crowded_repo of
     Inr ids \<Rightarrow> map (\<lambda>e. (execution_id e \<in> set ids, chain e, watchable e)) (executions crowded_repo)
       = [(True, ''eip155:8453'', True), (False, ''eip155:8453'', True)]
   | Inl _ \<Rightarrow> False"
  by code_simp

end
