(* ===== verification/Execution_Claims.thy ===== *)
theory Execution_Claims
  imports Execution_Retries
begin

text \<open>
  Claims and histories: what a granted signing claim excludes, and how an execution's row in
  one reachable state is found again in every later one.
\<close>

section \<open>The same execution later\<close>

lemma reachable_ids: "repo_reachable cfg s \<Longrightarrow> ids_distinct s"
  using reachable_inv by (auto simp: repo_inv_def nonce_inv_def)

lemma reachable_step: "repo_reachable cfg s \<Longrightarrow> (repo_step cfg)\<^sup>*\<^sup>* s t \<Longrightarrow> repo_reachable cfg t"
  unfolding repo_reachable_def by (blast intro: rtranclp_trans)

lemma same_execution:
  "ids_distinct s \<Longrightarrow> e \<in> set (executions s) \<Longrightarrow> d \<in> set (executions s) \<Longrightarrow>
     execution_id e = execution_id d \<Longrightarrow> e = d"
  unfolding ids_distinct_def by (rule key_unique)

lemma history_of_execution:
  assumes "repo_reachable cfg s" "(repo_step cfg)\<^sup>*\<^sup>* s t"
    and "e \<in> set (executions s)" "e' \<in> set (executions t)" "execution_id e' = execution_id e"
  shows "row_history e e'"
proof -
  have "repo_history s t"
    using repo_history_steps [OF assms(2)] reachable_inv [OF assms(1)] .
  with assms(3) obtain d where d: "d \<in> set (executions t)" "row_history e d"
    by (auto simp: repo_history_def)
  then have "execution_id d = execution_id e'"
    using assms(5) by (simp add: row_history_def same_scope_def)
  with d(1) assms(4) have "d = e'"
    by (rule same_execution [OF reachable_ids [OF reachable_step [OF assms(1,2)]]])
  with d(2) show ?thesis by simp
qed

lemma locked_in_set: "locked_execution s eid = Some row \<Longrightarrow> row \<in> set (executions s)"
  by (simp add: locked_execution_in)

lemma locked_id: "locked_execution s eid = Some row \<Longrightarrow> execution_id row = eid"
  by (simp add: locked_execution_in)

section \<open>Granted signing claims\<close>

definition claim_stored ::
  "string \<Rightarrow> (hosted_execution_row \<Rightarrow> bool) \<Rightarrow> repo \<Rightarrow> exec_error + (hosted_execution_row \<times> bool) \<Rightarrow> bool" where
  "claim_stored eid Q t r \<longleftrightarrow>
     (\<forall>row. r = Inr (row, True) \<longrightarrow> locked_execution t eid = Some row \<and> Q row)"

lemma claim_stored_finish:
  assumes "locked_execution s eid = Some row0" "executions s' = executions s"
    and "execution_id row = eid" "Q row"
  shows "commits (claim_stored eid Q) (finish_claim row s')"
  using assms
  by (auto simp: finish_claim_def claim_stored_def save_row_eq locked_execution_def sel_by_put record_of_eq
      intro!: commits_and_then)

lemma claim_stored_keep: "commits (claim_stored eid Q) (keep_claim row s)"
  by (auto simp: keep_claim_def claim_stored_def intro!: commits_and_then)

lemma claim_stored_deny: "commits (claim_stored eid Q) (deny row reason gas now s)"
  by (simp add: deny_def claim_stored_def)

lemma claim_stored_session:
  assumes "commits (claim_stored eid Q) (body s)" "snd (write_session s body) = Inr (row, True)"
  shows "locked_execution (fst (write_session s body)) eid = Some row \<and> Q row"
proof -
  have "claim_stored eid Q (fst (write_session s body)) (snd (write_session s body))"
    by (rule write_session_commits [where P = "claim_stored eid Q"])
      (use assms(1) in \<open>simp_all add: claim_stored_def [of eid Q s "Inl _"]\<close>)
  with assms(2) show ?thesis by (simp add: claim_stored_def)
qed

text \<open>The row of a claim granted on \<open>row0\<close>: the next generation, leased within the deadline.\<close>

definition claim_granted :: "int \<Rightarrow> repo \<Rightarrow> string \<Rightarrow> hosted_execution_row \<Rightarrow> bool" where
  "claim_granted now s eid row \<longleftrightarrow>
     (\<exists>row0. locked_execution s eid = Some row0 \<and>
        status row0 \<in> {PREFLIGHT_APPROVED, SIGNING} \<and> status row = SIGNING \<and>
        signing_claim_generation row = signing_claim_generation row0 + 1 \<and>
        signing_claim_expires_at row =
          Some (min (deadline row) (now + SIGNING_CLAIM_LEASE_SECONDS)) \<and>
        now < deadline row \<and> deadline row = deadline row0 \<and>
        (status row0 = SIGNING \<longrightarrow>
           (\<exists>expires. signing_claim_expires_at row0 = Some expires \<and> expires \<le> now)))"

lemma claim_signing_granted:
  assumes "snd (claim_signing cfg eid now s) = Inr (row, True)"
  shows "locked_execution (fst (claim_signing cfg eid now s)) eid = Some row \<and>
    claim_granted now s eid row"
  unfolding claim_signing_def
  by (rule claim_stored_session [OF _ assms [unfolded claim_signing_def]], intro commits_rules)
    (auto intro!: claim_stored_finish claim_stored_keep claim_stored_deny dest: locked_execution_in
      simp: claim_granted_def take_claim_def repo_now_ok)

text \<open>A lease outlasts any calls: until it ends, the execution is leased or past signing.\<close>

definition leased_until :: "int \<Rightarrow> hosted_execution_row \<Rightarrow> bool" where
  "leased_until u e \<longleftrightarrow>
     status e \<notin> {REQUESTED, PREFLIGHT_APPROVED} \<and>
     (status e = SIGNING \<longrightarrow> (\<exists>a. signing_claim_expires_at e = Some a \<and> u \<le> a))"

lemma leased_evolves: "row_evolves cfg e e' \<Longrightarrow> leased_until u e \<Longrightarrow> leased_until u e'"
  by (cases "status e") (auto simp: row_evolves_def leased_until_def lease_kept_def)

definition leased_in :: "int \<Rightarrow> string \<Rightarrow> repo \<Rightarrow> bool" where
  "leased_in u eid s \<longleftrightarrow>
     eid \<in> execution_id ` set (executions s) \<and>
     (\<forall>e \<in> set (executions s). execution_id e = eid \<longrightarrow> leased_until u e)"

lemma leased_step:
  assumes "repo_step cfg s t" "repo_reachable cfg s" "leased_in u eid s"
  shows "leased_in u eid t"
proof -
  have ids: "ids_distinct s" and valid: "valid_config cfg"
    using assms(2) reachable_ids by (auto simp: repo_reachable_def)
  show ?thesis
  proof (cases rule: repo_step_cases [OF assms(1) ids valid])
    case 1
    then have "leased_until u e'" if "e' \<in> set (executions t)" "execution_id e' = eid" for e'
    proof -
      obtain e where e: "e \<in> set (executions s)" "row_evolves cfg e e'"
        using 1(1) \<open>e' \<in> set (executions t)\<close> by (rule rows_evolve_in)
      then have "execution_id e = eid"
        using that(2) by (simp add: row_evolves_def same_scope_def)
      then show ?thesis using e assms(3) leased_evolves by (auto simp: leased_in_def)
    qed
    moreover have "map execution_id (executions t) = map execution_id (executions s)"
      using 1(1) by (rule rows_evolve_ids)
    ultimately show ?thesis
      using assms(3) unfolding leased_in_def by (metis set_map)
  next
    case (2 intent p now row)
    then have "executions t = executions s @ [row]" "execution_id row \<notin> execution_id ` set (executions s)"
      by (auto simp: allocates_def list_ex_iff unique_conflict_def)
    then show ?thesis using assms(3) by (auto simp: leased_in_def)
  qed
qed

lemma leased_steps:
  assumes "(repo_step cfg)\<^sup>*\<^sup>* s t" "repo_reachable cfg s" "leased_in u eid s"
  shows "leased_in u eid t"
  using assms
proof (induction rule: rtranclp_induct)
  case (step y z)
  then show ?case using leased_step reachable_step by blast
qed

lemma granted_leased:
  assumes "repo_reachable cfg t" "locked_execution t eid = Some row" "claim_granted now s eid row"
  shows "leased_in (min (deadline row) (now + SIGNING_CLAIM_LEASE_SECONDS)) eid t"
proof -
  have row: "row \<in> set (executions t)" "execution_id row = eid"
    using assms(2) by (simp_all add: locked_execution_in)
  have "leased_until (min (deadline row) (now + SIGNING_CLAIM_LEASE_SECONDS)) row"
    using assms(3) by (auto simp: leased_until_def claim_granted_def)
  moreover have "e = row" if "e \<in> set (executions t)" "execution_id e = eid" for e
    using same_execution [OF reachable_ids [OF assms(1)] that(1) row(1)] that(2) row(2) by simp
  moreover have "eid \<in> execution_id ` set (executions t)" using row by blast
  ultimately show ?thesis unfolding leased_in_def by blast
qed

lemma leased_no_claim:
  assumes "leased_in u eid t" "now < u"
  shows "snd (claim_signing cfg eid now t) \<noteq> Inr (r, True)"
proof
  assume "snd (claim_signing cfg eid now t) = Inr (r, True)"
  then have "claim_granted now t eid r" by (simp add: claim_signing_granted)
  then obtain row where row: "locked_execution t eid = Some row"
    "status row \<in> {PREFLIGHT_APPROVED, SIGNING}"
    "status row = SIGNING \<longrightarrow> (\<exists>a. signing_claim_expires_at row = Some a \<and> a \<le> now)"
    by (auto simp: claim_granted_def)
  then have "leased_until u row"
    using assms(1) locked_execution_in [OF row(1)] by (auto simp: leased_in_def)
  with row(2,3) assms(2) show False by (auto simp: leased_until_def)
qed

text \<open>A signature is stored only under the claim that is current.\<close>

lemma persist_needs_claim:
  assumes "repo_reachable cfg s" "(repo_step cfg)\<^sup>*\<^sup>* s t" "locked_execution s eid = Some row"
    and "snd (persist_signed_transaction cfg eid sig raw gen uh now t) = Inr r"
  shows "signing_claim_generation row \<le> gen"
proof -
  let ?u = "fst (persist_signed_transaction cfg eid sig raw gen uh now t)"
  have "repo_step cfg t (fst (run_call cfg (PersistSigned eid sig raw gen uh now) t))"
    by (rule repo_step.call)
  then have "repo_step cfg t ?u" by simp
  with assms(2) have steps: "(repo_step cfg)\<^sup>*\<^sup>* s ?u" by simp
  from persist_signed_stored [OF assms(4)]
  have r: "locked_execution ?u eid = Some r" "signing_claim_generation r = gen" by simp_all
  have "row_history row r"
    using assms(1) steps locked_in_set [OF assms(3)] locked_in_set [OF r(1)]
    by (rule history_of_execution) (simp add: locked_id [OF r(1)] locked_id [OF assms(3)])
  with r(2) show ?thesis by (simp add: row_history_def)
qed

section \<open>Broadcasts\<close>

definition resent :: "repo_config \<Rightarrow> string \<Rightarrow> repo \<Rightarrow> repo \<Rightarrow> exec_error + bytes \<Rightarrow> bool" where
  "resent cfg eid s t r \<longleftrightarrow>
     (\<forall>b. r = Inr b \<longrightarrow> (\<exists>row. locked_execution s eid = Some row \<and> raw_transaction row = Some b \<and>
        status row \<in> {SUBMITTED, SUBMISSION_UNKNOWN, SUBMISSION_REJECTED} \<and>
        require_raw_transaction cfg row = Inr b))"

lemma resent_gated:
  assumes "\<And>s'. commits (resent cfg eid s) (k s')"
  shows "commits (resent cfg eid s) (gated_broadcast cfg row now s k)"
  unfolding gated_broadcast_def
  by (intro commits_rules assms) (auto simp: deny_def resent_def)

lemma rebroadcast_resent:
  "resent cfg eid s (fst (rebroadcast_raw_transaction cfg eid raw now s))
     (snd (rebroadcast_raw_transaction cfg eid raw now s))"
  unfolding rebroadcast_raw_transaction_def
  apply (rule write_session_commits)
   apply (simp add: resent_def)
  apply (intro commits_and_then commits_if commits_Inl resent_gated commits_Let)
  apply (auto simp: resent_def dest: require_raw_transaction_Inr)
  done

lemma rebroadcast_bytes:
  assumes "snd (rebroadcast_raw_transaction cfg eid raw now s) = Inr b"
  obtains row where "locked_execution s eid = Some row" "raw_transaction row = Some b"
    "status row \<in> {SUBMITTED, SUBMISSION_UNKNOWN, SUBMISSION_REJECTED}"
  using rebroadcast_resent [of cfg eid s raw now] assms by (auto simp: resent_def)

end
