(* ===== verification/Execution_Properties.thy ===== *)
theory Execution_Properties
  imports Execution_Example Execution_Claims
begin

text \<open>
  The properties of the Hosted facilitator's repository, each with a witness on the example
  history of \<open>Execution_Example\<close>.
\<close>

lemma step_evolves:
  assumes "repo_reachable cfg s" "repo_step cfg s t"
    and "e \<in> set (executions s)" "e' \<in> set (executions t)" "execution_id e' = execution_id e"
  shows "row_evolves cfg e e'"
proof -
  have inv: "repo_inv cfg s" using assms(1) by (rule reachable_inv)
  have ids: "ids_distinct s" and valid: "valid_config cfg"
    using inv by (simp_all add: repo_inv_def nonce_inv_def)
  have ids': "ids_distinct t"
    using reachable_ids reachable_step [OF assms(1)] assms(2) by blast
  show ?thesis
  proof (cases rule: repo_step_cases [OF assms(2) ids valid])
    case 1
    obtain d where d: "d \<in> set (executions s)" "row_evolves cfg d e'"
      using 1(1) assms(4) by (rule rows_evolve_in)
    with assms(3,5) ids have "d = e"
      by (intro same_execution [OF ids]) (simp_all add: row_evolves_scope [OF d(2)])
    with d(2) show ?thesis by simp
  next
    case (2 intent p now row)
    then have "e \<in> set (executions t)" using assms(3) by (auto simp: allocates_def)
    then have "e' = e" by (rule same_execution [OF ids' assms(4) _ assms(5)])
    then show ?thesis by simp
  qed
qed

section \<open>Nonces, gas and quotas\<close>

text \<open>
  C1. On one relayer account, two executions that can still reach the chain (open, or signed)
  never hold the same nonce: in every state that calls lead to, they are the same execution.
\<close>

theorem live_nonce_exclusive:
  assumes "repo_reachable cfg s" "e \<in> set (executions s)" "d \<in> set (executions s)"
    and "chain e = chain d" "relayer_address e = relayer_address d" "relayer_nonce e = relayer_nonce d"
    and "\<not> closed e \<or> tainted e" "\<not> closed d \<or> tainted d"
  shows "e = d"
proof -
  have inv: "nonce_inv s" using reachable_inv [OF assms(1)] by (simp add: repo_inv_def)
  have "nonce_clash e d" using assms(4-8) by (auto simp: nonce_clash_def harmless_def)
  with inv assms(2,3) have "execution_id e = execution_id d" by (simp add: nonce_inv_def)
  with assms(2,3) show ?thesis by (intro same_execution [OF reachable_ids [OF assms(1)]])
qed

theorem live_nonce_exclusive_witness:
  "\<exists>e \<in> set (executions allocated_repo). relayer_nonce e = 4 \<and>
     (\<forall>d \<in> set (executions allocated_repo).
        chain d = chain e \<longrightarrow> relayer_address d = relayer_address e \<longrightarrow> relayer_nonce d = 4 \<longrightarrow>
        \<not> closed d \<longrightarrow> d = e)"
proof -
  obtain e where e: "e \<in> set (executions allocated_repo)" "relayer_nonce e = 4"
    "status e = PREFLIGHT_APPROVED"
    using allocated_facts by auto
  then have "\<not> closed e" by (simp add: closed_def)
  then have "\<forall>d \<in> set (executions allocated_repo).
      chain d = chain e \<longrightarrow> relayer_address d = relayer_address e \<longrightarrow> relayer_nonce d = 4 \<longrightarrow>
      \<not> closed d \<longrightarrow> d = e"
    using live_nonce_exclusive [OF allocated_reachable _ e(1)] e(2) by simp
  with e show ?thesis by blast
qed

text \<open>
  C2. The gas metered on any UTC day never exceeds the policy's ceiling, neither for a node
  nor for the platform, whatever calls were made in whatever order.
\<close>

theorem gas_budget_capped:
  assumes "repo_reachable cfg s" "pilot_policy cfg = Some policy"
  shows "node_gas s day tenant node \<le> max_gas_usd_micros_per_node_utc_day policy \<and>
    platform_gas s day \<le> max_gas_usd_micros_platform_utc_day policy"
  using reachable_inv [OF assms(1)] assms(2)
  by (simp add: repo_inv_def gate_inv_def gas_capped_def)

theorem gas_budget_capped_witness:
  "node_gas signed_repo 0 ''tenant-1'' ''node-1'' \<le> 500000 \<and> platform_gas signed_repo 0 \<le> 900000"
  using gas_budget_capped [OF signed_reachable, of example_policy 0 "''tenant-1''" "''node-1''"]
  by (simp add: example_config_def example_policy_def)

text \<open>
  C3. A node never has more executions in flight, accepted on one UTC day, or accepted in all,
  than the policy admits.
\<close>

theorem admission_quotas_kept:
  assumes "repo_reachable cfg s" "pilot_policy cfg = Some policy"
  shows "in_flight s tenant node \<le> max_in_flight_per_node policy \<and>
    accepted_on s tenant node day \<le> max_accepted_per_node_utc_day policy \<and>
    accepted_lifetime s tenant node \<le> max_accepted_per_node_lifetime policy"
  using reachable_inv [OF assms(1)] assms(2)
  by (simp add: repo_inv_def gate_inv_def quotas_kept_def)

theorem admission_quotas_kept_witness:
  "in_flight signed_repo ''tenant-1'' ''node-1'' \<le> 2 \<and>
   accepted_lifetime signed_repo ''tenant-1'' ''node-1'' \<le> 9"
  using admission_quotas_kept [OF signed_reachable, of example_policy "''tenant-1''" "''node-1''" 0]
  by (simp add: example_config_def example_policy_def)

section \<open>The life of an execution\<close>

text \<open>
  C4. Once an execution is signed, its scope, its nonce, its signature, its raw transaction and
  the transaction's hash stay the same for ever.
\<close>

theorem signed_material_immutable:
  assumes "repo_reachable cfg s" "(repo_step cfg)\<^sup>*\<^sup>* s t"
    and "e \<in> set (executions s)" "e' \<in> set (executions t)" "execution_id e' = execution_id e"
    and "tainted e"
  shows "same_scope e e' \<and> same_signed_material e e'"
  using history_of_execution [OF assms(1-5)] assms(6) by (simp add: row_history_def)

theorem signed_material_immutable_witness:
  "\<exists>e \<in> set (executions signed_repo). \<exists>e' \<in> set (executions final_repo).
     status e = SIGNED \<and> status e' = FINALIZED \<and> same_signed_material e e'"
proof -
  obtain e where e: "e \<in> set (executions signed_repo)" "execution_id e = example_eid"
    "status e = SIGNED" "raw_transaction e = Some example_raw"
    using signed_facts(1) by auto
  obtain e' where e': "e' \<in> set (executions final_repo)" "execution_id e' = example_eid"
    "status e' = FINALIZED"
    using final_facts by auto
  have "(repo_step example_config)\<^sup>*\<^sup>* signed_repo final_repo"
    unfolding final_repo_def by (rule run_calls_steps)
  from signed_material_immutable [OF signed_reachable this e(1) e'(1)] e e' show ?thesis
    by (auto simp: tainted_def)
qed

text \<open>
  C5. One call moves an execution's status along an edge of the transition table, or along one
  of the five edges that only the dedicated operations have.
\<close>

theorem status_moves_lifecycle:
  assumes "repo_reachable cfg s" "repo_step cfg s t"
    and "e \<in> set (executions s)" "e' \<in> set (executions t)" "execution_id e' = execution_id e"
  shows "status e' = status e \<or> status e' \<in> allowed_transitions (status e) \<or>
    (status e, status e') \<in> {(SUBMISSION_UNKNOWN, SUBMITTED), (SUBMISSION_UNKNOWN, SUBMISSION_REJECTED),
      (SUBMISSION_REJECTED, CONFIRMED), (SUBMISSION_REJECTED, REVERTED), (REVERTED, RELEASED)}"
  using step_evolves [OF assms] by (cases "status e") (auto simp: row_evolves_def)

theorem status_moves_lifecycle_witness:
  "\<exists>e \<in> set (executions allocated_repo).
     \<forall>e' \<in> set (executions (fst (run_call example_config (ClaimSigning example_eid 1001) allocated_repo))).
       execution_id e' = example_eid \<longrightarrow>
       status e' \<in> {PREFLIGHT_APPROVED, SIGNING, EXPIRED, RELEASED}"
proof -
  obtain e where e: "e \<in> set (executions allocated_repo)" "execution_id e = example_eid"
    "status e = PREFLIGHT_APPROVED"
    using allocated_facts by auto
  from status_moves_lifecycle [OF allocated_reachable call [of example_config allocated_repo
      "ClaimSigning example_eid 1001"] e(1)] e
  show ?thesis by (intro bexI [OF _ e(1)]) auto
qed

text \<open>
  C6. Every confirmed, finalized, reverted or reviewed execution carries a signed transaction
  and a receipt below a safe boundary of its chain, at least the chain's depth deep; its receipt
  status says success, or failure when it is reverted.
\<close>

theorem finality_has_evidence:
  assumes "repo_reachable cfg s" "e \<in> set (executions s)"
    and "status e \<in> {CONFIRMED, FINALIZED, REVERTED, REORG_REVIEW}"
  shows "final_evidence e \<and> has_signed_transaction cfg e \<and>
    receipt_status e = Some (if status e = REVERTED then 0 else 1)"
proof -
  have "row_inv cfg e" using reachable_inv [OF assms(1)] assms(2) by (simp add: repo_inv_def)
  then show ?thesis using assms(3) by (elim insertE emptyE) (simp_all add: row_inv_def needs_finality_def)
qed

theorem finality_has_evidence_witness:
  "\<exists>e \<in> set (executions final_repo). status e = FINALIZED \<and> final_evidence e \<and> receipt_status e = Some 1"
proof -
  obtain e where e: "e \<in> set (executions final_repo)" "status e = FINALIZED"
    using final_facts by auto
  with finality_has_evidence [OF final_reachable e(1)] show ?thesis by auto
qed

text \<open>
  C7. A released execution can no longer be paid out of the relayer: either nothing was ever
  signed for it, or its transaction is reverted beyond finality and the release evidence is kept.
\<close>

theorem released_cannot_pay:
  assumes "repo_reachable cfg s" "e \<in> set (executions s)" "status e = RELEASED"
  shows "\<not> tainted e \<or>
    receipt_status e = Some 0 \<and> final_evidence e \<and> release_evidence e \<noteq> None"
  using reachable_inv [OF assms(1)] assms(2,3) by (auto simp: repo_inv_def row_inv_def)

theorem released_cannot_pay_witness:
  "\<exists>e \<in> set (executions released_repo). status e = RELEASED \<and>
     (\<not> tainted e \<or> receipt_status e = Some 0 \<and> final_evidence e \<and> release_evidence e \<noteq> None)"
proof -
  obtain e where e: "e \<in> set (executions released_repo)" "status e = RELEASED"
    using released_facts by auto
  with released_cannot_pay [OF released_reachable e] show ?thesis by blast
qed

section \<open>Signing and broadcasting\<close>

text \<open>
  C8. A granted signing claim fences its predecessors: from then on, a signature presented
  under an older generation is refused in every later state.
\<close>

theorem signing_claim_fences:
  assumes "repo_reachable cfg s" "snd (claim_signing cfg eid now s) = Inr (row, True)"
    and "(repo_step cfg)\<^sup>*\<^sup>* (fst (claim_signing cfg eid now s)) t"
    and "gen < signing_claim_generation row"
  shows "snd (persist_signed_transaction cfg eid sig raw gen uh now' t) \<noteq> Inr r"
proof
  assume "snd (persist_signed_transaction cfg eid sig raw gen uh now' t) = Inr r"
  moreover have "repo_step cfg s (fst (claim_signing cfg eid now s))"
    using call [of cfg s "ClaimSigning eid now"] by simp
  then have "repo_reachable cfg (fst (claim_signing cfg eid now s))"
    by (intro reachable_step [OF assms(1)]) simp
  ultimately have "signing_claim_generation row \<le> gen"
    using persist_needs_claim assms(3) claim_signing_granted [OF assms(2)] by blast
  with assms(4) show False by simp
qed

theorem signing_claim_fences_witness:
  "\<forall>r. snd (persist_signed_transaction example_config example_eid example_sig example_raw 0 None 1002
     (fst (claim_signing example_config example_eid 1001 allocated_repo))) \<noteq> Inr r"
proof -
  obtain row where "snd (claim_signing example_config example_eid 1001 allocated_repo) = Inr (row, True)"
    "signing_claim_generation row = 1" by (rule example_claim)
  with signing_claim_fences [OF allocated_reachable this(1) rtranclp.rtrancl_refl, of 0]
  show ?thesis by simp
qed

text \<open>
  C9. A granted claim is exclusive for its lease: it takes the next generation, its lease ends
  at the deadline at the latest, and until then no second claim is granted, whatever calls are
  made on the repository in between.
\<close>

theorem signing_lease_exclusive:
  assumes "repo_reachable cfg s" "snd (claim_signing cfg eid now s) = Inr (row, True)"
    and "(repo_step cfg)\<^sup>*\<^sup>* (fst (claim_signing cfg eid now s)) t"
    and "now' < min (deadline row) (now + SIGNING_CLAIM_LEASE_SECONDS)"
  shows "claim_granted now s eid row \<and> snd (claim_signing cfg eid now' t) \<noteq> Inr (r, True)"
proof -
  let ?u = "fst (claim_signing cfg eid now s)"
  have "repo_step cfg s ?u" using call [of cfg s "ClaimSigning eid now"] by simp
  then have reach: "repo_reachable cfg ?u" by (intro reachable_step [OF assms(1)]) simp
  from claim_signing_granted [OF assms(2)]
  have row: "locked_execution ?u eid = Some row" and granted: "claim_granted now s eid row" by simp_all
  then have "leased_in (min (deadline row) (now + SIGNING_CLAIM_LEASE_SECONDS)) eid ?u"
    using granted_leased [OF reach] by simp
  then show ?thesis
    using granted leased_no_claim [OF leased_steps [OF assms(3) reach] assms(4)] by blast
qed

theorem signing_lease_exclusive_witness:
  "\<forall>r. snd (claim_signing example_config example_eid 1010
     (run_calls example_config [ClaimSigning example_eid 1006, RecordWatcherAttempt example_eid 1007,
        ReservePilotGas example_eid 5 1 1008]
       (fst (claim_signing example_config example_eid 1001 allocated_repo)))) \<noteq> Inr (r, True)"
proof -
  obtain row where row: "snd (claim_signing example_config example_eid 1001 allocated_repo) = Inr (row, True)"
    "deadline row = 2000" by (rule example_claim)
  have "1010 < min (deadline row) (1001 + SIGNING_CLAIM_LEASE_SECONDS)"
    by (simp add: row(2) SIGNING_CLAIM_LEASE_SECONDS_def)
  from signing_lease_exclusive [OF allocated_reachable row(1) run_calls_steps this] show ?thesis by blast
qed

text \<open>
  What is rebroadcast is exactly what was signed: the bytes handed to the network, at any
  later time, are those persisted with the signature.
\<close>

theorem rebroadcast_sends_signed_bytes:
  assumes "repo_reachable cfg s"
    and "snd (persist_signed_transaction cfg eid sig raw gen uh now s) = Inr row"
    and "(repo_step cfg)\<^sup>*\<^sup>* (fst (persist_signed_transaction cfg eid sig raw gen uh now s)) t"
    and "snd (rebroadcast_raw_transaction cfg eid offered now' t) = Inr b"
  shows "b = raw"
proof -
  let ?u = "fst (persist_signed_transaction cfg eid sig raw gen uh now s)"
  have "repo_step cfg s ?u"
    using call [of cfg s "PersistSigned eid sig raw gen uh now"] by simp
  then have reach: "repo_reachable cfg ?u" by (intro reachable_step [OF assms(1)]) simp
  have row: "locked_execution ?u eid = Some row" "raw_transaction row = Some raw"
    using persist_signed_stored [OF assms(2)] by simp_all
  obtain row' where row': "locked_execution t eid = Some row'" "raw_transaction row' = Some b"
    using assms(4) by (rule rebroadcast_bytes)
  have "row_history row row'"
    using reach assms(3) locked_in_set [OF row(1)] locked_in_set [OF row'(1)]
    by (rule history_of_execution) (simp add: locked_id [OF row(1)] locked_id [OF row'(1)])
  with row(2) row'(2) show ?thesis
    by (simp add: row_history_def same_signed_material_def tainted_def)
qed

theorem rebroadcast_sends_signed_bytes_witness:
  "snd (rebroadcast_raw_transaction example_config example_eid None 1010 submitted_repo) = Inr example_raw"
proof -
  obtain row where "snd (persist_signed_transaction example_config example_eid example_sig example_raw
    1 None 1003 reserved_repo) = Inr row" by (rule example_persist)
  moreover have "(repo_step example_config)\<^sup>*\<^sup>* (fst (persist_signed_transaction example_config
      example_eid example_sig example_raw 1 None 1003 reserved_repo)) submitted_repo"
    unfolding submitted_repo_def by (rule run_calls_steps)
  moreover obtain b where b: "snd (rebroadcast_raw_transaction example_config example_eid None 1010
    submitted_repo) = Inr b" by (rule example_rebroadcast)
  ultimately have "b = example_raw"
    by (rule rebroadcast_sends_signed_bytes [OF reserved_reachable])
  with b show ?thesis by simp
qed

section \<open>Errors, pauses and retries\<close>

text \<open>
  C11. A call that raises leaves the repository as it was; only a gate denial keeps one audit
  event, and nothing but that event.
\<close>

theorem failed_call_keeps_tables:
  assumes "snd (run_call cfg c s) = Some e"
  shows "fst (run_call cfg c s) = s \<or>
    (\<exists>reason. e = PilotGateDenied reason) \<and> event_only s (fst (run_call cfg c s))"
  using assms by (rule call_errors_keep)

theorem failed_call_keeps_tables_witness:
  "fst (run_call example_config (ReleaseExpired ''nobody'' 5) empty_repo) = empty_repo"
proof -
  have "snd (run_call example_config (ReleaseExpired ''nobody'' 5) empty_repo) = Some ExecutionNotFound"
    by code_simp
  from failed_call_keeps_tables [OF this] show ?thesis by simp
qed

text \<open>
  C12. While the platform, the tenant or the node of an execution is paused, no claim for
  signing, gas reservation, submission claim or rebroadcast of it succeeds.
\<close>

theorem paused_scope_blocks:
  assumes "pilot_policy cfg = Some policy" "locked_execution s eid = Some row"
    and "control_paused s (''platform'', '''', '''') \<or> control_paused s (''tenant'', tenant_id row, '''')
      \<or> control_paused s (''node'', tenant_id row, node_id row)"
    and "gated_call c = Some eid"
  shows "snd (run_call cfg c s) \<noteq> None"
proof -
  have "paused_scope s (tenant_id row) (node_id row) \<noteq> None"
    using assms(3) by (auto simp: paused_scope_def)
  then obtain reason where "paused_scope s (tenant_id row) (node_id row) = Some reason" by blast
  from paused_call_refused [OF assms(1,2) this assms(4)] show ?thesis .
qed

theorem paused_scope_blocks_witness:
  "snd (run_call example_config (ClaimSigning example_eid 1002) paused_repo) \<noteq> None"
proof -
  have "locked_execution paused_repo example_eid \<noteq> None"
    using paused_facts(2) by (auto simp: locked_execution_def sel_by_None)
  then obtain row where row: "locked_execution paused_repo example_eid = Some row" by blast
  have "pilot_policy example_config = Some example_policy" by (simp add: example_config_def)
  then show ?thesis
    by (rule paused_scope_blocks [OF _ row]) (simp_all add: paused_facts(1))
qed

text \<open>
  C13. A successful call to persist, submit, reject, release or finalize may be sent again at any
  later time: it succeeds again and changes nothing.
\<close>

theorem retried_call_replays:
  assumes "retry_at now c = Some c'" "0 < now" "snd (run_call cfg c s) = None"
  shows "run_call cfg c' (fst (run_call cfg c s)) = (fst (run_call cfg c s), None)"
  using assms by (rule retry_replays)

theorem retried_call_replays_witness:
  "\<exists>t. t = fst (run_call example_config (PersistSigned example_eid example_sig example_raw 1 None 1003)
       reserved_repo) \<and>
     run_call example_config (PersistSigned example_eid example_sig example_raw 1 None 1500) t = (t, None)"
proof -
  let ?c = "PersistSigned example_eid example_sig example_raw 1 None 1003"
  obtain row where "snd (persist_signed_transaction example_config example_eid example_sig example_raw
    1 None 1003 reserved_repo) = Inr row" by (rule example_persist)
  then have "snd (run_call example_config ?c reserved_repo) = None" by (auto simp: outcome_ok)
  from retried_call_replays [OF _ _ this, of 1500] show ?thesis by simp
qed

text \<open>
  Allocation is idempotent: the same intent sent again returns the execution it already
  has, with the same nonce, whatever the chain's pending nonce is by then.
\<close>

theorem allocation_replays:
  assumes "snd (allocate_or_return cfg intent pending confirmed now uuids s) = Inr row"
    and "0 \<le> pending'" "pending' \<le> MAX_RELAYER_NONCE" "0 < now'"
  shows "allocate_or_return cfg intent pending' None now' uuids'
      (fst (allocate_or_return cfg intent pending confirmed now uuids s))
    = (fst (allocate_or_return cfg intent pending confirmed now uuids s), Inr row)"
  using assms by (intro allocate_replay) (simp_all add: canonical_nonce_def)

theorem allocation_replays_witness:
  "\<exists>row. relayer_nonce row = 4 \<and>
     snd (allocate_or_return example_config example_intent 9 None 1400 [''u2'']
       (fst (allocate_or_return example_config example_intent 4 None 1000 [''u1''] empty_repo))) = Inr row"
proof -
  obtain row where "snd (allocate_or_return example_config example_intent 4 None 1000 [''u1''] empty_repo)
    = Inr row" "relayer_nonce row = 4" by (rule example_allocate)
  with allocation_replays [OF this(1), of 9 1400 "[''u2'']"] show ?thesis
    by (simp add: MAX_RELAYER_NONCE_def)
qed

text \<open>
  C15. The watch list is fair: a watchable execution that a full page leaves out was looked at
  no earlier than every execution on the page.
\<close>

theorem watch_list_oldest_first:
  assumes "repo_reachable cfg s" "list_watchable_ids c None limit s = Inr ids"
    and "d \<in> set (executions s)" "chain d = c" "watchable d" "execution_id d \<notin> set ids"
  shows "length ids = nat limit \<and>
    (\<forall>e \<in> set (executions s). execution_id e \<in> set ids \<longrightarrow> watch_key e \<le> watch_key d)"
proof -
  define xs where "xs = sort_key watch_key (filter (\<lambda>e. chain e = c \<and> watchable e) (executions s))"
  have ids: "ids = map execution_id (take (nat limit) xs)"
    using assms(2) by (auto simp: list_watchable_ids_def opt_ok_def xs_def split: if_splits)
  have d: "d \<in> set (drop (nat limit) xs)"
  proof -
    have "d \<in> set (take (nat limit) xs @ drop (nat limit) xs)"
      using assms(3-5) by (simp add: xs_def)
    then show ?thesis using assms(6) unfolding ids set_append by auto
  qed
  have "sorted (map watch_key (take (nat limit) xs @ drop (nat limit) xs))"
    by (simp add: xs_def)
  then have le: "watch_key e \<le> watch_key d" if "e \<in> set (take (nat limit) xs)" for e
    using that d unfolding map_append sorted_append by auto
  have "watch_key e \<le> watch_key d" if e: "e \<in> set (executions s)" "execution_id e \<in> set ids" for e
  proof -
    obtain e0 where e0: "e0 \<in> set (take (nat limit) xs)" "execution_id e0 = execution_id e"
      using e(2) ids by auto
    then have "e0 \<in> set (executions s)" by (auto simp: xs_def dest: in_set_takeD)
    with e(1) e0(2) have "e0 = e" by (intro same_execution [OF reachable_ids [OF assms(1)]])
    with le [OF e0(1)] show ?thesis by simp
  qed
  moreover have "nat limit < length xs" using d by (metis drop_all empty_iff list.set(1) not_le)
  ultimately show ?thesis by (simp add: ids)
qed

theorem watch_list_oldest_first_witness:
  "\<exists>ids. list_watchable_ids ''eip155:8453'' None 1 crowded_repo = Inr ids \<and> length ids = 1"
proof -
  obtain ids where ids: "list_watchable_ids ''eip155:8453'' None 1 crowded_repo = Inr ids"
    and "map (\<lambda>e. (execution_id e \<in> set ids, chain e, watchable e)) (executions crowded_repo)
       = [(True, ''eip155:8453'', True), (False, ''eip155:8453'', True)]"
    using crowded_watch_eval by (auto split: sum.splits)
  then have "\<exists>d \<in> set (executions crowded_repo). chain d = ''eip155:8453'' \<and> watchable d \<and>
    execution_id d \<notin> set ids" by auto
  then obtain d where "d \<in> set (executions crowded_repo)" "chain d = ''eip155:8453''" "watchable d"
    "execution_id d \<notin> set ids" by blast
  from watch_list_oldest_first [OF crowded_reachable ids this] ids show ?thesis by simp
qed

section \<open>Values\<close>

text \<open>
  A validated intent is canonical: on an approved chain with that chain's USDC, every
  address and hash in lower case, and validating it again gives it back.
\<close>

theorem validated_intent_canonical:
  assumes "validate_intent i = Some c"
  shows "validate_intent c = Some c \<and>
    list_all (is_lower_hex_string 40) [owner c, payee c, token c, executor c, relayer_address c] \<and>
    list_all (is_lower_hex_string 64)
      [capability_hash c, reservation_hash c, execution_scope_hash c, execution_digest c, request_hash c] \<and>
    (\<exists>p. hosted_chain_profile (chain c) = Some p \<and> token c = profile_token p)"
proof -
  from assms have ok: "intent_fields_ok i" and scope: "chain_scope_ok (lower_intent i)"
    and c: "c = lower_intent i"
    by (auto simp: validate_intent_def Let_def split: if_splits)
  have "validate_intent c = Some c"
    using intent_fields_ok_lower [OF ok] scope
    by (simp add: c validate_intent_def lower_intent_idem)
  moreover have "list_all (is_lower_hex_string 40) [owner c, payee c, token c, executor c, relayer_address c] \<and>
    list_all (is_lower_hex_string 64)
      [capability_hash c, reservation_hash c, execution_scope_hash c, execution_digest c, request_hash c]"
    using ok by (simp add: c lower_intent_def intent_fields_ok_def lower_hex_string)
  moreover have "\<exists>p. hosted_chain_profile (chain c) = Some p \<and> token c = profile_token p"
    using scope by (auto simp: c chain_scope_ok_def split: option.splits)
  ultimately show ?thesis by blast
qed

theorem validated_intent_canonical_witness:
  "validate_intent example_intent = Some example_intent \<and> is_lower_hex_string 40 (owner example_intent)"
proof -
  have "validate_intent example_intent \<noteq> None" by code_simp
  then obtain c where "validate_intent example_intent = Some c" by blast
  moreover from validated_intent_canonical [OF this] have "is_lower_hex_string 40 (owner c)" by simp
  moreover have "lower_intent example_intent = example_intent" by code_simp
  ultimately show ?thesis by (auto simp: validate_intent_def Let_def split: if_splits)
qed

text \<open>
  The worst-case gas price is the ceiling of the exact product: never below the cost of the
  gas at the price ceiling, and less than one micro-dollar above it.
\<close>

theorem worst_case_gas_is_ceiling:
  assumes "0 < gas_limit" "0 < max_fee" "0 < price_ceiling"
  shows "\<exists>c. worst_case_gas_usd_micros gas_limit max_fee price_ceiling = Some c \<and> 0 < c \<and>
    gas_limit * max_fee * price_ceiling \<le> c * WEI_PER_NATIVE_UNIT \<and>
    (c - 1) * WEI_PER_NATIVE_UNIT < gas_limit * max_fee * price_ceiling"
proof -
  define n where "n = gas_limit * max_fee * price_ceiling"
  define c where "c = (n + WEI_PER_NATIVE_UNIT - 1) div WEI_PER_NATIVE_UNIT"
  have n: "0 < n" using assms by (simp add: n_def)
  have w: "(0 :: int) < WEI_PER_NATIVE_UNIT" by (simp add: WEI_PER_NATIVE_UNIT_def)
  have eq: "c * WEI_PER_NATIVE_UNIT = n + WEI_PER_NATIVE_UNIT - 1 - (n + WEI_PER_NATIVE_UNIT - 1) mod WEI_PER_NATIVE_UNIT"
    unfolding c_def by (metis add_diff_cancel_right' div_mult_mod_eq)
  have m: "0 \<le> (n + WEI_PER_NATIVE_UNIT - 1) mod WEI_PER_NATIVE_UNIT"
    "(n + WEI_PER_NATIVE_UNIT - 1) mod WEI_PER_NATIVE_UNIT < WEI_PER_NATIVE_UNIT"
    using w by simp_all
  have "n \<le> c * WEI_PER_NATIVE_UNIT" "(c - 1) * WEI_PER_NATIVE_UNIT < n"
    using eq m by (simp_all add: left_diff_distrib)
  moreover from this n w have "0 < c" by (metis less_le_trans not_le zero_less_mult_pos2)
  moreover have "worst_case_gas_usd_micros gas_limit max_fee price_ceiling = Some c"
    using assms by (simp add: worst_case_gas_usd_micros_def c_def n_def)
  ultimately show ?thesis by (auto simp: n_def)
qed

theorem worst_case_gas_is_ceiling_witness:
  "\<exists>c. worst_case_gas_usd_micros 120000 30000000000 4000000000 = Some c \<and> 0 < c"
  using worst_case_gas_is_ceiling [of 120000 30000000000 4000000000] by auto

end
