(* ===== verification/Evm_Encoding.thy ===== *)
theory Evm_Encoding
  imports Execution_Rows
begin

text \<open>
  The encoders of an Executor call (\<open>apps/facilitator/evm.py\<close>): the authorization with its
  validation, its EIP-712 digest, the \<open>execute\<close> calldata, and the EIP-1559 transaction around
  it. Keccak-256, the ABI encoder (\<open>eth_abi\<close>) and RLP are third-party packages: they are the
  arguments in \<open>evm_lib\<close>, on values that carry their type.
\<close>

section \<open>Bytes\<close>

text \<open>\<open>bytes.fromhex\<close>: pairs of digits, with white space between them.\<close>

definition is_space_char :: "char \<Rightarrow> bool" where
  "is_space_char c \<longleftrightarrow> ord c = 32 \<or> (9 \<le> ord c \<and> ord c \<le> 13)"

definition hex_digit_value :: "char \<Rightarrow> int" where
  "hex_digit_value c =
     (if is_digit_char c then of_char c - 48 else of_char (lower_char c) - 87)"

fun from_hex :: "string \<Rightarrow> bytes option" where
  "from_hex [] = Some []"
| "from_hex [c] = (if is_space_char c then Some [] else None)"
| "from_hex (c # d # cs) =
     (if is_space_char c then from_hex (d # cs)
      else if is_hex_char c \<and> is_hex_char d
      then map_option ((#) (word_of_int (16 * hex_digit_value c + hex_digit_value d))) (from_hex cs)
      else None)"

text \<open>\<open>bytes.hex()\<close>, and \<open>int.from_bytes(b, "big")\<close>.\<close>

definition hex_digit_char :: "int \<Rightarrow> char" where
  "hex_digit_char n = char_of (if n < 10 then 48 + n else 87 + n)"

definition byte_hex :: "8 word \<Rightarrow> string" where
  "byte_hex b = [hex_digit_char (uint b div 16), hex_digit_char (uint b mod 16)]"

definition to_hex :: "bytes \<Rightarrow> string" where
  "to_hex bs = concat (map byte_hex bs)"

definition from_bytes_big :: "bytes \<Rightarrow> int" where
  "from_bytes_big bs = foldl (\<lambda>a b. 256 * a + uint b) 0 bs"

text \<open>\<open>_uint_bytes\<close>: big-endian with no leading zero, and nothing for 0.\<close>

function uint_bytes :: "int \<Rightarrow> bytes" where
  "uint_bytes n = (if n \<le> 0 then [] else uint_bytes (n div 256) @ [word_of_int (n mod 256)])"
  by pat_completeness auto

termination
  by (relation "measure nat") auto

declare uint_bytes.simps [simp del]

definition text_bytes :: "string \<Rightarrow> bytes" where
  "text_bytes s = map (\<lambda>c. of_nat (ord c)) s"

section \<open>Third-party encoders\<close>

datatype abi_value =
    AbiBytes32 bytes
  | AbiAddress string
  | AbiUint256 int
  | AbiBytes bytes
  | AbiTuple "abi_value list"

datatype rlp_item = RlpBytes bytes | RlpList "rlp_item list"

record evm_lib =
  keccak :: "bytes \<Rightarrow> bytes"
  abi_encode :: "abi_value list \<Rightarrow> bytes"
  rlp_encode :: "rlp_item \<Rightarrow> bytes"

section \<open>Field validators\<close>

datatype evm_error = EvmEncodingError string

definition UINT256_MAX :: int where
  "UINT256_MAX = 2 ^ 256 - 1"

definition SECP256K1_N :: int where
  "SECP256K1_N = 0xFFFFFFFFFFFFFFFFFFFFFFFFFFFFFFFEBAAEDCE6AF48A03BBFD25E8CD0364141"

definition SECP256K1_HALF_N :: int where
  "SECP256K1_HALF_N = 0x7FFFFFFFFFFFFFFFFFFFFFFFFFFFFFFF5D576E7357A4501DDFE92F46681B20A0"

definition USDC_BY_CHAIN_ID :: "(int \<times> string) list" where
  "USDC_BY_CHAIN_ID =
     [(8453, ''0x833589fCD6eDb6E08f4c7C32D4f71b54bdA02913''),
      (137, ''0x3c499c542cEF5E3811e1192ce70d8cC03d5c3359''),
      (84532, ''0x036CbD53842c5426634e7929541eC2318f3dCF7e''),
      (80002, ''0x41E94Eb019C0762f9Bfcf9Fb1E58725BfB0e7582'')]"

text \<open>\<open>_bytes\<close> of a hexadecimal string; of bytes it is the identity.\<close>

definition evm_bytes :: "string \<Rightarrow> string \<Rightarrow> evm_error + bytes" where
  "evm_bytes value field =
     (if take 2 value = ''0x''
      then lift_opt (EvmEncodingError (field @ '' is not valid hex'')) (from_hex (drop 2 value))
      else Inl (EvmEncodingError (field @ '' must be bytes or 0x-prefixed hex'')))"

definition evm_bytes32 :: "string \<Rightarrow> string \<Rightarrow> evm_error + bytes" where
  "evm_bytes32 value field =
     and_then (evm_bytes value field) (\<lambda>raw.
       if length raw \<noteq> 32 then Inl (EvmEncodingError (field @ '' must be exactly 32 bytes''))
       else Inr raw)"

definition evm_address :: "string \<Rightarrow> string \<Rightarrow> evm_error + string" where
  "evm_address value field =
     (if length value \<noteq> 42 \<or> take 2 value \<noteq> ''0x''
      then Inl (EvmEncodingError (field @ '' must be a 20-byte 0x address''))
      else case from_hex (drop 2 value) of
        None \<Rightarrow> Inl (EvmEncodingError (field @ '' must be a 20-byte 0x address''))
      | Some raw \<Rightarrow>
          if length raw \<noteq> 20 \<or> raw = replicate 20 0
          then Inl (EvmEncodingError (field @ '' must be a nonzero 20-byte address''))
          else Inr (''0x'' @ to_hex raw))"

definition evm_uint :: "int \<Rightarrow> string \<Rightarrow> bool \<Rightarrow> evm_error + int" where
  "evm_uint value field positive =
     (if value < 0 \<or> UINT256_MAX < value
      then Inl (EvmEncodingError (field @ '' must be a uint256''))
      else if positive \<and> value = 0 then Inl (EvmEncodingError (field @ '' must be positive''))
      else Inr value)"

definition approved_chain :: "int \<Rightarrow> evm_error + int" where
  "approved_chain chain_id =
     and_then (evm_uint chain_id ''chain_id'' False) (\<lambda>_.
       if map_of USDC_BY_CHAIN_ID chain_id = None
       then Inl (EvmEncodingError ''chain_id is not an approved execution chain'')
       else Inr chain_id)"

definition normalise_signature :: "bytes \<Rightarrow> bool \<Rightarrow> evm_error + (int \<times> int \<times> int)" where
  "normalise_signature sig execution =
     (if length sig \<noteq> 65 then Inl (EvmEncodingError ''signature must be exactly 65 bytes'')
      else
        let r = from_bytes_big (take 32 sig); s = from_bytes_big (take 32 (drop 32 sig));
            v = uint (sig ! 64)
        in if v \<notin> (if execution then {27, 28} else {0, 1, 27, 28})
           then Inl (EvmEncodingError ''signature recovery id is invalid'')
           else if r = 0 \<or> SECP256K1_N \<le> r \<or> s = 0 \<or> SECP256K1_HALF_N < s
           then Inl (EvmEncodingError ''signature scalar is invalid'')
           else Inr (v, r, s))"

section \<open>Execution authorization\<close>

record execution_authorization =
  au_capability_hash :: bytes
  au_reservation_hash :: bytes
  au_owner :: string
  au_payee :: string
  au_token :: string
  au_amount :: int
  au_nonce :: int
  au_deadline :: int
  au_signer_epoch :: int
  au_relayer :: string
  au_chain_id :: int

text \<open>
  \<open>ExecutionAuthorization(...)\<close> with its \<open>__post_init__\<close>, on the fields of an intent; without a
  chain the token decides it.
\<close>

definition matching_chain :: "string \<Rightarrow> evm_error + int" where
  "matching_chain token_address =
     (case filter (\<lambda>(c, t). lower token_address = lower t) USDC_BY_CHAIN_ID of
        [(c, t)] \<Rightarrow> Inr c
      | _ \<Rightarrow> Inl (EvmEncodingError ''token is not an approved USDC contract''))"

definition make_authorization ::
  "('a intent_columns_scheme) \<Rightarrow> int \<Rightarrow> int option \<Rightarrow> evm_error + execution_authorization" where
  "make_authorization i amount chain_id =
     and_then (evm_bytes32 (capability_hash i) ''capability_hash'') (\<lambda>cap.
     and_then (evm_bytes32 (reservation_hash i) ''reservation_hash'') (\<lambda>res.
     if cap = replicate 32 0 then Inl (EvmEncodingError ''capability_hash must be nonzero'')
     else if res = replicate 32 0 then Inl (EvmEncodingError ''reservation_hash must be nonzero'')
     else
     and_then (evm_address (owner i) ''owner'') (\<lambda>own.
     and_then (evm_address (payee i) ''payee'') (\<lambda>pay.
     and_then (evm_address (relayer_address i) ''relayer'') (\<lambda>rel.
     and_then (evm_address (token i) ''token'') (\<lambda>tok.
     and_then (case chain_id of None \<Rightarrow> matching_chain tok | Some c \<Rightarrow> approved_chain c) (\<lambda>c.
     if map_option lower (map_of USDC_BY_CHAIN_ID c) \<noteq> Some (lower tok)
     then Inl (EvmEncodingError ''token must be canonical USDC for chain'')
     else
     and_then (evm_uint amount ''amount'' True) (\<lambda>n.
     and_then (evm_uint (owner_nonce i) ''nonce'' False) (\<lambda>nonce.
     and_then (evm_uint (deadline i) ''deadline'' False) (\<lambda>dl.
     and_then (evm_uint (signer_epoch i) ''signer_epoch'' True) (\<lambda>epoch.
       Inr \<lparr>au_capability_hash = cap, au_reservation_hash = res, au_owner = own, au_payee = pay,
            au_token = tok, au_amount = n, au_nonce = nonce, au_deadline = dl,
            au_signer_epoch = epoch, au_relayer = rel, au_chain_id = c\<rparr>)))))))))))"

definition execution_values :: "execution_authorization \<Rightarrow> abi_value list" where
  "execution_values a =
     [AbiBytes32 (au_capability_hash a), AbiBytes32 (au_reservation_hash a),
      AbiAddress (au_owner a), AbiAddress (au_payee a), AbiAddress (au_token a),
      AbiUint256 (au_amount a), AbiUint256 (au_nonce a), AbiUint256 (au_deadline a),
      AbiUint256 (au_signer_epoch a), AbiAddress (au_relayer a)]"

definition EXECUTOR_EIP712_NAME :: string where
  "EXECUTOR_EIP712_NAME = ''Agentonomy USDC Executor''"

definition EXECUTOR_EIP712_VERSION :: string where
  "EXECUTOR_EIP712_VERSION = ''1''"

definition EIP712_DOMAIN_TYPE :: string where
  "EIP712_DOMAIN_TYPE =
     ''EIP712Domain(string name,string version,uint256 chainId,address verifyingContract)''"

definition EXECUTION_TYPE :: string where
  "EXECUTION_TYPE =
     ''Execution(bytes32 capabilityHash,bytes32 reservationHash,address owner,address payee,address token,'' @
     ''uint256 amount,uint256 nonce,uint256 deadline,uint256 signerEpoch,address relayer)''"

definition EXECUTE_FUNCTION_TYPE :: string where
  "EXECUTE_FUNCTION_TYPE =
     ''execute((bytes32,bytes32,address,address,address,uint256,uint256,uint256,uint256,address),bytes)''"

definition EXECUTE_SELECTOR :: "evm_lib \<Rightarrow> bytes" where
  "EXECUTE_SELECTOR lib = take 4 (keccak lib (text_bytes EXECUTE_FUNCTION_TYPE))"

definition domain_separator :: "evm_lib \<Rightarrow> string \<Rightarrow> int \<Rightarrow> evm_error + bytes" where
  "domain_separator lib executor_address chain_id =
     and_then (evm_address executor_address ''executor_address'') (\<lambda>ex.
     and_then (approved_chain chain_id) (\<lambda>c.
       Inr (keccak lib (abi_encode lib
         [AbiBytes32 (keccak lib (text_bytes EIP712_DOMAIN_TYPE)),
          AbiBytes32 (keccak lib (text_bytes EXECUTOR_EIP712_NAME)),
          AbiBytes32 (keccak lib (text_bytes EXECUTOR_EIP712_VERSION)),
          AbiUint256 c, AbiAddress ex]))))"

definition hash_execution ::
  "evm_lib \<Rightarrow> execution_authorization \<Rightarrow> string \<Rightarrow> int option \<Rightarrow> evm_error + bytes" where
  "hash_execution lib a executor_address chain_id =
     and_then (case chain_id of None \<Rightarrow> Inr (au_chain_id a) | Some c \<Rightarrow> approved_chain c) (\<lambda>selected.
     if selected \<noteq> au_chain_id a then Inl (EvmEncodingError ''chain_id does not match execution'')
     else
       let struct_hash = keccak lib (abi_encode lib
             (AbiBytes32 (keccak lib (text_bytes EXECUTION_TYPE)) # execution_values a))
       in and_then (domain_separator lib executor_address selected) (\<lambda>domain.
            Inr (keccak lib ([0x19, 0x01] @ domain @ struct_hash))))"

definition encode_execute_calldata ::
  "evm_lib \<Rightarrow> execution_authorization \<Rightarrow> bytes \<Rightarrow> evm_error + bytes" where
  "encode_execute_calldata lib a sig =
     and_then (normalise_signature sig True) (\<lambda>_.
       Inr (EXECUTE_SELECTOR lib @ abi_encode lib [AbiTuple (execution_values a), AbiBytes sig]))"

section \<open>Transactions\<close>

text \<open>The access list is the tuple of addresses with their storage keys.\<close>

record eip1559_transaction =
  tx_nonce :: int
  tx_max_priority_fee :: int
  tx_max_fee :: int
  tx_gas_limit :: int
  tx_to :: string
  tx_data :: bytes
  tx_value :: int
  tx_access_list :: "(string \<times> bytes list) list"
  tx_chain_id :: int

fun normalise_access_list :: "(string \<times> bytes list) list \<Rightarrow> evm_error + (string \<times> bytes list) list" where
  "normalise_access_list [] = Inr []"
| "normalise_access_list ((address, keys) # entries) =
     and_then (evm_address address ''access_list address'') (\<lambda>a.
     if \<not> list_all (\<lambda>k. length k = 32) keys
     then Inl (EvmEncodingError ''access_list storage key must be exactly 32 bytes'')
     else and_then (normalise_access_list entries) (\<lambda>rest. Inr ((a, keys) # rest)))"

definition make_transaction ::
  "int \<Rightarrow> int \<Rightarrow> int \<Rightarrow> int \<Rightarrow> string \<Rightarrow> bytes \<Rightarrow> int \<Rightarrow> (string \<times> bytes list) list \<Rightarrow> int
     \<Rightarrow> evm_error + eip1559_transaction" where
  "make_transaction nonce priority fee gas dest data value access chain_id =
     and_then (approved_chain chain_id) (\<lambda>c.
     and_then (evm_uint nonce ''nonce'' False) (\<lambda>n.
     and_then (evm_uint priority ''max_priority_fee_per_gas'' False) (\<lambda>p.
     and_then (evm_uint fee ''max_fee_per_gas'' True) (\<lambda>f.
     if f < p then Inl (EvmEncodingError ''max_fee_per_gas must cover max_priority_fee_per_gas'')
     else
     and_then (evm_uint gas ''gas_limit'' True) (\<lambda>g.
     and_then (evm_address dest ''to'') (\<lambda>to_address.
     and_then (evm_uint value ''value'' False) (\<lambda>v.
     if v \<noteq> 0 then Inl (EvmEncodingError ''executor transaction value must be zero'')
     else
     and_then (normalise_access_list access) (\<lambda>al.
       Inr \<lparr>tx_nonce = n, tx_max_priority_fee = p, tx_max_fee = f, tx_gas_limit = g,
            tx_to = to_address, tx_data = data, tx_value = v, tx_access_list = al,
            tx_chain_id = c\<rparr>))))))))"

text \<open>\<open>bytes.fromhex(address[2:])\<close> of an address that has passed its validator.\<close>

definition address_bytes :: "string \<Rightarrow> bytes" where
  "address_bytes a = (case from_hex (drop 2 a) of Some raw \<Rightarrow> raw | None \<Rightarrow> [])"

definition rlp_uint :: "int \<Rightarrow> rlp_item" where
  "rlp_uint n = RlpBytes (uint_bytes n)"

definition unsigned_fields :: "eip1559_transaction \<Rightarrow> rlp_item list" where
  "unsigned_fields t =
     [rlp_uint (tx_chain_id t), rlp_uint (tx_nonce t), rlp_uint (tx_max_priority_fee t),
      rlp_uint (tx_max_fee t), rlp_uint (tx_gas_limit t), RlpBytes (address_bytes (tx_to t)),
      rlp_uint (tx_value t), RlpBytes (tx_data t),
      RlpList (map (\<lambda>(a, keys). RlpList [RlpBytes (address_bytes a), RlpList (map RlpBytes keys)])
        (tx_access_list t))]"

definition unsigned_bytes :: "evm_lib \<Rightarrow> eip1559_transaction \<Rightarrow> bytes" where
  "unsigned_bytes lib t = 2 # rlp_encode lib (RlpList (unsigned_fields t))"

definition signing_hash :: "evm_lib \<Rightarrow> eip1559_transaction \<Rightarrow> bytes" where
  "signing_hash lib t = keccak lib (unsigned_bytes lib t)"

definition signed_bytes :: "evm_lib \<Rightarrow> eip1559_transaction \<Rightarrow> bytes \<Rightarrow> evm_error + bytes" where
  "signed_bytes lib t sig =
     and_then (normalise_signature sig False) (\<lambda>(v, r, s).
       let y_parity = (if v \<in> {27, 28} then v - 27 else v)
       in Inr (2 # rlp_encode lib (RlpList
            (unsigned_fields t @ [rlp_uint y_parity, rlp_uint r, rlp_uint s]))))"

definition raw_transaction_hash_of :: "evm_lib \<Rightarrow> bytes \<Rightarrow> evm_error + bytes" where
  "raw_transaction_hash_of lib raw =
     (if raw = [] \<or> hd raw \<noteq> 2
      then Inl (EvmEncodingError ''raw transaction must be an EIP-1559 transaction'')
      else Inr (keccak lib raw))"

section \<open>Bytes and numbers\<close>

lemma is_space_char_bits [code]:
  "is_space_char (Char b0 b1 b2 b3 b4 b5 b6 b7) \<longleftrightarrow>
     \<not> b7 \<and> \<not> b6 \<and> \<not> b4 \<and>
     (if b5 then \<not> b3 \<and> \<not> b2 \<and> \<not> b1 \<and> \<not> b0 else b3 \<and> (if b2 then \<not> b1 else b1 \<or> b0))"
  unfolding is_space_char_def
  by (cases b0; cases b1; cases b2; cases b3; cases b4; cases b5; cases b6; cases b7) simp_all

lemma hex_digit_value_char:
  assumes "0 \<le> n" "n < 16"
  shows "is_lower_hex_char (hex_digit_char n) \<and> hex_digit_value (hex_digit_char n) = n"
proof -
  have ord: "int (ord (hex_digit_char n)) = (if n < 10 then 48 + n else 87 + n)"
    unfolding of_nat_of_char hex_digit_char_def using assms by simp
  then have "ord (hex_digit_char n) = nat (if n < 10 then 48 + n else 87 + n)" by linarith
  with assms show ?thesis
    unfolding hex_digit_value_def of_nat_of_char [symmetric, where 'a = int] ord
    by (auto simp: is_lower_hex_char_def is_digit_char_def lower_char_def is_upper_char_def)
qed

lemma hex_not_space: "is_hex_char c \<Longrightarrow> \<not> is_space_char c"
  by (auto simp: is_hex_char_def is_space_char_def is_digit_char_def)

lemma byte_digits:
  "0 \<le> uint (b :: 8 word) div 16" "uint (b :: 8 word) div 16 < 16"
  "0 \<le> uint (b :: 8 word) mod 16" "uint (b :: 8 word) mod 16 < 16"
  using uint_lt2p [of b] by (auto simp: pos_imp_zdiv_nonneg_iff)

lemma from_to_hex [simp]: "from_hex (to_hex bs) = Some bs"
proof (induction bs)
  case Nil
  then show ?case by (simp add: to_hex_def)
next
  case (Cons b bs)
  have d: "is_hex_char (hex_digit_char n) \<and> hex_digit_value (hex_digit_char n) = n" if "0 \<le> n" "n < 16" for n
    using hex_digit_value_char [OF that] is_lower_hex_char_hex by blast
  have "16 * (uint b div 16) + uint b mod 16 = uint b" by simp
  then show ?case
    using Cons d [OF byte_digits(1,2) [of b]] d [OF byte_digits(3,4) [of b]]
    by (simp add: to_hex_def byte_hex_def hex_not_space)
qed

lemma length_to_hex [simp]: "length (to_hex bs) = 2 * length bs"
  by (induction bs) (simp_all add: to_hex_def byte_hex_def)

lemma to_hex_lower: "list_all is_lower_hex_char (to_hex bs)"
  using hex_digit_value_char byte_digits
  by (induction bs) (auto simp: to_hex_def byte_hex_def)

lemma from_bytes_big_snoc: "from_bytes_big (bs @ [b]) = 256 * from_bytes_big bs + uint b"
  by (simp add: from_bytes_big_def)

lemma from_uint_bytes [simp]: "0 \<le> n \<Longrightarrow> from_bytes_big (uint_bytes n) = n"
proof (induction n rule: uint_bytes.induct)
  case (1 n)
  show ?case
  proof (cases "n = 0")
    case True
    then show ?thesis by (simp add: uint_bytes.simps from_bytes_big_def)
  next
    case False
    have "uint (word_of_int (n mod 256) :: 8 word) = n mod 256"
      by (simp add: uint_word_of_int)
    then show ?thesis
      using 1 False by (subst uint_bytes.simps) (simp add: from_bytes_big_snoc pos_imp_zdiv_nonneg_iff)
  qed
qed

end
