(* ===== verification/Relay_World.thy ===== *)
theory Relay_World
  imports Evm_Encoding Execution_Claims Py_Values
begin

text \<open>
  The world a relayer works in. \<open>relay_env\<close> holds what the code reaches through its
  constructor arguments and that lies outside it: the RPC providers, the clock, the two signers,
  the Core approval verifier and the identifiers the repository draws. Each answer may depend on
  how many questions were asked before (\<open>w_tick\<close>), so a provider may change its mind at any time.
  \<open>world\<close> is the durable repository and the log of what left the process: digests handed to a
  signer and transactions handed to the network.

  Other workers share the repository: before every repository call of a relayer any list of
  calls (\<open>env_others\<close>) may run.

  A \<open>relay\<close> is a computation that may change the world and returns a value or raises.
\<close>

section \<open>Worlds\<close>

datatype relay_error =
    RelayerExecutionError string
  | RepositoryError exec_error
  | EncodingError evm_error
  | RelayValueError string
  | EvidenceError string bool
  | WatcherNotFound

text \<open>What an RPC call returns or raises.\<close>

datatype rpc_reply =
    RpcValue pyval
  | RpcSubmissionUnknown
  | RpcSubmissionRejected string
  | RpcFailure

datatype relay_event = SignExecution bytes | SignGas bytes | SendRaw bytes

record relay_env =
  env_config :: repo_config
  env_lib :: evm_lib
  env_inspect :: "nat \<Rightarrow> string \<Rightarrow> pyval list \<Rightarrow> rpc_reply"
  env_submit :: "nat \<Rightarrow> string \<Rightarrow> pyval list \<Rightarrow> rpc_reply"
  env_clock :: "nat \<Rightarrow> int"
  env_execution_signer :: "nat \<Rightarrow> bytes \<Rightarrow> bytes option"
  env_gas_signer :: "nat \<Rightarrow> bytes \<Rightarrow> bytes option"
  env_approves :: "nat \<Rightarrow> execution_intent \<Rightarrow> bool"
  env_uuids :: "nat \<Rightarrow> string list"
  env_others :: "nat \<Rightarrow> repo_call list"

record world =
  w_repo :: repo
  w_log :: "relay_event list"
  w_tick :: nat

type_synonym 'a relay = "relay_env \<Rightarrow> world \<Rightarrow> world \<times> (relay_error + 'a)"

definition empty_world :: world where
  "empty_world = \<lparr>w_repo = empty_repo, w_log = [], w_tick = 0\<rparr>"

section \<open>Computations\<close>

definition ret :: "'a \<Rightarrow> 'a relay" where
  "ret x env w = (w, Inr x)"

definition fail :: "relay_error \<Rightarrow> 'a relay" where
  "fail e env w = (w, Inl e)"

definition bind :: "'a relay \<Rightarrow> ('a \<Rightarrow> 'b relay) \<Rightarrow> 'b relay" where
  "bind m f env w =
     (case m env w of (w', Inl e) \<Rightarrow> (w', Inl e) | (w', Inr x) \<Rightarrow> f x env w')"

text \<open>\<open>try: m except ...: h\<close>; a handler that does not want an error raises it again.\<close>

definition recover :: "'a relay \<Rightarrow> (relay_error \<Rightarrow> 'a relay) \<Rightarrow> 'a relay" where
  "recover m h env w =
     (case m env w of (w', Inl e) \<Rightarrow> h e env w' | (w', Inr x) \<Rightarrow> (w', Inr x))"

definition lift_result :: "('e \<Rightarrow> relay_error) \<Rightarrow> 'e + 'a \<Rightarrow> 'a relay" where
  "lift_result f r = (case r of Inl e \<Rightarrow> fail (f e) | Inr x \<Rightarrow> ret x)"

definition refuse :: "string \<Rightarrow> 'a relay" where
  "refuse m = fail (RelayerExecutionError m)"

definition refuse_if :: "bool \<Rightarrow> string \<Rightarrow> unit relay" where
  "refuse_if c m = (if c then refuse m else ret ())"

section \<open>Questions to the environment\<close>

definition ask :: "(relay_env \<Rightarrow> nat \<Rightarrow> 'a) \<Rightarrow> 'a relay" where
  "ask q env w = (w\<lparr>w_tick := Suc (w_tick w)\<rparr>, Inr (q env (w_tick w)))"

text \<open>An entry of the log, then the question.\<close>

definition ask_logged :: "relay_event \<Rightarrow> (relay_env \<Rightarrow> nat \<Rightarrow> 'a) \<Rightarrow> 'a relay" where
  "ask_logged ev q env w = ask q env (w\<lparr>w_log := w_log w @ [ev]\<rparr>)"

definition library :: "evm_lib relay" where
  "library env w = (w, Inr (env_lib env))"

definition policy_now :: "pilot_gate_policy option relay" where
  "policy_now env w = (w, Inr (pilot_policy (env_config env)))"

definition inspection_call :: "string \<Rightarrow> pyval list \<Rightarrow> rpc_reply relay" where
  "inspection_call m params = ask (\<lambda>env t. env_inspect env t m params)"

definition submission_call :: "string \<Rightarrow> pyval list \<Rightarrow> rpc_reply relay" where
  "submission_call m params = ask (\<lambda>env t. env_submit env t m params)"

text \<open>\<open>rpc.call("eth_sendRawTransaction", ["0x" + raw.hex()])\<close>.\<close>

definition send_raw :: "bytes \<Rightarrow> rpc_reply relay" where
  "send_raw raw = ask_logged (SendRaw raw)
     (\<lambda>env t. env_submit env t ''eth_sendRawTransaction'' [PStr (''0x'' @ to_hex raw)])"

definition execution_signature :: "bytes \<Rightarrow> bytes option relay" where
  "execution_signature digest =
     ask_logged (SignExecution digest) (\<lambda>env t. env_execution_signer env t digest)"

definition gas_signature :: "bytes \<Rightarrow> bytes option relay" where
  "gas_signature digest = ask_logged (SignGas digest) (\<lambda>env t. env_gas_signer env t digest)"

definition core_approves :: "execution_intent \<Rightarrow> bool relay" where
  "core_approves intent = ask (\<lambda>env t. env_approves env t intent)"

definition fresh_uuids :: "string list relay" where
  "fresh_uuids = ask env_uuids"

text \<open>\<open>_now\<close>.\<close>

definition relay_now :: "int relay" where
  "relay_now = bind (ask env_clock) (\<lambda>t.
     if t \<le> 0 then refuse ''relayer clock is unavailable'' else ret t)"

text \<open>The repository's own clock, where a caller passes no time; every question has its answer.\<close>

definition repo_clock :: "int relay" where
  "repo_clock = ask env_clock"

text \<open>One repository call, after whatever other workers did.\<close>

definition repo_op :: "(repo_config \<Rightarrow> repo \<Rightarrow> repo \<times> (exec_error + 'a)) \<Rightarrow> 'a relay" where
  "repo_op f env w =
     (let s = run_calls (env_config env) (env_others env (w_tick w)) (w_repo w);
          (s', r) = f (env_config env) s
      in (w\<lparr>w_repo := s', w_tick := Suc (w_tick w)\<rparr>, map_sum RepositoryError id r))"

definition repo_read :: "(repo_config \<Rightarrow> repo \<Rightarrow> exec_error + 'a) \<Rightarrow> 'a relay" where
  "repo_read f = repo_op (\<lambda>cfg s. (s, f cfg s))"

section \<open>Assertions\<close>

named_theorems safe_rules \<open>computations that keep a contract\<close>

text \<open>
  A contract on worlds: \<open>ok\<close> holds at every moment, even when a computation raises, and
  \<open>later\<close> relates a world to what it may become. \<open>triple P m Q\<close> says that \<open>m\<close> keeps \<open>ok\<close>, only
  moves to a later world, and establishes \<open>Q\<close> when it returns.
\<close>

locale relay_logic =
  fixes env :: relay_env and ok :: "world \<Rightarrow> bool" and later :: "world \<Rightarrow> world \<Rightarrow> bool"
  assumes later_refl: "later w w"
    and later_trans: "later u v \<Longrightarrow> later v w \<Longrightarrow> later u w"
    and tick: "ok w \<Longrightarrow> ok (w\<lparr>w_tick := t\<rparr>) \<and> later w (w\<lparr>w_tick := t\<rparr>)"
    and steps: "ok w \<Longrightarrow> (repo_step (env_config env))\<^sup>*\<^sup>* (w_repo w) s \<Longrightarrow>
      ok (w\<lparr>w_repo := s\<rparr>) \<and> later w (w\<lparr>w_repo := s\<rparr>)"
begin

definition triple :: "(world \<Rightarrow> bool) \<Rightarrow> 'a relay \<Rightarrow> ('a \<Rightarrow> world \<Rightarrow> bool) \<Rightarrow> bool" where
  "triple P m Q \<longleftrightarrow>
     (\<forall>w. ok w \<longrightarrow> P w \<longrightarrow>
        ok (fst (m env w)) \<and> later w (fst (m env w)) \<and>
        (\<forall>x. snd (m env w) = Inr x \<longrightarrow> Q x (fst (m env w))))"

definition stable :: "(world \<Rightarrow> bool) \<Rightarrow> bool" where
  "stable P \<longleftrightarrow> (\<forall>w w'. ok w \<longrightarrow> ok w' \<longrightarrow> later w w' \<longrightarrow> P w \<longrightarrow> P w')"

lemma triple_post: "triple P m Q \<Longrightarrow> (\<And>x w. Q x w \<Longrightarrow> Q' x w) \<Longrightarrow> triple P m Q'"
  by (auto simp: triple_def)

lemma triple_pre: "triple P m Q \<Longrightarrow> (\<And>w. ok w \<Longrightarrow> P' w \<Longrightarrow> P w) \<Longrightarrow> triple P' m Q"
  by (auto simp: triple_def)

lemma triple_ret: "(\<And>w. P w \<Longrightarrow> Q x w) \<Longrightarrow> triple P (ret x) Q"
  by (simp add: triple_def ret_def later_refl)

lemma triple_fail: "triple P (fail e) Q"
  by (simp add: triple_def fail_def later_refl)

lemma triple_refuse: "triple P (refuse e) Q"
  by (simp add: refuse_def triple_fail)

lemma triple_bind:
  assumes "triple P m Q" "\<And>x. triple (Q x) (f x) R"
  shows "triple P (bind m f) R"
  unfolding triple_def
proof (intro allI impI)
  fix w assume w: "ok w" "P w"
  show "ok (fst (bind m f env w)) \<and> later w (fst (bind m f env w)) \<and>
    (\<forall>x. snd (bind m f env w) = Inr x \<longrightarrow> R x (fst (bind m f env w)))"
  proof (cases "m env w")
    case (Pair v r)
    with assms(1) w have v: "ok v" "later w v" "\<And>x. r = Inr x \<Longrightarrow> Q x v"
      unfolding triple_def by (metis fst_conv, metis fst_conv, metis fst_conv snd_conv)
    show ?thesis
    proof (cases r)
      case (Inl e)
      with v Pair show ?thesis by (simp add: bind_def)
    next
      case (Inr x)
      with assms(2) [of x] v have "ok (fst (f x env v)) \<and> later v (fst (f x env v)) \<and>
          (\<forall>y. snd (f x env v) = Inr y \<longrightarrow> R y (fst (f x env v)))"
        by (simp add: triple_def)
      with v(2) Inr Pair show ?thesis by (auto simp: bind_def intro: later_trans)
    qed
  qed
qed

text \<open>After an error only the stable part of the precondition is known.\<close>

lemma triple_recover:
  assumes "triple P m Q" "stable S" "\<And>w. P w \<Longrightarrow> S w" "\<And>e. triple S (h e) Q"
  shows "triple P (recover m h) Q"
  unfolding triple_def
proof (intro allI impI)
  fix w assume w: "ok w" "P w"
  show "ok (fst (recover m h env w)) \<and> later w (fst (recover m h env w)) \<and>
    (\<forall>x. snd (recover m h env w) = Inr x \<longrightarrow> Q x (fst (recover m h env w)))"
  proof (cases "m env w")
    case (Pair v r)
    with assms(1) w have v: "ok v" "later w v" "\<And>x. r = Inr x \<Longrightarrow> Q x v"
      unfolding triple_def by (metis fst_conv, metis fst_conv, metis fst_conv snd_conv)
    show ?thesis
    proof (cases r)
      case (Inr x)
      with v Pair show ?thesis by (simp add: recover_def)
    next
      case (Inl e)
      have "S v" using assms(2,3) w v by (auto simp: stable_def)
      with assms(4) [of e] v have "ok (fst (h e env v)) \<and> later v (fst (h e env v)) \<and>
          (\<forall>y. snd (h e env v) = Inr y \<longrightarrow> Q y (fst (h e env v)))"
        by (simp add: triple_def)
      with v(2) Inl Pair show ?thesis by (auto simp: recover_def intro: later_trans)
    qed
  qed
qed

lemma triple_frame:
  assumes "triple P m Q" "stable S"
  shows "triple (\<lambda>w. P w \<and> S w) m (\<lambda>x w. Q x w \<and> S w)"
  using assms by (auto simp: triple_def stable_def)

lemma triple_if:
  "(c \<Longrightarrow> triple P a Q) \<Longrightarrow> (\<not> c \<Longrightarrow> triple P b Q) \<Longrightarrow> triple P (if c then a else b) Q"
  by simp

lemma triple_result:
  assumes "\<And>x w. r = Inr x \<Longrightarrow> P w \<Longrightarrow> Q x w"
  shows "triple P (lift_result f r) Q"
  using assms by (cases r) (auto simp: lift_result_def intro: triple_ret triple_fail)

lemma triple_refuse_if:
  "(\<And>w. \<not> c \<Longrightarrow> P w \<Longrightarrow> Q () w) \<Longrightarrow> triple P (refuse_if c m) Q"
  by (simp add: refuse_if_def triple_refuse triple_ret)

lemma triple_ask:
  assumes "stable P" "\<And>x w. P w \<Longrightarrow> Q x w"
  shows "triple P (ask q) Q"
proof -
  have "P (w\<lparr>w_tick := t\<rparr>)" if "ok w" "P w" for w t
    using assms(1) tick [OF that(1), of t] that by (auto simp: stable_def)
  then show ?thesis using assms(2) tick by (simp add: triple_def ask_def)
qed

lemma triple_library: "(\<And>w. P w \<Longrightarrow> Q (env_lib env) w) \<Longrightarrow> triple P library Q"
  by (simp add: triple_def library_def later_refl)

lemma triple_policy: "(\<And>x w. P w \<Longrightarrow> Q x w) \<Longrightarrow> triple P policy_now Q"
  by (simp add: triple_def policy_now_def later_refl)

lemma triple_now:
  assumes "stable P" "\<And>x w. 0 < x \<Longrightarrow> P w \<Longrightarrow> Q x w"
  shows "triple P relay_now Q"
  unfolding relay_now_def using assms
  by (intro triple_bind [where Q = "\<lambda>_. P"] triple_ask triple_if triple_refuse triple_ret) auto

lemma triple_repo:
  assumes "\<And>s. repo_step (env_config env) s (fst (f (env_config env) s)) \<or> fst (f (env_config env) s) = s"
    and "stable P"
    and "\<And>w s x. ok w \<Longrightarrow> P w \<Longrightarrow> snd (f (env_config env) (w_repo w)) = Inr x \<Longrightarrow>
      ok (w\<lparr>w_repo := fst (f (env_config env) (w_repo w))\<rparr>) \<Longrightarrow> P (w\<lparr>w_repo := fst (f (env_config env) (w_repo w))\<rparr>) \<Longrightarrow>
      Q x (w\<lparr>w_repo := fst (f (env_config env) (w_repo w))\<rparr>)"
    and "\<And>x w t. Q x w \<Longrightarrow> Q x (w\<lparr>w_tick := t\<rparr>)"
  shows "triple P (repo_op f) Q"
  unfolding triple_def
proof (intro allI impI)
  fix w assume w: "ok w" "P w"
  let ?c = "env_config env"
  define s where "s = run_calls ?c (env_others env (w_tick w)) (w_repo w)"
  define s' where "s' = fst (f ?c s)"
  let ?u = "w\<lparr>w_repo := s\<rparr>" and ?v = "w\<lparr>w_repo := s'\<rparr>"
  have op: "repo_op f env w = (?v\<lparr>w_tick := Suc (w_tick w)\<rparr>, map_sum RepositoryError id (snd (f ?c s)))"
    by (simp add: repo_op_def Let_def s'_def s_def split: prod.splits)
  have steps_s: "(repo_step ?c)\<^sup>*\<^sup>* (w_repo w) s" unfolding s_def by (rule run_calls_steps)
  have u: "ok ?u" "later w ?u" using steps [OF w(1) steps_s] by simp_all
  have "(repo_step ?c)\<^sup>*\<^sup>* s s'" using assms(1) [of s] by (auto simp: s'_def)
  then have v: "ok ?v" "later ?u ?v" using steps [OF u(1), of s'] by simp_all
  have P: "P ?u" "P ?v" using assms(2) w u v by (auto simp: stable_def)
  have "later w (?v\<lparr>w_tick := Suc (w_tick w)\<rparr>)" "ok (?v\<lparr>w_tick := Suc (w_tick w)\<rparr>)"
    using tick [OF v(1)] v(2) u(2) by (auto intro: later_trans)
  moreover have "Q x (?v\<lparr>w_tick := Suc (w_tick w)\<rparr>)" if "snd (f ?c s) = Inr x" for x
    using assms(3) [OF u(1) P(1), of x] assms(4) v P that by (simp add: s'_def)
  ultimately show "ok (fst (repo_op f env w)) \<and> later w (fst (repo_op f env w)) \<and>
      (\<forall>x. snd (repo_op f env w) = Inr x \<longrightarrow> Q x (fst (repo_op f env w)))"
    unfolding op by (auto simp: map_sum_def split: sum.splits)
qed

lemma triple_read:
  assumes "stable P"
    and "\<And>w x. ok w \<Longrightarrow> P w \<Longrightarrow> f (env_config env) (w_repo w) = Inr x \<Longrightarrow> Q x w"
    and "\<And>x w t. Q x w \<Longrightarrow> Q x (w\<lparr>w_tick := t\<rparr>)"
  shows "triple P (repo_read f) Q"
  unfolding repo_read_def by (rule triple_repo [OF _ assms(1)]) (use assms in auto)

text \<open>A computation that may run in any world and of whose result nothing is asked.\<close>

definition safe :: "'a relay \<Rightarrow> bool" where
  "safe m \<longleftrightarrow> triple (\<lambda>_. True) m (\<lambda>_ _. True)"

lemma safe_triple: "safe m \<Longrightarrow> triple P m (\<lambda>_ _. True)"
  unfolding safe_def by (erule triple_pre) simp

lemma safeI: "triple (\<lambda>_. True) m Q \<Longrightarrow> safe m"
  unfolding safe_def by (erule triple_post) simp

lemma stable_True [simp]: "stable (\<lambda>_. True)"
  by (simp add: stable_def)

lemma safe_bind [safe_rules]: "safe m \<Longrightarrow> (\<And>x. safe (f x)) \<Longrightarrow> safe (bind m f)"
  unfolding safe_def by (rule triple_bind)

lemma safe_recover [safe_rules]: "safe m \<Longrightarrow> (\<And>e. safe (h e)) \<Longrightarrow> safe (recover m h)"
  unfolding safe_def by (rule triple_recover [where S = "\<lambda>_. True"]) simp_all

lemma safe_basic [safe_rules]:
  "safe (ret x)" "safe (fail e)" "safe (refuse s)" "safe (refuse_if c s)" "safe (lift_result f r)"
  "safe (ask q)" "safe library" "safe policy_now" "safe (inspection_call k ps)"
  "safe (submission_call k ps)" "safe (core_approves t)" "safe fresh_uuids" "safe relay_now"
  "safe (repo_read h)" "safe repo_clock"
  unfolding safe_def repo_clock_def inspection_call_def submission_call_def core_approves_def fresh_uuids_def
  by (intro triple_ret triple_fail triple_refuse triple_refuse_if triple_result triple_ask
      triple_library triple_policy triple_now triple_read stable_True; simp)+

lemma safe_op [safe_rules]:
  "(\<And>s. repo_step (env_config env) s (fst (f (env_config env) s))) \<Longrightarrow> safe (repo_op f)"
  unfolding safe_def by (rule triple_repo) simp_all

lemma safe_logged:
  "(\<And>w. ok w \<Longrightarrow> ok (w\<lparr>w_log := w_log w @ [ev]\<rparr>) \<and> later w (w\<lparr>w_log := w_log w @ [ev]\<rparr>)) \<Longrightarrow>
     safe (ask_logged ev q)"
  using tick by (auto simp: safe_def triple_def ask_logged_def ask_def intro: later_trans)

lemma safe_if [safe_rules]: "safe a \<Longrightarrow> safe b \<Longrightarrow> safe (if c then a else b)"
  by simp

lemma safe_Let [safe_rules]: "safe (f t) \<Longrightarrow> safe (Let t f)"
  by simp

end

text \<open>Every repository operation of the relayer and of the watcher is one committed step.\<close>

lemma op_steps [safe_rules]:
  "repo_step cfg s (fst (allocate_or_return cfg i p c now uuids s))"
  "repo_step cfg s (fst (claim_signing cfg eid now s))"
  "repo_step cfg s (fst (reserve_pilot_gas cfg eid cost gen now s))"
  "repo_step cfg s (fst (persist_signed_transaction cfg eid sig raw gen uh now s))"
  "repo_step cfg s (fst (claim_submission cfg eid now s))"
  "repo_step cfg s (fst (mark_submitted cfg eid now s))"
  "repo_step cfg s (fst (mark_submission_unknown cfg eid now s))"
  "repo_step cfg s (fst (mark_submission_rejected cfg eid rc now s))"
  "repo_step cfg s (fst (rebroadcast_raw_transaction cfg eid raw0 now s))"
  "repo_step cfg s (fst (release_expired cfg eid now s))"
  "repo_step cfg s (fst (record_watcher_attempt eid now s))"
  "repo_step cfg s (fst (confirm cfg eid ob ev now s))"
  "repo_step cfg s (fst (finalize cfg eid b now s))"
  "repo_step cfg s (fst (revert cfg eid ob acc ev now s))"
  "repo_step cfg s (fst (release_reverted cfg eid ob evd now s))"
  "repo_step cfg s (fst (mark_reorg_review eid evd now s))"
  using repo_step.call [of cfg s "Allocate i p c now uuids"] repo_step.call [of cfg s "ClaimSigning eid now"]
    repo_step.call [of cfg s "ReservePilotGas eid cost gen now"]
    repo_step.call [of cfg s "PersistSigned eid sig raw gen uh now"]
    repo_step.call [of cfg s "ClaimSubmission eid now"] repo_step.call [of cfg s "MarkSubmitted eid now"]
    repo_step.call [of cfg s "MarkSubmissionUnknown eid now"]
    repo_step.call [of cfg s "MarkSubmissionRejected eid rc now"]
    repo_step.call [of cfg s "Rebroadcast eid raw0 now"] repo_step.call [of cfg s "ReleaseExpired eid now"]
    repo_step.call [of cfg s "RecordWatcherAttempt eid now"] repo_step.call [of cfg s "Confirm eid ob ev now"]
    repo_step.call [of cfg s "Finalize eid b now"] repo_step.call [of cfg s "Revert eid ob acc ev now"]
    repo_step.call [of cfg s "ReleaseReverted eid ob evd now"]
    repo_step.call [of cfg s "MarkReorgReview eid evd now"]
  by simp_all

section \<open>What a computation logs\<close>

fun event_rank :: "relay_event \<Rightarrow> nat" where
  "event_rank (SignExecution _) = 0"
| "event_rank (SignGas _) = 1"
| "event_rank (SendRaw _) = 2"

text \<open>Events of ranks in \<open>{i..<j}\<close>, each rank at most once and in order.\<close>

definition ranked :: "nat \<Rightarrow> nat \<Rightarrow> relay_event list \<Rightarrow> bool" where
  "ranked i j l \<longleftrightarrow> sorted_wrt (<) (map event_rank l) \<and> (\<forall>e \<in> set l. i \<le> event_rank e \<and> event_rank e < j)"

definition emits :: "nat \<Rightarrow> nat \<Rightarrow> 'a relay \<Rightarrow> bool" where
  "emits i j m \<longleftrightarrow> (\<forall>env w. \<exists>l. w_log (fst (m env w)) = w_log w @ l \<and> ranked i j l)"

abbreviation silent :: "'a relay \<Rightarrow> bool" where
  "silent m \<equiv> emits 0 0 m"

named_theorems emit_rules \<open>what a computation logs\<close>

lemma ranked_Nil [simp]: "ranked i j []"
  by (simp add: ranked_def)

lemma ranked_weaken: "ranked i j l \<Longrightarrow> i' \<le> i \<Longrightarrow> j \<le> j' \<Longrightarrow> ranked i' j' l"
  by (fastforce simp: ranked_def)

lemma ranked_append: "ranked i j k \<Longrightarrow> ranked j n l \<Longrightarrow> i \<le> j \<Longrightarrow> j \<le> n \<Longrightarrow> ranked i n (k @ l)"
  by (fastforce simp: ranked_def sorted_wrt_append)

lemma emits_weaken: "emits i j m \<Longrightarrow> i' \<le> i \<Longrightarrow> j \<le> j' \<Longrightarrow> emits i' j' m"
  by (meson emits_def ranked_weaken)

lemma silent_log: "silent m \<longleftrightarrow> (\<forall>env w. w_log (fst (m env w)) = w_log w)"
  by (auto simp: emits_def ranked_def)

lemma silent_emits:
  assumes "silent m"
  shows "emits i j m"
proof -
  have "w_log (fst (m env w)) = w_log w @ [] \<and> ranked i j []" for env w
    using assms by (simp add: silent_log)
  then show ?thesis unfolding emits_def by blast
qed

lemma emits_bind:
  assumes "emits i j m" "\<And>x. emits j n (f x)" "i \<le> j" "j \<le> n"
  shows "emits i n (bind m f)"
  unfolding emits_def
proof (intro allI)
  fix env w
  obtain w1 r where m: "m env w = (w1, r)" by (cases "m env w")
  with assms(1) obtain l where l: "w_log w1 = w_log w @ l" "ranked i j l"
    by (auto simp: emits_def) (metis fst_conv)
  show "\<exists>l. w_log (fst (bind m f env w)) = w_log w @ l \<and> ranked i n l"
  proof (cases r)
    case (Inl e)
    with m l assms(4) show ?thesis by (auto simp: bind_def intro: ranked_weaken)
  next
    case (Inr x)
    obtain l' where "w_log (fst (f x env w1)) = w_log w1 @ l'" "ranked j n l'"
      using assms(2) [of x] by (auto simp: emits_def)
    with m Inr l assms(3,4) show ?thesis
      by (auto simp: bind_def intro!: exI [of _ "l @ l'"] ranked_append)
  qed
qed

lemma emits_bind_silent [emit_rules]:
  "silent m \<Longrightarrow> (\<And>x. emits i j (f x)) \<Longrightarrow> i \<le> j \<Longrightarrow> emits i j (bind m f)"
  by (rule emits_bind [where j = i]) (auto intro: silent_emits)

lemma silent_recover [emit_rules]:
  assumes "silent m" "\<And>e. emits i j (h e)"
  shows "emits i j (recover m h)"
  unfolding emits_def
proof (intro allI)
  fix env w
  obtain w1 r where m: "m env w = (w1, r)" by (cases "m env w")
  with assms(1) have w1: "w_log w1 = w_log w" by (metis silent_log fst_conv)
  show "\<exists>l. w_log (fst (recover m h env w)) = w_log w @ l \<and> ranked i j l"
  proof (cases r)
    case (Inr x)
    with m w1 show ?thesis by (simp add: recover_def)
  next
    case (Inl e)
    have "\<exists>l. w_log (fst (h e env w1)) = w_log w1 @ l \<and> ranked i j l"
      using assms(2) [of e] unfolding emits_def by blast
    with m w1 Inl show ?thesis by (simp add: recover_def)
  qed
qed

lemma silent_basic [emit_rules]:
  "emits i j (ret x)" "emits i j (fail e)" "emits i j (refuse s)" "emits i j (refuse_if c s)"
  "emits i j (lift_result f r)" "emits i j (ask q)" "emits i j library" "emits i j policy_now"
  "emits i j (inspection_call k ps)" "emits i j (submission_call k ps)" "emits i j (core_approves t)"
  "emits i j fresh_uuids" "emits i j (repo_op g)" "emits i j (repo_read h)" "emits i j repo_clock"
  by (rule silent_emits; simp add: silent_log repo_clock_def ret_def fail_def refuse_def refuse_if_def
      lift_result_def ask_def library_def policy_now_def inspection_call_def submission_call_def
      core_approves_def fresh_uuids_def repo_op_def repo_read_def Let_def
      split: sum.splits prod.splits)+

lemma emits_logged: "emits (event_rank e) (Suc (event_rank e)) (ask_logged e q)"
  by (simp add: emits_def ask_logged_def ask_def ranked_def)

lemma emits_requests:
  "emits 0 1 (execution_signature d)" "emits 1 2 (gas_signature d)" "emits 2 3 (send_raw r)"
  using emits_logged [of "SignExecution d"] emits_logged [of "SignGas d"]
    emits_logged [of "SendRaw r"]
  by (simp_all add: execution_signature_def gas_signature_def send_raw_def numeral_3_eq_3 numeral_2_eq_2)

lemma emits_now [emit_rules]: "i \<le> j \<Longrightarrow> emits i j relay_now"
  unfolding relay_now_def by (intro emit_rules) (auto intro: emit_rules)

lemma emits_cases [emit_rules]:
  "(c \<Longrightarrow> emits i j a) \<Longrightarrow> (\<not> c \<Longrightarrow> emits i j b) \<Longrightarrow> emits i j (if c then a else b)"
  "(o1 = None \<Longrightarrow> emits i j n) \<Longrightarrow> (\<And>x. o1 = Some x \<Longrightarrow> emits i j (s x)) \<Longrightarrow>
     emits i j (case o1 of None \<Rightarrow> n | Some x \<Rightarrow> s x)"
  "(\<And>x y. p = (x, y) \<Longrightarrow> emits i j (g x y)) \<Longrightarrow> emits i j (case p of (x, y) \<Rightarrow> g x y)"
  "(\<And>v. q = RpcValue v \<Longrightarrow> emits i j (k1 v)) \<Longrightarrow> emits i j k2 \<Longrightarrow> (\<And>m. emits i j (k3 m)) \<Longrightarrow>
     emits i j k4 \<Longrightarrow> emits i j (case q of RpcValue v \<Rightarrow> k1 v | RpcSubmissionUnknown \<Rightarrow> k2
       | RpcSubmissionRejected m \<Rightarrow> k3 m | RpcFailure \<Rightarrow> k4)"
  by (simp_all split: option.splits prod.splits rpc_reply.splits)

lemma emits_Let [emit_rules]: "(\<And>x. x = t \<Longrightarrow> emits i j (f x)) \<Longrightarrow> emits i j (Let t f)"
  by simp

end
