(* ===== verification/Hosted_Relayer.thy ===== *)
theory Hosted_Relayer
  imports Relay_World
begin

text \<open>
  \<open>HostedSubmissionReconciler\<close> and \<open>HostedRelayer\<close> (\<open>apps/facilitator/relayer.py\<close>): from an
  approved intent to one signed Executor transaction, persisted before it is sent, and the
  inspection and the identical rebroadcast of a transaction whose fate is unknown. Every step is
  a computation of \<open>Relay_World\<close>; an early return of the source ends its branch here.
\<close>

section \<open>Quantities and addresses\<close>

definition hex_value :: "string \<Rightarrow> int" where
  "hex_value s = foldl (\<lambda>a c. 16 * a + hex_digit_value c) 0 s"

text \<open>\<open>0x(?:0|[1-9a-f][0-9a-f]*)\<close>.\<close>

definition is_hex_quantity :: "string \<Rightarrow> bool" where
  "is_hex_quantity s \<longleftrightarrow>
     starts_0x s \<and> 2 < length s \<and> list_all is_lower_hex_char (drop 2 s) \<and>
     (s ! 2 = CHR ''0'' \<longrightarrow> length s = 3)"

definition quantity_of :: "pyval \<Rightarrow> string \<Rightarrow> relay_error + int" where
  "quantity_of value field =
     (case value of
        PStr s \<Rightarrow>
          if is_hex_quantity s then Inr (hex_value (drop 2 s))
          else Inl (RelayerExecutionError (field @ '' is invalid''))
      | _ \<Rightarrow> Inl (RelayerExecutionError (field @ '' is invalid'')))"

definition uint256_word_of :: "pyval \<Rightarrow> string \<Rightarrow> relay_error + int" where
  "uint256_word_of value field =
     (case value of
        PStr s \<Rightarrow>
          if is_lower_hex_string 64 s then Inr (hex_value (drop 2 s))
          else Inl (RelayerExecutionError (field @ '' is invalid''))
      | _ \<Rightarrow> Inl (RelayerExecutionError (field @ '' is invalid'')))"

text \<open>Python's \<open>hex\<close> of a natural number.\<close>

function hex_digits :: "int \<Rightarrow> string" where
  "hex_digits n =
     (if n < 16 then [hex_digit_char n] else hex_digits (n div 16) @ [hex_digit_char (n mod 16)])"
  by pat_completeness auto

termination
  by (relation "measure nat") auto

declare hex_digits.simps [simp del]

definition py_hex :: "int \<Rightarrow> string" where
  "py_hex i = ''0x'' @ hex_digits i"

text \<open>\<open>n.to_bytes(32, "big")\<close> of a number that fits.\<close>

definition word_bytes :: "int \<Rightarrow> bytes" where
  "word_bytes n = replicate (32 - length (uint_bytes n)) 0 @ uint_bytes n"

definition configured_address :: "string \<Rightarrow> string \<Rightarrow> relay_error + string" where
  "configured_address value field =
     (case evm_address value field of
        Inl e \<Rightarrow> Inl (RelayValueError (field @ '' is invalid''))
      | Inr a \<Rightarrow> Inr a)"

section \<open>The operator configuration\<close>

record relayer =
  rl_chain :: string
  rl_chain_id :: int
  rl_token :: string
  rl_executor_address :: string
  rl_relayer_address :: string
  rl_execution_signer_address :: string
  rl_max_gas_limit :: int
  rl_max_fee_per_gas_wei :: int
  rl_max_priority_fee_per_gas_wei :: int
  rl_max_total_fee_wei :: "int option"

record relayer_settings =
  set_chain :: string
  set_token :: string
  set_chain_id :: int
  set_executor_address :: string
  set_relayer_address :: string
  set_execution_key_id :: string
  set_gas_key_id :: string
  set_execution_signer_address :: string
  set_gas_signer_address :: string
  set_max_gas_limit :: int
  set_max_fee_per_gas_wei :: int
  set_max_priority_fee_per_gas_wei :: int
  set_max_total_fee_wei :: "int option"

definition positive_limit :: "int \<Rightarrow> string \<Rightarrow> relay_error + int" where
  "positive_limit value field =
     (if value \<le> 0 then Inl (RelayValueError (field @ '' is invalid'')) else Inr value)"

definition require_value :: "bool \<Rightarrow> string \<Rightarrow> relay_error + unit" where
  "require_value c m = (if c then Inr () else Inl (RelayValueError m))"

text \<open>\<open>HostedRelayer.__init__\<close>.\<close>

definition make_relayer :: "relayer_settings \<Rightarrow> relay_error + relayer" where
  "make_relayer c =
     and_then (lift_opt (RelayValueError ''relayer chain profile is invalid'')
       (hosted_chain_profile (set_chain c))) (\<lambda>profile.
     and_then (require_value (profile_chain_id profile = set_chain_id c)
       ''relayer chain profile is invalid'') (\<lambda>_.
     and_then (require_value (lower (set_token c) = profile_token profile)
       ''relayer token does not match chain profile'') (\<lambda>_.
     and_then (configured_address (set_executor_address c) ''executor address'') (\<lambda>executor.
     and_then (configured_address (set_relayer_address c) ''relayer address'') (\<lambda>relayer.
     and_then (require_value (executor \<noteq> relayer) ''executor and relayer addresses must differ'') (\<lambda>_.
     and_then (require_value (set_execution_key_id c \<noteq> '''' \<and> set_gas_key_id c \<noteq> '''')
       ''signer key identities are required'') (\<lambda>_.
     and_then (require_value (set_execution_key_id c \<noteq> set_gas_key_id c)
       ''execution and gas signer keys must differ'') (\<lambda>_.
     and_then (configured_address (set_execution_signer_address c) ''execution signer address'')
       (\<lambda>execution_address.
     and_then (configured_address (set_gas_signer_address c) ''gas signer address'') (\<lambda>gas_address.
     and_then (require_value (execution_address \<noteq> gas_address)
       ''execution and gas signer addresses must differ'') (\<lambda>_.
     and_then (require_value (gas_address = relayer) ''gas signer does not match relayer address'') (\<lambda>_.
     and_then (positive_limit (set_max_gas_limit c) ''gas limit'') (\<lambda>gas.
     and_then (positive_limit (set_max_fee_per_gas_wei c) ''fee limit'') (\<lambda>fee.
     and_then (positive_limit (set_max_priority_fee_per_gas_wei c) ''priority fee limit'') (\<lambda>priority.
     and_then (require_value (priority \<le> fee) ''priority fee limit exceeds fee limit'') (\<lambda>_.
     and_then (case set_max_total_fee_wei c of
         None \<Rightarrow> Inr None
       | Some t \<Rightarrow> and_then (positive_limit t ''total fee limit'') (\<lambda>x. Inr (Some x))) (\<lambda>total_fee.
       Inr \<lparr>rl_chain = profile_chain profile, rl_chain_id = profile_chain_id profile,
            rl_token = profile_token profile, rl_executor_address = executor,
            rl_relayer_address = relayer, rl_execution_signer_address = execution_address,
            rl_max_gas_limit = gas, rl_max_fee_per_gas_wei = fee,
            rl_max_priority_fee_per_gas_wei = priority, rl_max_total_fee_wei = total_fee\<rparr>)))))))))))))))))"

section \<open>Reading the chain\<close>

definition rpc_read :: "string \<Rightarrow> pyval list \<Rightarrow> pyval relay" where
  "rpc_read m params = bind (inspection_call m params) (\<lambda>reply.
     case reply of RpcValue v \<Rightarrow> ret v | _ \<Rightarrow> refuse ''RPC dependency is unavailable'')"

definition read_quantity :: "string \<Rightarrow> pyval list \<Rightarrow> string \<Rightarrow> int relay" where
  "read_quantity m params field =
     bind (rpc_read m params) (\<lambda>v. lift_result id (quantity_of v field))"

definition require_rpc_chain :: "relayer \<Rightarrow> unit relay" where
  "require_rpc_chain r = bind (read_quantity ''eth_chainId'' [] ''RPC chain ID'') (\<lambda>c.
     refuse_if (c \<noteq> rl_chain_id r) ''RPC chain does not match operator configuration'')"

definition require_submission_rpc_chain :: "relayer \<Rightarrow> unit relay" where
  "require_submission_rpc_chain r = bind (submission_call ''eth_chainId'' []) (\<lambda>reply.
     case reply of
       RpcValue v \<Rightarrow>
         bind (lift_result id (quantity_of v ''submission RPC chain ID'')) (\<lambda>c.
           refuse_if (c \<noteq> rl_chain_id r)
             ''submission RPC chain does not match operator configuration'')
     | _ \<Rightarrow> refuse ''submission RPC dependency is unavailable'')"

section \<open>The transaction of an execution\<close>

definition authorization_of ::
  "relayer \<Rightarrow> 'a intent_columns_scheme \<Rightarrow> evm_error + execution_authorization" where
  "authorization_of r e = make_authorization e (int (read_nat (amount_atomic e))) (Some (rl_chain_id r))"

definition signature_bytes :: "bytes option \<Rightarrow> evm_error + bytes" where
  "signature_bytes sig =
     lift_opt (EvmEncodingError ''signature must be bytes or 0x-prefixed hex'') sig"

text \<open>The fields a transaction lookup must report, the ones compared without case first.\<close>

definition lookup_matches :: "relayer \<Rightarrow> hosted_execution_row \<Rightarrow> bytes \<Rightarrow> pydict \<Rightarrow> bool" where
  "lookup_matches r e calldata result \<longleftrightarrow>
     list_all (\<lambda>(field, value).
         case dget result field of
           PStr s \<Rightarrow> if field \<in> {''from'', ''to'', ''input''} then lower s = lower value else s = value
         | _ \<Rightarrow> False)
       [(''from'', rl_relayer_address r), (''to'', rl_executor_address r),
        (''nonce'', py_hex (relayer_nonce e)), (''value'', ''0x0''), (''type'', ''0x2''),
        (''chainId'', py_hex (rl_chain_id r)), (''input'', ''0x'' @ to_hex calldata)]"

definition lookup_exact_transaction :: "relayer \<Rightarrow> hosted_execution_row \<Rightarrow> bool relay" where
  "lookup_exact_transaction r e =
     (case raw_transaction_hash e of
        None \<Rightarrow> refuse ''persisted transaction hash is unavailable''
      | Some tx_hash \<Rightarrow>
          if \<not> is_lower_hex_string 64 tx_hash
          then refuse ''persisted transaction hash is unavailable''
          else bind (rpc_read ''eth_getTransactionByHash'' [PStr tx_hash]) (\<lambda>v.
            case v of
              PNone \<Rightarrow> ret False
            | PDict result \<Rightarrow>
                if dget result ''hash'' \<noteq> PStr tx_hash
                then refuse ''RPC transaction lookup is inconsistent''
                else bind library (\<lambda>lib.
                  bind (lift_result EncodingError
                    (and_then (authorization_of r e) (\<lambda>a.
                     and_then (signature_bytes (signature e)) (encode_execute_calldata lib a))))
                  (\<lambda>calldata.
                    if lookup_matches r e calldata result then ret True
                    else refuse ''RPC transaction lookup is inconsistent''))
            | _ \<Rightarrow> refuse ''RPC transaction lookup is inconsistent''))"

section \<open>Inspection and identical rebroadcast\<close>

definition SUBMISSION_STATES :: "execution_state set" where
  "SUBMISSION_STATES = {SIGNED, SUBMITTED, SUBMISSION_UNKNOWN, SUBMISSION_REJECTED}"

definition require_bound_execution :: "relayer \<Rightarrow> hosted_execution_row \<Rightarrow> unit relay" where
  "require_bound_execution r e =
     refuse_if (chain e \<noteq> rl_chain r \<or> token e \<noteq> rl_token r \<or> executor e \<noteq> rl_executor_address r
         \<or> relayer_address e \<noteq> rl_relayer_address r)
       ''execution chain or token does not match operator configuration''"

definition read_execution :: "string \<Rightarrow> hosted_execution_row relay" where
  "read_execution eid = bind (repo_read (\<lambda>_. get_execution eid)) (\<lambda>found.
     case found of None \<Rightarrow> refuse ''persisted execution is unavailable'' | Some e \<Rightarrow> ret e)"

text \<open>\<open>_inspect_submission\<close>: the persisted state, and whether the exact transaction was found.\<close>

definition inspect_submission :: "relayer \<Rightarrow> string \<Rightarrow> (hosted_execution_row \<times> bool) relay" where
  "inspect_submission r eid =
     bind (read_execution eid) (\<lambda>e.
     bind (require_bound_execution r e) (\<lambda>_.
     if status e \<notin> SUBMISSION_STATES then ret (e, False)
     else
       bind (require_rpc_chain r) (\<lambda>_.
       bind (lookup_exact_transaction r e) (\<lambda>found.
       if \<not> found then ret (e, False)
       else if status e \<in> {SIGNED, SUBMISSION_UNKNOWN, SUBMISSION_REJECTED}
       then bind relay_now (\<lambda>now.
         bind (repo_op (\<lambda>cfg. mark_submitted cfg eid now)) (\<lambda>e'. ret (e', True)))
       else ret (e, True)))))"

text \<open>\<open>_require_raw_transaction\<close>, here with the hash it is later compared with.\<close>

definition persisted_transaction :: "hosted_execution_row \<Rightarrow> (bytes \<times> string) relay" where
  "persisted_transaction e =
     (case (raw_transaction e, raw_transaction_hash e) of
        (Some raw, Some h) \<Rightarrow>
          if raw = [] then refuse ''persisted transaction is unavailable'' else ret (raw, h)
      | _ \<Rightarrow> refuse ''persisted transaction is unavailable'')"

text \<open>What follows the call that may have sent the bytes.\<close>

definition settle_broadcast ::
  "string \<Rightarrow> hosted_execution_row \<Rightarrow> string \<Rightarrow> int \<Rightarrow> rpc_reply \<Rightarrow> hosted_execution_row relay" where
  "settle_broadcast eid e tx_hash now reply =
     (case reply of
        RpcValue v \<Rightarrow>
          if v \<noteq> PStr tx_hash
          then bind (repo_op (\<lambda>cfg. mark_submission_unknown cfg eid now)) (\<lambda>_.
            refuse ''RPC returned a conflicting transaction hash'')
          else repo_op (\<lambda>cfg. mark_submitted cfg eid now)
      | RpcSubmissionUnknown \<Rightarrow> repo_op (\<lambda>cfg. mark_submission_unknown cfg eid now)
      | RpcSubmissionRejected reason \<Rightarrow> repo_op (\<lambda>cfg. mark_submission_rejected cfg eid reason now)
      | RpcFailure \<Rightarrow> ret e)"

text \<open>
  The bytes to send again, with the state they belong to: the submission claim of a signed
  execution, or another counted broadcast of a submitted one. \<open>Inl\<close> is an early return.
\<close>

definition signed_claim ::
  "string \<Rightarrow> int \<Rightarrow> (hosted_execution_row + (hosted_execution_row \<times> bool)) relay" where
  "signed_claim eid now =
     recover (bind (repo_op (\<lambda>cfg. claim_submission cfg eid now)) (\<lambda>claim. ret (Inr claim)))
       (\<lambda>error. case error of
          RepositoryError (ExecutionConflict m) \<Rightarrow>
            bind (read_execution eid) (\<lambda>latest.
              if status latest = SUBMITTED then ret (Inl latest) else fail error)
        | _ \<Rightarrow> fail error)"

definition claim_signed ::
  "relayer \<Rightarrow> string \<Rightarrow> int \<Rightarrow> (hosted_execution_row + (hosted_execution_row \<times> bytes)) relay" where
  "claim_signed r eid now =
     bind (signed_claim eid now) (\<lambda>outcome.
     case outcome of
       Inl latest \<Rightarrow> ret (Inl latest)
     | Inr (claimed, acquired) \<Rightarrow>
         if acquired then bind (persisted_transaction claimed) (\<lambda>(raw, h). ret (Inr (claimed, raw)))
         else bind (inspect_submission r eid) (\<lambda>(latest, found). ret (Inl latest)))"

definition claim_rebroadcast ::
  "string \<Rightarrow> int \<Rightarrow> (hosted_execution_row + (hosted_execution_row \<times> bytes)) relay" where
  "claim_rebroadcast eid now =
     bind (repo_op (\<lambda>cfg. rebroadcast_raw_transaction cfg eid None now)) (\<lambda>raw.
     bind (repo_op (\<lambda>cfg. mark_submission_unknown cfg eid now)) (\<lambda>expected.
       ret (Inr (expected, raw))))"

definition rebroadcast_identical :: "relayer \<Rightarrow> string \<Rightarrow> hosted_execution_row relay" where
  "rebroadcast_identical r eid =
     bind (inspect_submission r eid) (\<lambda>(e, found).
     if found \<or> status e \<notin> SUBMISSION_STATES then ret e
     else
       bind (require_submission_rpc_chain r) (\<lambda>_.
       bind relay_now (\<lambda>now.
       bind (if status e = SIGNED then claim_signed r eid now else claim_rebroadcast eid now)
       (\<lambda>claim. case claim of
          Inl latest \<Rightarrow> ret latest
        | Inr (expected, raw) \<Rightarrow>
            bind (persisted_transaction expected) (\<lambda>(expected_raw, tx_hash).
              if raw \<noteq> expected_raw then refuse ''persisted transaction is unavailable''
              else bind (send_raw raw) (settle_broadcast eid expected tx_hash now))))))"

section \<open>Fees\<close>

definition gas_limit_for :: "relayer \<Rightarrow> bytes \<Rightarrow> int relay" where
  "gas_limit_for r calldata =
     bind (read_quantity ''eth_estimateGas''
       [PDict [(''from'', PStr (rl_relayer_address r)), (''to'', PStr (rl_executor_address r)),
               (''value'', PStr ''0x0''), (''data'', PStr (''0x'' @ to_hex calldata))]]
       ''gas estimate'') (\<lambda>estimate.
     if estimate \<le> 0 \<or> rl_max_gas_limit r < estimate
     then refuse ''gas estimate exceeds operator limit''
     else let buffered = estimate + max 1 (estimate div 5) in
       if rl_max_gas_limit r < buffered then refuse ''gas estimate exceeds operator limit''
       else ret buffered)"

definition fee_quote :: "relayer \<Rightarrow> (int \<times> int) relay" where
  "fee_quote r =
     bind (read_quantity ''eth_maxPriorityFeePerGas'' [] ''priority fee'') (\<lambda>priority.
     bind (read_quantity ''eth_gasPrice'' [] ''fee quote'') (\<lambda>gas_price.
     if rl_max_priority_fee_per_gas_wei r < priority
     then refuse ''priority fee exceeds operator limit''
     else if gas_price \<le> 0 \<or> rl_max_fee_per_gas_wei r < gas_price
     then refuse ''fee quote exceeds operator limit''
     else let max_fee = gas_price * 2 + priority in
       if rl_max_fee_per_gas_wei r < max_fee then refuse ''fee quote exceeds operator limit''
       else ret (priority, max_fee)))"

definition BASE_GAS_PRICE_ORACLE :: string where
  "BASE_GAS_PRICE_ORACLE = ''0x420000000000000000000000000000000000000f''"

definition BASE_L1_BLOCK :: string where
  "BASE_L1_BLOCK = ''0x4200000000000000000000000000000000000015''"

definition read_word :: "string \<Rightarrow> string \<Rightarrow> string \<Rightarrow> int relay" where
  "read_word contract data field =
     bind (rpc_read ''eth_call''
       [PDict [(''to'', PStr contract), (''data'', PStr data)], PStr ''latest''])
     (\<lambda>v. lift_result id (uint256_word_of v field))"

text \<open>\<open>_additional_fee_upper_bound\<close>: the rollup fee of a Base transaction.\<close>

definition additional_fee_upper_bound :: "relayer \<Rightarrow> eip1559_transaction \<Rightarrow> int relay" where
  "additional_fee_upper_bound r tx =
     (if rl_chain_id r \<notin> {8453, 84532} then ret 0
      else bind library (\<lambda>lib.
        bind (read_word BASE_GAS_PRICE_ORACLE
          (''0x'' @ to_hex ([0xf1, 0xc7, 0xa5, 0x8b] @ word_bytes (int (length (unsigned_bytes lib tx)))))
          ''L1 fee upper bound'') (\<lambda>l1_fee.
        bind (read_word BASE_L1_BLOCK ''0x4d5d9a2a'' ''operator fee scalar'') (\<lambda>operator_scalar.
        bind (read_word BASE_L1_BLOCK ''0x16d3bc7f'' ''operator fee constant'') (\<lambda>operator_constant.
          ret (l1_fee + (tx_gas_limit tx * operator_scalar div 1000000 + operator_constant)))))))"

text \<open>The fee bound of the whole transaction, when the operator set one.\<close>

definition total_fee_of :: "relayer \<Rightarrow> eip1559_transaction \<Rightarrow> int \<Rightarrow> int \<Rightarrow> int option relay" where
  "total_fee_of r tx gas_limit max_fee =
     (case rl_max_total_fee_wei r of
        None \<Rightarrow> ret None
      | Some limit \<Rightarrow>
          bind (additional_fee_upper_bound r tx) (\<lambda>extra.
            if limit < gas_limit * max_fee + extra
            then refuse ''total fee exceeds operator limit''
            else ret (Some (gas_limit * max_fee + extra))))"

section \<open>Signing\<close>

text \<open>\<open>worst_case_gas_usd_micros\<close> raises \<open>ValueError\<close> on an input that is not positive.\<close>

definition gas_charge :: "int \<Rightarrow> int \<Rightarrow> int option \<Rightarrow> int \<Rightarrow> relay_error + int" where
  "gas_charge gas_limit max_fee total_fee price_ceiling =
     lift_opt (RelayValueError ''gas amount must be positive'')
       (case total_fee of
          None \<Rightarrow> worst_case_gas_usd_micros gas_limit max_fee price_ceiling
        | Some t \<Rightarrow> worst_case_gas_usd_micros 1 t price_ceiling)"

definition reserve_gas_for ::
  "hosted_execution_row \<Rightarrow> int \<Rightarrow> int \<Rightarrow> int option \<Rightarrow> unit relay" where
  "reserve_gas_for e gas_limit max_fee total_fee =
     bind policy_now (\<lambda>policy.
     case policy of
       None \<Rightarrow> ret ()
     | Some p \<Rightarrow>
         bind relay_now (\<lambda>now.
         if deadline e \<le> now then refuse ''execution deadline has expired''
         else
           bind (lift_result id
             (gas_charge gas_limit max_fee total_fee (native_asset_usd_price_ceiling_micros p))) (\<lambda>cost.
           bind (repo_op (\<lambda>cfg. reserve_pilot_gas cfg (execution_id e) cost
             (signing_claim_generation e) now)) (\<lambda>_. ret ()))))"

definition signed_by :: "bytes option relay \<Rightarrow> string \<Rightarrow> bytes relay" where
  "signed_by request message = bind request (\<lambda>answer.
     case answer of None \<Rightarrow> refuse message | Some sig \<Rightarrow> ret sig)"

text \<open>The transaction of an execution, within the operator's limits.\<close>

definition build_transaction ::
  "relayer \<Rightarrow> hosted_execution_row \<Rightarrow> bytes \<Rightarrow> (eip1559_transaction \<times> int option) relay" where
  "build_transaction r e calldata =
     bind (gas_limit_for r calldata) (\<lambda>gas_limit.
     bind (fee_quote r) (\<lambda>(priority, max_fee).
     bind (lift_result EncodingError (make_transaction (relayer_nonce e) priority max_fee gas_limit
       (rl_executor_address r) calldata 0 [] (rl_chain_id r))) (\<lambda>tx.
     bind (total_fee_of r tx gas_limit max_fee) (\<lambda>total_fee.
     bind (reserve_gas_for e gas_limit max_fee total_fee) (\<lambda>_.
       ret (tx, total_fee))))))"

definition sign_execution :: "relayer \<Rightarrow> hosted_execution_row \<Rightarrow> hosted_execution_row relay" where
  "sign_execution r e =
     (if status e \<noteq> SIGNING \<or> signing_claim_generation e \<le> 0
      then refuse ''execution signing claim is unavailable''
      else bind library (\<lambda>lib.
        bind (lift_result EncodingError (authorization_of r e)) (\<lambda>a.
        bind (lift_result EncodingError
          (hash_execution lib a (rl_executor_address r) (Some (rl_chain_id r)))) (\<lambda>digest.
        if ''0x'' @ to_hex digest \<noteq> execution_digest e
        then refuse ''authorization digest does not match Core scope''
        else
        bind (signed_by (execution_signature digest) ''execution signing is unavailable'') (\<lambda>sig.
        bind (lift_result EncodingError (encode_execute_calldata lib a sig)) (\<lambda>calldata.
        bind (build_transaction r e calldata) (\<lambda>(tx, total_fee).
        bind (signed_by (gas_signature (signing_hash lib tx)) ''gas signing is unavailable'') (\<lambda>gas_sig.
        bind (lift_result EncodingError (signed_bytes lib tx gas_sig)) (\<lambda>raw.
        bind relay_now (\<lambda>now.
        if deadline e \<le> now then refuse ''execution deadline has expired''
        else repo_op (\<lambda>cfg. persist_signed_transaction cfg (execution_id e) sig raw
          (signing_claim_generation e) (Some (''0x'' @ to_hex (signing_hash lib tx))) now)))))))))))"

section \<open>Submission\<close>

text \<open>\<open>_submit_signed\<close>: an unknown or failed answer leaves the state the claim set.\<close>

definition submit_signed :: "relayer \<Rightarrow> hosted_execution_row \<Rightarrow> hosted_execution_row relay" where
  "submit_signed r e =
     (if status e \<noteq> SUBMISSION_UNKNOWN then refuse ''execution submission claim is unavailable''
      else bind (lookup_exact_transaction r e) (\<lambda>known.
        if known
        then bind relay_now (\<lambda>now. repo_op (\<lambda>cfg. mark_submitted cfg (execution_id e) now))
        else case (raw_transaction e, raw_transaction_hash e) of
          (Some raw, Some tx_hash) \<Rightarrow>
            bind relay_now (\<lambda>send_now.
            if deadline e \<le> send_now then ret e
            else bind (send_raw raw) (\<lambda>reply.
              if reply = RpcSubmissionUnknown then ret e
              else settle_broadcast (execution_id e) e tx_hash send_now reply))
        | _ \<Rightarrow> refuse ''persisted transaction is unavailable''))"

section \<open>Execution\<close>

definition require_bound_intent :: "relayer \<Rightarrow> execution_intent \<Rightarrow> unit relay" where
  "require_bound_intent r i =
     (if chain i \<noteq> rl_chain r \<or> token i \<noteq> rl_token r
      then refuse ''execution chain or token does not match operator configuration''
      else if executor i \<noteq> rl_executor_address r
      then refuse ''executor does not match operator configuration''
      else if relayer_address i \<noteq> rl_relayer_address r
      then refuse ''relayer does not match operator configuration''
      else bind library (\<lambda>lib.
        bind (lift_result EncodingError (and_then (authorization_of r i) (\<lambda>a.
          hash_execution lib a (rl_executor_address r) (Some (rl_chain_id r))))) (\<lambda>digest.
        refuse_if (''0x'' @ to_hex digest \<noteq> execution_digest i)
          ''authorization digest does not match Core scope'')))"

definition REPLAYED_STATES :: "execution_state set" where
  "REPLAYED_STATES =
     {SUBMITTED, SUBMISSION_UNKNOWN, SUBMISSION_REJECTED, CONFIRMED, FINALIZED, REVERTED,
      EXPIRED, RELEASED, REORG_REVIEW}"

text \<open>Allocating a new execution under the nonces the chain reports.\<close>

definition admit_intent :: "relayer \<Rightarrow> execution_intent \<Rightarrow> int \<Rightarrow> hosted_execution_row relay" where
  "admit_intent r i now =
     (if deadline i \<le> now then refuse ''execution deadline has expired''
      else bind (require_rpc_chain r) (\<lambda>_.
        bind (read_quantity ''eth_getTransactionCount''
          [PStr (rl_relayer_address r), PStr ''pending''] ''chain pending nonce'') (\<lambda>pending.
        bind (read_quantity ''eth_getTransactionCount''
          [PStr (rl_relayer_address r), PStr ''latest''] ''chain confirmed nonce'') (\<lambda>confirmed.
        bind fresh_uuids (\<lambda>uuids.
          repo_op (\<lambda>cfg. allocate_or_return cfg i pending (Some confirmed) now uuids))))))"

text \<open>The claims, with the recovery from a claim that raised. \<open>Inl\<close> is an early return.\<close>

definition signing_claim ::
  "string \<Rightarrow> int \<Rightarrow> (hosted_execution_row + (hosted_execution_row \<times> bool)) relay" where
  "signing_claim eid now =
     recover (bind (repo_op (\<lambda>cfg. claim_signing cfg eid now)) (\<lambda>claim. ret (Inr claim)))
       (\<lambda>error. bind (repo_read (\<lambda>_. get_execution eid)) (\<lambda>latest.
          case latest of
            None \<Rightarrow> fail error
          | Some l \<Rightarrow>
              if status l \<in> {PREFLIGHT_APPROVED, SIGNING} then fail error else ret (Inl l)))"

definition submission_claim ::
  "string \<Rightarrow> int \<Rightarrow> (hosted_execution_row + (hosted_execution_row \<times> bool)) relay" where
  "submission_claim eid now =
     recover (bind (repo_op (\<lambda>cfg. claim_submission cfg eid now)) (\<lambda>claim. ret (Inr claim)))
       (\<lambda>error. case error of
          RepositoryError (PilotGateDenied m) \<Rightarrow> fail error
        | _ \<Rightarrow> bind (repo_read (\<lambda>_. get_execution eid)) (\<lambda>latest.
            case latest of None \<Rightarrow> fail error | Some l \<Rightarrow> ret (Inl l)))"

text \<open>The signing stage; \<open>Inr\<close> is the execution to go on with.\<close>

definition signing_stage ::
  "relayer \<Rightarrow> bool \<Rightarrow> int \<Rightarrow> hosted_execution_row
     \<Rightarrow> (hosted_execution_row + hosted_execution_row) relay" where
  "signing_stage r checked now e =
     (if status e \<notin> {PREFLIGHT_APPROVED, SIGNING} then ret (Inr e)
      else bind (if checked then ret () else require_rpc_chain r) (\<lambda>_.
        bind (signing_claim (execution_id e) now) (\<lambda>outcome.
        case outcome of
          Inl latest \<Rightarrow> ret (Inl latest)
        | Inr (claimed, acquired) \<Rightarrow>
            if \<not> acquired then ret (Inl claimed)
            else bind (sign_execution r claimed) (\<lambda>signed. ret (Inr signed)))))"

definition submission_stage ::
  "relayer \<Rightarrow> bool \<Rightarrow> hosted_execution_row \<Rightarrow> hosted_execution_row relay" where
  "submission_stage r checked e =
     (if status e \<noteq> SIGNED then ret e
      else bind relay_now (\<lambda>now.
        if deadline e \<le> now then ret e
        else bind (if checked then ret () else require_rpc_chain r) (\<lambda>_.
          bind (submission_claim (execution_id e) now) (\<lambda>outcome.
          case outcome of
            Inl latest \<Rightarrow> ret latest
          | Inr (claimed, acquired) \<Rightarrow> if \<not> acquired then ret claimed else submit_signed r claimed))))"

text \<open>What follows the replay test: the approval, the allocation of a new execution, its stages.\<close>

definition run_stages ::
  "relayer \<Rightarrow> execution_intent \<Rightarrow> hosted_execution_row option \<Rightarrow> hosted_execution_row relay" where
  "run_stages r intent found =
     bind (core_approves intent) (\<lambda>approved.
     if \<not> approved then refuse ''Core execution approval is invalid''
     else bind relay_now (\<lambda>now.
       bind (case found of None \<Rightarrow> admit_intent r intent now | Some e \<Rightarrow> ret e) (\<lambda>e.
       if deadline e \<le> now
       then if status e \<in> {PREFLIGHT_APPROVED, SIGNING}
            then repo_op (\<lambda>cfg. release_expired cfg (execution_id e) now)
            else ret e
       else bind (signing_stage r (found = None) now e) (\<lambda>stage.
         case stage of Inl latest \<Rightarrow> ret latest | Inr e' \<Rightarrow> submission_stage r (found = None) e'))))"

definition execute :: "relayer \<Rightarrow> execution_intent \<Rightarrow> hosted_execution_row relay" where
  "execute r intent0 =
     bind (lift_result RepositoryError (lift_opt ValidationError (validate_intent intent0))) (\<lambda>intent.
     bind (require_bound_intent r intent) (\<lambda>_.
     bind (repo_read (\<lambda>cfg. find_for_intent cfg intent)) (\<lambda>found.
     case found of
       Some e \<Rightarrow> if status e \<in> REPLAYED_STATES then ret e else run_stages r intent found
     | None \<Rightarrow> run_stages r intent found)))"

end
