(* ===== verification/Relayer_Safety.thy ===== *)
theory Relayer_Safety
  imports Hosted_Relayer
begin

text \<open>
  What a relayer may do to the world: every transaction it hands to the network is the raw
  transaction of a persisted execution whose broadcast was counted first, and it logs at most
  one request of each kind per call. The first section adds to the repository's invariants what
  this needs; the others follow the text of \<open>Hosted_Relayer\<close> with the rules of \<open>relay_logic\<close>.
\<close>

section \<open>Where a row comes from\<close>

text \<open>The columns are those of the stored intent, and the bindings are unique.\<close>

definition row_origin :: "hosted_execution_row \<Rightarrow> bool" where
  "row_origin e \<longleftrightarrow>
     0 \<le> broadcast_attempts e \<and>
     intent_columns.truncate e = intent_columns.truncate (canonical_payload e)"

definition origin_inv :: "repo \<Rightarrow> bool" where
  "origin_inv s \<longleftrightarrow>
     (\<forall>e \<in> set (executions s). row_origin e) \<and>
     distinct (map capability_id (executions s)) \<and>
     distinct (map reservation_id (executions s)) \<and>
     distinct (map purchase_id (executions s))"

lemma truncate_fields:
  assumes "intent_columns.truncate e' = intent_columns.truncate e"
  shows "capability_id e' = capability_id e" "reservation_id e' = reservation_id e"
    "purchase_id e' = purchase_id e" "chain e' = chain e" "relayer_address e' = relayer_address e"
  using assms by (simp_all add: intent_columns.defs)

lemma row_origin_evolve: "row_evolves cfg e e' \<Longrightarrow> row_origin e \<Longrightarrow> row_origin e'"
  by (auto simp: row_evolves_def row_origin_def same_scope_def)

lemma row_origin_new: "row_origin (new_execution_row cfg i eid n now)"
  by (simp add: row_origin_def new_execution_row_def intent_columns.defs)

lemma evolve_map:
  assumes "rows_evolve cfg s t" "\<And>e e'. row_evolves cfg e e' \<Longrightarrow> f e' = f e"
  shows "map f (executions t) = map f (executions s)"
  using assms unfolding rows_evolve_def list_all2_conv_all_nth
  by (auto intro!: nth_equalityI)

lemma evolve_bindings:
  assumes "row_evolves cfg e e'"
  shows "capability_id e' = capability_id e" "reservation_id e' = reservation_id e"
    "purchase_id e' = purchase_id e"
  using assms truncate_fields [of e' e] by (simp_all add: row_evolves_def same_scope_def)

lemma new_bindings:
  assumes "\<not> list_ex (unique_conflict row) es"
  shows "capability_id row \<notin> capability_id ` set es" "reservation_id row \<notin> reservation_id ` set es"
    "purchase_id row \<notin> purchase_id ` set es"
  using assms by (auto simp: list_ex_iff unique_conflict_def)

lemma origin_step:
  assumes "repo_inv cfg s \<and> origin_inv s" "repo_step cfg s t"
  shows "repo_inv cfg t \<and> origin_inv t"
proof -
  have ids: "ids_distinct s" and valid: "valid_config cfg"
    using assms(1) by (simp_all add: repo_inv_def nonce_inv_def)
  have "origin_inv t"
  proof (cases rule: repo_step_cases [OF assms(2) ids valid])
    case 1
    have "row_origin e'" if "e' \<in> set (executions t)" for e'
      using 1(1) that by (rule rows_evolve_in) (use assms(1) in \<open>auto simp: origin_inv_def
        intro: row_origin_evolve\<close>)
    then show ?thesis
      using assms(1) evolve_map [OF 1(1), of capability_id] evolve_map [OF 1(1), of reservation_id]
        evolve_map [OF 1(1), of purchase_id]
      by (simp add: origin_inv_def evolve_bindings)
  next
    case (2 intent p now row)
    then have row: "row_origin row" "executions t = executions s @ [row]"
        "\<not> list_ex (unique_conflict row) (executions s)"
      by (auto simp: allocates_def row_origin_new)
    with assms(1) new_bindings [OF row(3)] show ?thesis
      by (auto simp: origin_inv_def)
  qed
  with assms show ?thesis by (blast intro: repo_inv_step)
qed

lemma origin_empty: "origin_inv empty_repo"
  by (simp add: origin_inv_def empty_repo_def)

interpretation origins: invariant_system
  "\<lambda>s. valid_config cfg \<and> s = empty_repo" "repo_step cfg" "\<lambda>s. repo_inv cfg s \<and> origin_inv s" for cfg
  by unfold_locales (use repo_inv_empty origin_empty origin_step in blast)+

lemma reachable_origin: "repo_reachable cfg s \<Longrightarrow> origin_inv s"
  unfolding repo_reachable_def using origins.inv_reachable [of cfg empty_repo s] by simp

section \<open>Counted broadcasts\<close>

definition sent_times :: "bytes \<Rightarrow> hosted_execution_row \<Rightarrow> int" where
  "sent_times raw e = (if raw_transaction e = Some raw then broadcast_attempts e else 0)"

text \<open>The broadcasts of a raw transaction the repository has on record.\<close>

definition attempts_of :: "bytes \<Rightarrow> repo \<Rightarrow> int" where
  "attempts_of raw s = sum_list (map (sent_times raw) (executions s))"

lemma sum_list_mono2:
  assumes "list_all2 R xs ys" "\<And>x y. x \<in> set xs \<Longrightarrow> R x y \<Longrightarrow> f x \<le> (f y :: int)"
  shows "sum_list (map f xs) \<le> sum_list (map f ys)"
  using assms by (induction rule: list_all2_induct) (auto intro: add_mono)

lemma sum_list_strict2:
  assumes "list_all2 R xs ys" "\<And>x y. x \<in> set xs \<Longrightarrow> R x y \<Longrightarrow> f x \<le> (f y :: int)"
    and "i < length xs" "f (xs ! i) < f (ys ! i)"
  shows "sum_list (map f xs) < sum_list (map f ys)"
  using assms
proof (induction arbitrary: i rule: list_all2_induct)
  case (Cons x xs y ys)
  have le: "sum_list (map f xs) \<le> sum_list (map f ys)"
    using Cons(2) Cons.prems(1) by (intro sum_list_mono2 [of R]) auto
  show ?case
  proof (cases i)
    case 0
    with Cons.prems le show ?thesis by simp
  next
    case (Suc j)
    with Cons.prems have "sum_list (map f xs) < sum_list (map f ys)" by (intro Cons.IH [of j]) auto
    moreover have "f x \<le> f y" using Cons.prems(1) Cons.hyps by auto
    ultimately show ?thesis by simp
  qed
qed simp

lemma sent_times_evolve:
  assumes "row_evolves cfg e e'" "row_inv cfg e" "row_origin e"
  shows "sent_times raw e \<le> sent_times raw e'"
  using assms row_origin_evolve [OF assms(1,3)]
  by (auto simp: sent_times_def row_evolves_def tainted_def same_signed_material_def row_origin_def)

lemma attempts_evolve:
  assumes "rows_evolve cfg s t" "repo_inv cfg s" "origin_inv s"
  shows "attempts_of raw s \<le> attempts_of raw t"
  unfolding attempts_of_def using assms(1)
  by (intro sum_list_mono2 [of "row_evolves cfg"])
    (use assms in \<open>auto simp: rows_evolve_def repo_inv_def origin_inv_def intro: sent_times_evolve\<close>)

lemma attempts_step:
  assumes "repo_reachable cfg s" "repo_step cfg s t"
  shows "attempts_of raw s \<le> attempts_of raw t"
proof -
  have inv: "repo_inv cfg s" "origin_inv s"
    using assms(1) by (simp_all add: reachable_inv reachable_origin)
  then have "ids_distinct s" "valid_config cfg" by (simp_all add: repo_inv_def nonce_inv_def)
  from assms(2) this show ?thesis
  proof (cases rule: repo_step_cases)
    case evolves
    then show ?thesis using inv by (intro attempts_evolve)
  next
    case (allocated intent p now row)
    then have "executions t = executions s @ [row]" "raw_transaction row = None"
      by (auto simp: allocates_def)
    then show ?thesis by (simp add: attempts_of_def sent_times_def)
  qed
qed

lemma attempts_steps:
  assumes "(repo_step cfg)\<^sup>*\<^sup>* s t" "repo_reachable cfg s"
  shows "attempts_of raw s \<le> attempts_of raw t"
  using assms(1)
proof (induction rule: rtranclp_induct)
  case (step y z)
  with attempts_step [OF reachable_step [OF assms(2) step(1)] step(2), of raw] show ?case by simp
qed simp

text \<open>A row of the table was broadcast once more.\<close>

definition counted :: "repo \<Rightarrow> repo \<Rightarrow> bytes \<Rightarrow> bool" where
  "counted s t raw \<longleftrightarrow>
     (\<exists>row0 \<in> set (executions s). \<exists>row \<in> set (executions t).
        execution_id row = execution_id row0 \<and> raw_transaction row0 = Some raw \<and>
        raw_transaction row = Some raw \<and> broadcast_attempts row = broadcast_attempts row0 + 1)"

lemma counted_attempts:
  assumes "rows_evolve cfg s t" "repo_reachable cfg s" "ids_distinct t" "counted s t raw"
  shows "attempts_of raw s < attempts_of raw t"
proof -
  from assms(4) obtain row0 row where rows: "row0 \<in> set (executions s)" "row \<in> set (executions t)"
      "execution_id row = execution_id row0" "sent_times raw row0 < sent_times raw row"
    by (auto simp: counted_def sent_times_def)
  then obtain i where i: "i < length (executions s)" "row0 = executions s ! i"
    by (auto simp: in_set_conv_nth)
  have ev: "list_all2 (row_evolves cfg) (executions s) (executions t)"
    using assms(1) by (simp add: rows_evolve_def)
  with i have "row_evolves cfg row0 (executions t ! i)" "executions t ! i \<in> set (executions t)"
    by (auto simp: list_all2_conv_all_nth)
  with rows have "executions t ! i = row"
    by (intro same_execution [OF assms(3)]) (auto simp: row_evolves_def same_scope_def)
  with ev i rows(4) show ?thesis
    unfolding attempts_of_def
    by (intro sum_list_strict2 [of "row_evolves cfg"])
      (use reachable_inv [OF assms(2)] reachable_origin [OF assms(2)] in
        \<open>auto simp: repo_inv_def origin_inv_def intro: sent_times_evolve\<close>)
qed

lemma claim_submission_counts:
  assumes "snd (claim_submission cfg eid now s) = Inr (row, True)"
  shows "locked_execution (fst (claim_submission cfg eid now s)) eid = Some row \<and>
    (\<exists>row0 raw. locked_execution s eid = Some row0 \<and> raw_transaction row0 = Some raw \<and>
       raw_transaction row = Some raw \<and> broadcast_attempts row = broadcast_attempts row0 + 1 \<and>
       status row = SUBMISSION_UNKNOWN)"
  unfolding claim_submission_def gated_broadcast_def
  by (rule claim_stored_session [OF _ assms [unfolded claim_submission_def gated_broadcast_def]],
      intro commits_rules)
    (auto intro!: claim_stored_finish claim_stored_keep claim_stored_deny
      dest!: add_attempt_frame ensure_pilot_gas_frame dest: locked_execution_in
        require_raw_transaction_Inr simp: count_broadcast_def)

section \<open>Computations that keep any contract\<close>

lemmas relay_splits =
  option.split sum.split prod.split pyval.split rpc_reply.split relay_error.split exec_error.split

context relay_logic
begin

lemma safe_reads [safe_rules]:
  "safe (rpc_read k ps)" "safe (read_quantity k ps field)" "safe (require_rpc_chain r)"
  "safe (require_submission_rpc_chain r)" "safe (lookup_exact_transaction r e)"
  "safe (read_execution eid)" "safe (require_bound_execution r e)" "safe (persisted_transaction e)"
  unfolding rpc_read_def read_quantity_def require_rpc_chain_def require_submission_rpc_chain_def
    lookup_exact_transaction_def read_execution_def require_bound_execution_def
    persisted_transaction_def Let_def
  by (rule safe_rules | intro conjI allI impI | split relay_splits)+

lemma safe_inspect [safe_rules]: "safe (inspect_submission r eid)"
  unfolding inspect_submission_def
  by (rule safe_rules | intro conjI allI impI | split relay_splits)+

lemma safe_settle [safe_rules]: "safe (settle_broadcast eid e h now reply)"
  unfolding settle_broadcast_def
  by (rule safe_rules | intro conjI allI impI | split relay_splits)+

lemma safe_fees [safe_rules]:
  "safe (gas_limit_for r cd)" "safe (fee_quote r)" "safe (read_word c d f)"
  "safe (additional_fee_upper_bound r tx)" "safe (total_fee_of r tx g f')"
  "safe (reserve_gas_for e g f' t)" "safe (build_transaction r e cd)"
  unfolding gas_limit_for_def fee_quote_def read_word_def additional_fee_upper_bound_def
    total_fee_of_def reserve_gas_for_def build_transaction_def Let_def rpc_read_def read_quantity_def
  by (rule safe_rules | intro conjI allI impI | split relay_splits)+

lemma safe_bound_intent [safe_rules]: "safe (require_bound_intent r i)"
  unfolding require_bound_intent_def
  by (rule safe_rules | intro conjI allI impI | split relay_splits)+

lemma safe_admit [safe_rules]: "safe (admit_intent r i now)" "safe (signing_claim eid now)"
  unfolding admit_intent_def signing_claim_def
  by (rule safe_rules | intro conjI allI impI | split relay_splits)+

end

section \<open>What the operations log\<close>

lemma silent_reads:
  "silent (rpc_read k ps)" "silent (read_quantity k ps field)" "silent (require_rpc_chain r)"
  "silent (require_submission_rpc_chain r)" "silent (lookup_exact_transaction r e)"
  "silent (read_execution eid)" "silent (require_bound_execution r e)" "silent (persisted_transaction e)"
  unfolding rpc_read_def read_quantity_def require_rpc_chain_def require_submission_rpc_chain_def
    lookup_exact_transaction_def read_execution_def require_bound_execution_def
    persisted_transaction_def Let_def
  by (rule emit_rules le_refl | intro conjI allI impI | split relay_splits)+

lemmas emits_reads [emit_rules] = silent_reads [THEN silent_emits]

lemma silent_inspect: "silent (inspect_submission r eid)"
  unfolding inspect_submission_def
  by (rule emit_rules le_refl | intro conjI allI impI | split relay_splits)+

lemma silent_settle: "silent (settle_broadcast eid e h now reply)"
  unfolding settle_broadcast_def
  by (rule emit_rules le_refl | intro conjI allI impI | split relay_splits)+

lemma silent_fees:
  "silent (gas_limit_for r cd)" "silent (fee_quote r)" "silent (additional_fee_upper_bound r tx)"
  "silent (total_fee_of r tx g f')" "silent (reserve_gas_for e g f' t)" "silent (build_transaction r e cd)"
  unfolding gas_limit_for_def fee_quote_def read_word_def additional_fee_upper_bound_def
    total_fee_of_def reserve_gas_for_def build_transaction_def Let_def
  by (rule emit_rules le_refl | intro conjI allI impI | split relay_splits)+

lemma silent_intent: "silent (require_bound_intent r i)" "silent (admit_intent r i now)"
  unfolding require_bound_intent_def admit_intent_def
  by (rule emit_rules le_refl | intro conjI allI impI | split relay_splits)+

lemmas emits_parts [emit_rules] =
  silent_inspect [THEN silent_emits] silent_settle [THEN silent_emits] silent_fees [THEN silent_emits]
  silent_intent [THEN silent_emits]

lemma silent_claims:
  "silent (signed_claim eid now)" "silent (claim_signed r eid now)" "silent (claim_rebroadcast eid now)"
  "silent (signing_claim eid now)" "silent (submission_claim eid now)"
  unfolding claim_signed_def claim_rebroadcast_def signed_claim_def signing_claim_def submission_claim_def
  by (rule emit_rules le_refl | intro conjI allI impI | split relay_splits)+

lemmas emits_claims [emit_rules] = silent_claims [THEN silent_emits]

lemma emits_then_silent: "emits i j m \<Longrightarrow> (\<And>x. silent (f x)) \<Longrightarrow> i \<le> j \<Longrightarrow> emits i j (bind m f)"
  by (rule emits_bind [where j = j]) (auto intro: silent_emits)

lemma emits_send [emit_rules]: "(\<And>x. silent (f x)) \<Longrightarrow> emits 2 3 (bind (send_raw raw) f)"
  by (rule emits_then_silent [OF emits_requests(3)]) simp_all

lemma emits_rebroadcast: "emits 2 3 (rebroadcast_identical r eid)"
  unfolding rebroadcast_identical_def
  by (rule emits_send | rule emit_rules le_refl | intro conjI allI impI | split relay_splits | simp)+

lemma emits_submit [emit_rules]: "emits 2 3 (submit_signed r e)"
  unfolding submit_signed_def
  by (rule emits_send | rule emit_rules le_refl | intro conjI allI impI | split relay_splits | simp)+

lemma emits_submission [emit_rules]: "emits 2 3 (submission_stage r checked e)"
  unfolding submission_stage_def
  by (rule emit_rules le_refl | intro conjI allI impI | split relay_splits | simp)+

lemma emits_signed_by: "emits i j m \<Longrightarrow> i \<le> j \<Longrightarrow> emits i j (signed_by m s)"
  unfolding signed_by_def
  by (rule emits_then_silent) (auto split: option.split intro: emit_rules)

lemma emits_execution_signed:
  "(\<And>x. emits 1 2 (f x)) \<Longrightarrow> emits 0 2 (bind (signed_by (execution_signature d) s) f)"
  by (rule emits_bind [OF emits_signed_by [OF emits_requests(1)]]) simp_all

lemma emits_gas_signed:
  "(\<And>x. silent (f x)) \<Longrightarrow> emits 1 2 (bind (signed_by (gas_signature d) s) f)"
  by (rule emits_then_silent [OF emits_signed_by [OF emits_requests(2)]]) simp_all

lemma emits_sign [emit_rules]: "emits 0 2 (sign_execution r e)"
  unfolding sign_execution_def
  by (rule emits_execution_signed emits_gas_signed | rule emit_rules le_refl
    | intro conjI allI impI | split relay_splits | simp)+

lemma emits_signing [emit_rules]: "emits 0 2 (signing_stage r checked now e)"
  unfolding signing_stage_def
  by (rule emits_then_silent [OF emits_sign] | rule emit_rules le_refl
    | intro conjI allI impI | split relay_splits | simp)+

lemma emits_stages:
  "(\<And>x. emits 2 3 (f x)) \<Longrightarrow> emits 0 3 (bind (signing_stage r checked now e) f)"
  by (rule emits_bind [where j = 2]) (simp_all add: emits_signing)

lemma emits_execute: "emits 0 3 (execute r i)"
  unfolding execute_def run_stages_def
  by (rule emits_stages | rule emit_rules le_refl | intro conjI allI impI | split relay_splits | simp)+

section \<open>Every broadcast is counted first\<close>

lemma claim_credit_raw:
  assumes "repo_reachable cfg s" "claim_submission cfg eid now s = (t, Inr (row, True))"
    and "raw_transaction row = Some raw"
  shows "attempts_of raw s < attempts_of raw t"
proof -
  have ids: "ids_distinct s" by (rule reachable_ids [OF assms(1)])
  obtain row0 where "locked_execution s eid = Some row0" "raw_transaction row0 = Some raw"
      "broadcast_attempts row = broadcast_attempts row0 + 1" "locked_execution t eid = Some row"
    using claim_submission_counts [of cfg eid now s row] assms by auto
  with assms(3) have "counted s t raw"
    unfolding counted_def by (metis locked_in_set locked_id)
  moreover have "repo_reachable cfg t" "rows_evolve cfg s t"
    using reachable_step [OF assms(1) r_into_rtranclp, OF op_steps(5) [of cfg s eid now]]
      claim_submission_evolves [OF ids, of cfg eid now] assms(2) by (metis fst_conv)+
  ultimately show ?thesis using assms(1) by (intro counted_attempts reachable_ids)
qed

definition rebroadcast_counts :: "string \<Rightarrow> repo \<Rightarrow> repo \<Rightarrow> exec_error + bytes \<Rightarrow> bool" where
  "rebroadcast_counts eid s t r \<longleftrightarrow>
     (\<forall>b. r = Inr b \<longrightarrow> (\<exists>row0 row. locked_execution s eid = Some row0 \<and>
        locked_execution t eid = Some row \<and> raw_transaction row0 = Some b \<and>
        raw_transaction row = Some b \<and> broadcast_attempts row = broadcast_attempts row0 + 1))"

lemma rebroadcast_counts_saved:
  assumes "locked_execution s eid = Some row0" "executions s' = executions s"
    and "execution_id row = eid" "raw_transaction row0 = Some b" "raw_transaction row = Some b"
    and "broadcast_attempts row = broadcast_attempts row0 + 1"
  shows "commits (rebroadcast_counts eid s) (and_then (save_row row s') (\<lambda>s''. Inr (s'', Inr b)))"
  using assms
  by (auto simp: rebroadcast_counts_def save_row_eq locked_execution_def sel_by_put
      intro!: commits_and_then)

lemma rebroadcast_counts_gated:
  assumes "\<And>s'. executions s' = executions s \<Longrightarrow> commits (rebroadcast_counts eid s) (k s')"
  shows "commits (rebroadcast_counts eid s) (gated_broadcast cfg row now s k)"
  unfolding gated_broadcast_def
  by (intro commits_rules assms)
    (auto simp: deny_def rebroadcast_counts_def dest: ensure_pilot_gas_frame)

lemma rebroadcast_counts_session:
  "rebroadcast_counts eid s (fst (rebroadcast_raw_transaction cfg eid raw now s))
     (snd (rebroadcast_raw_transaction cfg eid raw now s))"
  unfolding rebroadcast_raw_transaction_def Let_def
  apply (rule write_session_commits)
   apply (simp add: rebroadcast_counts_def)
  apply (intro commits_and_then [where r = "repo_now now"] commits_and_then [where r = "require_row s eid"]
      commits_and_then [where r = "require_raw_transaction cfg row" for row]
      commits_and_then [where r = "require_hash row" for row] commits_if commits_Inl rebroadcast_counts_gated
      commits_and_then [where r = "add_attempt row k h n t s'" for row k h n t s'] rebroadcast_counts_saved)
  apply (auto dest: locked_execution_in dest!: require_raw_transaction_Inr add_attempt_frame)
  done

definition world_ok :: "repo_config \<Rightarrow> world \<Rightarrow> bool" where
  "world_ok cfg w \<longleftrightarrow>
     repo_reachable cfg (w_repo w) \<and>
     (\<forall>raw. int (count_list (w_log w) (SendRaw raw)) \<le> attempts_of raw (w_repo w))"

interpretation sends: relay_logic env "world_ok (env_config env)"
  "\<lambda>w w'. (repo_step (env_config env))\<^sup>*\<^sup>* (w_repo w) (w_repo w')" for env
proof unfold_locales
  fix w s assume "world_ok (env_config env) w" "(repo_step (env_config env))\<^sup>*\<^sup>* (w_repo w) s"
  then show "world_ok (env_config env) (w\<lparr>w_repo := s\<rparr>) \<and>
      (repo_step (env_config env))\<^sup>*\<^sup>* (w_repo w) (w_repo (w\<lparr>w_repo := s\<rparr>))"
    using attempts_steps [of "env_config env" "w_repo w" s] reachable_step
    by (fastforce simp: world_ok_def intro: order_trans)
qed (auto simp: world_ok_def)

text \<open>Raw transactions with a counted broadcast that has not been sent yet.\<close>

definition credits :: "bytes set \<Rightarrow> world \<Rightarrow> bool" where
  "credits A w \<longleftrightarrow>
     (\<forall>raw \<in> A. int (count_list (w_log w) (SendRaw raw)) < attempts_of raw (w_repo w))"

abbreviation credited :: "hosted_execution_row \<Rightarrow> world \<Rightarrow> bool" where
  "credited e \<equiv> credits (set_option (raw_transaction e))"

lemma credits_kept:
  assumes "sends.safe env m" "silent m"
  shows "sends.triple env (credits A) m (\<lambda>_. credits A)"
  using assms attempts_steps unfolding sends.safe_def sends.triple_def silent_log credits_def world_ok_def
  by (fastforce intro: order_less_le_trans)

lemma send_credit: "sends.triple env (credits {raw}) (send_raw raw) (\<lambda>_ _. True)"
  by (auto simp: sends.triple_def send_raw_def ask_logged_def ask_def credits_def world_ok_def)

lemma signatures_safe [safe_rules]:
  "sends.safe env (execution_signature d)" "sends.safe env (gas_signature d)"
  unfolding execution_signature_def gas_signature_def
  by (rule sends.safe_logged; simp add: world_ok_def)+

lemma claim_credit:
  "sends.triple env (\<lambda>_. True) (repo_op (\<lambda>cfg. claim_submission cfg eid now))
     (\<lambda>c w. snd c \<longrightarrow> credited (fst c) w)"
proof (rule sends.triple_repo)
  fix w :: world and x
  let ?c = "claim_submission (env_config env) eid now (w_repo w)"
  assume "world_ok (env_config env) w" "snd ?c = Inr x"
  then show "snd x \<longrightarrow> credited (fst x) (w\<lparr>w_repo := fst ?c\<rparr>)"
    using claim_credit_raw [of "env_config env" "w_repo w" eid now "fst ?c" "fst x"]
    by (cases x) (fastforce simp: world_ok_def credits_def intro: order_le_less_trans prod_eqI)
qed (auto simp: credits_def op_steps)

lemma rebroadcast_credit:
  "sends.triple env (\<lambda>_. True) (repo_op (\<lambda>cfg. rebroadcast_raw_transaction cfg eid raw0 now))
     (\<lambda>raw. credits {raw})"
proof (rule sends.triple_repo)
  fix w :: world and raw
  let ?cfg = "env_config env" and ?s = "w_repo w"
  let ?c = "rebroadcast_raw_transaction ?cfg eid raw0 now ?s"
  assume w: "world_ok ?cfg w" "snd ?c = Inr raw"
  then have reach: "repo_reachable ?cfg ?s" by (simp add: world_ok_def)
  have "counted ?s (fst ?c) raw"
    using rebroadcast_counts_session [of eid ?s ?cfg raw0 now] w(2)
    unfolding rebroadcast_counts_def counted_def by (metis locked_in_set locked_id)
  moreover have "ids_distinct (fst ?c)"
    by (rule reachable_ids, rule reachable_step [OF reach], rule r_into_rtranclp, rule op_steps)
  ultimately have "attempts_of raw ?s < attempts_of raw (fst ?c)"
    using rebroadcast_evolves [OF reachable_ids [OF reach]] reach by (intro counted_attempts)
  then show "credits {raw} (w\<lparr>w_repo := fst ?c\<rparr>)"
    using w(1) by (auto simp: credits_def world_ok_def intro: order_le_less_trans)
qed (auto simp: credits_def op_steps)

lemma send_then:
  assumes "\<And>x. sends.safe env (f x)"
  shows "sends.triple env (credits {raw}) (bind (send_raw raw) f) (\<lambda>_ _. True)"
  by (rule sends.triple_bind [OF send_credit]) (use assms in \<open>simp add: sends.safe_def\<close>)

text \<open>A silent computation before the rest keeps the credit.\<close>

lemma credits_bind:
  assumes "sends.safe env m" "silent m" "\<And>x. sends.triple env (credits A) (f x) Q"
  shows "sends.triple env (credits A) (bind m f) Q"
  using credits_kept [OF assms(1,2)] assms(3) by (rule sends.triple_bind)

lemmas any_world = sends.safe_triple

lemma submit_signed_sends:
  "sends.triple env (credited e) (submit_signed r e) (\<lambda>_ _. True)"
proof -
  have send: "sends.triple env (credits {raw}) (bind relay_now (\<lambda>send_now.
      if deadline e \<le> send_now then ret e
      else bind (send_raw raw) (\<lambda>reply.
        if reply = RpcSubmissionUnknown then ret e
        else settle_broadcast (execution_id e) e h send_now reply))) (\<lambda>_ _. True)" for raw h
    by (intro credits_bind sends.triple_if send_then safe_rules emits_now le_refl any_world)
  have mark: "sends.safe env (bind relay_now (\<lambda>now. repo_op (\<lambda>cfg. mark_submitted cfg (execution_id e) now)))"
    by (intro safe_rules)
  show ?thesis
    unfolding submit_signed_def
  proof (rule sends.triple_if [OF any_world], goal_cases)
    case 2
    show ?case
    proof (rule credits_bind, goal_cases)
      case (3 known)
      then show ?case
        by (cases known) (auto intro: any_world [OF mark] any_world [OF sends.safe_basic(3)] send
          split: option.split)
    qed (intro safe_rules emits_reads)+
  qed (rule safe_rules)
qed

text \<open>A granted submission claim leaves its row with a credit.\<close>

definition claim_credited :: "hosted_execution_row + (hosted_execution_row \<times> bool) \<Rightarrow> world \<Rightarrow> bool" where
  "claim_credited c w \<longleftrightarrow> (\<forall>row. c = Inr (row, True) \<longrightarrow> credited row w)"

lemma claims_credited:
  "sends.triple env (\<lambda>_. True) (submission_claim eid now) claim_credited"
  "sends.triple env (\<lambda>_. True) (signed_claim eid now) claim_credited"
proof -
  have claim: "sends.triple env (\<lambda>_. True)
      (bind (repo_op (\<lambda>cfg. claim_submission cfg eid now)) (\<lambda>claim. ret (Inr claim))) claim_credited"
    by (rule sends.triple_bind [OF claim_credit], rule sends.triple_ret)
      (auto simp: claim_credited_def)
  have early: "sends.triple env (\<lambda>_. True) (bind m (\<lambda>x. if c x then ret (Inl (g x)) else fail (k x))) claim_credited"
    if "sends.safe env m" for m :: "'x relay" and c g k
    using that unfolding sends.safe_def
    by (rule sends.triple_bind) (intro sends.triple_if sends.triple_fail sends.triple_ret;
      simp add: claim_credited_def)
  have lookup: "sends.triple env (\<lambda>_. True) (bind (repo_read (\<lambda>_. get_execution eid))
      (\<lambda>latest. case latest of None \<Rightarrow> fail error | Some l \<Rightarrow> ret (Inl l))) claim_credited" for error
    using sends.safe_basic(14) unfolding sends.safe_def
    by (rule sends.triple_bind) (auto intro!: sends.triple_fail sends.triple_ret
      simp: claim_credited_def split: option.split)
  show "sends.triple env (\<lambda>_. True) (submission_claim eid now) claim_credited"
    unfolding submission_claim_def
    by (rule sends.triple_recover [OF claim sends.stable_True])
      (auto intro: lookup sends.triple_fail split: relay_error.split exec_error.split)
  show "sends.triple env (\<lambda>_. True) (signed_claim eid now) claim_credited"
    unfolding signed_claim_def
    by (rule sends.triple_recover [OF claim sends.stable_True])
      (auto intro: early safe_rules sends.triple_fail split: relay_error.split exec_error.split)
qed

lemma submission_sends [safe_rules]: "sends.safe env (submission_stage r checked e)"
proof -
  have rest: "sends.safe env (bind (submission_claim (execution_id e) now) (\<lambda>outcome.
      case outcome of
        Inl latest \<Rightarrow> ret latest
      | Inr (claimed, acquired) \<Rightarrow> if \<not> acquired then ret claimed else submit_signed r claimed))" for now
    unfolding sends.safe_def
    by (rule sends.triple_bind [OF claims_credited(1)])
      (auto simp: claim_credited_def intro!: sends.triple_ret
        intro: sends.triple_pre [OF submit_signed_sends] split: sum.split)
  show ?thesis
    unfolding submission_stage_def by (rule rest safe_rules)+
qed

lemma sign_sends [safe_rules]: "sends.safe env (sign_execution r e)"
  unfolding sign_execution_def signed_by_def
  by (rule safe_rules | intro conjI allI impI | split relay_splits)+

lemma execute_sends: "sends.safe env (execute r i)"
  unfolding execute_def run_stages_def signing_stage_def
  by (rule safe_rules | intro conjI allI impI | split relay_splits)+

lemma persisted_credit:
  "sends.triple env (credited e) (persisted_transaction e) (\<lambda>x. credits {fst x})"
  unfolding persisted_transaction_def
  by (auto intro!: sends.triple_refuse sends.triple_ret split: option.split)

lemma rebroadcast_claims:
  "sends.triple env (\<lambda>_. True) (claim_signed r eid now) (\<lambda>c w. \<forall>x raw. c = Inr (x, raw) \<longrightarrow> credits {raw} w)"
  "sends.triple env (\<lambda>_. True) (claim_rebroadcast eid now) (\<lambda>c w. \<forall>x raw. c = Inr (x, raw) \<longrightarrow> credits {raw} w)"
proof -
  let ?Q = "\<lambda>c w. \<forall>x raw. c = Inr (x, raw) \<longrightarrow> credits {raw} w"
  have acquired: "sends.triple env (credited e)
      (bind (persisted_transaction e) (\<lambda>(raw, h). ret (Inr (e, raw)))) ?Q" for e
    by (rule sends.triple_bind [OF persisted_credit]) (auto intro: sends.triple_ret)
  have early: "sends.triple env P (bind (inspect_submission r eid) (\<lambda>(l, found). ret (Inl l))) ?Q" for P
    by (rule sends.triple_bind [OF any_world]) (auto intro: safe_rules sends.triple_ret)
  show "sends.triple env (\<lambda>_. True) (claim_signed r eid now) ?Q"
    unfolding claim_signed_def
    by (rule sends.triple_bind [OF claims_credited(2)])
      (auto simp: claim_credited_def intro!: sends.triple_ret intro: early acquired
        sends.triple_pre [OF acquired] split: sum.split)
  show "sends.triple env (\<lambda>_. True) (claim_rebroadcast eid now) ?Q"
    unfolding claim_rebroadcast_def
    by (rule sends.triple_bind [OF rebroadcast_credit], rule credits_bind)
      (auto intro: safe_rules emit_rules sends.triple_ret)
qed

lemma rebroadcast_sends: "sends.safe env (rebroadcast_identical r eid)"
proof -
  have send: "sends.triple env (credits {raw}) (bind (persisted_transaction e) (\<lambda>(expected_raw, h).
      if raw \<noteq> expected_raw then refuse m
      else bind (send_raw raw) (settle_broadcast eid e h now))) (\<lambda>_ _. True)" for raw e m now
  proof (rule credits_bind)
    show "sends.triple env (credits {raw}) (case x of (expected_raw, h) \<Rightarrow>
        if raw \<noteq> expected_raw then refuse m
        else bind (send_raw raw) (settle_broadcast eid e h now)) (\<lambda>_ _. True)" for x
      by (cases x) (simp add: any_world [OF sends.safe_basic(3)] send_then sends.safe_settle)
  qed (rule sends.safe_reads emits_reads)+
  have rest: "sends.safe env (bind (if status e = SIGNED then claim_signed r eid now else claim_rebroadcast eid now)
      (\<lambda>claim. case claim of
          Inl latest \<Rightarrow> ret latest
        | Inr (expected, raw) \<Rightarrow>
            bind (persisted_transaction expected) (\<lambda>(expected_raw, tx_hash).
              if raw \<noteq> expected_raw then refuse ''persisted transaction is unavailable''
              else bind (send_raw raw) (settle_broadcast eid expected tx_hash now))))" for e now
    unfolding sends.safe_def
    by (rule sends.triple_bind, rule sends.triple_if, rule rebroadcast_claims, rule rebroadcast_claims)
      (auto intro: sends.triple_ret sends.triple_pre [OF send] split: sum.split)
  show ?thesis
    unfolding rebroadcast_identical_def
    by (rule rest safe_rules | intro conjI allI impI | split relay_splits)+
qed

section \<open>Reachable worlds\<close>

text \<open>
  What happens to the world: a repository call of some other service, or an operation of any
  relayer in any environment over the same repository.
\<close>

inductive relay_step :: "repo_config \<Rightarrow> world \<Rightarrow> world \<Rightarrow> bool" for cfg where
  others: "relay_step cfg w (w\<lparr>w_repo := fst (run_call cfg c (w_repo w))\<rparr>)"
| execution: "env_config env = cfg \<Longrightarrow> relay_step cfg w (fst (execute r intent env w))"
| rebroadcast: "env_config env = cfg \<Longrightarrow> relay_step cfg w (fst (rebroadcast_identical r eid env w))"
| inspection: "env_config env = cfg \<Longrightarrow> relay_step cfg w (fst (inspect_submission r eid env w))"

inductive_cases relay_stepE: "relay_step cfg w v"

definition relay_reachable :: "repo_config \<Rightarrow> world \<Rightarrow> bool" where
  "relay_reachable cfg w \<longleftrightarrow> valid_config cfg \<and> (relay_step cfg)\<^sup>*\<^sup>* empty_world w"

lemma safe_world: "sends.safe env m \<Longrightarrow> world_ok (env_config env) w \<Longrightarrow> world_ok (env_config env) (fst (m env w))"
  by (simp add: sends.safe_def sends.triple_def)

lemma world_ok_step: "world_ok cfg w \<Longrightarrow> relay_step cfg w v \<Longrightarrow> world_ok cfg v"
proof (erule relay_stepE)
  fix c assume w: "world_ok cfg w" "v = w\<lparr>w_repo := fst (run_call cfg c (w_repo w))\<rparr>"
  from w(1) have reach: "repo_reachable cfg (w_repo w)" by (simp add: world_ok_def)
  have step: "repo_step cfg (w_repo w) (w_repo v)" by (simp add: w(2) repo_step.call)
  with w reach attempts_step [OF reach step] show "world_ok cfg v"
    by (auto simp: world_ok_def intro: order_trans reachable_step)
qed (use execute_sends rebroadcast_sends sends.safe_inspect in \<open>auto intro: safe_world\<close>)

interpretation worlds: invariant_system
  "\<lambda>w. valid_config cfg \<and> w = empty_world" "relay_step cfg" "world_ok cfg" for cfg
proof unfold_locales
  show "world_ok cfg w" if "valid_config cfg \<and> w = empty_world" for w
    using that by (simp add: world_ok_def empty_world_def repo_reachable_def attempts_of_def empty_repo_def)
qed (rule world_ok_step)

lemma reachable_world: "relay_reachable cfg w \<Longrightarrow> world_ok cfg w"
  unfolding relay_reachable_def by (rule worlds.inv_reachable [of cfg empty_world]) simp_all

text \<open>A transaction that was sent is the one of a stored execution, with its broadcast counted.\<close>

lemma sent_persisted:
  assumes "relay_reachable cfg w" "SendRaw raw \<in> set (w_log w)"
  obtains e where "e \<in> set (executions (w_repo w))" "raw_transaction e = Some raw" "0 < broadcast_attempts e"
proof -
  have ok: "world_ok cfg w" by (rule reachable_world [OF assms(1)])
  have "0 < count_list (w_log w) (SendRaw raw)"
    using assms(2) by (metis count_list_0_iff gr0I)
  with ok have "attempts_of raw (w_repo w) \<noteq> 0" by (auto simp: world_ok_def dest!: spec [of _ raw])
  then have "\<not> (\<forall>e \<in> set (executions (w_repo w)). sent_times raw e = 0)"
    unfolding attempts_of_def by (metis (mono_tags, lifting) map_cong sum_list_0 map_replicate_const sum_list_replicate mult_zero_right)
  then obtain e where e: "e \<in> set (executions (w_repo w))" "sent_times raw e \<noteq> 0" by blast
  moreover have "0 \<le> broadcast_attempts e"
    using ok e(1) reachable_origin by (auto simp: world_ok_def origin_inv_def row_origin_def)
  ultimately show thesis by (intro that [of e]) (auto simp: sent_times_def split: if_splits)
qed

text \<open>Signed executions share neither a relayer nonce nor a binding.\<close>

lemma reachable_payments:
  assumes "relay_reachable cfg w" "e \<in> set (executions (w_repo w))" "e' \<in> set (executions (w_repo w))"
    and "tainted e" "tainted e'"
    and "(chain e, relayer_address e, relayer_nonce e) = (chain e', relayer_address e', relayer_nonce e')
       \<or> capability_id e = capability_id e' \<or> reservation_id e = reservation_id e'
       \<or> purchase_id e = purchase_id e'"
  shows "e = e'"
proof -
  have reach: "repo_reachable cfg (w_repo w)"
    using reachable_world [OF assms(1)] by (simp add: world_ok_def)
  have origin: "origin_inv (w_repo w)" by (rule reachable_origin [OF reach])
  from assms(6) consider
    (nonce) "(chain e, relayer_address e, relayer_nonce e) = (chain e', relayer_address e', relayer_nonce e')"
    | (capability) "capability_id e = capability_id e'"
    | (reservation) "reservation_id e = reservation_id e'"
    | (purchase) "purchase_id e = purchase_id e'" by blast
  then show ?thesis
  proof cases
    case nonce
    then have "nonce_clash e e'" using assms(4,5) by (auto simp: nonce_clash_def harmless_def)
    then have "execution_id e = execution_id e'"
      using reachable_inv [OF reach] assms(2,3) by (auto simp: repo_inv_def nonce_inv_def)
    then show ?thesis using assms(2,3) by (intro same_execution [OF reachable_ids [OF reach]])
  qed (use origin assms(2,3) in \<open>auto simp: origin_inv_def intro: key_unique\<close>)
qed

end
