(* ===== verification/Relayer_Requests.thy ===== *)
theory Relayer_Requests
  imports Relayer_Safety
begin

text \<open>
  What a relayer asks its signers. \<open>yields\<close> collects the pure facts about results (fees within
  the operator's limits); the contract \<open>requests\<close> says that every digest handed to a signer
  belongs to the stored intent, and the stages of \<open>execute\<close> are shown to keep it.
\<close>

section \<open>Results without the world\<close>

text \<open>What any returned result of a computation in this environment satisfies.\<close>

definition yields :: "relay_env \<Rightarrow> 'a relay \<Rightarrow> ('a \<Rightarrow> bool) \<Rightarrow> bool" where
  "yields env m A \<longleftrightarrow> (\<forall>w x. snd (m env w) = Inr x \<longrightarrow> A x)"

lemma yields_bind:
  assumes "yields env m A" "\<And>x. A x \<Longrightarrow> yields env (f x) B"
  shows "yields env (bind m f) B"
  unfolding yields_def
proof (intro allI impI)
  fix w y assume y: "snd (bind m f env w) = Inr y"
  obtain v r where m: "m env w = (v, r)" by (cases "m env w")
  with y obtain x where r: "r = Inr x" by (cases r) (auto simp: bind_def)
  with m assms(1) have "A x" by (auto simp: yields_def dest!: spec [of _ w])
  moreover from y m r have "snd (f x env v) = Inr y" by (simp add: bind_def)
  ultimately show "B y" using assms(2) by (auto simp: yields_def)
qed

lemma yields_any: "yields env m (\<lambda>_. True)"
  by (simp add: yields_def)

lemma yields_ret: "A x \<Longrightarrow> yields env (ret x) A"
  by (simp add: yields_def ret_def)

lemma yields_refuse: "yields env (refuse s) A" "yields env (fail e) A"
  by (simp_all add: yields_def refuse_def fail_def)

lemma yields_result: "(\<And>x. r = Inr x \<Longrightarrow> A x) \<Longrightarrow> yields env (lift_result f r) A"
  by (cases r) (auto simp: yields_def lift_result_def ret_def fail_def)

lemma yields_checked: "yields env (lift_result f r) (\<lambda>x. r = Inr x)"
  by (simp add: yields_result)

lemma yields_library: "yields env library (\<lambda>lib. lib = env_lib env)"
  by (simp add: yields_def library_def)

lemma yields_if: "(c \<Longrightarrow> yields env a A) \<Longrightarrow> (\<not> c \<Longrightarrow> yields env b A) \<Longrightarrow> yields env (if c then a else b) A"
  by simp

lemmas yields_rules = yields_ret yields_refuse yields_if

context relay_logic
begin

text \<open>A safe step: its pure result and the stable part of the precondition go on.\<close>

lemma pure_bind:
  assumes "safe m" "yields env m A" "stable P" "\<And>x. A x \<Longrightarrow> triple P (f x) Q"
  shows "triple P (bind m f) Q"
proof (rule triple_bind)
  show "triple P m (\<lambda>x w. A x \<and> P w)"
    using assms(1-3) by (auto simp: safe_def triple_def yields_def stable_def)
  show "triple (\<lambda>w. A x \<and> P w) (f x) Q" for x
    using assms(4) [of x] by (auto simp: triple_def)
qed

lemmas skip_bind = pure_bind [OF _ yields_any]

end

section \<open>Fees within the operator's limits\<close>

lemma hex_digit_value_nonneg: "is_lower_hex_char c \<Longrightarrow> 0 \<le> hex_digit_value c"
proof -
  assume c: "is_lower_hex_char c"
  then have "lower_char c = c" using is_lower_hex_char_hex by blast
  with c show ?thesis
    unfolding hex_digit_value_def of_nat_of_char [symmetric, where 'a = int]
    by (auto simp: is_lower_hex_char_def is_digit_char_def)
qed

lemma hex_value_nonneg: "list_all is_lower_hex_char s \<Longrightarrow> 0 \<le> hex_value s"
  by (induction s rule: rev_induct) (auto simp: hex_value_def intro: hex_digit_value_nonneg add_nonneg_nonneg)

lemma quantity_of_nonneg: "quantity_of v f = Inr x \<Longrightarrow> 0 \<le> x"
  by (auto simp: quantity_of_def is_hex_quantity_def intro: hex_value_nonneg split: pyval.splits if_splits)

lemma uint256_word_nonneg: "uint256_word_of v f = Inr x \<Longrightarrow> 0 \<le> x"
  by (auto simp: uint256_word_of_def is_lower_hex_string_def intro: hex_value_nonneg
      split: pyval.splits if_splits)

lemma yields_quantity: "yields env (read_quantity k ps field) (\<lambda>x. 0 \<le> x)"
  unfolding read_quantity_def
  by (rule yields_bind [OF yields_any]) (auto intro: yields_result quantity_of_nonneg)

lemma yields_word: "yields env (read_word c d field) (\<lambda>x. 0 \<le> x)"
  unfolding read_word_def
  by (rule yields_bind [OF yields_any]) (auto intro: yields_result uint256_word_nonneg)

lemma yields_gas_limit:
  "yields env (gas_limit_for r cd) (\<lambda>g. 0 < g \<and> g \<le> rl_max_gas_limit r)"
  unfolding gas_limit_for_def Let_def
  by (rule yields_bind [OF yields_any], intro yields_rules) auto

lemma yields_fee_quote:
  "yields env (fee_quote r) (\<lambda>(p, f). 0 < f \<and> p \<le> rl_max_priority_fee_per_gas_wei r \<and>
     f \<le> rl_max_fee_per_gas_wei r)"
  unfolding fee_quote_def Let_def
  by (rule yields_bind [OF yields_quantity], rule yields_bind [OF yields_any], intro yields_rules) auto

lemma yields_additional:
  "0 \<le> tx_gas_limit tx \<Longrightarrow> yields env (additional_fee_upper_bound r tx) (\<lambda>x. 0 \<le> x)"
  unfolding additional_fee_upper_bound_def
  by (intro yields_if yields_ret yields_bind [OF yields_library] yields_bind [OF yields_word])
    (auto simp: pos_imp_zdiv_nonneg_iff intro!: add_nonneg_nonneg)

lemma yields_total_fee:
  assumes "0 \<le> tx_gas_limit tx"
  shows "yields env (total_fee_of r tx g f) (\<lambda>_. case rl_max_total_fee_wei r of None \<Rightarrow> True | Some l \<Rightarrow> g * f \<le> l)"
proof (cases "rl_max_total_fee_wei r")
  case None
  then show ?thesis by (simp add: yields_any)
next
  case (Some l)
  show ?thesis
    unfolding total_fee_of_def Some option.case
    by (rule yields_bind [OF yields_additional [OF assms]], intro yields_rules) auto
qed

text \<open>A transaction the operator's limits allow.\<close>

definition within_limits :: "relayer \<Rightarrow> eip1559_transaction \<Rightarrow> bool" where
  "within_limits r tx \<longleftrightarrow>
     tx_gas_limit tx \<le> rl_max_gas_limit r \<and>
     tx_max_fee tx \<le> rl_max_fee_per_gas_wei r \<and>
     tx_max_priority_fee tx \<le> rl_max_priority_fee_per_gas_wei r \<and>
     (case rl_max_total_fee_wei r of
        None \<Rightarrow> True | Some l \<Rightarrow> tx_gas_limit tx * tx_max_fee tx \<le> l)"

text \<open>A call of the executor with these calldata, nonce and no value.\<close>

definition calls_executor :: "relayer \<Rightarrow> int \<Rightarrow> bytes \<Rightarrow> eip1559_transaction \<Rightarrow> bool" where
  "calls_executor r nonce calldata tx \<longleftrightarrow>
     evm_address (rl_executor_address r) ''to'' = Inr (tx_to tx) \<and> tx_data tx = calldata \<and>
     tx_nonce tx = nonce \<and> tx_value tx = 0 \<and> tx_chain_id tx = rl_chain_id r \<and>
     tx_access_list tx = []"

lemma evm_uint_Inr: "evm_uint v f p = Inr n \<Longrightarrow> 0 \<le> v \<and> n = v"
  by (auto simp: evm_uint_def split: if_splits)

lemma make_transaction_Inr:
  assumes "make_transaction nonce p f g to cd v al c = Inr tx"
  shows "tx_nonce tx = nonce \<and> tx_max_priority_fee tx = p \<and> tx_max_fee tx = f \<and>
    tx_gas_limit tx = g \<and> evm_address to ''to'' = Inr (tx_to tx) \<and> tx_data tx = cd \<and>
    tx_value tx = 0 \<and> tx_chain_id tx = c \<and> normalise_access_list al = Inr (tx_access_list tx)"
  using assms
  by (auto simp: make_transaction_def approved_chain_def result_simps dest!: evm_uint_Inr split: if_splits)

lemma yields_build:
  "yields env (build_transaction r e cd)
     (\<lambda>(tx, t). within_limits r tx \<and> calls_executor r (relayer_nonce e) cd tx)"
  unfolding build_transaction_def
proof (rule yields_bind [OF yields_gas_limit], rule yields_bind [OF yields_fee_quote], unfold split_beta,
    rule yields_bind [OF yields_checked])
  fix g pf tx
  assume g: "0 < g \<and> g \<le> rl_max_gas_limit r"
    and pf: "0 < snd pf \<and> fst pf \<le> rl_max_priority_fee_per_gas_wei r \<and> snd pf \<le> rl_max_fee_per_gas_wei r"
    and tx: "make_transaction (relayer_nonce e) (fst pf) (snd pf) g (rl_executor_address r) cd 0 []
      (rl_chain_id r) = Inr tx"
  from make_transaction_Inr [OF tx] g have gas: "0 \<le> tx_gas_limit tx" by simp
  from make_transaction_Inr [OF tx] g pf
  show "yields env (bind (total_fee_of r tx g (snd pf)) (\<lambda>total_fee.
      bind (reserve_gas_for e g (snd pf) total_fee) (\<lambda>_. ret (tx, total_fee))))
     (\<lambda>x. within_limits r (fst x) \<and> calls_executor r (relayer_nonce e) cd (fst x))"
    by (intro yields_bind [OF yields_total_fee [OF gas]] yields_bind [OF yields_any] yields_ret)
      (auto simp: within_limits_def calls_executor_def split: option.splits)
qed

section \<open>What is signed\<close>

text \<open>
  What an execution of the intent \<open>i\<close> may ask of a signer: the digest of the intent's own
  authorization, and the signing hash of a transaction within the operator's limits that calls
  the executor with that authorization, under the nonce stored for the intent.
\<close>

definition request_allowed ::
  "relay_env \<Rightarrow> relayer \<Rightarrow> execution_intent \<Rightarrow> repo \<Rightarrow> relay_event \<Rightarrow> bool" where
  "request_allowed env r i s ev \<longleftrightarrow>
     (case ev of
        SignExecution d \<Rightarrow>
          (\<exists>a. authorization_of r i = Inr a \<and> ''0x'' @ to_hex d = execution_digest i \<and>
             hash_execution (env_lib env) a (rl_executor_address r) (Some (rl_chain_id r)) = Inr d)
      | SignGas d \<Rightarrow>
          (\<exists>tx a sig calldata. \<exists>e \<in> set (executions s).
             d = signing_hash (env_lib env) tx \<and> within_limits r tx \<and>
             authorization_of r i = Inr a \<and>
             encode_execute_calldata (env_lib env) a sig = Inr calldata \<and>
             canonical_payload e = i \<and> calls_executor r (relayer_nonce e) calldata tx)
      | SendRaw raw \<Rightarrow> True)"

definition requests_ok :: "relay_env \<Rightarrow> relayer \<Rightarrow> execution_intent \<Rightarrow> nat \<Rightarrow> world \<Rightarrow> bool" where
  "requests_ok env r i n w \<longleftrightarrow>
     repo_reachable (env_config env) (w_repo w) \<and>
     (\<forall>ev \<in> set (drop n (w_log w)). request_allowed env r i (w_repo w) ev)"

lemma history_in:
  assumes "repo_reachable cfg s" "(repo_step cfg)\<^sup>*\<^sup>* s t" "e \<in> set (executions s)"
  obtains e' where "e' \<in> set (executions t)" "row_history e e'"
  using repo_history_steps [OF assms(2) reachable_inv [OF assms(1)]] assms(3)
  by (auto simp: repo_history_def)

lemma request_allowed_later:
  assumes "repo_reachable (env_config env) s" "(repo_step (env_config env))\<^sup>*\<^sup>* s t"
    and "request_allowed env r i s ev"
  shows "request_allowed env r i t ev"
proof -
  have "\<exists>e' \<in> set (executions t). canonical_payload e' = canonical_payload e \<and>
      relayer_nonce e' = relayer_nonce e" if "e \<in> set (executions s)" for e
    using history_in [OF assms(1,2) that] by (auto simp: row_history_def same_scope_def)
  with assms(3) show ?thesis
    by (cases ev) (fastforce simp: request_allowed_def)+
qed

interpretation requests: relay_logic env "requests_ok env r i n"
  "\<lambda>w w'. (repo_step (env_config env))\<^sup>*\<^sup>* (w_repo w) (w_repo w')" for env r i n
  by unfold_locales (auto simp: requests_ok_def intro: reachable_step request_allowed_later)

lemma send_allowed [safe_rules]: "requests.safe env r i n (send_raw raw)"
  unfolding send_raw_def
  by (rule requests.safe_logged) (auto simp: requests_ok_def request_allowed_def drop_append
      dest: in_set_dropD)

lemma request_logged:
  "requests.triple env r i n (\<lambda>w. request_allowed env r i (w_repo w) ev) (ask_logged ev q) (\<lambda>_ _. True)"
  by (auto simp: requests.triple_def ask_logged_def ask_def requests_ok_def dest: in_set_dropD)

text \<open>A row of the intent: the stored execution it describes, with the intent's columns.\<close>

definition row_of :: "execution_intent \<Rightarrow> hosted_execution_row \<Rightarrow> world \<Rightarrow> bool" where
  "row_of i e w \<longleftrightarrow>
     intent_columns.truncate e = intent_columns.truncate i \<and>
     (\<exists>x \<in> set (executions (w_repo w)). execution_id x = execution_id e \<and>
        relayer_nonce x = relayer_nonce e \<and> canonical_payload x = i)"

lemma row_of_stable: "requests.stable env r i n (row_of i e)"
proof -
  have "row_of i e w'" if w: "requests_ok env r i n w"
      "(repo_step (env_config env))\<^sup>*\<^sup>* (w_repo w) (w_repo w')" "row_of i e w" for w w'
  proof -
    from w(3) obtain x where x: "x \<in> set (executions (w_repo w))" "execution_id x = execution_id e"
        "relayer_nonce x = relayer_nonce e" "canonical_payload x = i"
      by (auto simp: row_of_def)
    from w(1) have "repo_reachable (env_config env) (w_repo w)" by (simp add: requests_ok_def)
    from history_in [OF this w(2) x(1)] obtain x' where "x' \<in> set (executions (w_repo w'))" "row_history x x'" .
    with x w(3) show ?thesis by (auto simp: row_of_def row_history_def same_scope_def)
  qed
  then show ?thesis by (auto simp: requests.stable_def)
qed

lemma authorization_of_columns:
  assumes "intent_columns.truncate e = intent_columns.truncate i"
  shows "authorization_of r e = authorization_of r i" "execution_digest e = execution_digest i"
proof -
  have eqs: "capability_hash e = capability_hash i" "reservation_hash e = reservation_hash i"
      "owner e = owner i" "payee e = payee i" "relayer_address e = relayer_address i" "token e = token i"
      "amount_atomic e = amount_atomic i" "owner_nonce e = owner_nonce i" "deadline e = deadline i"
      "signer_epoch e = signer_epoch i" "execution_digest e = execution_digest i"
    using assms by (simp_all add: intent_columns.defs)
  show "authorization_of r e = authorization_of r i"
    unfolding authorization_of_def make_authorization_def eqs ..
  show "execution_digest e = execution_digest i" by (rule eqs)
qed

lemma execution_signed:
  assumes "authorization_of r i = Inr a" "''0x'' @ to_hex d = execution_digest i"
    and "hash_execution (env_lib env) a (rl_executor_address r) (Some (rl_chain_id r)) = Inr d"
  shows "requests.safe env r i n (signed_by (execution_signature d) m)"
proof -
  have "request_allowed env r i s (SignExecution d)" for s
    using assms by (simp add: request_allowed_def)
  then have "requests.safe env r i n (execution_signature d)"
    unfolding execution_signature_def
    by (intro requests.safe_logged) (auto simp: requests_ok_def dest: in_set_dropD)
  then show ?thesis
    unfolding signed_by_def
    by (rule requests.safe_bind) (auto intro: safe_rules split: option.split)
qed

lemma gas_signed:
  assumes "authorization_of r i = Inr a" "encode_execute_calldata (env_lib env) a sig = Inr cd"
    and "within_limits r tx" "calls_executor r (relayer_nonce e) cd tx"
    and "\<And>x. requests.safe env r i n (f x)"
  shows "requests.triple env r i n (row_of i e)
    (bind (signed_by (gas_signature (signing_hash (env_lib env) tx)) m) f) (\<lambda>_ _. True)"
proof -
  have allowed: "request_allowed env r i (w_repo w) (SignGas (signing_hash (env_lib env) tx))"
    if "row_of i e w" for w
  proof -
    from that obtain x where "x \<in> set (executions (w_repo w))" "relayer_nonce x = relayer_nonce e"
        "canonical_payload x = i" by (auto simp: row_of_def)
    with assms(1-4) show ?thesis unfolding request_allowed_def relay_event.case by metis
  qed
  have "requests.triple env r i n (row_of i e) (gas_signature (signing_hash (env_lib env) tx)) (\<lambda>_ _. True)"
    unfolding gas_signature_def by (rule requests.triple_pre [OF request_logged]) (rule allowed)
  then have "requests.triple env r i n (row_of i e)
      (signed_by (gas_signature (signing_hash (env_lib env) tx)) m) (\<lambda>_ _. True)"
    unfolding signed_by_def
    by (rule requests.triple_bind)
      (auto intro: requests.triple_refuse requests.triple_ret split: option.split)
  then show ?thesis
    by (rule requests.triple_bind) (use assms(5) in \<open>simp add: requests.safe_def\<close>)
qed

lemma sign_requests:
  assumes same: "intent_columns.truncate e = intent_columns.truncate i"
  shows "requests.triple env r i n (row_of i e) (sign_execution r e) (\<lambda>_ _. True)"
proof -
  let ?T = "\<lambda>m. requests.triple env r i n (row_of i e) m (\<lambda>_ _. True)"
  note columns = authorization_of_columns [OF same]
  note step = requests.pure_bind [OF _ _ row_of_stable]
  note skip = requests.skip_bind [OF _ row_of_stable]
  have rest: "?T (bind (build_transaction r e cd) (\<lambda>(tx, total_fee).
      bind (signed_by (gas_signature (signing_hash (env_lib env) tx)) m) (f tx)))"
    if "authorization_of r i = Inr a" "encode_execute_calldata (env_lib env) a sig = Inr cd"
      "\<And>tx x. requests.safe env r i n (f tx x)" for a sig cd m f
    by (rule step [OF _ yields_build]) (use that in \<open>auto intro: safe_rules gas_signed\<close>)
  show ?thesis
    unfolding sign_execution_def
    apply (rule requests.triple_if, rule requests.triple_refuse)
    apply (rule step [OF _ yields_library], rule safe_rules)
    apply (rule step [OF _ yields_checked], rule safe_rules)
    apply (rule step [OF _ yields_checked], rule safe_rules)
    apply (rule requests.triple_if, rule requests.triple_refuse)
    apply (rule skip, rule execution_signed, simp_all add: columns)
    apply (rule step [OF _ yields_checked], rule safe_rules)
    apply (rule rest, assumption, assumption)
    apply (rule safe_rules)+
    done
qed

section \<open>The stages of an execution\<close>

lemma row_of_stored:
  assumes "repo_reachable cfg (w_repo w)" "e \<in> set (executions (w_repo w))" "canonical_payload e = i"
  shows "row_of i e w" "intent_columns.truncate e = intent_columns.truncate i"
  using reachable_origin [OF assms(1)] assms(2,3) by (auto simp: row_of_def origin_inv_def row_origin_def)

lemma claim_requests:
  "requests.triple env r i n (row_of i e) (signing_claim (execution_id e) now)
     (\<lambda>c w. \<forall>row. c = Inr (row, True) \<longrightarrow> row_of i row w)"
proof -
  let ?Q = "\<lambda>c w. \<forall>row. c = Inr (row, True) \<longrightarrow> row_of i row w"
  have claim: "requests.triple env r i n (row_of i e)
      (repo_op (\<lambda>cfg. claim_signing cfg (execution_id e) now)) (\<lambda>c w. snd c \<longrightarrow> row_of i (fst c) w)"
  proof (rule requests.triple_repo [OF _ row_of_stable])
    fix w :: world and x
    let ?c = "claim_signing (env_config env) (execution_id e) now (w_repo w)"
    let ?v = "w\<lparr>w_repo := fst ?c\<rparr>"
    assume x: "snd ?c = Inr x" and ok: "requests_ok env r i n ?v" and row: "row_of i e ?v"
    show "snd x \<longrightarrow> row_of i (fst x) ?v"
    proof
      assume "snd x"
      with x have stored: "locked_execution (fst ?c) (execution_id e) = Some (fst x)"
        using claim_signing_granted [of "env_config env" "execution_id e" now "w_repo w" "fst x"]
        by (metis prod.collapse)
      from ok have reach: "repo_reachable (env_config env) (w_repo ?v)" by (simp add: requests_ok_def)
      from row obtain y where y: "y \<in> set (executions (w_repo ?v))" "execution_id y = execution_id e"
          "canonical_payload y = i" by (auto simp: row_of_def)
      with stored reach have "y = fst x"
        by (intro same_execution [OF reachable_ids]) (auto dest: locked_execution_in)
      with y reach show "row_of i (fst x) ?v" by (auto intro: row_of_stored)
    qed
  qed (auto simp: row_of_def op_steps)
  have early: "requests.triple env r i n P (bind (repo_read (\<lambda>_. get_execution eid)) (\<lambda>latest.
      case latest of None \<Rightarrow> fail x
      | Some l \<Rightarrow> if status l \<in> S then fail x else ret (Inl l))) ?Q" for P eid x S
    by (rule requests.triple_bind [OF requests.safe_triple])
      (auto intro: safe_rules requests.triple_fail requests.triple_ret split: option.split)
  show ?thesis
    unfolding signing_claim_def
    by (rule requests.triple_recover [OF _ row_of_stable _ early], rule requests.triple_bind [OF claim])
      (auto intro: requests.triple_ret)
qed

lemma signing_requests:
  "requests.triple env r i n (row_of i e) (signing_stage r checked now e) (\<lambda>_ _. True)"
proof -
  have sign: "requests.triple env r i n (row_of i row) (bind (sign_execution r row) (\<lambda>x. ret (Inr x)))
      (\<lambda>_ _. True)" for row
  proof (cases "intent_columns.truncate row = intent_columns.truncate i")
    case True
    then show ?thesis
      by (intro requests.triple_bind [OF sign_requests] requests.triple_ret) simp_all
  next
    case False
    then show ?thesis by (simp add: requests.triple_def row_of_def)
  qed
  have rest: "requests.triple env r i n (row_of i e)
      (bind (signing_claim (execution_id e) now) (\<lambda>outcome.
        case outcome of
          Inl latest \<Rightarrow> ret (Inl latest)
        | Inr (claimed, acquired) \<Rightarrow>
            if \<not> acquired then ret (Inl claimed)
            else bind (sign_execution r claimed) (\<lambda>signed. ret (Inr signed)))) (\<lambda>_ _. True)"
    by (rule requests.triple_bind [OF claim_requests])
      (auto intro: requests.triple_ret requests.triple_pre [OF sign] split: sum.split)
  show ?thesis
    unfolding signing_stage_def
    by (intro requests.triple_if requests.triple_ret requests.skip_bind [OF _ row_of_stable] rest)
      (auto intro: safe_rules)
qed

lemma set_somes: "set (somes xs) = {x. Some x \<in> set xs}"
  by (induction xs rule: somes.induct) auto

lemma existing_stored:
  assumes "existing_for_intent s i = Inr (Some row)"
  shows "row \<in> set (executions s)"
proof -
  from assms have "remdups (somes (bound_rows s i)) = [row]"
    by (auto simp: existing_for_intent_def split: list.splits)
  then have "row \<in> set (somes (bound_rows s i))" by (metis list.set_intros(1) set_remdups)
  then show ?thesis
    by (auto simp: set_somes bound_rows_def dest!: sym [of "Some row"] dest: sel_by_in find_SomeD)
qed

lemma exact_payload: "require_exact_intent cfg row i = Inr u \<Longrightarrow> canonical_payload row = i"
  by (auto simp: require_exact_intent_def split: if_splits)

lemma found_stored:
  assumes "find_for_intent cfg i s = Inr (Some e)"
  shows "e \<in> set (executions s) \<and> canonical_payload e = i"
  using assms
  by (auto simp: find_for_intent_def result_simps record_of_eq dest: existing_stored exact_payload
      split: option.splits)

lemma allocate_requests:
  "requests.triple env r i n (\<lambda>_. True) (repo_op (\<lambda>cfg. allocate_or_return cfg i p c now us)) (row_of i)"
proof (rule requests.triple_repo)
  fix w :: world and row
  let ?c = "allocate_or_return (env_config env) i p c now us (w_repo w)"
  let ?v = "w\<lparr>w_repo := fst ?c\<rparr>"
  assume "snd ?c = Inr row" "requests_ok env r i n ?v"
  with allocate_bound [of "env_config env" i p c now us "w_repo w"]
  have "repo_reachable (env_config env) (w_repo ?v)" "row \<in> set (executions (w_repo ?v))"
      "canonical_payload row = i"
    by (auto simp: requests_ok_def bound_to_def dest: existing_stored exact_payload)
  then show "row_of i row ?v" by (rule row_of_stored)
qed (auto simp: row_of_def op_steps)

lemma stages_requests:
  "requests.triple env r i n (\<lambda>w. \<forall>e. found = Some e \<longrightarrow> row_of i e w) (run_stages r i found) (\<lambda>_ _. True)"
proof -
  let ?P = "\<lambda>w. \<forall>e. found = Some e \<longrightarrow> row_of i e w"
  have stable: "requests.stable env r i n ?P"
    using row_of_stable unfolding requests.stable_def by blast
  have admit: "requests.triple env r i n ?P (case found of None \<Rightarrow> admit_intent r i now | Some e \<Rightarrow> ret e)
      (row_of i)" for now
  proof (cases found)
    case None
    have "requests.triple env r i n (\<lambda>_. True) (admit_intent r i now) (row_of i)"
      unfolding admit_intent_def
      by (intro requests.triple_if requests.triple_refuse requests.skip_bind [OF _ requests.stable_True]
          allocate_requests safe_rules)
    with None show ?thesis by simp
  qed (simp add: requests.triple_ret)
  have rest: "requests.triple env r i n (row_of i e) (if deadline e \<le> now
       then if status e \<in> {PREFLIGHT_APPROVED, SIGNING}
            then repo_op (\<lambda>cfg. release_expired cfg (execution_id e) now)
            else ret e
       else bind (signing_stage r (found = None) now e) (\<lambda>stage.
         case stage of Inl latest \<Rightarrow> ret latest | Inr e' \<Rightarrow> submission_stage r (found = None) e'))
      (\<lambda>_ _. True)" for e now
  proof -
    have submit: "requests.safe env r i n (submission_stage r c e')" for c e'
      unfolding submission_stage_def submission_claim_def submit_signed_def
      by (rule safe_rules | intro conjI allI impI | split relay_splits)+
    have end_: "requests.safe env r i n
        (case stage of Inl latest \<Rightarrow> ret latest | Inr e' \<Rightarrow> submission_stage r (found = None) e')" for stage
      by (auto intro: submit safe_rules split: sum.split)
    show ?thesis
      by (intro requests.triple_if requests.triple_bind [OF signing_requests]
          requests.safe_triple [OF end_]; intro requests.safe_triple safe_rules)
  qed
  show ?thesis
    unfolding run_stages_def
    apply (rule requests.skip_bind [OF _ stable], rule safe_rules)
    apply (rule requests.triple_if, rule requests.triple_refuse)
    apply (rule requests.skip_bind [OF _ stable], rule safe_rules)
    apply (rule requests.triple_bind [OF admit])
    apply (rule rest)
    done
qed

lemma execute_requests:
  assumes "validate_intent intent0 = Some i"
  shows "requests.safe env r i n (execute r intent0)"
proof -
  have found: "requests.triple env r i n (\<lambda>_. True) (repo_read (\<lambda>cfg. find_for_intent cfg i))
      (\<lambda>found w. \<forall>e. found = Some e \<longrightarrow> row_of i e w)"
    by (rule requests.triple_read)
      (auto simp: requests_ok_def dest!: found_stored intro: row_of_stored, simp add: row_of_def)
  have replay: "requests.triple env r i n (\<lambda>w. \<forall>e. x = Some e \<longrightarrow> row_of i e w)
      (case x of
         Some e \<Rightarrow> if status e \<in> REPLAYED_STATES then ret e else run_stages r i x
       | None \<Rightarrow> run_stages r i x) (\<lambda>_ _. True)" for x
    using stages_requests [of env r i n x] by (auto intro: requests.triple_ret split: option.split)
  show ?thesis
    unfolding execute_def assms lift_opt_simps lift_result_def sum.case requests.safe_def
  proof (rule requests.pure_bind [OF _ yields_ret [where A = "\<lambda>x. x = i"] requests.stable_True])
    show "requests.triple env r i n (\<lambda>_. True) (bind (require_bound_intent r x) (\<lambda>_.
        bind (repo_read (\<lambda>cfg. find_for_intent cfg x)) (\<lambda>found.
        case found of
          Some e \<Rightarrow> if status e \<in> REPLAYED_STATES then ret e else run_stages r x found
        | None \<Rightarrow> run_stages r x found))) (\<lambda>_ _. True)" if "x = i" for x
      unfolding that
      by (intro requests.skip_bind [OF _ requests.stable_True] requests.triple_bind [OF found] replay
        safe_rules)
  qed (simp_all add: safe_rules)
qed

text \<open>An intent that does not validate raises before anything is asked.\<close>

lemma invalid_intent: "validate_intent intent0 = None \<Longrightarrow> w_log (fst (execute r intent0 env w)) = w_log w"
  by (simp add: execute_def bind_def lift_result_def fail_def)

text \<open>Without an approval the stages are never reached.\<close>

lemma unapproved_stages:
  assumes "\<And>t. \<not> env_approves env t i"
  shows "fst (run_stages r i found env w) = w\<lparr>w_tick := Suc (w_tick w)\<rparr>"
  by (simp add: run_stages_def bind_def core_approves_def ask_def refuse_def fail_def assms)

definition logs_nothing :: "relay_env \<Rightarrow> 'a relay \<Rightarrow> bool" where
  "logs_nothing env m \<longleftrightarrow> (\<forall>w. w_log (fst (m env w)) = w_log w)"

lemma logs_nothing_silent: "silent m \<Longrightarrow> logs_nothing env m"
  by (simp add: logs_nothing_def silent_log)

lemma logs_nothing_bind:
  "logs_nothing env m \<Longrightarrow> (\<And>x. logs_nothing env (f x)) \<Longrightarrow> logs_nothing env (bind m f)"
  unfolding logs_nothing_def bind_def
  by (auto split: prod.splits sum.splits) (metis fst_conv)+

lemma bind_ret: "bind (ret x) f = f x"
  by (intro ext) (simp add: bind_def ret_def)

lemma execute_validated:
  assumes "validate_intent intent0 = Some i"
  shows "execute r intent0 =
     bind (require_bound_intent r i) (\<lambda>_.
     bind (repo_read (\<lambda>cfg. find_for_intent cfg i)) (\<lambda>found.
     case found of
       Some e \<Rightarrow> if status e \<in> REPLAYED_STATES then ret e else run_stages r i found
     | None \<Rightarrow> run_stages r i found))"
  by (simp add: execute_def assms lift_result_def bind_ret)

end
