(* ===== verification/Relayer_Example.thy ===== *)
theory Relayer_Example
  imports Relayer_Requests Execution_Example
begin

text \<open>
  A concrete environment of the relayer, and two runs in it: a rebroadcast of the example
  execution, and an execution whose signing is refused.
\<close>

section \<open>An environment\<close>

text \<open>Stand-ins of the right shape for the third-party encoders, a chain and the signers.\<close>

definition relay_lib :: evm_lib where
  "relay_lib =
     \<lparr>keccak = (\<lambda>b. replicate 32 0x77), abi_encode = (\<lambda>vs. [1, 5]), rlp_encode = (\<lambda>item. [1, 5])\<rparr>"

definition relay_rpc :: "nat \<Rightarrow> string \<Rightarrow> pyval list \<Rightarrow> rpc_reply" where
  "relay_rpc t m ps =
     (if m = ''eth_chainId'' then RpcValue (PStr ''0x2105'')
      else if m = ''eth_getTransactionByHash'' then RpcValue PNone
      else RpcFailure)"

definition example_env :: relay_env where
  "example_env =
     \<lparr>env_config = example_config, env_lib = relay_lib, env_inspect = relay_rpc,
      env_submit = relay_rpc, env_clock = (\<lambda>t. 1010), env_execution_signer = (\<lambda>t d. None),
      env_gas_signer = (\<lambda>t d. None), env_approves = (\<lambda>t i. True), env_uuids = (\<lambda>t. [''u1'']),
      env_others = (\<lambda>t. [])\<rparr>"

definition example_relayer :: relayer where
  "example_relayer =
     \<lparr>rl_chain = ''eip155:8453'', rl_chain_id = 8453, rl_token = HOSTED_BASE_USDC,
      rl_executor_address = hex_of 40 CHR ''3'', rl_relayer_address = hex_of 40 CHR ''8'',
      rl_execution_signer_address = hex_of 40 CHR ''a'', rl_max_gas_limit = 100000,
      rl_max_fee_per_gas_wei = 100, rl_max_priority_fee_per_gas_wei = 10,
      rl_max_total_fee_wei = None\<rparr>"

definition world_of :: "repo \<Rightarrow> world" where
  "world_of s = \<lparr>w_repo = s, w_log = [], w_tick = 0\<rparr>"

lemma run_calls_relayed:
  "(relay_step cfg)\<^sup>*\<^sup>* (world_of s) (world_of (run_calls cfg cs s))"
proof (induction cs arbitrary: s)
  case (Cons c cs)
  have "relay_step cfg (world_of s) (world_of (fst (run_call cfg c s)))"
    using relay_step.others [of cfg "world_of s" c] by (simp add: world_of_def)
  with Cons show ?case by (auto intro: converse_rtranclp_into_rtranclp)
qed simp

lemma example_env_simps [simp]:
  "env_config example_env = example_config" "env_lib example_env = relay_lib"
  "env_inspect example_env = relay_rpc" "env_submit example_env = relay_rpc"
  "env_clock example_env t = 1010" "env_execution_signer example_env t d = None"
  "env_gas_signer example_env t d = None" "env_approves example_env t i"
  "env_uuids example_env t = [''u1'']" "env_others example_env t = []"
  by (simp_all add: example_env_def)

lemma world_of_simps [simp]: "w_repo (world_of s) = s" "w_log (world_of s) = []" "w_tick (world_of s) = 0"
  by (simp_all add: world_of_def)

lemma example_relayer_chain [simp]: "rl_chain_id example_relayer = 8453"
  by (simp add: example_relayer_def)

text \<open>A transaction sent again from the submitted state.\<close>

definition counted_repo :: repo where
  "counted_repo = fst (rebroadcast_raw_transaction example_config example_eid None 1010 submitted_repo)"

lemma submitted_row:
  "case get_execution example_eid submitted_repo of
     Inr (Some e) \<Rightarrow> status e = SUBMITTED \<and> chain e = ''eip155:8453'' \<and> token e = HOSTED_BASE_USDC \<and>
       executor e = hex_of 40 CHR ''3'' \<and> relayer_address e = hex_of 40 CHR ''8'' \<and>
       raw_transaction_hash e = Some (hex_of 64 CHR ''b'')
   | _ \<Rightarrow> False"
  by code_simp

lemma counted_raw:
  "snd (rebroadcast_raw_transaction example_config example_eid None 1010 submitted_repo) = Inr example_raw"
  by code_simp

lemma unknown_row:
  "case snd (mark_submission_unknown example_config example_eid 1010 counted_repo) of
     Inr e \<Rightarrow> raw_transaction e = Some example_raw \<and> raw_transaction_hash e \<noteq> None
   | _ \<Rightarrow> False"
  by code_simp

definition resent_world :: world where
  "resent_world = fst (rebroadcast_identical example_relayer example_eid example_env (world_of submitted_repo))"

lemma resent_log: "w_log resent_world = [SendRaw example_raw]"
proof -
  obtain e where e: "get_execution example_eid submitted_repo = Inr (Some e)" "status e = SUBMITTED"
      "chain e = ''eip155:8453''" "token e = HOSTED_BASE_USDC" "executor e = hex_of 40 CHR ''3''"
      "relayer_address e = hex_of 40 CHR ''8''" "raw_transaction_hash e = Some (hex_of 64 CHR ''b'')"
    using submitted_row by (auto split: sum.splits option.splits)
  obtain x h where x: "snd (mark_submission_unknown example_config example_eid 1010 counted_repo) = Inr x"
      "raw_transaction x = Some example_raw" "raw_transaction_hash x = Some h"
    using unknown_row by (auto split: sum.splits)
  have chain: "quantity_of (PStr ''0x2105'') f = Inr 8453" for f by code_simp
  have hash: "is_lower_hex_string 64 (hex_of 64 CHR ''b'')" by code_simp
  have inspect: "inspect_submission example_relayer example_eid example_env (world_of submitted_repo)
      = ((world_of submitted_repo)\<lparr>w_tick := 3\<rparr>, Inr (e, False))"
    using e hash
    by (simp add: inspect_submission_def bind_def read_execution_def repo_read_def repo_op_def Let_def
        require_bound_execution_def refuse_if_def ret_def SUBMISSION_STATES_def require_rpc_chain_def
        read_quantity_def rpc_read_def inspection_call_def ask_def relay_rpc_def chain lift_result_def
        lookup_exact_transaction_def example_relayer_def world_of_def)
  have rebroadcast: "rebroadcast_raw_transaction example_config example_eid None 1010 submitted_repo
      = (counted_repo, Inr example_raw)"
    using counted_raw by (simp add: counted_repo_def prod_eq_iff)
  obtain s3 where mark: "mark_submission_unknown example_config example_eid 1010 counted_repo = (s3, Inr x)"
    using x(1) by (metis prod.collapse)
  show ?thesis
    unfolding resent_world_def rebroadcast_identical_def
    using e x
    by (simp add: rebroadcast mark inspect bind_def SUBMISSION_STATES_def require_submission_rpc_chain_def
        submission_call_def ask_def relay_rpc_def chain lift_result_def refuse_if_def ret_def
        relay_now_def claim_rebroadcast_def repo_op_def Let_def
        persisted_transaction_def send_raw_def ask_logged_def settle_broadcast_def example_raw_def
        split: prod.splits)
qed

text \<open>An execution whose signing is refused after the digest was asked for.\<close>

lemma example_validates: "validate_intent example_intent = Some example_intent"
  by code_simp

lemma example_authorizes:
  "case authorization_of example_relayer example_intent of Inr a \<Rightarrow> au_chain_id a = 8453 | Inl _ \<Rightarrow> False"
  by code_simp

lemma example_executor: "evm_address (hex_of 40 CHR ''3'') f = Inr (hex_of 40 CHR ''3'')"
  by code_simp

lemma example_digest: "''0x'' @ to_hex (replicate 32 0x77) = execution_digest example_intent"
  by code_simp

lemma example_hash:
  assumes "au_chain_id a = 8453"
  shows "hash_execution relay_lib a (rl_executor_address example_relayer) (Some 8453) = Inr (replicate 32 0x77)"
  using assms example_executor
  by (simp add: hash_execution_def domain_separator_def approved_chain_def evm_uint_def UINT256_MAX_def
      USDC_BY_CHAIN_ID_def relay_lib_def example_relayer_def)

lemma found_row:
  "case find_for_intent example_config example_intent allocated_repo of
     Inr (Some e) \<Rightarrow> status e = PREFLIGHT_APPROVED \<and> deadline e = 2000 \<and> execution_id e = example_eid
   | _ \<Rightarrow> False"
  by code_simp

lemma claimed_row:
  "case snd (claim_signing example_config example_eid 1010 allocated_repo) of
     Inr (e, acquired) \<Rightarrow> acquired \<and> status e = SIGNING \<and> signing_claim_generation e = 1 \<and>
       intent_columns.truncate e = intent_columns.truncate example_intent
   | _ \<Rightarrow> False"
  by code_simp

definition asked_world :: world where
  "asked_world = fst (execute example_relayer example_intent example_env (world_of allocated_repo))"

lemma asked_log: "w_log asked_world = [SignExecution (replicate 32 0x77)]"
proof -
  obtain a where a: "authorization_of example_relayer example_intent = Inr a" "au_chain_id a = 8453"
    using example_authorizes by (auto split: sum.splits)
  obtain e where e: "find_for_intent example_config example_intent allocated_repo = Inr (Some e)"
      "status e = PREFLIGHT_APPROVED" "deadline e = 2000" "execution_id e = example_eid"
    using found_row by (auto split: sum.splits option.splits)
  obtain x s where x: "claim_signing example_config example_eid 1010 allocated_repo = (s, Inr (x, True))"
      "status x = SIGNING" "signing_claim_generation x = 1"
      "intent_columns.truncate x = intent_columns.truncate example_intent"
    using claimed_row by (cases "claim_signing example_config example_eid 1010 allocated_repo")
      (auto split: sum.splits prod.splits)
  have row: "authorization_of example_relayer x = Inr a" "execution_digest x = execution_digest example_intent"
    using a(1) authorization_of_columns [OF x(4)] by simp_all
  have chain: "quantity_of (PStr ''0x2105'') f = Inr 8453" for f by code_simp
  have bound: "require_bound_intent example_relayer example_intent example_env w = (w, Inr ())" for w
    using a example_hash [OF a(2)] example_digest
    by (simp add: require_bound_intent_def bind_def library_def lift_result_def ret_def refuse_if_def
        example_relayer_def example_intent_def)
  have sign: "sign_execution example_relayer x example_env w =
      (w\<lparr>w_log := w_log w @ [SignExecution (replicate 32 0x77)], w_tick := Suc (w_tick w)\<rparr>,
       Inl (RelayerExecutionError ''execution signing is unavailable''))" for w
    using a x row example_hash [OF a(2)] example_digest
    by (simp add: sign_execution_def bind_def library_def lift_result_def ret_def signed_by_def
        execution_signature_def ask_logged_def ask_def refuse_def fail_def)
  show ?thesis
    unfolding asked_world_def execute_def
    using e x
    by (simp add: example_validates bound sign bind_def lift_result_def ret_def repo_read_def repo_op_def
        Let_def REPLAYED_STATES_def run_stages_def core_approves_def ask_def relay_now_def
        signing_stage_def signing_claim_def recover_def require_rpc_chain_def read_quantity_def rpc_read_def
        inspection_call_def relay_rpc_def chain refuse_if_def)
qed

lemma world_of_reachable:
  assumes "valid_config cfg"
  shows "relay_reachable cfg (world_of (run_calls cfg cs empty_repo))"
  using assms run_calls_relayed [of cfg empty_repo cs]
  by (simp add: relay_reachable_def empty_world_def world_of_def)

lemma resent_reachable: "relay_reachable example_config resent_world"
proof -
  have "submitted_repo = run_calls example_config
      [Allocate example_intent 4 None 1000 [''u1''], ClaimSigning example_eid 1001,
       ReservePilotGas example_eid 300000 1 1002,
       PersistSigned example_eid example_sig example_raw 1 None 1003,
       ClaimSubmission example_eid 1004, MarkSubmitted example_eid 1005] empty_repo"
    by (simp add: submitted_repo_def reserved_repo_def allocated_repo_def)
  then have "relay_reachable example_config (world_of submitted_repo)"
    using world_of_reachable [OF example_config_valid] by metis
  moreover have "relay_step example_config (world_of submitted_repo) resent_world"
    unfolding resent_world_def by (rule relay_step.rebroadcast) simp
  ultimately show ?thesis by (auto simp: relay_reachable_def)
qed

lemma asked_reachable: "repo_reachable example_config (w_repo (world_of allocated_repo))"
  by (simp add: allocated_reachable)

end
