(* ===== verification/Relayer_Properties.thy ===== *)
theory Relayer_Properties
  imports Relayer_Example
begin

text \<open>
  The properties of the Hosted relayer, over any RPC provider, clock, signer and schedule of the
  other workers.
\<close>

section \<open>Properties\<close>

text \<open>
  C14. Write-ahead of broadcasts: whatever the providers answer and however other workers
  interleave, every transaction a relayer handed to the network is the stored raw transaction of
  an execution, and the repository had counted at least as many broadcasts of those bytes as
  were sent.
\<close>

theorem broadcasts_are_counted:
  assumes "relay_reachable cfg w" "SendRaw raw \<in> set (w_log w)"
  shows "(\<exists>e \<in> set (executions (w_repo w)). raw_transaction e = Some raw \<and> 0 < broadcast_attempts e) \<and>
    int (count_list (w_log w) (SendRaw raw)) \<le> attempts_of raw (w_repo w)"
  using sent_persisted [OF assms] reachable_world [OF assms(1)] by (auto simp: world_ok_def)

theorem broadcasts_are_counted_witness:
  "1 \<le> attempts_of example_raw (w_repo resent_world)"
  using broadcasts_are_counted [OF resent_reachable, of example_raw] by (simp add: resent_log)

text \<open>
  C10. Two transactions that relayers sent are the same bytes as soon as their executions share
  the relayer account and nonce, the capability, the reservation or the purchase: a nonce is
  never spent twice and a reservation never paid twice, by any number of relayers.
\<close>

theorem one_transaction_per_payment:
  assumes "relay_reachable cfg w" "SendRaw raw \<in> set (w_log w)" "SendRaw raw' \<in> set (w_log w)"
  shows "\<exists>e \<in> set (executions (w_repo w)). \<exists>e' \<in> set (executions (w_repo w)).
    raw_transaction e = Some raw \<and> raw_transaction e' = Some raw' \<and>
    ((chain e, relayer_address e, relayer_nonce e) = (chain e', relayer_address e', relayer_nonce e')
       \<or> capability_id e = capability_id e' \<or> reservation_id e = reservation_id e'
       \<or> purchase_id e = purchase_id e' \<longrightarrow> raw = raw')"
proof -
  obtain e where e: "e \<in> set (executions (w_repo w))" "raw_transaction e = Some raw"
    by (rule sent_persisted [OF assms(1,2)])
  obtain e' where e': "e' \<in> set (executions (w_repo w))" "raw_transaction e' = Some raw'"
    by (rule sent_persisted [OF assms(1,3)])
  have "e = e'" if "(chain e, relayer_address e, relayer_nonce e) = (chain e', relayer_address e', relayer_nonce e')
      \<or> capability_id e = capability_id e' \<or> reservation_id e = reservation_id e' \<or> purchase_id e = purchase_id e'"
    using reachable_payments [OF assms(1) e(1) e'(1)] e(2) e'(2) that by (auto simp: tainted_def)
  with e e' show ?thesis by (metis option.inject)
qed

theorem one_transaction_per_payment_witness:
  "\<exists>e \<in> set (executions (w_repo resent_world)). raw_transaction e = Some example_raw"
  using one_transaction_per_payment [OF resent_reachable, of example_raw example_raw] by (auto simp: resent_log)



text \<open>
  C30. One run of \<open>execute\<close> asks for at most one execution signature, one gas signature and one
  broadcast, in that order, in any environment.
\<close>

theorem execution_asks_once:
  "\<exists>l. w_log (fst (execute r intent env w)) = w_log w @ l \<and> sorted_wrt (<) (map event_rank l)"
  using emits_execute [of r intent] unfolding emits_def ranked_def by blast



end
