(* ===== verification/Watcher_Evidence.thy ===== *)
theory Watcher_Evidence
  imports Hosted_Relayer
begin

text \<open>
  What the chain watcher reads out of RPC answers (\<open>apps/facilitator/watcher.py\<close>): the field
  decoders, the canonical decoding of an Executor call, and the two events of a payment. A
  decoder refuses with the reason the source gives; \<open>_EvidenceError\<close> is \<open>EvidenceError\<close>.
\<close>

section \<open>Fields\<close>

definition unfit :: "string \<Rightarrow> relay_error + 'a" where
  "unfit reason = Inl (EvidenceError reason False)"

definition require_evidence :: "bool \<Rightarrow> string \<Rightarrow> relay_error + unit" where
  "require_evidence c reason = (if c then Inr () else unfit reason)"

definition hex_field :: "nat \<Rightarrow> pyval \<Rightarrow> string \<Rightarrow> relay_error + string" where
  "hex_field n value field =
     (case value of
        PStr s \<Rightarrow> if is_hex_string n s then Inr (lower s) else unfit (field @ ''_invalid'')
      | _ \<Rightarrow> unfit (field @ ''_invalid''))"

definition watch_address :: "pyval \<Rightarrow> string \<Rightarrow> relay_error + string" where
  "watch_address value field = hex_field 40 value field"

definition watch_hash :: "pyval \<Rightarrow> string \<Rightarrow> relay_error + string" where
  "watch_hash value field = hex_field 64 value field"

definition watch_bytes :: "pyval \<Rightarrow> string \<Rightarrow> bool \<Rightarrow> relay_error + bytes" where
  "watch_bytes value field allow_empty =
     (case value of
        PStr s \<Rightarrow>
          if \<not> starts_0x s \<or> \<not> list_all is_hex_char (drop 2 s) \<or> odd (length (drop 2 s))
          then unfit (field @ ''_invalid'')
          else case from_hex (drop 2 s) of
            None \<Rightarrow> unfit (field @ ''_invalid'')
          | Some raw \<Rightarrow>
              if \<not> allow_empty \<and> raw = [] then unfit (field @ ''_missing'') else Inr raw
      | _ \<Rightarrow> unfit (field @ ''_invalid''))"

text \<open>\<open>0x(?:0|[1-9a-fA-F][0-9a-fA-F]*)\<close>.\<close>

definition is_quantity :: "string \<Rightarrow> bool" where
  "is_quantity s \<longleftrightarrow>
     starts_0x s \<and> 2 < length s \<and> list_all is_hex_char (drop 2 s) \<and>
     (s ! 2 = CHR ''0'' \<longrightarrow> length s = 3)"

definition watch_quantity :: "pyval \<Rightarrow> string \<Rightarrow> relay_error + int" where
  "watch_quantity value field =
     (case value of
        PStr s \<Rightarrow>
          if is_quantity s then Inr (hex_value (drop 2 s)) else unfit (field @ ''_invalid'')
      | _ \<Rightarrow> unfit (field @ ''_invalid''))"

section \<open>Words\<close>

definition word_of :: "bytes \<Rightarrow> string \<Rightarrow> relay_error + bytes" where
  "word_of value field = (if length value \<noteq> 32 then unfit (field @ ''_invalid'') else Inr value)"

definition word_uint :: "bytes \<Rightarrow> string \<Rightarrow> relay_error + int" where
  "word_uint value field = and_then (word_of value field) (\<lambda>w. Inr (from_bytes_big w))"

definition word_bytes32 :: "bytes \<Rightarrow> string \<Rightarrow> relay_error + string" where
  "word_bytes32 value field = and_then (word_of value field) (\<lambda>w. Inr (''0x'' @ to_hex w))"

definition word_address :: "bytes \<Rightarrow> string \<Rightarrow> relay_error + string" where
  "word_address value field =
     and_then (word_of value field) (\<lambda>w.
       if take 12 w \<noteq> replicate 12 0 then unfit (field @ ''_invalid'')
       else Inr (''0x'' @ to_hex (drop 12 w)))"

definition same_hash :: "pyval \<Rightarrow> pyval \<Rightarrow> string \<Rightarrow> relay_error + bool" where
  "same_hash left right field =
     and_then (watch_hash left field) (\<lambda>l. and_then (watch_hash right field) (\<lambda>r. Inr (l = r)))"

text \<open>\<open>body[32 * k : 32 * (k + 1)]\<close>.\<close>

definition slice32 :: "bytes \<Rightarrow> nat \<Rightarrow> bytes" where
  "slice32 body k = take 32 (drop (32 * k) body)"

section \<open>The call of a transaction\<close>

text \<open>
  \<open>_decode_execute_input\<close>: ten static words, the offset of the signature, its length, its 65
  bytes and zero padding, and nothing else.
\<close>

definition decode_words :: "bytes \<Rightarrow> relay_error + pydict" where
  "decode_words body =
     and_then (word_bytes32 (slice32 body 0) ''capability_hash'') (\<lambda>capability.
     and_then (word_bytes32 (slice32 body 1) ''reservation_hash'') (\<lambda>reservation.
     and_then (word_address (slice32 body 2) ''owner'') (\<lambda>own.
     and_then (word_address (slice32 body 3) ''payee'') (\<lambda>pay.
     and_then (word_address (slice32 body 4) ''token'') (\<lambda>tok.
     and_then (word_uint (slice32 body 5) ''amount'') (\<lambda>amount.
     and_then (word_uint (slice32 body 6) ''nonce'') (\<lambda>nonce.
     and_then (word_uint (slice32 body 7) ''deadline'') (\<lambda>dl.
     and_then (word_uint (slice32 body 8) ''signer_epoch'') (\<lambda>epoch.
     and_then (word_address (slice32 body 9) ''relayer'') (\<lambda>rel.
       Inr [(''capability_hash'', PStr capability), (''reservation_hash'', PStr reservation),
            (''owner'', PStr own), (''payee'', PStr pay), (''token'', PStr tok),
            (''amount'', PInt amount), (''nonce'', PInt nonce), (''deadline'', PInt dl),
            (''signer_epoch'', PInt epoch), (''relayer'', PStr rel)]))))))))))"

definition decode_execute_input :: "evm_lib \<Rightarrow> pyval \<Rightarrow> relay_error + pydict" where
  "decode_execute_input lib value =
     and_then (watch_bytes value ''transaction_input'' False) (\<lambda>raw.
     and_then (require_evidence (4 \<le> length raw \<and> take 4 raw = EXECUTE_SELECTOR lib)
       ''transaction_selector_mismatch'') (\<lambda>_.
     let body = drop 4 raw in
     and_then (require_evidence (length body = 480) ''transaction_input_shape_invalid'') (\<lambda>_.
     and_then (word_uint (slice32 body 10) ''signature_offset'') (\<lambda>offset.
     and_then (require_evidence (offset = 352) ''transaction_input_shape_invalid'') (\<lambda>_.
     and_then (word_uint (slice32 body 11) ''signature_length'') (\<lambda>signature_length.
     and_then (require_evidence (signature_length = 65) ''transaction_signature_invalid'') (\<lambda>_.
     and_then (require_evidence (list_all (\<lambda>b. b = 0) (drop (384 + nat signature_length) body))
       ''transaction_signature_padding_invalid'') (\<lambda>_.
       decode_words body))))))))"

text \<open>\<open>_match_execution\<close>, on the fields the execution should have.\<close>

definition expected_fields :: "'a intent_columns_scheme \<Rightarrow> relay_error + pydict" where
  "expected_fields e =
     and_then (watch_hash (PStr (capability_hash e)) ''capability_hash'') (\<lambda>capability.
     and_then (watch_hash (PStr (reservation_hash e)) ''reservation_hash'') (\<lambda>reservation.
     and_then (watch_address (PStr (owner e)) ''owner'') (\<lambda>own.
     and_then (watch_address (PStr (payee e)) ''payee'') (\<lambda>pay.
     and_then (watch_address (PStr (token e)) ''token'') (\<lambda>tok.
     and_then (watch_address (PStr (relayer_address e)) ''relayer_address'') (\<lambda>rel.
       Inr [(''capability_hash'', PStr capability), (''reservation_hash'', PStr reservation),
            (''owner'', PStr own), (''payee'', PStr pay), (''token'', PStr tok),
            (''amount'', PInt (int (read_nat (amount_atomic e)))), (''nonce'', PInt (owner_nonce e)),
            (''deadline'', PInt (deadline e)), (''signer_epoch'', PInt (signer_epoch e)),
            (''relayer'', PStr rel)]))))))"

definition field_matches :: "pyval \<Rightarrow> pyval \<Rightarrow> bool" where
  "field_matches actual expected =
     (case (expected, actual) of
        (PStr x, PStr a) \<Rightarrow> lower a = lower x
      | _ \<Rightarrow> py_eq actual expected)"

definition match_execution :: "pydict \<Rightarrow> 'a intent_columns_scheme \<Rightarrow> relay_error + unit" where
  "match_execution decoded e =
     and_then (expected_fields e) (\<lambda>expected.
       require_evidence (list_all (\<lambda>(field, value). field_matches (dget decoded field) value) expected)
         ''transaction_scope_mismatch'')"

section \<open>The events of a payment\<close>

definition PAYMENT_EVENT_TOPIC :: string where
  "PAYMENT_EVENT_TOPIC = ''0x068133bf9486e7726dcaa3b2b03cb0dd7af09dbbf7f53efcc181881a885059fd''"

definition TRANSFER_EVENT_TOPIC :: string where
  "TRANSFER_EVENT_TOPIC = ''0xddf252ad1be2c89b69c2b068fc378daa952ba7f163c4a11628f55a4df523b3ef''"

text \<open>A comparison that refuses before it looks further.\<close>

definition address_agrees :: "string \<Rightarrow> string \<Rightarrow> string \<Rightarrow> string \<Rightarrow> relay_error + unit" where
  "address_agrees actual address field reason =
     and_then (watch_address (PStr address) field) (\<lambda>a. require_evidence (actual = a) reason)"

text \<open>The data of \<open>PaymentExecuted\<close>: eight words, the sixth the signer.\<close>

definition payment_data_agrees :: "bytes \<Rightarrow> 'a intent_columns_scheme \<Rightarrow> relay_error + unit" where
  "payment_data_agrees data e =
     and_then (require_evidence (length data = 256) ''payment_event_data_invalid'') (\<lambda>_.
     and_then (word_address (slice32 data 0) ''event_payee'') (\<lambda>pay.
     and_then (word_address (slice32 data 1) ''event_token'') (\<lambda>tok.
     and_then (word_uint (slice32 data 2) ''event_amount'') (\<lambda>amount.
     and_then (word_uint (slice32 data 3) ''event_nonce'') (\<lambda>nonce.
     and_then (word_uint (slice32 data 4) ''event_deadline'') (\<lambda>dl.
     and_then (word_address (slice32 data 5) ''event_signer'') (\<lambda>signer.
     and_then (word_uint (slice32 data 6) ''event_signer_epoch'') (\<lambda>epoch.
     and_then (word_address (slice32 data 7) ''event_relayer'') (\<lambda>rel.
     and_then (require_evidence (signer \<noteq> ''0x'' @ replicate 40 CHR ''0'')
       ''payment_event_signer_invalid'') (\<lambda>_.
     and_then (address_agrees pay (payee e) ''payee'' ''payment_event_scope_mismatch'') (\<lambda>_.
     and_then (address_agrees tok (token e) ''token'' ''payment_event_scope_mismatch'') (\<lambda>_.
     and_then (require_evidence (amount = int (read_nat (amount_atomic e)) \<and> nonce = owner_nonce e
         \<and> dl = deadline e \<and> epoch = signer_epoch e) ''payment_event_scope_mismatch'') (\<lambda>_.
       address_agrees rel (relayer_address e) ''relayer_address'' ''payment_event_scope_mismatch'')))))))))))))"

text \<open>Its indexed fields after the topic, then the data.\<close>

definition payment_scope_agrees ::
  "pyval \<Rightarrow> pyval \<Rightarrow> pyval \<Rightarrow> pyval \<Rightarrow> 'a intent_columns_scheme \<Rightarrow> relay_error + unit" where
  "payment_scope_agrees t1 t2 t3 data_value e =
     and_then (same_hash t1 (PStr (capability_hash e)) ''capability_hash'') (\<lambda>same_capability.
     and_then (require_evidence same_capability ''payment_event_scope_mismatch'') (\<lambda>_.
     and_then (same_hash t2 (PStr (reservation_hash e)) ''reservation_hash'') (\<lambda>same_reservation.
     and_then (require_evidence same_reservation ''payment_event_scope_mismatch'') (\<lambda>_.
     and_then (watch_bytes t3 ''owner_topic'' False) (\<lambda>owner_topic.
     and_then (word_address owner_topic ''owner_topic'') (\<lambda>own.
     and_then (address_agrees own (owner e) ''owner'' ''payment_event_scope_mismatch'') (\<lambda>_.
     and_then (watch_bytes data_value ''payment_event_data'' True) (\<lambda>data.
       payment_data_agrees data e))))))))"

definition decode_payment_event :: "pydict \<Rightarrow> 'a intent_columns_scheme \<Rightarrow> relay_error + bool" where
  "decode_payment_event entry e =
     and_then (watch_address (dget entry ''address'') ''event_address'') (\<lambda>address.
     and_then (watch_address (PStr (executor e)) ''executor'') (\<lambda>ex.
     if address \<noteq> ex then Inr False
     else case dget entry ''topics'' of
       PList [t0, t1, t2, t3] \<Rightarrow>
         and_then (same_hash t0 (PStr PAYMENT_EVENT_TOPIC) ''event_topic'') (\<lambda>known.
         if \<not> known then Inr False
         else
           and_then (payment_scope_agrees t1 t2 t3 (dget entry ''data'') e) (\<lambda>_. Inr True))
     | _ \<Rightarrow> unfit ''payment_event_topics_invalid''))"

definition decode_transfer_event :: "pydict \<Rightarrow> 'a intent_columns_scheme \<Rightarrow> relay_error + bool" where
  "decode_transfer_event entry e =
     and_then (watch_address (dget entry ''address'') ''transfer_event_address'') (\<lambda>address.
     and_then (watch_address (PStr (token e)) ''token'') (\<lambda>tok.
     if address \<noteq> tok then Inr False
     else case dget entry ''topics'' of
       PList [t0, t1, t2] \<Rightarrow>
         and_then (same_hash t0 (PStr TRANSFER_EVENT_TOPIC) ''transfer_event_topic'') (\<lambda>known.
         if \<not> known then Inr False
         else
           and_then (watch_bytes t1 ''transfer_from_topic'' False) (\<lambda>from_topic.
           and_then (word_address from_topic ''transfer_from_topic'') (\<lambda>sender.
           and_then (watch_bytes t2 ''transfer_to_topic'' False) (\<lambda>to_topic.
           and_then (word_address to_topic ''transfer_to_topic'') (\<lambda>recipient.
           and_then (watch_bytes (dget entry ''data'') ''transfer_event_data'' True) (\<lambda>data.
           and_then (require_evidence (length data = 32) ''transfer_event_data_invalid'') (\<lambda>_.
           and_then (word_uint data ''transfer_event_amount'') (\<lambda>amount.
           and_then (address_agrees sender (owner e) ''owner'' ''transfer_event_scope_mismatch'') (\<lambda>_.
           and_then (address_agrees recipient (payee e) ''payee'' ''transfer_event_scope_mismatch'') (\<lambda>_.
           and_then (require_evidence (amount = int (read_nat (amount_atomic e)))
             ''transfer_event_scope_mismatch'') (\<lambda>_. Inr True)))))))))))
     | _ \<Rightarrow> unfit ''transfer_event_topics_invalid''))"

end
