(* ===== verification/Hosted_Watcher.thy ===== *)
theory Hosted_Watcher
  imports Watcher_Evidence
begin

text \<open>
  \<open>HostedChainWatcher\<close> (\<open>apps/facilitator/watcher.py\<close>) and \<open>WatcherWorker\<close>
  (\<open>apps/facilitator/watcher_worker.py\<close>) as computations of \<open>Relay_World\<close>: the chain is read
  through the inspection client, and the repository is called under its own clock. An exception
  of \<open>_observe\<close> is an \<open>EvidenceError\<close>; its handler turns it into an observation.
\<close>

section \<open>Configuration\<close>

record chain_watcher =
  wt_executor :: string
  wt_executor_code_hash :: "string option"
  wt_watcher_version :: string
  wt_confirmation_depth :: int
  wt_chain :: string
  wt_chain_id :: int
  wt_token :: string
  wt_finality_boundary :: string

text \<open>\<open>HostedChainWatcher.__init__\<close>; \<open>WatcherConfigurationError\<close> is a \<open>ValueError\<close>.\<close>

definition make_watcher ::
  "string \<Rightarrow> string option \<Rightarrow> string \<Rightarrow> int \<Rightarrow> string \<Rightarrow> string \<Rightarrow> string \<Rightarrow> int
     \<Rightarrow> relay_error + chain_watcher" where
  "make_watcher executor_address code_hash version depth chain_name token_address boundary chain_number =
     and_then (require_value (is_hex_string 40 executor_address) ''executor address is invalid'') (\<lambda>_.
     and_then (require_value (lower executor_address \<noteq> ''0x'' @ replicate 40 CHR ''0'')
       ''executor address is invalid'') (\<lambda>_.
     and_then (require_value (case code_hash of None \<Rightarrow> True | Some h \<Rightarrow> is_hex_string 64 h)
       ''executor code hash is invalid'') (\<lambda>_.
     and_then (require_value (watcher_version_ok version) ''watcher version is invalid'') (\<lambda>_.
     and_then (lift_opt (RelayValueError ''chain profile is not supported'')
       (hosted_chain_profile chain_name)) (\<lambda>profile.
     and_then (require_value (chain_number = profile_chain_id profile)
       ''chain ID does not match chain profile'') (\<lambda>_.
     and_then (require_value (lower token_address = profile_token profile)
       ''token does not match chain profile'') (\<lambda>_.
     and_then (require_value (boundary = finality_boundary_of profile)
       ''finality boundary does not match chain profile'') (\<lambda>_.
     and_then (require_value (min_confirmation_depth profile \<le> depth)
       ''confirmation depth cannot be weakened'') (\<lambda>_.
       Inr \<lparr>wt_executor = lower executor_address, wt_executor_code_hash = map_option lower code_hash,
            wt_watcher_version = version, wt_confirmation_depth = depth,
            wt_chain = profile_chain profile, wt_chain_id = profile_chain_id profile,
            wt_token = profile_token profile, wt_finality_boundary = boundary\<rparr>)))))))))"

section \<open>Observation\<close>

text \<open>
  \<open>_Observation\<close>: with \<open>valid\<close> its evidence, otherwise the reason and whether it speaks for a
  reorganisation, every other field then at its default.
\<close>

record chain_evidence =
  ev_receipt_status :: int
  ev_receipt_block_number :: int
  ev_receipt_block_hash :: string
  ev_confirmations :: int
  ev_safe_block_number :: int
  ev_safe_block_hash :: string
  ev_capability_used :: bool
  ev_owner_nonce_used :: bool
  ev_payment_event_found :: bool
  ev_transfer_event_found :: bool
  ev_boundary_timestamp :: int

datatype watch_observation = Observed chain_evidence | Unobserved string bool

definition reorganised :: "string \<Rightarrow> relay_error + 'a" where
  "reorganised reason = Inl (EvidenceError reason True)"

text \<open>\<open>_rpc_call\<close>.\<close>

definition rpc_call :: "string \<Rightarrow> pyval list \<Rightarrow> pyval relay" where
  "rpc_call m params = bind (inspection_call m params) (\<lambda>reply.
     case reply of RpcValue v \<Rightarrow> ret v | _ \<Rightarrow> lift_result id (unfit ''rpc_unavailable''))"

text \<open>The stored scope: the transaction hash and the relayer, in the watcher's own configuration.\<close>

definition observed_scope :: "chain_watcher \<Rightarrow> hosted_execution_row \<Rightarrow> relay_error + (string \<times> string)" where
  "observed_scope wt e =
     (case raw_transaction_hash e of
        None \<Rightarrow> unfit ''transaction_hash_missing''
      | Some stored_hash \<Rightarrow>
          and_then (require_evidence (chain e = wt_chain wt) ''chain_scope_mismatch'') (\<lambda>_.
          and_then (require_evidence (finality_boundary e \<in> {None, Some (wt_finality_boundary wt)})
            ''finality_boundary_mismatch'') (\<lambda>_.
          and_then (watch_address (PStr (token e)) ''token'') (\<lambda>tok.
          and_then (require_evidence (tok = wt_token wt) ''token_scope_mismatch'') (\<lambda>_.
          and_then (watch_hash (PStr stored_hash) ''transaction_hash'') (\<lambda>tx_hash.
          and_then (watch_address (PStr (executor e)) ''executor'') (\<lambda>ex.
          and_then (require_evidence (ex = wt_executor wt) ''executor_scope_mismatch'') (\<lambda>_.
          and_then (watch_address (PStr (relayer_address e)) ''relayer_address'') (\<lambda>rel.
            Inr (tx_hash, rel))))))))))"

text \<open>The transaction itself: its hash, its parties, its kind and its call.\<close>

definition transaction_agrees ::
  "evm_lib \<Rightarrow> chain_watcher \<Rightarrow> hosted_execution_row \<Rightarrow> string \<Rightarrow> string \<Rightarrow> pydict \<Rightarrow> pydict
     \<Rightarrow> relay_error + unit" where
  "transaction_agrees lib wt e tx_hash rel transaction receipt =
     and_then (watch_hash (dget transaction ''hash'') ''transaction_hash'') (\<lambda>h.
     and_then (require_evidence (h = tx_hash) ''transaction_hash_mismatch'') (\<lambda>_.
     and_then (watch_hash (dget receipt ''transactionHash'') ''receipt_transaction_hash'') (\<lambda>rh.
     and_then (require_evidence (rh = tx_hash) ''receipt_transaction_hash_mismatch'') (\<lambda>_.
     and_then (watch_address (dget transaction ''to'') ''transaction_to'') (\<lambda>tx_to.
     and_then (require_evidence (tx_to = wt_executor wt) ''transaction_destination_mismatch'') (\<lambda>_.
     and_then (watch_address (dget transaction ''from'') ''transaction_from'') (\<lambda>tx_from.
     and_then (require_evidence (tx_from = rel) ''transaction_sender_mismatch'') (\<lambda>_.
     and_then (watch_quantity (dget transaction ''nonce'') ''transaction_nonce'') (\<lambda>nonce.
     and_then (require_evidence (nonce = relayer_nonce e) ''transaction_nonce_mismatch'') (\<lambda>_.
     and_then (watch_quantity (dget transaction ''value'') ''transaction_value'') (\<lambda>value.
     and_then (require_evidence (value = 0) ''transaction_value_mismatch'') (\<lambda>_.
     and_then (watch_quantity (dget transaction ''type'') ''transaction_type'') (\<lambda>kind.
     and_then (require_evidence (kind = 2) ''transaction_type_mismatch'') (\<lambda>_.
     and_then (watch_quantity (dget transaction ''chainId'') ''transaction_chain_id'') (\<lambda>c.
     and_then (require_evidence (c = wt_chain_id wt) ''transaction_chain_id_mismatch'') (\<lambda>_.
     and_then (decode_execute_input lib (dget transaction ''input'')) (\<lambda>decoded.
       match_execution decoded e)))))))))))))))))"

text \<open>Where the receipt says the transaction is, and its status.\<close>

definition receipt_place ::
  "bool \<Rightarrow> pydict \<Rightarrow> pydict \<Rightarrow> relay_error + (int \<times> string \<times> int)" where
  "receipt_place detect_reorg transaction receipt =
     and_then (watch_quantity (dget receipt ''blockNumber'') ''receipt_block_number'') (\<lambda>number.
     and_then (watch_hash (dget receipt ''blockHash'') ''receipt_block_hash'') (\<lambda>block_hash.
     and_then (watch_quantity (dget receipt ''status'') ''receipt_status'') (\<lambda>st.
     and_then (require_evidence (st \<in> {0, 1}) ''receipt_status_invalid'') (\<lambda>_.
     and_then (watch_quantity (dget transaction ''blockNumber'') ''transaction_block_number'') (\<lambda>tx_number.
     and_then (watch_hash (dget transaction ''blockHash'') ''transaction_block_hash'') (\<lambda>tx_block.
     if tx_number \<noteq> number \<or> tx_block \<noteq> block_hash
     then if detect_reorg then reorganised ''canonical_block_changed'' else unfit ''block_evidence_mismatch''
     else Inr (number, block_hash, st)))))))"

text \<open>\<open>_check_block\<close>, with the mismatch that a finalized execution reports as a reorganisation.\<close>

definition check_block :: "bool \<Rightarrow> pyval \<Rightarrow> int \<Rightarrow> string \<Rightarrow> relay_error + unit" where
  "check_block detect_reorg block expected_number expected_hash =
     (case block of
        PDict b \<Rightarrow>
          and_then (watch_quantity (dget b ''number'') ''receipt_block_number'') (\<lambda>number.
          and_then (watch_hash (dget b ''hash'') ''receipt_block_hash'') (\<lambda>block_hash.
          if number \<noteq> expected_number \<or> block_hash \<noteq> expected_hash
          then if detect_reorg then reorganised ''canonical_block_changed''
               else unfit ''canonical_block_mismatch''
          else Inr ()))
      | _ \<Rightarrow> unfit ''receipt_block_unavailable'')"

text \<open>The boundary block: its number, hash and timestamp.\<close>

definition boundary_block :: "pyval \<Rightarrow> relay_error + (int \<times> string \<times> int)" where
  "boundary_block block =
     (case block of
        PDict b \<Rightarrow>
          and_then (watch_quantity (dget b ''number'') ''safe_block_number'') (\<lambda>number.
          and_then (watch_hash (dget b ''hash'') ''safe_block_hash'') (\<lambda>block_hash.
          and_then (watch_quantity (dget b ''timestamp'') ''finality_boundary_timestamp'') (\<lambda>ts.
            Inr (number, block_hash, ts))))
      | _ \<Rightarrow> unfit ''safe_block_unavailable'')"

text \<open>Depth under the boundary, and what a finalized execution is compared with.\<close>

definition depth_agrees ::
  "chain_watcher \<Rightarrow> bool \<Rightarrow> hosted_execution_row \<Rightarrow> int \<times> string \<times> int \<Rightarrow> int \<Rightarrow> relay_error + unit" where
  "depth_agrees wt detect_reorg e place safe_number =
     (let (number, block_hash, st) = place in
      and_then (require_evidence (number \<le> safe_number \<and> wt_confirmation_depth wt \<le> safe_number - number)
        ''confirmation_depth_insufficient'') (\<lambda>_.
      if \<not> detect_reorg then Inr ()
      else if st \<noteq> 1 then reorganised ''receipt_status_changed''
      else case receipt_block_hash e of
        None \<Rightarrow> Inr ()
      | Some previous \<Rightarrow>
          and_then (watch_hash (PStr previous) ''stored_receipt_block_hash'') (\<lambda>h.
            if block_hash \<noteq> h then reorganised ''canonical_block_changed'' else Inr ())))"

definition decode_bool :: "pyval \<Rightarrow> string \<Rightarrow> relay_error + bool" where
  "decode_bool value field =
     and_then (watch_bytes value field True) (\<lambda>raw.
     and_then (require_evidence (length raw = 32 \<and> from_bytes_big raw \<in> {0, 1}) (field @ ''_invalid''))
       (\<lambda>_. Inr (from_bytes_big raw = 1)))"

definition code_at :: "string \<Rightarrow> string \<Rightarrow> string \<Rightarrow> bytes relay" where
  "code_at address boundary field =
     bind (rpc_call ''eth_getCode'' [PStr address, PStr boundary]) (\<lambda>v.
     bind (lift_result id (watch_bytes v field True)) (\<lambda>code.
     bind (lift_result id (require_evidence (code \<noteq> []) (field @ ''_missing''))) (\<lambda>_. ret code)))"

definition require_codes :: "chain_watcher \<Rightarrow> string \<Rightarrow> unit relay" where
  "require_codes wt boundary =
     bind library (\<lambda>lib.
     bind (code_at (wt_executor wt) boundary ''executor_code'') (\<lambda>code.
     bind (lift_result id (require_evidence
       (wt_executor_code_hash wt \<in> {None, Some (''0x'' @ to_hex (keccak lib code))})
       ''executor_code_mismatch'')) (\<lambda>_.
     bind (code_at (wt_token wt) boundary ''token_code'') (\<lambda>_. ret ()))))"

definition USED_CAPABILITY_SELECTOR :: "evm_lib \<Rightarrow> bytes" where
  "USED_CAPABILITY_SELECTOR lib = take 4 (keccak lib (text_bytes ''usedCapabilityHashes(bytes32)''))"

definition USED_NONCE_SELECTOR :: "evm_lib \<Rightarrow> bytes" where
  "USED_NONCE_SELECTOR lib = take 4 (keccak lib (text_bytes ''usedNonces(address,uint256)''))"

definition abi_address_word :: "pyval \<Rightarrow> string \<Rightarrow> relay_error + string" where
  "abi_address_word value field =
     and_then (watch_address value field) (\<lambda>a. Inr (replicate 24 CHR ''0'' @ drop 2 a))"

text \<open>\<open>f"{n:064x}"\<close>.\<close>

definition hex64 :: "int \<Rightarrow> string" where
  "hex64 n = replicate (64 - length (hex_digits n)) CHR ''0'' @ hex_digits n"

definition executor_flag :: "chain_watcher \<Rightarrow> string \<Rightarrow> string \<Rightarrow> string \<Rightarrow> bool relay" where
  "executor_flag wt boundary data field =
     bind (rpc_call ''eth_call''
       [PDict [(''to'', PStr (wt_executor wt)), (''data'', PStr data)], PStr boundary]) (\<lambda>v.
     lift_result id (decode_bool v field))"

definition used_flags :: "chain_watcher \<Rightarrow> string \<Rightarrow> hosted_execution_row \<Rightarrow> (bool \<times> bool) relay" where
  "used_flags wt boundary e =
     bind library (\<lambda>lib.
     bind (lift_result id (watch_hash (PStr (capability_hash e)) ''capability_hash'')) (\<lambda>h.
     bind (executor_flag wt boundary (''0x'' @ to_hex (USED_CAPABILITY_SELECTOR lib) @ drop 2 h)
       ''used_capability'') (\<lambda>used.
     bind (lift_result id (abi_address_word (PStr (owner e)) ''owner'')) (\<lambda>own.
     bind (executor_flag wt boundary
       (''0x'' @ to_hex (USED_NONCE_SELECTOR lib) @ own @ hex64 (owner_nonce e)) ''used_owner_nonce'')
       (\<lambda>nonce_used. ret (used, nonce_used))))))"

text \<open>The logs with a topic that a contract emitted; a malformed address is another contract's.\<close>

definition is_log_of :: "string \<Rightarrow> string \<Rightarrow> pyval \<Rightarrow> bool" where
  "is_log_of topic contract entry =
     (case entry of
        PDict d \<Rightarrow>
          (case dget d ''topics'' of
             PList (PStr t # _) \<Rightarrow>
               lower t = topic \<and> watch_address (dget d ''address'') ''event_address'' = Inr contract
           | _ \<Rightarrow> False)
      | _ \<Rightarrow> False)"

fun single_event ::
  "(pydict \<Rightarrow> hosted_execution_row \<Rightarrow> relay_error + bool) \<Rightarrow> hosted_execution_row \<Rightarrow> string
     \<Rightarrow> pyval list \<Rightarrow> relay_error + bool" where
  "single_event decode e reason (PDict d # logs) =
     and_then (decode d e) (\<lambda>found. if found then Inr True else unfit reason)"
| "single_event decode e reason logs = Inr False"

definition payment_events ::
  "chain_watcher \<Rightarrow> hosted_execution_row \<Rightarrow> pydict \<Rightarrow> relay_error + (bool \<times> bool)" where
  "payment_events wt e receipt =
     (case dget receipt ''logs'' of
        PList logs \<Rightarrow>
          and_then (require_evidence (list_all (\<lambda>l. case l of PDict _ \<Rightarrow> True | _ \<Rightarrow> False) logs)
            ''receipt_log_invalid'') (\<lambda>_.
          let payments = filter (is_log_of PAYMENT_EVENT_TOPIC (wt_executor wt)) logs;
              transfers = filter (is_log_of TRANSFER_EVENT_TOPIC (wt_token wt)) logs in
          and_then (require_evidence (length payments \<le> 1) ''payment_event_ambiguous'') (\<lambda>_.
          and_then (require_evidence (length transfers \<le> 1) ''transfer_event_ambiguous'') (\<lambda>_.
          and_then (single_event decode_payment_event e ''payment_event_invalid'' payments) (\<lambda>paid.
          and_then (single_event decode_transfer_event e ''transfer_event_invalid'' transfers) (\<lambda>moved.
            Inr (paid, moved))))))
      | _ \<Rightarrow> unfit ''receipt_logs_invalid'')"

text \<open>A receipt that succeeded shows the whole payment, one that failed none of it.\<close>

definition verdict :: "int \<Rightarrow> bool \<Rightarrow> bool \<Rightarrow> bool \<Rightarrow> bool \<Rightarrow> relay_error + unit" where
  "verdict st paid moved used nonce_used =
     (if st = 1
      then require_evidence (paid \<and> moved \<and> used \<and> nonce_used) ''accepted_transfer_unverified''
      else require_evidence (\<not> (paid \<or> moved \<or> used \<or> nonce_used)) ''failed_receipt_transfer_ambiguous'')"

definition require_chain_id :: "chain_watcher \<Rightarrow> unit relay" where
  "require_chain_id wt =
     bind (rpc_call ''eth_chainId'' []) (\<lambda>v.
     bind (lift_result id (watch_quantity v ''chain_id'')) (\<lambda>c.
       lift_result id (require_evidence (c = wt_chain_id wt) ''chain_id_mismatch'')))"

text \<open>The evidence of a transaction and a receipt that belong to the execution.\<close>

definition gather_evidence ::
  "chain_watcher \<Rightarrow> bool \<Rightarrow> hosted_execution_row \<Rightarrow> pydict \<Rightarrow> pydict \<Rightarrow> chain_evidence relay" where
  "gather_evidence wt detect_reorg e transaction receipt =
     bind (lift_result id (receipt_place detect_reorg transaction receipt)) (\<lambda>place.
     let (number, block_hash, st) = place in
     bind (rpc_call ''eth_getBlockByNumber'' [PStr (py_hex number), PBool False]) (\<lambda>receipt_block.
     bind (rpc_call ''eth_getBlockByNumber'' [PStr (wt_finality_boundary wt), PBool False]) (\<lambda>safe_block.
     bind (lift_result id (check_block detect_reorg receipt_block number block_hash)) (\<lambda>_.
     bind (lift_result id (boundary_block safe_block)) (\<lambda>(safe_number, safe_hash, ts).
     bind (lift_result id (depth_agrees wt detect_reorg e place safe_number)) (\<lambda>_.
     bind (require_codes wt (py_hex safe_number)) (\<lambda>_.
     bind (used_flags wt (py_hex safe_number) e) (\<lambda>(used, nonce_used).
     bind (lift_result id (payment_events wt e receipt)) (\<lambda>(paid, moved).
     bind (lift_result id (verdict st paid moved used nonce_used)) (\<lambda>_.
       ret \<lparr>ev_receipt_status = st, ev_receipt_block_number = number, ev_receipt_block_hash = block_hash,
            ev_confirmations = safe_number - number, ev_safe_block_number = safe_number,
            ev_safe_block_hash = safe_hash, ev_capability_used = used, ev_owner_nonce_used = nonce_used,
            ev_payment_event_found = paid, ev_transfer_event_found = moved,
            ev_boundary_timestamp = ts\<rparr>))))))))))"

definition chain_evidence_of :: "chain_watcher \<Rightarrow> bool \<Rightarrow> hosted_execution_row \<Rightarrow> chain_evidence relay" where
  "chain_evidence_of wt detect_reorg e =
     bind (lift_result id (observed_scope wt e)) (\<lambda>(tx_hash, rel).
     bind (require_chain_id wt) (\<lambda>_.
     bind (rpc_call ''eth_getTransactionByHash'' [PStr tx_hash]) (\<lambda>tx.
     bind (rpc_call ''eth_getTransactionReceipt'' [PStr tx_hash]) (\<lambda>rc.
     case (tx, rc) of
       (PDict transaction, PDict receipt) \<Rightarrow>
         bind library (\<lambda>lib.
         bind (lift_result id (transaction_agrees lib wt e tx_hash rel transaction receipt)) (\<lambda>_.
           gather_evidence wt detect_reorg e transaction receipt))
     | _ \<Rightarrow> lift_result id (unfit ''evidence_unavailable'')))))"

definition observe :: "chain_watcher \<Rightarrow> bool \<Rightarrow> hosted_execution_row \<Rightarrow> watch_observation relay" where
  "observe wt detect_reorg e =
     recover (bind (chain_evidence_of wt detect_reorg e) (\<lambda>ev. ret (Observed ev)))
       (\<lambda>error. case error of
          EvidenceError reason reorg \<Rightarrow> ret (Unobserved reason reorg)
        | _ \<Rightarrow> ret (Unobserved ''evidence_unavailable'' False))"

section \<open>Reports\<close>

record watch_result =
  wr_execution_id :: string
  wr_status :: execution_state
  wr_action :: string
  wr_reason :: string
  wr_boundary :: "string option"

definition observation_report :: "chain_watcher \<Rightarrow> int \<Rightarrow> chain_evidence \<Rightarrow> observation" where
  "observation_report wt st ev =
     \<lparr>obs_receipt_status = st, obs_block_number = ev_receipt_block_number ev,
      obs_block_hash = ev_receipt_block_hash ev, obs_confirmations = ev_confirmations ev,
      obs_safe_block_number = ev_safe_block_number ev, obs_safe_block_hash = ev_safe_block_hash ev,
      obs_watcher_version = wt_watcher_version wt, obs_finality_boundary = wt_finality_boundary wt\<rparr>"

text \<open>\<open>_evidence\<close> and \<open>_release_evidence\<close>; the accepted transfer is the transfer event.\<close>

definition evidence_of :: "chain_watcher \<Rightarrow> chain_evidence \<Rightarrow> pyval" where
  "evidence_of wt ev =
     PDict [(''accepted_transfer'', PBool (ev_transfer_event_found ev)),
       (''boundary'', PStr (wt_finality_boundary wt)),
       (''finality_boundary'', PStr (wt_finality_boundary wt)),
       (''confirmations'', PInt (ev_confirmations ev)),
       (''receipt_block_number'', PInt (ev_receipt_block_number ev)),
       (''safe_block_number'', PInt (ev_safe_block_number ev)),
       (''watcher_version'', PStr (wt_watcher_version wt)),
       (''capability_used'', PBool (ev_capability_used ev)),
       (''owner_nonce_used'', PBool (ev_owner_nonce_used ev)),
       (''payment_event_found'', PBool (ev_payment_event_found ev)),
       (''transfer_event_found'', PBool (ev_transfer_event_found ev)),
       (''finality_boundary_timestamp'', PInt (ev_boundary_timestamp ev))]"

definition release_evidence_for :: "chain_evidence \<Rightarrow> pyval" where
  "release_evidence_for ev =
     PDict [(''receipt_status'', PInt 0), (''canonical_receipt'', PBool True),
       (''finality_boundary_timestamp'', PInt (ev_boundary_timestamp ev)),
       (''capability_used'', PBool False), (''owner_nonce_used'', PBool False),
       (''payment_event_found'', PBool False), (''transfer_event_found'', PBool False)]"

text \<open>A repository call under the repository's own clock.\<close>

definition clocked ::
  "(repo_config \<Rightarrow> int \<Rightarrow> repo \<Rightarrow> repo \<times> (exec_error + 'a)) \<Rightarrow> 'a relay" where
  "clocked f = bind repo_clock (\<lambda>now. repo_op (\<lambda>cfg. f cfg now))"

section \<open>Watching one execution\<close>

definition confirm_observed :: "chain_watcher \<Rightarrow> string \<Rightarrow> chain_evidence \<Rightarrow> watch_result relay" where
  "confirm_observed wt eid ev =
     (let verified = wt_finality_boundary wt @ ''_evidence_verified'';
          boundary = Some (wt_finality_boundary wt) in
      bind (clocked (\<lambda>cfg. confirm cfg eid (observation_report wt 1 ev) (Some (evidence_of wt ev))))
      (\<lambda>confirmed.
      if status confirmed = CONFIRMED then
        recover
          (bind (clocked (\<lambda>cfg. finalize cfg eid (wt_finality_boundary wt))) (\<lambda>finalized.
            ret \<lparr>wr_execution_id = eid, wr_status = status finalized, wr_action = ''finalized'',
                 wr_reason = verified, wr_boundary = boundary\<rparr>))
          (\<lambda>_. ret \<lparr>wr_execution_id = eid, wr_status = CONFIRMED, wr_action = ''confirmed'',
                    wr_reason = verified, wr_boundary = boundary\<rparr>)
      else ret \<lparr>wr_execution_id = eid, wr_status = status confirmed, wr_action = ''confirmed'',
                wr_reason = verified, wr_boundary = boundary\<rparr>))"

definition revert_observed :: "chain_watcher \<Rightarrow> string \<Rightarrow> chain_evidence \<Rightarrow> watch_result relay" where
  "revert_observed wt eid ev =
     bind (clocked (\<lambda>cfg. revert cfg eid (observation_report wt 0 ev) False (Some (evidence_of wt ev))))
     (\<lambda>reverted. ret \<lparr>wr_execution_id = eid, wr_status = status reverted, wr_action = ''reverted'',
        wr_reason = wt_finality_boundary wt @ ''_revert_evidence_verified'',
        wr_boundary = Some (wt_finality_boundary wt)\<rparr>)"

definition unchanged_result :: "string \<Rightarrow> execution_state \<Rightarrow> string \<Rightarrow> string option \<Rightarrow> watch_result" where
  "unchanged_result eid st reason boundary =
     \<lparr>wr_execution_id = eid, wr_status = st, wr_action = ''unchanged'', wr_reason = reason,
      wr_boundary = boundary\<rparr>"

definition watch_submitted :: "chain_watcher \<Rightarrow> hosted_execution_row \<Rightarrow> string \<Rightarrow> watch_result relay" where
  "watch_submitted wt e eid =
     bind (observe wt False e) (\<lambda>seen.
     case seen of
       Unobserved reason reorg \<Rightarrow> ret (unchanged_result eid (status e) reason None)
     | Observed ev \<Rightarrow>
         recover (if ev_receipt_status ev = 1 then confirm_observed wt eid ev else revert_observed wt eid ev)
           (\<lambda>_. ret (unchanged_result eid (status e) ''repository_rejected'' None)))"

definition watch_reverted :: "chain_watcher \<Rightarrow> hosted_execution_row \<Rightarrow> watch_result relay" where
  "watch_reverted wt e =
     (let eid = execution_id e; boundary = Some (wt_finality_boundary wt);
          keep = (\<lambda>reason. ret (unchanged_result eid REVERTED reason boundary)) in
      bind (observe wt False e) (\<lambda>seen.
      case seen of
        Unobserved reason reorg \<Rightarrow> keep reason
      | Observed ev \<Rightarrow>
          if ev_receipt_status ev \<noteq> 0 then keep ''receipt_status_changed''
          else if ev_boundary_timestamp ev < deadline e then keep ''authorization_replay_window''
          else recover
            (bind (clocked (\<lambda>cfg. release_reverted cfg eid (observation_report wt 0 ev)
                (release_evidence_for ev))) (\<lambda>released.
              ret \<lparr>wr_execution_id = eid, wr_status = status released, wr_action = ''released'',
                   wr_reason = ''safe_revert_release'', wr_boundary = boundary\<rparr>))
            (\<lambda>_. keep ''repository_rejected'')))"

text \<open>\<open>observation.receipt_block_hash or "unknown"\<close>.\<close>

definition observed_block_hash :: "watch_observation \<Rightarrow> string" where
  "observed_block_hash seen =
     (case seen of
        Observed ev \<Rightarrow> (if ev_receipt_block_hash ev = '''' then ''unknown'' else ev_receipt_block_hash ev)
      | Unobserved _ _ \<Rightarrow> ''unknown'')"

definition stored_block_hash :: "hosted_execution_row \<Rightarrow> string" where
  "stored_block_hash e =
     (case receipt_block_hash e of None \<Rightarrow> ''unknown'' | Some h \<Rightarrow> if h = '''' then ''unknown'' else h)"

definition reorg_evidence_for ::
  "chain_watcher \<Rightarrow> hosted_execution_row \<Rightarrow> watch_observation \<Rightarrow> string \<Rightarrow> pyval" where
  "reorg_evidence_for wt e seen reason =
     PDict [(''canonical'', PBool False), (''observed_block_hash'', PStr (observed_block_hash seen)),
       (''previous_block_hash'', PStr (stored_block_hash e)), (''reason'', PStr reason),
       (''watcher_version'', PStr (wt_watcher_version wt))]"

definition watch_finalized :: "chain_watcher \<Rightarrow> hosted_execution_row \<Rightarrow> watch_result relay" where
  "watch_finalized wt e =
     (let eid = execution_id e; boundary = Some (wt_finality_boundary wt);
          keep = (\<lambda>reason. ret (unchanged_result eid FINALIZED reason boundary)) in
      bind (observe wt True e) (\<lambda>seen.
      case seen of
        Observed ev \<Rightarrow> keep ''canonical_evidence_verified''
      | Unobserved reason reorg \<Rightarrow>
          if reorg then
            recover
              (bind (clocked (\<lambda>cfg. mark_reorg_review eid (reorg_evidence_for wt e seen reason)))
              (\<lambda>reviewed. ret \<lparr>wr_execution_id = eid, wr_status = status reviewed,
                 wr_action = ''reorg_review'', wr_reason = reason, wr_boundary = boundary\<rparr>))
              (\<lambda>_. keep ''repository_rejected'')
          else keep reason))"

definition watch_unsigned :: "string \<Rightarrow> execution_state \<Rightarrow> watch_result relay" where
  "watch_unsigned eid st =
     recover
       (bind (clocked (\<lambda>cfg. release_expired cfg eid)) (\<lambda>released.
         ret \<lparr>wr_execution_id = eid, wr_status = status released, wr_action = ''released'',
              wr_reason = ''deadline_expired'', wr_boundary = None\<rparr>))
       (\<lambda>error. case error of
          RepositoryError (ExecutionConflict m) \<Rightarrow> ret (unchanged_result eid st ''authorization_active'' None)
        | _ \<Rightarrow> fail error)"

definition watch :: "chain_watcher \<Rightarrow> string \<Rightarrow> watch_result relay" where
  "watch wt eid =
     bind (repo_read (\<lambda>_. get_execution eid)) (\<lambda>found.
     case found of
       None \<Rightarrow> fail WatcherNotFound
     | Some e \<Rightarrow>
         if status e = FINALIZED then watch_finalized wt e
         else if status e = REVERTED then watch_reverted wt e
         else if status e \<in> {PREFLIGHT_APPROVED, SIGNING} then watch_unsigned eid (status e)
         else if status e \<notin> {SUBMITTED, SUBMISSION_UNKNOWN, SUBMISSION_REJECTED, CONFIRMED}
         then ret (unchanged_result eid (status e) ''state_not_watchable'' None)
         else watch_submitted wt e eid)"

section \<open>The worker\<close>

text \<open>\<open>_stop_event.is_set()\<close>: the event is set from outside, at some moment.\<close>

definition stop_requested :: "(nat \<Rightarrow> bool) \<Rightarrow> bool relay" where
  "stop_requested stops = ask (\<lambda>env t. stops t)"

definition attempt_recorded :: "string \<Rightarrow> bool relay" where
  "attempt_recorded eid =
     recover (bind (clocked (\<lambda>cfg. record_watcher_attempt eid)) (\<lambda>_. ret True)) (\<lambda>_. ret False)"

definition watch_item :: "chain_watcher \<Rightarrow> string \<Rightarrow> watch_result option relay" where
  "watch_item wt eid = recover (bind (watch wt eid) (\<lambda>r. ret (Some r))) (\<lambda>_. ret None)"

text \<open>The loop of \<open>run_once\<close>: the results in order, and the cursor.\<close>

fun watch_batch ::
  "chain_watcher \<Rightarrow> (nat \<Rightarrow> bool) \<Rightarrow> string list \<Rightarrow> string option
     \<Rightarrow> (watch_result list \<times> string option) relay" where
  "watch_batch wt stops [] cursor = ret ([], cursor)"
| "watch_batch wt stops (eid # ids) cursor =
     bind (stop_requested stops) (\<lambda>stop.
     if stop then ret ([], cursor)
     else if eid = '''' then watch_batch wt stops ids cursor
     else
       bind (attempt_recorded eid) (\<lambda>recorded.
       if \<not> recorded then watch_batch wt stops ids cursor
       else
         bind (watch_item wt eid) (\<lambda>r.
         bind (watch_batch wt stops ids (Some eid)) (\<lambda>(results, last).
           ret (case r of None \<Rightarrow> results | Some x \<Rightarrow> x # results, last)))))"

text \<open>\<open>run_once\<close> of a worker for the watcher's chain.\<close>

definition run_once ::
  "chain_watcher \<Rightarrow> int \<Rightarrow> (nat \<Rightarrow> bool) \<Rightarrow> string option
     \<Rightarrow> (watch_result list \<times> string option) relay" where
  "run_once wt batch_size stops cursor =
     bind (stop_requested stops) (\<lambda>stop.
     if stop then ret ([], cursor)
     else
       bind (repo_read (\<lambda>_. list_watchable_ids (wt_chain wt) None batch_size)) (\<lambda>ids.
       if ids = [] then ret ([], None) else watch_batch wt stops ids cursor))"

text \<open>\<open>run_forever\<close>, for at most \<open>n\<close> rounds: whether the loop has returned. Sleeping is one question.\<close>

fun run_rounds ::
  "nat \<Rightarrow> chain_watcher \<Rightarrow> int \<Rightarrow> (nat \<Rightarrow> bool) \<Rightarrow> string option \<Rightarrow> bool relay" where
  "run_rounds 0 wt batch_size stops cursor = ret False"
| "run_rounds (Suc n) wt batch_size stops cursor =
     bind (stop_requested stops) (\<lambda>stop.
     if stop then ret True
     else
       bind (run_once wt batch_size stops cursor) (\<lambda>(results, cursor').
       bind (stop_requested stops) (\<lambda>stop'.
       bind (if stop' then ret () else ask (\<lambda>env t. ())) (\<lambda>_.
         run_rounds n wt batch_size stops cursor'))))"

end
