(* ===== verification/Watcher_Calldata.thy ===== *)
theory Watcher_Calldata
  imports Hosted_Watcher
begin

text \<open>
  The calldata of an execution as the relayer encodes it and as the watcher decodes it. The ABI
  encoder is a third-party package; \<open>standard_abi\<close> states the documented layout of the one shape
  the program uses, a tuple of static words followed by a dynamic byte string.
\<close>

section \<open>Hexadecimal text\<close>

lemma lower_to_hex [simp]: "lower (to_hex b) = to_hex b"
proof -
  have "lower_char c = c" if "is_lower_hex_char c" for c using that is_lower_hex_char_hex by blast
  then show ?thesis using to_hex_lower [of b] by (auto simp: lower_def list_all_iff intro: map_idI)
qed

lemma lower_0x [simp]: "lower (CHR ''0'' # CHR ''x'' # s) = CHR ''0'' # CHR ''x'' # lower s"
proof -
  have "lower_char CHR ''0'' = CHR ''0''" "lower_char CHR ''x'' = CHR ''x''" by code_simp+
  then show ?thesis by (simp add: lower_def)
qed

lemma hex_digit_of_value: "is_hex_char c \<Longrightarrow> hex_digit_char (hex_digit_value c) = lower_char c"
proof -
  assume c: "is_hex_char c"
  have num: "(of_char x :: int) = int (ord x)" for x by (simp only: of_nat_of_char)
  have ord: "ord (lower_char c) = (if is_upper_char c then ord c + 32 else ord c)"
    using c by (auto simp: lower_char_def is_upper_char_def)
  have "(if hex_digit_value c < 10 then 48 + hex_digit_value c else 87 + hex_digit_value c)
      = int (ord (lower_char c))"
    using c unfolding hex_digit_value_def num ord
    by (auto simp: is_hex_char_def is_digit_char_def is_upper_char_def)
  then show ?thesis by (simp only: hex_digit_char_def num [symmetric] char_of_char)
qed

lemma hex_char_value: "is_hex_char c \<Longrightarrow> 0 \<le> hex_digit_value c \<and> hex_digit_value c < 16"
proof -
  assume c: "is_hex_char c"
  have num: "(of_char x :: int) = int (ord x)" for x by (simp only: of_nat_of_char)
  have ord: "ord (lower_char c) = (if is_upper_char c then ord c + 32 else ord c)"
    using c by (auto simp: lower_char_def is_upper_char_def)
  show ?thesis
    using c unfolding hex_digit_value_def num ord
    by (auto simp: is_hex_char_def is_digit_char_def is_upper_char_def)
qed

lemma from_hex_chars:
  assumes "list_all is_hex_char s" "even (length s)"
  shows "\<exists>b. from_hex s = Some b \<and> to_hex b = lower s \<and> length s = 2 * length b"
  using assms
proof (induction s rule: from_hex.induct)
  case (3 c d cs)
  let ?n = "16 * hex_digit_value c + hex_digit_value d"
  have hexv: "0 \<le> hex_digit_value x \<and> hex_digit_value x < 16" if "is_hex_char x" for x
    using hex_char_value [OF that] .
  have c: "is_hex_char c" "is_hex_char d" "\<not> is_space_char c" using "3.prems" hex_not_space by auto
  then obtain b where b: "from_hex cs = Some b" "to_hex b = lower cs" "length cs = 2 * length b"
    using 3 by auto
  have "uint (word_of_int ?n :: 8 word) = ?n"
    unfolding uint_word_of_int using hexv [OF c(1)] hexv [OF c(2)] by simp
  moreover have "?n div 16 = hex_digit_value c" "?n mod 16 = hex_digit_value d"
    using hexv [OF c(2)] by simp_all
  ultimately have "byte_hex (word_of_int ?n) = [lower_char c, lower_char d]"
    using c by (simp add: byte_hex_def hex_digit_of_value)
  with b c show ?case by (simp add: to_hex_def lower_def)
qed (auto simp: to_hex_def lower_def)

section \<open>Words\<close>

lemma from_bytes_big_inj:
  "length xs = length ys \<Longrightarrow> from_bytes_big xs = from_bytes_big ys \<Longrightarrow> xs = ys"
proof (induction xs arbitrary: ys rule: rev_induct)
  case (snoc x xs)
  then obtain zs z where ys: "ys = zs @ [z]" "length zs = length xs" by (cases ys rule: rev_cases) auto
  with snoc.prems have eq: "256 * from_bytes_big xs + uint x = 256 * from_bytes_big zs + uint z"
    by (simp add: from_bytes_big_snoc)
  have small: "uint b mod 256 = uint b" for b :: "8 word" using uint_lt2p [of b] by simp
  have "(256 * from_bytes_big xs + uint x) mod 256 = (256 * from_bytes_big zs + uint z) mod 256"
    using eq by simp
  then have "uint x = uint z" by (simp add: small)
  moreover from this eq have "from_bytes_big xs = from_bytes_big zs" by simp
  ultimately show ?case using snoc.IH [of zs] ys by (simp add: word_uint_eq_iff)
qed simp

lemma from_bytes_big_zeros [simp]: "from_bytes_big (replicate k 0 @ bs) = from_bytes_big bs"
  by (induction k) (simp_all add: from_bytes_big_def)

lemma length_uint_bytes: "n < 256 ^ k \<Longrightarrow> length (uint_bytes n) \<le> k"
proof (induction n arbitrary: k rule: uint_bytes.induct)
  case (1 n)
  show ?case
  proof (cases "n \<le> 0")
    case False
    with "1.prems" obtain j where k: "k = Suc j" by (cases k) auto
    with False "1.prems" have "n div 256 < 256 ^ j" by (simp add: div_less_iff_less_mult mult.commute)
    from "1.IH" [OF False this] k False show ?thesis by (subst uint_bytes.simps) simp
  qed (subst uint_bytes.simps; simp)
qed

lemma length_word_bytes: "0 \<le> n \<Longrightarrow> n \<le> UINT256_MAX \<Longrightarrow> length (word_bytes n) = 32"
  using length_uint_bytes [of n 32] by (simp add: word_bytes_def UINT256_MAX_def)

lemma from_word_bytes [simp]: "0 \<le> n \<Longrightarrow> from_bytes_big (word_bytes n) = n"
  by (simp add: word_bytes_def)

lemma word_bytes_iff:
  assumes "length w = 32" "0 \<le> n" "n \<le> UINT256_MAX"
  shows "from_bytes_big w = n \<longleftrightarrow> w = word_bytes n"
  using assms from_bytes_big_inj [of w "word_bytes n"] length_word_bytes [of n] by auto

section \<open>The documented layout\<close>

fun abi_word :: "abi_value \<Rightarrow> bytes" where
  "abi_word (AbiBytes32 b) = b"
| "abi_word (AbiAddress a) = replicate 12 0 @ address_bytes a"
| "abi_word (AbiUint256 n) = word_bytes n"
| "abi_word _ = []"

text \<open>Static words, the offset of the byte string, its length, its bytes, zeros to a whole word.\<close>

definition call_layout :: "abi_value list \<Rightarrow> bytes \<Rightarrow> bytes" where
  "call_layout vs sig =
     concat (map abi_word vs) @ word_bytes (32 * (int (length vs) + 1)) @ word_bytes (int (length sig))
       @ sig @ replicate (nat (- int (length sig) mod 32)) 0"

definition standard_abi :: "evm_lib \<Rightarrow> bool" where
  "standard_abi lib \<longleftrightarrow>
     (\<forall>vs sig. list_all (\<lambda>v. length (abi_word v) = 32) vs \<longrightarrow>
        abi_encode lib [AbiTuple vs, AbiBytes sig] = call_layout vs sig)"

section \<open>Blocks of 32 bytes\<close>

lemma take_slices: "take (32 * n) body = concat (map (slice32 body) [0..<n])"
proof (induction n)
  case (Suc n)
  have "take (32 * Suc n) body = take (32 * n) body @ slice32 body n"
    by (simp add: slice32_def take_add [symmetric] add.commute)
  with Suc show ?case by simp
qed simp

lemma length_slice: "32 * Suc k \<le> length body \<Longrightarrow> length (slice32 body k) = 32"
  by (simp add: slice32_def)

lemma blocks_equal:
  assumes "32 * length bs \<le> length body" "list_all (\<lambda>b. length b = 32) bs"
  shows "take (32 * length bs) body = concat bs \<longleftrightarrow> (\<forall>k < length bs. slice32 body k = bs ! k)"
proof
  let ?ss = "map (slice32 body) [0..<length bs]"
  assume "take (32 * length bs) body = concat bs"
  then have "concat ?ss = concat bs" by (simp add: take_slices)
  moreover have "\<forall>(x, y) \<in> set (zip ?ss bs). length x = length y"
    using assms by (auto simp: set_zip list_all_length length_slice)
  ultimately have "?ss = bs" by (intro concat_injective) simp_all
  then show "\<forall>k < length bs. slice32 body k = bs ! k"
    by (metis (no_types, lifting) add_0 diff_zero length_upt nth_map nth_upt)
next
  assume "\<forall>k < length bs. slice32 body k = bs ! k"
  then have "map (slice32 body) [0..<length bs] = bs" by (intro nth_equalityI) simp_all
  then show "take (32 * length bs) body = concat bs" by (simp add: take_slices)
qed

section \<open>The fields of an execution\<close>

lemma hex_field_known:
  assumes "hex_field n (PStr s) f = Inr x" "even n"
  obtains b where "from_hex (drop 2 s) = Some b" "x = ''0x'' @ to_hex b" "n = 2 * length b" "is_hex_string n s"
proof -
  have s: "is_hex_string n s" "x = lower s" using assms(1) by (auto simp: hex_field_def unfit_def split: if_splits)
  define t where "t = drop 2 s"
  have t: "s = ''0x'' @ t" "length t = n" "list_all is_hex_char t"
    using s(1) append_take_drop_id [of 2 s] by (simp_all add: is_hex_string_def starts_0x_def t_def)
  obtain b where "from_hex t = Some b" "to_hex b = lower t" "length t = 2 * length b"
    using from_hex_chars [OF t(3)] t(2) assms(2) by auto
  with s t show thesis by (intro that [of b]) (simp_all add: t_def [symmetric])
qed

lemma address_field:
  assumes "is_hex_string 40 s" "evm_address s f = Inr a"
  shows "watch_address (PStr s) g = Inr a" "length (address_bytes a) = 20" "a = ''0x'' @ to_hex (address_bytes a)"
proof -
  have "hex_field 40 (PStr s) g = Inr (lower s)" using assms(1) by (simp add: hex_field_def)
  then obtain b where b: "from_hex (drop 2 s) = Some b" "lower s = ''0x'' @ to_hex b" "40 = 2 * length b"
    by (rule hex_field_known) simp
  have a: "a = ''0x'' @ to_hex b" using assms(2) b(1) by (auto simp: evm_address_def split: if_splits)
  with b assms(1) show "watch_address (PStr s) g = Inr a" by (simp add: watch_address_def hex_field_def)
  show "length (address_bytes a) = 20" "a = ''0x'' @ to_hex (address_bytes a)"
    using a b(3) by (simp_all add: address_bytes_def)
qed

lemma hash_field:
  assumes "is_hex_string 64 s" "evm_bytes32 s f = Inr b"
  shows "watch_hash (PStr s) g = Inr (''0x'' @ to_hex b)" "length b = 32"
proof -
  have "hex_field 64 (PStr s) g = Inr (lower s)" using assms(1) by (simp add: hex_field_def)
  then obtain b' where b': "from_hex (drop 2 s) = Some b'" "lower s = ''0x'' @ to_hex b'"
    by (rule hex_field_known) simp
  have "b' = b" "length b = 32"
    using assms b'(1)
    by (simp_all add: evm_bytes32_def evm_bytes_def is_hex_string_def starts_0x_def result_simps split: if_splits)
  with b' assms(1) show "watch_hash (PStr s) g = Inr (''0x'' @ to_hex b)" "length b = 32"
    by (simp_all add: watch_hash_def hex_field_def)
qed

lemma to_hex_inject [simp]: "to_hex x = to_hex y \<longleftrightarrow> x = y"
  by (metis from_to_hex option.inject)

section \<open>Decoding against an authorization\<close>

lemma evm_uint_range: "evm_uint x f p = Inr y \<Longrightarrow> y = x \<and> 0 \<le> x \<and> x \<le> UINT256_MAX"
  by (auto simp: evm_uint_def split: if_splits)

lemma authorization_fields:
  assumes "make_authorization e n c = Inr a"
  shows "evm_bytes32 (capability_hash e) ''capability_hash'' = Inr (au_capability_hash a)"
    "evm_bytes32 (reservation_hash e) ''reservation_hash'' = Inr (au_reservation_hash a)"
    "evm_address (owner e) ''owner'' = Inr (au_owner a)" "evm_address (payee e) ''payee'' = Inr (au_payee a)"
    "evm_address (relayer_address e) ''relayer'' = Inr (au_relayer a)"
    "evm_address (token e) ''token'' = Inr (au_token a)"
    "au_amount a = n \<and> 0 \<le> n \<and> n \<le> UINT256_MAX"
    "au_nonce a = owner_nonce e \<and> 0 \<le> owner_nonce e \<and> owner_nonce e \<le> UINT256_MAX"
    "au_deadline a = deadline e \<and> 0 \<le> deadline e \<and> deadline e \<le> UINT256_MAX"
    "au_signer_epoch a = signer_epoch e \<and> 0 \<le> signer_epoch e \<and> signer_epoch e \<le> UINT256_MAX"
  using assms unfolding make_authorization_def and_then_eq_Inr
  by (auto simp: and_then_eq_Inr dest: evm_uint_range split: if_splits)

text \<open>The fields of an execution that both sides parse.\<close>

definition well_formed_scope :: "'a intent_columns_scheme \<Rightarrow> bool" where
  "well_formed_scope e \<longleftrightarrow>
     list_all (is_hex_string 40) [owner e, payee e, token e, relayer_address e] \<and>
     list_all (is_hex_string 64) [capability_hash e, reservation_hash e]"

lemma word_bytes32_is: "length w = 32 \<Longrightarrow> word_bytes32 w f = Inr (''0x'' @ to_hex w)"
  by (simp add: word_bytes32_def word_of_def)

lemma word_uint_is: "length w = 32 \<Longrightarrow> word_uint w f = Inr (from_bytes_big w)"
  by (simp add: word_uint_def word_of_def)

lemma word_address_eq:
  "length w = 32 \<Longrightarrow> word_address w f = Inr a \<longleftrightarrow> take 12 w = replicate 12 0 \<and> a = ''0x'' @ to_hex (drop 12 w)"
  by (auto simp: word_address_def word_of_def unfit_def)

lemma address_word_iff:
  assumes "length w = 32" "length b = 20"
  shows "take 12 w = replicate 12 0 \<and> drop 12 w = b \<longleftrightarrow> w = replicate 12 0 @ b"
  by (metis append_eq_conv_conj append_take_drop_id length_replicate)

lemma decode_words_Inr:
  assumes "length body = 480"
  shows "decode_words body = Inr d \<longleftrightarrow>
    (\<forall>k \<in> {2, 3, 4, 9}. take 12 (slice32 body k) = replicate 12 0) \<and>
    d = [(''capability_hash'', PStr (''0x'' @ to_hex (slice32 body 0))),
         (''reservation_hash'', PStr (''0x'' @ to_hex (slice32 body 1))),
         (''owner'', PStr (''0x'' @ to_hex (drop 12 (slice32 body 2)))),
         (''payee'', PStr (''0x'' @ to_hex (drop 12 (slice32 body 3)))),
         (''token'', PStr (''0x'' @ to_hex (drop 12 (slice32 body 4)))),
         (''amount'', PInt (from_bytes_big (slice32 body 5))),
         (''nonce'', PInt (from_bytes_big (slice32 body 6))),
         (''deadline'', PInt (from_bytes_big (slice32 body 7))),
         (''signer_epoch'', PInt (from_bytes_big (slice32 body 8))),
         (''relayer'', PStr (''0x'' @ to_hex (drop 12 (slice32 body 9))))]"
proof -
  have len: "length (slice32 body k) = 32" if "k < 10" for k
    using assms that by (intro length_slice) simp
  show ?thesis
    unfolding decode_words_def and_then_eq_Inr
    by (auto simp: len word_bytes32_is word_uint_is word_address_eq and_then_eq_Inr)
qed

lemma ten_words:
  "(\<forall>k < 10. P k) \<longleftrightarrow> P 0 \<and> P 1 \<and> P 2 \<and> P 3 \<and> P 4 \<and> P 5 \<and> P 6 \<and> P 7 \<and> P 8 \<and> P (9 :: nat)"
  by (simp add: eval_nat_numeral All_less_Suc conj_ac)

text \<open>The static words of a call decode to an execution exactly when they are its own.\<close>

lemma scope_words:
  assumes scope: "well_formed_scope e" and a: "make_authorization e (int (read_nat (amount_atomic e))) c = Inr a"
    and len: "length body = 480"
  shows "(\<exists>d. decode_words body = Inr d \<and> match_execution d e = Inr ()) \<longleftrightarrow>
    (\<forall>k < 10. slice32 body k = map abi_word (execution_values a) ! k)"
proof -
  note f = authorization_fields [OF a]
  have s: "is_hex_string 40 (owner e)" "is_hex_string 40 (payee e)" "is_hex_string 40 (token e)"
      "is_hex_string 40 (relayer_address e)" "is_hex_string 64 (capability_hash e)"
      "is_hex_string 64 (reservation_hash e)"
    using scope by (simp_all add: well_formed_scope_def)
  note own = address_field [OF s(1) f(3)] and pay = address_field [OF s(2) f(4)]
    and tok = address_field [OF s(3) f(6)] and rel = address_field [OF s(4) f(5)]
    and cap = hash_field [OF s(5) f(1)] and res = hash_field [OF s(6) f(2)]
  have L: "length (slice32 body k) = 32" if "k < 10" for k
    using len that by (intro length_slice) simp
  have expected: "expected_fields e = Inr
      [(''capability_hash'', PStr (''0x'' @ to_hex (au_capability_hash a))),
       (''reservation_hash'', PStr (''0x'' @ to_hex (au_reservation_hash a))),
       (''owner'', PStr (''0x'' @ to_hex (address_bytes (au_owner a)))),
       (''payee'', PStr (''0x'' @ to_hex (address_bytes (au_payee a)))),
       (''token'', PStr (''0x'' @ to_hex (address_bytes (au_token a)))),
       (''amount'', PInt (au_amount a)), (''nonce'', PInt (au_nonce a)), (''deadline'', PInt (au_deadline a)), (''signer_epoch'', PInt (au_signer_epoch a)),
       (''relayer'', PStr (''0x'' @ to_hex (address_bytes (au_relayer a))))]"
    using own pay tok rel cap(1) res(1) f(7-10) by (simp only: expected_fields_def and_then_Inr)
  have ints: "from_bytes_big (slice32 body 5) = au_amount a \<longleftrightarrow> slice32 body 5 = word_bytes (au_amount a)"
    "from_bytes_big (slice32 body 6) = au_nonce a \<longleftrightarrow> slice32 body 6 = word_bytes (au_nonce a)"
    "from_bytes_big (slice32 body 7) = au_deadline a \<longleftrightarrow> slice32 body 7 = word_bytes (au_deadline a)"
    "from_bytes_big (slice32 body 8) = au_signer_epoch a \<longleftrightarrow> slice32 body 8 = word_bytes (au_signer_epoch a)"
    using f(7-10) by (intro word_bytes_iff L; simp)+
  have match: "match_execution
      [(''capability_hash'', PStr (''0x'' @ to_hex w0)), (''reservation_hash'', PStr (''0x'' @ to_hex w1)),
       (''owner'', PStr (''0x'' @ to_hex w2)), (''payee'', PStr (''0x'' @ to_hex w3)),
       (''token'', PStr (''0x'' @ to_hex w4)), (''amount'', PInt w5), (''nonce'', PInt w6),
       (''deadline'', PInt w7), (''signer_epoch'', PInt w8), (''relayer'', PStr (''0x'' @ to_hex w9))] e = Inr () \<longleftrightarrow>
      w0 = au_capability_hash a \<and> w1 = au_reservation_hash a \<and> w2 = address_bytes (au_owner a) \<and>
      w3 = address_bytes (au_payee a) \<and> w4 = address_bytes (au_token a) \<and> w5 = au_amount a \<and>
      w6 = au_nonce a \<and> w7 = au_deadline a \<and> w8 = au_signer_epoch a \<and> w9 = address_bytes (au_relayer a)"
    for w0 w1 w2 w3 w4 w5 w6 w7 w8 w9
    unfolding match_execution_def expected and_then_Inr
    by (simp add: require_evidence_def unfit_def dget_def field_matches_def)
  have L': "length (slice32 body 2) = 32" "length (slice32 body 3) = 32" "length (slice32 body 4) = 32"
    "length (slice32 body 9) = 32" by (simp_all add: L)
  note addresses = address_word_iff [OF L'(1) own(2)] address_word_iff [OF L'(2) pay(2)]
    address_word_iff [OF L'(3) tok(2)] address_word_iff [OF L'(4) rel(2)]
  have vals: "map abi_word (execution_values a) =
      [au_capability_hash a, au_reservation_hash a, replicate 12 0 @ address_bytes (au_owner a),
       replicate 12 0 @ address_bytes (au_payee a), replicate 12 0 @ address_bytes (au_token a),
       word_bytes (au_amount a), word_bytes (au_nonce a), word_bytes (au_deadline a),
       word_bytes (au_signer_epoch a), replicate 12 0 @ address_bytes (au_relayer a)]"
    by (simp add: execution_values_def)
  have ex: "(\<exists>d. (Z \<and> d = D) \<and> M d) \<longleftrightarrow> Z \<and> M D" for Z D and M :: "pydict \<Rightarrow> bool" by blast
  have nth: "\<And>x y l. (x # y # l) ! 1 = y" "\<And>x l. (x # l) ! 0 = x" "\<And>x l. (x # l) ! numeral n = l ! pred_numeral n"
    for n by simp_all
  have zeros: "(\<forall>k \<in> {2, 3, 4, 9 :: nat}. Q k) \<longleftrightarrow> Q 2 \<and> Q 3 \<and> Q 4 \<and> Q 9" for Q by simp
  show ?thesis
    unfolding ten_words decode_words_Inr [OF len] ex match vals ints zeros nth
    by (simp only: nth pred_numeral_simps BitM.simps Num.numeral_One addresses [symmetric]) blast
qed

section \<open>The calldata a watcher accepts\<close>

text \<open>The watcher's test of a transaction's input against an execution.\<close>

definition accepts_input :: "evm_lib \<Rightarrow> 'a intent_columns_scheme \<Rightarrow> pyval \<Rightarrow> bool" where
  "accepts_input lib e input \<longleftrightarrow>
     and_then (decode_execute_input lib input) (\<lambda>decoded. match_execution decoded e) = Inr ()"

lemma watch_bytes_hex:
  "watch_bytes (PStr (''0x'' @ to_hex b)) f False = (if b = [] then unfit (f @ ''_missing'') else Inr b)"
proof -
  have "list_all is_hex_char (to_hex b)"
    using to_hex_lower [of b] is_lower_hex_char_hex by (auto simp: list_all_iff)
  then show ?thesis by (simp add: watch_bytes_def starts_0x_def)
qed

lemma length_execution_words:
  assumes "well_formed_scope e" "make_authorization e (int (read_nat (amount_atomic e))) c = Inr a"
  shows "list_all (\<lambda>v. length (abi_word v) = 32) (execution_values a)"
proof -
  note f = authorization_fields [OF assms(2)]
  from assms(1) have s: "is_hex_string 40 (owner e)" "is_hex_string 40 (payee e)" "is_hex_string 40 (token e)"
      "is_hex_string 40 (relayer_address e)" "is_hex_string 64 (capability_hash e)"
      "is_hex_string 64 (reservation_hash e)" by (simp_all add: well_formed_scope_def)
  show ?thesis
    using address_field(2) [OF s(1) f(3)] address_field(2) [OF s(2) f(4)] address_field(2) [OF s(3) f(6)]
      address_field(2) [OF s(4) f(5)] hash_field(2) [OF s(5) f(1)] hash_field(2) [OF s(6) f(2)] f(7-10)
    by (simp add: execution_values_def length_word_bytes)
qed

lemma drop_slices: "drop (32 * k) body = slice32 body k @ drop (32 * Suc k) body"
  using append_take_drop_id [of 32 "drop (32 * k) body"] by (simp add: slice32_def add.commute)

text \<open>The body of a call: the ten words, the offset and length of the signature, and its padding.\<close>

lemma call_body_iff:
  assumes "list_all (\<lambda>v. length (abi_word v) = 32) vs" "length vs = 10"
  shows "(length body = 480 \<and> (\<forall>k < 10. slice32 body k = map abi_word vs ! k) \<and>
      slice32 body 10 = word_bytes 352 \<and> slice32 body 11 = word_bytes 65 \<and>
      list_all (\<lambda>b. b = 0) (drop 449 body)) \<longleftrightarrow>
    (\<exists>sig. length sig = 65 \<and> body = call_layout vs sig)"
proof -
  let ?ws = "map abi_word vs"
  have ws: "list_all (\<lambda>b. length b = 32) ?ws" "length ?ws = 10"
    using assms by (simp_all add: list_all_length)
  have lw: "length (word_bytes 352) = 32" "length (word_bytes 65) = 32"
    by (simp_all add: length_word_bytes UINT256_MAX_def)
  have lc: "length (concat ?ws) = 320"
  proof -
    have "length (concat bs) = 32 * length bs" if "list_all (\<lambda>b. length b = 32) bs" for bs :: "bytes list"
      using that by (induction bs) auto
    from this [OF ws(1)] ws(2) show ?thesis by simp
  qed
  have layout: "call_layout vs sig = concat ?ws @ word_bytes 352 @ word_bytes 65 @ sig @ replicate 31 0"
    if "length sig = 65" for sig
    using that assms(2) by (simp add: call_layout_def)
  show ?thesis
  proof
    assume A: "length body = 480 \<and> (\<forall>k < 10. slice32 body k = ?ws ! k) \<and>
      slice32 body 10 = word_bytes 352 \<and> slice32 body 11 = word_bytes 65 \<and> list_all (\<lambda>b. b = 0) (drop 449 body)"
    define sig where "sig = take 65 (drop 384 body)"
    have sig: "length sig = 65" using A by (simp add: sig_def)
    have "take 320 body = concat ?ws"
      using blocks_equal [OF _ ws(1), of body] A ws(2) by simp
    moreover have "drop 320 body = word_bytes 352 @ drop 352 body" "drop 352 body = word_bytes 65 @ drop 384 body"
      using drop_slices [of 10 body] drop_slices [of 11 body] A by simp_all
    moreover have "drop 384 body = sig @ drop 449 body"
      using append_take_drop_id [of 65 "drop 384 body"] by (simp add: sig_def)
    moreover have "drop 449 body = replicate 31 0"
      using A by (intro replicate_eqI) (auto simp: list_all_iff)
    ultimately have "body = call_layout vs sig"
      using append_take_drop_id [of 320 body] by (simp add: layout [OF sig])
    with sig show "\<exists>sig. length sig = 65 \<and> body = call_layout vs sig" by blast
  next
    assume "\<exists>sig. length sig = 65 \<and> body = call_layout vs sig"
    then obtain sig where sig: "length sig = 65" and body: "body = call_layout vs sig" by blast
    note body = body [unfolded layout [OF sig]]
    have len: "length body = 480" using sig lc lw by (simp add: body)
    have "take 320 body = concat ?ws" using lc by (simp add: body)
    then have "\<forall>k < 10. slice32 body k = ?ws ! k"
      using blocks_equal [OF _ ws(1), of body] ws(2) len by simp
    moreover have "slice32 body 10 = word_bytes 352" "slice32 body 11 = word_bytes 65"
      "drop 449 body = replicate 31 0"
      using lc lw sig by (simp_all add: body slice32_def)
    ultimately show "length body = 480 \<and> (\<forall>k < 10. slice32 body k = ?ws ! k) \<and>
      slice32 body 10 = word_bytes 352 \<and> slice32 body 11 = word_bytes 65 \<and> list_all (\<lambda>b. b = 0) (drop 449 body)"
      using len by (simp add: list_all_iff)
  qed
qed

text \<open>What the decoder accepts, on the bytes of an input.\<close>

lemma accepts_input_bytes:
  assumes scope: "well_formed_scope e" and a: "make_authorization e (int (read_nat (amount_atomic e))) c = Inr a"
    and selector: "length (EXECUTE_SELECTOR lib) = 4"
  shows "accepts_input lib e (PStr (''0x'' @ to_hex b)) \<longleftrightarrow>
    (\<exists>sig. length sig = 65 \<and> b = EXECUTE_SELECTOR lib @ call_layout (execution_values a) sig)"
proof -
  let ?body = "drop 4 b"
  have words: "length (slice32 ?body 10) = 32" "length (slice32 ?body 11) = 32" if "length ?body = 480"
    using that by (simp_all add: slice32_def)
  have n: "word_uint w f = Inr 352 \<longleftrightarrow> w = word_bytes 352" "word_uint w f = Inr 65 \<longleftrightarrow> w = word_bytes 65"
    if "length w = 32" for w f
    using that word_bytes_iff [of w 352] word_bytes_iff [of w 65] by (simp_all add: word_uint_is UINT256_MAX_def)
  have "accepts_input lib e (PStr (''0x'' @ to_hex b)) \<longleftrightarrow>
      b \<noteq> [] \<and> 4 \<le> length b \<and> take 4 b = EXECUTE_SELECTOR lib \<and> length ?body = 480 \<and>
      word_uint (slice32 ?body 10) ''signature_offset'' = Inr 352 \<and>
      word_uint (slice32 ?body 11) ''signature_length'' = Inr 65 \<and>
      list_all (\<lambda>b. b = 0) (drop 449 ?body) \<and>
      (\<exists>d. decode_words ?body = Inr d \<and> match_execution d e = Inr ())"
    unfolding accepts_input_def decode_execute_input_def watch_bytes_hex Let_def
    by (auto simp: and_then_eq_Inr require_evidence_def unfit_def split: if_splits)
  also have "\<dots> \<longleftrightarrow> 4 \<le> length b \<and> take 4 b = EXECUTE_SELECTOR lib \<and> length ?body = 480 \<and>
      (\<forall>k < 10. slice32 ?body k = map abi_word (execution_values a) ! k) \<and>
      slice32 ?body 10 = word_bytes 352 \<and> slice32 ?body 11 = word_bytes 65 \<and>
      list_all (\<lambda>b. b = 0) (drop 449 ?body)"
    using words n scope_words [OF scope a, of ?body] by auto
  also have "\<dots> \<longleftrightarrow> take 4 b = EXECUTE_SELECTOR lib \<and>
      (\<exists>sig. length sig = 65 \<and> ?body = call_layout (execution_values a) sig)"
    using call_body_iff [OF length_execution_words [OF scope a], of ?body]
    by (auto simp: execution_values_def)
  also have "\<dots> \<longleftrightarrow> (\<exists>sig. length sig = 65 \<and> b = EXECUTE_SELECTOR lib @ call_layout (execution_values a) sig)"
    by (metis selector append_eq_conv_conj append_take_drop_id)
  finally show ?thesis .
qed

lemma validated_scope: "validate_intent i0 = Some i \<Longrightarrow> well_formed_scope i"
  by (auto simp: validate_intent_def Let_def well_formed_scope_def intent_fields_ok_def lower_intent_def
      is_hex_string_lower split: if_splits)

lemma calldata_eq:
  assumes "standard_abi lib" "well_formed_scope e"
    "make_authorization e (int (read_nat (amount_atomic e))) c = Inr a"
    "encode_execute_calldata lib a sig = Inr b"
  shows "b = EXECUTE_SELECTOR lib @ call_layout (execution_values a) sig" "length sig = 65"
  using assms(1,4) length_execution_words [OF assms(2,3)]
  by (auto simp: standard_abi_def encode_execute_calldata_def and_then_eq_Inr normalise_signature_def
      split: if_splits)

end
