(* ===== verification/Watcher_Safety.thy ===== *)
theory Watcher_Safety
  imports Watcher_Calldata Relayer_Requests
begin

text \<open>
  What an observation proves. \<open>settlement\<close> is the abstract contract: the provider answered with
  a transaction and a receipt that belong to the execution, deep enough under the boundary
  block, and the receipt shows the whole payment or, when it failed, nothing of it. \<open>yields\<close> of
  \<open>Relayer_Requests\<close> carries the facts through the computation.
\<close>

section \<open>Answers\<close>

text \<open>The provider's answer to a request, at some moment.\<close>

definition answered :: "relay_env \<Rightarrow> string \<Rightarrow> pyval list \<Rightarrow> pyval \<Rightarrow> bool" where
  "answered env m ps v \<longleftrightarrow> (\<exists>t. env_inspect env t m ps = RpcValue v)"

lemma yields_rpc: "yields env (rpc_call m ps) (answered env m ps)"
  by (auto simp: yields_def rpc_call_def inspection_call_def bind_def ask_def ret_def lift_result_def
      unfit_def fail_def answered_def split: rpc_reply.splits)

lemma yields_lift: "yields env (lift_result id r) (\<lambda>x. r = Inr x)"
  by (rule yields_checked)

text \<open>A value that is the hexadecimal form of some bytes.\<close>

definition hex_of_bytes :: "pyval \<Rightarrow> bytes \<Rightarrow> bool" where
  "hex_of_bytes v b \<longleftrightarrow> (\<exists>s. v = PStr s \<and> starts_0x s \<and> from_hex (drop 2 s) = Some b)"

lemma watch_bytes_Inr: "watch_bytes v f c = Inr b \<Longrightarrow> hex_of_bytes v b"
  by (auto simp: watch_bytes_def hex_of_bytes_def unfit_def split: pyval.splits if_splits option.splits)

lemma require_evidence_Inr [simp]: "require_evidence c r = Inr u \<longleftrightarrow> c"
  by (simp add: require_evidence_def unfit_def)

lemma unfit_Inr [simp]: "unfit r \<noteq> Inr x"
  by (simp add: unfit_def)

section \<open>The events of a payment\<close>

lemma address_agrees_word:
  assumes "word_address w f = Inr a" "address_agrees a s g r = Inr u"
  shows "w = abi_word (AbiAddress s)"
proof -
  have w: "length w = 32" "take 12 w = replicate 12 0" "a = ''0x'' @ to_hex (drop 12 w)"
    using assms(1) by (auto simp: word_address_def word_of_def and_then_eq_Inr split: if_splits)
  have "hex_field 40 (PStr s) g = Inr a"
    using assms(2) by (auto simp: address_agrees_def watch_address_def and_then_eq_Inr)
  then obtain b where "from_hex (drop 2 s) = Some b" "a = ''0x'' @ to_hex b" by (rule hex_field_known) simp
  then have "drop 12 w = address_bytes s" using w(3) by (simp add: address_bytes_def)
  with w(2) append_take_drop_id [of 12 w] show ?thesis by simp
qed

text \<open>The transfer of the token that a payment makes.\<close>

definition transfer_log :: "'a intent_columns_scheme \<Rightarrow> pyval \<Rightarrow> bool" where
  "transfer_log e entry \<longleftrightarrow>
     (\<exists>d t0 t1 t2 data. entry = PDict d \<and> dget d ''topics'' = PList [t0, t1, t2] \<and>
        hex_of_bytes t1 (abi_word (AbiAddress (owner e))) \<and>
        hex_of_bytes t2 (abi_word (AbiAddress (payee e))) \<and>
        hex_of_bytes (dget d ''data'') data \<and> length data = 32 \<and>
        from_bytes_big data = int (read_nat (amount_atomic e)))"

text \<open>The Executor's event: the scope in the topics, and the terms in the data.\<close>

definition payment_log :: "'a intent_columns_scheme \<Rightarrow> pyval \<Rightarrow> bool" where
  "payment_log e entry \<longleftrightarrow>
     (\<exists>d t0 t1 t2 t3 data. entry = PDict d \<and> dget d ''topics'' = PList [t0, t1, t2, t3] \<and>
        same_hash t1 (PStr (capability_hash e)) ''capability_hash'' = Inr True \<and>
        same_hash t2 (PStr (reservation_hash e)) ''reservation_hash'' = Inr True \<and>
        hex_of_bytes t3 (abi_word (AbiAddress (owner e))) \<and>
        hex_of_bytes (dget d ''data'') data \<and> length data = 256 \<and>
        slice32 data 0 = abi_word (AbiAddress (payee e)) \<and>
        slice32 data 1 = abi_word (AbiAddress (token e)) \<and>
        map (\<lambda>k. from_bytes_big (slice32 data k)) [2, 3, 4, 6] =
          [int (read_nat (amount_atomic e)), owner_nonce e, deadline e, signer_epoch e] \<and>
        slice32 data 7 = abi_word (AbiAddress (relayer_address e)))"

lemma decode_transfer_log:
  assumes "decode_transfer_event d e = Inr True"
  shows "transfer_log e (PDict d)"
proof -
  from assms obtain t0 t1 t2 b1 b2 data sender recipient n u1 u2
    where t: "dget d ''topics'' = PList [t0, t1, t2]"
      and sender: "watch_bytes t1 ''transfer_from_topic'' False = Inr b1"
        "word_address b1 ''transfer_from_topic'' = Inr sender"
        "address_agrees sender (owner e) ''owner'' ''transfer_event_scope_mismatch'' = Inr u1"
      and recipient: "watch_bytes t2 ''transfer_to_topic'' False = Inr b2"
        "word_address b2 ''transfer_to_topic'' = Inr recipient"
        "address_agrees recipient (payee e) ''payee'' ''transfer_event_scope_mismatch'' = Inr u2"
      and data: "watch_bytes (dget d ''data'') ''transfer_event_data'' True = Inr data" "length data = 32"
        "word_uint data ''transfer_event_amount'' = Inr n" "n = int (read_nat (amount_atomic e))"
    unfolding decode_transfer_event_def
    by (auto simp: and_then_eq_Inr split: pyval.splits list.splits if_splits)
  have "from_bytes_big data = n" using data(2,3) by (simp add: word_uint_is)
  with t watch_bytes_Inr [OF sender(1)] watch_bytes_Inr [OF recipient(1)] watch_bytes_Inr [OF data(1)]
    data(2,4) address_agrees_word [OF sender(2,3)] address_agrees_word [OF recipient(2,3)]
  show ?thesis unfolding transfer_log_def by blast
qed

lemma payment_data_words:
  assumes "payment_data_agrees data e = Inr u"
  shows "length data = 256 \<and> slice32 data 0 = abi_word (AbiAddress (payee e)) \<and>
    slice32 data 1 = abi_word (AbiAddress (token e)) \<and>
    map (\<lambda>k. from_bytes_big (slice32 data k)) [2, 3, 4, 6] =
      [int (read_nat (amount_atomic e)), owner_nonce e, deadline e, signer_epoch e] \<and>
    slice32 data 7 = abi_word (AbiAddress (relayer_address e))"
proof -
  from assms obtain p t n2 n3 n4 g n6 r u1 u2 u3 where
      "length data = 256" "word_address (slice32 data 0) ''event_payee'' = Inr p"
      "word_address (slice32 data 1) ''event_token'' = Inr t"
      "word_uint (slice32 data 2) ''event_amount'' = Inr n2" "word_uint (slice32 data 3) ''event_nonce'' = Inr n3"
      "word_uint (slice32 data 4) ''event_deadline'' = Inr n4"
      "word_uint (slice32 data 6) ''event_signer_epoch'' = Inr n6"
      "word_address (slice32 data 7) ''event_relayer'' = Inr r"
      "address_agrees p (payee e) ''payee'' ''payment_event_scope_mismatch'' = Inr u1"
      "address_agrees t (token e) ''token'' ''payment_event_scope_mismatch'' = Inr u2"
      "n2 = int (read_nat (amount_atomic e)) \<and> n3 = owner_nonce e \<and> n4 = deadline e \<and> n6 = signer_epoch e"
      "address_agrees r (relayer_address e) ''relayer_address'' ''payment_event_scope_mismatch'' = Inr u3"
    unfolding payment_data_agrees_def and_then_eq_Inr by auto
  then show ?thesis
    using address_agrees_word
    by (auto simp: word_uint_def and_then_eq_Inr word_of_def split: if_splits)
qed

lemma decode_payment_log:
  assumes "decode_payment_event d e = Inr True"
  shows "payment_log e (PDict d)"
proof -
  obtain t0 t1 t2 t3 u where t: "dget d ''topics'' = PList [t0, t1, t2, t3]"
      and agrees: "payment_scope_agrees t1 t2 t3 (dget d ''data'') e = Inr u"
    using assms unfolding decode_payment_event_def and_then_eq_Inr
    by (auto simp: and_then_eq_Inr split: pyval.splits list.splits if_splits)
  from agrees obtain c1 c2 b3 own u1 data u2
    where scope: "same_hash t1 (PStr (capability_hash e)) ''capability_hash'' = Inr c1" c1
        "same_hash t2 (PStr (reservation_hash e)) ''reservation_hash'' = Inr c2" c2
      and owner: "watch_bytes t3 ''owner_topic'' False = Inr b3" "word_address b3 ''owner_topic'' = Inr own"
        "address_agrees own (owner e) ''owner'' ''payment_event_scope_mismatch'' = Inr u1"
      and data: "watch_bytes (dget d ''data'') ''payment_event_data'' True = Inr data"
        "payment_data_agrees data e = Inr u2"
    unfolding payment_scope_agrees_def and_then_eq_Inr require_evidence_Inr
    by (elim exE conjE) (rule that)
  have "same_hash t1 (PStr (capability_hash e)) ''capability_hash'' = Inr True"
    "same_hash t2 (PStr (reservation_hash e)) ''reservation_hash'' = Inr True" using scope by simp_all
  with t watch_bytes_Inr [OF owner(1)] watch_bytes_Inr [OF data(1)]
    address_agrees_word [OF owner(2,3)] payment_data_words [OF data(2)]
  show ?thesis
    unfolding payment_log_def
    by (intro exI [of _ d] exI [of _ t0] exI [of _ t1] exI [of _ t2] exI [of _ t3] exI [of _ data] conjI)
      simp_all
qed

lemma single_event_found:
  assumes "single_event decode e r logs = Inr b" "length logs \<le> 1" "\<forall>l \<in> set logs. \<exists>d. l = PDict d"
    and "\<And>d. decode d e = Inr True \<Longrightarrow> good (PDict d)"
  shows "if b then \<exists>l. logs = [l] \<and> good l else logs = []"
  using assms by (cases logs) (auto simp: and_then_eq_Inr split: if_splits)

text \<open>What the logs of a receipt show.\<close>

definition logs_show :: "chain_watcher \<Rightarrow> hosted_execution_row \<Rightarrow> pyval list \<Rightarrow> bool \<Rightarrow> bool" where
  "logs_show wt e logs paid \<longleftrightarrow>
     (let payments = filter (is_log_of PAYMENT_EVENT_TOPIC (wt_executor wt)) logs;
          transfers = filter (is_log_of TRANSFER_EVENT_TOPIC (wt_token wt)) logs in
      if paid then (\<exists>l. payments = [l] \<and> payment_log e l) \<and> (\<exists>l. transfers = [l] \<and> transfer_log e l)
      else payments = [] \<and> transfers = [])"

lemma payment_events_show:
  assumes "payment_events wt e receipt = Inr (b, b)"
  shows "\<exists>logs. dget receipt ''logs'' = PList logs \<and> logs_show wt e logs b"
proof -
  from assms obtain logs where logs: "dget receipt ''logs'' = PList logs"
    by (auto simp: payment_events_def split: pyval.splits)
  let ?p = "filter (is_log_of PAYMENT_EVENT_TOPIC (wt_executor wt)) logs"
  let ?t = "filter (is_log_of TRANSFER_EVENT_TOPIC (wt_token wt)) logs"
  from assms logs have len: "length ?p \<le> 1" "length ?t \<le> 1"
    and p: "single_event decode_payment_event e ''payment_event_invalid'' ?p = Inr b"
    and t: "single_event decode_transfer_event e ''transfer_event_invalid'' ?t = Inr b"
    by (auto simp: payment_events_def Let_def and_then_eq_Inr)
  have "\<forall>l \<in> set ?p. \<exists>d. l = PDict d" "\<forall>l \<in> set ?t. \<exists>d. l = PDict d"
    by (auto simp: is_log_of_def split: pyval.splits)
  then have "if b then \<exists>l. ?p = [l] \<and> payment_log e l else ?p = []"
    "if b then \<exists>l. ?t = [l] \<and> transfer_log e l else ?t = []"
    using single_event_found [where good = "payment_log e", OF p len(1)]
      single_event_found [where good = "transfer_log e", OF t len(2)] decode_payment_log decode_transfer_log
    by blast+
  then have "logs_show wt e logs b" unfolding logs_show_def Let_def by (cases b) simp_all
  with logs show ?thesis by blast
qed

section \<open>The contract of an observation\<close>

text \<open>A transaction that is the execution's own call, and its receipt.\<close>

definition executes ::
  "evm_lib \<Rightarrow> chain_watcher \<Rightarrow> hosted_execution_row \<Rightarrow> string \<Rightarrow> pydict \<Rightarrow> pydict \<Rightarrow> bool" where
  "executes lib wt e tx_hash tx receipt \<longleftrightarrow>
     watch_hash (dget tx ''hash'') ''transaction_hash'' = Inr tx_hash \<and>
     watch_hash (dget receipt ''transactionHash'') ''receipt_transaction_hash'' = Inr tx_hash \<and>
     watch_address (dget tx ''to'') ''transaction_to'' = Inr (wt_executor wt) \<and>
     watch_address (dget tx ''from'') ''transaction_from'' = Inr (lower (relayer_address e)) \<and>
     watch_quantity (dget tx ''nonce'') ''transaction_nonce'' = Inr (relayer_nonce e) \<and>
     watch_quantity (dget tx ''value'') ''transaction_value'' = Inr 0 \<and>
     watch_quantity (dget tx ''chainId'') ''transaction_chain_id'' = Inr (wt_chain_id wt) \<and>
     accepts_input lib e (dget tx ''input'')"

text \<open>A canonical block of the receipt, under the boundary block of the chain.\<close>

definition final_block :: "relay_env \<Rightarrow> chain_watcher \<Rightarrow> pydict \<Rightarrow> chain_evidence \<Rightarrow> bool" where
  "final_block env wt receipt ev \<longleftrightarrow>
     watch_quantity (dget receipt ''blockNumber'') ''receipt_block_number'' = Inr (ev_receipt_block_number ev) \<and>
     watch_hash (dget receipt ''blockHash'') ''receipt_block_hash'' = Inr (ev_receipt_block_hash ev) \<and>
     (\<exists>block safe_block.
        answered env ''eth_getBlockByNumber'' [PStr (py_hex (ev_receipt_block_number ev)), PBool False] (PDict block) \<and>
        watch_hash (dget block ''hash'') ''receipt_block_hash'' = Inr (ev_receipt_block_hash ev) \<and>
        answered env ''eth_getBlockByNumber'' [PStr (wt_finality_boundary wt), PBool False] (PDict safe_block) \<and>
        watch_quantity (dget safe_block ''number'') ''safe_block_number'' = Inr (ev_safe_block_number ev) \<and>
        watch_quantity (dget safe_block ''timestamp'') ''finality_boundary_timestamp'' = Inr (ev_boundary_timestamp ev)) \<and>
     ev_confirmations ev = ev_safe_block_number ev - ev_receipt_block_number ev \<and>
     wt_confirmation_depth wt \<le> ev_confirmations ev"

text \<open>Everything that one receipt says of the payment, paid or not.\<close>

definition receipt_shows :: "chain_watcher \<Rightarrow> hosted_execution_row \<Rightarrow> pydict \<Rightarrow> chain_evidence \<Rightarrow> bool" where
  "receipt_shows wt e receipt ev \<longleftrightarrow>
     watch_quantity (dget receipt ''status'') ''receipt_status'' = Inr (ev_receipt_status ev) \<and>
     ev_receipt_status ev \<in> {0, 1} \<and>
     (\<exists>logs. dget receipt ''logs'' = PList logs \<and> logs_show wt e logs (ev_receipt_status ev = 1)) \<and>
     {ev_capability_used ev, ev_owner_nonce_used ev, ev_payment_event_found ev, ev_transfer_event_found ev} =
       {ev_receipt_status ev = 1}"

definition settlement :: "relay_env \<Rightarrow> chain_watcher \<Rightarrow> hosted_execution_row \<Rightarrow> chain_evidence \<Rightarrow> bool" where
  "settlement env wt e ev \<longleftrightarrow>
     (\<exists>h tx receipt. raw_transaction_hash e = Some h \<and>
        answered env ''eth_getTransactionByHash'' [PStr (lower h)] (PDict tx) \<and>
        answered env ''eth_getTransactionReceipt'' [PStr (lower h)] (PDict receipt) \<and>
        executes (env_lib env) wt e (lower h) tx receipt \<and>
        final_block env wt receipt ev \<and> receipt_shows wt e receipt ev)"

lemma hex_field_lower: "hex_field n (PStr s) f = Inr x \<Longrightarrow> x = lower s"
  by (auto simp: hex_field_def split: if_splits)

lemma observed_scope_Inr:
  assumes "observed_scope wt e = Inr (h, rel)"
  shows "map_option lower (raw_transaction_hash e) = Some h \<and> rel = lower (relayer_address e)"
  using assms unfolding observed_scope_def
  by (auto simp: and_then_eq_Inr watch_hash_def watch_address_def dest: hex_field_lower split: option.splits)

lemma transaction_agrees_Inr:
  assumes "transaction_agrees lib wt e h (lower (relayer_address e)) tx receipt = Inr u"
  shows "executes lib wt e h tx receipt"
  using assms unfolding transaction_agrees_def executes_def accepts_input_def
  by (auto simp: and_then_eq_Inr)

lemma yields_gather:
  "yields env (gather_evidence wt d e tx receipt) (\<lambda>ev. final_block env wt receipt ev \<and> receipt_shows wt e receipt ev)"
  unfolding gather_evidence_def Let_def
proof (rule yields_bind [OF yields_lift], clarsimp, rule yields_bind [OF yields_rpc], rule yields_bind [OF yields_rpc],
    rule yields_bind [OF yields_lift], rule yields_bind [OF yields_lift], clarsimp, rule yields_bind [OF yields_lift],
    rule yields_bind [OF yields_any], rule yields_bind [OF yields_any], clarsimp, rule yields_bind [OF yields_lift],
    clarsimp, rule yields_bind [OF yields_lift], rule yields_ret, goal_cases)
  case (1 n h st rb sb sn sh ts used nonce_used paid moved)
  have st: "st \<in> {0, 1}" and receipt: "watch_quantity (dget receipt ''blockNumber'') ''receipt_block_number'' = Inr n"
      "watch_hash (dget receipt ''blockHash'') ''receipt_block_hash'' = Inr h"
      "watch_quantity (dget receipt ''status'') ''receipt_status'' = Inr st"
    using 1(1) by (auto simp: receipt_place_def reorganised_def and_then_eq_Inr split: if_splits)
  have blocks: "\<exists>block. rb = PDict block \<and> watch_hash (dget block ''hash'') ''receipt_block_hash'' = Inr h"
      "\<exists>block. sb = PDict block \<and> watch_quantity (dget block ''number'') ''safe_block_number'' = Inr sn \<and>
         watch_quantity (dget block ''timestamp'') ''finality_boundary_timestamp'' = Inr ts"
    using 1(4,5)
    by (auto simp: check_block_def boundary_block_def reorganised_def and_then_eq_Inr
        split: pyval.splits if_splits)
  have depth: "wt_confirmation_depth wt \<le> sn - n"
    using 1(6) by (auto simp: depth_agrees_def and_then_eq_Inr)
  have flags: "paid = (st = 1)" "moved = (st = 1)" "used = (st = 1)" "nonce_used = (st = 1)"
    using 1(8) by (auto simp: verdict_def split: if_splits)
  show ?case
    using payment_events_show [of wt e receipt "st = 1"] 1(2,3,7) st receipt blocks depth
    by (auto simp: final_block_def receipt_shows_def flags)
qed

lemma yields_evidence: "yields env (chain_evidence_of wt d e) (settlement env wt e)"
  unfolding chain_evidence_of_def
proof (rule yields_bind [OF yields_lift], clarsimp, rule yields_bind [OF yields_any], rule yields_bind [OF yields_rpc],
    rule yields_bind [OF yields_rpc], goal_cases)
  case (1 h rel u tx rc)
  then have scope: "map_option lower (raw_transaction_hash e) = Some h" "rel = lower (relayer_address e)"
    using observed_scope_Inr by auto
  show ?case
  proof (cases "\<exists>t r. tx = PDict t \<and> rc = PDict r")
    case True
    then obtain t r where dicts: "tx = PDict t" "rc = PDict r" by blast
    show ?thesis
      unfolding dicts prod.case pyval.case
    proof (rule yields_bind [OF yields_library], rule yields_bind [OF yields_lift], goal_cases)
      case (1 lib u)
      then have "executes (env_lib env) wt e h t r" using transaction_agrees_Inr scope(2) by simp
      with scope \<open>answered env ''eth_getTransactionByHash'' [PStr h] tx\<close>
        \<open>answered env ''eth_getTransactionReceipt'' [PStr h] rc\<close> dicts
      have "final_block env wt r ev \<and> receipt_shows wt e r ev \<Longrightarrow> settlement env wt e ev" for ev
        by (auto simp: settlement_def)
      with yields_gather [of env wt d e t r] show ?case by (auto simp: yields_def)
    qed
  next
    case False
    then show ?thesis by (auto simp: yields_def lift_result_def unfit_def fail_def split: pyval.splits)
  qed
qed

theorem observed_settlement: "yields env (observe wt d e) (\<lambda>seen. \<forall>ev. seen = Observed ev \<longrightarrow> settlement env wt e ev)"
proof -
  have "settlement env wt e ev" if "snd (observe wt d e env w) = Inr (Observed ev)" for w ev
  proof -
    from that have "snd (chain_evidence_of wt d e env w) = Inr ev"
      by (auto simp: observe_def recover_def bind_def ret_def split: prod.splits sum.splits relay_error.splits)
    with yields_evidence [of env wt d e] show ?thesis by (auto simp: yields_def)
  qed
  then show ?thesis unfolding yields_def by blast
qed

end
