(* ===== verification/Watcher_Outcomes.thy ===== *)
theory Watcher_Outcomes
  imports Watcher_Safety "HOL-Library.Sublist"
begin

text \<open>
  What a result of \<open>watch\<close> stands for: the outcomes that change an execution rest on a
  settlement of the row it has in the world the run ends in. The worker around it returns
  whatever its parts do, and the loop ends once it is told to.
\<close>

section \<open>Results of a run\<close>

lemma yields_recover:
  assumes "yields env m A" "\<And>e. yields env (h e) A"
  shows "yields env (recover m h) A"
  using assms unfolding yields_def recover_def by (auto split: prod.splits sum.splits) (metis snd_conv)

lemma yields_weaken: "yields env m A \<Longrightarrow> (\<And>x. A x \<Longrightarrow> B x) \<Longrightarrow> yields env m B"
  by (auto simp: yields_def)

text \<open>The settlement of a receipt with a status.\<close>

definition settles :: "relay_env \<Rightarrow> chain_watcher \<Rightarrow> hosted_execution_row \<Rightarrow> int \<Rightarrow> bool" where
  "settles env wt e st \<longleftrightarrow> (\<exists>ev. settlement env wt e ev \<and> ev_receipt_status ev = st)"

text \<open>A failed settlement seen after the authorization has expired on the chain.\<close>

definition lapsed :: "relay_env \<Rightarrow> chain_watcher \<Rightarrow> hosted_execution_row \<Rightarrow> bool" where
  "lapsed env wt e \<longleftrightarrow>
     (\<exists>ev. settlement env wt e ev \<and> ev_receipt_status ev = 0 \<and> deadline e \<le> ev_boundary_timestamp ev)"

definition AWAITING_RECEIPT :: "execution_state set" where
  "AWAITING_RECEIPT = {SUBMITTED, SUBMISSION_UNKNOWN, SUBMISSION_REJECTED, CONFIRMED}"

definition outcome_of :: "relay_env \<Rightarrow> chain_watcher \<Rightarrow> hosted_execution_row \<Rightarrow> watch_result \<Rightarrow> bool" where
  "outcome_of env wt e r \<longleftrightarrow>
     (wr_action r \<in> {''confirmed'', ''finalized''} \<longrightarrow> settles env wt e 1) \<and>
     (wr_action r = ''reverted'' \<longrightarrow> settles env wt e 0) \<and>
     (wr_action r = ''released'' \<and> wr_reason r = ''safe_revert_release'' \<longrightarrow>
        status e = REVERTED \<and> lapsed env wt e) \<and>
     (wr_action r \<in> {''confirmed'', ''finalized'', ''reverted''} \<longrightarrow> status e \<in> AWAITING_RECEIPT) \<and>
     wr_execution_id r = execution_id e"

lemmas yields_parts = yields_rules yields_recover yields_bind [OF yields_any]

lemma yields_submitted:
  assumes "execution_id e = eid" "status e \<in> AWAITING_RECEIPT"
  shows "yields env (watch_submitted wt e eid) (outcome_of env wt e)"
  unfolding watch_submitted_def
proof (rule yields_bind [OF observed_settlement], goal_cases)
  case (1 seen)
  show ?case
  proof (cases seen)
    case (Unobserved reason reorg)
    then show ?thesis using assms by (auto simp: outcome_of_def unchanged_result_def intro!: yields_ret)
  next
    case (Observed ev)
    with 1 have s: "settlement env wt e ev" by simp
    then have "settles env wt e (ev_receipt_status ev)" unfolding settles_def by blast
    moreover from s have "ev_receipt_status ev \<in> {0, 1}" by (auto simp: settlement_def receipt_shows_def)
    ultimately have status: "settles env wt e (ev_receipt_status ev)" "ev_receipt_status ev \<in> {0, 1}" .
    show ?thesis
      unfolding Observed watch_observation.case confirm_observed_def revert_observed_def Let_def
      using status assms
      by (intro yields_parts) (auto simp: outcome_of_def unchanged_result_def)
  qed
qed

lemma yields_reverted:
  assumes "status e = REVERTED"
  shows "yields env (watch_reverted wt e) (outcome_of env wt e)"
  unfolding watch_reverted_def Let_def
proof (rule yields_bind [OF observed_settlement], goal_cases)
  case (1 seen)
  show ?case
  proof (cases seen)
    case (Unobserved reason reorg)
    then show ?thesis by (auto simp: outcome_of_def unchanged_result_def intro!: yields_ret)
  next
    case (Observed ev)
    with 1 have "settlement env wt e ev" by simp
    then have "ev_receipt_status ev = 0 \<Longrightarrow> deadline e \<le> ev_boundary_timestamp ev \<Longrightarrow> lapsed env wt e"
      by (auto simp: lapsed_def)
    then show ?thesis
      unfolding Observed watch_observation.case using assms
      by (intro yields_parts) (auto simp: outcome_of_def unchanged_result_def)
  qed
qed

lemma yields_other:
  "yields env (watch_finalized wt e) (outcome_of env wt e)"
  "execution_id e = eid \<Longrightarrow> yields env (watch_unsigned eid st) (outcome_of env wt e)"
  unfolding watch_finalized_def watch_unsigned_def Let_def
  by (auto intro!: yields_parts simp: outcome_of_def unchanged_result_def
      split: watch_observation.split relay_error.split exec_error.split)

section \<open>The row at the end of a run\<close>

interpretation watches: relay_logic env "\<lambda>w. repo_reachable (env_config env) (w_repo w)"
  "\<lambda>w w'. (repo_step (env_config env))\<^sup>*\<^sup>* (w_repo w) (w_repo w')" for env
  by unfold_locales (auto intro: reachable_step)

text \<open>A row that was read, as it is later.\<close>

definition still :: "hosted_execution_row \<Rightarrow> world \<Rightarrow> bool" where
  "still e w \<longleftrightarrow> (\<exists>x \<in> set (executions (w_repo w)). row_history e x)"

lemma still_stable: "watches.stable env (still e)"
  unfolding watches.stable_def still_def
  by (metis history_in row_history_trans)

context relay_logic
begin

lemma safe_clocked [safe_rules]:
  "(\<And>now s. repo_step (env_config env) s (fst (f (env_config env) now s))) \<Longrightarrow> safe (clocked f)"
  unfolding clocked_def by (intro safe_rules) simp

lemma safe_observe [safe_rules]: "safe (observe wt d e)"
  unfolding observe_def chain_evidence_of_def gather_evidence_def require_chain_id_def require_codes_def
    used_flags_def executor_flag_def code_at_def rpc_call_def Let_def
  by (rule safe_rules | intro conjI allI impI | split relay_splits)+

lemma safe_watch [safe_rules]: "safe (watch wt eid)"
  unfolding watch_def watch_submitted_def watch_reverted_def watch_finalized_def watch_unsigned_def
    confirm_observed_def revert_observed_def Let_def
  by (rule safe_rules | intro conjI allI impI | split relay_splits watch_observation.split)+

end

lemma read_still:
  "watches.triple env (\<lambda>_. True) (repo_read (\<lambda>_. get_execution eid))
     (\<lambda>found w. \<forall>e. found = Some e \<longrightarrow> still e w \<and> execution_id e = eid \<and> row_inv (env_config env) e)"
proof (rule watches.triple_read)
  fix w :: world and x
  assume w: "repo_reachable (env_config env) (w_repo w)" "get_execution eid (w_repo w) = Inr x"
  have "locked_execution (w_repo w) eid = Some e" if "x = Some e" for e
    using w(2) that by (auto simp: get_execution_def record_of_def and_then_eq_Inr split: option.splits if_splits)
  then show "\<forall>e. x = Some e \<longrightarrow> still e w \<and> execution_id e = eid \<and> row_inv (env_config env) e"
    using reachable_inv [OF w(1)] locked_in_set locked_id row_history_refl
    unfolding still_def repo_inv_def by blast
qed (simp_all add: still_def)

text \<open>A settlement of a signed row is one of the row it has become.\<close>

lemma settlement_history:
  assumes "settlement env wt e ev" "row_history e x" "tainted e"
  shows "settlement env wt x ev" "deadline x = deadline e"
proof -
  have truncate: "intent_columns.truncate x = intent_columns.truncate e"
    and row: "relayer_nonce x = relayer_nonce e" "raw_transaction_hash x = raw_transaction_hash e"
    using assms(2,3) by (simp_all add: row_history_def same_scope_def same_signed_material_def)
  then have columns: "capability_hash x = capability_hash e" "reservation_hash x = reservation_hash e"
      "owner x = owner e" "payee x = payee e" "relayer_address x = relayer_address e" "token x = token e"
      "amount_atomic x = amount_atomic e" "owner_nonce x = owner_nonce e" "deadline x = deadline e"
      "signer_epoch x = signer_epoch e"
    by (simp_all add: intent_columns.defs)
  have logs: "payment_log x = payment_log e" "transfer_log x = transfer_log e"
    unfolding payment_log_def transfer_log_def columns by (rule ext refl)+
  have "accepts_input lib x = accepts_input lib e" for lib
    unfolding accepts_input_def match_execution_def expected_fields_def columns by (rule ext refl)+
  then have "executes lib wt x = executes lib wt e" for lib
    unfolding executes_def row columns by (intro ext) simp
  moreover have "receipt_shows wt x = receipt_shows wt e"
    unfolding receipt_shows_def logs_show_def logs by (rule ext refl)+
  ultimately show "settlement env wt x ev" using assms(1) unfolding settlement_def row by metis
  show "deadline x = deadline e" by (rule columns)
qed

section \<open>Every outcome is justified\<close>

definition justified :: "relay_env \<Rightarrow> chain_watcher \<Rightarrow> string \<Rightarrow> watch_result \<Rightarrow> repo \<Rightarrow> bool" where
  "justified env wt eid r s \<longleftrightarrow>
     (wr_action r \<in> {''confirmed'', ''finalized''} \<longrightarrow>
        (\<exists>x \<in> set (executions s). execution_id x = eid \<and> settles env wt x 1)) \<and>
     (wr_action r = ''reverted'' \<longrightarrow>
        (\<exists>x \<in> set (executions s). execution_id x = eid \<and> settles env wt x 0)) \<and>
     (wr_action r = ''released'' \<and> wr_reason r = ''safe_revert_release'' \<longrightarrow>
        (\<exists>x \<in> set (executions s). execution_id x = eid \<and> lapsed env wt x))"

lemma outcome_justified:
  assumes "still e w" "row_inv (env_config env) e" "execution_id e = eid" "outcome_of env wt e r"
  shows "justified env wt eid r (w_repo w)"
proof -
  obtain x where x: "x \<in> set (executions (w_repo w))" "row_history e x" using assms(1) by (auto simp: still_def)
  then have eid: "execution_id x = eid" using assms(3) by (simp add: row_history_def same_scope_def)
  have signed: "tainted e" if "status e \<in> AWAITING_RECEIPT \<union> {REVERTED}"
    using assms(2) that by (auto simp: row_inv_def AWAITING_RECEIPT_def tainted_def has_signed_transaction_def)
  have "settles env wt x st" if "settles env wt e st" "tainted e" for st
    using that settlement_history(1) [OF _ x(2)] unfolding settles_def by blast
  moreover have "lapsed env wt x" if "lapsed env wt e" "tainted e"
    using that settlement_history [OF _ x(2)] unfolding lapsed_def by metis
  ultimately show ?thesis
    using assms(4) x(1) eid signed unfolding justified_def outcome_of_def by blast
qed

lemma framed:
  assumes "watches.safe env m" "yields env m A"
  shows "watches.triple env (still e) m (\<lambda>r w. A r \<and> still e w)"
  using assms still_stable [of env e]
  by (auto simp: watches.safe_def watches.triple_def watches.stable_def yields_def)

theorem watch_justified:
  assumes "repo_reachable (env_config env) (w_repo w)" "snd (watch wt eid env w) = Inr r"
  shows "justified env wt eid r (w_repo (fst (watch wt eid env w)))"
proof -
  have rest: "watches.triple env (\<lambda>w. still e w \<and> execution_id e = eid \<and> row_inv (env_config env) e) m
      (\<lambda>r w. justified env wt eid r (w_repo w))"
    if "watches.safe env m" "execution_id e = eid \<Longrightarrow> yields env m (outcome_of env wt e)" for e m
  proof (cases "execution_id e = eid \<and> row_inv (env_config env) e")
    case True
    then have "watches.triple env (still e) m (\<lambda>r w. justified env wt eid r (w_repo w))"
      using framed [OF that(1) that(2)] outcome_justified
      by (blast intro: watches.triple_post)
    then show ?thesis by (rule watches.triple_pre) simp
  next
    case False
    then show ?thesis by (auto simp: watches.triple_def)
  qed
  have "watches.triple env (\<lambda>_. True) (watch wt eid) (\<lambda>r w. justified env wt eid r (w_repo w))"
    unfolding watch_def
  proof (rule watches.triple_bind [OF read_still], goal_cases)
    case (1 found)
    show ?case
    proof (cases found)
      case None
      then show ?thesis by (simp add: watches.triple_fail)
    next
      case (Some e)
      let ?m = "if status e = FINALIZED then watch_finalized wt e
         else if status e = REVERTED then watch_reverted wt e
         else if status e \<in> {PREFLIGHT_APPROVED, SIGNING} then watch_unsigned eid (status e)
         else if status e \<notin> {SUBMITTED, SUBMISSION_UNKNOWN, SUBMISSION_REJECTED, CONFIRMED}
         then ret (unchanged_result eid (status e) ''state_not_watchable'' None)
         else watch_submitted wt e eid"
      have "watches.safe env ?m"
        unfolding watch_submitted_def watch_reverted_def watch_finalized_def watch_unsigned_def
          confirm_observed_def revert_observed_def Let_def
        by (rule safe_rules | intro conjI allI impI | split relay_splits watch_observation.split)+
      moreover have "yields env ?m (outcome_of env wt e)" if "execution_id e = eid"
        using that
        by (intro yields_if yields_ret yields_other yields_reverted yields_submitted)
          (auto simp: outcome_of_def unchanged_result_def AWAITING_RECEIPT_def)
      ultimately show ?thesis unfolding Some option.case by (intro watches.triple_pre [OF rest]) simp_all
    qed
  qed
  then show ?thesis using assms by (auto simp: watches.triple_def)
qed

section \<open>The worker\<close>

text \<open>A computation that returns in every world, and never turns time back.\<close>

definition returns :: "relay_env \<Rightarrow> 'a relay \<Rightarrow> bool" where
  "returns env m \<longleftrightarrow> (\<forall>w. \<exists>x. snd (m env w) = Inr x)"

definition onward :: "'a relay \<Rightarrow> bool" where
  "onward m \<longleftrightarrow> (\<forall>env w. w_tick w \<le> w_tick (fst (m env w)))"

named_theorems onward_rules \<open>time goes on\<close>

lemma returns_bind: "returns env m \<Longrightarrow> (\<And>x. returns env (f x)) \<Longrightarrow> returns env (bind m f)"
  unfolding returns_def bind_def by (simp split: prod.split sum.split) (metis Inl_Inr_False snd_conv)

lemma returns_recover: "(\<And>e. returns env (h e)) \<Longrightarrow> returns env (recover m h)"
  unfolding returns_def recover_def by (simp split: prod.split sum.split)

lemma returns_basic: "returns env (ret x)" "returns env (ask q)"
  by (simp_all add: returns_def ret_def ask_def)

lemma returns_if: "returns env a \<Longrightarrow> returns env b \<Longrightarrow> returns env (if c then a else b)"
  by simp

lemma onward_bind [onward_rules]: "onward m \<Longrightarrow> (\<And>x. onward (f x)) \<Longrightarrow> onward (bind m f)"
  unfolding onward_def bind_def by (simp split: prod.split sum.split) (metis fst_conv le_trans)

lemma onward_recover [onward_rules]: "onward m \<Longrightarrow> (\<And>e. onward (h e)) \<Longrightarrow> onward (recover m h)"
  unfolding onward_def recover_def by (simp split: prod.split sum.split) (metis fst_conv le_trans)

lemma onward_basic [onward_rules]:
  "onward (ret x)" "onward (fail e)" "onward (lift_result g r)" "onward (ask q)" "onward library"
  "onward (inspection_call k ps)" "onward repo_clock" "onward (repo_op f)" "onward (repo_read h)"
  by (auto simp: onward_def ret_def fail_def lift_result_def ask_def library_def inspection_call_def
      repo_clock_def repo_op_def repo_read_def Let_def split: sum.split prod.split)

lemma onward_if [onward_rules]: "onward a \<Longrightarrow> onward b \<Longrightarrow> onward (if c then a else b)"
  by simp

lemma onward_observe [onward_rules]: "onward (observe wt d e)"
  unfolding observe_def chain_evidence_of_def gather_evidence_def require_chain_id_def require_codes_def
    used_flags_def executor_flag_def code_at_def rpc_call_def Let_def
  by (rule onward_rules | intro conjI allI impI | split relay_splits)+

lemma onward_watch [onward_rules]: "onward (watch wt eid)"
  unfolding watch_def watch_submitted_def watch_reverted_def watch_finalized_def watch_unsigned_def
    confirm_observed_def revert_observed_def clocked_def Let_def
  by (rule onward_rules | intro conjI allI impI | split relay_splits watch_observation.split)+

lemma onward_batch [onward_rules]: "onward (watch_batch wt stops ids cursor)"
  by (induction ids arbitrary: cursor)
    (auto simp: stop_requested_def attempt_recorded_def watch_item_def clocked_def
      intro!: onward_rules split: prod.split)

lemma onward_run_once: "onward (run_once wt n stops cursor)"
  unfolding run_once_def stop_requested_def by (intro onward_rules)

lemma returns_batch: "returns env (watch_batch wt stops ids cursor)"
  by (induction ids arbitrary: cursor)
    (auto simp: stop_requested_def attempt_recorded_def watch_item_def
      intro!: returns_bind returns_recover returns_basic split: prod.split)

lemma returns_run_once:
  assumes "hosted_chain_profile (wt_chain wt) \<noteq> None" "1 \<le> n" "n \<le> 1000"
  shows "returns env (run_once wt n stops cursor)"
proof -
  have "returns env (repo_read (\<lambda>_. list_watchable_ids (wt_chain wt) None n))"
    using assms by (simp add: returns_def repo_read_def repo_op_def Let_def list_watchable_ids_def opt_ok_def)
  then show ?thesis
    unfolding run_once_def stop_requested_def
    by (intro returns_bind returns_if returns_basic returns_batch)
qed

text \<open>The loop ends after at most as many rounds as there are moments before the stop.\<close>

lemma run_rounds_stop:
  assumes run: "\<And>c. returns env (run_once wt n stops c)" and stop: "\<And>t. T \<le> t \<Longrightarrow> stops t"
  shows "T \<le> w_tick w + k \<Longrightarrow> snd (run_rounds (Suc k) wt n stops cursor env w) = Inr True"
proof (induction k arbitrary: w cursor)
  case 0
  with stop show ?case by (simp add: stop_requested_def ask_def bind_def ret_def)
next
  case (Suc k)
  show ?case
  proof (cases "stops (w_tick w)")
    case True
    then show ?thesis by (simp add: stop_requested_def ask_def bind_def ret_def)
  next
    case False
    define u where "u = w\<lparr>w_tick := Suc (w_tick w)\<rparr>"
    obtain v rs c where once: "run_once wt n stops cursor env u = (v, Inr (rs, c))"
      using run [of cursor] by (metis returns_def prod.collapse)
    have v: "Suc (w_tick w) \<le> w_tick v" using onward_run_once [of wt n stops cursor] once
      unfolding onward_def by (metis fst_conv u_def world.select_convs(3) world.surjective world.update_convs(3))
    have "snd (run_rounds (Suc k) wt n stops c env x) = Inr True" if "w_tick v \<le> w_tick x" for x
      by (rule Suc.IH) (use Suc.prems v that in linarith)
    with False once show ?thesis
      by (simp add: stop_requested_def ask_def bind_def ret_def u_def del: run_rounds.simps(2)
          add: run_rounds.simps(2) [of "Suc k"])
  qed
qed

text \<open>Each result is of the execution it was asked for.\<close>

lemma yields_watch_id: "yields env (watch wt eid) (\<lambda>r. wr_execution_id r = eid)"
proof -
  have found: "yields env (repo_read (\<lambda>_. get_execution eid)) (\<lambda>f. \<forall>e. f = Some e \<longrightarrow> execution_id e = eid)"
    by (auto simp: yields_def repo_read_def repo_op_def Let_def get_execution_def record_of_def map_sum_def
        and_then_eq_Inr dest: locked_id split: sum.splits option.splits if_splits)
  show ?thesis
    unfolding watch_def
  proof (rule yields_bind [OF found], goal_cases)
    case (1 f)
    show ?case
    proof (cases f)
      case (Some e)
      with 1 have e: "execution_id e = eid" by simp
      have "yields env m (\<lambda>r. wr_execution_id r = eid)" if "yields env m (outcome_of env wt e)" for m
        using that e by (auto simp: yields_def outcome_of_def)
      note id = this
      show ?thesis
        unfolding Some option.case
        by (intro yields_if yields_ret id yields_other yields_reverted yields_submitted)
          (auto simp: e unchanged_result_def AWAITING_RECEIPT_def)
    qed (simp add: yields_refuse)
  qed
qed

lemma yields_batch_order:
  "yields env (watch_batch wt stops ids cursor) (\<lambda>(rs, c). subseq (map wr_execution_id rs) ids)"
proof (induction ids arbitrary: cursor)
  case (Cons eid ids)
  have item: "yields env (watch_item wt eid) (\<lambda>r. \<forall>x. r = Some x \<longrightarrow> wr_execution_id x = eid)"
    unfolding watch_item_def by (intro yields_recover yields_bind [OF yields_watch_id] yields_ret) simp_all
  have skip: "yields env (watch_batch wt stops ids cursor) (\<lambda>(rs, c). subseq (map wr_execution_id rs) (eid # ids))"
    for cursor by (rule yields_weaken [OF Cons]) (auto simp: list_emb_Cons)
  show ?case
    unfolding watch_batch.simps
    by (intro yields_bind [OF yields_any] yields_bind [OF item] yields_bind [OF Cons] yields_if yields_ret skip)
      (auto split: option.split prod.split intro!: yields_ret)
qed (simp add: yields_ret)

end
