(* ===== verification/Watcher_Example.thy ===== *)
theory Watcher_Example
  imports Watcher_Outcomes Relayer_Example
begin

text \<open>
  A chain on which the example execution was paid, or on which its transaction failed, and the
  run of the watcher over it. The third-party encoders are stand-ins; the ABI encoder has the
  documented layout.
\<close>

section \<open>The chain\<close>

definition abi_lib :: evm_lib where
  "abi_lib =
     \<lparr>keccak = (\<lambda>b. replicate 32 0x77),
      abi_encode = (\<lambda>vs. case vs of [AbiTuple ws, AbiBytes sig] \<Rightarrow> call_layout ws sig | _ \<Rightarrow> []),
      rlp_encode = (\<lambda>item. [1, 5])\<rparr>"

definition example_watcher :: chain_watcher where
  "example_watcher =
     \<lparr>wt_executor = hex_of 40 CHR ''3'', wt_executor_code_hash = None,
      wt_watcher_version = ''watcher-1'', wt_confirmation_depth = 2, wt_chain = ''eip155:8453'',
      wt_chain_id = 8453, wt_token = HOSTED_BASE_USDC, wt_finality_boundary = ''safe''\<rparr>"

definition zeros :: "nat \<Rightarrow> string" where
  "zeros n = replicate n CHR ''0''"

definition address_topic :: "char \<Rightarrow> string" where
  "address_topic c = ''0x'' @ zeros 24 @ replicate 40 c"

definition payment_entry :: pydict where
  "payment_entry =
     [(''address'', PStr (hex_of 40 CHR ''3'')),
      (''topics'', PList [PStr PAYMENT_EVENT_TOPIC, PStr (hex_of 64 CHR ''4''),
         PStr (hex_of 64 CHR ''5''), PStr (address_topic CHR ''1'')]),
      (''data'', PStr (address_topic CHR ''2'' @ zeros 24 @ drop 2 HOSTED_BASE_USDC @ zeros 62 @ ''19''
         @ zeros 63 @ ''7'' @ zeros 61 @ ''7d0'' @ zeros 24 @ replicate 40 CHR ''9'' @ zeros 63 @ ''1''
         @ zeros 24 @ replicate 40 CHR ''8''))]"

definition transfer_entry :: pydict where
  "transfer_entry =
     [(''address'', PStr HOSTED_BASE_USDC),
      (''topics'', PList [PStr TRANSFER_EVENT_TOPIC, PStr (address_topic CHR ''1''),
         PStr (address_topic CHR ''2'')]),
      (''data'', PStr (''0x'' @ zeros 62 @ ''19''))]"

lemma example_payment: "decode_payment_event payment_entry example_intent = Inr True"
  by code_simp

lemma example_transfer: "decode_transfer_event transfer_entry example_intent = Inr True"
  by code_simp

text \<open>The transaction, and its receipt with the given status and logs.\<close>

definition example_input :: pyval where
  "example_input = PStr (''0x'' @ to_hex (EXECUTE_SELECTOR abi_lib @
     call_layout (execution_values
       (case authorization_of example_relayer example_intent of Inr a \<Rightarrow> a)) (replicate 65 1)))"

definition example_transaction :: pydict where
  "example_transaction =
     [(''hash'', PStr (hex_of 64 CHR ''b'')), (''to'', PStr (hex_of 40 CHR ''3'')),
      (''from'', PStr (hex_of 40 CHR ''8'')), (''nonce'', PStr ''0x4''), (''value'', PStr ''0x0''),
      (''type'', PStr ''0x2''), (''chainId'', PStr ''0x2105''), (''input'', example_input),
      (''blockNumber'', PStr ''0x64''), (''blockHash'', PStr (hex_of 64 CHR ''a''))]"

definition example_receipt :: "bool \<Rightarrow> pydict" where
  "example_receipt paid =
     [(''transactionHash'', PStr (hex_of 64 CHR ''b'')), (''blockNumber'', PStr ''0x64''),
      (''blockHash'', PStr (hex_of 64 CHR ''a'')), (''status'', PStr (if paid then ''0x1'' else ''0x0'')),
      (''logs'', PList (if paid then [PDict payment_entry, PDict transfer_entry] else []))]"

definition chain_rpc :: "bool \<Rightarrow> nat \<Rightarrow> string \<Rightarrow> pyval list \<Rightarrow> rpc_reply" where
  "chain_rpc paid t m ps = RpcValue
     (if m = ''eth_chainId'' then PStr ''0x2105''
      else if m = ''eth_getTransactionByHash'' then PDict example_transaction
      else if m = ''eth_getTransactionReceipt'' then PDict (example_receipt paid)
      else if m = ''eth_getBlockByNumber'' then
        (if ps = [PStr ''safe'', PBool False]
         then PDict [(''number'', PStr ''0x68''), (''hash'', PStr (hex_of 64 CHR ''b'')), (''timestamp'', PStr ''0x7d0'')]
         else PDict [(''number'', PStr ''0x64''), (''hash'', PStr (hex_of 64 CHR ''a''))])
      else if m = ''eth_getCode'' then PStr ''0x60''
      else PStr (''0x'' @ zeros 63 @ (if paid then ''1'' else ''0'')))"

definition chain_env :: "bool \<Rightarrow> relay_env" where
  "chain_env paid =
     \<lparr>env_config = example_config, env_lib = abi_lib, env_inspect = chain_rpc paid,
      env_submit = chain_rpc paid, env_clock = (\<lambda>t. 1100), env_execution_signer = (\<lambda>t d. None),
      env_gas_signer = (\<lambda>t d. None), env_approves = (\<lambda>t i. True), env_uuids = (\<lambda>t. []),
      env_others = (\<lambda>t. [])\<rparr>"

lemma chain_env_simps [simp]:
  "env_config (chain_env p) = example_config" "env_lib (chain_env p) = abi_lib"
  "env_inspect (chain_env p) = chain_rpc p" "env_clock (chain_env p) t = 1100"
  "env_others (chain_env p) t = []"
  by (simp_all add: chain_env_def)

section \<open>The evidence\<close>

lemma standard_abi_lib: "standard_abi abi_lib" "length (EXECUTE_SELECTOR abi_lib) = 4"
  by (simp_all add: standard_abi_def abi_lib_def EXECUTE_SELECTOR_def)

lemma columns_decode:
  assumes "intent_columns.truncate e = intent_columns.truncate i"
  shows "decode_payment_event d e = decode_payment_event d i"
    "decode_transfer_event d e = decode_transfer_event d i"
    "match_execution m e = match_execution m i"
proof -
  have columns: "capability_hash e = capability_hash i" "reservation_hash e = reservation_hash i"
      "owner e = owner i" "payee e = payee i" "relayer_address e = relayer_address i" "token e = token i"
      "amount_atomic e = amount_atomic i" "owner_nonce e = owner_nonce i" "deadline e = deadline i"
      "signer_epoch e = signer_epoch i" "executor e = executor i"
    using assms by (simp_all add: intent_columns.defs)
  show "decode_payment_event d e = decode_payment_event d i"
    "decode_transfer_event d e = decode_transfer_event d i" "match_execution m e = match_execution m i"
    unfolding decode_payment_event_def decode_transfer_event_def match_execution_def expected_fields_def
      payment_scope_agrees_def payment_data_agrees_def columns by (rule refl)+
qed

text \<open>The row of the example execution, submitted.\<close>

definition example_row :: hosted_execution_row where
  "example_row = (case get_execution example_eid submitted_repo of Inr (Some e) \<Rightarrow> e)"

lemma example_row:
  "get_execution example_eid submitted_repo = Inr (Some example_row)" "status example_row = SUBMITTED"
  "intent_columns.truncate example_row = intent_columns.truncate example_intent"
  "raw_transaction_hash example_row = Some (hex_of 64 CHR ''b'')" "finality_boundary example_row = None"
  "relayer_nonce example_row = 4" "execution_id example_row = example_eid"
proof -
  have "case get_execution example_eid submitted_repo of
      Inr (Some e) \<Rightarrow> status e = SUBMITTED \<and>
        intent_columns.truncate e = intent_columns.truncate example_intent \<and>
        raw_transaction_hash e = Some (hex_of 64 CHR ''b'') \<and> finality_boundary e = None \<and>
        relayer_nonce e = 4 \<and> execution_id e = example_eid
    | _ \<Rightarrow> False"
    by code_simp
  then show "get_execution example_eid submitted_repo = Inr (Some example_row)" "status example_row = SUBMITTED"
    "intent_columns.truncate example_row = intent_columns.truncate example_intent"
    "raw_transaction_hash example_row = Some (hex_of 64 CHR ''b'')" "finality_boundary example_row = None"
    "relayer_nonce example_row = 4" "execution_id example_row = example_eid"
    by (auto simp: example_row_def split: sum.splits option.splits)
qed

lemma example_accepts: "accepts_input abi_lib example_intent example_input"
proof -
  obtain a where a: "authorization_of example_relayer example_intent = Inr a"
    using example_authorizes by (auto split: sum.splits)
  have "well_formed_scope example_intent" by (rule validated_scope [OF example_validates])
  from accepts_input_bytes [OF this _ standard_abi_lib(2)] a show ?thesis
    unfolding example_input_def by (simp add: authorization_of_def) (metis length_replicate)
qed

lemma example_columns:
  "chain example_row = ''eip155:8453''" "token example_row = HOSTED_BASE_USDC"
  "executor example_row = hex_of 40 CHR ''3''" "relayer_address example_row = hex_of 40 CHR ''8''"
  "capability_hash example_row = hex_of 64 CHR ''4''" "owner example_row = hex_of 40 CHR ''1''"
  "owner_nonce example_row = 7" "deadline example_row = 2000"
  using example_row(3) by (simp_all add: intent_columns.defs example_intent_def)

lemma example_fields:
  "watch_address (PStr (hex_of 40 CHR ''3'')) f = Inr (hex_of 40 CHR ''3'')"
  "watch_address (PStr (hex_of 40 CHR ''8'')) f = Inr (hex_of 40 CHR ''8'')"
  "watch_address (PStr (hex_of 40 CHR ''1'')) f = Inr (hex_of 40 CHR ''1'')"
  "watch_address (PStr HOSTED_BASE_USDC) f = Inr HOSTED_BASE_USDC"
  "watch_hash (PStr (hex_of 64 CHR ''b'')) f = Inr (hex_of 64 CHR ''b'')"
  "watch_hash (PStr (hex_of 64 CHR ''a'')) f = Inr (hex_of 64 CHR ''a'')"
  "watch_hash (PStr (hex_of 64 CHR ''4'')) f = Inr (hex_of 64 CHR ''4'')"
  "watch_quantity (PStr ''0x2105'') f = Inr 8453" "watch_quantity (PStr ''0x0'') f = Inr 0"
  "watch_quantity (PStr ''0x1'') f = Inr 1" "watch_quantity (PStr ''0x2'') f = Inr 2"
  "watch_quantity (PStr ''0x4'') f = Inr 4" "watch_quantity (PStr ''0x64'') f = Inr 100"
  "watch_quantity (PStr ''0x68'') f = Inr 104" "watch_quantity (PStr ''0x7d0'') f = Inr 2000"
  "watch_bytes (PStr ''0x60'') f True = Inr [96]"
  "decode_bool (PStr (''0x'' @ zeros 63 @ ''1'')) f = Inr True"
  "decode_bool (PStr (''0x'' @ zeros 63 @ ''0'')) f = Inr False"
  by code_simp+

lemma example_scope:
  "observed_scope example_watcher example_row = Inr (hex_of 64 CHR ''b'', hex_of 40 CHR ''8'')"
  by (simp add: observed_scope_def example_row(4,5) example_columns example_watcher_def example_fields
      require_evidence_def)

lemma example_call:
  "transaction_agrees abi_lib example_watcher example_row (hex_of 64 CHR ''b'') (hex_of 40 CHR ''8'')
     example_transaction (example_receipt paid) = Inr ()"
proof -
  obtain d where d: "decode_execute_input abi_lib example_input = Inr d" "match_execution d example_intent = Inr ()"
    using example_accepts by (auto simp: accepts_input_def and_then_eq_Inr)
  then have "match_execution d example_row = Inr ()" using columns_decode(3) [OF example_row(3)] by simp
  with d(1) show ?thesis
    by (simp add: transaction_agrees_def example_transaction_def example_receipt_def dget_def example_fields
        example_row(6) example_watcher_def require_evidence_def)
qed

lemma example_events:
  "payment_events example_watcher example_row (example_receipt paid) = Inr (paid, paid)"
proof -
  have payment: "is_log_of PAYMENT_EVENT_TOPIC (wt_executor example_watcher) (PDict payment_entry)"
      "\<not> is_log_of TRANSFER_EVENT_TOPIC (wt_token example_watcher) (PDict payment_entry)" by code_simp+
  moreover have transfer: "is_log_of TRANSFER_EVENT_TOPIC (wt_token example_watcher) (PDict transfer_entry)"
      "\<not> is_log_of PAYMENT_EVENT_TOPIC (wt_executor example_watcher) (PDict transfer_entry)" by code_simp+
  ultimately show ?thesis
    using columns_decode(1,2) [OF example_row(3)] example_payment example_transfer
    by (simp add: payment_events_def example_receipt_def dget_def require_evidence_def)
qed

end
