(* ===== verification/Watcher_Properties.thy ===== *)
theory Watcher_Properties
  imports Watcher_Example
begin

text \<open>
  The properties of the chain watcher and its worker, over any RPC provider, repository clock and
  schedule of the other workers.
\<close>

section \<open>A run of the watcher\<close>

definition example_evidence :: "bool \<Rightarrow> chain_evidence" where
  "example_evidence paid =
     \<lparr>ev_receipt_status = (if paid then 1 else 0), ev_receipt_block_number = 100,
      ev_receipt_block_hash = hex_of 64 CHR ''a'', ev_confirmations = 4, ev_safe_block_number = 104,
      ev_safe_block_hash = hex_of 64 CHR ''b'', ev_capability_used = paid, ev_owner_nonce_used = paid,
      ev_payment_event_found = paid, ev_transfer_event_found = paid, ev_boundary_timestamp = 2000\<rparr>"

lemma chain_answers:
  "rpc_call m ps (chain_env paid) w =
     (w\<lparr>w_tick := Suc (w_tick w)\<rparr>, Inr (case chain_rpc paid 0 m ps of RpcValue v \<Rightarrow> v))"
  by (simp add: rpc_call_def inspection_call_def ask_def bind_def ret_def chain_rpc_def)

lemma lift_result_Inr: "lift_result f (Inr x) env w = (w, Inr x)"
  by (simp add: lift_result_def ret_def)

lemma example_flags:
  "used_flags example_watcher b example_row (chain_env paid) w =
     (w\<lparr>w_tick := Suc (Suc (w_tick w))\<rparr>, Inr (paid, paid))"
  by (cases paid) (simp_all add: used_flags_def executor_flag_def bind_def library_def lift_result_Inr
        chain_answers chain_rpc_def abi_address_word_def example_columns example_fields
        example_fields(17,18) [simplified] ret_def)

lemma example_observed:
  "\<exists>t. observe example_watcher False example_row (chain_env paid) w =
     (w\<lparr>w_tick := t\<rparr>, Inr (Observed (example_evidence paid)))"
proof -
  have place: "receipt_place False example_transaction (example_receipt paid) =
      Inr (100, hex_of 64 CHR ''a'', if paid then 1 else 0)"
    by (simp add: receipt_place_def example_transaction_def example_receipt_def dget_def example_fields
        require_evidence_def)
  have block: "check_block False (PDict [(''number'', PStr ''0x64''), (''hash'', PStr (hex_of 64 CHR ''a''))])
      100 (hex_of 64 CHR ''a'') = Inr ()"
    by (simp add: check_block_def dget_def example_fields)
  have boundary: "boundary_block (PDict [(''number'', PStr ''0x68''), (''hash'', PStr (hex_of 64 CHR ''b'')),
      (''timestamp'', PStr ''0x7d0'')]) = Inr (104, hex_of 64 CHR ''b'', 2000)"
    by (simp add: boundary_block_def dget_def example_fields)
  have hex: "py_hex 100 = ''0x64''" "py_hex 104 = ''0x68''" by code_simp+
  have depth: "depth_agrees example_watcher False example_row place 104 = Inr ()" if "fst place = 100" for place
    using that by (cases place) (simp add: depth_agrees_def example_watcher_def require_evidence_def)
  have verdict: "verdict (if paid then 1 else 0) paid paid paid paid = Inr ()"
    by (simp add: verdict_def require_evidence_def)
  have config: "wt_chain_id example_watcher = 8453" "wt_finality_boundary example_watcher = ''safe''"
    "wt_executor_code_hash example_watcher = None"
    by (simp_all add: example_watcher_def)
  have codes: "require_codes example_watcher b (chain_env paid) w =
      (w\<lparr>w_tick := Suc (Suc (w_tick w))\<rparr>, Inr ())" for b w
    by (simp add: require_codes_def code_at_def bind_def library_def lift_result_Inr chain_answers
        chain_rpc_def example_fields config require_evidence_def ret_def)
  have chain: "require_chain_id example_watcher (chain_env paid) w = (w\<lparr>w_tick := Suc (w_tick w)\<rparr>, Inr ())" for w
    by (simp add: require_chain_id_def bind_def lift_result_Inr chain_answers chain_rpc_def example_fields
        config require_evidence_def)
  have gather: "\<exists>t. gather_evidence example_watcher False example_row example_transaction (example_receipt paid)
      (chain_env paid) w = (w\<lparr>w_tick := t\<rparr>, Inr (example_evidence paid))" for w
    by (simp add: gather_evidence_def place bind_def lift_result_Inr chain_answers chain_rpc_def hex config
        block boundary depth codes example_flags example_events verdict ret_def example_evidence_def)
      (rule exI, rule refl)
  have tx: "(case chain_rpc paid 0 ''eth_getTransactionByHash'' ps of RpcValue v \<Rightarrow> v) = PDict example_transaction"
    "(case chain_rpc paid 0 ''eth_getTransactionReceipt'' ps of RpcValue v \<Rightarrow> v) = PDict (example_receipt paid)" for ps
    by (simp_all add: chain_rpc_def)
  let ?u = "w\<lparr>w_tick := Suc (Suc (Suc (w_tick w)))\<rparr>"
  obtain t where "gather_evidence example_watcher False example_row example_transaction (example_receipt paid)
      (chain_env paid) ?u = (?u\<lparr>w_tick := t\<rparr>, Inr (example_evidence paid))" using gather by blast
  then have "observe example_watcher False example_row (chain_env paid) w =
      (w\<lparr>w_tick := t\<rparr>, Inr (Observed (example_evidence paid)))"
    by (simp add: observe_def recover_def chain_evidence_of_def example_scope bind_def lift_result_Inr chain
        chain_answers tx library_def example_call ret_def)
  then show ?thesis by blast
qed

lemma example_reports:
  "case snd (confirm example_config example_eid (observation_report example_watcher 1 (example_evidence True))
       (Some (evidence_of example_watcher (example_evidence True))) 1100 submitted_repo) of
     Inr e \<Rightarrow> status e = CONFIRMED | _ \<Rightarrow> False"
  "case snd (revert example_config example_eid (observation_report example_watcher 0 (example_evidence False))
       False (Some (evidence_of example_watcher (example_evidence False))) 1100 submitted_repo) of
     Inr e \<Rightarrow> status e = REVERTED | _ \<Rightarrow> False"
  by code_simp+

definition watched :: "bool \<Rightarrow> world \<times> (relay_error + watch_result)" where
  "watched paid = watch example_watcher example_eid (chain_env paid) (world_of submitted_repo)"

lemma watched_action:
  "\<exists>r. snd (watched True) = Inr r \<and> wr_action r \<in> {''confirmed'', ''finalized''}"
  "\<exists>r. snd (watched False) = Inr r \<and> wr_action r = ''reverted''"
proof -
  have start: "watched paid = watch_submitted example_watcher example_row example_eid (chain_env paid)
      ((world_of submitted_repo)\<lparr>w_tick := 1\<rparr>)" for paid
    by (simp add: watched_def watch_def repo_read_def repo_op_def bind_def Let_def example_row world_of_def)
  have seen: "\<exists>t. watched paid = recover
      (if paid then confirm_observed example_watcher example_eid (example_evidence True)
       else revert_observed example_watcher example_eid (example_evidence False))
      (\<lambda>_. ret (unchanged_result example_eid SUBMITTED ''repository_rejected'' None)) (chain_env paid)
      ((world_of submitted_repo)\<lparr>w_tick := t\<rparr>)" for paid
  proof -
    obtain t where "observe example_watcher False example_row (chain_env paid)
        ((world_of submitted_repo)\<lparr>w_tick := 1\<rparr>) =
        ((world_of submitted_repo)\<lparr>w_tick := t\<rparr>, Inr (Observed (example_evidence paid)))"
      using example_observed [of paid "(world_of submitted_repo)\<lparr>w_tick := 1\<rparr>"] by auto
    moreover have "ev_receipt_status (example_evidence paid) = (if paid then 1 else 0)"
      by (simp add: example_evidence_def)
    ultimately show ?thesis
      unfolding start by (cases paid) (auto simp: watch_submitted_def bind_def example_row)
  qed
  obtain e s where confirmed: "confirm example_config example_eid
      (observation_report example_watcher 1 (example_evidence True))
      (Some (evidence_of example_watcher (example_evidence True))) 1100 submitted_repo = (s, Inr e)"
      "status e = CONFIRMED"
    using example_reports(1) by (auto split: sum.splits) (metis prod.collapse)
  obtain e' s' where reverted: "revert example_config example_eid
      (observation_report example_watcher 0 (example_evidence False)) False
      (Some (evidence_of example_watcher (example_evidence False))) 1100 submitted_repo = (s', Inr e')"
    using example_reports(2) by (auto split: sum.splits) (metis prod.collapse)
  note step = recover_def bind_def clocked_def repo_clock_def ask_def repo_op_def Let_def ret_def world_of_def
  show "\<exists>r. snd (watched True) = Inr r \<and> wr_action r \<in> {''confirmed'', ''finalized''}"
    using seen [of True] confirmed
    by (auto simp: confirm_observed_def step split: prod.split sum.split)
  show "\<exists>r. snd (watched False) = Inr r \<and> wr_action r = ''reverted''"
    using seen [of False] reverted
    by (auto simp: revert_observed_def step)
qed

lemma submitted_reachable: "repo_reachable example_config submitted_repo"
proof -
  have "submitted_repo = run_calls example_config
      [PersistSigned example_eid example_sig example_raw 1 None 1003,
       ClaimSubmission example_eid 1004, MarkSubmitted example_eid 1005] reserved_repo"
    by (simp add: submitted_repo_def)
  then show ?thesis using reachable_run_calls [OF reserved_reachable] by metis
qed

section \<open>Properties\<close>

text \<open>
  C28. A payment is only confirmed when it happened: whenever the watcher reports an execution as
  confirmed or finalized, the row it has by then is settled on the chain. The provider answered
  with a transaction from the row's relayer and nonce that calls the executor with the row's own
  authorization, and with its successful receipt in a canonical block deep enough under the
  boundary, whose only Executor event and only token transfer are those of the row's payment.
\<close>

theorem confirmed_execution_was_paid:
  assumes "repo_reachable (env_config env) (w_repo w)" "snd (watch wt eid env w) = Inr r"
    and "wr_action r \<in> {''confirmed'', ''finalized''}"
  shows "\<exists>e \<in> set (executions (w_repo (fst (watch wt eid env w)))). \<exists>ev.
    execution_id e = eid \<and> settlement env wt e ev \<and> ev_receipt_status ev = 1"
  using watch_justified [OF assms(1,2)] assms(3) unfolding justified_def settles_def by blast

theorem confirmed_execution_was_paid_witness:
  "\<exists>e \<in> set (executions (w_repo (fst (watched True)))). \<exists>ev.
     settlement (chain_env True) example_watcher e ev \<and> ev_receipt_status ev = 1"
proof -
  obtain r where "snd (watched True) = Inr r" "wr_action r \<in> {''confirmed'', ''finalized''}"
    using watched_action(1) by blast
  then show ?thesis
    using confirmed_execution_was_paid [of "chain_env True" "world_of submitted_repo" example_watcher example_eid]
      submitted_reachable
    unfolding watched_def by fastforce
qed



text \<open>
  C34. The watcher and the relayer agree on the calldata of an execution: with the documented ABI
  layout, the watcher accepts as the input of a validated intent's transaction exactly the bytes
  the encoder makes from the intent's authorization and any 65-byte signature. The relayer's
  calldata is never refused, and no other calldata passes for it.
\<close>

theorem watcher_accepts_encoded_calldata:
  assumes "validate_intent i0 = Some i" "authorization_of r i = Inr a"
    and "standard_abi lib" "length (EXECUTE_SELECTOR lib) = 4"
  shows "(accepts_input lib i (PStr (''0x'' @ to_hex b)) \<longleftrightarrow>
      (\<exists>sig. length sig = 65 \<and> b = EXECUTE_SELECTOR lib @ abi_encode lib [AbiTuple (execution_values a), AbiBytes sig]))
    \<and> (encode_execute_calldata lib a sig = Inr b \<longrightarrow> accepts_input lib i (PStr (''0x'' @ to_hex b)))"
proof -
  have scope: "well_formed_scope i" by (rule validated_scope [OF assms(1)])
  have a: "make_authorization i (int (read_nat (amount_atomic i))) (Some (rl_chain_id r)) = Inr a"
    using assms(2) by (simp add: authorization_of_def)
  have layout: "abi_encode lib [AbiTuple (execution_values a), AbiBytes sig] = call_layout (execution_values a) sig" for sig
    using assms(3) length_execution_words [OF scope a] by (simp add: standard_abi_def)
  show ?thesis
    using accepts_input_bytes [OF scope a assms(4), of b] calldata_eq [OF assms(3) scope a, of sig b]
    by (auto simp: layout)
qed

theorem watcher_accepts_encoded_calldata_witness:
  "\<exists>b. accepts_input abi_lib example_intent (PStr (''0x'' @ to_hex b))"
proof -
  obtain a where "authorization_of example_relayer example_intent = Inr a"
    using example_authorizes by (auto split: sum.splits)
  from watcher_accepts_encoded_calldata [OF example_validates this standard_abi_lib]
  show ?thesis by (metis length_replicate)
qed

section \<open>The loop ends, and two observations on reorganisations\<close>

text \<open>
  Once the stop event is set for good, the polling loop returns within as many rounds as there are
  moments before it, whatever the provider answers and whatever an item raises.
\<close>

theorem polling_loop_stops:
  assumes "make_watcher x h v d c t b k = Inr wt" "1 \<le> n" "n \<le> 1000" "\<And>t. T \<le> t \<Longrightarrow> stops t"
  shows "snd (run_rounds (Suc T) wt n stops cursor env w) = Inr True"
proof -
  have "hosted_chain_profile (wt_chain wt) \<noteq> None"
    using assms(1)
    by (auto simp: make_watcher_def and_then_eq_Inr hosted_chain_profile_def HOSTED_CHAIN_PROFILES_def
        mk_profile_def split: if_splits)
  then have "\<And>c. returns env (run_once wt n stops c)" using assms(2,3) by (rule returns_run_once)
  from run_rounds_stop [OF this assms(4)] show ?thesis by simp
qed

text \<open>An observation that speaks for a reorganisation never carries the block it saw.\<close>

lemma reorg_evidence_lacks_block:
  assumes "seen = Unobserved reason True"
  shows "\<exists>rest. reorg_evidence_for wt e seen reason =
    PDict ((''canonical'', PBool False) # (''observed_block_hash'', PStr ''unknown'') # rest)"
  using assms by (simp add: reorg_evidence_for_def observed_block_hash_def)

text \<open>A finalized execution whose transaction the provider no longer knows is left as it is.\<close>

definition plain_failures :: "relay_env \<Rightarrow> 'a relay \<Rightarrow> bool" where
  "plain_failures env m \<longleftrightarrow> (\<forall>w reason. snd (m env w) \<noteq> Inl (EvidenceError reason True))"

lemma plain_bind:
  assumes "plain_failures env m" "yields env m A" "\<And>x. A x \<Longrightarrow> plain_failures env (f x)"
  shows "plain_failures env (bind m f)"
  unfolding plain_failures_def
proof (intro allI)
  fix w reason
  obtain v r where m: "m env w = (v, r)" by (cases "m env w")
  show "snd (bind m f env w) \<noteq> Inl (EvidenceError reason True)"
  proof (cases r)
    case (Inl e)
    with m assms(1) show ?thesis by (auto simp: bind_def plain_failures_def) (metis snd_conv)
  next
    case (Inr x)
    with m assms(2) have "A x" unfolding yields_def by (metis snd_conv)
    from assms(3) [OF this] m Inr show ?thesis by (simp add: bind_def plain_failures_def)
  qed
qed

lemma plain_rpc: "plain_failures env (rpc_call m ps)"
  by (auto simp: plain_failures_def rpc_call_def inspection_call_def bind_def ask_def ret_def
      lift_result_def unfit_def fail_def split: rpc_reply.splits)

lemma plain_lift: "(\<And>reason. r \<noteq> Inl (EvidenceError reason True)) \<Longrightarrow> plain_failures env (lift_result id r)"
  by (cases r) (auto simp: plain_failures_def lift_result_def fail_def ret_def)

lemma vanished_transaction_not_reviewed:
  assumes "\<And>t ps. env_inspect env t ''eth_getTransactionByHash'' ps = RpcValue PNone"
    and "snd (watch_finalized wt e env w) = Inr r"
  shows "wr_action r = ''unchanged''"
proof -
  have field: "hex_field n v f \<noteq> Inl (EvidenceError q True)" "watch_quantity v f \<noteq> Inl (EvidenceError q True)"
    "require_evidence c f \<noteq> Inl (EvidenceError q True)" for n v f q c
    by (auto simp: hex_field_def watch_quantity_def require_evidence_def unfit_def split: pyval.splits)
  have scope: "observed_scope wt e \<noteq> Inl (EvidenceError q True)" for q
    using field unfolding observed_scope_def
    by (auto simp: and_then_eq_Inl watch_address_def watch_hash_def unfit_def split: option.split)
  have chain: "plain_failures env (require_chain_id wt)"
    unfolding require_chain_id_def
    by (intro plain_bind [OF _ yields_any] plain_rpc plain_lift field)
  have gone: "yields env (rpc_call ''eth_getTransactionByHash'' ps) (\<lambda>v. v = PNone)" for ps
    using yields_rpc [of env "''eth_getTransactionByHash''" ps] assms(1) by (auto simp: yields_def answered_def)
  have "plain_failures env (chain_evidence_of wt True e)"
    unfolding chain_evidence_of_def
    by (rule plain_bind [OF plain_lift [OF scope] yields_any], clarsimp,
        rule plain_bind [OF chain yields_any], rule plain_bind [OF plain_rpc gone],
        rule plain_bind [OF plain_rpc yields_any])
      (auto intro!: plain_lift simp: unfit_def split: pyval.split)
  then have plain: "snd (observe wt True e env w) \<noteq> Inr (Unobserved reason True)" for w reason
    by (auto simp: observe_def recover_def bind_def ret_def plain_failures_def
        split: prod.splits sum.splits relay_error.splits) (metis snd_conv)
  obtain v seen where seen: "observe wt True e env w = (v, seen)" by (cases "observe wt True e env w")
  with plain have "seen \<noteq> Inr (Unobserved reason True)" for reason by (metis snd_conv)
  with assms(2) seen show ?thesis
    by (auto simp: watch_finalized_def bind_def Let_def ret_def unchanged_result_def
        split: sum.splits watch_observation.splits if_splits)
qed

end
