(* ===== verification/Funding_Rows.thy ===== *)
theory Funding_Rows
  imports Json_Text
begin

text \<open>
  The tables of Core funding: the rows of \<open>apps/core/services/funding_service/ledger.py\<close> and
  the account rows it locks (\<open>apps/core/services/account_service/repository.py\<close>,
  \<open>opc_service.py\<close>), with the standard-library pieces their operations use. A
  \<open>datetime\<close> is its UTC instant in microseconds since the epoch (so \<open>_utc\<close> is the
  identity), a \<open>date\<close> the number of its day, and a \<open>Decimal\<close> an exact rational.
  Column names carry the table's prefix where tables share a name.
\<close>

section \<open>Time\<close>

definition MICROS_PER_HOUR :: int where
  "MICROS_PER_HOUR = 3600000000"

definition MICROS_PER_DAY :: int where
  "MICROS_PER_DAY = 86400000000"

text \<open>\<open>now.date()\<close> of a UTC instant.\<close>

definition date_of :: "int \<Rightarrow> int" where
  "date_of t = t div MICROS_PER_DAY"

text \<open>The proleptic Gregorian calendar of Python's \<open>datetime\<close>.\<close>

definition days_from_civil :: "int \<Rightarrow> int \<Rightarrow> int \<Rightarrow> int" where
  "days_from_civil y m d =
     (let y' = (if m \<le> 2 then y - 1 else y);
          era = y' div 400; yoe = y' mod 400;
          doy = (153 * (if 2 < m then m - 3 else m + 9) + 2) div 5 + d - 1;
          doe = yoe * 365 + yoe div 4 - yoe div 100 + doy
      in era * 146097 + doe - 719468)"

definition civil_from_days :: "int \<Rightarrow> int \<times> int \<times> int" where
  "civil_from_days z0 =
     (let z = z0 + 719468; era = z div 146097; doe = z mod 146097;
          yoe = (doe - doe div 1460 + doe div 36524 - doe div 146096) div 365;
          doy = doe - (365 * yoe + yoe div 4 - yoe div 100);
          mp = (5 * doy + 2) div 153;
          d = doy - (153 * mp + 2) div 5 + 1;
          m = (if mp < 10 then mp + 3 else mp - 9);
          y = yoe + era * 400
      in (if m \<le> 2 then y + 1 else y, m, d))"

definition is_leap_year :: "int \<Rightarrow> bool" where
  "is_leap_year y \<longleftrightarrow> y mod 4 = 0 \<and> (y mod 100 \<noteq> 0 \<or> y mod 400 = 0)"

definition days_in_month :: "int \<Rightarrow> int \<Rightarrow> int" where
  "days_in_month y m =
     (if m = 2 then if is_leap_year y then 29 else 28
      else if m \<in> {4, 6, 9, 11} then 30 else 31)"

definition pad_digits :: "nat \<Rightarrow> int \<Rightarrow> string" where
  "pad_digits n i = (let s = show_nat (nat i) in replicate (n - length s) CHR ''0'' @ s)"

text \<open>\<open>date.isoformat()\<close>, and \<open>fromisoformat\<close> on that form, the only one the code stores.\<close>

definition isoformat_date :: "int \<Rightarrow> string" where
  "isoformat_date day =
     (case civil_from_days day of
        (y, m, d) \<Rightarrow> pad_digits 4 y @ ''-'' @ pad_digits 2 m @ ''-'' @ pad_digits 2 d)"

definition digits_field :: "nat \<Rightarrow> nat \<Rightarrow> string \<Rightarrow> int option" where
  "digits_field i n s =
     (let f = take n (drop i s)
      in if length f = n \<and> is_digits f then Some (int (read_nat f)) else None)"

definition valid_date :: "int \<Rightarrow> int \<Rightarrow> int \<Rightarrow> bool" where
  "valid_date y m d \<longleftrightarrow> 1 \<le> y \<and> 1 \<le> m \<and> m \<le> 12 \<and> 1 \<le> d \<and> d \<le> days_in_month y m"

definition char_at :: "nat \<Rightarrow> char \<Rightarrow> string \<Rightarrow> bool" where
  "char_at i c s \<longleftrightarrow> take 1 (drop i s) = [c]"

definition date_prefix :: "string \<Rightarrow> int option" where
  "date_prefix s =
     (case (digits_field 0 4 s, digits_field 5 2 s, digits_field 8 2 s) of
        (Some y, Some m, Some d) \<Rightarrow>
          if char_at 4 CHR ''-'' s \<and> char_at 7 CHR ''-'' s \<and> valid_date y m d
          then Some (days_from_civil y m d) else None
      | _ \<Rightarrow> None)"

definition parse_iso_date :: "pyval \<Rightarrow> py_error + int" where
  "parse_iso_date v =
     (case v of
        PStr s \<Rightarrow>
          (case date_prefix s of
             Some day \<Rightarrow> if length s = 10 then Inr day else Inl (ValueErr ''Invalid isoformat string'')
           | None \<Rightarrow> Inl (ValueErr ''Invalid isoformat string''))
      | _ \<Rightarrow> Inl TypeErr)"

text \<open>
  A timestamp \<open>YYYY-MM-DDTHH:MM:SS[.ffffff]Z\<close> that \<open>fromisoformat\<close> accepts and
  \<open>isoformat\<close> prints back: a fraction has six digits and is not zero.
\<close>

definition time_fields_ok :: "string \<Rightarrow> bool" where
  "time_fields_ok s \<longleftrightarrow>
     char_at 10 CHR ''T'' s \<and> char_at 13 CHR '':'' s \<and> char_at 16 CHR '':'' s \<and>
     (case (digits_field 11 2 s, digits_field 14 2 s, digits_field 17 2 s) of
        (Some h, Some mi, Some sec) \<Rightarrow> h < 24 \<and> mi < 60 \<and> sec < 60
      | _ \<Rightarrow> False)"

definition canonical_utc_timestamp :: "string \<Rightarrow> bool" where
  "canonical_utc_timestamp s \<longleftrightarrow>
     date_prefix s \<noteq> None \<and> time_fields_ok s \<and>
     (drop 19 s = ''Z'' \<or>
      (length s = 27 \<and> char_at 19 CHR ''.'' s \<and> char_at 26 CHR ''Z'' s \<and>
       (case digits_field 20 6 s of Some f \<Rightarrow> 0 < f | None \<Rightarrow> False)))"

section \<open>Decimal strings\<close>

text \<open>The value of a numeral is computed on integers, digit by digit.\<close>

lemma int_read_nat [code_unfold]:
  "int (read_nat s) = foldl (\<lambda>a c. 10 * a + int (ord c - 48)) 0 s"
proof -
  have "int (foldl (\<lambda>a c. 10 * a + (ord c - 48)) n s) = foldl (\<lambda>a c. 10 * a + int (ord c - 48)) (int n) s" for n
    by (induction s arbitrary: n) simp_all
  from this [of 0] show ?thesis by (simp add: read_nat_def)
qed

text \<open>\<open>Decimal(s)\<close> of a finite plain or scientific numeral; other texts are an error.\<close>

definition split_at_char :: "(char \<Rightarrow> bool) \<Rightarrow> string \<Rightarrow> string \<times> string" where
  "split_at_char p s = (takeWhile (\<lambda>c. \<not> p c) s, drop 1 (dropWhile (\<lambda>c. \<not> p c) s))"

definition strip_sign :: "string \<Rightarrow> bool \<times> string" where
  "strip_sign s =
     (case s of
        [] \<Rightarrow> (False, [])
      | c # cs \<Rightarrow> if c = CHR ''-'' then (True, cs) else if c = CHR ''+'' then (False, cs) else (False, s))"

definition signed :: "bool \<Rightarrow> int \<Rightarrow> int" where
  "signed negative i = (if negative then - i else i)"

definition scale10 :: "rat \<Rightarrow> int \<Rightarrow> rat" where
  "scale10 q e = (if 0 \<le> e then q * 10 ^ nat e else q / 10 ^ nat (- e))"

text \<open>\<open>Decimal\<close> ignores white space around the number and underscores anywhere in it.\<close>

definition decimal_space :: "char \<Rightarrow> bool" where
  "decimal_space c \<longleftrightarrow>
     ord c = 32 \<or> (9 \<le> ord c \<and> ord c \<le> 13) \<or> (28 \<le> ord c \<and> ord c \<le> 31)"

definition decimal_text :: "string \<Rightarrow> string" where
  "decimal_text s =
     filter (\<lambda>c. c \<noteq> CHR ''_'')
       (rev (dropWhile decimal_space (rev (dropWhile decimal_space s))))"

definition decimal_of :: "string \<Rightarrow> rat option" where
  "decimal_of text =
     (case strip_sign (decimal_text text) of (negative, body) \<Rightarrow>
      case split_at_char (\<lambda>c. c = CHR ''e'' \<or> c = CHR ''E'') body of (mantissa, exponent) \<Rightarrow>
      case split_at_char (\<lambda>c. c = CHR ''.'') mantissa of (whole, fraction) \<Rightarrow>
      case strip_sign exponent of (negexp, digits) \<Rightarrow>
        if list_all is_digit_char whole \<and> list_all is_digit_char fraction \<and> whole @ fraction \<noteq> []
           \<and> list_all is_digit_char digits
           \<and> (list_ex (\<lambda>c. c = CHR ''e'' \<or> c = CHR ''E'') body \<longrightarrow> digits \<noteq> [])
        then Some (scale10 (of_int (signed negative (int (read_nat (whole @ fraction)))))
               (signed negexp (int (read_nat digits)) - int (length fraction)))
        else None)"

text \<open>\<open>Decimal(v)\<close> of a JSON value.\<close>

definition decimal_of_value :: "pyval \<Rightarrow> py_error + rat" where
  "decimal_of_value v =
     (case v of
        PStr s \<Rightarrow> lift_opt DecimalErr (decimal_of s)
      | PInt i \<Rightarrow> Inr (of_int i)
      | PBool b \<Rightarrow> Inr (if b then 1 else 0)
      | _ \<Rightarrow> Inl TypeErr)"

text \<open>\<open>_atomic_amount\<close>.\<close>

definition atomic_amount :: "string \<Rightarrow> py_error + int" where
  "atomic_amount s =
     (if is_digits s then Inr (int (read_nat s))
      else Inl (ValueErr ''amount_atomic must be a non-negative base-10 integer''))"

section \<open>Account rows\<close>

record wallet_identity_row =
  wallet_identity_id :: string
  wi_user_id :: string
  wi_chain_family :: string
  wi_wallet_address :: string
  wi_status :: string
  wi_proof_scheme :: string
  wi_proof_hash :: string
  wi_verified_at :: "int option"
  wi_created_at :: int
  wi_updated_at :: int

record audit_event_row =
  ae_event_id :: string
  ae_idempotency_key :: "string option"
  ae_event_type :: string
  ae_source_service :: string
  ae_action_id :: pyval
  ae_user_id :: "string option"
  ae_agent_id :: "string option"
  ae_policy_decision_id :: pyval
  ae_payment_id :: pyval
  ae_order_id :: pyval
  ae_receipt_id :: pyval
  ae_tx_hash :: pyval
  ae_payload :: pydict
  ae_created_at :: int

record spending_grant_row =
  spending_grant_id :: string
  grant_wallet_identity_id :: string
  grant_user_id :: string
  grant_agent_id :: string
  grant_status :: string
  grant_status_reason :: "string option"
  max_amount_usdc :: rat
  per_transaction_limit_usdc :: rat
  hourly_limit_usdc :: rat
  daily_limit_usdc :: rat
  used_amount_usdc :: rat
  reserved_amount_usdc :: rat
  product_scopes :: "string list"
  venue_scopes :: "string list"
  merchant_scopes :: "string list"
  merchant_trust_scopes :: "string list"
  notification_mode :: string
  network_scopes :: "string list"
  asset_scopes :: "string list"
  starts_at :: int
  expires_at :: int
  grant_created_at :: int
  grant_updated_at :: int

record asset_allowance_row =
  asset_allowance_id :: string
  aa_wallet_identity_id :: string
  aa_network :: string
  aa_token_address :: string
  aa_token_symbol :: string
  aa_token_decimals :: int
  aa_spender_address :: string
  approved_amount_atomic :: int
  observed_allowance_atomic :: int
  allowance_tx_hash :: "string option"
  aa_status :: string
  confirmed_block :: "int option"
  last_chain_check_at :: "int option"
  aa_created_at :: int
  aa_updated_at :: int

record daily_usage_row =
  daily_usage_id :: string
  daily_spending_grant_id :: string
  daily_usage_date :: int
  daily_used_usdc :: rat
  daily_reserved_usdc :: rat
  daily_created_at :: int
  daily_updated_at :: int

record rolling_usage_row =
  rolling_reservation_id :: string
  rolling_spending_grant_id :: string
  rolling_amount_usdc :: rat
  rolling_state :: string
  rolling_occurred_at :: int
  rolling_updated_at :: int

text \<open>The columns of \<open>opc_installations\<close> that carry payment authority.\<close>

record opc_installation_row =
  installation_id :: string
  opc_status :: string
  opc_scope :: string
  opc_user_id :: "string option"
  opc_wallet_identity_id :: "string option"
  opc_spending_grant_id :: "string option"
  consent_expires_at :: "int option"
  approved_at :: "int option"

section \<open>Ledger rows\<close>

record funding_nonce_row =
  fn_network :: string
  fn_relayer_address :: string
  fn_next_nonce :: int
  fn_updated_at :: int

record transaction_binding_row =
  binding_tx_hash :: string
  binding_reservation_id :: string
  binding_created_at :: int

record ledger_row =
  record_id :: string
  record_type :: string
  lr_purchase_id :: "string option"
  lr_idempotency_key :: "string option"
  lr_action_id :: "string option"
  lr_policy_decision_id :: "string option"
  lr_reservation_id :: "string option"
  lr_tx_hash :: "string option"
  lr_token_address :: pyval
  lr_payload :: pydict
  lr_updated_at :: int

record funding_db =
  ledger_records :: "ledger_row list"
  transaction_bindings :: "transaction_binding_row list"
  funding_nonces :: "funding_nonce_row list"
  wallet_identities :: "wallet_identity_row list"
  spending_grants :: "spending_grant_row list"
  asset_allowances :: "asset_allowance_row list"
  daily_usages :: "daily_usage_row list"
  rolling_usages :: "rolling_usage_row list"
  opc_installations :: "opc_installation_row list"
  audit_events :: "audit_event_row list"

definition empty_funding_db :: funding_db where
  "empty_funding_db =
     \<lparr>ledger_records = [], transaction_bindings = [], funding_nonces = [], wallet_identities = [],
      spending_grants = [], asset_allowances = [], daily_usages = [], rolling_usages = [],
      opc_installations = [], audit_events = []\<rparr>"

section \<open>Dictionary access\<close>

text \<open>\<open>d[k]\<close>; \<open>v in {...}\<close> on a set of strings and \<open>None\<close>; \<open>v is True\<close>.\<close>

definition ditem :: "pydict \<Rightarrow> string \<Rightarrow> py_error + pyval" where
  "ditem d k = (case map_of d k of None \<Rightarrow> Inl (KeyErr k) | Some v \<Rightarrow> Inr v)"

definition in_set :: "pyval \<Rightarrow> pyval list \<Rightarrow> py_error + bool" where
  "in_set v xs = (if hashable v then Inr (list_ex (py_eq v) xs) else Inl TypeErr)"

definition is_str :: "pyval \<Rightarrow> string \<Rightarrow> bool" where
  "is_str v s \<longleftrightarrow> v = PStr s"

definition is_true :: "pyval \<Rightarrow> bool" where
  "is_true v \<longleftrightarrow> v = PBool True"

definition opt_str :: "string option \<Rightarrow> pyval" where
  "opt_str x = (case x of None \<Rightarrow> PNone | Some s \<Rightarrow> PStr s)"

text \<open>\<open>any\<close> and the loops of checks: the first that raises or holds decides.\<close>

fun any_check :: "('a \<Rightarrow> py_error + bool) \<Rightarrow> 'a list \<Rightarrow> py_error + bool" where
  "any_check p [] = Inr False"
| "any_check p (x # xs) = and_then (p x) (\<lambda>b. if b then Inr True else any_check p xs)"

fun all_checks :: "('a \<Rightarrow> py_error + unit) \<Rightarrow> 'a list \<Rightarrow> py_error + unit" where
  "all_checks p [] = Inr ()"
| "all_checks p (x # xs) = and_then (p x) (\<lambda>_. all_checks p xs)"

definition reject_if :: "bool \<Rightarrow> string \<Rightarrow> py_error + unit" where
  "reject_if c msg = (if c then Inl (ValueErr msg) else Inr ())"

lemma reject_if_Inr [simp]: "reject_if c msg = Inr u \<longleftrightarrow> \<not> c"
  by (simp add: reject_if_def)

lemma any_check_InrD: "any_check p xs = Inr False \<Longrightarrow> x \<in> set xs \<Longrightarrow> p x = Inr False"
  by (induction xs) (auto simp: result_simps split: if_splits)

lemma ditem_dget: "ditem d k = Inr v \<Longrightarrow> dget d k = v"
  by (simp add: ditem_def dget_def split: option.splits)

end
