(* ===== verification/Funding_Reservation.thy ===== *)
theory Funding_Reservation
  imports Funding_Rows
begin

text \<open>
  The rules every stored reservation obeys (\<open>funding_service/ledger.py\<close>): unified
  provenance, the immutable fields a replacement must keep, canonical transaction hashes,
  and the state of a single-submission reservation. A reservation is the JSON dictionary the
  code keeps; each \<open>raise\<close> is a branch of the result.
\<close>

section \<open>Unified provenance\<close>

definition LEGACY_READ_ONLY_ERROR :: string where
  "LEGACY_READ_ONLY_ERROR = ''legacy spending authorizations are read-only''"

definition UNIFIED_RESERVATION_PROVENANCE_FIELDS :: "string list" where
  "UNIFIED_RESERVATION_PROVENANCE_FIELDS =
     [''reservation_id'', ''wallet_identity_id'', ''spending_grant_id'', ''authorization_rail'',
      ''product'', ''network'', ''token_address'', ''token_symbol'', ''token_decimals'']"

definition NATIVE_ALLOWANCE_PROVENANCE_FIELDS :: "string list" where
  "NATIVE_ALLOWANCE_PROVENANCE_FIELDS = [''asset_allowance_id'', ''spender_address'']"

definition EXTERNAL_X402_PROVENANCE_FIELDS :: "string list" where
  "EXTERNAL_X402_PROVENANCE_FIELDS = [''token_address'', ''token_symbol'', ''token_decimals'']"

text \<open>\<open>row.get(field) in {None, ""}\<close>.\<close>

definition blank :: "pydict \<Rightarrow> string \<Rightarrow> py_error + bool" where
  "blank row field = in_set (dget row field) [PNone, PStr '''']"

definition is_py_bool :: "pyval \<Rightarrow> bool" where
  "is_py_bool v \<longleftrightarrow> (case v of PBool _ \<Rightarrow> True | _ \<Rightarrow> False)"

definition rail_is :: "pydict \<Rightarrow> string list \<Rightarrow> py_error + bool" where
  "rail_is row rails = in_set (dget row ''authorization_rail'') (map PStr rails)"

definition ALLOWANCE_RAILS :: "string list" where
  "ALLOWANCE_RAILS = [''native_allowance'', ''clink_payer_proxy'']"

definition require_rail_provenance :: "pydict \<Rightarrow> py_error + unit" where
  "require_rail_provenance row =
     and_then (rail_is row ALLOWANCE_RAILS) (\<lambda>allowance_backed.
       if allowance_backed then
         and_then (any_check (blank row) NATIVE_ALLOWANCE_PROVENANCE_FIELDS) (\<lambda>missing.
           reject_if missing ''native allowance provenance is incomplete'')
       else if is_str (dget row ''authorization_rail'') ''external_x402'' then
         if dget row ''asset_allowance_id'' \<noteq> PNone \<or> dget row ''spender_address'' \<noteq> PNone
         then Inl (ValueErr ''external x402 must not contain allowance provenance'')
         else and_then (any_check (blank row) EXTERNAL_X402_PROVENANCE_FIELDS) (\<lambda>missing.
           reject_if missing ''external x402 asset provenance is incomplete'')
       else Inl (ValueErr ''unified reservation authorization rail is invalid''))"

definition require_unified_reservation :: "pydict \<Rightarrow> py_error + unit" where
  "require_unified_reservation row =
     (if \<not> is_str (dget row ''authorization_path'') ''unified_grant''
      then Inl (ValueErr LEGACY_READ_ONLY_ERROR)
      else and_then (any_check (blank row) UNIFIED_RESERVATION_PROVENANCE_FIELDS) (\<lambda>missing.
        if missing then Inl (ValueErr ''unified authorization references are incomplete'')
        else if \<not> is_py_bool (dget_or row ''single_submission'' (PBool False))
        then Inl (ValueErr ''single-submission provenance is invalid'')
        else if is_str (dget row ''product'') ''prediction_markets''
          \<and> \<not> is_true (dget_or row ''single_submission'' (PBool False))
        then Inl (ValueErr ''prediction-markets reservations require single submission'')
        else if \<not> is_py_bool (dget_or row ''replacement_forbidden'' (PBool False))
        then Inl (ValueErr ''single-submission replacement state is invalid'')
        else require_rail_provenance row))"

section \<open>Immutable fields\<close>

definition RESERVATION_IMMUTABLE_FIELDS :: "string list" where
  "RESERVATION_IMMUTABLE_FIELDS =
     [''reservation_id'', ''purchase_id'', ''idempotency_key'', ''user_id'', ''agent_id'',
      ''action_id'', ''policy_decision_id'', ''quote_hash'', ''product'', ''single_submission'',
      ''venue'', ''merchant_id'', ''destination'', ''resource'', ''network'', ''asset'',
      ''token_address'', ''token_symbol'', ''token_decimals'', ''spender_address'',
      ''wallet_identity_id'', ''spending_grant_id'', ''asset_allowance_id'',
      ''opc_installation_id'', ''amount_usdc'', ''amount_atomic'', ''authorization_rail'',
      ''authorization_path'', ''authorization_source'', ''spending_authorization_id'',
      ''usage_date'', ''nonce'', ''valid_after'', ''valid_before'', ''settlement_transaction'']"

definition SINGLE_SUBMISSION_CANONICAL_FIELDS :: "string list" where
  "SINGLE_SUBMISSION_CANONICAL_FIELDS =
     [''tx_hash'', ''settlement_sender'', ''settlement_nonce'', ''settlement_transaction'']"

definition is_py_dict :: "pyval \<Rightarrow> bool" where
  "is_py_dict v \<longleftrightarrow> (case v of PDict _ \<Rightarrow> True | _ \<Rightarrow> False)"

text \<open>
  The two exceptions of the native transaction: it may be sealed once, and a proven failure
  may reset it when the reservation is not a single submission.
\<close>

definition seals_transaction :: "pydict \<Rightarrow> pydict \<Rightarrow> string \<Rightarrow> bool" where
  "seals_transaction stored replacement field \<longleftrightarrow>
     field = ''settlement_transaction'' \<and> dget stored field = PNone \<and>
     is_py_dict (dget replacement field)"

definition resets_transaction :: "pydict \<Rightarrow> pydict \<Rightarrow> string \<Rightarrow> bool" where
  "resets_transaction stored replacement field \<longleftrightarrow>
     field = ''settlement_transaction'' \<and>
     is_str (dget replacement ''state'') ''spending_reserved'' \<and>
     dget replacement field = PNone \<and> \<not> is_true (dget stored ''single_submission'')"

definition field_changed :: "pydict \<Rightarrow> pydict \<Rightarrow> string \<Rightarrow> bool" where
  "field_changed stored replacement field \<longleftrightarrow>
     \<not> py_eq (dget stored field) (dget replacement field) \<and>
     \<not> seals_transaction stored replacement field \<and>
     \<not> resets_transaction stored replacement field"

definition canonical_field_changed :: "pydict \<Rightarrow> pydict \<Rightarrow> string \<Rightarrow> bool" where
  "canonical_field_changed stored replacement field \<longleftrightarrow>
     dget stored field \<noteq> PNone \<and> \<not> py_eq (dget stored field) (dget replacement field)"

text \<open>The failure evidence of a single submission may only grow.\<close>

definition evidence_changed :: "pydict \<Rightarrow> pydict \<Rightarrow> bool" where
  "evidence_changed stored replacement \<longleftrightarrow>
     (case (dget_or stored ''failed_submission_evidence'' (PList []),
            dget_or replacement ''failed_submission_evidence'' (PList [])) of
        (PList old, PList new) \<Rightarrow> \<not> py_eq (PList (take (length old) new)) (PList old)
      | (old, new) \<Rightarrow> \<not> py_eq old new)"

definition changed_fields :: "pydict \<Rightarrow> pydict \<Rightarrow> string list" where
  "changed_fields stored replacement =
     (let changed = filter (field_changed stored replacement) RESERVATION_IMMUTABLE_FIELDS in
      if is_true (dget stored ''single_submission'') then
        changed
        @ filter (\<lambda>f. canonical_field_changed stored replacement f \<and> f \<notin> set changed)
            SINGLE_SUBMISSION_CANONICAL_FIELDS
        @ (if is_true (dget stored ''replacement_forbidden'')
              \<and> \<not> is_true (dget replacement ''replacement_forbidden'')
           then [''replacement_forbidden''] else [])
        @ (if evidence_changed stored replacement then [''failed_submission_evidence''] else [])
      else changed)"

fun join_comma :: "string list \<Rightarrow> string" where
  "join_comma [] = ''''"
| "join_comma [x] = x"
| "join_comma (x # y # ys) = x @ '', '' @ join_comma (y # ys)"

definition require_matching_reservation_immutable_fields :: "pydict \<Rightarrow> pydict \<Rightarrow> py_error + unit" where
  "require_matching_reservation_immutable_fields stored replacement =
     (case changed_fields stored replacement of
        [] \<Rightarrow> Inr ()
      | changed \<Rightarrow> Inl (ValueErr
          (''immutable reservation provenance or spend scope changed: '' @ join_comma changed)))"

section \<open>Transaction hashes and redaction\<close>

text \<open>\<open>0[xX]\<close> and 64 hexadecimal digits, made lower case.\<close>

definition is_any_case_hash :: "string \<Rightarrow> bool" where
  "is_any_case_hash s \<longleftrightarrow>
     length s = 66 \<and> take 1 s = ''0'' \<and> take 1 (drop 1 s) \<in> {''x'', ''X''} \<and>
     list_all is_hex_char (drop 2 s)"

definition canonicalize_transaction_hash :: "pyval \<Rightarrow> py_error + string" where
  "canonicalize_transaction_hash v =
     (case v of
        PStr s \<Rightarrow>
          if is_any_case_hash s then Inr (''0x'' @ lower (drop 2 s))
          else Inl (ValueErr ''transaction hash must be 0x followed by 64 hex characters'')
      | _ \<Rightarrow> Inl (ValueErr ''transaction hash must be a string''))"

definition LEGACY_EXTERNAL_PAYMENT_FIELD :: string where
  "LEGACY_EXTERNAL_PAYMENT_FIELD = ''external_payment_response''"

definition LEGACY_SIGNED_TRANSACTION_FIELD :: string where
  "LEGACY_SIGNED_TRANSACTION_FIELD = ''settlement_raw_transaction''"

definition redact_external_payment_payload :: "pydict \<Rightarrow> pydict" where
  "redact_external_payment_payload payload =
     dpop LEGACY_SIGNED_TRANSACTION_FIELD (dpop LEGACY_EXTERNAL_PAYMENT_FIELD payload)"

section \<open>Single-submission reservations\<close>

definition populated :: "pydict \<Rightarrow> string \<Rightarrow> bool" where
  "populated payload field \<longleftrightarrow> dget payload field \<noteq> PNone"

definition any_canonical :: "pydict \<Rightarrow> bool" where
  "any_canonical payload \<longleftrightarrow> list_ex (populated payload) SINGLE_SUBMISSION_CANONICAL_FIELDS"

definition canonical_complete :: "pydict \<Rightarrow> bool" where
  "canonical_complete payload \<longleftrightarrow> list_all (populated payload) SINGLE_SUBMISSION_CANONICAL_FIELDS"

text \<open>\<open>set(v) != {...}\<close> for the expected keys of a dictionary.\<close>

definition require_keys :: "string list \<Rightarrow> string \<Rightarrow> pyval \<Rightarrow> py_error + pydict" where
  "require_keys keys msg v =
     (case v of
        PDict d \<Rightarrow> if set (map fst d) = set keys then Inr d else Inl (ValueErr msg)
      | PList xs \<Rightarrow>
          if \<not> list_all hashable xs then Inl TypeErr
          else if list_all (\<lambda>k. list_ex (py_eq (PStr k)) xs) keys
            \<and> list_all (\<lambda>x. list_ex (py_eq x) (map PStr keys)) xs
          then Inl AttributeErr else Inl (ValueErr msg)
      | PStr s \<Rightarrow> Inl (ValueErr msg)
      | _ \<Rightarrow> Inl TypeErr)"

definition TRANSACTION_KEYS :: "string list" where
  "TRANSACTION_KEYS =
     [''chainId'', ''from'', ''to'', ''value'', ''data'', ''nonce'', ''gasPrice'', ''gas'']"

definition nonce_in_range :: "pyval \<Rightarrow> bool" where
  "nonce_in_range v \<longleftrightarrow> (case v of PInt n \<Rightarrow> 0 \<le> n \<and> n < 2 ^ 64 | _ \<Rightarrow> False)"

definition validate_single_submission_transaction_binding :: "pydict \<Rightarrow> py_error + unit" where
  "validate_single_submission_transaction_binding payload =
     (if \<not> canonical_complete payload
      then Inl (ValueErr ''single-submission transaction binding is incomplete'')
      else and_then (canonicalize_transaction_hash (dget payload ''tx_hash'')) (\<lambda>canonical.
        let sender = lower (py_str (dget payload ''settlement_sender''));
            nonce = dget payload ''settlement_nonce'' in
        if dget payload ''tx_hash'' \<noteq> PStr canonical
        then Inl (ValueErr ''single-submission transaction hash is not canonical'')
        else if \<not> is_lower_hex_string 40 sender
        then Inl (ValueErr ''single-submission relayer identity is invalid'')
        else if \<not> nonce_in_range nonce
        then Inl (ValueErr ''single-submission nonce is invalid'')
        else and_then (require_keys TRANSACTION_KEYS
          ''single-submission transaction projection is invalid''
          (dget payload ''settlement_transaction'')) (\<lambda>projection.
          if lower (py_str (dget_or projection ''from'' (PStr ''''))) \<noteq> sender
          then Inl (ValueErr ''single-submission relayer binding is inconsistent'')
          else if \<not> py_eq (dget projection ''nonce'') nonce
          then Inl (ValueErr ''single-submission nonce binding is inconsistent'')
          else Inr ())))"

definition FAILURE_EVIDENCE_KEYS :: "string list" where
  "FAILURE_EVIDENCE_KEYS =
     [''kind'', ''reason_code'', ''tx_hash'', ''relayer'', ''nonce'', ''recorded_at'']"

definition allowed_reasons :: "string \<Rightarrow> string list option" where
  "allowed_reasons kind =
     (if kind = ''definite_rpc_rejection''
      then Some [''insufficient_funds'', ''intrinsic_gas_too_low'', ''invalid_sender'',
                 ''transaction_type_not_supported'']
      else if kind = ''failed_receipt'' then Some [''onchain_revert''] else None)"

definition evidence_reason_ok :: "pyval \<Rightarrow> pyval \<Rightarrow> py_error + bool" where
  "evidence_reason_ok kind reason_code =
     (if \<not> hashable kind then Inl TypeErr
      else case kind of
        PStr k \<Rightarrow>
          (case allowed_reasons k of
             None \<Rightarrow> Inr False
           | Some reasons \<Rightarrow> in_set reason_code (map PStr reasons))
      | _ \<Rightarrow> Inr False)"

definition is_canonical_timestamp_value :: "pyval \<Rightarrow> bool" where
  "is_canonical_timestamp_value v \<longleftrightarrow>
     (case v of PStr s \<Rightarrow> canonical_utc_timestamp s | _ \<Rightarrow> False)"

definition validate_failure_item :: "pydict \<Rightarrow> pyval \<Rightarrow> py_error + unit" where
  "validate_failure_item payload item =
     (case item of
        PDict d \<Rightarrow>
          if set (map fst d) \<noteq> set FAILURE_EVIDENCE_KEYS
          then Inl (ValueErr ''single-submission failure evidence is invalid'')
          else and_then (canonicalize_transaction_hash (dget d ''tx_hash'')) (\<lambda>h.
            if dget payload ''tx_hash'' \<noteq> PStr h
            then Inl (ValueErr ''single-submission failure transaction drift'')
            else if \<not> py_eq (dget d ''relayer'') (dget payload ''settlement_sender'')
            then Inl (ValueErr ''single-submission failure relayer drift'')
            else if \<not> py_eq (dget d ''nonce'') (dget payload ''settlement_nonce'')
            then Inl (ValueErr ''single-submission failure nonce drift'')
            else and_then (evidence_reason_ok (dget d ''kind'') (dget d ''reason_code'')) (\<lambda>ok.
              if \<not> ok \<or> \<not> is_canonical_timestamp_value (dget d ''recorded_at'')
              then Inl (ValueErr ''single-submission failure evidence is invalid'')
              else Inr ()))
      | _ \<Rightarrow> Inl (ValueErr ''single-submission failure evidence is invalid''))"

definition validate_single_submission_failure_evidence :: "pydict \<Rightarrow> py_error + unit" where
  "validate_single_submission_failure_evidence payload =
     (case dget_or payload ''failed_submission_evidence'' (PList []) of
        PList evidence \<Rightarrow>
          let sealed = is_true (dget payload ''replacement_forbidden'') in
          if evidence = [] \<and> \<not> sealed then Inr ()
          else if length evidence \<noteq> 1 \<or> \<not> sealed
          then Inl (ValueErr ''single-submission failure state is invalid'')
          else and_then (in_set (dget payload ''state'') [PStr ''spending_reserved'', PStr ''released''])
            (\<lambda>closing.
              if \<not> closing \<or> \<not> is_str (dget payload ''reconciliation_status'') ''failed''
                \<or> \<not> is_str (dget payload ''next_action'') ''release_reservation''
              then Inl (ValueErr ''single-submission failure state is invalid'')
              else all_checks (validate_failure_item payload) evidence)
      | _ \<Rightarrow> Inl (ValueErr ''single-submission failure evidence is invalid''))"

definition nonempty_str :: "pyval \<Rightarrow> bool" where
  "nonempty_str v \<longleftrightarrow> (case v of PStr s \<Rightarrow> s \<noteq> '''' | _ \<Rightarrow> False)"

definition validate_hosted_state :: "pydict \<Rightarrow> pyval list \<Rightarrow> py_error + unit" where
  "validate_hosted_state payload evidence =
     (let state = dget payload ''state'';
          forbidden = is_true (dget payload ''replacement_forbidden'') in
      and_then (in_set state (map PStr [''payment_submitted'', ''settled'', ''finalized'', ''reorg_review'']))
      (\<lambda>paying.
        if paying then
          reject_if (\<not> nonempty_str (dget payload ''hosted_execution_id'') \<or> forbidden \<or> evidence \<noteq> [])
            ''hosted single-submission state is invalid''
        else and_then (in_set state [PStr ''spending_reserved'', PStr ''released'']) (\<lambda>idle.
          if idle then
            reject_if (forbidden \<or> evidence \<noteq> []) ''hosted single-submission failure state is invalid''
          else Inl (ValueErr ''hosted single-submission state is invalid''))))"

definition validate_native_state :: "pydict \<Rightarrow> pyval list \<Rightarrow> py_error + unit" where
  "validate_native_state payload evidence =
     (let state = dget payload ''state'';
          forbidden = is_true (dget payload ''replacement_forbidden'') in
      if any_canonical payload \<and> \<not> canonical_complete payload
      then Inl (ValueErr ''single-submission transaction binding is incomplete'')
      else and_then (in_set state (map PStr [''payment_submitted'', ''settled'', ''finalized'']))
      (\<lambda>paying.
        if paying then
          if forbidden \<or> evidence \<noteq> []
          then Inl (ValueErr ''single-submission failure state is invalid'')
          else reject_if (\<not> canonical_complete payload)
                 ''single-submission transaction state is invalid''
        else and_then (in_set state [PStr ''spending_reserved'', PStr ''released'']) (\<lambda>idle.
          if idle then
            reject_if (if canonical_complete payload then \<not> forbidden \<or> length evidence \<noteq> 1
                       else forbidden \<or> evidence \<noteq> [])
              ''single-submission failure state is invalid''
          else Inl (ValueErr ''single-submission transaction state is invalid''))))"

text \<open>\<open>_validate_single_submission_state\<close>.\<close>

definition validate_single_submission_state :: "pydict \<Rightarrow> py_error + unit" where
  "validate_single_submission_state payload =
     (case dget_or payload ''failed_submission_evidence'' (PList []) of
        PList evidence \<Rightarrow>
          if is_str (dget payload ''settlement_rail'') ''hosted''
          then validate_hosted_state payload evidence
          else and_then (validate_native_state payload evidence) (\<lambda>_.
            validate_single_submission_failure_evidence payload)
      | _ \<Rightarrow> Inl (ValueErr ''single-submission failure evidence is invalid''))"

text \<open>The public method of the same name.\<close>

definition check_single_submission_state :: "pydict \<Rightarrow> py_error + unit" where
  "check_single_submission_state payload =
     (if is_true (dget payload ''single_submission'') then
        and_then (validate_single_submission_state payload) (\<lambda>_.
          if canonical_complete payload
          then validate_single_submission_transaction_binding payload else Inr ())
      else Inr ())"

end
