(* ===== verification/Funding_Ledger.thy ===== *)
theory Funding_Ledger
  imports Funding_Reservation
begin

text \<open>
  The store of Core funding (\<open>FundingTransaction\<close> of \<open>funding_service/ledger.py\<close>): ledger
  records with their identity columns and transaction bindings, the authorization a
  reservation refers to, the relayer nonce allocator, allowance observations and the watcher
  evidence with its audit trail. One \<open>transaction()\<close> block holds the global lock, so an
  operation reads and writes one database state; an error rolls the block back.
\<close>

section \<open>Records\<close>

definition PAYMENT_CAPABILITY_RECORD_TYPE :: string where
  "PAYMENT_CAPABILITY_RECORD_TYPE = ''payment_capability''"

definition visible_payload :: "ledger_row \<Rightarrow> pydict" where
  "visible_payload r =
     (if record_type r = ''reservation'' then redact_external_payment_payload (lr_payload r)
      else lr_payload r)"

definition get_record :: "string \<Rightarrow> funding_db \<Rightarrow> pydict option" where
  "get_record rid db = map_option visible_payload (sel_by record_id rid (ledger_records db))"

definition by_purchase :: "string \<Rightarrow> funding_db \<Rightarrow> pydict option" where
  "by_purchase pid db =
     map_option (\<lambda>r. redact_external_payment_payload (lr_payload r))
       (sel_by lr_purchase_id (Some pid) (ledger_records db))"

definition by_tx_hash :: "pyval \<Rightarrow> funding_db \<Rightarrow> py_error + pydict option" where
  "by_tx_hash h db =
     and_then (canonicalize_transaction_hash h) (\<lambda>canonical.
       case sel_by binding_tx_hash canonical (transaction_bindings db) of
         Some b \<Rightarrow>
           Inr (Some (case sel_by record_id (binding_reservation_id b) (ledger_records db) of
              Some r \<Rightarrow> redact_external_payment_payload (lr_payload r)
            | None \<Rightarrow> [(''reservation_id'', PStr (binding_reservation_id b)), (''tx_hash'', PStr canonical)]))
       | None \<Rightarrow>
           Inr (map_option (\<lambda>r. redact_external_payment_payload (lr_payload r))
             (find (\<lambda>r. map_option lower (lr_tx_hash r) = Some canonical) (ledger_records db))))"

definition list_payloads :: "string \<Rightarrow> funding_db \<Rightarrow> py_error + pydict list" where
  "list_payloads rt db =
     (if rt = PAYMENT_CAPABILITY_RECORD_TYPE
      then Inl (ValueErr ''payment capabilities require the dedicated ledger API'')
      else Inr (map visible_payload (filter (\<lambda>r. record_type r = rt) (ledger_records db))))"

section \<open>The authorization behind a reservation\<close>

definition locked_by :: "('r \<Rightarrow> string) \<Rightarrow> pyval \<Rightarrow> 'r list \<Rightarrow> 'r option" where
  "locked_by key v t = (case v of PStr s \<Rightarrow> sel_by key s t | _ \<Rightarrow> None)"

definition allowance_backed :: "pydict \<Rightarrow> bool" where
  "allowance_backed row \<longleftrightarrow>
     list_ex (is_str (dget row ''authorization_rail'')) ALLOWANCE_RAILS"

definition in_scopes :: "pyval \<Rightarrow> string list \<Rightarrow> bool" where
  "in_scopes v scopes \<longleftrightarrow> list_ex (\<lambda>s. py_eq v (PStr s)) scopes"

definition lower_text :: "pydict \<Rightarrow> string \<Rightarrow> string" where
  "lower_text row field = lower (py_str (dget_or row field (PStr '''')))"

definition allowance_matches :: "pydict \<Rightarrow> asset_allowance_row \<Rightarrow> bool" where
  "allowance_matches row a \<longleftrightarrow>
     py_eq (dget row ''network'') (PStr (aa_network a)) \<and>
     lower (aa_token_address a) = lower_text row ''token_address'' \<and>
     py_eq (dget row ''token_symbol'') (PStr (aa_token_symbol a)) \<and>
     py_eq (dget row ''token_decimals'') (PInt (aa_token_decimals a)) \<and>
     lower (aa_spender_address a) = lower_text row ''spender_address''"

definition grant_covers :: "pydict \<Rightarrow> spending_grant_row \<Rightarrow> bool" where
  "grant_covers row g \<longleftrightarrow>
     in_scopes (dget row ''product'') (product_scopes g) \<and>
     in_scopes (dget row ''network'') (network_scopes g) \<and>
     (dget row ''merchant_trust_tier'' = PNone \<or>
      in_scopes (dget row ''merchant_trust_tier'') (merchant_trust_scopes g)) \<and>
     lower_text row ''token_address'' \<in> lower ` set (asset_scopes g)"

definition opt_all :: "('a \<Rightarrow> bool) \<Rightarrow> 'a option \<Rightarrow> bool" where
  "opt_all p x \<longleftrightarrow> (case x of None \<Rightarrow> True | Some v \<Rightarrow> p v)"

definition unified_authorization_scope ::
  "funding_db \<Rightarrow> pydict \<Rightarrow>
     py_error + (wallet_identity_row \<times> spending_grant_row \<times> asset_allowance_row option)" where
  "unified_authorization_scope db row =
     and_then (require_unified_reservation row) (\<lambda>_.
       let allowance = (if allowance_backed row
             then locked_by asset_allowance_id (dget row ''asset_allowance_id'') (asset_allowances db)
             else None) in
       case (locked_by wallet_identity_id (dget row ''wallet_identity_id'') (wallet_identities db),
             locked_by spending_grant_id (dget row ''spending_grant_id'') (spending_grants db)) of
         (Some identity, Some grant) \<Rightarrow>
           if allowance_backed row \<and> allowance = None
           then Inl (ValueErr ''unified authorization references are unavailable'')
           else if grant_wallet_identity_id grant \<noteq> wallet_identity_id identity
             \<or> grant_user_id grant \<noteq> wi_user_id identity
             \<or> \<not> opt_all (\<lambda>a. aa_wallet_identity_id a = wallet_identity_id identity) allowance
           then Inl (ValueErr ''unified authorization references do not share an identity'')
           else if \<not> grant_covers row grant \<or> \<not> opt_all (allowance_matches row) allowance
           then Inl (ValueErr ''immutable allowance scope changed after reservation'')
           else Inr (identity, grant, allowance)
       | _ \<Rightarrow> Inl (ValueErr ''unified authorization references are unavailable''))"

section \<open>Writing records\<close>

text \<open>The identity columns a caller passes: absent, or a value that may be \<open>None\<close>.\<close>

type_synonym identity = "(string \<times> string option) list"

definition ident_value :: "identity \<Rightarrow> string \<Rightarrow> string option" where
  "ident_value ident k = (case map_of ident k of Some (Some v) \<Rightarrow> Some v | _ \<Rightarrow> None)"

definition RESERVATION_IDENTITY_FIELDS :: "string list" where
  "RESERVATION_IDENTITY_FIELDS =
     [''purchase_id'', ''idempotency_key'', ''action_id'', ''policy_decision_id'', ''reservation_id'']"

definition identity_matches :: "pydict \<Rightarrow> identity \<Rightarrow> string \<Rightarrow> py_error + unit" where
  "identity_matches payload ident field =
     reject_if (\<not> py_eq (dget payload field) (opt_str (ident_value ident field)))
       (''reservation '' @ field @ '' identity mismatch'')"

definition binds_first :: "pydict option \<Rightarrow> pydict \<Rightarrow> bool" where
  "binds_first stored payload \<longleftrightarrow>
     any_canonical payload \<and> (case stored of None \<Rightarrow> True | Some old \<Rightarrow> \<not> any_canonical old)"

definition validate_reservation_write ::
  "funding_db \<Rightarrow> string \<Rightarrow> pydict \<Rightarrow> identity \<Rightarrow> pydict option \<Rightarrow> py_error + unit" where
  "validate_reservation_write db rid payload ident stored =
     and_then (if \<not> is_str (dget payload ''authorization_path'') ''unified_grant''
               then require_unified_reservation payload else Inr ()) (\<lambda>_.
     and_then (ditem payload ''reservation_id'') (\<lambda>pid.
     if pid \<noteq> PStr rid then Inl (ValueErr ''reservation record identity mismatch'')
     else and_then (all_checks (identity_matches payload ident) RESERVATION_IDENTITY_FIELDS) (\<lambda>_.
     and_then (case stored of None \<Rightarrow> Inr ()
               | Some old \<Rightarrow> require_matching_reservation_immutable_fields old payload) (\<lambda>_.
     and_then (require_unified_reservation payload) (\<lambda>_.
     and_then (if is_true (dget payload ''single_submission'') then
                 and_then (if binds_first stored payload
                           then validate_single_submission_transaction_binding payload else Inr ())
                   (\<lambda>_. validate_single_submission_state payload)
               else Inr ()) (\<lambda>_.
     and_then (unified_authorization_scope db payload) (\<lambda>_. Inr ())))))))"

text \<open>Binding a transaction hash to a reservation; one hash belongs to one reservation.\<close>

definition binding_target :: "pydict \<Rightarrow> identity \<Rightarrow> pyval" where
  "binding_target payload ident =
     (case ident_value ident ''reservation_id'' of
        Some s \<Rightarrow> if s \<noteq> '''' then PStr s else dget payload ''reservation_id''
      | None \<Rightarrow> dget payload ''reservation_id'')"

definition add_binding :: "string \<Rightarrow> string \<Rightarrow> int \<Rightarrow> funding_db \<Rightarrow> py_error + funding_db" where
  "add_binding h rid now db =
     (case sel_by binding_tx_hash h (transaction_bindings db) of
        Some b \<Rightarrow>
          if binding_reservation_id b \<noteq> rid
          then Inl (ValueErr ''transaction is already bound to another reservation'') else Inr db
      | None \<Rightarrow>
          Inr (db\<lparr>transaction_bindings := transaction_bindings db @
             [\<lparr>binding_tx_hash = h, binding_reservation_id = rid, binding_created_at = now\<rparr>]\<rparr>))"

definition bind_transaction ::
  "string \<Rightarrow> pydict \<Rightarrow> identity \<Rightarrow> int \<Rightarrow> funding_db \<Rightarrow> py_error + (funding_db \<times> pydict \<times> identity)" where
  "bind_transaction rt payload ident now db =
     (case ident_value ident ''tx_hash'' of
        None \<Rightarrow> Inr (db, payload, ident)
      | Some h \<Rightarrow>
          and_then (canonicalize_transaction_hash (PStr h)) (\<lambda>canonical.
            and_then (case binding_target payload ident of
                PStr rid \<Rightarrow> if rt = ''reservation'' \<and> rid \<noteq> '''' then add_binding canonical rid now db
                            else Inr db
              | _ \<Rightarrow> Inr db) (\<lambda>db'.
              Inr (db', dset ''tx_hash'' (PStr canonical) payload,
                   AList.update ''tx_hash'' (Some canonical) ident))))"

definition ident_column :: "identity \<Rightarrow> string \<Rightarrow> string option \<Rightarrow> string option" where
  "ident_column ident k old = (case map_of ident k of None \<Rightarrow> old | Some v \<Rightarrow> v)"

definition write_columns ::
  "string \<Rightarrow> pydict \<Rightarrow> identity \<Rightarrow> int \<Rightarrow> ledger_row \<Rightarrow> ledger_row" where
  "write_columns rt payload ident now r =
     r\<lparr>record_type := rt, lr_token_address := dget payload ''token_address'', lr_payload := payload,
       lr_updated_at := now,
       lr_purchase_id := ident_column ident ''purchase_id'' (lr_purchase_id r),
       lr_idempotency_key := ident_column ident ''idempotency_key'' (lr_idempotency_key r),
       lr_action_id := ident_column ident ''action_id'' (lr_action_id r),
       lr_policy_decision_id := ident_column ident ''policy_decision_id'' (lr_policy_decision_id r),
       lr_reservation_id := ident_column ident ''reservation_id'' (lr_reservation_id r),
       lr_tx_hash := ident_column ident ''tx_hash'' (lr_tx_hash r)\<rparr>"

definition new_ledger_row :: "string \<Rightarrow> ledger_row" where
  "new_ledger_row rid =
     \<lparr>record_id = rid, record_type = '''', lr_purchase_id = None, lr_idempotency_key = None,
      lr_action_id = None, lr_policy_decision_id = None, lr_reservation_id = None,
      lr_tx_hash = None, lr_token_address = PNone, lr_payload = [], lr_updated_at = 0\<rparr>"

text \<open>The unique columns of \<open>funding_ledger_records\<close>; NULL clashes with nothing.\<close>

definition column_clash :: "(ledger_row \<Rightarrow> string option) \<Rightarrow> ledger_row \<Rightarrow> ledger_row \<Rightarrow> bool" where
  "column_clash col r o1 \<longleftrightarrow> col r \<noteq> None \<and> col o1 = col r"

definition ledger_clash :: "ledger_row \<Rightarrow> ledger_row \<Rightarrow> bool" where
  "ledger_clash r o1 \<longleftrightarrow>
     record_id o1 \<noteq> record_id r \<and>
     (column_clash lr_purchase_id r o1 \<or> column_clash lr_idempotency_key r o1 \<or>
      column_clash lr_action_id r o1 \<or> column_clash lr_policy_decision_id r o1 \<or>
      column_clash lr_reservation_id r o1 \<or> column_clash lr_tx_hash r o1)"

definition store_record :: "ledger_row option \<Rightarrow> ledger_row \<Rightarrow> funding_db \<Rightarrow> py_error + funding_db" where
  "store_record existing r db =
     (if list_ex (ledger_clash r) (ledger_records db) then Inl DbIntegrityErr
      else Inr (db\<lparr>ledger_records :=
        (case existing of
           None \<Rightarrow> ledger_records db @ [r]
         | Some _ \<Rightarrow> upd_by record_id (record_id r) (\<lambda>_. r) (ledger_records db))\<rparr>))"

definition put_record ::
  "string \<Rightarrow> string \<Rightarrow> pydict \<Rightarrow> identity \<Rightarrow> int \<Rightarrow> funding_db \<Rightarrow> py_error + (funding_db \<times> pydict)" where
  "put_record rt rid payload0 ident now db =
     (if rt = PAYMENT_CAPABILITY_RECORD_TYPE
      then Inl (ValueErr ''payment capabilities require the dedicated ledger API'')
      else
        let payload = (if rt = ''reservation'' then redact_external_payment_payload payload0 else payload0);
            existing = sel_by record_id rid (ledger_records db) in
        and_then (if rt = ''reservation''
                  then validate_reservation_write db rid payload ident (map_option lr_payload existing)
                  else Inr ()) (\<lambda>_.
        and_then (bind_transaction rt payload ident now db) (\<lambda>(db1, payload1, ident1).
          let base = (case existing of None \<Rightarrow> new_ledger_row rid | Some r \<Rightarrow> r) in
          and_then (store_record existing (write_columns rt payload1 ident1 now base) db1) (\<lambda>db2.
            Inr (db2, payload1)))))"

text \<open>\<open>require_no_durable_transaction_evidence\<close> reads the stored row, not its redacted view.\<close>

definition require_no_durable_transaction_evidence :: "pyval \<Rightarrow> funding_db \<Rightarrow> py_error + unit" where
  "require_no_durable_transaction_evidence rid db =
     (case locked_by record_id rid (ledger_records db) of
        None \<Rightarrow> Inl (ValueErr ''Hosted unsigned expiry reservation is unavailable'')
      | Some stored \<Rightarrow>
          if record_type stored \<noteq> ''reservation''
          then Inl (ValueErr ''Hosted unsigned expiry reservation is unavailable'')
          else reject_if (lr_tx_hash stored \<noteq> None
              \<or> list_ex (\<lambda>b. PStr (binding_reservation_id b) = rid) (transaction_bindings db)
              \<or> dget (lr_payload stored) LEGACY_SIGNED_TRANSACTION_FIELD \<noteq> PNone
              \<or> dget (lr_payload stored) LEGACY_EXTERNAL_PAYMENT_FIELD \<noteq> PNone)
            ''Hosted unsigned expiry conflicts with durable transaction evidence'')"

section \<open>Relayer nonces\<close>

definition fn_key :: "funding_nonce_row \<Rightarrow> string \<times> string" where
  "fn_key r = (fn_network r, fn_relayer_address r)"

text \<open>\<open>int(v)\<close> of a JSON value.\<close>

definition int_of_value :: "pyval \<Rightarrow> py_error + int" where
  "int_of_value v =
     (case v of
        PInt i \<Rightarrow> Inr i
      | PBool b \<Rightarrow> Inr (if b then 1 else 0)
      | PStr s \<Rightarrow>
          (case strip_sign s of (negative, digits) \<Rightarrow>
             if is_digits digits then Inr (signed negative (int (read_nat digits)))
             else Inl (ValueErr ''invalid literal for int()''))
      | _ \<Rightarrow> Inl TypeErr)"

definition owned_relayer_nonce :: "pydict \<Rightarrow> string \<Rightarrow> py_error + int" where
  "owned_relayer_nonce row relayer =
     (if dget row ''settlement_nonce'' = PNone \<or> dget row ''settlement_sender'' = PNone
      then Inl (ValueErr ''reservation nonce ownership is incomplete'')
      else if lower (py_str (dget row ''settlement_sender'')) \<noteq> relayer
      then Inl (ValueErr ''reservation nonce belongs to another relayer'')
      else and_then (int_of_value (dget row ''settlement_nonce'')) (\<lambda>n.
        if \<not> (0 \<le> n \<and> n < 2 ^ 64)
        then Inl (ValueErr ''reservation nonce ownership is invalid'') else Inr n))"

definition next_funding_nonce ::
  "string \<Rightarrow> string \<Rightarrow> int \<Rightarrow> int \<Rightarrow> funding_db \<Rightarrow> py_error + (funding_db \<times> int)" where
  "next_funding_nonce network relayer pending now db =
     (let t = (case sel_by fn_key (network, relayer) (funding_nonces db) of
           None \<Rightarrow> funding_nonces db @ [\<lparr>fn_network = network, fn_relayer_address = relayer,
              fn_next_nonce = pending, fn_updated_at = now\<rparr>]
         | Some _ \<Rightarrow> funding_nonces db);
          current = (case sel_by fn_key (network, relayer) (funding_nonces db) of
           None \<Rightarrow> pending | Some r \<Rightarrow> fn_next_nonce r);
          nonce = max current pending
      in if 2 ^ 64 \<le> nonce then Inl (ValueErr ''relayer nonce space is exhausted'')
         else Inr (db\<lparr>funding_nonces := upd_by fn_key (network, relayer)
                 (\<lambda>r. r\<lparr>fn_next_nonce := nonce + 1, fn_updated_at := now\<rparr>) t\<rparr>, nonce))"

definition allocate_funding_nonce ::
  "pydict \<Rightarrow> string \<Rightarrow> string \<Rightarrow> pyval \<Rightarrow> int \<Rightarrow> funding_db \<Rightarrow> py_error + (funding_db \<times> int)" where
  "allocate_funding_nonce row network relayer_address chain_pending_nonce now db =
     and_then (require_unified_reservation row) (\<lambda>_.
       let relayer = lower relayer_address in
       if \<not> allowance_backed row
       then Inl (ValueErr ''relayer nonce allocation requires an allowance-backed rail'')
       else if \<not> py_eq (dget row ''network'') (PStr network)
       then Inl (ValueErr ''relayer nonce network does not match reservation'')
       else if \<not> is_lower_hex_string 40 relayer then Inl (ValueErr ''relayer address is invalid'')
       else case chain_pending_nonce of
         PInt pending \<Rightarrow>
           if \<not> (0 \<le> pending \<and> pending < 2 ^ 64)
           then Inl (ValueErr ''chain pending nonce is invalid'')
           else if dget row ''settlement_nonce'' \<noteq> PNone \<or> dget row ''settlement_sender'' \<noteq> PNone
           then and_then (owned_relayer_nonce row relayer) (\<lambda>n. Inr (db, n))
           else next_funding_nonce network relayer pending now db
       | _ \<Rightarrow> Inl (ValueErr ''chain pending nonce is invalid''))"

end
