(* ===== verification/Funding_Budget.thy ===== *)
theory Funding_Budget
  imports Funding_Ledger "HOL-Library.Product_Lexorder"
begin

text \<open>
  The spending budget of \<open>FundingTransaction\<close> (\<open>funding_service/ledger.py\<close>): selecting a
  grant and allowance for a reservation, committing its amount to the grant, the day and the
  rolling hour, and releasing or settling it later.
\<close>

section \<open>Requests and selections\<close>

text \<open>The fields of \<open>CreateSpendingReservationRequest\<close> the budget reads.\<close>

record reservation_request =
  req_product :: "string option"
  req_venue :: string
  req_merchant_id :: string
  req_merchant_trust_tier :: "string option"
  req_network :: string
  req_asset :: string
  req_token_address :: "string option"
  req_amount_atomic :: string
  req_authorization_rail :: string
  req_opc_installation_id :: "string option"

record selection_key =
  sel_wallet_identity_id :: string
  sel_spending_grant_id :: string
  sel_asset_allowance_id :: "string option"

record budget_selection = selection_key +
  sel_token_address :: string
  sel_token_decimals :: int
  sel_token_symbol :: string
  sel_spender_address :: "string option"
  sel_usage_date :: int

section \<open>Eligible grants\<close>

definition scope_has :: "string option \<Rightarrow> string list \<Rightarrow> bool" where
  "scope_has v scopes \<longleftrightarrow> (case v of None \<Rightarrow> False | Some s \<Rightarrow> s \<in> set scopes)"

definition merchant_trusted :: "reservation_request \<Rightarrow> spending_grant_row \<Rightarrow> bool" where
  "merchant_trusted req g \<longleftrightarrow>
     (req_product req \<noteq> Some ''marketplace'' \<and> req_merchant_trust_tier req = None)
     \<or> scope_has (req_merchant_trust_tier req) (merchant_trust_scopes g)"

text \<open>\<open>scope_stages\<close>: each stage's error, and the test that keeps a grant.\<close>

definition scope_stages ::
  "reservation_request \<Rightarrow> rat \<Rightarrow> (string \<times> (spending_grant_row \<Rightarrow> bool)) list" where
  "scope_stages req amount =
     [(''PRODUCT_SCOPE_MISMATCH'', \<lambda>g. scope_has (req_product req) (product_scopes g)),
      (''VENUE_SCOPE_MISMATCH'', \<lambda>g. venue_scopes g = [] \<or> req_venue req \<in> set (venue_scopes g)),
      (''MERCHANT_SCOPE_MISMATCH'',
        \<lambda>g. merchant_scopes g = [] \<or> req_merchant_id req \<in> set (merchant_scopes g)),
      (''MERCHANT_TRUST_SCOPE_MISMATCH'', merchant_trusted req),
      (''NETWORK_SCOPE_MISMATCH'', \<lambda>g. req_network req \<in> set (network_scopes g)),
      (''PER_TRANSACTION_LIMIT_EXCEEDED'', \<lambda>g. amount \<le> per_transaction_limit_usdc g),
      (''BUDGET_EXCEEDED'',
        \<lambda>g. used_amount_usdc g + reserved_amount_usdc g + amount \<le> max_amount_usdc g)]"

fun apply_stages ::
  "(string \<times> (spending_grant_row \<Rightarrow> bool)) list \<Rightarrow> spending_grant_row list
     \<Rightarrow> py_error + spending_grant_row list" where
  "apply_stages [] grants = Inr grants"
| "apply_stages ((reason, keep) # stages) grants =
     (let kept = filter keep grants in
      if kept = [] then Inl (ValueErr reason) else apply_stages stages kept)"

definition active_identities :: "funding_db \<Rightarrow> string \<Rightarrow> wallet_identity_row list" where
  "active_identities db user =
     filter (\<lambda>i. wi_user_id i = user \<and> wi_status i = ''active'') (wallet_identities db)"

definition active_grants :: "funding_db \<Rightarrow> string \<Rightarrow> string \<Rightarrow> int \<Rightarrow> spending_grant_row list" where
  "active_grants db user agent now =
     filter (\<lambda>g. grant_user_id g = user \<and> grant_agent_id g = agent
         \<and> grant_wallet_identity_id g \<in> wallet_identity_id ` set (active_identities db user)
         \<and> grant_status g = ''active'' \<and> starts_at g \<le> now \<and> now < expires_at g)
       (spending_grants db)"

definition daily_usage :: "funding_db \<Rightarrow> string \<Rightarrow> int \<Rightarrow> daily_usage_row option" where
  "daily_usage db gid day =
     find (\<lambda>u. daily_spending_grant_id u = gid \<and> daily_usage_date u = day) (daily_usages db)"

definition daily_total :: "daily_usage_row option \<Rightarrow> rat" where
  "daily_total u = (case u of None \<Rightarrow> 0 | Some r \<Rightarrow> daily_used_usdc r + daily_reserved_usdc r)"

definition within_day :: "funding_db \<Rightarrow> int \<Rightarrow> rat \<Rightarrow> spending_grant_row \<Rightarrow> bool" where
  "within_day db day amount g \<longleftrightarrow>
     daily_total (daily_usage db (spending_grant_id g) day) + amount \<le> daily_limit_usdc g"

definition counts_in_hour :: "string \<Rightarrow> int \<Rightarrow> rolling_usage_row \<Rightarrow> bool" where
  "counts_in_hour gid now r \<longleftrightarrow>
     rolling_spending_grant_id r = gid \<and> now - MICROS_PER_HOUR < rolling_occurred_at r \<and>
     rolling_state r \<in> {''reserved'', ''used''}"

definition hourly_total :: "funding_db \<Rightarrow> string \<Rightarrow> int \<Rightarrow> rat" where
  "hourly_total db gid now =
     sum_list (map rolling_amount_usdc (filter (counts_in_hour gid now) (rolling_usages db)))"

definition within_hour :: "funding_db \<Rightarrow> int \<Rightarrow> rat \<Rightarrow> spending_grant_row \<Rightarrow> bool" where
  "within_hour db now amount g \<longleftrightarrow>
     hourly_total db (spending_grant_id g) now + amount \<le> hourly_limit_usdc g"

definition eligible_grants ::
  "funding_db \<Rightarrow> reservation_request \<Rightarrow> string \<Rightarrow> string \<Rightarrow> rat \<Rightarrow> int
     \<Rightarrow> py_error + spending_grant_row list" where
  "eligible_grants db req user agent amount now =
     (if active_identities db user = []
      then Inl (ValueErr ''WALLET_IDENTITY_REQUIRED: active wallet identity required'')
      else if active_grants db user agent now = []
      then Inl (ValueErr ''SPENDING_GRANT_REQUIRED: active spending grant required'')
      else and_then (apply_stages (scope_stages req amount) (active_grants db user agent now)) (\<lambda>scoped.
        let daily = filter (within_day db (date_of now) amount) scoped;
            hourly = filter (within_hour db now amount) daily in
        if daily = [] then Inl (ValueErr ''DAILY_LIMIT_EXCEEDED'')
        else if hourly = [] then Inl (ValueErr ''HOURLY_LIMIT_EXCEEDED'')
        else Inr hourly))"

section \<open>Candidates\<close>

text \<open>The atomic amount is the exact amount at the token's decimals.\<close>

definition atomic_matches :: "rat \<Rightarrow> int \<Rightarrow> int \<Rightarrow> bool" where
  "atomic_matches amount decimals atomic \<longleftrightarrow>
     (let required = scale10 amount decimals
      in of_int \<lfloor>required\<rfloor> = required \<and> atomic = \<lfloor>required\<rfloor>)"

definition asset_pair_matches ::
  "reservation_request \<Rightarrow> spending_grant_row \<times> asset_allowance_row \<Rightarrow> bool" where
  "asset_pair_matches req p \<longleftrightarrow>
     (case p of (g, a) \<Rightarrow>
        aa_wallet_identity_id a = grant_wallet_identity_id g \<and>
        aa_token_address a \<in> set (asset_scopes g) \<and>
        lower (req_asset req) \<in> {lower (aa_token_symbol a), lower (aa_token_address a)})"

definition matching_allowances ::
  "funding_db \<Rightarrow> reservation_request \<Rightarrow> string \<Rightarrow> string option \<Rightarrow> spending_grant_row list
     \<Rightarrow> asset_allowance_row list" where
  "matching_allowances db req canonical_token trusted_spender grants =
     filter (\<lambda>a. aa_wallet_identity_id a \<in> grant_wallet_identity_id ` set grants
         \<and> aa_status a = ''active'' \<and> aa_network a = req_network req
         \<and> aa_token_address a = canonical_token
         \<and> opt_all (\<lambda>s. aa_spender_address a = s) trusted_spender)
       (asset_allowances db)"

definition pair_key :: "spending_grant_row \<times> asset_allowance_row \<Rightarrow> string \<times> string" where
  "pair_key p = (spending_grant_id (fst p), asset_allowance_id (snd p))"

definition choose_pair ::
  "reservation_request \<Rightarrow> rat \<Rightarrow> int \<Rightarrow> (spending_grant_row \<times> asset_allowance_row) list
     \<Rightarrow> py_error + (spending_grant_row \<times> asset_allowance_row)" where
  "choose_pair req amount atomic pairs =
     (let assets = filter (asset_pair_matches req) pairs;
          exact = filter (\<lambda>(g, a). atomic_matches amount (aa_token_decimals a) atomic) assets;
          funded = filter (\<lambda>(g, a). atomic \<le> observed_allowance_atomic a) exact in
      if assets \<noteq> [] \<and> exact = []
      then Inl (ValueErr ''amount_atomic does not match amount_usdc and token decimals'')
      else if funded = []
      then Inl (ValueErr ''ASSET_ALLOWANCE_REQUIRED: matching allowance required'')
      else Inr (arg_min_list pair_key funded))"

definition grant_asset_ok :: "string \<Rightarrow> spending_grant_row \<Rightarrow> bool" where
  "grant_asset_ok token g \<longleftrightarrow> token \<in> lower ` set (asset_scopes g)"

section \<open>Committing\<close>

definition require_opc_installation_authority ::
  "funding_db \<Rightarrow> string option \<Rightarrow> string \<Rightarrow> spending_grant_row \<Rightarrow> int \<Rightarrow> py_error + unit" where
  "require_opc_installation_authority db inst user grant now =
     (case inst of
        None \<Rightarrow> Inr ()
      | Some iid \<Rightarrow>
          reject_if (\<not> opt_all (\<lambda>i. opc_status i = ''active'' \<and> opc_scope i = ''payments''
                \<and> opc_user_id i = Some user
                \<and> opc_wallet_identity_id i = Some (grant_wallet_identity_id grant)
                \<and> opc_spending_grant_id i = Some (spending_grant_id grant)
                \<and> approved_at i \<noteq> None
                \<and> (case consent_expires_at i of None \<Rightarrow> False
                   | Some t \<Rightarrow> now < t \<and> t \<le> expires_at grant))
              (sel_by installation_id iid (opc_installations db))
            \<or> sel_by installation_id iid (opc_installations db) = None)
          ''OPC installation authority is unavailable for this spending grant'')"

definition daily_usage_id_of :: "(string \<Rightarrow> string) \<Rightarrow> string \<Rightarrow> int \<Rightarrow> string" where
  "daily_usage_id_of sha256 gid day = ''grant_daily_'' @ sha256 (gid @ '':'' @ isoformat_date day)"

definition in_usage :: "string \<Rightarrow> int \<Rightarrow> daily_usage_row \<Rightarrow> bool" where
  "in_usage gid day u \<longleftrightarrow> daily_spending_grant_id u = gid \<and> daily_usage_date u = day"

text \<open>The day's row, added with zero amounts on the grant's first reservation of the day.\<close>

definition ensure_daily_usage ::
  "(string \<Rightarrow> string) \<Rightarrow> string \<Rightarrow> int \<Rightarrow> int \<Rightarrow> funding_db \<Rightarrow> py_error + funding_db" where
  "ensure_daily_usage sha256 gid day now db =
     (case daily_usage db gid day of
        Some _ \<Rightarrow> Inr db
      | None \<Rightarrow>
          if list_ex (\<lambda>u. daily_usage_id u = daily_usage_id_of sha256 gid day) (daily_usages db)
          then Inl DbIntegrityErr
          else Inr (db\<lparr>daily_usages := daily_usages db @
            [\<lparr>daily_usage_id = daily_usage_id_of sha256 gid day, daily_spending_grant_id = gid,
              daily_usage_date = day, daily_used_usdc = 0, daily_reserved_usdc = 0,
              daily_created_at = now, daily_updated_at = now\<rparr>]\<rparr>))"

definition update_grant ::
  "string \<Rightarrow> (spending_grant_row \<Rightarrow> spending_grant_row) \<Rightarrow> funding_db \<Rightarrow> funding_db" where
  "update_grant gid f db = db\<lparr>spending_grants := upd_by spending_grant_id gid f (spending_grants db)\<rparr>"

definition update_usage ::
  "string \<Rightarrow> int \<Rightarrow> (daily_usage_row \<Rightarrow> daily_usage_row) \<Rightarrow> funding_db \<Rightarrow> funding_db" where
  "update_usage gid day f db = db\<lparr>daily_usages := update_rows (in_usage gid day) f (daily_usages db)\<rparr>"

definition update_rolling ::
  "string \<Rightarrow> (rolling_usage_row \<Rightarrow> rolling_usage_row) \<Rightarrow> funding_db \<Rightarrow> funding_db" where
  "update_rolling rid f db =
     db\<lparr>rolling_usages := upd_by rolling_reservation_id rid f (rolling_usages db)\<rparr>"

definition add_rolling :: "rolling_usage_row \<Rightarrow> funding_db \<Rightarrow> py_error + funding_db" where
  "add_rolling r db =
     (if list_ex (\<lambda>x. rolling_reservation_id x = rolling_reservation_id r) (rolling_usages db)
      then Inl DbIntegrityErr
      else Inr (db\<lparr>rolling_usages := rolling_usages db @ [r]\<rparr>))"

definition reserve_on_grant :: "rat \<Rightarrow> int \<Rightarrow> spending_grant_row \<Rightarrow> spending_grant_row" where
  "reserve_on_grant amount now g =
     g\<lparr>reserved_amount_usdc := reserved_amount_usdc g + amount, grant_updated_at := now\<rparr>"

definition reserve_on_day :: "rat \<Rightarrow> int \<Rightarrow> daily_usage_row \<Rightarrow> daily_usage_row" where
  "reserve_on_day amount now u =
     u\<lparr>daily_reserved_usdc := daily_reserved_usdc u + amount, daily_updated_at := now\<rparr>"

definition commit_budget_reservation ::
  "(string \<Rightarrow> string) \<Rightarrow> spending_grant_row \<Rightarrow> rat \<Rightarrow> int \<Rightarrow> string \<Rightarrow> funding_db \<Rightarrow> py_error + funding_db" where
  "commit_budget_reservation sha256 grant amount now rid db =
     (let gid = spending_grant_id grant; day = date_of now in
      and_then (ensure_daily_usage sha256 gid day now db) (\<lambda>db1.
        if daily_total (daily_usage db1 gid day) + amount > daily_limit_usdc grant
        then Inl (ValueErr ''DAILY_LIMIT_EXCEEDED'')
        else add_rolling
          \<lparr>rolling_reservation_id = rid, rolling_spending_grant_id = gid, rolling_amount_usdc = amount,
           rolling_state = ''reserved'', rolling_occurred_at = now, rolling_updated_at = now\<rparr>
          (update_usage gid day (reserve_on_day amount now)
            (update_grant gid (reserve_on_grant amount now) db1))))"

section \<open>Reserving\<close>

definition trusted_spender ::
  "funding_db \<Rightarrow> reservation_request \<Rightarrow> selection_key option \<Rightarrow> string \<Rightarrow> py_error + string option" where
  "trusted_spender db req expected canonical_token =
     (case expected of
        None \<Rightarrow> Inr None
      | Some e \<Rightarrow>
          if req_authorization_rail req \<notin> set ALLOWANCE_RAILS then Inr None
          else case sel_asset_allowance_id e of
            None \<Rightarrow> Inl (ValueErr ''authorization resolution is stale'')
          | Some aid \<Rightarrow>
              (case sel_by asset_allowance_id aid (asset_allowances db) of
                 None \<Rightarrow> Inl (ValueErr ''authorization resolution is stale'')
               | Some a \<Rightarrow>
                   if aa_network a \<noteq> req_network req \<or> aa_token_address a \<noteq> canonical_token
                   then Inl (ValueErr ''canonical asset pair required before reservation'')
                   else Inr (Some (aa_spender_address a))))"

definition selection_current :: "selection_key option \<Rightarrow> selection_key \<Rightarrow> bool" where
  "selection_current expected sel \<longleftrightarrow> opt_all (\<lambda>e. sel = e) expected"

definition selection_with ::
  "selection_key \<Rightarrow> string \<Rightarrow> int \<Rightarrow> string \<Rightarrow> string option \<Rightarrow> int \<Rightarrow> budget_selection" where
  "selection_with key token decimals symbol spender day =
     selection_key.extend key
       \<lparr>sel_token_address = token, sel_token_decimals = decimals, sel_token_symbol = symbol,
        sel_spender_address = spender, sel_usage_date = day\<rparr>"

record reserve_context =
  ctx_user_id :: string
  ctx_agent_id :: string
  ctx_amount :: rat
  ctx_now :: int
  ctx_reservation_id :: string
  ctx_expected :: "selection_key option"
  ctx_external_decimals :: int
  ctx_external_symbol :: string
  ctx_canonical_token :: string

text \<open>The last steps of both rails: the selection is current, the installation may pay.\<close>

definition commit_selection ::
  "(string \<Rightarrow> string) \<Rightarrow> reservation_request \<Rightarrow> reserve_context \<Rightarrow> spending_grant_row \<Rightarrow> selection_key
     \<Rightarrow> budget_selection \<Rightarrow> funding_db \<Rightarrow> py_error + (funding_db \<times> budget_selection)" where
  "commit_selection sha256 req ctx grant key sel db =
     (if \<not> selection_current (ctx_expected ctx) key
      then Inl (ValueErr ''authorization resolution is stale'')
      else and_then (require_opc_installation_authority db (req_opc_installation_id req)
          (ctx_user_id ctx) grant (ctx_now ctx)) (\<lambda>_.
        and_then (commit_budget_reservation sha256 grant (ctx_amount ctx) (ctx_now ctx)
          (ctx_reservation_id ctx) db) (\<lambda>db'. Inr (db', sel))))"

definition reserve_external ::
  "(string \<Rightarrow> string) \<Rightarrow> reservation_request \<Rightarrow> reserve_context \<Rightarrow> spending_grant_row list \<Rightarrow> int
     \<Rightarrow> funding_db \<Rightarrow> py_error + (funding_db \<times> budget_selection)" where
  "reserve_external sha256 req ctx grants atomic db =
     (let token = lower (case req_token_address req of None \<Rightarrow> '''' | Some t \<Rightarrow> t);
          candidates = filter (grant_asset_ok token) grants in
      if token \<noteq> ctx_canonical_token ctx
      then Inl (ValueErr ''canonical asset pair required before reservation'')
      else if candidates = [] then Inl (ValueErr ''ASSET_SCOPE_MISMATCH'')
      else if \<not> atomic_matches (ctx_amount ctx) (ctx_external_decimals ctx) atomic
      then Inl (ValueErr ''amount_atomic does not match amount_usdc and token decimals'')
      else
        let grant = arg_min_list (\<lambda>g. (spending_grant_id g, grant_wallet_identity_id g)) candidates;
            key = \<lparr>sel_wallet_identity_id = grant_wallet_identity_id grant,
                   sel_spending_grant_id = spending_grant_id grant, sel_asset_allowance_id = None\<rparr>
        in commit_selection sha256 req ctx grant key
             (selection_with key token (ctx_external_decimals ctx) (ctx_external_symbol ctx) None
               (date_of (ctx_now ctx))) db)"

definition reserve_allowance ::
  "(string \<Rightarrow> string) \<Rightarrow> reservation_request \<Rightarrow> reserve_context \<Rightarrow> string option \<Rightarrow> spending_grant_row list
     \<Rightarrow> int \<Rightarrow> funding_db \<Rightarrow> py_error + (funding_db \<times> budget_selection)" where
  "reserve_allowance sha256 req ctx spender grants atomic db =
     (let allowances = matching_allowances db req (ctx_canonical_token ctx) spender grants in
      and_then (choose_pair req (ctx_amount ctx) atomic (List.product grants allowances)) (\<lambda>(grant, a).
        let key = \<lparr>sel_wallet_identity_id = grant_wallet_identity_id grant,
                   sel_spending_grant_id = spending_grant_id grant,
                   sel_asset_allowance_id = Some (asset_allowance_id a)\<rparr>
        in commit_selection sha256 req ctx grant key
             (selection_with key (aa_token_address a) (aa_token_decimals a) (aa_token_symbol a)
               (Some (aa_spender_address a)) (date_of (ctx_now ctx))) db))"

definition reserve_unified_budget ::
  "(string \<Rightarrow> string) \<Rightarrow> reservation_request \<Rightarrow> reserve_context \<Rightarrow> funding_db
     \<Rightarrow> py_error + (funding_db \<times> budget_selection)" where
  "reserve_unified_budget sha256 req ctx db =
     and_then (trusted_spender db req (ctx_expected ctx) (ctx_canonical_token ctx)) (\<lambda>spender.
     and_then (eligible_grants db req (ctx_user_id ctx) (ctx_agent_id ctx) (ctx_amount ctx) (ctx_now ctx))
     (\<lambda>grants.
     and_then (atomic_amount (req_amount_atomic req)) (\<lambda>atomic.
       if req_authorization_rail req = ''external_x402''
       then reserve_external sha256 req ctx grants atomic db
       else reserve_allowance sha256 req ctx spender grants atomic db)))"

section \<open>Releasing and settling\<close>

definition required_locked_grant :: "pyval \<Rightarrow> funding_db \<Rightarrow> py_error + spending_grant_row" where
  "required_locked_grant v db =
     lift_opt (ValueErr ''spending grant was not found'')
       (locked_by spending_grant_id v (spending_grants db))"

definition required_locked_daily_usage :: "string \<Rightarrow> int \<Rightarrow> funding_db \<Rightarrow> py_error + daily_usage_row" where
  "required_locked_daily_usage gid day db =
     lift_opt (ValueErr ''daily usage was not found'') (daily_usage db gid day)"

text \<open>The reservation's amount, grant and day, with the check that they are still reserved.\<close>

record budget_claim =
  claim_amount :: rat
  claim_grant :: spending_grant_row
  claim_usage :: daily_usage_row
  claim_day :: int
  claim_reservation :: pyval

definition reserved_claim :: "pydict \<Rightarrow> funding_db \<Rightarrow> py_error + budget_claim" where
  "reserved_claim row db =
     and_then (ditem row ''amount_usdc'') (\<lambda>av.
     and_then (decimal_of_value av) (\<lambda>amount.
     and_then (ditem row ''spending_grant_id'') (\<lambda>gv.
     and_then (required_locked_grant gv db) (\<lambda>grant.
     and_then (ditem row ''usage_date'') (\<lambda>dv.
     and_then (parse_iso_date dv) (\<lambda>day.
     and_then (required_locked_daily_usage (spending_grant_id grant) day db) (\<lambda>usage.
       if reserved_amount_usdc grant < amount \<or> daily_reserved_usdc usage < amount
       then Inl (ValueErr ''reserved budget accounting is inconsistent'')
       else and_then (ditem row ''reservation_id'') (\<lambda>rid.
         Inr \<lparr>claim_amount = amount, claim_grant = grant, claim_usage = usage, claim_day = day,
              claim_reservation = rid\<rparr>))))))))"

definition close_rolling :: "pyval \<Rightarrow> string \<Rightarrow> int \<Rightarrow> funding_db \<Rightarrow> funding_db" where
  "close_rolling rid st now db =
     (case rid of
        PStr r \<Rightarrow> update_rolling r (\<lambda>x. x\<lparr>rolling_state := st, rolling_updated_at := now\<rparr>) db
      | _ \<Rightarrow> db)"

definition budget_state :: "pydict \<Rightarrow> string \<Rightarrow> bool" where
  "budget_state row s \<longleftrightarrow> is_str (dget row ''budget_accounting_state'') s"

definition released_grant :: "rat \<Rightarrow> int \<Rightarrow> bool \<Rightarrow> spending_grant_row \<Rightarrow> spending_grant_row" where
  "released_grant amount now reopen g =
     (let r = g\<lparr>reserved_amount_usdc := reserved_amount_usdc g - amount, grant_updated_at := now\<rparr>
      in if reopen then r\<lparr>grant_status := ''active'', grant_status_reason := None\<rparr> else r)"

text \<open>An exhausted grant reopens when the release leaves room and its identity is active.\<close>

definition reopens :: "rat \<Rightarrow> int \<Rightarrow> funding_db \<Rightarrow> spending_grant_row \<Rightarrow> bool" where
  "reopens amount now db g \<longleftrightarrow>
     grant_status g = ''exhausted'' \<and> grant_status_reason g = Some ''budget_exhausted'' \<and>
     used_amount_usdc g + (reserved_amount_usdc g - amount) < max_amount_usdc g \<and>
     (case sel_by wallet_identity_id (grant_wallet_identity_id g) (wallet_identities db) of
        None \<Rightarrow> False | Some i \<Rightarrow> wi_status i = ''active'') \<and>
     starts_at g \<le> now \<and> now < expires_at g"

definition release_unified_budget :: "pydict \<Rightarrow> int \<Rightarrow> funding_db \<Rightarrow> py_error + (funding_db \<times> pydict)" where
  "release_unified_budget row now db =
     and_then (require_unified_reservation row) (\<lambda>_.
       if budget_state row ''released'' then Inr (db, row)
       else if \<not> budget_state row ''reserved''
       then Inl (ValueErr ''reservation budget is not releasable'')
       else and_then (reserved_claim row db) (\<lambda>c.
         let gid = spending_grant_id (claim_grant c) in
         Inr (close_rolling (claim_reservation c) ''released'' now
                (update_usage gid (claim_day c)
                  (\<lambda>u. u\<lparr>daily_reserved_usdc := daily_reserved_usdc u - claim_amount c,
                          daily_updated_at := now\<rparr>)
                  (update_grant gid
                    (released_grant (claim_amount c) now
                      (reopens (claim_amount c) now db (claim_grant c))) db)),
              dset ''budget_accounting_state'' (PStr ''released'') row)))"

definition settled_grant :: "rat \<Rightarrow> int \<Rightarrow> spending_grant_row \<Rightarrow> spending_grant_row" where
  "settled_grant amount now g =
     (let r = g\<lparr>reserved_amount_usdc := reserved_amount_usdc g - amount,
               used_amount_usdc := used_amount_usdc g + amount, grant_updated_at := now\<rparr>
      in if grant_status r \<in> {''active'', ''exhausted''}
           \<and> grant_status_reason r \<in> {None, Some ''budget_exhausted''}
           \<and> max_amount_usdc r \<le> used_amount_usdc r + reserved_amount_usdc r
         then r\<lparr>grant_status := ''exhausted'', grant_status_reason := Some ''budget_exhausted''\<rparr>
         else r)"

definition settle_unified_budget :: "pydict \<Rightarrow> int \<Rightarrow> funding_db \<Rightarrow> py_error + (funding_db \<times> pydict)" where
  "settle_unified_budget row now db =
     and_then (require_unified_reservation row) (\<lambda>_.
       if budget_state row ''settled'' then Inr (db, row)
       else if \<not> budget_state row ''reserved''
       then Inl (ValueErr ''reservation budget is not settleable'')
       else and_then (reserved_claim row db) (\<lambda>c.
         let gid = spending_grant_id (claim_grant c) in
         Inr (close_rolling (claim_reservation c) ''used'' now
                (update_usage gid (claim_day c)
                  (\<lambda>u. u\<lparr>daily_reserved_usdc := daily_reserved_usdc u - claim_amount c,
                          daily_used_usdc := daily_used_usdc u + claim_amount c,
                          daily_updated_at := now\<rparr>)
                  (update_grant gid (settled_grant (claim_amount c) now) db)),
              dset ''budget_accounting_state'' (PStr ''settled'') row)))"

end
