(* ===== verification/Funding_Evidence.thy ===== *)
theory Funding_Evidence
  imports Funding_Budget
begin

text \<open>
  Watcher evidence, authorization checks before a payment and allowance observations of
  \<open>FundingTransaction\<close> (\<open>funding_service/ledger.py\<close>), each with the audit event it adds.
  SHA-256 (\<open>hexdigest\<close>) and the hexadecimal text of a fresh UUID are parameters.
\<close>

section \<open>Audit events\<close>

text \<open>Both the event id and a present idempotency key are unique columns.\<close>

definition has_event :: "string \<Rightarrow> funding_db \<Rightarrow> bool" where
  "has_event eid db \<longleftrightarrow> list_ex (\<lambda>e. ae_event_id e = eid) (audit_events db)"

definition add_audit_event :: "audit_event_row \<Rightarrow> funding_db \<Rightarrow> py_error + funding_db" where
  "add_audit_event e db =
     (if list_ex (\<lambda>x. ae_event_id x = ae_event_id e
           \<or> ae_idempotency_key e \<noteq> None \<and> ae_idempotency_key x = ae_idempotency_key e)
         (audit_events db)
      then Inl DbIntegrityErr else Inr (db\<lparr>audit_events := audit_events db @ [e]\<rparr>))"

definition evidence_event ::
  "string \<Rightarrow> string \<Rightarrow> pydict \<Rightarrow> wallet_identity_row \<Rightarrow> spending_grant_row \<Rightarrow> pydict \<Rightarrow> int
     \<Rightarrow> audit_event_row" where
  "evidence_event eid kind row identity grant payload now =
     \<lparr>ae_event_id = eid, ae_idempotency_key = Some eid, ae_event_type = kind,
      ae_source_service = ''funding_service'', ae_action_id = dget row ''action_id'',
      ae_user_id = Some (wi_user_id identity), ae_agent_id = Some (grant_agent_id grant),
      ae_policy_decision_id = dget row ''policy_decision_id'',
      ae_payment_id = dget row ''reservation_id'', ae_order_id = dget row ''purchase_id'',
      ae_receipt_id = dget row ''receipt_id'', ae_tx_hash = dget row ''tx_hash'',
      ae_payload = payload, ae_created_at = now\<rparr>"

text \<open>An event added once per event id, after the reservation's authorization is read again.\<close>

definition audit_once ::
  "string \<Rightarrow> string \<Rightarrow> pydict \<Rightarrow> pydict \<Rightarrow> int \<Rightarrow> funding_db \<Rightarrow> py_error + funding_db" where
  "audit_once eid kind row payload now db =
     (if has_event eid db then Inr db
      else and_then (unified_authorization_scope db row) (\<lambda>(identity, grant, _).
        add_audit_event (evidence_event eid kind row identity grant payload now) db))"

section \<open>Watcher evidence\<close>

definition EVIDENCE_FIELD :: string where
  "EVIDENCE_FIELD = ''hosted_watcher_evidence''"

definition EVIDENCE_HASH_FIELD :: string where
  "EVIDENCE_HASH_FIELD = ''hosted_watcher_evidence_hash''"

definition EVIDENCE_HISTORY_FIELD :: string where
  "EVIDENCE_HISTORY_FIELD = ''hosted_watcher_evidence_history''"

definition evidence_hash_of :: "(string \<Rightarrow> string) \<Rightarrow> pydict \<Rightarrow> string" where
  "evidence_hash_of sha256 evidence = ''0x'' @ sha256 (json_of (PDict evidence))"

definition evidence_event_id :: "(string \<Rightarrow> string) \<Rightarrow> string \<Rightarrow> pydict \<Rightarrow> string \<Rightarrow> string" where
  "evidence_event_id sha256 prefix row h =
     prefix @ take 32 (sha256 (py_str (dget row ''reservation_id'') @ '':'' @ h))"

definition record_hosted_watcher_evidence ::
  "(string \<Rightarrow> string) \<Rightarrow> pydict \<Rightarrow> pyval \<Rightarrow> int \<Rightarrow> funding_db \<Rightarrow> py_error + (funding_db \<times> pydict)" where
  "record_hosted_watcher_evidence sha256 row evidence now db =
     and_then (require_unified_reservation row) (\<lambda>_.
       case evidence of
         PDict canonical \<Rightarrow>
           let previous = dget row EVIDENCE_FIELD; h = evidence_hash_of sha256 canonical in
           if previous \<noteq> PNone \<and> \<not> py_eq previous evidence
           then Inl (ValueErr ''hosted watcher evidence changed'')
           else and_then
             (audit_once (evidence_event_id sha256 ''audit_hosted_watcher_'' row h)
               ''hosted_watcher_evidence_recorded'' row
               [(''reservation_id'', dget row ''reservation_id''),
                (''hosted_execution_id'', dget row ''hosted_execution_id''),
                (''evidence_hash'', PStr h),
                (''watcher_version'', dget canonical ''watcher_version''),
                (''state'', dget canonical ''state'')] now db) (\<lambda>db'.
             Inr (db', dset EVIDENCE_HASH_FIELD (PStr h) (dset EVIDENCE_FIELD evidence row)))
       | _ \<Rightarrow> Inl (ValueErr ''hosted watcher evidence is invalid''))"

text \<open>The history gains the projection it replaces and the new one, unless they already end it.\<close>

definition push_last :: "pyval \<Rightarrow> pyval list \<Rightarrow> pyval list" where
  "push_last v xs = (if xs = [] \<or> \<not> py_eq (last xs) v then xs @ [v] else xs)"

definition record_hosted_watcher_reorg_evidence ::
  "(string \<Rightarrow> string) \<Rightarrow> pydict \<Rightarrow> pyval \<Rightarrow> int \<Rightarrow> funding_db \<Rightarrow> py_error + (funding_db \<times> pydict)" where
  "record_hosted_watcher_reorg_evidence sha256 row evidence now db =
     and_then (require_unified_reservation row) (\<lambda>_.
       case evidence of
         PDict canonical \<Rightarrow>
           let previous = dget row EVIDENCE_FIELD; h = evidence_hash_of sha256 canonical in
           if previous = PNone \<or> py_eq previous evidence
           then record_hosted_watcher_evidence sha256 row evidence now db
           else (case dget_or row EVIDENCE_HISTORY_FIELD (PList []) of
             PList history \<Rightarrow>
               and_then
                 (audit_once (evidence_event_id sha256 ''audit_hosted_watcher_reorg_'' row h)
                   ''hosted_watcher_reorg_evidence_recorded'' row
                   [(''reservation_id'', dget row ''reservation_id''),
                    (''hosted_execution_id'', dget row ''hosted_execution_id''),
                    (''previous_evidence_hash'', dget row EVIDENCE_HASH_FIELD),
                    (''evidence_hash'', PStr h),
                    (''watcher_version'', dget canonical ''watcher_version''),
                    (''state'', dget canonical ''state'')] now db) (\<lambda>db'.
                 Inr (db', dset EVIDENCE_HISTORY_FIELD
                       (PList (push_last evidence (push_last previous history)))
                     (dset EVIDENCE_HASH_FIELD (PStr h) (dset EVIDENCE_FIELD evidence row))))
           | _ \<Rightarrow> Inl (ValueErr ''hosted watcher evidence history is invalid''))
       | _ \<Rightarrow> Inl (ValueErr ''hosted watcher evidence is invalid''))"

section \<open>Revoked authorizations\<close>

definition revocations_of :: "wallet_identity_row \<Rightarrow> spending_grant_row \<Rightarrow> string list" where
  "revocations_of identity grant =
     (if wi_status identity = ''revoked'' then [''wallet_identity''] else [])
     @ (if grant_status grant = ''revoked'' then [''spending_grant'']
        else if grant_status grant = ''paused''
          \<and> grant_status_reason grant = Some ''wallet_identity_revoked''
        then [''spending_grant_identity_cascade''] else [])"

definition record_external_reconciliation_after_revocation ::
  "(string \<Rightarrow> string) \<Rightarrow> pydict \<Rightarrow> int \<Rightarrow> funding_db \<Rightarrow> py_error + (funding_db \<times> string list)" where
  "record_external_reconciliation_after_revocation sha256 row now db =
     and_then (unified_authorization_scope db row) (\<lambda>(identity, grant, _).
       let revocations = revocations_of identity grant in
       if revocations = [] then Inr (db, [])
       else case dget row ''reservation_id'' of
         PStr rid \<Rightarrow>
           let eid = ''audit_x402_revoked_'' @ take 32 (sha256 rid) in
           if has_event eid db then Inr (db, revocations)
           else and_then (add_audit_event
             \<lparr>ae_event_id = eid, ae_idempotency_key = None,
              ae_event_type = ''external_payment_reconciled_after_authorization_revocation'',
              ae_source_service = ''funding_service'', ae_action_id = dget row ''action_id'',
              ae_user_id = Some (wi_user_id identity), ae_agent_id = Some (grant_agent_id grant),
              ae_policy_decision_id = dget row ''policy_decision_id'', ae_payment_id = PStr rid,
              ae_order_id = PNone, ae_receipt_id = dget row ''receipt_id'',
              ae_tx_hash = dget row ''tx_hash'',
              ae_payload =
                [(''reservation_id'', PStr rid),
                 (''wallet_identity_id'', PStr (wallet_identity_id identity)),
                 (''spending_grant_id'', PStr (spending_grant_id grant)),
                 (''network'', dget row ''network''),
                 (''token_address'', dget row ''token_address''),
                 (''revoked_authorizations'', PList (map PStr revocations))],
              ae_created_at = now\<rparr> db) (\<lambda>db'. Inr (db', revocations))
       | _ \<Rightarrow> Inl AttributeErr)"

section \<open>Before a payment\<close>

definition validate_unified_lifecycle ::
  "pydict \<Rightarrow> int \<Rightarrow> bool \<Rightarrow> funding_db \<Rightarrow>
     py_error + (wallet_identity_row \<times> spending_grant_row \<times> asset_allowance_row option)" where
  "validate_unified_lifecycle row now executed db =
     and_then (unified_authorization_scope db row) (\<lambda>(identity, grant, allowance).
       if \<not> executed \<and> is_str (dget row ''product'') ''marketplace''
         \<and> dget row ''merchant_trust_tier'' = PNone
       then Inl (ValueErr ''MERCHANT_TRUST_SCOPE_MISMATCH'')
       else if wi_status identity \<noteq> ''active''
       then Inl (ValueErr ''active wallet identity required before payment submission'')
       else if grant_status grant \<noteq> ''active'' \<or> \<not> (starts_at grant \<le> now \<and> now < expires_at grant)
       then Inl (ValueErr ''active spending grant required before payment submission'')
       else if \<not> opt_all (\<lambda>a. aa_status a = ''active'') allowance
       then Inl (ValueErr ''active asset allowance required before payment submission'')
       else Inr (identity, grant, allowance))"

definition UINT256_CEILING :: int where
  "UINT256_CEILING = 2 ^ 256 - 1"

text \<open>
  The allowance after a chain check, or its failure (\<open>stale\<close>). The column type refuses a
  number above \<open>UINT256_CEILING\<close> when the row is flushed.
\<close>

definition observed_allowance ::
  "pyval \<Rightarrow> bool \<Rightarrow> int \<Rightarrow> asset_allowance_row \<Rightarrow> py_error + asset_allowance_row" where
  "observed_allowance observed stale now a =
     (if stale then Inr (a\<lparr>aa_status := ''stale'', aa_updated_at := now\<rparr>)
      else and_then (atomic_amount (py_str observed)) (\<lambda>n.
        if UINT256_CEILING < n then Inl (ValueErr ''atomic amount must be a uint256'')
        else Inr (a\<lparr>observed_allowance_atomic := n, last_chain_check_at := Some now,
               aa_updated_at := now,
               aa_status := (if n = 0 then ''revoked'' else ''active'')\<rparr>)))"

definition allowance_event ::
  "string \<Rightarrow> pydict \<Rightarrow> wallet_identity_row \<Rightarrow> spending_grant_row \<Rightarrow> asset_allowance_row \<Rightarrow> int
     \<Rightarrow> audit_event_row" where
  "allowance_event uuid_hex row identity grant a now =
     \<lparr>ae_event_id = ''audit_'' @ take 20 uuid_hex, ae_idempotency_key = None,
      ae_event_type = ''allowance_refreshed'', ae_source_service = ''funding_service'',
      ae_action_id = dget row ''action_id'', ae_user_id = Some (wi_user_id identity),
      ae_agent_id = Some (grant_agent_id grant),
      ae_policy_decision_id = dget row ''policy_decision_id'', ae_payment_id = PNone,
      ae_order_id = PNone, ae_receipt_id = PNone, ae_tx_hash = PNone,
      ae_payload =
        [(''asset_allowance_id'', PStr (asset_allowance_id a)),
         (''wallet_identity_id'', PStr (wallet_identity_id identity)),
         (''spending_grant_id'', PStr (spending_grant_id grant)),
         (''reservation_id'', dget row ''reservation_id''),
         (''network'', PStr (aa_network a)), (''token_address'', PStr (aa_token_address a)),
         (''status'', PStr (aa_status a)),
         (''observed_allowance_atomic'', PStr (show_int (observed_allowance_atomic a)))],
      ae_created_at = now\<rparr>"

definition observe_allowance_before_submission ::
  "string \<Rightarrow> pydict \<Rightarrow> pyval \<Rightarrow> bool \<Rightarrow> int \<Rightarrow> funding_db \<Rightarrow> py_error + (funding_db \<times> string)" where
  "observe_allowance_before_submission uuid_hex row observed stale now db =
     and_then (rail_is row ALLOWANCE_RAILS) (\<lambda>backed.
       if \<not> backed then Inl (ValueErr ''allowance refresh requires an allowance-backed rail'')
       else and_then (unified_authorization_scope db row) (\<lambda>(identity, grant, allowance).
         case allowance of
           None \<Rightarrow> Inl AttributeErr
         | Some a \<Rightarrow>
             and_then (observed_allowance observed stale now a) (\<lambda>a'.
               let db1 = db\<lparr>asset_allowances :=
                     upd_by asset_allowance_id (asset_allowance_id a) (\<lambda>_. a') (asset_allowances db)\<rparr>
               in and_then (add_audit_event (allowance_event uuid_hex row identity grant a' now) db1)
                    (\<lambda>db2. Inr (db2, aa_status a')))))"

end
