(* ===== verification/Account_Grants.thy ===== *)
theory Account_Grants
  imports Funding_Evidence
begin

text \<open>
  Spending grants over their life (\<open>AccountRepository\<close> of
  \<open>apps/core/services/account_service/repository.py\<close>): pausing, resuming, reducing and
  revoking a grant, expiring grants on a listing, revoking a wallet identity with the pause of
  its grants, and allowance refreshes. One \<open>_write_session\<close> is one database transaction, so
  an error leaves the tables as they were. A UUID is a parameter: the hexadecimal text of the
  \<open>i\<close>-th one drawn in the call.
\<close>

section \<open>The view of a grant\<close>

text \<open>
  \<open>_spending_grant(row)\<close> builds a validated \<open>SpendingGrant\<close>: \<open>_validate_grant_policy\<close> of
  \<open>schemas.py\<close>, in the order of its checks.
\<close>

definition validate_grant_policy :: "spending_grant_row \<Rightarrow> py_error + unit" where
  "validate_grant_policy g =
     (if max_amount_usdc g \<le> 0 \<or> per_transaction_limit_usdc g \<le> 0 \<or> hourly_limit_usdc g \<le> 0
         \<or> daily_limit_usdc g \<le> 0
      then Inl (ValueErr ''grant amounts must be positive'')
      else if max_amount_usdc g < per_transaction_limit_usdc g
      then Inl (ValueErr ''per-transaction limit exceeds total grant'')
      else if hourly_limit_usdc g < per_transaction_limit_usdc g
      then Inl (ValueErr ''per-transaction limit exceeds hourly limit'')
      else if daily_limit_usdc g < hourly_limit_usdc g
      then Inl (ValueErr ''hourly limit exceeds daily limit'')
      else if max_amount_usdc g < daily_limit_usdc g
      then Inl (ValueErr ''daily limit exceeds total grant'')
      else if expires_at g \<le> starts_at g
      then Inl (ValueErr ''starts_at must be before expires_at'')
      else Inr ())"

definition grant_view :: "spending_grant_row \<Rightarrow> py_error + spending_grant_row" where
  "grant_view g = and_then (validate_grant_policy g) (\<lambda>_. Inr g)"

definition required_grant :: "string \<Rightarrow> funding_db \<Rightarrow> py_error + spending_grant_row" where
  "required_grant gid db =
     lift_opt (ValueErr ''spending grant was not found'')
       (sel_by spending_grant_id gid (spending_grants db))"

definition put_grant :: "spending_grant_row \<Rightarrow> funding_db \<Rightarrow> funding_db" where
  "put_grant g db = update_grant (spending_grant_id g) (\<lambda>_. g) db"

section \<open>Account audit events\<close>

definition account_event ::
  "string \<Rightarrow> string \<Rightarrow> string \<Rightarrow> string option \<Rightarrow> pydict \<Rightarrow> int \<Rightarrow> audit_event_row" where
  "account_event uuid_hex kind user agent payload now =
     \<lparr>ae_event_id = ''audit_'' @ take 20 uuid_hex, ae_idempotency_key = None,
      ae_event_type = kind, ae_source_service = ''account_service'', ae_action_id = PNone,
      ae_user_id = Some user, ae_agent_id = agent, ae_policy_decision_id = PNone,
      ae_payment_id = PNone, ae_order_id = PNone, ae_receipt_id = PNone, ae_tx_hash = PNone,
      ae_payload = payload, ae_created_at = now\<rparr>"

definition grant_event ::
  "string \<Rightarrow> string \<Rightarrow> spending_grant_row \<Rightarrow> pydict \<Rightarrow> int \<Rightarrow> audit_event_row" where
  "grant_event uuid_hex kind g extra now =
     account_event uuid_hex kind (grant_user_id g) (Some (grant_agent_id g))
       ([(''spending_grant_id'', PStr (spending_grant_id g)),
         (''wallet_identity_id'', PStr (grant_wallet_identity_id g))] @ extra) now"

text \<open>Storing a changed grant with its event, and returning its view.\<close>

definition write_grant ::
  "audit_event_row \<Rightarrow> spending_grant_row \<Rightarrow> funding_db \<Rightarrow> py_error + (funding_db \<times> spending_grant_row)" where
  "write_grant event g db =
     and_then (grant_view g) (\<lambda>view.
       and_then (add_audit_event event (put_grant g db)) (\<lambda>db'. Inr (db', view)))"

definition read_grant ::
  "spending_grant_row \<Rightarrow> funding_db \<Rightarrow> py_error + (funding_db \<times> spending_grant_row)" where
  "read_grant g db = and_then (grant_view g) (\<lambda>view. Inr (db, view))"

definition with_status ::
  "string \<Rightarrow> string option \<Rightarrow> int \<Rightarrow> spending_grant_row \<Rightarrow> spending_grant_row" where
  "with_status st reason now g =
     g\<lparr>grant_status := st, grant_status_reason := reason, grant_updated_at := now\<rparr>"

section \<open>Pausing, resuming and revoking\<close>

definition pause_spending_grant ::
  "string \<Rightarrow> string \<Rightarrow> int \<Rightarrow> funding_db \<Rightarrow> py_error + (funding_db \<times> spending_grant_row)" where
  "pause_spending_grant uuid_hex gid now db =
     and_then (required_grant gid db) (\<lambda>g.
       if grant_status g \<in> {''active'', ''pending''}
       then write_grant
         (grant_event uuid_hex ''grant_paused'' g
           [(''status'', PStr ''paused''), (''status_reason'', PStr ''user_paused'')] now)
         (with_status ''paused'' (Some ''user_paused'') now g) db
       else read_grant g db)"

definition resume_spending_grant ::
  "string \<Rightarrow> string \<Rightarrow> int \<Rightarrow> funding_db \<Rightarrow> py_error + (funding_db \<times> spending_grant_row)" where
  "resume_spending_grant uuid_hex gid now db =
     and_then (required_grant gid db) (\<lambda>g.
       if grant_status g = ''revoked'' then Inl (ValueErr ''revoked grant cannot be resumed'')
       else if expires_at g \<le> now then
         if grant_status g \<noteq> ''expired'' then
           let expired = with_status ''expired'' (Some ''grant_expired'') now g
           in read_grant expired (put_grant expired db)
         else read_grant g db
       else if grant_status g \<in> {''active'', ''pending''} then read_grant g db
       else if grant_status_reason g \<noteq> Some ''user_paused''
       then Inl (ValueErr ''security-paused grant cannot be resumed'')
       else case sel_by wallet_identity_id (grant_wallet_identity_id g) (wallet_identities db) of
         None \<Rightarrow> Inl (ValueErr ''wallet identity is not active'')
       | Some i \<Rightarrow>
           if wi_status i \<noteq> ''active'' then Inl (ValueErr ''wallet identity is not active'')
           else
             let st = (if now < starts_at g then ''pending'' else ''active'')
             in write_grant (grant_event uuid_hex ''grant_resumed'' g [(''status'', PStr st)] now)
                  (with_status st None now g) db)"

definition revoke_spending_grant ::
  "string \<Rightarrow> string \<Rightarrow> int \<Rightarrow> funding_db \<Rightarrow> py_error + (funding_db \<times> spending_grant_row)" where
  "revoke_spending_grant uuid_hex gid now db =
     and_then (required_grant gid db) (\<lambda>g.
       if grant_status g \<noteq> ''revoked''
       then write_grant (grant_event uuid_hex ''grant_revoked'' g [(''status'', PStr ''revoked'')] now)
              (with_status ''revoked'' (Some ''user_revoked'') now g) db
       else read_grant g db)"

section \<open>Reducing\<close>

text \<open>
  A \<open>Decimal\<close> argument is its value with the text \<open>str\<close> prints for it; an amount read from
  its \<open>Numeric(38, 6)\<close> column prints with six decimals.
\<close>

type_synonym decimal_arg = "(rat \<times> string) option"

definition show_fixed6 :: "rat \<Rightarrow> string" where
  "show_fixed6 q =
     (let n = \<lfloor>\<bar>q\<bar> * 1000000\<rfloor>
      in (if q < 0 then ''-'' else '''') @ show_nat (nat (n div 1000000)) @ ''.''
           @ pad_digits 6 (n mod 1000000))"

definition arg_value :: "decimal_arg \<Rightarrow> rat \<Rightarrow> rat" where
  "arg_value arg old = (case arg of None \<Rightarrow> old | Some (v, _) \<Rightarrow> v)"

definition arg_text :: "decimal_arg \<Rightarrow> rat \<Rightarrow> string" where
  "arg_text arg old = (case arg of None \<Rightarrow> show_fixed6 old | Some (_, s) \<Rightarrow> s)"

record limit_change =
  new_max :: decimal_arg
  new_per_transaction :: decimal_arg
  new_hourly :: decimal_arg
  new_daily :: decimal_arg

definition proposed_limits :: "limit_change \<Rightarrow> spending_grant_row \<Rightarrow> spending_grant_row" where
  "proposed_limits ch g =
     g\<lparr>max_amount_usdc := arg_value (new_max ch) (max_amount_usdc g),
       per_transaction_limit_usdc := arg_value (new_per_transaction ch) (per_transaction_limit_usdc g),
       hourly_limit_usdc := arg_value (new_hourly ch) (hourly_limit_usdc g),
       daily_limit_usdc := arg_value (new_daily ch) (daily_limit_usdc g)\<rparr>"

definition limits_of :: "spending_grant_row \<Rightarrow> rat list" where
  "limits_of g = [max_amount_usdc g, per_transaction_limit_usdc g, hourly_limit_usdc g, daily_limit_usdc g]"

definition check_limit :: "rat \<times> rat \<Rightarrow> py_error + unit" where
  "check_limit p =
     (if fst p \<le> 0 then Inl (ValueErr ''grant amounts must be positive'')
      else if snd p < fst p
      then Inl (ValueErr ''spending grant limits cannot increase without a new challenge'')
      else Inr ())"

definition check_reduction :: "spending_grant_row \<Rightarrow> spending_grant_row \<Rightarrow> py_error + unit" where
  "check_reduction g p =
     and_then (all_checks check_limit (zip (limits_of p) (limits_of g))) (\<lambda>_.
       if max_amount_usdc p < per_transaction_limit_usdc p
       then Inl (ValueErr ''per-transaction limit exceeds total grant'')
       else if hourly_limit_usdc p < per_transaction_limit_usdc p
       then Inl (ValueErr ''per-transaction limit exceeds hourly limit'')
       else if daily_limit_usdc p < hourly_limit_usdc p
       then Inl (ValueErr ''hourly limit exceeds daily limit'')
       else if max_amount_usdc p < daily_limit_usdc p
       then Inl (ValueErr ''daily limit exceeds total grant'')
       else if max_amount_usdc p < used_amount_usdc g + reserved_amount_usdc g
       then Inl (ValueErr ''total grant cannot be reduced below committed amount'')
       else Inr ())"

definition reduce_spending_grant ::
  "string \<Rightarrow> string \<Rightarrow> int \<Rightarrow> limit_change \<Rightarrow> funding_db
     \<Rightarrow> py_error + (funding_db \<times> spending_grant_row)" where
  "reduce_spending_grant uuid_hex gid now ch db =
     and_then (required_grant gid db) (\<lambda>g.
       let p = proposed_limits ch g in
       and_then (check_reduction g p) (\<lambda>_.
         if limits_of p \<noteq> limits_of g
         then write_grant
           (grant_event uuid_hex ''grant_reduced'' g
             [(''max_amount_usdc'', PStr (arg_text (new_max ch) (max_amount_usdc g))),
              (''per_transaction_limit_usdc'',
                PStr (arg_text (new_per_transaction ch) (per_transaction_limit_usdc g))),
              (''hourly_limit_usdc'', PStr (arg_text (new_hourly ch) (hourly_limit_usdc g))),
              (''daily_limit_usdc'', PStr (arg_text (new_daily ch) (daily_limit_usdc g)))] now)
           (p\<lparr>grant_updated_at := now\<rparr>) db
         else read_grant g db))"

section \<open>Listing active grants\<close>

text \<open>A listing expires and activates the grants it looks at.\<close>

definition refresh_grant :: "int \<Rightarrow> spending_grant_row \<Rightarrow> spending_grant_row" where
  "refresh_grant t g =
     (if expires_at g \<le> t then with_status ''expired'' (Some ''grant_expired'') t g
      else if grant_status g = ''pending'' \<and> starts_at g \<le> t then with_status ''active'' None t g
      else g)"

definition listed_grant :: "string \<Rightarrow> spending_grant_row \<Rightarrow> bool" where
  "listed_grant user g \<longleftrightarrow>
     grant_user_id g = user \<and> grant_status g \<in> {''active'', ''pending'', ''paused''}"

definition grant_order :: "spending_grant_row \<Rightarrow> int \<times> string" where
  "grant_order g = (grant_created_at g, spending_grant_id g)"

fun views :: "spending_grant_row list \<Rightarrow> py_error + spending_grant_row list" where
  "views [] = Inr []"
| "views (g # gs) = and_then (grant_view g) (\<lambda>v. and_then (views gs) (\<lambda>vs. Inr (v # vs)))"

definition active_spending_grants ::
  "string \<Rightarrow> int \<Rightarrow> funding_db \<Rightarrow> py_error + (funding_db \<times> spending_grant_row list)" where
  "active_spending_grants user t db =
     (let listed = sort_key grant_order (filter (listed_grant user) (spending_grants db));
          active = filter (\<lambda>g. grant_status g = ''active'' \<and> starts_at g \<le> t \<and> t < expires_at g)
            (map (refresh_grant t) listed)
      in and_then (views active) (\<lambda>vs.
           Inr (db\<lparr>spending_grants :=
             update_rows (listed_grant user) (refresh_grant t) (spending_grants db)\<rparr>, vs)))"

section \<open>Revoking a wallet identity\<close>

definition cascade_pauses :: "string \<Rightarrow> spending_grant_row \<Rightarrow> bool" where
  "cascade_pauses wid g \<longleftrightarrow>
     grant_wallet_identity_id g = wid \<and> grant_status g \<in> {''active'', ''pending''}"

fun add_audit_events :: "audit_event_row list \<Rightarrow> funding_db \<Rightarrow> py_error + funding_db" where
  "add_audit_events [] db = Inr db"
| "add_audit_events (e # es) db = and_then (add_audit_event e db) (add_audit_events es)"

definition cascade_events ::
  "(nat \<Rightarrow> string) \<Rightarrow> wallet_identity_row \<Rightarrow> spending_grant_row list \<Rightarrow> int \<Rightarrow> audit_event_row list" where
  "cascade_events uuid identity grants now =
     map (\<lambda>(i, g). account_event (uuid i) ''grant_paused'' (wi_user_id identity)
            (Some (grant_agent_id g))
            [(''spending_grant_id'', PStr (spending_grant_id g)),
             (''wallet_identity_id'', PStr (wallet_identity_id identity)),
             (''status'', PStr ''paused''), (''status_reason'', PStr ''wallet_identity_revoked'')] now)
       (zip [0..<length grants] grants)"

definition revoke_wallet_identity_and_pause_active_grants ::
  "(nat \<Rightarrow> string) \<Rightarrow> string \<Rightarrow> int \<Rightarrow> funding_db \<Rightarrow> py_error + (funding_db \<times> wallet_identity_row)" where
  "revoke_wallet_identity_and_pause_active_grants uuid wid now db =
     (case sel_by wallet_identity_id wid (wallet_identities db) of
        None \<Rightarrow> Inl (ValueErr ''wallet identity was not found'')
      | Some identity \<Rightarrow>
          let changed = wi_status identity \<noteq> ''revoked'';
              identity' = (if changed
                then identity\<lparr>wi_status := ''revoked'', wi_updated_at := now\<rparr> else identity);
              paused = filter (cascade_pauses wid) (spending_grants db);
              events = cascade_events uuid identity paused now
                @ (if changed then [account_event (uuid (length paused)) ''wallet_revoked''
                     (wi_user_id identity) None
                     [(''wallet_identity_id'', PStr wid),
                      (''wallet_address'', PStr (wi_wallet_address identity)),
                      (''status'', PStr ''revoked'')] now] else [])
          in and_then (add_audit_events events
               (db\<lparr>wallet_identities :=
                      upd_by wallet_identity_id wid (\<lambda>_. identity') (wallet_identities db),
                    spending_grants := update_rows (cascade_pauses wid)
                      (with_status ''paused'' (Some ''wallet_identity_revoked'') now)
                      (spending_grants db)\<rparr>)) (\<lambda>db'. Inr (db', identity')))"

section \<open>Usage and allowances\<close>

definition spending_grant_daily_usage :: "string \<Rightarrow> int \<Rightarrow> funding_db \<Rightarrow> rat \<times> rat" where
  "spending_grant_daily_usage gid day db =
     (case daily_usage db gid day of
        None \<Rightarrow> (0, 0) | Some u \<Rightarrow> (daily_used_usdc u, daily_reserved_usdc u))"

definition rolling_sum :: "string \<Rightarrow> rolling_usage_row list \<Rightarrow> rat" where
  "rolling_sum st rows = sum_list (map rolling_amount_usdc (filter (\<lambda>r. rolling_state r = st) rows))"

definition spending_grant_rolling_hour_usage :: "string \<Rightarrow> int \<Rightarrow> funding_db \<Rightarrow> rat \<times> rat" where
  "spending_grant_rolling_hour_usage gid now db =
     (let rows = filter (counts_in_hour gid now) (rolling_usages db)
      in (rolling_sum ''used'' rows, rolling_sum ''reserved'' rows))"

definition locked_allowance_scope ::
  "string \<Rightarrow> funding_db \<Rightarrow> py_error + (asset_allowance_row \<times> wallet_identity_row)" where
  "locked_allowance_scope aid db =
     and_then (lift_opt (ValueErr ''asset allowance was not found'')
       (sel_by asset_allowance_id aid (asset_allowances db))) (\<lambda>a.
     and_then (lift_opt (ValueErr ''wallet identity was not found'')
       (sel_by wallet_identity_id (aa_wallet_identity_id a) (wallet_identities db))) (\<lambda>i.
       Inr (a, i)))"

definition write_allowance ::
  "string \<Rightarrow> wallet_identity_row \<Rightarrow> asset_allowance_row \<Rightarrow> int \<Rightarrow> funding_db
     \<Rightarrow> py_error + (funding_db \<times> asset_allowance_row)" where
  "write_allowance uuid_hex i a now db =
     and_then (add_audit_event
       (account_event uuid_hex ''allowance_refreshed'' (wi_user_id i) None
         [(''asset_allowance_id'', PStr (asset_allowance_id a)),
          (''wallet_identity_id'', PStr (aa_wallet_identity_id a)),
          (''network'', PStr (aa_network a)), (''token_address'', PStr (aa_token_address a)),
          (''status'', PStr (aa_status a)),
          (''observed_allowance_atomic'', PStr (show_int (observed_allowance_atomic a)))] now)
       (db\<lparr>asset_allowances :=
          upd_by asset_allowance_id (asset_allowance_id a) (\<lambda>_. a) (asset_allowances db)\<rparr>))
     (\<lambda>db'. Inr (db', a))"

definition ALLOWANCE_STATUSES :: "string set" where
  "ALLOWANCE_STATUSES = {''pending'', ''active'', ''insufficient'', ''revoked'', ''stale''}"

definition refresh_asset_allowance ::
  "string \<Rightarrow> string \<Rightarrow> int \<Rightarrow> string \<Rightarrow> int \<Rightarrow> funding_db
     \<Rightarrow> py_error + (funding_db \<times> asset_allowance_row)" where
  "refresh_asset_allowance uuid_hex aid observed st now db =
     and_then (locked_allowance_scope aid db) (\<lambda>(a, i).
       if observed < 0 \<or> UINT256_CEILING < observed
       then Inl (ValueErr ''atomic amount must be a uint256'')
       else if st \<notin> ALLOWANCE_STATUSES then Inl (ValueErr ''asset allowance status is invalid'')
       else write_allowance uuid_hex i
         (a\<lparr>observed_allowance_atomic := observed, aa_status := st,
            last_chain_check_at := Some now, aa_updated_at := now\<rparr>) now db)"

definition mark_asset_allowance_stale ::
  "string \<Rightarrow> string \<Rightarrow> int \<Rightarrow> funding_db \<Rightarrow> py_error + (funding_db \<times> asset_allowance_row)" where
  "mark_asset_allowance_stale uuid_hex aid now db =
     and_then (locked_allowance_scope aid db) (\<lambda>(a, i).
       write_allowance uuid_hex i (a\<lparr>aa_status := ''stale'', aa_updated_at := now\<rparr>) now db)"

end
