(* ===== verification/Budget_Books.thy ===== *)
theory Budget_Books
  imports Account_Grants
begin

text \<open>
  The books of the spending budget. A state step is one call of the ledger's budget
  operations or of the account repository's grant operations; the invariant \<open>books_ok\<close> says
  that every grant and every day holds exactly the amounts of its open and paid reservations
  and that no grant is committed beyond its total. It is the contract of
  \<open>invariant_system\<close>, interpreted on these steps.
\<close>

section \<open>Calls\<close>

datatype budget_call =
    ReserveBudget reservation_request reserve_context
  | ReleaseBudget pydict int
  | SettleBudget pydict int
  | PauseGrant string string int
  | ResumeGrant string string int
  | RevokeGrant string string int
  | ReduceGrant string string int limit_change
  | ListGrants string int
  | RevokeWallet "nat \<Rightarrow> string" string int

definition table_of :: "py_error + (funding_db \<times> 'a) \<Rightarrow> py_error + funding_db" where
  "table_of r = and_then r (\<lambda>p. Inr (fst p))"

fun run_budget :: "(string \<Rightarrow> string) \<Rightarrow> budget_call \<Rightarrow> funding_db \<Rightarrow> py_error + funding_db" where
  "run_budget sha256 (ReserveBudget req ctx) db = table_of (reserve_unified_budget sha256 req ctx db)"
| "run_budget sha256 (ReleaseBudget row now) db = table_of (release_unified_budget row now db)"
| "run_budget sha256 (SettleBudget row now) db = table_of (settle_unified_budget row now db)"
| "run_budget sha256 (PauseGrant uuid_hex gid now) db = table_of (pause_spending_grant uuid_hex gid now db)"
| "run_budget sha256 (ResumeGrant uuid_hex gid now) db = table_of (resume_spending_grant uuid_hex gid now db)"
| "run_budget sha256 (RevokeGrant uuid_hex gid now) db = table_of (revoke_spending_grant uuid_hex gid now db)"
| "run_budget sha256 (ReduceGrant uuid_hex gid now ch) db =
     table_of (reduce_spending_grant uuid_hex gid now ch db)"
| "run_budget sha256 (ListGrants user t) db = table_of (active_spending_grants user t db)"
| "run_budget sha256 (RevokeWallet uuid wid now) db =
     table_of (revoke_wallet_identity_and_pause_active_grants uuid wid now db)"

text \<open>
  What the callers guarantee: an amount to reserve is positive (\<open>reserve_spending\<close> refuses any
  other), and a row to close that still claims its budget is the record of an open
  reservation, which the ledger keeps with its immutable amount, grant and day.
\<close>

definition describes :: "pydict \<Rightarrow> rolling_usage_row \<Rightarrow> bool" where
  "describes row r \<longleftrightarrow>
     dget row ''reservation_id'' = PStr (rolling_reservation_id r) \<and>
     dget row ''spending_grant_id'' = PStr (rolling_spending_grant_id r) \<and>
     decimal_of_value (dget row ''amount_usdc'') = Inr (rolling_amount_usdc r) \<and>
     parse_iso_date (dget row ''usage_date'') = Inr (date_of (rolling_occurred_at r)) \<and>
     rolling_state r = ''reserved''"

definition accounts_for :: "pydict \<Rightarrow> funding_db \<Rightarrow> bool" where
  "accounts_for row db \<longleftrightarrow>
     (budget_state row ''reserved'' \<longrightarrow> list_ex (describes row) (rolling_usages db))"

fun caller_keeps :: "budget_call \<Rightarrow> funding_db \<Rightarrow> bool" where
  "caller_keeps (ReserveBudget req ctx) db = (0 < ctx_amount ctx)"
| "caller_keeps (ReleaseBudget row now) db = accounts_for row db"
| "caller_keeps (SettleBudget row now) db = accounts_for row db"
| "caller_keeps _ db = True"

inductive budget_step :: "funding_db \<Rightarrow> funding_db \<Rightarrow> bool" where
  "caller_keeps c db \<Longrightarrow> run_budget sha256 c db = Inr db' \<Longrightarrow> budget_step db db'"

section \<open>Balances\<close>

definition rolling_total :: "(rolling_usage_row \<Rightarrow> bool) \<Rightarrow> rolling_usage_row list \<Rightarrow> rat" where
  "rolling_total p t = sum_list (map (\<lambda>r. if p r then rolling_amount_usdc r else 0) t)"

definition of_grant :: "string \<Rightarrow> string \<Rightarrow> rolling_usage_row \<Rightarrow> bool" where
  "of_grant st gid r \<longleftrightarrow> rolling_spending_grant_id r = gid \<and> rolling_state r = st"

definition of_day :: "string \<Rightarrow> string \<times> int \<Rightarrow> rolling_usage_row \<Rightarrow> bool" where
  "of_day st k r \<longleftrightarrow>
     rolling_spending_grant_id r = fst k \<and> date_of (rolling_occurred_at r) = snd k \<and> rolling_state r = st"

definition usage_key :: "daily_usage_row \<Rightarrow> string \<times> int" where
  "usage_key u = (daily_spending_grant_id u, daily_usage_date u)"

definition rolling_key :: "rolling_usage_row \<Rightarrow> string \<times> int" where
  "rolling_key r = (rolling_spending_grant_id r, date_of (rolling_occurred_at r))"

definition grant_balanced :: "rolling_usage_row list \<Rightarrow> spending_grant_row \<Rightarrow> bool" where
  "grant_balanced t g \<longleftrightarrow>
     reserved_amount_usdc g = rolling_total (of_grant ''reserved'' (spending_grant_id g)) t \<and>
     used_amount_usdc g = rolling_total (of_grant ''used'' (spending_grant_id g)) t"

definition usage_balanced :: "rolling_usage_row list \<Rightarrow> daily_usage_row \<Rightarrow> bool" where
  "usage_balanced t u \<longleftrightarrow>
     daily_reserved_usdc u = rolling_total (of_day ''reserved'' (usage_key u)) t \<and>
     daily_used_usdc u = rolling_total (of_day ''used'' (usage_key u)) t"

definition within_budget :: "spending_grant_row \<Rightarrow> bool" where
  "within_budget g \<longleftrightarrow> used_amount_usdc g + reserved_amount_usdc g \<le> max_amount_usdc g"

definition books_ok :: "funding_db \<Rightarrow> bool" where
  "books_ok db \<longleftrightarrow>
     distinct (map spending_grant_id (spending_grants db)) \<and>
     distinct (map usage_key (daily_usages db)) \<and>
     distinct (map rolling_reservation_id (rolling_usages db)) \<and>
     (\<forall>r \<in> set (rolling_usages db). 0 < rolling_amount_usdc r) \<and>
     (\<forall>r \<in> set (rolling_usages db). rolling_key r \<in> usage_key ` set (daily_usages db)) \<and>
     (\<forall>g \<in> set (spending_grants db). grant_balanced (rolling_usages db) g \<and> within_budget g) \<and>
     (\<forall>u \<in> set (daily_usages db). usage_balanced (rolling_usages db) u)"

definition empty_books :: "funding_db \<Rightarrow> bool" where
  "empty_books db \<longleftrightarrow>
     rolling_usages db = [] \<and> daily_usages db = [] \<and>
     distinct (map spending_grant_id (spending_grants db)) \<and>
     (\<forall>g \<in> set (spending_grants db).
        used_amount_usdc g = 0 \<and> reserved_amount_usdc g = 0 \<and> validate_grant_policy g = Inr ())"

section \<open>Sums over reservations\<close>

lemma rolling_total_Nil [simp]: "rolling_total p [] = 0"
  by (simp add: rolling_total_def)

lemma rolling_total_Cons [simp]:
  "rolling_total p (r # t) = (if p r then rolling_amount_usdc r else 0) + rolling_total p t"
  by (simp add: rolling_total_def)

lemma rolling_total_append [simp]: "rolling_total p (t @ s) = rolling_total p t + rolling_total p s"
  by (simp add: rolling_total_def)

lemma rolling_total_none: "(\<And>r. r \<in> set t \<Longrightarrow> \<not> p r) \<Longrightarrow> rolling_total p t = 0"
  by (induction t) auto

lemma rolling_total_nonneg: "(\<And>r. r \<in> set t \<Longrightarrow> 0 < rolling_amount_usdc r) \<Longrightarrow> 0 \<le> rolling_total p t"
  by (induction t) (auto simp: less_imp_le)

text \<open>Assigning a state to one reservation moves its amount between the totals.\<close>

lemma rolling_total_close:
  assumes "distinct (map rolling_reservation_id t)" "r \<in> set t"
    and "\<And>x. rolling_amount_usdc (f x) = rolling_amount_usdc x"
  shows "rolling_total p (upd_by rolling_reservation_id (rolling_reservation_id r) f t) =
    rolling_total p t - (if p r then rolling_amount_usdc r else 0)
      + (if p (f r) then rolling_amount_usdc r else 0)"
  using assms(1,2)
proof (induction t)
  case (Cons x t)
  show ?case
  proof (cases "x = r")
    case True
    with Cons.prems have "upd_by rolling_reservation_id (rolling_reservation_id r) f t = t"
      by (auto simp: upd_by_def intro!: update_rows_id) (metis image_eqI)
    with True show ?thesis by (auto simp: upd_by_def assms(3))
  next
    case False
    with Cons.prems have "rolling_reservation_id x \<noteq> rolling_reservation_id r" by auto
    with Cons False show ?thesis by (simp add: upd_by_def)
  qed
qed simp

lemma hourly_total_eq:
  "hourly_total db gid now = rolling_total (counts_in_hour gid now) (rolling_usages db)"
proof -
  have "sum_list (map rolling_amount_usdc (filter p t)) = rolling_total p t" for p t
    by (induction t) auto
  then show ?thesis by (simp add: hourly_total_def)
qed

lemma in_usage_key: "in_usage gid day u \<longleftrightarrow> usage_key u = (gid, day)"
  by (auto simp: in_usage_def usage_key_def)

lemma daily_usage_sel: "daily_usage db gid day = sel_by usage_key (gid, day) (daily_usages db)"
proof -
  have "(\<lambda>u. daily_spending_grant_id u = gid \<and> daily_usage_date u = day) = (\<lambda>u. usage_key u = (gid, day))"
    by (auto simp: usage_key_def)
  then show ?thesis by (simp add: daily_usage_def sel_by_def)
qed

lemma update_usage_upd:
  "update_usage gid day f db = db\<lparr>daily_usages := upd_by usage_key (gid, day) f (daily_usages db)\<rparr>"
proof -
  have "in_usage gid day = (\<lambda>u. usage_key u = (gid, day))"
    by (auto simp: in_usage_key)
  then show ?thesis by (simp add: update_usage_def upd_by_def)
qed

end
