(* ===== verification/Budget_Safety.thy ===== *)
theory Budget_Safety
  imports Budget_Books
begin

text \<open>
  Preservation of \<open>books_ok\<close>, first half: the account repository's grant operations leave the
  money of the books alone (\<open>money_kept\<close>), and adding a reservation keeps the balances.
\<close>

section \<open>Steps that leave the money alone\<close>

definition money_same :: "spending_grant_row \<Rightarrow> spending_grant_row \<Rightarrow> bool" where
  "money_same g g' \<longleftrightarrow>
     spending_grant_id g' = spending_grant_id g \<and> used_amount_usdc g' = used_amount_usdc g \<and>
     reserved_amount_usdc g' = reserved_amount_usdc g \<and> (within_budget g \<longrightarrow> within_budget g')"

definition money_kept :: "funding_db \<Rightarrow> funding_db \<Rightarrow> bool" where
  "money_kept db db' \<longleftrightarrow>
     daily_usages db' = daily_usages db \<and> rolling_usages db' = rolling_usages db \<and>
     list_all2 money_same (spending_grants db) (spending_grants db')"

lemma list_all2_right_mem:
  assumes "list_all2 P xs ys" "y \<in> set ys"
  obtains x where "x \<in> set xs" "P x y"
  using assms by (induction arbitrary: thesis rule: list_all2_induct) auto

lemma books_money_kept:
  assumes "books_ok db" "money_kept db db'"
  shows "books_ok db'"
proof -
  let ?t = "spending_grants db" and ?t' = "spending_grants db'"
  have rel: "list_all2 money_same ?t ?t'" using assms by (simp add: money_kept_def)
  have "list_all2 (\<lambda>g g'. spending_grant_id g' = spending_grant_id g) ?t ?t'"
    using rel by (rule list_all2_mono) (simp add: money_same_def)
  then have ids: "map spending_grant_id ?t' = map spending_grant_id ?t"
    by (simp add: list_all2_conv_all_nth list_eq_iff_nth_eq)
  have "grant_balanced (rolling_usages db) g' \<and> within_budget g'" if mem: "g' \<in> set ?t'" for g'
  proof -
    obtain g where g: "g \<in> set ?t" "money_same g g'"
      using rel mem by (rule list_all2_right_mem)
    moreover from g(1) assms(1) have "grant_balanced (rolling_usages db) g" "within_budget g"
      by (simp_all add: books_ok_def)
    ultimately show ?thesis by (simp add: money_same_def grant_balanced_def)
  qed
  then show ?thesis
    using assms ids by (simp add: books_ok_def money_kept_def)
qed

lemma money_same_refl [simp]: "money_same g g"
  by (simp add: money_same_def)

lemma money_kept_refl [simp]: "money_kept db db"
  by (simp add: money_kept_def list_all2_refl)

lemma money_same_with_status [simp]: "money_same g (with_status st reason now g)"
  by (simp add: money_same_def with_status_def within_budget_def)

lemma list_all2_update_rows:
  "(\<And>r. r \<in> set t \<Longrightarrow> P r r) \<Longrightarrow> (\<And>r. r \<in> set t \<Longrightarrow> p r \<Longrightarrow> P r (f r)) \<Longrightarrow> list_all2 P t (update_rows p f t)"
  by (induction t) (auto split: if_splits)

lemma list_all2_put_row:
  assumes "distinct (map key t)" "sel_by key k t = Some r" "P r r'" "\<And>x. P x x"
  shows "list_all2 P t (upd_by key k (\<lambda>_. r') t)"
  unfolding upd_by_def
proof (rule list_all2_update_rows)
  show "P x x" for x by (rule assms(4))
  show "P x r'" if "x \<in> set t" "key x = k" for x
  proof -
    have "x = r"
      using assms(1) that sel_by_in [OF assms(2)] by (intro key_unique [OF assms(1)]) auto
    then show ?thesis using assms(3) by simp
  qed
qed

lemma add_audit_event_frame:
  "add_audit_event e db = Inr db' \<Longrightarrow> db' = db\<lparr>audit_events := audit_events db @ [e]\<rparr>"
  by (simp add: add_audit_event_def split: if_splits)

lemma add_audit_events_frame:
  "add_audit_events es db = Inr db' \<Longrightarrow> db' = db\<lparr>audit_events := audit_events db @ es\<rparr>"
proof (induction es arbitrary: db)
  case (Cons e es)
  then obtain db1 where "add_audit_event e db = Inr db1" "add_audit_events es db1 = Inr db'"
    by (auto simp: and_then_eq_Inr)
  then show ?case using Cons.IH add_audit_event_frame by fastforce
qed simp

lemma put_grant_frame:
  "daily_usages (put_grant g db) = daily_usages db"
  "rolling_usages (put_grant g db) = rolling_usages db"
  "wallet_identities (put_grant g db) = wallet_identities db"
  "audit_events (put_grant g db) = audit_events db"
  "spending_grants (put_grant g db) =
     upd_by spending_grant_id (spending_grant_id g) (\<lambda>_. g) (spending_grants db)"
  by (simp_all add: put_grant_def update_grant_def)

lemma put_grant_money:
  assumes "books_ok db" "required_grant gid db = Inr g" "money_same g g'"
  shows "money_kept db (put_grant g' db)"
proof -
  have sel: "sel_by spending_grant_id gid (spending_grants db) = Some g"
    using assms(2) by (simp add: required_grant_def)
  then have "spending_grant_id g' = gid"
    using assms(3) sel_by_in by (fastforce simp: money_same_def)
  then show ?thesis
    using assms sel by (auto simp: money_kept_def put_grant_frame books_ok_def intro!: list_all2_put_row)
qed

lemma write_grant_money:
  assumes "books_ok db" "write_grant e g' db = Inr (db', v)"
    and "required_grant gid db = Inr g" "money_same g g'"
  shows "money_kept db db'"
proof -
  obtain "add_audit_event e (put_grant g' db) = Inr db'"
    using assms(2) by (auto simp: write_grant_def and_then_eq_Inr)
  then show ?thesis
    using put_grant_money [OF assms(1,3,4)] add_audit_event_frame
    by (fastforce simp: money_kept_def)
qed

lemma read_grant_eq [simp]: "read_grant g db = Inr (db', v) \<longleftrightarrow> grant_view g = Inr v \<and> db' = db"
  by (auto simp: read_grant_def and_then_eq_Inr)

lemma pause_money:
  assumes "books_ok db" "pause_spending_grant u gid now db = Inr (db', v)"
  shows "money_kept db db'"
  using assms(2)
  by (auto simp: pause_spending_grant_def and_then_eq_Inr split: if_splits
      intro: write_grant_money [OF assms(1)])

lemma revoke_money:
  assumes "books_ok db" "revoke_spending_grant u gid now db = Inr (db', v)"
  shows "money_kept db db'"
  using assms(2)
  by (auto simp: revoke_spending_grant_def and_then_eq_Inr split: if_splits
      intro: write_grant_money [OF assms(1)])

lemma resume_money:
  assumes "books_ok db" "resume_spending_grant u gid now db = Inr (db', v)"
  shows "money_kept db db'"
  using assms(2)
  by (auto simp: resume_spending_grant_def and_then_eq_Inr Let_def split: if_splits option.splits
      intro: write_grant_money [OF assms(1)] put_grant_money [OF assms(1)])

lemma check_reduction_budget:
  "check_reduction g p = Inr u \<Longrightarrow> used_amount_usdc g + reserved_amount_usdc g \<le> max_amount_usdc p"
  by (auto simp: check_reduction_def and_then_eq_Inr split: if_splits)

lemma reduce_money:
  assumes "books_ok db" "reduce_spending_grant u gid now ch db = Inr (db', v)"
  shows "money_kept db db'"
proof -
  obtain g where g: "required_grant gid db = Inr g"
    and ok: "check_reduction g (proposed_limits ch g) = Inr ()"
    and w: "\<exists>e. write_grant e ((proposed_limits ch g)\<lparr>grant_updated_at := now\<rparr>) db = Inr (db', v) \<or> db' = db"
    using assms(2)
    by (auto simp: reduce_spending_grant_def and_then_eq_Inr Let_def split: if_splits)
  have "money_same g ((proposed_limits ch g)\<lparr>grant_updated_at := now\<rparr>)"
    using check_reduction_budget [OF ok] by (simp add: money_same_def within_budget_def proposed_limits_def)
  then show ?thesis using w write_grant_money [OF assms(1) _ g] by auto
qed

lemma money_same_refresh [simp]: "money_same g (refresh_grant t g)"
  by (simp add: refresh_grant_def)

lemma list_money:
  assumes "active_spending_grants user t db = Inr (db', v)"
  shows "money_kept db db'"
  using assms by (auto simp: active_spending_grants_def and_then_eq_Inr money_kept_def Let_def
      intro!: list_all2_update_rows)

lemma revoke_wallet_money:
  assumes "revoke_wallet_identity_and_pause_active_grants uuid wid now db = Inr (db', v)"
  shows "money_kept db db'"
proof -
  obtain i es where "add_audit_events es
      (db\<lparr>wallet_identities := upd_by wallet_identity_id wid (\<lambda>_. i) (wallet_identities db),
          spending_grants := update_rows (cascade_pauses wid)
            (with_status ''paused'' (Some ''wallet_identity_revoked'') now) (spending_grants db)\<rparr>)
      = Inr db'"
    using assms unfolding revoke_wallet_identity_and_pause_active_grants_def Let_def
    by (auto simp: and_then_eq_Inr split: option.splits)
  from add_audit_events_frame [OF this] show ?thesis
    by (simp add: money_kept_def list_all2_update_rows)
qed

section \<open>Reserving\<close>

lemma books_grant: "books_ok db \<Longrightarrow> g \<in> set (spending_grants db) \<Longrightarrow>
    grant_balanced (rolling_usages db) g \<and> within_budget g"
  by (simp add: books_ok_def)

lemma books_usage: "books_ok db \<Longrightarrow> u \<in> set (daily_usages db) \<Longrightarrow> usage_balanced (rolling_usages db) u"
  by (simp add: books_ok_def)

lemma books_keys:
  "books_ok db \<Longrightarrow> r \<in> set (rolling_usages db) \<Longrightarrow> rolling_key r \<in> usage_key ` set (daily_usages db)"
  by (simp add: books_ok_def)

lemma ensure_daily_usage_shape:
  assumes "ensure_daily_usage sha256 gid day now db = Inr db1"
  shows "(db1 = db \<and> (gid, day) \<in> usage_key ` set (daily_usages db)) \<or>
    ((gid, day) \<notin> usage_key ` set (daily_usages db) \<and>
     (\<exists>u. usage_key u = (gid, day) \<and> daily_used_usdc u = 0 \<and> daily_reserved_usdc u = 0 \<and>
       db1 = db\<lparr>daily_usages := daily_usages db @ [u]\<rparr>))"
proof (cases "daily_usage db gid day")
  case None
  then have "(gid, day) \<notin> usage_key ` set (daily_usages db)"
    by (simp add: daily_usage_sel sel_by_None)
  moreover have "\<exists>u. usage_key u = (gid, day) \<and> daily_used_usdc u = 0 \<and> daily_reserved_usdc u = 0 \<and>
       db1 = db\<lparr>daily_usages := daily_usages db @ [u]\<rparr>"
    using assms None
    by (intro exI [of _ "\<lparr>daily_usage_id = daily_usage_id_of sha256 gid day,
          daily_spending_grant_id = gid, daily_usage_date = day, daily_used_usdc = 0,
          daily_reserved_usdc = 0, daily_created_at = now, daily_updated_at = now\<rparr>"])
      (simp add: ensure_daily_usage_def usage_key_def split: if_splits)
  ultimately show ?thesis by simp
next
  case (Some u)
  then have "u \<in> set (daily_usages db)" "usage_key u = (gid, day)"
    using sel_by_in by (fastforce simp: daily_usage_sel)+
  moreover have "db1 = db" using assms Some by (simp add: ensure_daily_usage_def)
  ultimately show ?thesis by (metis image_eqI)
qed

lemma books_ensure:
  assumes "books_ok db" "ensure_daily_usage sha256 gid day now db = Inr db1"
  shows "books_ok db1" "(gid, day) \<in> usage_key ` set (daily_usages db1)"
    "spending_grants db1 = spending_grants db" "rolling_usages db1 = rolling_usages db"
proof -
  from ensure_daily_usage_shape [OF assms(2)]
  consider "db1 = db" "(gid, day) \<in> usage_key ` set (daily_usages db)"
    | u where "(gid, day) \<notin> usage_key ` set (daily_usages db)" "usage_key u = (gid, day)"
        "daily_used_usdc u = 0" "daily_reserved_usdc u = 0"
        "db1 = db\<lparr>daily_usages := daily_usages db @ [u]\<rparr>"
    by blast
  note cases = this
  show "spending_grants db1 = spending_grants db" "rolling_usages db1 = rolling_usages db"
    "(gid, day) \<in> usage_key ` set (daily_usages db1)"
    by (cases rule: cases; force)+
  show "books_ok db1"
  proof (cases rule: cases)
    case 2
    have "rolling_total (of_day st (gid, day)) (rolling_usages db) = 0" for st
    proof (rule rolling_total_none)
      fix r assume "r \<in> set (rolling_usages db)"
      then have "rolling_key r \<noteq> (gid, day)" using books_keys [OF assms(1)] 2(1) by metis
      then show "\<not> of_day st (gid, day) r" by (auto simp: of_day_def rolling_key_def)
    qed
    then have "usage_balanced (rolling_usages db) u"
      using 2 by (simp add: usage_balanced_def)
    then show ?thesis using assms(1) 2 by (auto simp: books_ok_def)
  qed (use assms in simp)
qed

text \<open>A new reservation: its amount on the grant, on the day, and in the rolling list.\<close>

lemma books_add:
  assumes ok: "books_ok db" and day: "(gid, date_of now) \<in> usage_key ` set (daily_usages db)"
    and amount: "0 < amount"
    and new: "rid \<notin> rolling_reservation_id ` set (rolling_usages db)"
    and room: "\<And>g. g \<in> set (spending_grants db) \<Longrightarrow> spending_grant_id g = gid \<Longrightarrow>
       used_amount_usdc g + reserved_amount_usdc g + amount \<le> max_amount_usdc g"
    and db': "db' = db\<lparr>spending_grants :=
          upd_by spending_grant_id gid (reserve_on_grant amount now) (spending_grants db),
        daily_usages := upd_by usage_key (gid, date_of now) (reserve_on_day amount now) (daily_usages db),
        rolling_usages := rolling_usages db @
          [\<lparr>rolling_reservation_id = rid, rolling_spending_grant_id = gid,
            rolling_amount_usdc = amount, rolling_state = ''reserved'', rolling_occurred_at = now,
            rolling_updated_at = now\<rparr>]\<rparr>"
  shows "books_ok db'"
proof -
  have grants: "grant_balanced (rolling_usages db') g' \<and> within_budget g'"
    if mem: "g' \<in> set (spending_grants db')" for g'
  proof -
    from mem have "g' \<in> set (update_rows (\<lambda>g. spending_grant_id g = gid)
        (reserve_on_grant amount now) (spending_grants db))"
      by (simp add: db' upd_by_def)
    then show ?thesis
    proof (cases rule: in_update_rowsE)
      case kept
      then show ?thesis using books_grant [OF ok]
        by (simp add: db' grant_balanced_def of_grant_def)
    next
      case (changed g)
      then show ?thesis using books_grant [OF ok changed(1)] room [OF changed(1,2)]
        by (simp add: db' grant_balanced_def of_grant_def reserve_on_grant_def within_budget_def add.assoc)
    qed
  qed
  have usages: "usage_balanced (rolling_usages db') u'"
    if mem: "u' \<in> set (daily_usages db')" for u'
  proof -
    from mem have "u' \<in> set (update_rows (\<lambda>u. usage_key u = (gid, date_of now))
        (reserve_on_day amount now) (daily_usages db))"
      by (simp add: db' upd_by_def)
    then show ?thesis
    proof (cases rule: in_update_rowsE)
      case kept
      then have "usage_key u' \<noteq> (gid, date_of now)" by simp
      then have "\<not> (gid = fst (usage_key u') \<and> date_of now = snd (usage_key u'))"
        by (metis prod.collapse)
      then show ?thesis using books_usage [OF ok kept(1)]
        by (auto simp: db' usage_balanced_def of_day_def)
    next
      case (changed u)
      then have "usage_key u' = (gid, date_of now)" by (simp add: usage_key_def reserve_on_day_def)
      then show ?thesis using books_usage [OF ok changed(1)] changed
        by (simp add: db' usage_balanced_def of_day_def reserve_on_day_def)
    qed
  qed
  have ids: "map spending_grant_id (spending_grants db') = map spending_grant_id (spending_grants db)"
    "map usage_key (daily_usages db') = map usage_key (daily_usages db)"
    by (auto simp: db' usage_key_def reserve_on_grant_def reserve_on_day_def intro!: map_key_upd_by)
  have keys: "usage_key ` set (daily_usages db') = usage_key ` set (daily_usages db)"
    using ids(2) by (metis set_map)
  show ?thesis
    unfolding books_ok_def
  proof (intro conjI)
    show "distinct (map spending_grant_id (spending_grants db'))"
      "distinct (map usage_key (daily_usages db'))"
      using ok by (simp_all add: ids books_ok_def)
    show "distinct (map rolling_reservation_id (rolling_usages db'))"
      using ok new by (simp add: db' books_ok_def)
    show "\<forall>r \<in> set (rolling_usages db'). 0 < rolling_amount_usdc r"
      using ok amount by (simp add: db' books_ok_def)
    show "\<forall>r \<in> set (rolling_usages db'). rolling_key r \<in> usage_key ` set (daily_usages db')"
      using ok day unfolding keys by (simp add: db' books_ok_def rolling_key_def)
  qed (use grants usages in blast)+
qed

end
