(* ===== verification/Budget_Invariant.thy ===== *)
theory Budget_Invariant
  imports Budget_Safety
begin

text \<open>
  Every budget step keeps the books: which grant a reservation was committed to and what it had
  to satisfy (\<open>may_spend\<close>, \<open>booked\<close>), the effect of a release and of a settlement, and the
  interpretation of \<open>invariant_system\<close>.
\<close>

section \<open>Selecting a grant\<close>

text \<open>What a successful reservation was committed to.\<close>

lemma apply_stages_Inr:
  "apply_stages stages grants = Inr gs \<Longrightarrow>
     gs = filter (\<lambda>g. \<forall>(reason, keep) \<in> set stages. keep g) grants"
proof (induction stages arbitrary: grants)
  case (Cons s stages)
  obtain reason keep where s: "s = (reason, keep)" by force
  with Cons.prems have "apply_stages stages (filter keep grants) = Inr gs"
    by (simp add: Let_def split: if_splits)
  from Cons.IH [OF this] show ?case by (simp add: s conj_commute)
qed simp

definition may_spend :: "reservation_request \<Rightarrow> reserve_context \<Rightarrow> funding_db \<Rightarrow> spending_grant_row \<Rightarrow> bool" where
  "may_spend req ctx db g \<longleftrightarrow>
     g \<in> set (active_grants db (ctx_user_id ctx) (ctx_agent_id ctx) (ctx_now ctx)) \<and>
     (\<forall>(reason, keep) \<in> set (scope_stages req (ctx_amount ctx)). keep g) \<and>
     within_day db (date_of (ctx_now ctx)) (ctx_amount ctx) g \<and>
     within_hour db (ctx_now ctx) (ctx_amount ctx) g"

lemma eligible_may_spend:
  assumes "eligible_grants db req (ctx_user_id ctx) (ctx_agent_id ctx) (ctx_amount ctx) (ctx_now ctx) = Inr gs"
    and "g \<in> set gs"
  shows "may_spend req ctx db g"
proof -
  obtain scoped where "apply_stages (scope_stages req (ctx_amount ctx))
      (active_grants db (ctx_user_id ctx) (ctx_agent_id ctx) (ctx_now ctx)) = Inr scoped"
    and gs: "gs = filter (within_hour db (ctx_now ctx) (ctx_amount ctx))
      (filter (within_day db (date_of (ctx_now ctx)) (ctx_amount ctx)) scoped)"
    using assms(1) by (auto simp: eligible_grants_def and_then_eq_Inr Let_def split: if_splits)
  from apply_stages_Inr [OF this(1)] gs assms(2) show ?thesis
    by (auto simp: may_spend_def)
qed

lemma choose_pair_in:
  assumes "choose_pair req amount atomic pairs = Inr p"
  shows "p \<in> set pairs" "asset_pair_matches req p" "atomic \<le> observed_allowance_atomic (snd p)"
proof -
  define funded where "funded = filter (\<lambda>(g, a). atomic \<le> observed_allowance_atomic a)
    (filter (\<lambda>(g, a). atomic_matches amount (aa_token_decimals a) atomic) (filter (asset_pair_matches req) pairs))"
  have "funded \<noteq> []" "p = arg_min_list pair_key funded"
    using assms unfolding choose_pair_def Let_def funded_def [symmetric]
    by (auto split: if_splits)
  then have "p \<in> set funded" by (simp add: arg_min_list_in)
  then show "p \<in> set pairs" "asset_pair_matches req p" "atomic \<le> observed_allowance_atomic (snd p)"
    by (auto simp: funded_def)
qed

text \<open>
  The token of a selection is in the grant's asset scope, on the rail of an allowance with an
  active allowance of the grant's wallet that covers the amount.
\<close>

definition covering_allowance ::
  "reservation_request \<Rightarrow> budget_selection \<Rightarrow> spending_grant_row \<Rightarrow> asset_allowance_row \<Rightarrow> bool" where
  "covering_allowance req sel g a \<longleftrightarrow>
     sel_asset_allowance_id sel = Some (asset_allowance_id a) \<and>
     aa_wallet_identity_id a = grant_wallet_identity_id g \<and> aa_status a = ''active'' \<and>
     aa_network a = req_network req \<and> aa_token_address a = sel_token_address sel \<and>
     (\<exists>n. atomic_amount (req_amount_atomic req) = Inr n \<and> n \<le> observed_allowance_atomic a)"

definition asset_covered ::
  "reservation_request \<Rightarrow> reserve_context \<Rightarrow> funding_db \<Rightarrow> budget_selection \<Rightarrow> spending_grant_row \<Rightarrow> bool" where
  "asset_covered req ctx db sel g \<longleftrightarrow>
     sel_token_address sel = ctx_canonical_token ctx \<and>
     (if req_authorization_rail req = ''external_x402''
      then sel_token_address sel \<in> lower ` set (asset_scopes g) \<and> sel_asset_allowance_id sel = None
      else sel_token_address sel \<in> set (asset_scopes g) \<and>
        (\<exists>a \<in> set (asset_allowances db). covering_allowance req sel g a))"

definition booked ::
  "(string \<Rightarrow> string) \<Rightarrow> reservation_request \<Rightarrow> reserve_context \<Rightarrow> funding_db \<Rightarrow> budget_selection
     \<Rightarrow> funding_db \<Rightarrow> spending_grant_row \<Rightarrow> bool" where
  "booked sha256 req ctx db sel db' g \<longleftrightarrow>
     commit_budget_reservation sha256 g (ctx_amount ctx) (ctx_now ctx) (ctx_reservation_id ctx) db = Inr db' \<and>
     require_opc_installation_authority db (req_opc_installation_id req) (ctx_user_id ctx) g (ctx_now ctx)
       = Inr () \<and>
     sel_spending_grant_id sel = spending_grant_id g \<and>
     sel_wallet_identity_id sel = grant_wallet_identity_id g \<and>
     sel_usage_date sel = date_of (ctx_now ctx) \<and> asset_covered req ctx db sel g"

lemma commit_selection_commits:
  assumes "commit_selection sha256 req ctx g key (selection_with key t d y sp (date_of (ctx_now ctx))) db
      = Inr (db', sel)"
    and "sel_spending_grant_id key = spending_grant_id g"
    and "sel_wallet_identity_id key = grant_wallet_identity_id g"
    and "asset_covered req ctx db (selection_with key t d y sp (date_of (ctx_now ctx))) g"
  shows "booked sha256 req ctx db sel db' g"
  using assms
  by (auto simp: commit_selection_def booked_def selection_with_def selection_key.defs and_then_eq_Inr
      split: if_splits)

lemma reserve_external_commits:
  assumes "reserve_external sha256 req ctx gs atomic db = Inr (db', sel)"
    and "req_authorization_rail req = ''external_x402''"
  shows "\<exists>g \<in> set gs. booked sha256 req ctx db sel db' g"
proof -
  define token where "token = lower (case req_token_address req of None \<Rightarrow> [] | Some t \<Rightarrow> t)"
  define c where "c = filter (grant_asset_ok token) gs"
  define g where "g = arg_min_list (\<lambda>g. (spending_grant_id g, grant_wallet_identity_id g)) c"
  have ne: "c \<noteq> []"
    using assms(1) unfolding reserve_external_def Let_def token_def [symmetric] c_def [symmetric]
    by (simp split: if_splits)
  then have g: "g \<in> set c" unfolding g_def by (rule arg_min_list_in)
  have "booked sha256 req ctx db sel db' g"
  proof (rule commit_selection_commits)
    show "commit_selection sha256 req ctx g
        \<lparr>sel_wallet_identity_id = grant_wallet_identity_id g,
         sel_spending_grant_id = spending_grant_id g, sel_asset_allowance_id = None\<rparr>
        (selection_with
          \<lparr>sel_wallet_identity_id = grant_wallet_identity_id g,
           sel_spending_grant_id = spending_grant_id g, sel_asset_allowance_id = None\<rparr>
          token (ctx_external_decimals ctx) (ctx_external_symbol ctx) None (date_of (ctx_now ctx)))
        db = Inr (db', sel)"
      using assms(1) ne unfolding reserve_external_def Let_def token_def [symmetric] c_def [symmetric]
        g_def [symmetric]
      by (simp split: if_splits)
    have "token = ctx_canonical_token ctx"
      using assms(1) unfolding reserve_external_def Let_def token_def [symmetric] by (simp split: if_splits)
    then show "asset_covered req ctx db (selection_with
        \<lparr>sel_wallet_identity_id = grant_wallet_identity_id g,
         sel_spending_grant_id = spending_grant_id g, sel_asset_allowance_id = None\<rparr>
        token (ctx_external_decimals ctx) (ctx_external_symbol ctx) None (date_of (ctx_now ctx))) g"
      using g assms(2) by (simp add: asset_covered_def selection_with_def selection_key.defs c_def grant_asset_ok_def)
  qed simp_all
  with g show ?thesis by (auto simp: c_def)
qed

lemma reserve_allowance_commits:
  assumes "reserve_allowance sha256 req ctx spender gs atomic db = Inr (db', sel)"
    and "req_authorization_rail req \<noteq> ''external_x402''" "atomic_amount (req_amount_atomic req) = Inr atomic"
  shows "\<exists>g \<in> set gs. booked sha256 req ctx db sel db' g"
proof -
  obtain g a where c: "choose_pair req (ctx_amount ctx) atomic
      (List.product gs (matching_allowances db req (ctx_canonical_token ctx) spender gs)) = Inr (g, a)"
    and s: "commit_selection sha256 req ctx g
        \<lparr>sel_wallet_identity_id = grant_wallet_identity_id g,
         sel_spending_grant_id = spending_grant_id g,
         sel_asset_allowance_id = Some (asset_allowance_id a)\<rparr>
        (selection_with
          \<lparr>sel_wallet_identity_id = grant_wallet_identity_id g,
           sel_spending_grant_id = spending_grant_id g,
           sel_asset_allowance_id = Some (asset_allowance_id a)\<rparr>
          (aa_token_address a) (aa_token_decimals a) (aa_token_symbol a)
          (Some (aa_spender_address a)) (date_of (ctx_now ctx)))
        db = Inr (db', sel)"
    using assms(1) unfolding reserve_allowance_def Let_def and_then_eq_Inr
    by (auto simp only: split: prod.splits)
  have "asset_covered req ctx db (selection_with
      \<lparr>sel_wallet_identity_id = grant_wallet_identity_id g, sel_spending_grant_id = spending_grant_id g,
       sel_asset_allowance_id = Some (asset_allowance_id a)\<rparr>
      (aa_token_address a) (aa_token_decimals a) (aa_token_symbol a) (Some (aa_spender_address a))
      (date_of (ctx_now ctx))) g"
    using choose_pair_in [OF c] assms(2,3)
    by (auto simp: asset_covered_def covering_allowance_def selection_with_def selection_key.defs
        matching_allowances_def asset_pair_matches_def)
  then have "booked sha256 req ctx db sel db' g" by (intro commit_selection_commits [OF s]) simp_all
  then show ?thesis using choose_pair_in(1) [OF c] by auto
qed

lemma reserve_commits:
  assumes "reserve_unified_budget sha256 req ctx db = Inr (db', sel)"
  obtains g where "may_spend req ctx db g" "booked sha256 req ctx db sel db' g"
proof -
  obtain gs where gs: "eligible_grants db req (ctx_user_id ctx) (ctx_agent_id ctx)
        (ctx_amount ctx) (ctx_now ctx) = Inr gs"
    and "\<exists>g \<in> set gs. booked sha256 req ctx db sel db' g"
    using assms
    by (auto simp: reserve_unified_budget_def and_then_eq_Inr split: if_splits
        dest: reserve_external_commits reserve_allowance_commits)
  then show ?thesis using that eligible_may_spend [OF gs] by blast
qed

section \<open>Every step keeps the books\<close>

lemma may_spend_room:
  "may_spend req ctx db g \<Longrightarrow>
     g \<in> set (spending_grants db) \<and>
     used_amount_usdc g + reserved_amount_usdc g + ctx_amount ctx \<le> max_amount_usdc g"
  by (auto simp: may_spend_def active_grants_def scope_stages_def)

lemma commit_shape:
  assumes "commit_budget_reservation sha256 g amount now rid db = Inr db'"
  obtains db1 where "ensure_daily_usage sha256 (spending_grant_id g) (date_of now) now db = Inr db1"
    "rid \<notin> rolling_reservation_id ` set (rolling_usages db1)"
    "daily_total (daily_usage db1 (spending_grant_id g) (date_of now)) + amount \<le> daily_limit_usdc g"
    "db' = db1\<lparr>spending_grants := upd_by spending_grant_id (spending_grant_id g)
          (reserve_on_grant amount now) (spending_grants db1),
        daily_usages := upd_by usage_key (spending_grant_id g, date_of now)
          (reserve_on_day amount now) (daily_usages db1),
        rolling_usages := rolling_usages db1 @
          [\<lparr>rolling_reservation_id = rid, rolling_spending_grant_id = spending_grant_id g,
            rolling_amount_usdc = amount, rolling_state = ''reserved'', rolling_occurred_at = now,
            rolling_updated_at = now\<rparr>]\<rparr>"
proof -
  obtain db1 where 1: "ensure_daily_usage sha256 (spending_grant_id g) (date_of now) now db = Inr db1"
    using assms by (auto simp: commit_budget_reservation_def Let_def and_then_eq_Inr)
  show ?thesis
  proof (rule that [OF 1])
    show "rid \<notin> rolling_reservation_id ` set (rolling_usages db1)"
      using assms 1 by (auto simp: commit_budget_reservation_def Let_def add_rolling_def
          update_usage_upd update_grant_def list_ex_iff split: if_splits)
  qed (use assms 1 in \<open>simp_all add: commit_budget_reservation_def Let_def add_rolling_def
          update_usage_upd update_grant_def not_less split: if_splits\<close>)
qed

lemma commit_books:
  assumes "commit_budget_reservation sha256 g amount now rid db = Inr db'"
    and ok: "books_ok db" and "0 < amount" and g: "g \<in> set (spending_grants db)"
    and room: "used_amount_usdc g + reserved_amount_usdc g + amount \<le> max_amount_usdc g"
  shows "books_ok db'"
  using assms(1)
proof (rule commit_shape)
  fix db1
  assume e: "ensure_daily_usage sha256 (spending_grant_id g) (date_of now) now db = Inr db1"
    and new: "rid \<notin> rolling_reservation_id ` set (rolling_usages db1)"
    and db': "db' = db1\<lparr>spending_grants := upd_by spending_grant_id (spending_grant_id g)
          (reserve_on_grant amount now) (spending_grants db1),
        daily_usages := upd_by usage_key (spending_grant_id g, date_of now)
          (reserve_on_day amount now) (daily_usages db1),
        rolling_usages := rolling_usages db1 @
          [\<lparr>rolling_reservation_id = rid, rolling_spending_grant_id = spending_grant_id g,
            rolling_amount_usdc = amount, rolling_state = ''reserved'', rolling_occurred_at = now,
            rolling_updated_at = now\<rparr>]\<rparr>"
  note b = books_ensure [OF ok e]
  have "h = g" if "h \<in> set (spending_grants db1)" "spending_grant_id h = spending_grant_id g" for h
    using that g ok by (auto simp: b books_ok_def intro: key_unique)
  then show ?thesis
    using books_add [OF b(1,2) assms(3) new _ db'] room by blast
qed

lemma reserve_books:
  assumes "reserve_unified_budget sha256 req ctx db = Inr (db', sel)" "books_ok db" "0 < ctx_amount ctx"
  shows "books_ok db'"
  using assms(1)
proof (rule reserve_commits)
  fix g assume "may_spend req ctx db g" "booked sha256 req ctx db sel db' g"
  then show ?thesis
    using commit_books [OF _ assms(2,3)] may_spend_room by (auto simp: booked_def)
qed

section \<open>Closing a reservation\<close>

definition reserved_less :: "rat \<Rightarrow> spending_grant_row \<Rightarrow> spending_grant_row \<Rightarrow> rat \<Rightarrow> bool" where
  "reserved_less a g g' paid \<longleftrightarrow>
     spending_grant_id g' = spending_grant_id g \<and>
     reserved_amount_usdc g' = reserved_amount_usdc g - a \<and>
     used_amount_usdc g' = used_amount_usdc g + paid \<and> max_amount_usdc g' = max_amount_usdc g"

definition close_on_day :: "rat \<Rightarrow> rat \<Rightarrow> int \<Rightarrow> daily_usage_row \<Rightarrow> daily_usage_row" where
  "close_on_day a paid now u =
     u\<lparr>daily_reserved_usdc := daily_reserved_usdc u - a, daily_used_usdc := daily_used_usdc u + paid,
       daily_updated_at := now\<rparr>"

text \<open>A reservation leaves the open ones, and joins the paid ones when \<open>st\<close> is \<open>used\<close>.\<close>

lemma books_close:
  assumes ok: "books_ok db" and r: "r \<in> set (rolling_usages db)" "rolling_state r = ''reserved''"
    and st: "st = ''released'' \<and> paid = 0 \<or> st = ''used'' \<and> paid = rolling_amount_usdc r"
    and f: "\<And>g. reserved_less (rolling_amount_usdc r) g (f g) paid"
    and db': "db' = db\<lparr>spending_grants :=
          upd_by spending_grant_id (rolling_spending_grant_id r) f (spending_grants db),
        daily_usages := upd_by usage_key (rolling_key r)
          (close_on_day (rolling_amount_usdc r) paid now) (daily_usages db),
        rolling_usages := upd_by rolling_reservation_id (rolling_reservation_id r)
          (\<lambda>x. x\<lparr>rolling_state := st, rolling_updated_at := now\<rparr>) (rolling_usages db)\<rparr>"
  shows "books_ok db'"
proof -
  let ?t = "rolling_usages db" and ?c = "\<lambda>x. x\<lparr>rolling_state := st, rolling_updated_at := now\<rparr>"
  have total: "rolling_total p (rolling_usages db') =
      rolling_total p ?t - (if p r then rolling_amount_usdc r else 0)
        + (if p (?c r) then rolling_amount_usdc r else 0)" for p
    using ok r(1) unfolding db' by (simp add: rolling_total_close books_ok_def)
  have amounts: "map rolling_amount_usdc (rolling_usages db') = map rolling_amount_usdc ?t"
    "map rolling_key (rolling_usages db') = map rolling_key ?t"
    "map rolling_reservation_id (rolling_usages db') = map rolling_reservation_id ?t"
    by (simp_all add: db' map_upd_by rolling_key_def)
  have grants: "grant_balanced (rolling_usages db') g' \<and> within_budget g'"
    if mem: "g' \<in> set (spending_grants db')" for g'
  proof -
    from mem have "g' \<in> set (update_rows (\<lambda>g. spending_grant_id g = rolling_spending_grant_id r)
        f (spending_grants db))"
      by (simp add: db' upd_by_def)
    then show ?thesis
    proof (cases rule: in_update_rowsE)
      case kept
      then show ?thesis using books_grant [OF ok kept(1)]
        by (simp add: grant_balanced_def total of_grant_def)
    next
      case (changed g)
      have g': "reserved_amount_usdc g' = reserved_amount_usdc g - rolling_amount_usdc r"
        "used_amount_usdc g' = used_amount_usdc g + paid" "max_amount_usdc g' = max_amount_usdc g"
        "spending_grant_id g' = spending_grant_id g"
        using f [of g] changed(3) by (simp_all add: reserved_less_def)
      have "0 < rolling_amount_usdc r" using ok r(1) by (simp add: books_ok_def)
      then have "paid \<le> rolling_amount_usdc r" using st by auto
      then have "within_budget g'"
        using books_grant [OF ok changed(1)] by (simp add: within_budget_def g')
      moreover have "grant_balanced (rolling_usages db') g'"
        using books_grant [OF ok changed(1)] changed(2) r(2) st
        by (elim disjE) (simp_all add: grant_balanced_def total of_grant_def g')
      ultimately show ?thesis by simp
    qed
  qed
  have usages: "usage_balanced (rolling_usages db') u'" if mem: "u' \<in> set (daily_usages db')" for u'
  proof -
    from mem have "u' \<in> set (update_rows (\<lambda>u. usage_key u = rolling_key r)
        (close_on_day (rolling_amount_usdc r) paid now) (daily_usages db))"
      by (simp add: db' upd_by_def)
    then show ?thesis
    proof (cases rule: in_update_rowsE)
      case kept
      then have "\<not> (rolling_spending_grant_id r = fst (usage_key u') \<and>
          date_of (rolling_occurred_at r) = snd (usage_key u'))"
        by (metis prod.collapse rolling_key_def)
      then show ?thesis using books_usage [OF ok kept(1)]
        by (auto simp: usage_balanced_def total of_day_def)
    next
      case (changed u)
      then have k: "usage_key u = rolling_key r" "usage_key u' = rolling_key r"
        by (simp_all add: usage_key_def close_on_day_def)
      have u': "daily_reserved_usdc u' = daily_reserved_usdc u - rolling_amount_usdc r"
        "daily_used_usdc u' = daily_used_usdc u + paid"
        by (simp_all add: changed(3) close_on_day_def)
      have "of_day x (rolling_key r) r \<longleftrightarrow> rolling_state r = x" for x
        by (simp add: of_day_def rolling_key_def)
      moreover have "of_day x (rolling_key r) (?c r) \<longleftrightarrow> st = x" for x
        by (auto simp: of_day_def rolling_key_def)
      ultimately show ?thesis
        using books_usage [OF ok changed(1)] r(2) st
        by (elim disjE) (simp_all add: usage_balanced_def total k u')
    qed
  qed
  have ids: "map spending_grant_id (spending_grants db') = map spending_grant_id (spending_grants db)"
    "map usage_key (daily_usages db') = map usage_key (daily_usages db)"
    using f by (auto simp: db' usage_key_def close_on_day_def reserved_less_def intro!: map_key_upd_by)
  have sets: "usage_key ` set (daily_usages db') = usage_key ` set (daily_usages db)"
    "rolling_key ` set (rolling_usages db') = rolling_key ` set ?t"
    "rolling_amount_usdc ` set (rolling_usages db') = rolling_amount_usdc ` set ?t"
    unfolding set_map [symmetric] by (simp_all only: ids amounts)
  show ?thesis
    unfolding books_ok_def
  proof (intro conjI)
    show "distinct (map spending_grant_id (spending_grants db'))"
      "distinct (map usage_key (daily_usages db'))"
      "distinct (map rolling_reservation_id (rolling_usages db'))"
      using ok by (simp_all add: ids amounts books_ok_def)
    have "\<forall>a \<in> rolling_amount_usdc ` set ?t. 0 < a" using ok by (simp add: books_ok_def)
    then show "\<forall>r \<in> set (rolling_usages db'). 0 < rolling_amount_usdc r"
      unfolding sets(3) [symmetric] by simp
    have "rolling_key ` set ?t \<subseteq> usage_key ` set (daily_usages db)"
      using books_keys [OF ok] by blast
    then show "\<forall>r \<in> set (rolling_usages db'). rolling_key r \<in> usage_key ` set (daily_usages db')"
      unfolding sets(1) using sets(2) by blast
  qed (use grants usages in blast)+
qed

text \<open>The row of an open reservation names its rolling row, grant and day.\<close>

lemma reserved_claim_describes:
  assumes "reserved_claim row db = Inr c" "describes row r"
  shows "claim_amount c = rolling_amount_usdc r"
    "spending_grant_id (claim_grant c) = rolling_spending_grant_id r"
    "claim_day c = date_of (rolling_occurred_at r)"
    "claim_reservation c = PStr (rolling_reservation_id r)"
    "sel_by spending_grant_id (rolling_spending_grant_id r) (spending_grants db) = Some (claim_grant c)"
    "daily_usage db (rolling_spending_grant_id r) (date_of (rolling_occurred_at r)) = Some (claim_usage c)"
    "rolling_amount_usdc r \<le> reserved_amount_usdc (claim_grant c)"
    "rolling_amount_usdc r \<le> daily_reserved_usdc (claim_usage c)"
proof -
  have d: "dget row ''reservation_id'' = PStr (rolling_reservation_id r)"
    "dget row ''spending_grant_id'' = PStr (rolling_spending_grant_id r)"
    "decimal_of_value (dget row ''amount_usdc'') = Inr (rolling_amount_usdc r)"
    "parse_iso_date (dget row ''usage_date'') = Inr (date_of (rolling_occurred_at r))"
    using assms(2) by (simp_all add: describes_def)
  from assms(1) d have s: "sel_by spending_grant_id (rolling_spending_grant_id r) (spending_grants db)
      = Some (claim_grant c)"
    by (auto simp: reserved_claim_def and_then_eq_Inr required_locked_grant_def locked_by_def
        dest!: ditem_dget split: if_splits)
  then show "sel_by spending_grant_id (rolling_spending_grant_id r) (spending_grants db)
      = Some (claim_grant c)"
    and k: "spending_grant_id (claim_grant c) = rolling_spending_grant_id r"
    using sel_by_in by fastforce+
  show "claim_amount c = rolling_amount_usdc r"
    "claim_day c = date_of (rolling_occurred_at r)"
    "claim_reservation c = PStr (rolling_reservation_id r)"
    "daily_usage db (rolling_spending_grant_id r) (date_of (rolling_occurred_at r)) = Some (claim_usage c)"
    "rolling_amount_usdc r \<le> reserved_amount_usdc (claim_grant c)"
    "rolling_amount_usdc r \<le> daily_reserved_usdc (claim_usage c)"
    using assms(1) d k
    by (auto simp: reserved_claim_def and_then_eq_Inr required_locked_grant_def
        required_locked_daily_usage_def not_less dest!: ditem_dget split: if_splits)
qed

lemma released_less: "reserved_less a g (released_grant a now b g) 0"
  by (simp add: reserved_less_def released_grant_def Let_def)

lemma settled_less: "reserved_less a g (settled_grant a now g) a"
  by (simp add: reserved_less_def settled_grant_def Let_def)

lemma budget_state_unique: "budget_state row s \<Longrightarrow> budget_state row t \<Longrightarrow> s = t"
  by (simp add: budget_state_def is_str_def)

lemma accounts_forD:
  assumes "accounts_for row db" "budget_state row ''reserved''"
  obtains r where "r \<in> set (rolling_usages db)" "describes row r"
  using assms by (auto simp: accounts_for_def list_ex_iff)

lemma release_shape:
  assumes "release_unified_budget row now db = Inr (db', row')" "accounts_for row db"
    and "\<not> budget_state row ''released''"
  obtains r f where "r \<in> set (rolling_usages db)" "describes row r"
    "row' = dset ''budget_accounting_state'' (PStr ''released'') row"
    "\<And>g. reserved_less (rolling_amount_usdc r) g (f g) 0"
    "db' = db\<lparr>spending_grants :=
          upd_by spending_grant_id (rolling_spending_grant_id r) f (spending_grants db),
        daily_usages := upd_by usage_key (rolling_key r)
          (close_on_day (rolling_amount_usdc r) 0 now) (daily_usages db),
        rolling_usages := upd_by rolling_reservation_id (rolling_reservation_id r)
          (\<lambda>x. x\<lparr>rolling_state := ''released'', rolling_updated_at := now\<rparr>) (rolling_usages db)\<rparr>"
proof -
  have res: "budget_state row ''reserved''"
    using assms(1,3) by (auto simp: release_unified_budget_def and_then_eq_Inr split: if_splits)
  obtain r where r: "r \<in> set (rolling_usages db)" "describes row r"
    using accounts_forD [OF assms(2) res] .
  obtain c where c: "reserved_claim row db = Inr c"
    using assms res by (auto simp: release_unified_budget_def and_then_eq_Inr split: if_splits)
  note d = reserved_claim_describes [OF c r(2)]
  let ?f = "released_grant (rolling_amount_usdc r) now
      (reopens (rolling_amount_usdc r) now db (claim_grant c))"
  have day: "(\<lambda>u. u\<lparr>daily_reserved_usdc := daily_reserved_usdc u - a, daily_updated_at := now\<rparr>) =
      close_on_day a 0 now" for a
    by (intro ext daily_usage_row.equality) (simp_all add: close_on_day_def)
  show ?thesis
  proof (rule that [OF r, of ?f])
    show "row' = dset ''budget_accounting_state'' (PStr ''released'') row"
      "db' = db\<lparr>spending_grants :=
          upd_by spending_grant_id (rolling_spending_grant_id r) ?f (spending_grants db),
        daily_usages := upd_by usage_key (rolling_key r)
          (close_on_day (rolling_amount_usdc r) 0 now) (daily_usages db),
        rolling_usages := upd_by rolling_reservation_id (rolling_reservation_id r)
          (\<lambda>x. x\<lparr>rolling_state := ''released'', rolling_updated_at := now\<rparr>) (rolling_usages db)\<rparr>"
      using assms(1,3) res c d(1-4)
      by (simp_all add: release_unified_budget_def and_then_eq_Inr Let_def update_usage_upd
          update_grant_def close_rolling_def update_rolling_def rolling_key_def day)
  qed (rule released_less)
qed

lemma settle_shape:
  assumes "settle_unified_budget row now db = Inr (db', row')" "accounts_for row db"
    and "\<not> budget_state row ''settled''"
  obtains r f where "r \<in> set (rolling_usages db)" "describes row r"
    "row' = dset ''budget_accounting_state'' (PStr ''settled'') row"
    "\<And>g. reserved_less (rolling_amount_usdc r) g (f g) (rolling_amount_usdc r)"
    "db' = db\<lparr>spending_grants :=
          upd_by spending_grant_id (rolling_spending_grant_id r) f (spending_grants db),
        daily_usages := upd_by usage_key (rolling_key r)
          (close_on_day (rolling_amount_usdc r) (rolling_amount_usdc r) now) (daily_usages db),
        rolling_usages := upd_by rolling_reservation_id (rolling_reservation_id r)
          (\<lambda>x. x\<lparr>rolling_state := ''used'', rolling_updated_at := now\<rparr>) (rolling_usages db)\<rparr>"
proof -
  have res: "budget_state row ''reserved''"
    using assms(1,3) by (auto simp: settle_unified_budget_def and_then_eq_Inr split: if_splits)
  obtain r where r: "r \<in> set (rolling_usages db)" "describes row r"
    using accounts_forD [OF assms(2) res] .
  obtain c where c: "reserved_claim row db = Inr c"
    using assms res by (auto simp: settle_unified_budget_def and_then_eq_Inr split: if_splits)
  note d = reserved_claim_describes [OF c r(2)]
  let ?f = "settled_grant (rolling_amount_usdc r) now"
  have day: "(\<lambda>u. u\<lparr>daily_reserved_usdc := daily_reserved_usdc u - a,
        daily_used_usdc := daily_used_usdc u + a, daily_updated_at := now\<rparr>) =
      close_on_day a a now" for a
    by (intro ext daily_usage_row.equality) (simp_all add: close_on_day_def)
  show ?thesis
  proof (rule that [OF r, of ?f])
    show "row' = dset ''budget_accounting_state'' (PStr ''settled'') row"
      "db' = db\<lparr>spending_grants :=
          upd_by spending_grant_id (rolling_spending_grant_id r) ?f (spending_grants db),
        daily_usages := upd_by usage_key (rolling_key r)
          (close_on_day (rolling_amount_usdc r) (rolling_amount_usdc r) now) (daily_usages db),
        rolling_usages := upd_by rolling_reservation_id (rolling_reservation_id r)
          (\<lambda>x. x\<lparr>rolling_state := ''used'', rolling_updated_at := now\<rparr>) (rolling_usages db)\<rparr>"
      using assms(1,3) res c d(1-4)
      by (simp_all add: settle_unified_budget_def and_then_eq_Inr Let_def update_usage_upd
          update_grant_def close_rolling_def update_rolling_def rolling_key_def day)
  qed (rule settled_less)
qed

lemma release_books:
  assumes "release_unified_budget row now db = Inr (db', row')" "accounts_for row db" "books_ok db"
  shows "books_ok db'"
proof (cases "budget_state row ''released''")
  case True
  then show ?thesis using assms by (auto simp: release_unified_budget_def and_then_eq_Inr)
next
  case False
  show ?thesis
    by (rule release_shape [OF assms(1,2) False], rule books_close [OF assms(3)])
      (auto simp: describes_def)
qed

lemma settle_books:
  assumes "settle_unified_budget row now db = Inr (db', row')" "accounts_for row db" "books_ok db"
  shows "books_ok db'"
proof (cases "budget_state row ''settled''")
  case True
  then show ?thesis using assms by (auto simp: settle_unified_budget_def and_then_eq_Inr)
next
  case False
  show ?thesis
    by (rule settle_shape [OF assms(1,2) False], rule books_close [OF assms(3)])
      (auto simp: describes_def)
qed

lemma table_of_Inr [simp]: "table_of r = Inr db' \<longleftrightarrow> (\<exists>v. r = Inr (db', v))"
  by (auto simp: table_of_def and_then_eq_Inr)

lemma run_budget_books:
  assumes "run_budget sha256 c db = Inr db'" "caller_keeps c db" "books_ok db"
  shows "books_ok db'"
proof (cases c)
  case (ReserveBudget req ctx)
  with assms show ?thesis by (auto intro: reserve_books)
next
  case (ReleaseBudget row now)
  with assms show ?thesis by (auto intro: release_books)
next
  case (SettleBudget row now)
  with assms show ?thesis by (auto intro: settle_books)
next
  case (PauseGrant u gid now)
  with assms show ?thesis by (auto intro: books_money_kept pause_money)
next
  case (ResumeGrant u gid now)
  with assms show ?thesis by (auto intro: books_money_kept resume_money)
next
  case (RevokeGrant u gid now)
  with assms show ?thesis by (auto intro: books_money_kept revoke_money)
next
  case (ReduceGrant u gid now ch)
  with assms show ?thesis by (auto intro: books_money_kept reduce_money)
next
  case (ListGrants user t)
  with assms show ?thesis by (auto intro: books_money_kept list_money)
next
  case (RevokeWallet uuid wid now)
  with assms show ?thesis by (auto intro: books_money_kept revoke_wallet_money)
qed

lemma budget_step_books: "books_ok db \<Longrightarrow> budget_step db db' \<Longrightarrow> books_ok db'"
  by (auto elim!: budget_step.cases intro: run_budget_books)

lemma policy_max_positive: "validate_grant_policy g = Inr () \<Longrightarrow> 0 < max_amount_usdc g"
  by (simp add: validate_grant_policy_def split: if_splits)

lemma empty_books_ok: "empty_books db \<Longrightarrow> books_ok db"
  using policy_max_positive
  by (force simp: empty_books_def books_ok_def grant_balanced_def within_budget_def)

interpretation budget: invariant_system empty_books budget_step books_ok
  by unfold_locales (auto intro: empty_books_ok budget_step_books)

end
