(* ===== verification/Budget_Accounts.thy ===== *)
theory Budget_Accounts
  imports Budget_Invariant
begin

text \<open>
  What the budget promises, without its tables: each grant is an account with a ceiling, an
  amount spent and an amount held. A step holds an amount that fits under the ceiling, cancels
  or pays a held amount, or lowers the ceiling no further than what is committed. Every
  budget step of the detailed model is one such step or none (\<open>step_refines\<close>).
\<close>

section \<open>The abstract accounts\<close>

record account =
  ceiling :: rat
  spent :: rat
  held :: rat

type_synonym accounts = "string \<Rightarrow> account option"

inductive account_step :: "accounts \<Rightarrow> accounts \<Rightarrow> bool" where
  hold: "A k = Some a \<Longrightarrow> 0 < x \<Longrightarrow> spent a + held a + x \<le> ceiling a \<Longrightarrow>
    account_step A (A(k \<mapsto> a\<lparr>held := held a + x\<rparr>))"
| cancel: "A k = Some a \<Longrightarrow> 0 < x \<Longrightarrow> x \<le> held a \<Longrightarrow>
    account_step A (A(k \<mapsto> a\<lparr>held := held a - x\<rparr>))"
| pay: "A k = Some a \<Longrightarrow> 0 < x \<Longrightarrow> x \<le> held a \<Longrightarrow>
    account_step A (A(k \<mapsto> a\<lparr>held := held a - x, spent := spent a + x\<rparr>))"
| lower_ceiling: "A k = Some a \<Longrightarrow> c \<le> ceiling a \<Longrightarrow> spent a + held a \<le> c \<Longrightarrow>
    account_step A (A(k \<mapsto> a\<lparr>ceiling := c\<rparr>))"
| idle: "account_step A A"

definition account_of :: "spending_grant_row \<Rightarrow> account" where
  "account_of g =
     \<lparr>ceiling = max_amount_usdc g, spent = used_amount_usdc g, held = reserved_amount_usdc g\<rparr>"

definition accounts_of :: "funding_db \<Rightarrow> accounts" where
  "accounts_of db = (\<lambda>k. map_option account_of (sel_by spending_grant_id k (spending_grants db)))"

section \<open>Simulation\<close>

lemma accounts_of_cong: "spending_grants db' = spending_grants db \<Longrightarrow> accounts_of db' = accounts_of db"
  by (simp add: accounts_of_def)

lemma accounts_of_upd:
  assumes "\<And>g. spending_grant_id (f g) = spending_grant_id g"
    and "sel_by spending_grant_id k (spending_grants db) = Some g"
    and "spending_grants db' = upd_by spending_grant_id k f (spending_grants db)"
  shows "accounts_of db' = (accounts_of db)(k \<mapsto> account_of (f g))"
proof
  fix j
  show "accounts_of db' j = ((accounts_of db)(k \<mapsto> account_of (f g))) j"
    using assms by (cases "j = k") (simp_all add: accounts_of_def sel_by_upd_same sel_by_upd_other)
qed

lemma sel_by_put_grant:
  assumes "key r' = k"
  shows "sel_by key j (upd_by key k (\<lambda>_. r') t) =
    (if j = k then map_option (\<lambda>_. r') (sel_by key k t) else sel_by key j t)"
  by (induction t) (auto simp: sel_by_def upd_by_def assms)

lemma accounts_of_put:
  assumes "required_grant (spending_grant_id g') db = Inr g"
  shows "accounts_of (put_grant g' db) = (accounts_of db)(spending_grant_id g' \<mapsto> account_of g')"
proof -
  have "sel_by spending_grant_id (spending_grant_id g') (spending_grants db) = Some g"
    using assms by (simp add: required_grant_def)
  then show ?thesis
    by (auto simp: accounts_of_def put_grant_frame sel_by_put_grant)
qed

lemma accounts_of_update_rows:
  assumes "\<And>g. spending_grant_id (f g) = spending_grant_id g" "\<And>g. account_of (f g) = account_of g"
    and "spending_grants db' = update_rows p f (spending_grants db)"
  shows "accounts_of db' = accounts_of db"
proof -
  have "map_option account_of (sel_by spending_grant_id k (update_rows p f t)) =
      map_option account_of (sel_by spending_grant_id k t)" for k t
    by (induction t) (auto simp: sel_by_def assms(1,2))
  then show ?thesis by (simp add: accounts_of_def assms(3))
qed

lemma account_of_with_status [simp]: "account_of (with_status st reason now g) = account_of g"
  by (simp add: account_of_def with_status_def)

lemma grant_id_with_status [simp]:
  "spending_grant_id (with_status st reason now g) = spending_grant_id g"
  by (simp add: with_status_def)

lemma required_grantD:
  "required_grant gid db = Inr g \<Longrightarrow> spending_grant_id g = gid \<and> accounts_of db gid = Some (account_of g)"
  by (auto simp: required_grant_def accounts_of_def dest: sel_by_in)

lemma write_grant_table:
  "write_grant e g db = Inr (db', v) \<Longrightarrow> spending_grants db' = spending_grants (put_grant g db)"
  by (auto simp: write_grant_def and_then_eq_Inr dest!: add_audit_event_frame)

lemma write_grant_accounts:
  assumes "write_grant e g' db = Inr (db', v)" "required_grant gid db = Inr g" "spending_grant_id g' = gid"
  shows "accounts_of db' = (accounts_of db)(gid \<mapsto> account_of g')"
  using accounts_of_put [of g' db g] assms accounts_of_cong [OF write_grant_table [OF assms(1)]]
  by simp

text \<open>A change of status alone leaves the accounts as they are.\<close>

lemma write_status_accounts:
  assumes "write_grant e (with_status st reason now g) db = Inr (db', v)" "required_grant gid db = Inr g"
  shows "accounts_of db' = accounts_of db"
  using write_grant_accounts [OF assms] required_grantD [OF assms(2)] by (auto simp: fun_upd_idem)

lemma put_status_accounts:
  assumes "required_grant gid db = Inr g"
  shows "accounts_of (put_grant (with_status st reason now g) db) = accounts_of db"
  using accounts_of_put [of "with_status st reason now g" db g] required_grantD [OF assms] assms
  by (auto simp: fun_upd_idem)

lemma pause_accounts: "pause_spending_grant u gid now db = Inr (db', v) \<Longrightarrow> accounts_of db' = accounts_of db"
  by (auto simp: pause_spending_grant_def and_then_eq_Inr split: if_splits dest: write_status_accounts)

lemma revoke_accounts: "revoke_spending_grant u gid now db = Inr (db', v) \<Longrightarrow> accounts_of db' = accounts_of db"
  by (auto simp: revoke_spending_grant_def and_then_eq_Inr split: if_splits dest: write_status_accounts)

lemma resume_accounts: "resume_spending_grant u gid now db = Inr (db', v) \<Longrightarrow> accounts_of db' = accounts_of db"
  by (auto simp: resume_spending_grant_def and_then_eq_Inr Let_def split: if_splits option.splits
      dest: write_status_accounts put_status_accounts)

lemma list_accounts: "active_spending_grants user t db = Inr (db', v) \<Longrightarrow> accounts_of db' = accounts_of db"
  by (rule accounts_of_update_rows [where f = "refresh_grant t" and p = "listed_grant user"])
    (auto simp: active_spending_grants_def and_then_eq_Inr Let_def refresh_grant_def)

lemma revoke_wallet_accounts:
  assumes "revoke_wallet_identity_and_pause_active_grants uuid wid now db = Inr (db', v)"
  shows "accounts_of db' = accounts_of db"
proof (rule accounts_of_update_rows)
  show "spending_grants db' = update_rows (cascade_pauses wid)
      (with_status ''paused'' (Some ''wallet_identity_revoked'') now) (spending_grants db)"
    using assms unfolding revoke_wallet_identity_and_pause_active_grants_def Let_def
    by (auto simp: and_then_eq_Inr split: option.splits dest!: add_audit_events_frame)
qed simp_all

lemma check_reduction_ceiling:
  "check_reduction g p = Inr u \<Longrightarrow>
     max_amount_usdc p \<le> max_amount_usdc g \<and>
     used_amount_usdc g + reserved_amount_usdc g \<le> max_amount_usdc p"
  by (auto simp: check_reduction_def check_limit_def limits_of_def and_then_eq_Inr split: if_splits)

lemma reduce_refines:
  assumes "reduce_spending_grant u gid now ch db = Inr (db', v)"
  shows "account_step (accounts_of db) (accounts_of db')"
proof -
  obtain g where g: "required_grant gid db = Inr g"
    and ok: "check_reduction g (proposed_limits ch g) = Inr ()"
    and w: "db' = db \<or> (\<exists>e. write_grant e ((proposed_limits ch g)\<lparr>grant_updated_at := now\<rparr>) db = Inr (db', v))"
    using assms by (auto simp: reduce_spending_grant_def and_then_eq_Inr Let_def split: if_splits)
  note r = required_grantD [OF g]
  show ?thesis
    using w
  proof (elim disjE exE)
    fix e
    assume "write_grant e ((proposed_limits ch g)\<lparr>grant_updated_at := now\<rparr>) db = Inr (db', v)"
    from write_grant_accounts [OF this g] r
    have "accounts_of db' = (accounts_of db)(gid \<mapsto>
        (account_of g)\<lparr>ceiling := max_amount_usdc (proposed_limits ch g)\<rparr>)"
      by (simp add: proposed_limits_def account_of_def)
    then show ?thesis
      using lower_ceiling [of "accounts_of db" gid "account_of g"] r check_reduction_ceiling [OF ok]
      by (simp add: account_of_def)
  qed (simp add: idle)
qed

text \<open>The account a reservation is booked on, and the row that records it.\<close>

lemma reserve_accounts:
  assumes "reserve_unified_budget sha256 req ctx db = Inr (db', sel)" "books_ok db"
  obtains g where "may_spend req ctx db g" "accounts_of db (spending_grant_id g) = Some (account_of g)"
    "accounts_of db' = (accounts_of db)
       (spending_grant_id g \<mapsto> (account_of g)\<lparr>held := held (account_of g) + ctx_amount ctx\<rparr>)"
    "\<exists>r \<in> set (rolling_usages db'). rolling_reservation_id r = ctx_reservation_id ctx \<and>
       rolling_spending_grant_id r = spending_grant_id g \<and> rolling_amount_usdc r = ctx_amount ctx"
  using assms(1)
proof (rule reserve_commits)
  fix g assume g: "may_spend req ctx db g" "booked sha256 req ctx db sel db' g"
  have "commit_budget_reservation sha256 g (ctx_amount ctx) (ctx_now ctx) (ctx_reservation_id ctx) db = Inr db'"
    using g(2) by (simp add: booked_def)
  then show ?thesis
  proof (rule commit_shape)
    fix db1
    assume e: "ensure_daily_usage sha256 (spending_grant_id g) (date_of (ctx_now ctx)) (ctx_now ctx) db = Inr db1"
      and db': "db' = db1\<lparr>spending_grants := upd_by spending_grant_id (spending_grant_id g)
          (reserve_on_grant (ctx_amount ctx) (ctx_now ctx)) (spending_grants db1),
        daily_usages := upd_by usage_key (spending_grant_id g, date_of (ctx_now ctx))
          (reserve_on_day (ctx_amount ctx) (ctx_now ctx)) (daily_usages db1),
        rolling_usages := rolling_usages db1 @
          [\<lparr>rolling_reservation_id = ctx_reservation_id ctx, rolling_spending_grant_id = spending_grant_id g,
            rolling_amount_usdc = ctx_amount ctx, rolling_state = ''reserved'',
            rolling_occurred_at = ctx_now ctx, rolling_updated_at = ctx_now ctx\<rparr>]\<rparr>"
    let ?f = "reserve_on_grant (ctx_amount ctx) (ctx_now ctx)"
    have sel: "sel_by spending_grant_id (spending_grant_id g) (spending_grants db) = Some g"
      using assms(2) may_spend_room [OF g(1)] by (intro sel_by_eq) (simp_all add: books_ok_def)
    have table: "spending_grants db' = upd_by spending_grant_id (spending_grant_id g) ?f (spending_grants db)"
      by (simp add: db' books_ensure(3) [OF assms(2) e])
    show ?thesis
    proof (rule that [OF g(1)])
      show "accounts_of db (spending_grant_id g) = Some (account_of g)"
        by (simp add: accounts_of_def sel)
      have "accounts_of db' = (accounts_of db)(spending_grant_id g \<mapsto> account_of (?f g))"
        by (rule accounts_of_upd [OF _ sel table]) (simp add: reserve_on_grant_def)
      moreover have "account_of (?f g) = (account_of g)\<lparr>held := held (account_of g) + ctx_amount ctx\<rparr>"
        by (simp add: account_of_def reserve_on_grant_def)
      ultimately show "accounts_of db' = (accounts_of db)
         (spending_grant_id g \<mapsto> (account_of g)\<lparr>held := held (account_of g) + ctx_amount ctx\<rparr>)"
        by simp
    qed (simp add: db')
  qed
qed

lemma reserve_refines:
  assumes "reserve_unified_budget sha256 req ctx db = Inr (db', sel)" "books_ok db" "0 < ctx_amount ctx"
  shows "account_step (accounts_of db) (accounts_of db')"
  using assms(1,2)
proof (rule reserve_accounts)
  fix g
  assume g: "may_spend req ctx db g" "accounts_of db (spending_grant_id g) = Some (account_of g)"
    "accounts_of db' = (accounts_of db)
       (spending_grant_id g \<mapsto> (account_of g)\<lparr>held := held (account_of g) + ctx_amount ctx\<rparr>)"
  show ?thesis unfolding g(3)
    by (rule hold [of "accounts_of db", OF g(2) assms(3)]) (use may_spend_room [OF g(1)] in \<open>simp add: account_of_def\<close>)
qed

text \<open>Closing a reservation cancels or pays what the account holds for it.\<close>

lemma close_accounts:
  assumes grant: "sel_by spending_grant_id (rolling_spending_grant_id r) (spending_grants db) = Some g"
    and less: "\<And>g. reserved_less (rolling_amount_usdc r) g (f g) paid"
    and db': "spending_grants db' = upd_by spending_grant_id (rolling_spending_grant_id r) f (spending_grants db)"
  shows "accounts_of db (rolling_spending_grant_id r) = Some (account_of g)"
    "accounts_of db' = (accounts_of db)(rolling_spending_grant_id r \<mapsto>
       (account_of g)\<lparr>held := held (account_of g) - rolling_amount_usdc r,
                      spent := spent (account_of g) + paid\<rparr>)"
proof -
  show "accounts_of db (rolling_spending_grant_id r) = Some (account_of g)"
    using grant by (simp add: accounts_of_def)
  have "accounts_of db' = (accounts_of db)(rolling_spending_grant_id r \<mapsto> account_of (f g))"
    using less by (intro accounts_of_upd [OF _ grant db']) (simp add: reserved_less_def)
  then show "accounts_of db' = (accounts_of db)(rolling_spending_grant_id r \<mapsto>
       (account_of g)\<lparr>held := held (account_of g) - rolling_amount_usdc r,
                      spent := spent (account_of g) + paid\<rparr>)"
    using less [of g] by (simp add: account_of_def reserved_less_def)
qed

lemma close_refines:
  assumes ok: "books_ok db" and r: "r \<in> set (rolling_usages db)"
    and grant: "sel_by spending_grant_id (rolling_spending_grant_id r) (spending_grants db) = Some g"
    and less: "\<And>g. reserved_less (rolling_amount_usdc r) g (f g) paid"
    and paid: "paid = 0 \<or> paid = rolling_amount_usdc r"
    and room: "rolling_amount_usdc r \<le> reserved_amount_usdc g"
    and db': "spending_grants db' = upd_by spending_grant_id (rolling_spending_grant_id r) f (spending_grants db)"
  shows "account_step (accounts_of db) (accounts_of db')"
proof -
  let ?x = "rolling_amount_usdc r"
  note a = close_accounts [OF grant less db']
  have pos: "0 < ?x" using ok r by (simp add: books_ok_def)
  have held: "?x \<le> held (account_of g)" using room by (simp add: account_of_def)
  from paid show ?thesis
  proof
    assume "paid = 0"
    then have "accounts_of db' = (accounts_of db)(rolling_spending_grant_id r \<mapsto>
       (account_of g)\<lparr>held := held (account_of g) - ?x\<rparr>)"
      using a(2) by simp
    then show ?thesis using cancel [of "accounts_of db", OF a(1) pos held] by simp
  next
    assume "paid = ?x"
    then show ?thesis using pay [of "accounts_of db", OF a(1) pos held] a(2) by simp
  qed
qed

text \<open>The claim of a row under closing finds the grant and enough reserved on it.\<close>

lemma claim_grant_room:
  assumes "reserved_claim row db = Inr c" "describes row r"
  shows "\<exists>g. sel_by spending_grant_id (rolling_spending_grant_id r) (spending_grants db) = Some g \<and>
    rolling_amount_usdc r \<le> reserved_amount_usdc g"
  using reserved_claim_describes [OF assms] by blast

lemma release_accounts:
  assumes "release_unified_budget row now db = Inr (db', row')" "accounts_for row db"
    and "\<not> budget_state row ''released''"
  obtains r f g where "r \<in> set (rolling_usages db)" "describes row r"
    "sel_by spending_grant_id (rolling_spending_grant_id r) (spending_grants db) = Some g"
    "rolling_amount_usdc r \<le> reserved_amount_usdc g"
    "\<And>g. reserved_less (rolling_amount_usdc r) g (f g) 0"
    "spending_grants db' = upd_by spending_grant_id (rolling_spending_grant_id r) f (spending_grants db)"
proof -
  have c: "\<exists>c. reserved_claim row db = Inr c"
    using assms(1,3) by (auto simp: release_unified_budget_def and_then_eq_Inr split: if_splits)
  show ?thesis
  proof (rule release_shape [OF assms])
    fix r f
    assume h: "r \<in> set (rolling_usages db)" "describes row r"
      "\<And>g. reserved_less (rolling_amount_usdc r) g (f g) 0"
      "db' = db\<lparr>spending_grants :=
          upd_by spending_grant_id (rolling_spending_grant_id r) f (spending_grants db),
        daily_usages := upd_by usage_key (rolling_key r)
          (close_on_day (rolling_amount_usdc r) 0 now) (daily_usages db),
        rolling_usages := upd_by rolling_reservation_id (rolling_reservation_id r)
          (\<lambda>x. x\<lparr>rolling_state := ''released'', rolling_updated_at := now\<rparr>) (rolling_usages db)\<rparr>"
    obtain g where g: "sel_by spending_grant_id (rolling_spending_grant_id r) (spending_grants db) = Some g"
      "rolling_amount_usdc r \<le> reserved_amount_usdc g"
      using c claim_grant_room [OF _ h(2)] by blast
    show ?thesis by (rule that [OF h(1,2) g h(3)]) (simp add: h(4))
  qed
qed

lemma release_refines:
  assumes "release_unified_budget row now db = Inr (db', row')" "accounts_for row db" "books_ok db"
  shows "account_step (accounts_of db) (accounts_of db')"
proof (cases "budget_state row ''released''")
  case True
  then show ?thesis using assms by (auto simp: release_unified_budget_def and_then_eq_Inr intro: idle)
next
  case False
  show ?thesis
    by (rule release_accounts [OF assms(1,2) False], rule close_refines [OF assms(3)]) auto
qed

lemma settle_refines:
  assumes "settle_unified_budget row now db = Inr (db', row')" "accounts_for row db" "books_ok db"
  shows "account_step (accounts_of db) (accounts_of db')"
proof (cases "budget_state row ''settled''")
  case True
  then show ?thesis using assms by (auto simp: settle_unified_budget_def and_then_eq_Inr intro: idle)
next
  case False
  have c: "\<exists>c. reserved_claim row db = Inr c"
    using assms(1) False by (auto simp: settle_unified_budget_def and_then_eq_Inr split: if_splits)
  show ?thesis
  proof (rule settle_shape [OF assms(1,2) False])
    fix r f
    assume h: "r \<in> set (rolling_usages db)" "describes row r"
      "\<And>g. reserved_less (rolling_amount_usdc r) g (f g) (rolling_amount_usdc r)"
      "db' = db\<lparr>spending_grants :=
          upd_by spending_grant_id (rolling_spending_grant_id r) f (spending_grants db),
        daily_usages := upd_by usage_key (rolling_key r)
          (close_on_day (rolling_amount_usdc r) (rolling_amount_usdc r) now) (daily_usages db),
        rolling_usages := upd_by rolling_reservation_id (rolling_reservation_id r)
          (\<lambda>x. x\<lparr>rolling_state := ''used'', rolling_updated_at := now\<rparr>) (rolling_usages db)\<rparr>"
    obtain g where "sel_by spending_grant_id (rolling_spending_grant_id r) (spending_grants db) = Some g"
      "rolling_amount_usdc r \<le> reserved_amount_usdc g"
      using c claim_grant_room [OF _ h(2)] by blast
    then show ?thesis
      using h(2,4) by (intro close_refines [OF assms(3) h(1) _ h(3)]) (auto simp: describes_def)
  qed
qed

lemma run_budget_refines:
  assumes "run_budget sha256 c db = Inr db'" "caller_keeps c db" "books_ok db"
  shows "account_step (accounts_of db) (accounts_of db')"
proof -
  have same: "accounts_of db' = accounts_of db \<Longrightarrow> ?thesis" by (simp add: idle)
  show ?thesis
  proof (cases c)
    case (ReserveBudget req ctx)
    with assms show ?thesis by (auto intro: reserve_refines)
  next
    case (ReleaseBudget row now)
    with assms show ?thesis by (auto intro: release_refines)
  next
    case (SettleBudget row now)
    with assms show ?thesis by (auto intro: settle_refines)
  next
    case (PauseGrant u gid now)
    with assms show ?thesis by (auto intro: same pause_accounts)
  next
    case (ResumeGrant u gid now)
    with assms show ?thesis by (auto intro: same resume_accounts)
  next
    case (RevokeGrant u gid now)
    with assms show ?thesis by (auto intro: same revoke_accounts)
  next
    case (ReduceGrant u gid now ch)
    with assms show ?thesis by (auto intro: reduce_refines)
  next
    case (ListGrants user t)
    with assms show ?thesis by (auto intro: same list_accounts)
  next
    case (RevokeWallet uuid wid now)
    with assms show ?thesis by (auto intro: same revoke_wallet_accounts)
  qed
qed

lemma step_refines:
  "budget_step db db' \<Longrightarrow> books_ok db \<Longrightarrow> account_step (accounts_of db) (accounts_of db')"
  by (auto elim!: budget_step.cases intro: run_budget_refines)

lemma steps_refine:
  assumes "budget_step\<^sup>*\<^sup>* db db'" "books_ok db"
  shows "account_step\<^sup>*\<^sup>* (accounts_of db) (accounts_of db')"
  using assms(1)
proof (induction rule: rtranclp_induct)
  case (step y z)
  then show ?case
    using budget.inv_steps [OF step.hyps(1) assms(2)] by (meson rtranclp.rtrancl_into_rtrancl step_refines)
qed simp

end
