(* ===== verification/Grant_Lifecycle.thy ===== *)
theory Grant_Lifecycle
  imports Budget_Accounts
begin

text \<open>
  The life of a spending grant and of a wallet identity over budget steps: the edges a grant's
  status moves along, the terms that never change or only shrink, and what a revocation ends.
\<close>

section \<open>The lifecycle\<close>

definition grant_edges :: "(string \<times> string) list" where
  "grant_edges =
     [(''pending'', ''active''), (''pending'', ''paused''), (''pending'', ''expired''),
      (''pending'', ''revoked''), (''active'', ''paused''), (''active'', ''exhausted''),
      (''active'', ''expired''), (''active'', ''revoked''), (''paused'', ''active''),
      (''paused'', ''pending''), (''paused'', ''expired''), (''paused'', ''revoked''),
      (''exhausted'', ''active''), (''exhausted'', ''exhausted''), (''exhausted'', ''expired''),
      (''exhausted'', ''revoked''), (''expired'', ''revoked'')]"

definition grant_statuses :: "string list" where
  "grant_statuses = [''pending'', ''active'', ''paused'', ''exhausted'', ''expired'', ''revoked'']"

text \<open>A grant resumes from a pause only when its user had paused it.\<close>

definition status_moves :: "spending_grant_row \<Rightarrow> spending_grant_row \<Rightarrow> bool" where
  "status_moves g g' \<longleftrightarrow>
     (grant_status g' = grant_status g \<and> grant_status_reason g' = grant_status_reason g) \<or>
     ((grant_status g, grant_status g') \<in> set grant_edges \<and>
      (grant_status g = ''paused'' \<and> grant_status g' \<in> {''active'', ''pending''} \<longrightarrow>
         grant_status_reason g = Some ''user_paused''))"

definition terms_kept :: "spending_grant_row \<Rightarrow> spending_grant_row \<Rightarrow> bool" where
  "terms_kept g g' \<longleftrightarrow>
     spending_grant_id g' = spending_grant_id g \<and>
     grant_wallet_identity_id g' = grant_wallet_identity_id g \<and>
     grant_user_id g' = grant_user_id g \<and> grant_agent_id g' = grant_agent_id g \<and>
     product_scopes g' = product_scopes g \<and> venue_scopes g' = venue_scopes g \<and>
     merchant_scopes g' = merchant_scopes g \<and> merchant_trust_scopes g' = merchant_trust_scopes g \<and>
     network_scopes g' = network_scopes g \<and> asset_scopes g' = asset_scopes g \<and>
     starts_at g' = starts_at g \<and> expires_at g' = expires_at g \<and>
     max_amount_usdc g' \<le> max_amount_usdc g \<and>
     per_transaction_limit_usdc g' \<le> per_transaction_limit_usdc g \<and>
     hourly_limit_usdc g' \<le> hourly_limit_usdc g \<and> daily_limit_usdc g' \<le> daily_limit_usdc g"

text \<open>
  The rows the code writes: a known status (the type of \<open>SpendingGrant.status\<close>), and the
  reason of a user's pause only on a paused grant.
\<close>

definition row_ok :: "spending_grant_row \<Rightarrow> bool" where
  "row_ok g \<longleftrightarrow>
     grant_status g \<in> set grant_statuses \<and>
     (grant_status_reason g = Some ''user_paused'' \<longrightarrow> grant_status g = ''paused'')"

definition grant_moves :: "spending_grant_row \<Rightarrow> spending_grant_row \<Rightarrow> bool" where
  "grant_moves g g' \<longleftrightarrow> terms_kept g g' \<and> (row_ok g \<longrightarrow> row_ok g' \<and> status_moves g g')"

definition grants_move :: "funding_db \<Rightarrow> funding_db \<Rightarrow> bool" where
  "grants_move db db' \<longleftrightarrow> list_all2 grant_moves (spending_grants db) (spending_grants db')"

lemma grant_moves_refl [simp]: "grant_moves g g"
  by (simp add: grant_moves_def terms_kept_def status_moves_def)

lemma grants_move_refl [simp]: "grants_move db db"
  by (simp add: grants_move_def list_all2_refl)

section \<open>One step of each operation\<close>

lemma terms_kept_with_status [simp]: "terms_kept g (with_status st reason now g)"
  by (simp add: terms_kept_def with_status_def)

lemma with_status_simps [simp]:
  "grant_status (with_status st reason now g) = st"
  "grant_status_reason (with_status st reason now g) = reason"
  by (simp_all add: with_status_def)

lemma with_status_moves:
  assumes "row_ok g \<Longrightarrow> (grant_status g, st) \<in> set grant_edges"
    and "grant_status g = ''paused'' \<Longrightarrow> st \<in> {''active'', ''pending''} \<Longrightarrow>
      grant_status_reason g = Some ''user_paused''"
    and "reason = Some ''user_paused'' \<Longrightarrow> st = ''paused''"
  shows "grant_moves g (with_status st reason now g)"
proof (cases "row_ok g")
  case True
  then have "(grant_status g, st) \<in> set grant_edges" by (rule assms(1))
  moreover from this have "st \<in> set grant_statuses" by (auto simp: grant_edges_def grant_statuses_def)
  ultimately show ?thesis using True assms(2,3)
    by (auto simp: grant_moves_def status_moves_def row_ok_def)
qed (simp add: grant_moves_def)

lemma pause_moves: "grant_status g \<in> {''active'', ''pending''} \<Longrightarrow>
    grant_moves g (with_status ''paused'' reason now g)"
  by (rule with_status_moves) (auto simp: grant_edges_def)

lemma revoke_moves: "grant_status g \<noteq> ''revoked'' \<Longrightarrow>
    grant_moves g (with_status ''revoked'' (Some ''user_revoked'') now g)"
  by (rule with_status_moves) (auto simp: grant_edges_def row_ok_def grant_statuses_def)

lemma expire_moves: "grant_status g \<notin> {''revoked'', ''expired''} \<Longrightarrow>
    grant_moves g (with_status ''expired'' (Some ''grant_expired'') now g)"
  by (rule with_status_moves) (auto simp: grant_edges_def row_ok_def grant_statuses_def)

lemma resume_moves: "grant_status_reason g = Some ''user_paused'' \<Longrightarrow> st \<in> {''active'', ''pending''} \<Longrightarrow>
    grant_moves g (with_status st None now g)"
  by (rule with_status_moves) (auto simp: grant_edges_def row_ok_def)

lemma activate_moves: "grant_status g = ''pending'' \<Longrightarrow> grant_moves g (with_status ''active'' None now g)"
  by (rule with_status_moves) (auto simp: grant_edges_def)

lemma write_grant_moves:
  assumes "write_grant e g' db = Inr (db', v)" "required_grant gid db = Inr g"
    and "grant_moves g g'" "books_ok db"
  shows "grants_move db db'"
proof -
  have sel: "sel_by spending_grant_id gid (spending_grants db) = Some g"
    using assms(2) by (simp add: required_grant_def)
  moreover have "spending_grant_id g' = gid"
    using assms(3) sel_by_in [OF sel] by (simp add: grant_moves_def terms_kept_def)
  ultimately show ?thesis
    using assms(3,4) write_grant_table [OF assms(1)]
    by (auto simp: grants_move_def put_grant_frame books_ok_def intro!: list_all2_put_row)
qed

lemma put_grant_moves:
  assumes "required_grant gid db = Inr g" "grant_moves g g'" "books_ok db"
  shows "grants_move db (put_grant g' db)"
proof -
  have sel: "sel_by spending_grant_id gid (spending_grants db) = Some g"
    using assms(1) by (simp add: required_grant_def)
  moreover have "spending_grant_id g' = gid"
    using assms(2) sel_by_in [OF sel] by (simp add: grant_moves_def terms_kept_def)
  ultimately show ?thesis
    using assms by (auto simp: grants_move_def put_grant_frame books_ok_def intro!: list_all2_put_row)
qed

lemma pause_grants_move:
  "pause_spending_grant u gid now db = Inr (db', v) \<Longrightarrow> books_ok db \<Longrightarrow> grants_move db db'"
  by (auto simp: pause_spending_grant_def and_then_eq_Inr split: if_splits
      intro: write_grant_moves pause_moves)

lemma revoke_grants_move:
  "revoke_spending_grant u gid now db = Inr (db', v) \<Longrightarrow> books_ok db \<Longrightarrow> grants_move db db'"
  by (auto simp: revoke_spending_grant_def and_then_eq_Inr split: if_splits
      intro: write_grant_moves revoke_moves)

lemma resume_grants_move:
  "resume_spending_grant u gid now db = Inr (db', v) \<Longrightarrow> books_ok db \<Longrightarrow> grants_move db db'"
  by (auto simp: resume_spending_grant_def and_then_eq_Inr Let_def split: if_splits option.splits
      intro: write_grant_moves put_grant_moves resume_moves expire_moves)

lemma check_reduction_limits:
  "check_reduction g p = Inr u \<Longrightarrow>
     max_amount_usdc p \<le> max_amount_usdc g \<and>
     per_transaction_limit_usdc p \<le> per_transaction_limit_usdc g \<and>
     hourly_limit_usdc p \<le> hourly_limit_usdc g \<and> daily_limit_usdc p \<le> daily_limit_usdc g"
  by (auto simp: check_reduction_def check_limit_def limits_of_def and_then_eq_Inr split: if_splits)

lemma reduced_moves:
  assumes "check_reduction g (proposed_limits ch g) = Inr u"
  shows "grant_moves g ((proposed_limits ch g)\<lparr>grant_updated_at := now\<rparr>)"
  using check_reduction_limits [OF assms]
  by (simp add: grant_moves_def terms_kept_def status_moves_def row_ok_def proposed_limits_def)

lemma reduce_grants_move:
  "reduce_spending_grant u gid now ch db = Inr (db', v) \<Longrightarrow> books_ok db \<Longrightarrow> grants_move db db'"
  by (auto simp: reduce_spending_grant_def and_then_eq_Inr Let_def split: if_splits
      intro: write_grant_moves reduced_moves)

lemma refresh_moves: "listed_grant user g \<Longrightarrow> grant_moves g (refresh_grant t g)"
  by (auto simp: refresh_grant_def listed_grant_def intro: expire_moves activate_moves)

lemma list_grants_move: "active_spending_grants user t db = Inr (db', v) \<Longrightarrow> grants_move db db'"
  by (auto simp: active_spending_grants_def and_then_eq_Inr Let_def grants_move_def
      intro!: list_all2_update_rows refresh_moves)

lemma revoke_wallet_tables:
  assumes "revoke_wallet_identity_and_pause_active_grants uuid wid now db = Inr (db', v)"
  shows "spending_grants db' = update_rows (cascade_pauses wid)
      (with_status ''paused'' (Some ''wallet_identity_revoked'') now) (spending_grants db) \<and>
    (\<exists>i. sel_by wallet_identity_id wid (wallet_identities db) = Some i \<and>
      wallet_identities db' = upd_by wallet_identity_id wid
        (\<lambda>_. if wi_status i \<noteq> ''revoked'' then i\<lparr>wi_status := ''revoked'', wi_updated_at := now\<rparr> else i)
        (wallet_identities db))"
  using assms unfolding revoke_wallet_identity_and_pause_active_grants_def Let_def
  by (auto simp: and_then_eq_Inr split: option.splits dest!: add_audit_events_frame)

lemma revoke_wallet_grants_move:
  "revoke_wallet_identity_and_pause_active_grants uuid wid now db = Inr (db', v) \<Longrightarrow> grants_move db db'"
  by (auto simp: grants_move_def cascade_pauses_def dest!: revoke_wallet_tables
      intro!: list_all2_update_rows pause_moves)

text \<open>Reserving, releasing and settling touch the status of the grant they book on at most.\<close>

lemma upd_grants_move:
  assumes "books_ok db" "sel_by spending_grant_id k (spending_grants db) = Some g" "grant_moves g (f g)"
    and "spending_grants db' = upd_by spending_grant_id k f (spending_grants db)"
  shows "grants_move db db'"
  unfolding grants_move_def assms(4) upd_by_def
proof (rule list_all2_update_rows)
  fix h assume "h \<in> set (spending_grants db)" "spending_grant_id h = k"
  moreover have "distinct (map spending_grant_id (spending_grants db))"
    using assms(1) by (simp add: books_ok_def)
  ultimately have "h = g" using sel_by_in [OF assms(2)] key_unique by metis
  then show "grant_moves h (f h)" using assms(3) by simp
qed simp

lemma reserve_on_grant_moves [simp]: "grant_moves g (reserve_on_grant amount now g)"
  by (simp add: grant_moves_def terms_kept_def status_moves_def row_ok_def reserve_on_grant_def)

lemma released_grant_moves:
  assumes "reopen \<Longrightarrow> grant_status g = ''exhausted''"
  shows "grant_moves g (released_grant amount now reopen g)"
  using assms
  by (auto simp: grant_moves_def terms_kept_def status_moves_def row_ok_def released_grant_def Let_def
      grant_edges_def grant_statuses_def)

lemma settled_grant_moves: "grant_moves g (settled_grant amount now g)"
  by (auto simp: grant_moves_def terms_kept_def status_moves_def row_ok_def settled_grant_def Let_def
      grant_edges_def grant_statuses_def)

lemma reserve_grants_move:
  assumes "reserve_unified_budget sha256 req ctx db = Inr (db', sel)" "books_ok db"
  shows "grants_move db db'"
  using assms(1)
proof (rule reserve_commits)
  fix g assume g: "may_spend req ctx db g" "booked sha256 req ctx db sel db' g"
  obtain db1 where db1: "ensure_daily_usage sha256 (spending_grant_id g) (date_of (ctx_now ctx)) (ctx_now ctx) db = Inr db1"
    "spending_grants db' = upd_by spending_grant_id (spending_grant_id g)
       (reserve_on_grant (ctx_amount ctx) (ctx_now ctx)) (spending_grants db1)"
    using g(2) by (fastforce simp: booked_def elim: commit_shape)
  have "sel_by spending_grant_id (spending_grant_id g) (spending_grants db) = Some g"
    using assms(2) may_spend_room [OF g(1)] by (intro sel_by_eq) (simp_all add: books_ok_def)
  then show ?thesis
    by (rule upd_grants_move [OF assms(2) _ reserve_on_grant_moves])
      (simp add: db1(2) books_ensure(3) [OF assms(2) db1(1)])
qed

lemma sel_by_self: "sel_by key k t = Some r \<Longrightarrow> sel_by key (key r) t = Some r"
  using sel_by_in [of key k t r] by simp

lemma claim_grant_found:
  "reserved_claim row db = Inr c \<Longrightarrow>
     sel_by spending_grant_id (spending_grant_id (claim_grant c)) (spending_grants db) = Some (claim_grant c)"
  by (auto simp: reserved_claim_def and_then_eq_Inr required_locked_grant_def locked_by_def
      split: if_splits pyval.splits dest: sel_by_self)

lemma close_rolling_grants [simp]:
  "spending_grants (close_rolling rid st now db) = spending_grants db"
  "wallet_identities (close_rolling rid st now db) = wallet_identities db"
  by (simp_all add: close_rolling_def update_rolling_def split: pyval.splits)

lemma release_grants_move:
  assumes "release_unified_budget row now db = Inr (db', row')" "books_ok db"
  shows "grants_move db db'"
proof (cases "db' = db")
  case False
  then obtain c where c: "reserved_claim row db = Inr c"
    and db': "spending_grants db' = upd_by spending_grant_id (spending_grant_id (claim_grant c))
      (released_grant (claim_amount c) now (reopens (claim_amount c) now db (claim_grant c)))
      (spending_grants db)"
    using assms(1) by (auto simp: release_unified_budget_def and_then_eq_Inr Let_def update_usage_def
        update_grant_def split: if_splits)
  show ?thesis
    by (rule upd_grants_move [OF assms(2) claim_grant_found [OF c] _ db'])
      (auto simp: reopens_def intro: released_grant_moves)
qed simp

lemma settle_grants_move:
  assumes "settle_unified_budget row now db = Inr (db', row')" "books_ok db"
  shows "grants_move db db'"
proof (cases "db' = db")
  case False
  then obtain c where c: "reserved_claim row db = Inr c"
    and db': "spending_grants db' = upd_by spending_grant_id (spending_grant_id (claim_grant c))
      (settled_grant (claim_amount c) now) (spending_grants db)"
    using assms(1) by (auto simp: settle_unified_budget_def and_then_eq_Inr Let_def update_usage_def
        update_grant_def split: if_splits)
  show ?thesis
    by (rule upd_grants_move [OF assms(2) claim_grant_found [OF c] settled_grant_moves db'])
qed simp

lemmas call_grants_move =
  reserve_grants_move release_grants_move settle_grants_move pause_grants_move resume_grants_move
  revoke_grants_move reduce_grants_move list_grants_move revoke_wallet_grants_move

lemma step_grants_move: "budget_step db db' \<Longrightarrow> books_ok db \<Longrightarrow> grants_move db db'"
proof (erule budget_step.cases)
  fix c s sha256 t
  assume "db = s" "db' = t" "run_budget sha256 c s = Inr t" "books_ok db"
  then show ?thesis by (cases c) (auto dest: call_grants_move)
qed

section \<open>Revocation is final\<close>

definition ends_revoked :: "spending_grant_row \<Rightarrow> spending_grant_row \<Rightarrow> bool" where
  "ends_revoked g g' \<longleftrightarrow>
     spending_grant_id g' = spending_grant_id g \<and>
     (row_ok g \<longrightarrow> row_ok g' \<and> (grant_status g = ''revoked'' \<longrightarrow> grant_status g' = ''revoked''))"

lemma grant_moves_ends_revoked: "grant_moves g g' \<Longrightarrow> ends_revoked g g'"
  by (auto simp: grant_moves_def terms_kept_def ends_revoked_def status_moves_def grant_edges_def)

lemma steps_end_revoked:
  assumes "budget_step\<^sup>*\<^sup>* db db'" "books_ok db"
  shows "list_all2 ends_revoked (spending_grants db) (spending_grants db')"
proof (rule budget.related_steps [OF assms, where R = "\<lambda>x y. list_all2 ends_revoked (spending_grants x) (spending_grants y)"])
  show "list_all2 ends_revoked (spending_grants x) (spending_grants x)" for x
    by (simp add: list_all2_refl ends_revoked_def)
  show "list_all2 ends_revoked (spending_grants x) (spending_grants z)"
    if "list_all2 ends_revoked (spending_grants x) (spending_grants y)"
      "list_all2 ends_revoked (spending_grants y) (spending_grants z)" for x y z
    by (rule list_all2_trans [OF _ that]) (auto simp: ends_revoked_def)
  show "list_all2 ends_revoked (spending_grants x) (spending_grants y)"
    if "books_ok x" "budget_step x y" for x y
    using step_grants_move [OF that(2,1)] grant_moves_ends_revoked
    by (auto simp: grants_move_def elim: list_all2_mono)
qed

definition identity_revoked :: "string \<Rightarrow> funding_db \<Rightarrow> bool" where
  "identity_revoked wid db \<longleftrightarrow>
     (\<forall>i \<in> set (wallet_identities db). wallet_identity_id i = wid \<longrightarrow> wi_status i = ''revoked'')"

lemma write_grant_identities:
  "write_grant e g db = Inr (db', v) \<Longrightarrow> wallet_identities db' = wallet_identities db"
  by (auto simp: write_grant_def and_then_eq_Inr put_grant_frame dest!: add_audit_event_frame)

lemma ensure_identities:
  "ensure_daily_usage sha256 gid day now db = Inr db1 \<Longrightarrow> wallet_identities db1 = wallet_identities db"
  by (auto dest!: ensure_daily_usage_shape)

lemma commit_identities:
  assumes "commit_budget_reservation sha256 g amount now rid db = Inr db'"
  shows "wallet_identities db' = wallet_identities db"
  using assms by (rule commit_shape) (simp add: ensure_identities)

lemma reserve_identities:
  assumes "reserve_unified_budget sha256 req ctx db = Inr (db', sel)"
  shows "wallet_identities db' = wallet_identities db"
  using assms by (rule reserve_commits) (auto simp: booked_def dest: commit_identities)

lemma release_identities:
  "release_unified_budget row now db = Inr (db', v) \<Longrightarrow> wallet_identities db' = wallet_identities db"
  by (auto simp: release_unified_budget_def and_then_eq_Inr Let_def update_usage_def update_grant_def
      split: if_splits)

lemma settle_identities:
  "settle_unified_budget row now db = Inr (db', v) \<Longrightarrow> wallet_identities db' = wallet_identities db"
  by (auto simp: settle_unified_budget_def and_then_eq_Inr Let_def update_usage_def update_grant_def
      split: if_splits)

lemma grant_call_identities:
  "pause_spending_grant u gid now db = Inr (db', v) \<Longrightarrow> wallet_identities db' = wallet_identities db"
  "resume_spending_grant u gid now db = Inr (db', v) \<Longrightarrow> wallet_identities db' = wallet_identities db"
  "revoke_spending_grant u gid now db = Inr (db', v) \<Longrightarrow> wallet_identities db' = wallet_identities db"
  "reduce_spending_grant u gid now ch db = Inr (db', v) \<Longrightarrow> wallet_identities db' = wallet_identities db"
  "active_spending_grants user now db = Inr (db', w) \<Longrightarrow> wallet_identities db' = wallet_identities db"
  by (auto simp: pause_spending_grant_def resume_spending_grant_def revoke_spending_grant_def
      reduce_spending_grant_def active_spending_grants_def and_then_eq_Inr Let_def put_grant_frame
      split: if_splits option.splits dest: write_grant_identities)

lemma revoke_wallet_identities:
  assumes "revoke_wallet_identity_and_pause_active_grants uuid w now db = Inr (db', v)"
    and "identity_revoked wid db"
  shows "identity_revoked wid db'"
proof -
  obtain i where i: "sel_by wallet_identity_id w (wallet_identities db) = Some i"
    and t: "wallet_identities db' = upd_by wallet_identity_id w
        (\<lambda>_. if wi_status i \<noteq> ''revoked'' then i\<lparr>wi_status := ''revoked'', wi_updated_at := now\<rparr> else i)
        (wallet_identities db)"
    using revoke_wallet_tables [OF assms(1)] by blast
  show ?thesis
    using assms(2) sel_by_in [OF i]
    by (auto simp: identity_revoked_def t upd_by_def set_update_rows)
qed

lemma identity_revoked_cong:
  "wallet_identities db' = wallet_identities db \<Longrightarrow> identity_revoked wid db' = identity_revoked wid db"
  by (simp add: identity_revoked_def)

lemma run_budget_revoked:
  "run_budget sha256 c db = Inr db' \<Longrightarrow> identity_revoked wid db \<Longrightarrow> identity_revoked wid db'"
  by (cases c) (auto dest: reserve_identities release_identities settle_identities
      grant_call_identities revoke_wallet_identities identity_revoked_cong)

lemma steps_keep_revoked:
  "budget_step\<^sup>*\<^sup>* db db' \<Longrightarrow> identity_revoked wid db \<Longrightarrow> identity_revoked wid db'"
  by (induction rule: rtranclp_induct) (auto elim!: budget_step.cases dest: run_budget_revoked)

lemma revoked_identity:
  assumes "revoke_wallet_identity_and_pause_active_grants uuid wid now db = Inr (db', v)"
  shows "identity_revoked wid db'"
proof -
  obtain i where i: "sel_by wallet_identity_id wid (wallet_identities db) = Some i"
    and t: "wallet_identities db' = upd_by wallet_identity_id wid
        (\<lambda>_. if wi_status i \<noteq> ''revoked'' then i\<lparr>wi_status := ''revoked'', wi_updated_at := now\<rparr> else i)
        (wallet_identities db)"
    using revoke_wallet_tables [OF assms] by blast
  show ?thesis by (auto simp: identity_revoked_def t upd_by_def set_update_rows)
qed

lemma reserve_needs_identity:
  assumes "reserve_unified_budget sha256 req ctx db = Inr (db', sel)" "identity_revoked wid db"
  shows "sel_wallet_identity_id sel \<noteq> wid"
  using assms(1)
proof (rule reserve_commits)
  fix g assume "may_spend req ctx db g" "booked sha256 req ctx db sel db' g"
  then show ?thesis
    using assms(2) by (auto simp: may_spend_def active_grants_def active_identities_def booked_def
        identity_revoked_def)
qed

end
