(* ===== verification/Ledger_Safety.thy ===== *)
theory Ledger_Safety
  imports Funding_Evidence
begin

text \<open>
  What the ledger keeps over any sequence of \<open>put\<close> calls: transaction bindings, the immutable
  strings of a reservation, and the absence of legacy payment material; and the supply of
  relayer nonces as an interface (\<open>nonce_supply\<close>) with its interpretation on the allocator.
\<close>

section \<open>Transaction hashes\<close>

lemma canonical_hash_form:
  assumes "canonicalize_transaction_hash v = Inr h"
  shows "is_lower_hex_string 64 h" "is_any_case_hash h"
    "canonicalize_transaction_hash (PStr h) = Inr h"
proof -
  obtain s where s: "v = PStr s" "is_any_case_hash s" "h = ''0x'' @ lower (drop 2 s)"
    using assms by (auto simp: canonicalize_transaction_hash_def split: pyval.splits if_splits)
  have hex: "list_all is_lower_hex_char (lower (drop 2 s))"
    using s(2) by (simp add: is_any_case_hash_def lower_def list_all_iff is_hex_lower_char)
  have len: "length s = 66" using s(2) by (simp add: is_any_case_hash_def)
  then show "is_lower_hex_string 64 h"
    using hex by (simp add: s(3) is_lower_hex_string_def starts_0x_def)
  have "list_all is_hex_char (lower (drop 2 s))"
    using hex by (simp add: list_all_iff is_lower_hex_char_hex)
  then show any: "is_any_case_hash h"
    using len by (simp add: s(3) is_any_case_hash_def)
  then show "canonicalize_transaction_hash (PStr h) = Inr h"
    by (simp add: canonicalize_transaction_hash_def s(3))
qed

section \<open>The shape of a write\<close>

lemma reject_if_Inl [simp]: "reject_if c msg = Inl e \<longleftrightarrow> c \<and> e = ValueErr msg"
  by (auto simp: reject_if_def)

lemma all_checks_Inr: "all_checks p xs = Inr u \<longleftrightarrow> (\<forall>x \<in> set xs. p x = Inr ())"
  by (induction xs) (auto simp: and_then_eq_Inr)

lemma validate_write_facts:
  assumes "validate_reservation_write db rid payload ident stored = Inr u"
  shows "dget payload ''reservation_id'' = PStr rid"
    "ident_value ident ''reservation_id'' = Some rid"
    "\<forall>old. stored = Some old \<longrightarrow> require_matching_reservation_immutable_fields old payload = Inr ()"
    "require_unified_reservation payload = Inr ()"
    "is_true (dget payload ''single_submission'') \<longrightarrow> validate_single_submission_state payload = Inr ()"
    "\<exists>scope. unified_authorization_scope db payload = Inr scope"
proof -
  have v: "ditem payload ''reservation_id'' = Inr (PStr rid)"
    "all_checks (identity_matches payload ident) RESERVATION_IDENTITY_FIELDS = Inr ()"
    "(case stored of None \<Rightarrow> Inr ()
       | Some old \<Rightarrow> require_matching_reservation_immutable_fields old payload) = Inr ()"
    "require_unified_reservation payload = Inr ()"
    "is_true (dget payload ''single_submission'') \<longrightarrow> validate_single_submission_state payload = Inr ()"
    "\<exists>scope. unified_authorization_scope db payload = Inr scope"
    using assms unfolding validate_reservation_write_def
    by (auto simp: and_then_eq_Inr split: if_splits)
  show r: "dget payload ''reservation_id'' = PStr rid" using v(1) by (rule ditem_dget)
  have "identity_matches payload ident ''reservation_id'' = Inr ()"
    using v(2) unfolding all_checks_Inr by (simp add: RESERVATION_IDENTITY_FIELDS_def)
  then show "ident_value ident ''reservation_id'' = Some rid"
    by (auto simp: identity_matches_def r opt_str_def split: option.splits)
  show "\<forall>old. stored = Some old \<longrightarrow> require_matching_reservation_immutable_fields old payload = Inr ()"
    using v(3) by auto
qed (use assms in \<open>auto simp: validate_reservation_write_def and_then_eq_Inr split: if_splits\<close>)

text \<open>A written record: the checks it passed, its binding, and the stored row.\<close>

lemma put_record_shape:
  assumes "put_record rt rid payload0 ident now db = Inr (db', out)"
  obtains payload db1 payload1 ident1 row where
    "payload = (if rt = ''reservation'' then redact_external_payment_payload payload0 else payload0)"
    "rt = ''reservation'' \<longrightarrow> validate_reservation_write db rid payload ident
       (map_option lr_payload (sel_by record_id rid (ledger_records db))) = Inr ()"
    "bind_transaction rt payload ident now db = Inr (db1, payload1, ident1)"
    "lr_payload row = payload1" "record_type row = rt" "record_id row = rid" "out = payload1"
    "db' = db1\<lparr>ledger_records := (case sel_by record_id rid (ledger_records db) of
        None \<Rightarrow> ledger_records db1 @ [row]
      | Some _ \<Rightarrow> upd_by record_id rid (\<lambda>_. row) (ledger_records db1))\<rparr>"
proof -
  define payload where
    "payload = (if rt = ''reservation'' then redact_external_payment_payload payload0 else payload0)"
  define existing where "existing = sel_by record_id rid (ledger_records db)"
  define base where "base = (case existing of None \<Rightarrow> new_ledger_row rid | Some r \<Rightarrow> r)"
  have base: "record_id base = rid"
    unfolding base_def existing_def by (auto simp: new_ledger_row_def dest: sel_by_in split: option.splits)
  obtain db1 payload1 ident1 where
    v: "rt = ''reservation'' \<longrightarrow> validate_reservation_write db rid payload ident
       (map_option lr_payload existing) = Inr ()"
    and b: "bind_transaction rt payload ident now db = Inr (db1, payload1, ident1)"
    and s: "store_record existing (write_columns rt payload1 ident1 now base) db1 = Inr db'" "out = payload1"
    using assms unfolding put_record_def Let_def payload_def [symmetric] existing_def [symmetric]
      base_def [symmetric]
    by (auto simp: and_then_eq_Inr split: if_splits)
  show ?thesis
  proof (rule that [OF payload_def v [unfolded existing_def] b, of "write_columns rt payload1 ident1 now base"])
    show "db' = db1\<lparr>ledger_records := (case sel_by record_id rid (ledger_records db) of
        None \<Rightarrow> ledger_records db1 @ [write_columns rt payload1 ident1 now base]
      | Some _ \<Rightarrow> upd_by record_id rid (\<lambda>_. write_columns rt payload1 ident1 now base) (ledger_records db1))\<rparr>"
      using s(1) base by (auto simp: store_record_def existing_def write_columns_def
          split: if_splits option.splits)
  qed (use s base in \<open>simp_all add: write_columns_def\<close>)
qed

lemma add_binding_shape:
  assumes "add_binding h rid now db = Inr db1" "is_lower_hex_string 64 h"
  shows "ledger_records db1 = ledger_records db \<and>
    (transaction_bindings db1 = transaction_bindings db \<or>
     (\<exists>b. transaction_bindings db1 = transaction_bindings db @ [b] \<and>
       sel_by binding_tx_hash (binding_tx_hash b) (transaction_bindings db) = None \<and>
       is_lower_hex_string 64 (binding_tx_hash b)))"
  using assms by (auto simp: add_binding_def split: option.splits if_splits)

lemma bind_transaction_shape:
  assumes "bind_transaction rt payload ident now db = Inr (db1, payload1, ident1)"
  shows "ledger_records db1 = ledger_records db \<and>
    (transaction_bindings db1 = transaction_bindings db \<or>
     (\<exists>b. transaction_bindings db1 = transaction_bindings db @ [b] \<and>
       sel_by binding_tx_hash (binding_tx_hash b) (transaction_bindings db) = None \<and>
       is_lower_hex_string 64 (binding_tx_hash b)))"
    "payload1 = payload \<or> (\<exists>h. payload1 = dset ''tx_hash'' (PStr h) payload)"
proof -
  consider "db1 = db" "payload1 = payload"
    | h rid where "is_lower_hex_string 64 h" "db1 = db \<or> add_binding h rid now db = Inr db1"
        "payload1 = dset ''tx_hash'' (PStr h) payload"
  proof (cases "ident_value ident ''tx_hash''")
    case (Some h0)
    then obtain h where h: "canonicalize_transaction_hash (PStr h0) = Inr h"
      "payload1 = dset ''tx_hash'' (PStr h) payload"
      "(case binding_target payload ident of
          PStr rid \<Rightarrow> if rt = ''reservation'' \<and> rid \<noteq> [] then add_binding h rid now db else Inr db
        | _ \<Rightarrow> Inr db) = Inr db1"
      using assms by (auto simp: bind_transaction_def and_then_eq_Inr)
    from h(3) have "\<exists>rid. db1 = db \<or> add_binding h rid now db = Inr db1"
      by (auto split: pyval.splits if_splits)
    then show ?thesis using that(2) canonical_hash_form(1) [OF h(1)] h(2) by blast
  qed (use assms that in \<open>simp add: bind_transaction_def\<close>)
  note cases = this
  show "ledger_records db1 = ledger_records db \<and>
    (transaction_bindings db1 = transaction_bindings db \<or>
     (\<exists>b. transaction_bindings db1 = transaction_bindings db @ [b] \<and>
       sel_by binding_tx_hash (binding_tx_hash b) (transaction_bindings db) = None \<and>
       is_lower_hex_string 64 (binding_tx_hash b)))"
    by (cases rule: cases) (auto dest: add_binding_shape)
  show "payload1 = payload \<or> (\<exists>h. payload1 = dset ''tx_hash'' (PStr h) payload)"
    by (cases rule: cases) auto
qed

section \<open>Bindings\<close>

inductive put_step :: "funding_db \<Rightarrow> funding_db \<Rightarrow> bool" where
  "put_record rt rid payload ident now db = Inr (db', out) \<Longrightarrow> put_step db db'"

text \<open>Any write, which is a reservation write if it is one under the id of the reservation.\<close>

inductive own_put_step :: "string \<Rightarrow> funding_db \<Rightarrow> funding_db \<Rightarrow> bool" for own where
  "put_record rt rid payload ident now db = Inr (db', out) \<Longrightarrow> rid = own \<longrightarrow> rt = ''reservation'' \<Longrightarrow>
   own_put_step own db db'"

definition bindings_ok :: "funding_db \<Rightarrow> bool" where
  "bindings_ok db \<longleftrightarrow>
     distinct (map binding_tx_hash (transaction_bindings db)) \<and>
     (\<forall>b \<in> set (transaction_bindings db). is_lower_hex_string 64 (binding_tx_hash b)) \<and>
     distinct (map record_id (ledger_records db))"

definition no_records :: "funding_db \<Rightarrow> bool" where
  "no_records db \<longleftrightarrow> ledger_records db = [] \<and> transaction_bindings db = []"

lemma put_bindings:
  assumes "put_record rt rid payload ident now db = Inr (db', out)"
  shows "transaction_bindings db' = transaction_bindings db \<or>
     (\<exists>b. transaction_bindings db' = transaction_bindings db @ [b] \<and>
       sel_by binding_tx_hash (binding_tx_hash b) (transaction_bindings db) = None \<and>
       is_lower_hex_string 64 (binding_tx_hash b))"
  using assms by (rule put_record_shape) (auto dest!: bind_transaction_shape(1))

lemma put_record_ids:
  assumes "put_record rt rid payload ident now db = Inr (db', out)"
    and "distinct (map record_id (ledger_records db))"
  shows "distinct (map record_id (ledger_records db'))"
  using assms(1)
proof (rule put_record_shape)
  fix db1 payload1 ident1 and row :: ledger_row and pl
  assume b: "bind_transaction rt pl ident now db = Inr (db1, payload1, ident1)"
    and r: "record_id row = rid"
    and db': "db' = db1\<lparr>ledger_records := (case sel_by record_id rid (ledger_records db) of
        None \<Rightarrow> ledger_records db1 @ [row]
      | Some _ \<Rightarrow> upd_by record_id rid (\<lambda>_. row) (ledger_records db1))\<rparr>"
  have upd: "map record_id (upd_by record_id rid (\<lambda>_. row) t) = map record_id t" for t
    by (induction t) (auto simp: upd_by_def r)
  show ?thesis
    using assms(2) bind_transaction_shape(1) [OF b]
    by (auto simp: db' upd r sel_by_None split: option.splits)
qed

lemma put_bindings_ok:
  assumes "put_record rt rid payload ident now db = Inr (db', out)" "bindings_ok db"
  shows "bindings_ok db'"
  using put_bindings [OF assms(1)] put_record_ids [OF assms(1)] assms(2)
  by (auto simp: bindings_ok_def sel_by_None)

interpretation ledger: invariant_system no_records put_step bindings_ok
  by unfold_locales (auto simp: no_records_def bindings_ok_def elim!: put_step.cases dest: put_bindings_ok)

lemma sel_by_append: "sel_by key k t = Some r \<Longrightarrow> sel_by key k (t @ s) = Some r"
  by (induction t) (auto simp: sel_by_def split: if_splits)

lemma put_keeps_binding:
  assumes "put_record rt rid payload ident now db = Inr (db', out)"
    and "sel_by binding_tx_hash h (transaction_bindings db) = Some b"
  shows "sel_by binding_tx_hash h (transaction_bindings db') = Some b"
  using put_bindings [OF assms(1)] assms(2) by (auto intro: sel_by_append)

lemma puts_keep_binding:
  "put_step\<^sup>*\<^sup>* db db' \<Longrightarrow> sel_by binding_tx_hash h (transaction_bindings db) = Some b \<Longrightarrow>
    sel_by binding_tx_hash h (transaction_bindings db') = Some b"
  by (induction rule: rtranclp_induct) (auto elim!: put_step.cases dest: put_keeps_binding)

lemma unified_id_nonempty:
  assumes "require_unified_reservation row = Inr u" "f \<in> set UNIFIED_RESERVATION_PROVENANCE_FIELDS"
  shows "dget row f \<noteq> PStr []" "dget row f \<noteq> PNone"
proof -
  have "any_check (blank row) UNIFIED_RESERVATION_PROVENANCE_FIELDS = Inr False"
    using assms(1) by (auto simp: require_unified_reservation_def and_then_eq_Inr split: if_splits)
  then have "blank row f = Inr False" using assms(2) by (rule any_check_InrD)
  then show "dget row f \<noteq> PStr []" "dget row f \<noteq> PNone"
    by (auto simp: blank_def in_set_def split: if_splits)
qed

text \<open>A reservation written with a hash is the one the hash is bound to.\<close>

lemma put_binds:
  assumes "put_record ''reservation'' rid payload ident now db = Inr (db', out)"
    and "ident_value ident ''tx_hash'' = Some h0" "canonicalize_transaction_hash (PStr h0) = Inr h"
  shows "\<exists>b. sel_by binding_tx_hash h (transaction_bindings db') = Some b \<and> binding_reservation_id b = rid"
  using assms(1)
proof (rule put_record_shape)
  fix pl db1 payload1 ident1 and row :: ledger_row
  assume v: "''reservation'' = ''reservation'' \<longrightarrow> validate_reservation_write db rid pl ident
       (map_option lr_payload (sel_by record_id rid (ledger_records db))) = Inr ()"
    and b: "bind_transaction ''reservation'' pl ident now db = Inr (db1, payload1, ident1)"
    and db': "db' = db1\<lparr>ledger_records := (case sel_by record_id rid (ledger_records db) of
        None \<Rightarrow> ledger_records db1 @ [row]
      | Some _ \<Rightarrow> upd_by record_id rid (\<lambda>_. row) (ledger_records db1))\<rparr>"
  note f = validate_write_facts [OF mp [OF v refl]]
  have "rid \<noteq> []"
    using unified_id_nonempty(1) [OF f(4), of "''reservation_id''"] f(1)
    by (auto simp: UNIFIED_RESERVATION_PROVENANCE_FIELDS_def)
  then have "binding_target pl ident = PStr rid" by (simp add: binding_target_def f(2))
  then have "add_binding h rid now db = Inr db1"
    using b assms(2,3) \<open>rid \<noteq> []\<close> by (auto simp: bind_transaction_def and_then_eq_Inr)
  then show ?thesis
    by (auto simp: db' add_binding_def sel_by_None sel_by_append_new split: option.splits if_splits)
qed

section \<open>Immutable fields\<close>

lemma matching_keeps_string:
  assumes "require_matching_reservation_immutable_fields old new = Inr u"
    and "f \<in> set RESERVATION_IMMUTABLE_FIELDS" "f \<noteq> ''settlement_transaction''"
    and "dget old f = PStr s"
  shows "dget new f = PStr s"
proof -
  have "changed_fields old new = []"
    using assms(1) by (simp add: require_matching_reservation_immutable_fields_def split: list.splits)
  then have "filter (field_changed old new) RESERVATION_IMMUTABLE_FIELDS = []"
    by (auto simp: changed_fields_def Let_def split: if_splits)
  then have "\<not> field_changed old new f" using assms(2) by (simp add: filter_empty_conv)
  then show ?thesis
    using assms(3,4) by (simp add: field_changed_def seals_transaction_def resets_transaction_def)
qed

definition stored_string :: "string \<Rightarrow> string \<Rightarrow> string \<Rightarrow> funding_db \<Rightarrow> bool" where
  "stored_string rid f s db \<longleftrightarrow>
     (case sel_by record_id rid (ledger_records db) of
        None \<Rightarrow> False | Some r \<Rightarrow> record_type r = ''reservation'' \<and> dget (lr_payload r) f = PStr s)"

lemma tx_hash_not_immutable: "f \<in> set RESERVATION_IMMUTABLE_FIELDS \<Longrightarrow> f \<noteq> ''tx_hash''"
  by (auto simp: RESERVATION_IMMUTABLE_FIELDS_def)

lemma put_step_keeps_string:
  assumes "own_put_step rid db db'" "stored_string rid f s db"
    and f: "f \<in> set RESERVATION_IMMUTABLE_FIELDS" "f \<noteq> ''settlement_transaction''"
  shows "stored_string rid f s db'"
  using assms(1)
proof (cases rule: own_put_step.cases)
  case (1 rt rid' payload ident now out)
  obtain r where r: "sel_by record_id rid (ledger_records db) = Some r"
    "record_type r = ''reservation''" "dget (lr_payload r) f = PStr s"
    using assms(2) by (auto simp: stored_string_def split: option.splits)
  show ?thesis
    using 1(1)
  proof (rule put_record_shape)
    fix pl db1 payload1 ident1 and row :: ledger_row
    assume v: "rt = ''reservation'' \<longrightarrow> validate_reservation_write db rid' pl ident
         (map_option lr_payload (sel_by record_id rid' (ledger_records db))) = Inr ()"
      and b: "bind_transaction rt pl ident now db = Inr (db1, payload1, ident1)"
      and row: "lr_payload row = payload1" "record_type row = rt" "record_id row = rid'"
      and db': "db' = db1\<lparr>ledger_records := (case sel_by record_id rid' (ledger_records db) of
          None \<Rightarrow> ledger_records db1 @ [row]
        | Some _ \<Rightarrow> upd_by record_id rid' (\<lambda>_. row) (ledger_records db1))\<rparr>"
    note bt = bind_transaction_shape [OF b]
    have put: "sel_by record_id j (upd_by record_id rid' (\<lambda>_. row) t) =
        (if j = rid' then map_option (\<lambda>_. row) (sel_by record_id rid' t) else sel_by record_id j t)" for j t
      by (induction t) (auto simp: sel_by_def upd_by_def row(3))
    show ?thesis
    proof (cases "rid' = rid")
      case True
      then have rt: "rt = ''reservation''" using 1(2) by simp
      have "require_matching_reservation_immutable_fields (lr_payload r) pl = Inr ()"
        using validate_write_facts(3) [OF mp [OF v rt]] True r(1) by simp
      then have "dget pl f = PStr s" by (rule matching_keeps_string [OF _ f r(3)])
      then have "dget payload1 f = PStr s"
        using bt(2) tx_hash_not_immutable [OF f(1)] by auto
      then show ?thesis
        using r(1) bt(1) rt by (simp add: stored_string_def db' True put [unfolded True] row)
    next
      case False
      then show ?thesis
        using r bt(1) by (simp add: stored_string_def db' put sel_by_append split: option.splits)
    qed
  qed
qed

lemma puts_keep_string:
  "(own_put_step rid)\<^sup>*\<^sup>* db db' \<Longrightarrow> stored_string rid f s db \<Longrightarrow> f \<in> set RESERVATION_IMMUTABLE_FIELDS \<Longrightarrow>
    f \<noteq> ''settlement_transaction'' \<Longrightarrow> stored_string rid f s db'"
  by (induction rule: rtranclp_induct) (auto dest: put_step_keeps_string)

section \<open>Legacy payment material\<close>

definition exposes_legacy :: "pydict \<Rightarrow> bool" where
  "exposes_legacy p \<longleftrightarrow>
     LEGACY_EXTERNAL_PAYMENT_FIELD \<in> fst ` set p \<or> LEGACY_SIGNED_TRANSACTION_FIELD \<in> fst ` set p"

lemma keys_dpop: "fst ` set (dpop k d) = fst ` set d - {k}"
  unfolding dpop_def set_map [symmetric] delete_keys by simp

lemma redacted_clean [simp]: "\<not> exposes_legacy (redact_external_payment_payload p)"
  by (simp add: exposes_legacy_def redact_external_payment_payload_def keys_dpop)

lemma dset_clean: "\<not> exposes_legacy p \<Longrightarrow> \<not> exposes_legacy (dset ''tx_hash'' v p)"
  by (auto simp: exposes_legacy_def dset_def dom_update LEGACY_EXTERNAL_PAYMENT_FIELD_def
      LEGACY_SIGNED_TRANSACTION_FIELD_def)

lemma by_purchase_clean: "by_purchase pid db = Some p \<Longrightarrow> \<not> exposes_legacy p"
  by (auto simp: by_purchase_def)

lemma binding_view_clean:
  "\<not> exposes_legacy [(''reservation_id'', v), (''tx_hash'', w)]"
  by (simp add: exposes_legacy_def LEGACY_EXTERNAL_PAYMENT_FIELD_def LEGACY_SIGNED_TRANSACTION_FIELD_def)

lemma by_tx_hash_clean:
  assumes "by_tx_hash h db = Inr (Some p)"
  shows "\<not> exposes_legacy p"
proof -
  obtain c where c: "canonicalize_transaction_hash h = Inr c"
    using assms by (auto simp: by_tx_hash_def and_then_eq_Inr)
  show ?thesis
  proof (cases "sel_by binding_tx_hash c (transaction_bindings db)")
    case None
    then show ?thesis using assms c by (auto simp: by_tx_hash_def)
  next
    case (Some b)
    then show ?thesis using assms c
      by (cases "sel_by record_id (binding_reservation_id b) (ledger_records db)")
        (auto simp: by_tx_hash_def binding_view_clean)
  qed
qed

lemma list_payloads_clean: "list_payloads ''reservation'' db = Inr ps \<Longrightarrow> p \<in> set ps \<Longrightarrow> \<not> exposes_legacy p"
  by (auto simp: list_payloads_def visible_payload_def split: if_splits)

lemma get_record_clean:
  "get_record rid db = Some p \<Longrightarrow> sel_by record_id rid (ledger_records db) = Some r \<Longrightarrow>
    record_type r = ''reservation'' \<Longrightarrow> \<not> exposes_legacy p"
  by (auto simp: get_record_def visible_payload_def)

lemma put_clean:
  assumes "put_record ''reservation'' rid payload ident now db = Inr (db', out)"
  shows "\<not> exposes_legacy out"
  using assms
proof (rule put_record_shape)
  fix pl db1 payload1 ident1 and row :: ledger_row
  assume "pl = (if ''reservation'' = ''reservation'' then redact_external_payment_payload payload else payload)"
    and b: "bind_transaction ''reservation'' pl ident now db = Inr (db1, payload1, ident1)"
    and "out = payload1"
  then show ?thesis using bind_transaction_shape(2) [OF b] dset_clean by auto
qed

section \<open>Relayer nonces\<close>

text \<open>
  A supply of nonces per key: what it gives is at least what it promised and what the chain
  expects, and it never gives that number or a lower one for the key again.
\<close>

locale nonce_supply =
  fixes next_of :: "'k \<Rightarrow> 's \<Rightarrow> int"
    and give :: "'k \<Rightarrow> int \<Rightarrow> 's \<Rightarrow> 'e + ('s \<times> int)"
  assumes give_next: "give k p s = Inr (s', n) \<Longrightarrow> next_of k s \<le> n \<and> p \<le> n \<and> next_of k s' = n + 1"
    and give_other: "give k p s = Inr (s', n) \<Longrightarrow> j \<noteq> k \<Longrightarrow> next_of j s' = next_of j s"
begin

fun gives :: "('k \<times> int) list \<Rightarrow> 's \<Rightarrow> 'e + ('s \<times> ('k \<times> int) list)" where
  "gives [] s = Inr (s, [])"
| "gives ((k, p) # reqs) s =
     and_then (give k p s) (\<lambda>(s1, n). and_then (gives reqs s1) (\<lambda>(s2, out). Inr (s2, (k, n) # out)))"

lemma next_grows: "give k p s = Inr (s', n) \<Longrightarrow> next_of j s \<le> next_of j s'"
  using give_next [of k p s s' n] give_other [of k p s s' n j] by (cases "j = k") auto

lemma gives_above:
  "gives reqs s = Inr (s', out) \<Longrightarrow> (k, n) \<in> set out \<Longrightarrow> next_of k s \<le> n"
proof (induction reqs s arbitrary: s' out rule: gives.induct)
  case (2 j p reqs s)
  then obtain s1 m rest where g: "give j p s = Inr (s1, m)" "gives reqs s1 = Inr (s', rest)"
    "out = (j, m) # rest"
    by (auto simp: and_then_eq_Inr)
  show ?case
  proof (cases "(k, n) = (j, m)")
    case True
    then show ?thesis using give_next [OF g(1)] by simp
  next
    case False
    then have "next_of k s1 \<le> n" using 2 g by auto
    then show ?thesis using next_grows [OF g(1), of k] by simp
  qed
qed simp

text \<open>No nonce is given twice for a key in any run of requests.\<close>

lemma gives_distinct: "gives reqs s = Inr (s', out) \<Longrightarrow> distinct out"
proof (induction reqs s arbitrary: s' out rule: gives.induct)
  case (2 j p reqs s)
  then obtain s1 m rest where g: "give j p s = Inr (s1, m)" "gives reqs s1 = Inr (s', rest)"
    "out = (j, m) # rest"
    by (auto simp: and_then_eq_Inr)
  then have "(j, m) \<notin> set rest"
    using gives_above [OF g(2), of j m] give_next [OF g(1)] by auto
  then show ?case using 2 g by auto
qed simp

end

text \<open>A fresh allocation of \<open>allocate_relayer_nonce\<close>: the reservation owns no nonce yet.\<close>

definition fresh_nonce ::
  "int \<Rightarrow> string \<times> string \<Rightarrow> int \<Rightarrow> funding_db \<Rightarrow> py_error + (funding_db \<times> int)" where
  "fresh_nonce now k pending db =
     (if 0 \<le> pending \<and> pending < 2 ^ 64 then next_funding_nonce (fst k) (snd k) pending now db
      else Inl (ValueErr ''chain pending nonce is invalid''))"

definition funding_next :: "string \<times> string \<Rightarrow> funding_db \<Rightarrow> int" where
  "funding_next k db =
     (case sel_by fn_key k (funding_nonces db) of None \<Rightarrow> 0 | Some r \<Rightarrow> fn_next_nonce r)"

lemma sel_by_append_other: "key r \<noteq> k \<Longrightarrow> sel_by key k (t @ [r]) = sel_by key k t"
  by (induction t) (auto simp: sel_by_def)

lemma next_funding_nonce_shape:
  assumes "next_funding_nonce network relayer pending now db = Inr (db', n)"
  shows "pending \<le> n" "n < 2 ^ 64" "funding_next (network, relayer) db' = n + 1"
    "0 \<le> pending \<Longrightarrow> funding_next (network, relayer) db \<le> n"
    "k \<noteq> (network, relayer) \<Longrightarrow> funding_next k db' = funding_next k db"
proof -
  let ?k = "(network, relayer)"
  let ?new = "\<lparr>fn_network = network, fn_relayer_address = relayer, fn_next_nonce = pending, fn_updated_at = now\<rparr>"
  let ?f = "\<lambda>r. r\<lparr>fn_next_nonce := n + 1, fn_updated_at := now\<rparr>"
  define t where "t = (case sel_by fn_key ?k (funding_nonces db) of
      None \<Rightarrow> funding_nonces db @ [?new] | Some _ \<Rightarrow> funding_nonces db)"
  define current where "current = (case sel_by fn_key ?k (funding_nonces db) of
      None \<Rightarrow> pending | Some r \<Rightarrow> fn_next_nonce r)"
  have n: "n = max current pending" "n < 2 ^ 64"
    and t': "funding_nonces db' = upd_by fn_key ?k ?f t"
    using assms unfolding next_funding_nonce_def Let_def t_def [symmetric] current_def [symmetric]
    by (auto split: if_splits)
  have key: "fn_key (?f r) = fn_key r" for r by (simp add: fn_key_def)
  have some: "\<exists>r. sel_by fn_key ?k t = Some r"
  proof (cases "sel_by fn_key ?k (funding_nonces db)")
    case None
    then have "sel_by fn_key ?k (funding_nonces db @ [?new]) = Some ?new"
      by (intro sel_by_append_new) (auto simp: sel_by_None fn_key_def)
    then show ?thesis by (simp add: t_def None)
  qed (simp add: t_def)
  show "pending \<le> n" "n < 2 ^ 64" using n by simp_all
  show "funding_next ?k db' = n + 1"
    using some by (auto simp: funding_next_def t' sel_by_upd_same [where key = fn_key, OF key])
  show "funding_next ?k db \<le> n" if "0 \<le> pending"
    using n that by (auto simp: funding_next_def current_def split: option.splits)
  show "funding_next k db' = funding_next k db" if "k \<noteq> ?k"
    using that by (auto simp: funding_next_def t' sel_by_upd_other [where key = fn_key, OF key] t_def
        sel_by_append_other fn_key_def split: option.splits)
qed

interpretation relayer: nonce_supply funding_next "fresh_nonce now" for now
proof
  fix k p s s' n j
  assume "fresh_nonce now k p s = Inr (s', n)"
  then have p: "0 \<le> p" and g: "next_funding_nonce (fst k) (snd k) p now s = Inr (s', n)"
    by (simp_all add: fresh_nonce_def split: if_splits)
  note shape = next_funding_nonce_shape [OF g]
  show "funding_next k s \<le> n \<and> p \<le> n \<and> funding_next k s' = n + 1"
    using shape(1,3,4) p by simp
  show "funding_next j s' = funding_next j s" if "j \<noteq> k"
    using shape(5) that by simp
qed

text \<open>Allocations for reservations that own a nonce, or none, and the nonces in between.\<close>

definition owns_no_nonce :: "pydict \<Rightarrow> bool" where
  "owns_no_nonce row \<longleftrightarrow> dget row ''settlement_nonce'' = PNone \<and> dget row ''settlement_sender'' = PNone"

inductive allocate_step :: "funding_db \<Rightarrow> funding_db \<Rightarrow> bool" where
  "allocate_funding_nonce row network relayer pending now db = Inr (db', n) \<Longrightarrow> allocate_step db db'"

lemma allocation_cases:
  assumes "allocate_funding_nonce row network relayer pending now db = Inr (db', n)"
  shows "db' = db \<or> (\<exists>p. fresh_nonce now (network, lower relayer) p db = Inr (db', n))"
proof -
  have "\<exists>p. pending = PInt p" and x: "\<And>p. pending = PInt p \<Longrightarrow> 0 \<le> p \<and> p < 2 ^ 64"
    using assms
    unfolding allocate_funding_nonce_def and_then_eq_Inr Let_def
    by (cases pending; simp split: if_split_asm)+
  then obtain p where p: "pending = PInt p" "0 \<le> p" "p < 2 ^ 64" by blast
  show ?thesis
  proof (cases "owns_no_nonce row")
    case True
    then have "next_funding_nonce network (lower relayer) p now db = Inr (db', n)"
      using assms p unfolding allocate_funding_nonce_def and_then_eq_Inr Let_def owns_no_nonce_def
      by (simp split: if_split_asm)
    then have "fresh_nonce now (network, lower relayer) p db = Inr (db', n)"
      using p by (simp add: fresh_nonce_def)
    then show ?thesis by blast
  next
    case False
    then have "db = db'"
      using assms p unfolding allocate_funding_nonce_def and_then_eq_Inr Let_def owns_no_nonce_def
      by (auto simp: and_then_eq_Inr split: if_split_asm)
    then show ?thesis by simp
  qed
qed

lemma fresh_allocation:
  assumes "allocate_funding_nonce row network relayer (PInt p) now db = Inr (db', n)" "owns_no_nonce row"
  shows "fresh_nonce now (network, lower relayer) p db = Inr (db', n)"
  using assms
  unfolding allocate_funding_nonce_def and_then_eq_Inr Let_def owns_no_nonce_def fresh_nonce_def fst_conv snd_conv
  by (simp split: if_split_asm)

lemma allocate_step_grows:
  assumes "allocate_step db db'"
  shows "funding_next k db \<le> funding_next k db'"
  using assms
proof (cases rule: allocate_step.cases)
  case (1 row network relayer pending now n)
  from allocation_cases [OF this] show ?thesis
  proof (elim disjE exE)
    fix p assume "fresh_nonce now (network, lower relayer) p db = Inr (db', n)"
    then show ?thesis by (rule relayer.next_grows)
  qed simp
qed

lemma allocations_grow: "allocate_step\<^sup>*\<^sup>* db db' \<Longrightarrow> funding_next k db \<le> funding_next k db'"
proof (induction rule: rtranclp_induct)
  case (step y z)
  then show ?case using allocate_step_grows [of y z k] by simp
qed simp

end
