(* ===== verification/Evidence_Safety.thy ===== *)
theory Evidence_Safety
  imports Ledger_Safety Budget_Safety
begin

text \<open>
  Watcher evidence: a recorded projection is never replaced by a different one, recording it
  again changes nothing, a reorganisation keeps both projections in the history, and every
  audit event is written once.
\<close>

lemma dset_same: "map_of d k = Some v \<Longrightarrow> dset k v d = d"
  by (simp add: dset_def update_triv)

lemma dget_dset_map: "map_of (dset k v d) k' = (if k' = k then Some v else map_of d k')"
  by (simp add: dset_def update_conv')

lemma field_names:
  "EVIDENCE_FIELD \<noteq> EVIDENCE_HASH_FIELD" "EVIDENCE_HASH_FIELD \<noteq> EVIDENCE_FIELD"
  "EVIDENCE_HISTORY_FIELD \<noteq> EVIDENCE_FIELD" "EVIDENCE_HISTORY_FIELD \<noteq> EVIDENCE_HASH_FIELD"
  "''reservation_id'' \<noteq> EVIDENCE_FIELD" "''reservation_id'' \<noteq> EVIDENCE_HASH_FIELD"
  by (simp_all add: EVIDENCE_FIELD_def EVIDENCE_HASH_FIELD_def EVIDENCE_HISTORY_FIELD_def)

text \<open>The evidence fields play no part in a reservation's provenance.\<close>

lemma blank_dset: "f \<noteq> k \<Longrightarrow> blank (dset k v row) f = blank row f"
  by (simp add: blank_def)

lemma any_check_cong: "(\<And>x. x \<in> set xs \<Longrightarrow> p x = q x) \<Longrightarrow> any_check p xs = any_check q xs"
proof (induction xs)
  case (Cons x xs)
  then have "p x = q x" "any_check p xs = any_check q xs" by auto
  then show ?case by (simp only: any_check.simps)
qed simp

definition provenance_fields :: "string set" where
  "provenance_fields =
     {''authorization_path'', ''single_submission'', ''product'', ''replacement_forbidden'',
      ''authorization_rail'', ''asset_allowance_id'', ''spender_address''}
     \<union> set UNIFIED_RESERVATION_PROVENANCE_FIELDS \<union> set NATIVE_ALLOWANCE_PROVENANCE_FIELDS
     \<union> set EXTERNAL_X402_PROVENANCE_FIELDS"

lemma require_unified_dset:
  assumes "k \<notin> provenance_fields"
  shows "require_unified_reservation (dset k v row) = require_unified_reservation row"
proof -
  have blanks: "any_check (blank (dset k v row)) fs = any_check (blank row) fs"
    if "set fs \<subseteq> provenance_fields" for fs
    using assms that by (intro any_check_cong blank_dset) auto
  have "set UNIFIED_RESERVATION_PROVENANCE_FIELDS \<subseteq> provenance_fields"
    "set NATIVE_ALLOWANCE_PROVENANCE_FIELDS \<subseteq> provenance_fields"
    "set EXTERNAL_X402_PROVENANCE_FIELDS \<subseteq> provenance_fields"
    by (auto simp: provenance_fields_def)
  note b = this [THEN blanks]
  have n: "''authorization_path'' \<noteq> k" "''single_submission'' \<noteq> k" "''product'' \<noteq> k"
    "''replacement_forbidden'' \<noteq> k" "''authorization_rail'' \<noteq> k" "''asset_allowance_id'' \<noteq> k"
    "''spender_address'' \<noteq> k"
    using assms by (auto simp: provenance_fields_def)
  show ?thesis
    unfolding require_unified_reservation_def require_rail_provenance_def rail_is_def b
    by (simp only: dget_dset dget_or_dset n if_False)
qed

lemma evidence_fields_free:
  "EVIDENCE_FIELD \<notin> provenance_fields" "EVIDENCE_HASH_FIELD \<notin> provenance_fields"
  "EVIDENCE_HISTORY_FIELD \<notin> provenance_fields"
  by (simp_all add: provenance_fields_def EVIDENCE_FIELD_def EVIDENCE_HASH_FIELD_def
      EVIDENCE_HISTORY_FIELD_def UNIFIED_RESERVATION_PROVENANCE_FIELDS_def
      NATIVE_ALLOWANCE_PROVENANCE_FIELDS_def EXTERNAL_X402_PROVENANCE_FIELDS_def)

section \<open>Audit events\<close>

lemma add_audit_has_event: "add_audit_event e db = Inr db' \<Longrightarrow> has_event (ae_event_id e) db'"
  by (auto simp: has_event_def dest!: add_audit_event_frame)

lemma audit_once_shape:
  assumes "audit_once eid kind row payload now db = Inr db'"
  shows "has_event eid db'" "db' = db \<or> \<not> has_event eid db \<and>
    (\<exists>e. ae_event_id e = eid \<and> ae_payload e = payload \<and> db' = db\<lparr>audit_events := audit_events db @ [e]\<rparr>)"
proof -
  consider "has_event eid db" "db' = db"
    | e where "\<not> has_event eid db" "ae_event_id e = eid" "ae_payload e = payload"
        "add_audit_event e db = Inr db'"
  proof (cases "has_event eid db")
    case False
    then obtain i g where e:
      "add_audit_event (evidence_event eid kind row i g payload now) db = Inr db'"
      using assms by (auto simp: audit_once_def and_then_eq_Inr)
    show ?thesis by (rule that(2) [OF False _ _ e]) (simp_all add: evidence_event_def)
  next
    case True
    moreover from this assms have "db' = db" by (simp add: audit_once_def)
    ultimately show ?thesis by (rule that(1))
  qed
  note cases = this
  show "has_event eid db'"
    by (cases rule: cases) (auto dest: add_audit_has_event)
  show "db' = db \<or> \<not> has_event eid db \<and>
    (\<exists>e. ae_event_id e = eid \<and> ae_payload e = payload \<and> db' = db\<lparr>audit_events := audit_events db @ [e]\<rparr>)"
    by (cases rule: cases) (auto dest: Budget_Safety.add_audit_event_frame)
qed

lemma audit_once_again: "has_event eid db \<Longrightarrow> audit_once eid kind row payload now db = Inr db"
  by (simp add: audit_once_def)

section \<open>Recording\<close>

lemma record_evidence_shape:
  assumes "record_hosted_watcher_evidence sha256 row evidence now db = Inr (db', row')"
  obtains canonical where "evidence = PDict canonical" "require_unified_reservation row = Inr ()"
    "dget row EVIDENCE_FIELD = PNone \<or> py_eq (dget row EVIDENCE_FIELD) evidence"
    "row' = dset EVIDENCE_HASH_FIELD (PStr (evidence_hash_of sha256 canonical)) (dset EVIDENCE_FIELD evidence row)"
    "has_event (evidence_event_id sha256 ''audit_hosted_watcher_'' row (evidence_hash_of sha256 canonical)) db'"
    "spending_grants db' = spending_grants db" "ledger_records db' = ledger_records db"
proof -
  obtain canonical where c: "evidence = PDict canonical"
    using assms by (auto simp: record_hosted_watcher_evidence_def and_then_eq_Inr split: pyval.splits)
  let ?h = "evidence_hash_of sha256 canonical"
  obtain payload where
    a: "audit_once (evidence_event_id sha256 ''audit_hosted_watcher_'' row ?h)
       ''hosted_watcher_evidence_recorded'' row payload now db = Inr db'"
    and o: "require_unified_reservation row = Inr ()"
      "dget row EVIDENCE_FIELD = PNone \<or> py_eq (dget row EVIDENCE_FIELD) evidence"
      "row' = dset EVIDENCE_HASH_FIELD (PStr ?h) (dset EVIDENCE_FIELD evidence row)"
    using assms unfolding record_hosted_watcher_evidence_def c
    by (auto simp: and_then_eq_Inr Let_def split: if_splits)
  show ?thesis
    by (rule that [OF c o audit_once_shape(1) [OF a]])
      (use audit_once_shape(2) [OF a] in auto)
qed

text \<open>Recording the same projection again changes neither the tables nor the row.\<close>

lemma record_evidence_again:
  assumes "record_hosted_watcher_evidence sha256 row evidence now db = Inr (db', row')" "wf_py evidence"
  shows "record_hosted_watcher_evidence sha256 row' evidence later db' = Inr (db', row')"
  using assms(1)
proof (rule record_evidence_shape)
  fix canonical
  assume c: "evidence = PDict canonical" and u: "require_unified_reservation row = Inr ()"
    and r: "row' = dset EVIDENCE_HASH_FIELD (PStr (evidence_hash_of sha256 canonical)) (dset EVIDENCE_FIELD evidence row)"
    and e: "has_event (evidence_event_id sha256 ''audit_hosted_watcher_'' row (evidence_hash_of sha256 canonical)) db'"
  let ?h = "evidence_hash_of sha256 canonical"
  have u': "require_unified_reservation row' = Inr ()"
    using u by (simp add: r require_unified_dset evidence_fields_free)
  have prev: "dget row' EVIDENCE_FIELD = evidence" by (simp add: r field_names)
  have id: "dget row' ''reservation_id'' = dget row ''reservation_id''" by (simp add: r field_names)
  have same: "dset EVIDENCE_HASH_FIELD (PStr ?h) (dset EVIDENCE_FIELD evidence row') = row'"
    by (simp add: r dset_same dget_dset_map field_names)
  have eid: "evidence_event_id sha256 p row' ?h = evidence_event_id sha256 p row ?h" for p
    by (simp add: evidence_event_id_def id)
  have "py_eq evidence evidence" using assms(2) by (rule py_eq_refl)
  then show ?thesis
    using same
    by (simp only: record_hosted_watcher_evidence_def u' and_then_Inr c pyval.case Let_def
        prev [unfolded c] eid audit_once_again [OF e] not_True_eq_False simp_thms if_False)
qed

text \<open>A different projection is refused.\<close>

lemma changed_evidence_refused:
  assumes "dget row EVIDENCE_FIELD \<noteq> PNone" "\<not> py_eq (dget row EVIDENCE_FIELD) (PDict canonical)"
    and "require_unified_reservation row = Inr ()"
  shows "record_hosted_watcher_evidence sha256 row (PDict canonical) now db =
    Inl (ValueErr ''hosted watcher evidence changed'')"
  using assms by (simp add: record_hosted_watcher_evidence_def)

lemma push_last_in: "wf_py v \<Longrightarrow> \<exists>w \<in> set (push_last v xs). py_eq w v"
  by (auto simp: push_last_def py_eq_refl intro: last_in_set)

lemma push_last_mono: "set xs \<subseteq> set (push_last v xs)"
  by (auto simp: push_last_def)

lemma reorg_keeps_history:
  assumes "record_hosted_watcher_reorg_evidence sha256 row evidence now db = Inr (db', row')"
    and "wf_py (dget row EVIDENCE_FIELD)" "wf_py evidence"
    and "dget row EVIDENCE_FIELD \<noteq> PNone" "\<not> py_eq (dget row EVIDENCE_FIELD) evidence"
  shows "dget row' EVIDENCE_FIELD = evidence"
    "\<exists>old new. dget_or row EVIDENCE_HISTORY_FIELD (PList []) = PList old \<and>
       dget row' EVIDENCE_HISTORY_FIELD = PList new \<and> set old \<subseteq> set new \<and>
       (\<exists>v \<in> set new. py_eq v (dget row EVIDENCE_FIELD)) \<and> (\<exists>v \<in> set new. py_eq v evidence)"
proof -
  let ?prev = "dget row EVIDENCE_FIELD"
  obtain canonical where c: "evidence = PDict canonical"
    using assms(1) by (auto simp: record_hosted_watcher_reorg_evidence_def and_then_eq_Inr split: pyval.splits)
  obtain old where old: "dget_or row EVIDENCE_HISTORY_FIELD (PList []) = PList old"
    and r: "row' = dset EVIDENCE_HISTORY_FIELD (PList (push_last evidence (push_last ?prev old)))
      (dset EVIDENCE_HASH_FIELD (PStr (evidence_hash_of sha256 canonical)) (dset EVIDENCE_FIELD evidence row))"
    using assms(1,4,5) unfolding record_hosted_watcher_reorg_evidence_def c
    by (auto simp: and_then_eq_Inr Let_def split: pyval.splits)
  show "dget row' EVIDENCE_FIELD = evidence"
    using field_names by (simp add: r)
  show "\<exists>old new. dget_or row EVIDENCE_HISTORY_FIELD (PList []) = PList old \<and>
       dget row' EVIDENCE_HISTORY_FIELD = PList new \<and> set old \<subseteq> set new \<and>
       (\<exists>v \<in> set new. py_eq v ?prev) \<and> (\<exists>v \<in> set new. py_eq v evidence)"
    using old push_last_in [OF assms(2), of old] push_last_in [OF assms(3), of "push_last ?prev old"]
      push_last_mono [of old ?prev] push_last_mono [of "push_last ?prev old" evidence]
    by (auto simp: r)
qed

end
