(* ===== verification/Calendar_Dates.thy ===== *)
theory Calendar_Dates
  imports Funding_Rows
begin

text \<open>
  The calendar that usage dates go through: \<open>date.isoformat()\<close> when a reservation is made and
  \<open>fromisoformat\<close> when it is closed give the same day back, for every day of the years 1 to
  9999 that Python's \<open>date\<close> covers.
\<close>

section \<open>Years of an era\<close>

text \<open>The first and the last day of the \<open>y\<close>-th year of an era of 400 years, from 1 March.\<close>

definition year_start :: "int \<Rightarrow> int" where
  "year_start y = 365 * y + y div 4 - y div 100"

definition long_year :: "int \<Rightarrow> bool" where
  "long_year y \<longleftrightarrow> (y + 1) mod 4 = 0 \<and> ((y + 1) mod 100 \<noteq> 0 \<or> y + 1 = 400)"

definition year_end :: "int \<Rightarrow> int" where
  "year_end y = year_start y + (if long_year y then 365 else 364)"

definition scaled_day :: "int \<Rightarrow> int" where
  "scaled_day d = d - d div 1460 + d div 36524 - d div 146096"

lemma div_next:
  fixes d n :: int
  assumes "0 < n"
  shows "(d + 1) div n = d div n \<or> (d + 1) div n = d div n + 1"
proof -
  have "(d + 1) div n \<le> (d + n) div n" using assms by (intro zdiv_mono1) simp_all
  also have "(d + n) div n = d div n + 1" using assms by simp
  finally have "(d + 1) div n \<le> d div n + 1" .
  moreover have "d div n \<le> (d + 1) div n" using assms by (intro zdiv_mono1) simp_all
  ultimately show ?thesis by linarith
qed

lemma quotients_step:
  fixes a b e f p q :: int
  assumes "b = a \<and> q = p \<or> b = a + 1 \<and> (q = p \<or> q = p + 1)" "f = e \<or> f = e + 1"
  shows "d - e + a - p \<le> d + 1 - f + b - q"
  using assms by auto

lemma scaled_day_Suc: "scaled_day d \<le> scaled_day (d + 1)"
  unfolding scaled_day_def
proof (rule quotients_step)
  show "(d + 1) div 1460 = d div 1460 \<or> (d + 1) div 1460 = d div 1460 + 1"
    by (rule div_next) simp
  have q: "d div 146096 = d div 36524 div 4" "(d + 1) div 146096 = (d + 1) div 36524 div 4"
    using zdiv_zmult2_eq [of 4 d 36524] zdiv_zmult2_eq [of 4 "d + 1" 36524] by simp_all
  have A: "(d + 1) div 36524 = d div 36524 \<or> (d + 1) div 36524 = d div 36524 + 1"
    by (rule div_next) simp
  have B: "(d div 36524 + 1) div 4 = d div 36524 div 4 \<or>
      (d div 36524 + 1) div 4 = d div 36524 div 4 + 1"
    by (rule div_next) simp
  show "(d + 1) div 36524 = d div 36524 \<and> (d + 1) div 146096 = d div 146096 \<or>
      (d + 1) div 36524 = d div 36524 + 1 \<and>
      ((d + 1) div 146096 = d div 146096 \<or> (d + 1) div 146096 = d div 146096 + 1)"
    using A B unfolding q by metis
qed

lemma scaled_day_mono: "d \<le> e \<Longrightarrow> scaled_day d \<le> scaled_day e"
proof (induction e rule: int_ge_induct)
  case (step i)
  then show ?case using scaled_day_Suc [of i] by simp
qed simp

text \<open>A year of an era as century, leap cycle and year of the cycle.\<close>

lemma year_start_parts:
  assumes "0 \<le> q" "q \<le> 24" "0 \<le> s" "s \<le> 3"
  shows "year_start (100 * c + 4 * q + s) = 36524 * c + 1461 * q + 365 * s"
proof -
  have "(100 * c + 4 * q + s) div 4 = 25 * c + q"
    using assms by (intro int_div_pos_eq [where r = s]) simp_all
  moreover have "(100 * c + 4 * q + s) div 100 = c"
    using assms by (intro int_div_pos_eq [where r = "4 * q + s"]) simp_all
  ultimately show ?thesis by (simp add: year_start_def)
qed

lemma long_year_parts:
  assumes "0 \<le> c" "c \<le> 3" "0 \<le> q" "q \<le> 24" "0 \<le> s" "s \<le> 3"
  shows "long_year (100 * c + 4 * q + s) \<longleftrightarrow> s = 3 \<and> (q < 24 \<or> c = 3)"
proof (cases "s = 3")
  case True
  have "100 * c + 4 * q + s + 1 = 4 * (25 * c + q + 1)" using True by simp
  then have "(100 * c + 4 * q + s + 1) mod 4 = 0" by simp
  moreover have "(100 * c + 4 * q + s + 1) mod 100 = 4 * (q + 1) mod 100"
    using mod_mult_self2 [of "4 * (q + 1)" 100 c] True by (simp add: algebra_simps)
  moreover have "4 * (q + 1) mod 100 = 0 \<longleftrightarrow> q = 24"
  proof (cases "q = 24")
    case False
    then have "4 * (q + 1) mod 100 = 4 * (q + 1)" using assms by (intro mod_pos_pos_trivial) simp_all
    then show ?thesis using False assms by simp
  qed simp
  ultimately show ?thesis using True assms by (auto simp: long_year_def)
next
  case False
  have "(100 * c + 4 * q + s + 1) mod 4 = (s + 1) mod 4"
    using mod_mult_self2 [of "s + 1" 4 "25 * c + q"] by (simp add: algebra_simps)
  then have "(100 * c + 4 * q + s + 1) mod 4 = s + 1" using False assms by simp
  then show ?thesis using False assms by (simp add: long_year_def)
qed

lemma year_parts:
  assumes "0 \<le> y" "y < 400"
  obtains c q s where "y = 100 * c + 4 * q + s" "0 \<le> c" "c \<le> 3" "0 \<le> q" "q \<le> 24" "0 \<le> s" "s \<le> 3"
    "year_start y = 36524 * c + 1461 * q + 365 * s"
    "long_year y \<longleftrightarrow> s = 3 \<and> (q < 24 \<or> c = 3)"
proof -
  define c where "c = y div 100"
  define q where "q = y mod 100 div 4"
  define s where "s = y mod 100 mod 4"
  have y: "y = 100 * c + 4 * q + s" by (simp add: c_def q_def s_def)
  have m: "0 \<le> y mod 100" "y mod 100 < 100" by simp_all
  have b: "0 \<le> c" "c \<le> 3" "0 \<le> s" "s \<le> 3" using assms by (auto simp: c_def s_def)
  have q: "0 \<le> q" using m by (simp add: q_def)
  moreover have "q \<le> 24" using m zdiv_mono1 [of "y mod 100" 99 4] by (simp add: q_def)
  ultimately show ?thesis
    using that [OF y b(1,2) _ _ b(3,4)] year_start_parts [of q s c] long_year_parts [of c q s] b y by simp
qed

lemma year_bounds:
  assumes "0 \<le> y" "y < 400"
  shows "365 * y \<le> scaled_day (year_start y)" "scaled_day (year_end y) < 365 * (y + 1)"
proof -
  obtain c q s where y: "y = 100 * c + 4 * q + s" and b: "0 \<le> c" "c \<le> 3" "0 \<le> q" "q \<le> 24" "0 \<le> s" "s \<le> 3"
    and start: "year_start y = 36524 * c + 1461 * q + 365 * s"
    and long: "long_year y \<longleftrightarrow> s = 3 \<and> (q < 24 \<or> c = 3)"
    using year_parts [OF assms] .
  define d where "d = year_start y"
  have d: "d = 36524 * c + 1461 * q + 365 * s" by (simp add: d_def start)
  have "d div 1460 = 25 * c + q"
    using b by (intro int_div_pos_eq [where r = "24 * c + q + 365 * s"]) (simp_all add: d)
  moreover have "d div 36524 = c"
    using b by (intro int_div_pos_eq [where r = "1461 * q + 365 * s"]) (simp_all add: d)
  moreover have "d div 146096 = 0" using b by (intro div_pos_pos_trivial) (simp_all add: d)
  ultimately show "365 * y \<le> scaled_day (year_start y)"
    unfolding d_def [symmetric] by (simp add: scaled_day_def) (simp add: d y)
  define e where "e = year_end y"
  consider "c = 3" "q = 24" "s = 3" | "long_year y" "q < 24" "s = 3" | "\<not> long_year y"
    using long b by fastforce
  then have "scaled_day e < 365 * (y + 1)"
  proof cases
    case 1
    then have "e = 146096" using long by (simp add: e_def year_end_def start)
    then show ?thesis using 1 by (simp add: scaled_day_def y)
  next
    case 2
    have e: "e = 36524 * c + 1461 * q + 1460" using 2 by (simp add: e_def year_end_def start)
    have "25 * c + q + 1 \<le> e div 1460"
      using zdiv_mono1 [of "1460 * (25 * c + q + 1)" e 1460] b by (simp add: e)
    moreover have "e div 36524 = c"
      using b 2 by (intro int_div_pos_eq [where r = "1461 * q + 1460"]) (simp_all add: e)
    moreover have "e div 146096 = 0" using b 2 by (intro div_pos_pos_trivial) (simp_all add: e)
    ultimately show ?thesis using 2 by (simp add: scaled_day_def) (simp add: e y)
  next
    case 3
    have e: "e = 36524 * c + 1461 * q + 365 * s + 364" using 3 by (simp add: e_def year_end_def start)
    have "25 * c + q \<le> e div 1460"
      using zdiv_mono1 [of "1460 * (25 * c + q)" e 1460] b by (simp add: e)
    moreover have "e div 36524 = c"
      using b by (intro int_div_pos_eq [where r = "1461 * q + 365 * s + 364"]) (simp_all add: e)
    moreover have "e div 146096 = 0" using b by (intro div_pos_pos_trivial) (simp_all add: e)
    ultimately show ?thesis by (simp add: scaled_day_def) (simp add: e y)
  qed
  then show "scaled_day (year_end y) < 365 * (y + 1)" by (simp add: e_def)
qed

lemma year_next:
  assumes "0 \<le> y" "y < 399"
  shows "year_start (y + 1) = year_end y + 1"
proof -
  obtain c q s where y: "y = 100 * c + 4 * q + s" and b: "0 \<le> c" "c \<le> 3" "0 \<le> q" "q \<le> 24" "0 \<le> s" "s \<le> 3"
    and start: "year_start y = 36524 * c + 1461 * q + 365 * s"
    and long: "long_year y \<longleftrightarrow> s = 3 \<and> (q < 24 \<or> c = 3)"
    using year_parts [of y] assms by auto
  consider "s < 3" | "s = 3" "q < 24" | "s = 3" "q = 24" "c < 3" using b assms y by fastforce
  then show ?thesis
  proof cases
    case 1
    have e: "y + 1 = 100 * c + 4 * q + (s + 1)" using y by simp
    have "year_start (y + 1) = 36524 * c + 1461 * q + 365 * (s + 1)"
      unfolding e by (rule year_start_parts) (use b 1 in simp_all)
    moreover have "\<not> long_year y" using 1 long by simp
    ultimately show ?thesis using start by (simp add: year_end_def)
  next
    case 2
    have e: "y + 1 = 100 * c + 4 * (q + 1) + 0" using y 2 by simp
    have "year_start (y + 1) = 36524 * c + 1461 * (q + 1) + 365 * 0"
      unfolding e by (rule year_start_parts) (use b 2 in simp_all)
    moreover have "long_year y" using 2 long by simp
    ultimately show ?thesis using start 2 by (simp add: year_end_def)
  next
    case 3
    have e: "y + 1 = 100 * (c + 1) + 4 * 0 + 0" using y 3 by simp
    have "year_start (y + 1) = 36524 * (c + 1) + 1461 * 0 + 365 * 0"
      unfolding e by (rule year_start_parts) simp_all
    moreover have "\<not> long_year y" using 3 long by simp
    ultimately show ?thesis using start 3 by (simp add: year_end_def)
  qed
qed

lemma day_in_year:
  assumes "0 \<le> d" "d < year_start n" "0 \<le> n" "n \<le> 399"
  shows "\<exists>y. 0 \<le> y \<and> y < n \<and> year_start y \<le> d \<and> d \<le> year_end y"
  using assms(3,4,2)
proof (induction n rule: int_ge_induct)
  case base
  then show ?case using assms(1) by (simp add: year_start_def)
next
  case (step i)
  show ?case
  proof (cases "d < year_start i")
    case True
    then show ?thesis using step by force
  next
    case False
    then show ?thesis using step year_next [of i] by (intro exI [of _ i]) auto
  qed
qed

lemma era_year:
  assumes "0 \<le> d" "d < 146097" "y = scaled_day d div 365"
  shows "0 \<le> y" "y < 400" "year_start y \<le> d" "d \<le> year_end y"
proof -
  have "\<exists>z. 0 \<le> z \<and> z < 400 \<and> year_start z \<le> d \<and> d \<le> year_end z"
  proof (cases "d < year_start 399")
    case True
    then show ?thesis using day_in_year [OF assms(1) True] by force
  next
    case False
    then show ?thesis using assms(2)
      by (intro exI [of _ 399]) (simp add: year_start_def year_end_def long_year_def)
  qed
  then obtain z where z: "0 \<le> z" "z < 400" "year_start z \<le> d" "d \<le> year_end z" by blast
  have "365 * z \<le> scaled_day d" "scaled_day d < 365 * (z + 1)"
    using year_bounds [OF z(1,2)] scaled_day_mono [OF z(3)] scaled_day_mono [OF z(4)] by linarith+
  then have "scaled_day d div 365 = z"
    by (intro int_div_pos_eq [where r = "scaled_day d - 365 * z"]) simp_all
  then show "0 \<le> y" "y < 400" "year_start y \<le> d" "d \<le> year_end y"
    using z assms(3) by simp_all
qed

section \<open>Months and days\<close>

definition month_ok :: "int \<Rightarrow> bool" where
  "month_ok doy \<longleftrightarrow>
     (let mp = (5 * doy + 2) div 153; m = (if mp < 10 then mp + 3 else mp - 9);
          d = doy - (153 * mp + 2) div 5 + 1
      in 0 \<le> mp \<and> mp < 12 \<and> 1 \<le> d \<and>
         d \<le> (if m = 2 then if doy = 365 then 29 else 28 else if m \<in> {4, 6, 9, 11} then 30 else 31))"

lemma months_ok: "list_all month_ok [0..365]"
  by code_simp

section \<open>Days and dates\<close>

lemma civil_date:
  assumes "civil_from_days day = (y, m, d)"
  shows "days_from_civil y m d = day" "1 \<le> m" "m \<le> 12" "1 \<le> d" "d \<le> days_in_month y m"
proof -
  define z where "z = day + 719468"
  define era where "era = z div 146097"
  define doe where "doe = z mod 146097"
  define yoe where "yoe = scaled_day doe div 365"
  define doy where "doy = doe - year_start yoe"
  define mp where "mp = (5 * doy + 2) div 153"
  have yoe': "(doe - doe div 1460 + doe div 36524 - doe div 146096) div 365 = yoe"
    by (simp add: yoe_def scaled_day_def)
  have doy': "doe - (365 * yoe + yoe div 4 - yoe div 100) = doy"
    by (simp add: doy_def year_start_def)
  have civil: "d = doy - (153 * mp + 2) div 5 + 1" "m = (if mp < 10 then mp + 3 else mp - 9)"
    "y = (if m \<le> 2 then yoe + era * 400 + 1 else yoe + era * 400)"
    using assms
    unfolding civil_from_days_def Let_def z_def [symmetric] era_def [symmetric] doe_def [symmetric]
      yoe' doy' mp_def [symmetric]
    by auto
  have doe: "0 \<le> doe" "doe < 146097" by (simp_all add: doe_def)
  note yb = era_year [OF doe yoe_def]
  have doy: "0 \<le> doy" "doy \<le> (if long_year yoe then 365 else 364)"
    using yb(3,4) by (simp_all add: doy_def year_end_def)
  then have "doy \<in> set [0..365]" by (auto split: if_splits)
  then have ok: "month_ok doy" using months_ok by (simp add: list_all_iff)
  then have mp: "0 \<le> mp" "mp < 12" "1 \<le> d"
    "d \<le> (if m = 2 then if doy = 365 then 29 else 28 else if m \<in> {4, 6, 9, 11} then 30 else 31)"
    unfolding month_ok_def Let_def mp_def [symmetric] civil(1,2) [symmetric] by simp_all
  show m: "1 \<le> m" "m \<le> 12" using mp(1,2) civil(2) by (auto split: if_splits)
  show "1 \<le> d" by (rule mp(3))
  have y': "(if m \<le> 2 then y - 1 else y) = yoe + era * 400" using civil(3) by simp
  have mback: "(if 2 < m then m - 3 else m + 9) = mp" using civil(2) mp(1,2) by auto
  have quot: "(yoe + era * 400) div 400 = era" "(yoe + era * 400) mod 400 = yoe"
    using yb(1,2) by simp_all
  have "era * 146097 + doe = z" by (simp add: era_def doe_def)
  moreover have "yoe * 365 + yoe div 4 - yoe div 100 + doy = doe"
    by (simp add: doy_def year_start_def)
  moreover have "(153 * mp + 2) div 5 + d - 1 = doy" by (simp add: civil(1))
  ultimately show "days_from_civil y m d = day"
    unfolding days_from_civil_def Let_def y' quot mback by (simp add: z_def)
  show "d \<le> days_in_month y m"
  proof (cases "m = 2 \<and> doy = 365")
    case True
    then have "long_year yoe" using doy(2) by (simp split: if_splits)
    moreover have "y = yoe + 1 + era * 400" using civil(3) True by simp
    then have "y mod 4 = (yoe + 1) mod 4" "y mod 100 = (yoe + 1) mod 100" "y mod 400 = (yoe + 1) mod 400"
      using mod_mult_self2 [of "yoe + 1" 4 "era * 100"] mod_mult_self2 [of "yoe + 1" 100 "era * 4"]
        mod_mult_self2 [of "yoe + 1" 400 era] by (simp_all add: algebra_simps)
    ultimately have "is_leap_year y" by (auto simp: is_leap_year_def long_year_def)
    then show ?thesis using mp(4) True by (simp add: days_in_month_def)
  next
    case False
    then show ?thesis using mp(4) by (auto simp: days_in_month_def split: if_splits)
  qed
qed

section \<open>Text\<close>

lemma length_show_nat: "n < 10 ^ Suc k \<Longrightarrow> length (show_nat n) \<le> Suc k"
proof (induction k arbitrary: n)
  case 0
  then show ?case by (subst show_nat.simps) simp
next
  case (Suc k)
  then have "n div 10 < 10 ^ Suc k" by simp
  then have "length (show_nat (n div 10)) \<le> Suc k" by (rule Suc.IH)
  then show ?case by (subst show_nat.simps) simp
qed

lemma read_nat_zeros: "read_nat (replicate j CHR ''0'' @ s) = read_nat s"
  by (induction j) (simp_all add: read_nat_def)

lemma pad_digits:
  assumes "0 \<le> i" "i < 10 ^ n" "0 < n"
  shows "length (pad_digits n i) = n" "is_digits (pad_digits n i)" "int (read_nat (pad_digits n i)) = i"
proof -
  have "nat i < 10 ^ n" using assms by (simp add: nat_less_iff)
  then have "length (show_nat (nat i)) \<le> n" using length_show_nat [of "nat i" "n - 1"] assms(3) by simp
  then show "length (pad_digits n i) = n" by (simp add: pad_digits_def Let_def)
  show "is_digits (pad_digits n i)"
    using show_nat_digits [of "nat i"]
    by (auto simp: is_digits_def pad_digits_def Let_def list_all_iff is_digit_char_def)
  show "int (read_nat (pad_digits n i)) = i"
    using assms(1) by (simp add: pad_digits_def Let_def read_nat_zeros)
qed

lemma digits_field_at:
  assumes "s = a @ f @ b" "length a = i" "length f = n" "is_digits f"
  shows "digits_field i n s = Some (int (read_nat f))"
  using assms by (simp add: digits_field_def Let_def)

definition date_in_range :: "int \<Rightarrow> bool" where
  "date_in_range day \<longleftrightarrow> (case civil_from_days day of (y, m, d) \<Rightarrow> 1 \<le> y \<and> y \<le> 9999)"

lemma parse_isoformat:
  assumes "date_in_range day"
  shows "parse_iso_date (PStr (isoformat_date day)) = Inr day"
proof -
  obtain y m d where c: "civil_from_days day = (y, m, d)" by (cases "civil_from_days day") auto
  note v = civil_date [OF c]
  have y: "1 \<le> y" "y \<le> 9999" using assms by (simp_all add: date_in_range_def c)
  have d: "d \<le> 31" using v(5) by (auto simp: days_in_month_def split: if_splits)
  have py: "length (pad_digits 4 y) = 4" "is_digits (pad_digits 4 y)" "int (read_nat (pad_digits 4 y)) = y"
    using pad_digits [of y 4] y by simp_all
  have pm: "length (pad_digits 2 m) = 2" "is_digits (pad_digits 2 m)" "int (read_nat (pad_digits 2 m)) = m"
    using pad_digits [of m 2] v(2,3) by simp_all
  have pd: "length (pad_digits 2 d) = 2" "is_digits (pad_digits 2 d)" "int (read_nat (pad_digits 2 d)) = d"
    using pad_digits [of d 2] v(4) d by simp_all
  define s where "s = pad_digits 4 y @ ''-'' @ pad_digits 2 m @ ''-'' @ pad_digits 2 d"
  have iso: "isoformat_date day = s" by (simp add: isoformat_date_def c s_def)
  have "digits_field 0 4 s = Some y"
    using digits_field_at [of s "[]" "pad_digits 4 y" "''-'' @ pad_digits 2 m @ ''-'' @ pad_digits 2 d" 0 4] py
    by (simp add: s_def)
  moreover have "digits_field 5 2 s = Some m"
    using digits_field_at [of s "pad_digits 4 y @ ''-''" "pad_digits 2 m" "''-'' @ pad_digits 2 d" 5 2] py pm
    by (simp add: s_def)
  moreover have "digits_field 8 2 s = Some d"
    using digits_field_at [of s "pad_digits 4 y @ ''-'' @ pad_digits 2 m @ ''-''" "pad_digits 2 d" "[]" 8 2]
      py pm pd by (simp add: s_def)
  moreover have "char_at 4 CHR ''-'' s" "char_at 7 CHR ''-'' s"
    using py pm by (simp_all add: s_def char_at_def)
  moreover have "valid_date y m d" using y v by (simp add: valid_date_def)
  ultimately have "date_prefix s = Some day"
    by (simp add: date_prefix_def v(1))
  moreover have "length s = 10" using py pm pd by (simp add: s_def)
  ultimately show ?thesis by (simp add: parse_iso_date_def iso)
qed

end
