(* ===== verification/Funding_Example.thy ===== *)
theory Funding_Example
  imports Grant_Lifecycle Evidence_Safety Calendar_Dates
begin

text \<open>
  A concrete ledger for the witnesses: a user's active wallet and grant, a funded allowance,
  a marketplace request on them, and the states it passes through.
\<close>

definition ex_now :: int where
  "ex_now = 1750000000000000"

definition ex_digest :: "string \<Rightarrow> string" where
  "ex_digest s = s"

definition ex_token :: string where
  "ex_token = ''0x'' @ replicate 40 CHR ''a''"

definition ex_spender :: string where
  "ex_spender = ''0x'' @ replicate 40 CHR ''b''"

definition ex_identity :: wallet_identity_row where
  "ex_identity =
     \<lparr>wallet_identity_id = ''wallet_1'', wi_user_id = ''user_1'', wi_chain_family = ''evm'',
      wi_wallet_address = ''0x'' @ replicate 40 CHR ''c'', wi_status = ''active'',
      wi_proof_scheme = ''eip191'', wi_proof_hash = ''proof'', wi_verified_at = Some 0,
      wi_created_at = 0, wi_updated_at = 0\<rparr>"

definition ex_grant :: spending_grant_row where
  "ex_grant =
     \<lparr>spending_grant_id = ''grant_1'', grant_wallet_identity_id = ''wallet_1'',
      grant_user_id = ''user_1'', grant_agent_id = ''agent_1'', grant_status = ''active'',
      grant_status_reason = None, max_amount_usdc = 10, per_transaction_limit_usdc = 10,
      hourly_limit_usdc = 10, daily_limit_usdc = 10, used_amount_usdc = 0,
      reserved_amount_usdc = 0, product_scopes = [''marketplace''], venue_scopes = [],
      merchant_scopes = [], merchant_trust_scopes = [''clink_verified''],
      notification_mode = ''notify_all'', network_scopes = [''base''],
      asset_scopes = [ex_token], starts_at = 0, expires_at = ex_now + MICROS_PER_DAY,
      grant_created_at = 0, grant_updated_at = 0\<rparr>"

definition ex_allowance :: asset_allowance_row where
  "ex_allowance =
     \<lparr>asset_allowance_id = ''allowance_1'', aa_wallet_identity_id = ''wallet_1'',
      aa_network = ''base'', aa_token_address = ex_token, aa_token_symbol = ''USDC'',
      aa_token_decimals = 6, aa_spender_address = ex_spender, approved_amount_atomic = 50000000,
      observed_allowance_atomic = 50000000, allowance_tx_hash = None, aa_status = ''active'',
      confirmed_block = None, last_chain_check_at = None, aa_created_at = 0, aa_updated_at = 0\<rparr>"

definition ex_db :: funding_db where
  "ex_db = empty_funding_db\<lparr>wallet_identities := [ex_identity], spending_grants := [ex_grant],
     asset_allowances := [ex_allowance]\<rparr>"

definition ex_request :: reservation_request where
  "ex_request =
     \<lparr>req_product = Some ''marketplace'', req_venue = ''clink_marketplace'',
      req_merchant_id = ''merchant_1'', req_merchant_trust_tier = Some ''clink_verified'',
      req_network = ''base'', req_asset = ''USDC'', req_token_address = None,
      req_amount_atomic = ''4000000'', req_authorization_rail = ''native_allowance'',
      req_opc_installation_id = None\<rparr>"

definition ex_context :: reserve_context where
  "ex_context =
     \<lparr>ctx_user_id = ''user_1'', ctx_agent_id = ''agent_1'', ctx_amount = 4, ctx_now = ex_now,
      ctx_reservation_id = ''reserve_1'', ctx_expected = None, ctx_external_decimals = 6,
      ctx_external_symbol = ''USDC'', ctx_canonical_token = ex_token\<rparr>"

text \<open>The record of the reservation that \<open>_reserve_unified_spending\<close> stores.\<close>

definition ex_row :: pydict where
  "ex_row =
     [(''reservation_id'', PStr ''reserve_1''), (''purchase_id'', PStr ''purchase_1''),
      (''idempotency_key'', PStr ''key_1''), (''action_id'', PStr ''action_1''),
      (''policy_decision_id'', PStr ''policy_1''), (''amount_usdc'', PStr ''4''),
      (''amount_atomic'', PStr ''4000000''), (''network'', PStr ''base''),
      (''asset'', PStr ''USDC''), (''wallet_identity_id'', PStr ''wallet_1''),
      (''spending_grant_id'', PStr ''grant_1''), (''asset_allowance_id'', PStr ''allowance_1''),
      (''user_id'', PStr ''user_1''), (''agent_id'', PStr ''agent_1''),
      (''product'', PStr ''marketplace''), (''merchant_trust_tier'', PStr ''clink_verified''),
      (''single_submission'', PBool False), (''replacement_forbidden'', PBool False),
      (''authorization_rail'', PStr ''native_allowance''), (''token_address'', PStr ex_token),
      (''token_decimals'', PInt 6), (''token_symbol'', PStr ''USDC''),
      (''spender_address'', PStr ex_spender), (''authorization_path'', PStr ''unified_grant''),
      (''budget_accounting_state'', PStr ''reserved''), (''usage_date'', PStr ''2025-06-15''),
      (''state'', PStr ''spending_reserved''), (''receipt_id'', PNone), (''tx_hash'', PNone)]"

definition ok_state :: "'e + 'a \<Rightarrow> 'a" where
  "ok_state r = (case r of Inr x \<Rightarrow> x | Inl _ \<Rightarrow> undefined)"

definition succeeds :: "'e + 'a \<Rightarrow> bool" where
  "succeeds r = (case r of Inr x \<Rightarrow> True | Inl _ \<Rightarrow> False)"

lemma succeedsE: "succeeds r \<Longrightarrow> r = Inr (ok_state r)"
  by (cases r) (auto simp: succeeds_def ok_state_def)

definition ex_open :: funding_db where
  "ex_open = ex_db\<lparr>
     spending_grants := [ex_grant\<lparr>reserved_amount_usdc := 4, grant_updated_at := ex_now\<rparr>],
     daily_usages := [\<lparr>daily_usage_id = ''grant_daily_grant_1:2025-06-15'',
       daily_spending_grant_id = ''grant_1'', daily_usage_date = 20254, daily_used_usdc = 0,
       daily_reserved_usdc = 4, daily_created_at = ex_now, daily_updated_at = ex_now\<rparr>],
     rolling_usages := [\<lparr>rolling_reservation_id = ''reserve_1'',
       rolling_spending_grant_id = ''grant_1'', rolling_amount_usdc = 4,
       rolling_state = ''reserved'', rolling_occurred_at = ex_now, rolling_updated_at = ex_now\<rparr>]\<rparr>"

definition ex_selection :: budget_selection where
  "ex_selection =
     \<lparr>sel_wallet_identity_id = ''wallet_1'', sel_spending_grant_id = ''grant_1'',
      sel_asset_allowance_id = Some ''allowance_1'', sel_token_address = ex_token,
      sel_token_decimals = 6, sel_token_symbol = ''USDC'', sel_spender_address = Some ex_spender,
      sel_usage_date = 20254\<rparr>"

definition ex_later :: int where
  "ex_later = ex_now + 60000000"

definition ex_ident :: identity where
  "ex_ident =
     [(''purchase_id'', Some ''purchase_1''), (''idempotency_key'', Some ''key_1''),
      (''action_id'', Some ''action_1''), (''policy_decision_id'', Some ''policy_1''),
      (''reservation_id'', Some ''reserve_1'')]"

definition ex_hash :: string where
  "ex_hash = ''0x'' @ replicate 64 CHR ''d''"

definition ex_bound_ident :: identity where
  "ex_bound_ident = ex_ident @ [(''tx_hash'', Some ex_hash)]"

text \<open>A second wallet and grant of the user, which the ledger would take first.\<close>

definition ex_two :: funding_db where
  "ex_two = ex_db\<lparr>
     wallet_identities := [ex_identity\<lparr>wallet_identity_id := ''wallet_0''\<rparr>, ex_identity],
     spending_grants := [ex_grant\<lparr>spending_grant_id := ''grant_0'', grant_wallet_identity_id := ''wallet_0''\<rparr>,
       ex_grant],
     asset_allowances := [ex_allowance\<lparr>asset_allowance_id := ''allowance_0'', aa_wallet_identity_id := ''wallet_0''\<rparr>,
       ex_allowance]\<rparr>"

definition ex_relayer :: string where
  "ex_relayer = ''0x'' @ replicate 40 CHR ''e''"

definition ex_projection :: pyval where
  "ex_projection = PDict [(''state'', PStr ''finalized''), (''watcher_version'', PStr ''v1'')]"

definition ex_reorg :: pyval where
  "ex_reorg = PDict [(''state'', PStr ''reorged''), (''watcher_version'', PStr ''v1'')]"

lemma ex_reserves: "reserve_unified_budget ex_digest ex_request ex_context ex_db = Inr (ex_open, ex_selection)"
  by code_simp

lemma ex_accounts: "accounts_for ex_row ex_open"
  by code_simp

lemma ex_released: "succeeds (release_unified_budget ex_row ex_later ex_open)"
  by code_simp

lemma ex_settled: "succeeds (settle_unified_budget ex_row ex_later ex_open)"
  by code_simp

lemma ex_put: "succeeds (put_record ''reservation'' ''reserve_1'' ex_row ex_bound_ident ex_now ex_db)"
  by code_simp

lemma ex_evidence: "succeeds (record_hosted_watcher_evidence ex_digest ex_row ex_projection ex_now ex_db)"
  by code_simp

lemma ex_empty: "empty_books ex_db"
  by code_simp

lemma ex_step: "budget_step ex_db ex_open"
  by (rule budget_step.intros [of "ReserveBudget ex_request ex_context" _ ex_digest])
    (simp_all add: ex_reserves, simp add: ex_context_def)

lemma ex_books: "books_ok ex_open"
  using budget.inv_reachable [OF ex_empty] ex_step by blast

end
