(* ===== verification/Funding_Properties.thy ===== *)
theory Funding_Properties
  imports Funding_Example
begin

text \<open>
  The properties of the funding ledger and the spending budget, each with a witness on the
  concrete ledger of \<open>Funding_Example\<close>.
\<close>

section \<open>The budget\<close>

text \<open>
  C18. From empty books, after any calls that reserve, release and settle spending and that
  pause, resume, revoke, reduce or list grants and revoke wallets, every grant holds exactly
  the amounts of its open reservations as reserved and of its paid ones as used, neither is
  negative, and together they never exceed the grant's total.
\<close>

theorem budget_books_balance:
  assumes "empty_books db0" "budget_step\<^sup>*\<^sup>* db0 db" "g \<in> set (spending_grants db)"
  shows "reserved_amount_usdc g = rolling_total (of_grant ''reserved'' (spending_grant_id g)) (rolling_usages db) \<and>
    used_amount_usdc g = rolling_total (of_grant ''used'' (spending_grant_id g)) (rolling_usages db) \<and>
    0 \<le> reserved_amount_usdc g \<and> 0 \<le> used_amount_usdc g \<and>
    used_amount_usdc g + reserved_amount_usdc g \<le> max_amount_usdc g"
proof -
  have ok: "books_ok db" using assms(1,2) by (rule budget.inv_reachable)
  have "\<And>r. r \<in> set (rolling_usages db) \<Longrightarrow> 0 < rolling_amount_usdc r"
    using ok by (simp add: books_ok_def)
  then have "0 \<le> rolling_total p (rolling_usages db)" for p by (rule rolling_total_nonneg)
  then show ?thesis
    using books_grant [OF ok assms(3)] by (simp add: grant_balanced_def within_budget_def)
qed

lemma budget_books_balance_witness:
  "4 = rolling_total (of_grant ''reserved'' ''grant_1'') (rolling_usages ex_open) \<and>
   4 \<le> max_amount_usdc ex_grant"
proof -
  let ?g = "ex_grant\<lparr>reserved_amount_usdc := 4, grant_updated_at := ex_now\<rparr>"
  have "?g \<in> set (spending_grants ex_open)" by (simp add: ex_open_def)
  from budget_books_balance [OF ex_empty r_into_rtranclp [of budget_step, OF ex_step] this]
  show ?thesis by (simp add: ex_grant_def)
qed

text \<open>
  C19. The budget refines the abstract accounts: in every reachable state each call is one
  step that holds an amount fitting under a ceiling, cancels or pays a held amount, lowers a
  ceiling no further than what is committed, or leaves the accounts alone.
\<close>

theorem budget_refines_accounts:
  assumes "empty_books db0" "budget_step\<^sup>*\<^sup>* db0 db" "budget_step db db'"
  shows "account_step (accounts_of db) (accounts_of db')"
  using budget.inv_reachable [OF assms(1,2)] assms(3) by (rule step_refines [rotated])

lemma budget_refines_accounts_witness: "account_step (accounts_of ex_db) (accounts_of ex_open)"
  by (rule budget_refines_accounts [OF ex_empty _ ex_step]) simp

text \<open>
  C20. A reservation that succeeds is booked on a grant of the asking user and agent that is
  active and in its term under an active wallet and has the request in all its scopes: product,
  network, venue, merchant, the trust tier of the merchant, and the asset, which is the one the
  network's registry names and which, on the rail of an allowance, an active allowance of the
  same wallet covers. The grant has room for it: within the per-transaction limit, and with it
  the grant stays within its total, its day within the daily limit and its last hour within the
  hourly limit.
\<close>

theorem reservation_within_limits:
  assumes "reserve_unified_budget sha256 req ctx db = Inr (db', sel)"
  shows "\<exists>g \<in> set (spending_grants db).
    sel_spending_grant_id sel = spending_grant_id g \<and>
    sel_wallet_identity_id sel = grant_wallet_identity_id g \<and>
    grant_user_id g = ctx_user_id ctx \<and> grant_agent_id g = ctx_agent_id ctx \<and>
    grant_status g = ''active'' \<and> starts_at g \<le> ctx_now ctx \<and> ctx_now ctx < expires_at g \<and>
    (\<exists>i \<in> set (wallet_identities db). wallet_identity_id i = sel_wallet_identity_id sel \<and>
       wi_user_id i = ctx_user_id ctx \<and> wi_status i = ''active'') \<and>
    scope_has (req_product req) (product_scopes g) \<and> req_network req \<in> set (network_scopes g) \<and>
    (venue_scopes g = [] \<or> req_venue req \<in> set (venue_scopes g)) \<and>
    (merchant_scopes g = [] \<or> req_merchant_id req \<in> set (merchant_scopes g)) \<and>
    (if req_product req = Some ''marketplace'' \<or> req_merchant_trust_tier req \<noteq> None
     then scope_has (req_merchant_trust_tier req) (merchant_trust_scopes g) else True) \<and>
    sel_token_address sel = ctx_canonical_token ctx \<and>
    (if req_authorization_rail req = ''external_x402''
     then sel_token_address sel \<in> lower ` set (asset_scopes g) \<and> sel_asset_allowance_id sel = None
     else sel_token_address sel \<in> set (asset_scopes g) \<and>
       (\<exists>a \<in> set (asset_allowances db). sel_asset_allowance_id sel = Some (asset_allowance_id a) \<and>
          aa_wallet_identity_id a = grant_wallet_identity_id g \<and> aa_status a = ''active'' \<and>
          aa_network a = req_network req \<and> aa_token_address a = sel_token_address sel \<and>
          (\<exists>n. atomic_amount (req_amount_atomic req) = Inr n \<and> n \<le> observed_allowance_atomic a))) \<and>
    ctx_amount ctx \<le> per_transaction_limit_usdc g \<and>
    used_amount_usdc g + reserved_amount_usdc g + ctx_amount ctx \<le> max_amount_usdc g \<and>
    daily_total (daily_usage db (spending_grant_id g) (date_of (ctx_now ctx))) + ctx_amount ctx
      \<le> daily_limit_usdc g \<and>
    hourly_total db (spending_grant_id g) (ctx_now ctx) + ctx_amount ctx \<le> hourly_limit_usdc g"
  using assms
proof (rule reserve_commits)
  fix g assume g: "may_spend req ctx db g" "booked sha256 req ctx db sel db' g"
  have asset: "asset_covered req ctx db sel g" using g(2) by (simp add: booked_def)
  have trust: "merchant_trusted req g" using g(1) by (simp add: may_spend_def scope_stages_def)
  show ?thesis
  proof (intro bexI [of _ g] conjI)
    show "\<exists>i \<in> set (wallet_identities db). wallet_identity_id i = sel_wallet_identity_id sel \<and>
        wi_user_id i = ctx_user_id ctx \<and> wi_status i = ''active''"
      using g by (auto simp: may_spend_def booked_def active_grants_def active_identities_def)
    show "if req_product req = Some ''marketplace'' \<or> req_merchant_trust_tier req \<noteq> None
        then scope_has (req_merchant_trust_tier req) (merchant_trust_scopes g) else True"
      using trust by (auto simp: merchant_trusted_def)
    show "if req_authorization_rail req = ''external_x402''
        then sel_token_address sel \<in> lower ` set (asset_scopes g) \<and> sel_asset_allowance_id sel = None
        else sel_token_address sel \<in> set (asset_scopes g) \<and>
          (\<exists>a \<in> set (asset_allowances db). sel_asset_allowance_id sel = Some (asset_allowance_id a) \<and>
             aa_wallet_identity_id a = grant_wallet_identity_id g \<and> aa_status a = ''active'' \<and>
             aa_network a = req_network req \<and> aa_token_address a = sel_token_address sel \<and>
             (\<exists>n. atomic_amount (req_amount_atomic req) = Inr n \<and> n \<le> observed_allowance_atomic a))"
      using asset unfolding asset_covered_def covering_allowance_def by (rule conjunct2)
    show "sel_token_address sel = ctx_canonical_token ctx" using asset by (simp add: asset_covered_def)
  qed (use g in \<open>simp_all add: may_spend_def booked_def active_grants_def scope_stages_def
      within_day_def within_hour_def\<close>)
qed

lemma reservation_within_limits_witness:
  "\<exists>g \<in> set (spending_grants ex_db). grant_status g = ''active'' \<and>
     ''clink_verified'' \<in> set (merchant_trust_scopes g) \<and> ex_token \<in> set (asset_scopes g) \<and>
     used_amount_usdc g + reserved_amount_usdc g + 4 \<le> max_amount_usdc g"
  using reservation_within_limits [OF ex_reserves]
  by (auto simp: ex_context_def ex_request_def ex_selection_def scope_has_def)

lemma budget_state_free: "''budget_accounting_state'' \<notin> provenance_fields"
  by (simp add: provenance_fields_def UNIFIED_RESERVATION_PROVENANCE_FIELDS_def
      NATIVE_ALLOWANCE_PROVENANCE_FIELDS_def EXTERNAL_X402_PROVENANCE_FIELDS_def)

lemma budget_state_dset: "budget_state (dset ''budget_accounting_state'' (PStr s) row) t \<longleftrightarrow> s = t"
  by (auto simp: budget_state_def is_str_def)

lemma released_row:
  assumes "release_unified_budget row now db = Inr (db', row')"
  shows "require_unified_reservation row' = Inr ()" "budget_state row' t \<longleftrightarrow> t = ''released''"
  using assms
  by (auto simp: release_unified_budget_def and_then_eq_Inr Let_def budget_state_def is_str_def
      require_unified_dset [OF budget_state_free] split: if_splits)

lemma settled_row:
  assumes "settle_unified_budget row now db = Inr (db', row')"
  shows "require_unified_reservation row' = Inr ()" "budget_state row' t \<longleftrightarrow> t = ''settled''"
  using assms
  by (auto simp: settle_unified_budget_def and_then_eq_Inr Let_def budget_state_def is_str_def
      require_unified_dset [OF budget_state_free] split: if_splits)

text \<open>
  C21. A reservation's budget is closed once: after a release, releasing again changes
  nothing and settling is refused; after a settlement, settling again changes nothing and
  releasing is refused, in whatever state the ledger then is.
\<close>

theorem budget_closed_once:
  "(release_unified_budget row now db = Inr (db1, row1) \<longrightarrow>
      release_unified_budget row1 t db2 = Inr (db2, row1) \<and>
      settle_unified_budget row1 t db2 = Inl (ValueErr ''reservation budget is not settleable'')) \<and>
   (settle_unified_budget row now db = Inr (db1, row1) \<longrightarrow>
      settle_unified_budget row1 t db2 = Inr (db2, row1) \<and>
      release_unified_budget row1 t db2 = Inl (ValueErr ''reservation budget is not releasable''))"
proof (intro conjI impI)
  assume r: "release_unified_budget row now db = Inr (db1, row1)"
  show "release_unified_budget row1 t db2 = Inr (db2, row1)"
    "settle_unified_budget row1 t db2 = Inl (ValueErr ''reservation budget is not settleable'')"
    using released_row [OF r] by (simp_all add: release_unified_budget_def settle_unified_budget_def)
next
  assume r: "settle_unified_budget row now db = Inr (db1, row1)"
  show "settle_unified_budget row1 t db2 = Inr (db2, row1)"
    "release_unified_budget row1 t db2 = Inl (ValueErr ''reservation budget is not releasable'')"
    using settled_row [OF r] by (simp_all add: release_unified_budget_def settle_unified_budget_def)
qed

lemma budget_closed_once_witness:
  "\<exists>db1 row1. release_unified_budget ex_row ex_later ex_open = Inr (db1, row1) \<and>
     settle_unified_budget row1 ex_later db1 = Inl (ValueErr ''reservation budget is not settleable'')"
proof -
  obtain db1 row1 where r: "release_unified_budget ex_row ex_later ex_open = Inr (db1, row1)"
    using succeedsE [OF ex_released] by (metis surj_pair)
  with budget_closed_once [of ex_row ex_later ex_open db1 row1 ex_later db1] show ?thesis by blast
qed

text \<open>
  C22. A reservation that is released gives everything back: if the reservation's record
  describes the amount it was opened with, every grant's total, used and reserved amounts are
  again what they were before it.
\<close>

theorem reserve_release_restores:
  assumes "books_ok db" "0 < ctx_amount ctx"
    and "reserve_unified_budget sha256 req ctx db = Inr (db1, sel)"
    and "dget row ''reservation_id'' = PStr (ctx_reservation_id ctx)" "accounts_for row db1"
    and "budget_state row ''reserved''" "release_unified_budget row now db1 = Inr (db2, row2)"
  shows "accounts_of db2 = accounts_of db"
  using assms(3,1)
proof (rule reserve_accounts)
  fix g
  assume a: "accounts_of db (spending_grant_id g) = Some (account_of g)"
    "accounts_of db1 = (accounts_of db)
       (spending_grant_id g \<mapsto> (account_of g)\<lparr>held := held (account_of g) + ctx_amount ctx\<rparr>)"
    and new: "\<exists>r \<in> set (rolling_usages db1). rolling_reservation_id r = ctx_reservation_id ctx \<and>
       rolling_spending_grant_id r = spending_grant_id g \<and> rolling_amount_usdc r = ctx_amount ctx"
  have ok: "books_ok db1" using assms(3,1,2) by (rule reserve_books)
  have open1: "\<not> budget_state row ''released''" using assms(6) by (auto dest: budget_state_unique)
  show ?thesis
  proof (rule release_accounts [OF assms(7,5) open1])
    fix r f h
    assume r: "r \<in> set (rolling_usages db1)" "describes row r"
      and h: "sel_by spending_grant_id (rolling_spending_grant_id r) (spending_grants db1) = Some h"
      "\<And>g. reserved_less (rolling_amount_usdc r) g (f g) 0"
      "spending_grants db2 = upd_by spending_grant_id (rolling_spending_grant_id r) f (spending_grants db1)"
    obtain n where n: "n \<in> set (rolling_usages db1)" "rolling_reservation_id n = ctx_reservation_id ctx"
      "rolling_spending_grant_id n = spending_grant_id g" "rolling_amount_usdc n = ctx_amount ctx"
      using new by blast
    have "rolling_reservation_id r = ctx_reservation_id ctx"
      using r(2) assms(4) by (simp add: describes_def)
    then have "r = n"
      using ok r(1) n(1,2) by (auto simp: books_ok_def intro: key_unique)
    then have x: "rolling_spending_grant_id r = spending_grant_id g" "rolling_amount_usdc r = ctx_amount ctx"
      using n(3,4) by simp_all
    have "account_of h = (account_of g)\<lparr>held := held (account_of g) + ctx_amount ctx\<rparr>"
      using close_accounts(1) [OF h] a(2) by (simp add: x)
    then show ?thesis
      using close_accounts(2) [OF h] a by (simp add: x fun_upd_idem)
  qed
qed

lemma reserve_release_restores_witness:
  "\<exists>db2 row2. release_unified_budget ex_row ex_later ex_open = Inr (db2, row2) \<and>
     accounts_of db2 = accounts_of ex_db"
proof -
  obtain db2 row2 where r: "release_unified_budget ex_row ex_later ex_open = Inr (db2, row2)"
    using succeedsE [OF ex_released] by (metis surj_pair)
  have "accounts_of db2 = accounts_of ex_db"
  proof (rule reserve_release_restores [OF empty_books_ok [OF ex_empty] _ ex_reserves _ ex_accounts _ r])
    show "0 < ctx_amount ex_context" by (simp add: ex_context_def)
    show "dget ex_row ''reservation_id'' = PStr (ctx_reservation_id ex_context)"
      "budget_state ex_row ''reserved''" by code_simp+
  qed
  with r show ?thesis by blast
qed

text \<open>
  The day a reservation is booked on survives its record: printing it in ISO form and
  parsing it again gives the same day, for every day of the years 1 to 9999.
\<close>

theorem usage_date_roundtrip:
  assumes "date_in_range day"
  shows "parse_iso_date (PStr (isoformat_date day)) = Inr day"
  using assms by (rule parse_isoformat)

lemma usage_date_roundtrip_witness: "parse_iso_date (PStr (isoformat_date 20254)) = Inr 20254"
proof (rule usage_date_roundtrip)
  show "date_in_range 20254" by code_simp
qed

text \<open>
  C24. One call moves a grant's status along the edges of its lifecycle: a revoked grant stays
  revoked, an expired one can only be revoked, a pause is ended only if the user had paused
  it, and the terms of the grant never widen.
\<close>

theorem grant_status_lifecycle:
  assumes "empty_books db0" "budget_step\<^sup>*\<^sup>* db0 db" "budget_step db db'"
    and "g \<in> set (spending_grants db)" "row_ok g"
  shows "\<exists>g' \<in> set (spending_grants db'). terms_kept g g' \<and> row_ok g' \<and> status_moves g g'"
proof -
  have "grants_move db db'"
    using assms(3) budget.inv_reachable [OF assms(1,2)] by (rule step_grants_move)
  then obtain g' where "g' \<in> set (spending_grants db')" "grant_moves g g'"
    using assms(4) unfolding grants_move_def by (metis in_set_conv_nth list_all2_conv_all_nth)
  then show ?thesis using assms(5) by (auto simp: grant_moves_def)
qed

lemma grant_status_lifecycle_witness:
  "\<exists>g' \<in> set (spending_grants ex_open). terms_kept ex_grant g' \<and> status_moves ex_grant g'"
proof -
  have "row_ok ex_grant" by code_simp
  moreover have "ex_grant \<in> set (spending_grants ex_db)" by (simp add: ex_db_def)
  ultimately show ?thesis
    using grant_status_lifecycle [OF ex_empty _ ex_step, of ex_grant] by blast
qed

text \<open>
  C25. Revoking a wallet ends spending: after the call that revokes a wallet identity, no
  reservation is booked on it, whatever calls come in between.
\<close>

theorem revoked_wallet_never_pays:
  assumes "revoke_wallet_identity_and_pause_active_grants uuid wid t db = Inr (db1, v)"
    and "budget_step\<^sup>*\<^sup>* db1 db2"
    and "reserve_unified_budget sha256 req ctx db2 = Inr (db3, sel)"
  shows "sel_wallet_identity_id sel \<noteq> wid"
  using reserve_needs_identity [OF assms(3) steps_keep_revoked [OF assms(2) revoked_identity [OF assms(1)]]] .

definition ex_revoked :: funding_db where
  "ex_revoked = fst (ok_state (revoke_wallet_identity_and_pause_active_grants
     (\<lambda>i. ''event_'' @ show_nat i) ''wallet_0'' ex_now ex_two))"

definition ex_listed :: funding_db where
  "ex_listed = fst (ok_state (active_spending_grants ''user_1'' ex_now ex_revoked))"

lemma revoked_wallet_never_pays_witness:
  "(\<exists>db' sel. reserve_unified_budget ex_digest ex_request ex_context ex_two = Inr (db', sel) \<and>
     sel_wallet_identity_id sel = ''wallet_0'') \<and>
   (\<exists>db' sel. reserve_unified_budget ex_digest ex_request ex_context ex_listed = Inr (db', sel) \<and>
     sel_wallet_identity_id sel \<noteq> ''wallet_0'')"
proof
  let ?reserve = "reserve_unified_budget ex_digest ex_request ex_context"
  have "succeeds (?reserve ex_two)" "sel_wallet_identity_id (snd (ok_state (?reserve ex_two))) = ''wallet_0''"
    by code_simp+
  then show "\<exists>db' sel. ?reserve ex_two = Inr (db', sel) \<and> sel_wallet_identity_id sel = ''wallet_0''"
    using succeedsE by (metis surj_pair snd_conv)
  have "succeeds (revoke_wallet_identity_and_pause_active_grants (\<lambda>i. ''event_'' @ show_nat i) ''wallet_0'' ex_now ex_two)"
    "succeeds (active_spending_grants ''user_1'' ex_now ex_revoked)" "succeeds (?reserve ex_listed)"
    by code_simp+
  then obtain v w db' sel where r: "revoke_wallet_identity_and_pause_active_grants (\<lambda>i. ''event_'' @ show_nat i)
      ''wallet_0'' ex_now ex_two = Inr (ex_revoked, v)"
    and l: "active_spending_grants ''user_1'' ex_now ex_revoked = Inr (ex_listed, w)"
    and s: "?reserve ex_listed = Inr (db', sel)"
    unfolding ex_revoked_def ex_listed_def by (metis succeedsE prod.collapse)
  have "budget_step ex_revoked ex_listed"
    by (rule budget_step.intros [of "ListGrants ''user_1'' ex_now" _ ex_digest]) (simp_all add: l table_of_def)
  from revoked_wallet_never_pays [OF r r_into_rtranclp [of budget_step, OF this] s] s
  show "\<exists>db' sel. ?reserve ex_listed = Inr (db', sel) \<and> sel_wallet_identity_id sel \<noteq> ''wallet_0''" by blast
qed

section \<open>The ledger\<close>

text \<open>
  C26. What a reservation is for never changes: over any writes to the ledger of which those
  under its id are reservation writes, every string among its immutable fields (identities,
  user, agent, merchant, destination, asset, amount, authorization, day) stays as first stored,
  whatever the caller passes. A write of another type under the id makes none of the
  reservation's checks and is left out (\<open>other_type_overwrites\<close>).
\<close>

theorem reservation_terms_immutable:
  assumes "(own_put_step rid)\<^sup>*\<^sup>* db db'" "stored_string rid f s db"
    and "f \<in> set RESERVATION_IMMUTABLE_FIELDS" "f \<noteq> ''settlement_transaction''"
  shows "stored_string rid f s db'"
  using assms by (rule puts_keep_string)

definition ex_put1 :: funding_db where
  "ex_put1 = fst (ok_state (put_record ''reservation'' ''reserve_1'' ex_row ex_bound_ident ex_now ex_db))"

text \<open>A later write that adds to the reservation, and one of another type elsewhere.\<close>

definition ex_noted_row :: pydict where
  "ex_noted_row = dset ''execution_note'' (PStr ''seen'') ex_row"

definition ex_put2 :: funding_db where
  "ex_put2 = fst (ok_state (put_record ''reservation'' ''reserve_1'' ex_noted_row ex_bound_ident ex_later ex_put1))"

definition ex_put3 :: funding_db where
  "ex_put3 = fst (ok_state (put_record ''settlement'' ''settlement_1'' [(''state'', PStr ''new'')] [] ex_later ex_put2))"

lemma reservation_terms_immutable_witness:
  "stored_string ''reserve_1'' ''amount_atomic'' ''4000000'' ex_put3 \<and>
   stored_string ''reserve_1'' ''execution_note'' ''seen'' ex_put3"
proof -
  have s: "stored_string ''reserve_1'' ''amount_atomic'' ''4000000'' ex_put1" by code_simp
  have step: "own_put_step own db (fst (ok_state (put_record rt rid payload ident now db)))"
    if "succeeds (put_record rt rid payload ident now db)" "rid = own \<longrightarrow> rt = ''reservation''"
    for own rt rid payload ident now db
  proof (rule own_put_step.intros [OF _ that(2)])
    let ?r = "put_record rt rid payload ident now db"
    show "?r = Inr (fst (ok_state ?r), snd (ok_state ?r))"
      unfolding prod.collapse using that(1) by (rule succeedsE)
  qed
  have "succeeds (put_record ''reservation'' ''reserve_1'' ex_noted_row ex_bound_ident ex_later ex_put1)" by code_simp
  from step [OF this] have "own_put_step ''reserve_1'' ex_put1 ex_put2" by (simp add: ex_put2_def)
  moreover have "succeeds (put_record ''settlement'' ''settlement_1'' [(''state'', PStr ''new'')] [] ex_later ex_put2)"
    by code_simp
  from step [OF this, of "''reserve_1''"] have "own_put_step ''reserve_1'' ex_put2 ex_put3" by (simp add: ex_put3_def)
  ultimately have "(own_put_step ''reserve_1'')\<^sup>*\<^sup>* ex_put1 ex_put3" by (meson converse_rtranclp_into_rtranclp rtranclp.rtrancl_refl)
  then have "stored_string ''reserve_1'' ''amount_atomic'' ''4000000'' ex_put3"
    by (rule reservation_terms_immutable [OF _ s]) (simp_all add: RESERVATION_IMMUTABLE_FIELDS_def)
  moreover have "stored_string ''reserve_1'' ''execution_note'' ''seen'' ex_put3" by code_simp
  ultimately show ?thesis by simp
qed

text \<open>A write of another type under the reservation's id replaces it without its checks.\<close>

lemma other_type_overwrites:
  "case put_record ''settlement'' ''reserve_1'' [(''state'', PStr ''new'')] [] ex_later ex_put1 of
     Inl _ \<Rightarrow> False
   | Inr (db, out) \<Rightarrow> stored_string ''reserve_1'' ''amount_atomic'' ''4000000'' ex_put1 \<and>
       \<not> stored_string ''reserve_1'' ''amount_atomic'' ''4000000'' db"
  by code_simp

text \<open>
  C27. One on-chain transaction pays one reservation: once a write has bound a transaction
  hash to a reservation, every later successful reservation write that carries the same
  transaction, in whatever letter case, is for that reservation.
\<close>

theorem transaction_pays_one_reservation:
  assumes "put_record ''reservation'' rid payload ident now db = Inr (db1, out)"
    and "ident_value ident ''tx_hash'' = Some h1" "canonicalize_transaction_hash (PStr h1) = Inr h"
    and "put_step\<^sup>*\<^sup>* db1 db2"
    and "put_record ''reservation'' rid' payload' ident' now' db2 = Inr (db3, out')"
    and "ident_value ident' ''tx_hash'' = Some h2" "canonicalize_transaction_hash (PStr h2) = Inr h"
  shows "rid' = rid"
proof -
  obtain b where b: "sel_by binding_tx_hash h (transaction_bindings db1) = Some b" "binding_reservation_id b = rid"
    using put_binds [OF assms(1-3)] by blast
  have "sel_by binding_tx_hash h (transaction_bindings db3) = Some b"
    using put_keeps_binding [OF assms(5) puts_keep_binding [OF assms(4) b(1)]] .
  moreover obtain c where "sel_by binding_tx_hash h (transaction_bindings db3) = Some c"
    "binding_reservation_id c = rid'"
    using put_binds [OF assms(5-7)] by blast
  ultimately show ?thesis using b(2) by simp
qed

lemma transaction_pays_one_reservation_witness:
  "\<exists>db1 out db3 out'. put_record ''reservation'' ''reserve_1'' ex_row ex_bound_ident ex_now ex_db = Inr (db1, out) \<and>
     put_record ''reservation'' ''reserve_1'' ex_row ex_bound_ident ex_later db1 = Inr (db3, out') \<and>
     ''reserve_1'' = ''reserve_1''"
proof -
  let ?put = "put_record ''reservation'' ''reserve_1'' ex_row ex_bound_ident"
  obtain db1 out where p: "?put ex_now ex_db = Inr (db1, out)"
    using succeedsE [OF ex_put] by (metis surj_pair)
  have "succeeds (?put ex_later (fst (ok_state (?put ex_now ex_db))))" by code_simp
  then have "succeeds (?put ex_later db1)" by (simp add: p ok_state_def)
  then obtain db3 out' where q: "?put ex_later db1 = Inr (db3, out')"
    using succeedsE by (metis surj_pair)
  have h: "ident_value ex_bound_ident ''tx_hash'' = Some ex_hash"
    "canonicalize_transaction_hash (PStr ex_hash) = Inr ex_hash"
    by code_simp+
  have "''reserve_1'' = ''reserve_1''"
    by (rule transaction_pays_one_reservation [OF p h rtranclp.rtrancl_refl q h])
  with p q show ?thesis by blast
qed

text \<open>
  A relayer account never gets the same nonce twice: of two fresh allocations for one
  network and relayer, with any allocations in between, the later nonce is greater, and both
  are at least what the chain expected and below \<open>2 ^ 64\<close>.
\<close>

theorem relayer_nonces_increase:
  assumes "allocate_funding_nonce row1 network relayer (PInt p1) t1 db = Inr (db1, n1)"
    and "allocate_step\<^sup>*\<^sup>* db1 db2"
    and "allocate_funding_nonce row2 network relayer (PInt p2) t2 db2 = Inr (db3, n2)"
    and "owns_no_nonce row1" "owns_no_nonce row2"
  shows "n1 < n2 \<and> p1 \<le> n1 \<and> p2 \<le> n2 \<and> n2 < 2 ^ 64"
proof -
  let ?k = "(network, lower relayer)"
  note g1 = fresh_allocation [OF assms(1,4)] and g2 = fresh_allocation [OF assms(3,5)]
  have "funding_next ?k db1 = n1 + 1" using relayer.give_next [OF g1] by simp
  moreover have "funding_next ?k db1 \<le> funding_next ?k db2"
    using assms(2) by (rule allocations_grow)
  moreover have "funding_next ?k db2 \<le> n2" using relayer.give_next [OF g2] by simp
  moreover have "n2 < 2 ^ 64" using g2 by (auto simp: fresh_nonce_def dest: next_funding_nonce_shape(2) split: if_splits)
  ultimately show ?thesis using relayer.give_next [OF g1] relayer.give_next [OF g2] by simp
qed

lemma relayer_nonces_increase_witness:
  "\<exists>db1 db3. allocate_funding_nonce ex_row ''base'' ex_relayer (PInt 7) ex_now ex_db = Inr (db1, 7) \<and>
     allocate_funding_nonce ex_row ''base'' ex_relayer (PInt 7) ex_later db1 = Inr (db3, 8) \<and> (7::int) < 8"
proof -
  let ?a = "allocate_funding_nonce ex_row ''base'' ex_relayer (PInt 7)"
  have a: "succeeds (?a ex_now ex_db)" "snd (ok_state (?a ex_now ex_db)) = 7"
    "succeeds (?a ex_later (fst (ok_state (?a ex_now ex_db))))"
    "snd (ok_state (?a ex_later (fst (ok_state (?a ex_now ex_db))))) = 8"
    by code_simp+
  define db1 where "db1 = fst (ok_state (?a ex_now ex_db))"
  define db3 where "db3 = fst (ok_state (?a ex_later db1))"
  have 1: "?a ex_now ex_db = Inr (db1, 7)"
    using succeedsE [OF a(1)] a(2) unfolding db1_def by (metis prod.collapse)
  have 3: "?a ex_later db1 = Inr (db3, 8)"
    using succeedsE [OF a(3)] a(4) unfolding db3_def db1_def by (metis prod.collapse)
  have o: "owns_no_nonce ex_row" by code_simp
  from relayer_nonces_increase [OF 1 rtranclp.rtrancl_refl 3 o o] 1 3 show ?thesis by blast
qed

text \<open>
  Watcher evidence is immutable: once a projection is recorded on a reservation,
  recording it again changes neither the tables nor the row, and any different projection is
  refused.
\<close>

theorem watcher_evidence_immutable:
  assumes "record_hosted_watcher_evidence sha256 row evidence now db = Inr (db1, row1)" "wf_py evidence"
  shows "record_hosted_watcher_evidence sha256 row1 evidence t db1 = Inr (db1, row1) \<and>
    (\<forall>other db2. \<not> py_eq evidence (PDict other) \<longrightarrow>
       record_hosted_watcher_evidence sha256 row1 (PDict other) t db2 =
         Inl (ValueErr ''hosted watcher evidence changed''))"
proof (intro conjI allI impI)
  show again: "record_hosted_watcher_evidence sha256 row1 evidence t db1 = Inr (db1, row1)"
    using assms by (rule record_evidence_again)
  fix other db2
  assume diff: "\<not> py_eq evidence (PDict other)"
  show "record_hosted_watcher_evidence sha256 row1 (PDict other) t db2 =
         Inl (ValueErr ''hosted watcher evidence changed'')"
    using assms(1)
  proof (rule record_evidence_shape)
    fix c
    assume c: "evidence = PDict c"
      and r: "row1 = dset EVIDENCE_HASH_FIELD (PStr (evidence_hash_of sha256 c)) (dset EVIDENCE_FIELD evidence row)"
    have "dget row1 EVIDENCE_FIELD = evidence" by (simp add: r field_names)
    moreover have "require_unified_reservation row1 = Inr ()"
      using again by (auto elim: record_evidence_shape)
    ultimately show ?thesis
      using diff c by (intro changed_evidence_refused) simp_all
  qed
qed

lemma watcher_evidence_immutable_witness:
  "\<exists>db1 row1. record_hosted_watcher_evidence ex_digest ex_row ex_projection ex_now ex_db = Inr (db1, row1) \<and>
     record_hosted_watcher_evidence ex_digest row1 ex_reorg ex_later db1 =
       Inl (ValueErr ''hosted watcher evidence changed'')"
proof -
  obtain db1 row1 where r: "record_hosted_watcher_evidence ex_digest ex_row ex_projection ex_now ex_db = Inr (db1, row1)"
    using succeedsE [OF ex_evidence] by (metis surj_pair)
  have "wf_py ex_projection" by (simp add: ex_projection_def)
  from watcher_evidence_immutable [OF r this, of ex_later] r show ?thesis
    by (force simp: ex_projection_def ex_reorg_def)
qed

text \<open>
  Signed transactions and external payment responses of old reservations never leave the
  ledger: no read of a reservation and no result of a reservation write carries the legacy
  fields, whatever the stored row holds.
\<close>

theorem legacy_payment_material_hidden:
  "(by_purchase pid db = Some p \<longrightarrow> \<not> exposes_legacy p) \<and>
   (by_tx_hash h db = Inr (Some p) \<longrightarrow> \<not> exposes_legacy p) \<and>
   (list_payloads ''reservation'' db = Inr ps \<longrightarrow> p \<in> set ps \<longrightarrow> \<not> exposes_legacy p) \<and>
   (get_record rid db = Some p \<longrightarrow> sel_by record_id rid (ledger_records db) = Some r \<longrightarrow>
      record_type r = ''reservation'' \<longrightarrow> \<not> exposes_legacy p) \<and>
   (put_record ''reservation'' rid payload ident now db = Inr (db', p) \<longrightarrow> \<not> exposes_legacy p)"
  using by_purchase_clean by_tx_hash_clean list_payloads_clean get_record_clean put_clean by blast

lemma legacy_payment_material_hidden_witness:
  "\<exists>db' p. put_record ''reservation'' ''reserve_1'' ex_row ex_bound_ident ex_now ex_db = Inr (db', p) \<and>
     \<not> exposes_legacy p"
proof -
  obtain db' p where p: "put_record ''reservation'' ''reserve_1'' ex_row ex_bound_ident ex_now ex_db = Inr (db', p)"
    using succeedsE [OF ex_put] by (metis surj_pair)
  then have "\<not> exposes_legacy p" using legacy_payment_material_hidden by blast
  with p show ?thesis by blast
qed

end
