(* ===== verification/Service_Pricing.thy ===== *)
theory Service_Pricing
  imports Py_Values
begin

text \<open>
  Exact service prices (\<open>agentonomy_commerce/service_pricing.py\<close>): a decimal string and a
  number of atomic units (six decimals) that always agree. A \<open>Decimal\<close> is its sign, its
  coefficient and its exponent, as \<open>as_tuple\<close> shows them.
\<close>

section \<open>Decimals\<close>

record finite_decimal =
  dec_negative :: bool
  dec_coefficient :: nat
  dec_exponent :: int

datatype decimal = Finite finite_decimal | NonFinite

text \<open>The argument of the price helpers: a string, a \<open>Decimal\<close>, or something else.\<close>

datatype amount_arg = AmountStr string | AmountDecimal decimal | OtherAmount

definition ATOMIC_SCALE :: nat where
  "ATOMIC_SCALE = 6"

definition ATOMIC_FACTOR :: nat where
  "ATOMIC_FACTOR = 10 ^ ATOMIC_SCALE"

text \<open>\<open>s.partition(".")\<close>.\<close>

definition before_point :: "string \<Rightarrow> string" where
  "before_point s = takeWhile (\<lambda>c. c \<noteq> CHR ''.'') s"

definition after_point :: "string \<Rightarrow> string" where
  "after_point s = drop 1 (dropWhile (\<lambda>c. c \<noteq> CHR ''.'') s)"

definition has_point :: "string \<Rightarrow> bool" where
  "has_point s \<longleftrightarrow> CHR ''.'' \<in> set s"

text \<open>The patterns \<open>\d+(\.\d+)?\<close> and \<open>0|[1-9]\d*\<close>.\<close>

definition fixed_point :: "string \<Rightarrow> bool" where
  "fixed_point s \<longleftrightarrow> is_digits (before_point s) \<and> (has_point s \<longrightarrow> is_digits (after_point s))"

definition canonical_integer :: "string \<Rightarrow> bool" where
  "canonical_integer s \<longleftrightarrow> s = ''0'' \<or> is_positive_decimal s"

text \<open>\<open>Decimal(s)\<close> on a fixed-point string.\<close>

definition decimal_of_fixed :: "string \<Rightarrow> finite_decimal" where
  "decimal_of_fixed s =
     \<lparr>dec_negative = False, dec_coefficient = read_nat (before_point s @ after_point s),
      dec_exponent = - int (length (after_point s))\<rparr>"

text \<open>\<open>format(d, "f")\<close>: a zero with a positive exponent prints as \<open>0\<close>.\<close>

definition pad_left :: "nat \<Rightarrow> string \<Rightarrow> string" where
  "pad_left n s = replicate (n - length s) CHR ''0'' @ s"

definition format_f :: "finite_decimal \<Rightarrow> string" where
  "format_f d =
     (if dec_negative d then ''-'' else '''') @
     (if 0 \<le> dec_exponent d then
        (if dec_coefficient d = 0 then ''0''
         else show_nat (dec_coefficient d) @ replicate (nat (dec_exponent d)) CHR ''0'')
      else
        let k = nat (- dec_exponent d); s = pad_left (Suc k) (show_nat (dec_coefficient d))
        in take (length s - k) s @ ''.'' @ drop (length s - k) s)"

section \<open>Prices\<close>

definition reject_non_decimal :: "amount_arg \<Rightarrow> py_error + finite_decimal" where
  "reject_non_decimal v =
     and_then (case v of
         AmountStr s \<Rightarrow>
           if fixed_point s then Inr (Finite (decimal_of_fixed s))
           else Inl (ValueErr ''token amount must use fixed-point decimal notation'')
       | AmountDecimal d \<Rightarrow> Inr d
       | OtherAmount \<Rightarrow> Inl (ValueErr ''token amount must be a decimal string or Decimal''))
     (\<lambda>d. case d of
         Finite f \<Rightarrow>
           if dec_negative f \<and> dec_coefficient f \<noteq> 0
           then Inl (ValueErr ''token amount must be finite and non-negative'') else Inr f
       | NonFinite \<Rightarrow> Inl (ValueErr ''token amount must be finite and non-negative''))"

text \<open>The digits of \<open>as_tuple\<close>, and the loop that puts them together again.\<close>

definition decimal_digits :: "nat \<Rightarrow> nat list" where
  "decimal_digits n = map (\<lambda>c. ord c - 48) (show_nat n)"

definition coefficient_of :: "nat list \<Rightarrow> nat" where
  "coefficient_of ds = foldl (\<lambda>a d. a * 10 + d) 0 ds"

definition atomic_from_decimal :: "finite_decimal \<Rightarrow> bool \<Rightarrow> py_error + nat" where
  "atomic_from_decimal d allow_zero =
     (let coefficient = coefficient_of (decimal_digits (dec_coefficient d)) in
      and_then
        (if 0 \<le> dec_exponent d
         then Inr (coefficient * 10 ^ nat (dec_exponent d) * ATOMIC_FACTOR)
         else let scale = nat (- dec_exponent d) in
           if ATOMIC_SCALE < scale
           then Inl (ValueErr ''token amount has more than six decimal places'')
           else Inr (coefficient * 10 ^ (ATOMIC_SCALE - scale)))
        (\<lambda>atomic. if \<not> allow_zero \<and> atomic = 0
           then Inl (ValueErr ''token amount must be positive'') else Inr atomic))"

definition decimal_from_atomic :: "nat \<Rightarrow> finite_decimal" where
  "decimal_from_atomic n =
     \<lparr>dec_negative = False, dec_coefficient = coefficient_of (decimal_digits n),
      dec_exponent = - int ATOMIC_SCALE\<rparr>"

definition rstrip_zeros :: "string \<Rightarrow> string" where
  "rstrip_zeros s = rev (dropWhile (\<lambda>c. c = CHR ''0'') (rev s))"

text \<open>\<open>fraction += "0" * (2 - len(fraction))\<close>.\<close>

definition pad_two :: "string \<Rightarrow> string" where
  "pad_two s = s @ replicate (2 - length s) CHR ''0''"

definition format_token_amount :: "amount_arg \<Rightarrow> bool \<Rightarrow> py_error + string" where
  "format_token_amount v allow_zero =
     and_then (reject_non_decimal v) (\<lambda>parsed.
     and_then (atomic_from_decimal parsed allow_zero) (\<lambda>atomic.
       if atomic = 0 \<or> dec_coefficient parsed = 0 then Inr ''0.00''
       else
         let rendered = format_f parsed;
             fraction = (if has_point rendered then rstrip_zeros (after_point rendered) else '''')
         in Inr (before_point rendered @ ''.'' @ pad_two fraction)))"

record price =
  price_usd :: string
  price_atomic :: string

definition price_terms :: "pyval \<Rightarrow> py_error + price" where
  "price_terms v =
     (case v of
        PStr s \<Rightarrow>
          and_then (reject_non_decimal (AmountStr s)) (\<lambda>parsed.
          and_then (atomic_from_decimal parsed False) (\<lambda>atomic.
          and_then (format_token_amount (AmountDecimal (Finite parsed)) False) (\<lambda>text.
            Inr \<lparr>price_usd = text, price_atomic = show_nat atomic\<rparr>)))
      | _ \<Rightarrow> Inl (ValueErr ''price_usd must be a decimal string''))"

definition canonical_atomic :: "pyval \<Rightarrow> py_error + nat" where
  "canonical_atomic v =
     and_then (case v of
         PInt i \<Rightarrow> Inr i
       | PStr s \<Rightarrow>
           if canonical_integer s then Inr (int (read_nat s))
           else Inl (ValueErr ''amount_atomic must be a canonical integer'')
       | PBool _ \<Rightarrow> Inl (ValueErr ''amount_atomic must be an integer'')
       | _ \<Rightarrow> Inl (ValueErr ''amount_atomic must be a canonical integer''))
     (\<lambda>atomic.
       if atomic \<le> 0 then Inl (ValueErr ''amount_atomic must be positive'')
       else if (case v of PStr s \<Rightarrow> show_int atomic \<noteq> s | _ \<Rightarrow> False)
       then Inl (ValueErr ''amount_atomic must be a canonical integer'')
       else Inr (nat atomic))"

definition atomic_price_terms :: "pyval \<Rightarrow> py_error + price" where
  "atomic_price_terms v =
     and_then (canonical_atomic v) (\<lambda>atomic.
     and_then (format_token_amount (AmountDecimal (Finite (decimal_from_atomic atomic))) False) (\<lambda>text.
       Inr \<lparr>price_usd = text, price_atomic = show_nat atomic\<rparr>))"

definition payment_terms :: "pyval \<Rightarrow> py_error + price" where
  "payment_terms payment =
     (case payment of
        PDict d \<Rightarrow>
          (case (map_of d ''price_usd'', map_of d ''amount_atomic'') of
             (Some usd, Some atomic) \<Rightarrow>
               and_then (price_terms usd) (\<lambda>decimal_terms.
               and_then (atomic_price_terms atomic) (\<lambda>atomic_terms.
                 if price_atomic decimal_terms \<noteq> price_atomic atomic_terms
                 then Inl (ValueErr ''price_usd and amount_atomic do not agree'')
                 else Inr decimal_terms))
           | _ \<Rightarrow> Inl (ValueErr ''payment terms require price_usd and amount_atomic''))
      | _ \<Rightarrow> Inl (ValueErr ''payment terms must be a mapping''))"

end
