(* ===== verification/Pricing_Exact.thy ===== *)
theory Pricing_Exact
  imports Service_Pricing
begin

text \<open>
  The two forms of a price agree: formatting depends only on the atomic amount
  (\<open>canonical_price\<close>), and reading a formatted price gives that amount back.
\<close>

section \<open>Digit strings\<close>

text \<open>The last \<open>k\<close> decimal digits of a number, with leading zeros.\<close>

fun low_digits :: "nat \<Rightarrow> nat \<Rightarrow> string" where
  "low_digits 0 n = []"
| "low_digits (Suc k) n = low_digits k (n div 10) @ [char_of (48 + n mod 10)]"

lemma char_48 [simp]: "char_of (48::nat) = CHR ''0''"
  by code_simp

lemma length_low_digits [simp]: "length (low_digits k n) = k"
  by (induction k arbitrary: n) auto

lemma low_digits_zero: "low_digits k 0 = replicate k CHR ''0''"
  by (induction k) (simp_all add: replicate_append_same)

lemma digit_char: "is_digit_char (char_of (48 + n mod (10::nat)))"
proof -
  have "48 + n mod 10 < 256" using mod_less_divisor [of 10 n] by linarith
  then show ?thesis using mod_less_divisor [of 10 n] by (simp add: is_digit_char_def less_Suc_eq_le)
qed

lemma low_digits_digits: "list_all is_digit_char (low_digits k n)"
  by (induction k arbitrary: n) (auto simp: digit_char)

lemma pad_left_snoc: "pad_left (Suc n) (s @ [c]) = pad_left n s @ [c]"
  by (simp add: pad_left_def)

lemma show_nat_small: "n < 10 \<Longrightarrow> show_nat n = [char_of (48 + n)]"
  by (simp add: show_nat.simps)

lemma show_nat_big: "10 \<le> n \<Longrightarrow> show_nat n = show_nat (n div 10) @ [char_of (48 + n mod 10)]"
  by (subst show_nat.simps) simp

lemma pad_left_show: "pad_left (Suc k) (show_nat n) = show_nat (n div 10 ^ k) @ low_digits k n"
proof (induction k arbitrary: n)
  case 0
  have "show_nat n \<noteq> []" using show_nat_digits [of n] by (simp add: is_digits_def)
  then show ?case by (simp add: pad_left_def Suc_le_eq)
next
  case (Suc k)
  show ?case
  proof (cases "n < 10")
    case True
    moreover have "(1::nat) \<le> 10 ^ k" by simp
    ultimately have "n < 10 ^ Suc k" unfolding power_Suc by linarith
    then have "n div 10 ^ Suc k = 0" by (rule div_less)
    moreover have "n div 10 = 0" using True by simp
    ultimately show ?thesis
      using True by (simp add: show_nat_small pad_left_def low_digits_zero)
  next
    case False
    then have "pad_left (Suc (Suc k)) (show_nat n) = pad_left (Suc k) (show_nat (n div 10)) @ [char_of (48 + n mod 10)]"
      using show_nat_big [of n] by (simp add: pad_left_snoc)
    also have "\<dots> = show_nat (n div 10 div 10 ^ k) @ low_digits (Suc k) n"
      by (simp add: Suc.IH)
    also have "n div 10 div 10 ^ k = n div 10 ^ Suc k"
      by (simp add: div_mult2_eq)
    finally show ?thesis .
  qed
qed

lemma show_nat_power: "0 < n \<Longrightarrow> show_nat (n * 10 ^ k) = show_nat n @ replicate k CHR ''0''"
proof (induction k)
  case (Suc k)
  have "1 \<le> n * 10 ^ k" using Suc.prems by (simp add: Suc_le_eq)
  then have "10 \<le> n * 10 ^ Suc k" by simp
  then have "show_nat (n * 10 ^ Suc k) = show_nat (n * 10 ^ k) @ [char_of (48 + (n * 10 ^ Suc k) mod 10)]"
    using show_nat_big [of "n * 10 ^ Suc k"] by simp
  also have "(n * 10 ^ Suc k) mod 10 = 0" by simp
  finally show ?case using Suc by (simp add: replicate_append_same)
qed simp

lemma low_digits_power: "low_digits (k + j) (n * 10 ^ j) = low_digits k n @ replicate j CHR ''0''"
proof (induction j)
  case (Suc j)
  have "low_digits (k + Suc j) (n * 10 ^ Suc j) = low_digits (k + j) (n * 10 ^ j) @ [char_of (48 + (n * 10 ^ Suc j) mod 10)]"
    by simp
  also have "(n * 10 ^ Suc j) mod 10 = 0" by simp
  finally show ?case using Suc by (simp add: replicate_append_same)
qed simp

lemma low_digits_mod: "low_digits k (n mod 10 ^ k) = low_digits k n"
proof (induction k arbitrary: n)
  case (Suc k)
  have "n mod 10 ^ Suc k div 10 = n div 10 mod 10 ^ k"
    by (simp add: mod_mult2_eq)
  moreover have "n mod 10 ^ Suc k mod 10 = n mod 10" by (simp add: mod_mod_cancel)
  ultimately show ?case using Suc [of "n div 10"] by simp
qed simp

lemma read_nat_append:
  "read_nat (s @ t) = read_nat s * 10 ^ length t + read_nat t"
proof (induction t rule: rev_induct)
  case (snoc c t)
  have "read_nat (s @ t @ [c]) = read_nat ((s @ t) @ [c])" by simp
  also have "\<dots> = 10 * read_nat (s @ t) + (ord c - 48)" by (rule read_nat_snoc)
  finally show ?case using snoc by (simp add: read_nat_snoc algebra_simps)
qed (simp add: read_nat_def)

lemma read_low_digits: "read_nat (low_digits k n) = n mod 10 ^ k"
proof (induction k arbitrary: n)
  case (Suc k)
  have "read_nat (low_digits (Suc k) n) = 10 * (n div 10 mod 10 ^ k) + n mod 10"
    by (simp add: read_nat_snoc Suc)
  also have "\<dots> = n mod 10 ^ Suc k" by (simp add: mod_mult2_eq)
  finally show ?case .
qed (simp add: read_nat_def)

lemma read_replicate_zero: "read_nat (replicate k CHR ''0'') = 0"
  using read_low_digits [of k 0] by (simp add: low_digits_zero)

section \<open>The canonical text of a price\<close>

definition canonical_price :: "nat \<Rightarrow> string" where
  "canonical_price a =
     show_nat (a div ATOMIC_FACTOR) @ ''.'' @ pad_two (rstrip_zeros (low_digits ATOMIC_SCALE a))"

lemma coefficient_digits [simp]: "coefficient_of (decimal_digits n) = n"
proof -
  have "foldl (\<lambda>a d. a * 10 + d) b (map (\<lambda>c. ord c - 48) s) = foldl (\<lambda>a c. 10 * a + (ord c - 48)) b s"
    for s b by (induction s arbitrary: b) (simp_all add: mult.commute)
  from this [of 0 "show_nat n"] show ?thesis
    using read_show_nat [of n] by (simp add: coefficient_of_def decimal_digits_def read_nat_def)
qed

lemma no_point_digits: "list_all is_digit_char s \<Longrightarrow> CHR ''.'' \<notin> set s"
  by (auto simp: list_all_iff is_digit_char_def)

lemma point_split:
  assumes "list_all is_digit_char s"
  shows "before_point (s @ CHR ''.'' # t) = s" "after_point (s @ CHR ''.'' # t) = t" "has_point (s @ CHR ''.'' # t)"
    "before_point s = s" "\<not> has_point s" "after_point s = []"
proof -
  have "\<forall>c \<in> set s. c \<noteq> CHR ''.''" using no_point_digits [OF assms] by blast
  then show "before_point (s @ CHR ''.'' # t) = s" "after_point (s @ CHR ''.'' # t) = t" "before_point s = s"
    by (simp_all add: before_point_def after_point_def takeWhile_append2 dropWhile_append2
        takeWhile_eq_all_conv)
  have "dropWhile (\<lambda>c. c \<noteq> CHR ''.'') s = []" using \<open>\<forall>c \<in> set s. c \<noteq> CHR ''.''\<close> by simp
  then show "after_point s = []" unfolding after_point_def by (simp only: drop_Nil)
  show "has_point (s @ CHR ''.'' # t)" "\<not> has_point s"
    using no_point_digits [OF assms] by (simp_all add: has_point_def)
qed

lemma show_nat_all_digits [simp]: "list_all is_digit_char (show_nat n)"
  using show_nat_digits by (simp add: is_digits_def)

lemma rstrip_zeros_append: "rstrip_zeros (s @ replicate k CHR ''0'') = rstrip_zeros s"
proof -
  have "dropWhile (\<lambda>c. c = CHR ''0'') (replicate k CHR ''0'' @ t) = dropWhile (\<lambda>c. c = CHR ''0'') t" for t
    by (induction k) simp_all
  then show ?thesis by (simp add: rstrip_zeros_def)
qed

lemma rstrip_all_zeros: "rstrip_zeros (replicate k CHR ''0'') = []"
  by (simp add: rstrip_zeros_def)

text \<open>The text of a positive amount depends on the amount alone.\<close>

lemma format_canonical:
  assumes "atomic_from_decimal d z = Inr a" "0 < a" "\<not> dec_negative d"
  shows "format_token_amount (AmountDecimal (Finite d)) z = Inr (canonical_price a)"
proof -
  let ?c = "dec_coefficient d" and ?e = "dec_exponent d"
  have c: "0 < ?c"
    using assms(1,2) by (auto simp: atomic_from_decimal_def Let_def and_then_eq_Inr split: if_splits)
  have "before_point (format_f d) @ ''.'' @
      pad_two (if has_point (format_f d) then rstrip_zeros (after_point (format_f d)) else '''') = canonical_price a"
  proof (cases "0 \<le> ?e")
    case True
    have a: "a = ?c * 10 ^ nat ?e * ATOMIC_FACTOR"
      using assms(1) True by (auto simp: atomic_from_decimal_def Let_def and_then_eq_Inr split: if_splits)
    have f: "format_f d = show_nat (?c * 10 ^ nat ?e)"
      using True assms(3) c by (simp add: format_f_def show_nat_power)
    have "low_digits ATOMIC_SCALE a = replicate ATOMIC_SCALE CHR ''0''"
      using low_digits_power [of 0 ATOMIC_SCALE "?c * 10 ^ nat ?e"] by (simp add: a ATOMIC_FACTOR_def)
    then show ?thesis
      by (simp add: f point_split canonical_price_def rstrip_all_zeros a ATOMIC_FACTOR_def)
  next
    case False
    define k where "k = nat (- ?e)"
    have k: "k \<le> ATOMIC_SCALE" "a = ?c * 10 ^ (ATOMIC_SCALE - k)"
      using assms(1) False
      by (auto simp: atomic_from_decimal_def Let_def and_then_eq_Inr k_def split: if_splits)
    have f: "format_f d = show_nat (?c div 10 ^ k) @ ''.'' @ low_digits k ?c"
      using False assms(3)
      by (simp add: format_f_def Let_def k_def [symmetric] pad_left_show)
    have six: "ATOMIC_SCALE = k + (ATOMIC_SCALE - k)" using k(1) by simp
    have "(10::nat) ^ ATOMIC_SCALE = 10 ^ k * 10 ^ (ATOMIC_SCALE - k)"
      by (subst six, subst power_add) simp
    then have "a div ATOMIC_FACTOR = ?c div 10 ^ k"
      by (simp add: k(2) ATOMIC_FACTOR_def)
    moreover have "rstrip_zeros (low_digits ATOMIC_SCALE a) = rstrip_zeros (low_digits k ?c)"
      using low_digits_power [of k "ATOMIC_SCALE - k" ?c] six k(2) by (metis rstrip_zeros_append)
    ultimately show ?thesis
      by (simp add: f point_split canonical_price_def)
  qed
  then show ?thesis
    using assms c by (simp add: format_token_amount_def reject_non_decimal_def Let_def)
qed

lemma price_termsD:
  assumes "price_terms v = Inr t"
  obtains s a where "v = PStr s" "fixed_point s" "0 < a"
    "atomic_from_decimal (decimal_of_fixed s) False = Inr a"
    "t = \<lparr>price_usd = canonical_price a, price_atomic = show_nat a\<rparr>"
proof -
  from assms obtain s where s: "v = PStr s" by (cases v) (auto simp: price_terms_def)
  with assms obtain a where a: "fixed_point s" "atomic_from_decimal (decimal_of_fixed s) False = Inr a"
    and t: "and_then (format_token_amount (AmountDecimal (Finite (decimal_of_fixed s))) False)
      (\<lambda>text. Inr \<lparr>price_usd = text, price_atomic = show_nat a\<rparr>) = Inr t"
    by (auto simp: price_terms_def reject_non_decimal_def and_then_eq_Inr decimal_of_fixed_def split: if_splits)
  have pos: "0 < a" using a(2) by (auto simp: atomic_from_decimal_def and_then_eq_Inr Let_def split: if_splits)
  have "t = \<lparr>price_usd = canonical_price a, price_atomic = show_nat a\<rparr>"
    using t format_canonical [OF a(2) pos] by (simp add: decimal_of_fixed_def)
  with s a pos that show ?thesis by blast
qed

lemma show_int_nat: "0 \<le> i \<Longrightarrow> show_int i = show_nat (nat i)"
  by (simp add: show_int_def)

lemma show_nat_canonical:
  assumes "0 < n" shows "canonical_integer (show_nat n)"
proof -
  have "hd (show_nat n) \<noteq> CHR ''0''" using assms
  proof (induction n rule: less_induct)
    case (less n)
    show ?case
    proof (cases "n < 10")
      case True
      then have "ord (char_of (48 + n)) \<noteq> ord CHR ''0''" using less.prems by simp
      then show ?thesis using True by (metis list.sel(1) show_nat_small)
    next
      case False
      then have "hd (show_nat (n div 10)) \<noteq> CHR ''0''" using less.IH [of "n div 10"] by simp
      moreover have "show_nat (n div 10) \<noteq> []" using show_nat_digits by (simp add: is_digits_def)
      ultimately show ?thesis using show_nat_big [of n] False by simp
    qed
  qed
  then show ?thesis using show_nat_digits by (simp add: canonical_integer_def is_positive_decimal_def)
qed

lemma canonical_atomic_pos:
  assumes "0 < n"
  shows "canonical_atomic (PInt (int n)) = Inr n" "canonical_atomic (PStr (show_nat n)) = Inr n"
  using assms show_nat_canonical [OF assms] by (simp_all add: canonical_atomic_def show_int_nat)

lemma atomic_price_pos:
  assumes "canonical_atomic v = Inr n"
  shows "atomic_price_terms v = Inr \<lparr>price_usd = canonical_price n, price_atomic = show_nat n\<rparr>" "0 < n"
proof -
  show n: "0 < n" using assms by (auto simp: canonical_atomic_def and_then_eq_Inr split: if_splits)
  have "atomic_from_decimal (decimal_from_atomic n) False = Inr n"
    using n by (simp add: atomic_from_decimal_def decimal_from_atomic_def ATOMIC_SCALE_def)
  from format_canonical [OF this n] assms
  show "atomic_price_terms v = Inr \<lparr>price_usd = canonical_price n, price_atomic = show_nat n\<rparr>"
    by (simp add: atomic_price_terms_def decimal_from_atomic_def)
qed

section \<open>Reading a price back\<close>

lemma takeWhile_zeros:
  "takeWhile (\<lambda>c. c = z) xs = replicate (length (takeWhile (\<lambda>c. c = z) xs)) z"
  by (induction xs) simp_all

lemma pad_two_rstrip:
  assumes "length s = ATOMIC_SCALE" "list_all is_digit_char s"
  obtains j where "s = pad_two (rstrip_zeros s) @ replicate j CHR ''0''"
proof -
  have split: "s = rstrip_zeros s @ replicate (length s - length (rstrip_zeros s)) CHR ''0''" for s
  proof -
    have "rev s = takeWhile (\<lambda>c. c = CHR ''0'') (rev s) @ dropWhile (\<lambda>c. c = CHR ''0'') (rev s)" by simp
    moreover have "takeWhile (\<lambda>c. c = CHR ''0'') (rev s) = replicate (length s - length (rstrip_zeros s)) CHR ''0''"
    proof -
      have "length (rev s) = length (takeWhile (\<lambda>c. c = CHR ''0'') (rev s)) + length (rstrip_zeros s)"
        unfolding rstrip_zeros_def length_rev [of "dropWhile _ _"] by (subst calculation) (simp only: length_append)
      then have "length (takeWhile (\<lambda>c. c = CHR ''0'') (rev s)) = length s - length (rstrip_zeros s)"
        by simp
      then show ?thesis using takeWhile_zeros [of "CHR ''0''" "rev s"] by simp
    qed
    ultimately have "rev s = replicate (length s - length (rstrip_zeros s)) CHR ''0'' @ rev (rstrip_zeros s)"
      by (simp add: rstrip_zeros_def)
    then show ?thesis by (metis rev_append rev_replicate rev_rev_ident)
  qed
  let ?r = "rstrip_zeros s"
  have "length ?r \<le> 6" using split [of s] assms(1) by (metis ATOMIC_SCALE_def le_add1 length_append)
  have "replicate (6 - length ?r) CHR ''0'' = replicate (2 - length ?r) CHR ''0'' @ replicate (6 - length ?r - (2 - length ?r)) CHR ''0''"
    by (simp flip: replicate_add)
  then have "s = pad_two ?r @ replicate (6 - length ?r - (2 - length ?r)) CHR ''0''"
    using split [of s] assms(1) by (simp add: pad_two_def ATOMIC_SCALE_def)
  then show ?thesis using that by blast
qed

lemma canonical_price_reads:
  "fixed_point (canonical_price a)"
  "0 < a \<Longrightarrow> atomic_from_decimal (decimal_of_fixed (canonical_price a)) False = Inr a"
proof -
  define f where "f = pad_two (rstrip_zeros (low_digits ATOMIC_SCALE a))"
  obtain j where j: "low_digits ATOMIC_SCALE a = f @ replicate j CHR ''0''"
    using pad_two_rstrip [of "low_digits ATOMIC_SCALE a"] low_digits_digits by (auto simp: f_def)
  have len: "length f + j = ATOMIC_SCALE" using arg_cong [OF j, of length] by simp
  have "list_all is_digit_char (f @ replicate j CHR ''0'')" using low_digits_digits by (simp flip: j)
  then have digits: "list_all is_digit_char f" by simp
  have "2 \<le> length f" by (simp add: f_def pad_two_def)
  then have "f \<noteq> []" by auto
  have c: "canonical_price a = show_nat (a div ATOMIC_FACTOR) @ ''.'' @ f"
    by (simp add: canonical_price_def f_def)
  show "fixed_point (canonical_price a)"
    unfolding c fixed_point_def using digits \<open>f \<noteq> []\<close>
    by (simp add: point_split is_digits_def) (use show_nat_digits in \<open>simp add: is_digits_def\<close>)
  have "read_nat (show_nat (a div ATOMIC_FACTOR) @ f) * 10 ^ j
      = a div ATOMIC_FACTOR * 10 ^ (length f + j) + read_nat (f @ replicate j CHR ''0'')"
    by (simp add: read_nat_append read_replicate_zero power_add algebra_simps)
  also have "read_nat (f @ replicate j CHR ''0'') = a mod ATOMIC_FACTOR"
    using read_low_digits [of ATOMIC_SCALE a] by (simp add: j ATOMIC_FACTOR_def)
  finally have v: "read_nat (show_nat (a div ATOMIC_FACTOR) @ f) * 10 ^ j = a"
    by (simp only: len ATOMIC_FACTOR_def div_mult_mod_eq)
  have j': "ATOMIC_SCALE - length f = j" "length f \<le> ATOMIC_SCALE" using len by simp_all
  show "atomic_from_decimal (decimal_of_fixed (canonical_price a)) False = Inr a" if "0 < a"
  proof -
    have "0 < read_nat (show_nat (a div ATOMIC_FACTOR) @ f)"
      using v that by (metis bot_nat_0.not_eq_extremum mult_is_0)
    then show ?thesis
      unfolding c using v j' \<open>f \<noteq> []\<close>
      by (simp add: atomic_from_decimal_def decimal_of_fixed_def point_split Let_def)
  qed
qed

lemma price_terms_fixed:
  assumes "fixed_point s" "atomic_from_decimal (decimal_of_fixed s) False = Inr a" "0 < a"
  shows "price_terms (PStr s) = Inr \<lparr>price_usd = canonical_price a, price_atomic = show_nat a\<rparr>"
  using assms format_canonical [OF assms(2,3)]
  by (simp add: price_terms_def reject_non_decimal_def decimal_of_fixed_def)

lemma price_terms_canonical:
  assumes "0 < a"
  shows "price_terms (PStr (canonical_price a)) = Inr \<lparr>price_usd = canonical_price a, price_atomic = show_nat a\<rparr>"
  using canonical_price_reads assms by (intro price_terms_fixed)

end
