(* ===== verification/Risk_Policy.thy ===== *)
theory Risk_Policy
  imports Py_Values
begin

text \<open>
  The risk decision (\<open>policy_service/risk_policy.py\<close>) on a provider's assessment
  (\<open>risk_provider.py\<close>). The assessment's fields are untyped where the code checks their
  type: a field that must be a tuple is one, or is something else.
\<close>

datatype tuple_field = Tuple "pyval list" | NotTuple

record risk_result =
  risk_provider :: string
  risk_endpoint :: string
  risk_subject :: string
  risk_network :: string
  risk_asset :: string
  risk_coin :: string
  risk_score :: pyval
  risk_level :: pyval
  risk_indicators :: tuple_field
  risk_details :: tuple_field
  hacking_event :: pyval
  risk_assessed_at :: int
  risk_expires_at :: int
  response_sha256 :: string
  risk_cache_hit :: bool

datatype risk_verdict = Allow | Hold | Deny | Unavailable

record risk_decision =
  verdict :: risk_verdict
  mapping_version :: string
  reasons :: "string list"

definition RISK_MAPPING_VERSION :: string where
  "RISK_MAPPING_VERSION = ''misttrack-policy-v1''"

text \<open>The score range of a level: its first score, and the first one above it.\<close>

definition LEVEL_SCORE_RANGES :: "(string \<times> int \<times> int) list" where
  "LEVEL_SCORE_RANGES =
     [(''low'', 0, 31), (''moderate'', 31, 71), (''high'', 71, 91), (''severe'', 91, 101)]"

definition DIRECT_HARD_RISK_TYPES :: "string list" where
  "DIRECT_HARD_RISK_TYPES =
     [''sanctioned_entity'', ''illicit_activity'', ''malicious_address'', ''mixer'']"

definition HARD_RISK_INDICATORS :: "string list" where
  "HARD_RISK_INDICATORS =
     [''malicious address'', ''sanctioned entity'', ''mixer'', ''involved theft activity'',
      ''involved ransom activity'', ''involved phishing activity'', ''involved illicit activity'']"

definition decided :: "risk_verdict \<Rightarrow> string \<Rightarrow> risk_decision" where
  "decided v reason =
     \<lparr>verdict = v, mapping_version = RISK_MAPPING_VERSION, reasons = [reason]\<rparr>"

fun is_py_str :: "pyval \<Rightarrow> bool" where
  "is_py_str (PStr _) = True"
| "is_py_str _ = False"

text \<open>Truth of a value in an \<open>if\<close>.\<close>

fun truthy :: "pyval \<Rightarrow> bool" where
  "truthy PNone = False"
| "truthy (PBool b) = b"
| "truthy (PInt i) = (i \<noteq> 0)"
| "truthy (PStr s) = (s \<noteq> '''')"
| "truthy (PList xs) = (xs \<noteq> [])"
| "truthy (PDict d) = (d \<noteq> [])"

definition valid_detail_fields :: "pydict \<Rightarrow> bool" where
  "valid_detail_fields d =
     list_all (\<lambda>f. case map_of d f of None \<Rightarrow> True | Some v \<Rightarrow> is_py_str v) [''risk_type'', ''exposure_type'']"

definition valid_risk_collections :: "risk_result \<Rightarrow> bool" where
  "valid_risk_collections r \<longleftrightarrow>
     (case risk_details r of
        Tuple ds \<Rightarrow> list_all (\<lambda>v. case v of PDict d \<Rightarrow> valid_detail_fields d | _ \<Rightarrow> False) ds
      | NotTuple \<Rightarrow> False) \<and>
     (case risk_indicators r of Tuple xs \<Rightarrow> list_all is_py_str xs | NotTuple \<Rightarrow> False) \<and>
     is_py_str (risk_level r)"

definition items_of :: "tuple_field \<Rightarrow> pyval list" where
  "items_of f = (case f of Tuple xs \<Rightarrow> xs | NotTuple \<Rightarrow> [])"

definition is_direct_hard :: "pyval \<Rightarrow> bool" where
  "is_direct_hard v \<longleftrightarrow>
     (case v of
        PDict d \<Rightarrow> dget d ''exposure_type'' = PStr ''direct''
          \<and> dget d ''risk_type'' \<in> PStr ` set DIRECT_HARD_RISK_TYPES
      | _ \<Rightarrow> False)"

definition direct_hard_risk :: "risk_result \<Rightarrow> bool" where
  "direct_hard_risk r = list_ex is_direct_hard (items_of (risk_details r))"

fun lowered :: "pyval \<Rightarrow> string" where
  "lowered (PStr s) = lower s"
| "lowered _ = ''''"

definition hard_risk_indicator :: "risk_result \<Rightarrow> string option" where
  "hard_risk_indicator r =
     find (\<lambda>s. s \<in> set HARD_RISK_INDICATORS) (map lowered (items_of (risk_indicators r)))"

definition unknown_indicator :: "risk_result \<Rightarrow> bool" where
  "unknown_indicator r =
     list_ex (\<lambda>v. truthy v \<and> lowered v \<notin> set HARD_RISK_INDICATORS) (items_of (risk_indicators r))"

definition consistent_score_and_level :: "pyval \<Rightarrow> pyval \<Rightarrow> bool" where
  "consistent_score_and_level score level \<longleftrightarrow>
     (case (score, level) of
        (PInt i, PStr l) \<Rightarrow>
          (case map_of LEVEL_SCORE_RANGES l of Some (lo, hi) \<Rightarrow> lo \<le> i \<and> i < hi | None \<Rightarrow> False)
      | _ \<Rightarrow> False)"

definition score_verdict :: "int \<Rightarrow> int \<Rightarrow> int \<Rightarrow> risk_verdict" where
  "score_verdict score hold_score deny_score =
     (if deny_score \<le> score then Deny else if hold_score \<le> score then Hold else Allow)"

fun int_value :: "pyval \<Rightarrow> int" where
  "int_value (PInt i) = i"
| "int_value _ = 0"

definition map_risk_result :: "int \<Rightarrow> int \<Rightarrow> risk_result \<Rightarrow> risk_decision" where
  "map_risk_result hold_score deny_score r =
     (if \<not> valid_risk_collections r then decided Unavailable ''malformed_risk_result''
      else if direct_hard_risk r then decided Deny ''direct_hard_risk''
      else case hard_risk_indicator r of
        Some indicator \<Rightarrow> decided Deny (''hard_risk_indicator:'' @ indicator)
      | None \<Rightarrow>
          if \<not> consistent_score_and_level (risk_score r) (risk_level r)
          then decided Unavailable ''inconsistent_score_and_risk_level''
          else
            let v = score_verdict (int_value (risk_score r)) hold_score deny_score in
            if truthy (hacking_event r) \<and> v \<noteq> Deny then decided Hold ''hacking_event_present''
            else if items_of (risk_details r) \<noteq> [] \<and> v \<noteq> Deny
            then decided Hold ''risk_detail_present''
            else if unknown_indicator r \<and> v \<noteq> Deny
            then decided Hold ''unknown_indicator_present''
            else decided v (''score:'' @ show_int (int_value (risk_score r))))"

section \<open>What the decision depends on\<close>

text \<open>The severity order of the decisions; an unusable assessment has none.\<close>

fun severity :: "risk_verdict \<Rightarrow> nat option" where
  "severity Allow = Some 0"
| "severity Hold = Some 1"
| "severity Deny = Some 2"
| "severity Unavailable = None"

lemma verdict_decided [simp]: "verdict (decided v reason) = v"
  by (simp add: decided_def)

lemma score_verdict_available [simp]: "score_verdict s h d \<noteq> Unavailable"
  by (simp add: score_verdict_def)

lemma score_verdict_Allow:
  "score_verdict s h d = Allow \<longleftrightarrow> s < h \<and> s < d"
  by (auto simp: score_verdict_def)

lemma hard_indicator_None:
  "hard_risk_indicator r = None \<longleftrightarrow>
     (\<forall>v \<in> set (items_of (risk_indicators r)). lowered v \<notin> set HARD_RISK_INDICATORS)"
  by (auto simp: hard_risk_indicator_def find_None_iff)

lemma verdict_eq:
  "verdict (map_risk_result h d r) =
     (if \<not> valid_risk_collections r then Unavailable
      else if direct_hard_risk r \<or> hard_risk_indicator r \<noteq> None then Deny
      else if \<not> consistent_score_and_level (risk_score r) (risk_level r) then Unavailable
      else if score_verdict (int_value (risk_score r)) h d = Allow
        \<and> (truthy (hacking_event r) \<or> items_of (risk_details r) \<noteq> [] \<or> unknown_indicator r)
      then Hold else score_verdict (int_value (risk_score r)) h d)"
  by (cases "score_verdict (int_value (risk_score r)) h d"; cases "hard_risk_indicator r")
    (simp_all add: map_risk_result_def Let_def)

lemma no_unknown_indicator:
  assumes "hard_risk_indicator r = None"
  shows "\<not> unknown_indicator r \<longleftrightarrow> (\<forall>v \<in> set (items_of (risk_indicators r)). \<not> truthy v)"
  using assms by (auto simp: unknown_indicator_def hard_indicator_None list_ex_iff)

lemma score_verdict_mono:
  "s \<le> t \<Longrightarrow> the (severity (score_verdict s h d)) \<le> the (severity (score_verdict t h d))"
  by (auto simp: score_verdict_def)

end
