(* ===== verification/Risk_Cache.thy ===== *)
theory Risk_Cache
  imports Risk_Policy
begin

text \<open>
  The in-process risk cache (\<open>InMemoryRiskCache\<close> of \<open>policy_service/risk_cache.py\<close>): an
  ordered dictionary, oldest entry first, of results with an expiry instant. A lookup moves its
  entry to the end, and a full cache drops the entry at the front. One call holds the lock, so
  calls run one after the other; \<open>now\<close> is what the clock returned in the call.
\<close>

section \<open>Operations\<close>

type_synonym risk_key = "string \<times> string \<times> string \<times> string"

text \<open>An entry: its key, the expiry, and the result.\<close>

type_synonym cache_entry = "risk_key \<times> int \<times> risk_result"

definition MICROS_PER_SECOND :: int where
  "MICROS_PER_SECOND = 1000000"

definition valid_capacity :: "int \<Rightarrow> bool" where
  "valid_capacity n \<longleftrightarrow> 0 < n"

definition expired_at :: "int \<Rightarrow> cache_entry \<Rightarrow> bool" where
  "expired_at now e \<longleftrightarrow> (case e of (k, expires, r) \<Rightarrow> expires \<le> now \<or> risk_expires_at r \<le> now)"

definition sweep_expired :: "int \<Rightarrow> cache_entry list \<Rightarrow> cache_entry list" where
  "sweep_expired now es = filter (\<lambda>e. \<not> expired_at now e) es"

definition drop_key :: "risk_key \<Rightarrow> cache_entry list \<Rightarrow> cache_entry list" where
  "drop_key k es = filter (\<lambda>e. fst e \<noteq> k) es"

definition cache_get :: "risk_key \<Rightarrow> int \<Rightarrow> cache_entry list \<Rightarrow> cache_entry list \<times> risk_result option" where
  "cache_get k now es =
     (let live = sweep_expired now es in
      case map_of live k of
        None \<Rightarrow> (live, None)
      | Some (expires, r) \<Rightarrow> (drop_key k live @ [(k, expires, r)], Some r))"

text \<open>\<open>popitem(last=False)\<close> drops the first entry.\<close>

definition cache_set ::
  "nat \<Rightarrow> risk_key \<Rightarrow> risk_result \<Rightarrow> int \<Rightarrow> int \<Rightarrow> cache_entry list \<Rightarrow> py_error + cache_entry list" where
  "cache_set capacity k r ttl_seconds now es =
     (if ttl_seconds \<le> 0 then Inl (ValueErr ''cache TTL must be a positive integer'')
      else
        let expires = min (risk_expires_at r) (now + ttl_seconds * MICROS_PER_SECOND);
            live = drop_key k (sweep_expired now es)
        in if expires \<le> now then Inr live
           else Inr ((if capacity \<le> length live then drop 1 live else live) @ [(k, expires, r)]))"

section \<open>Calls\<close>

datatype cache_call = CacheGet risk_key int | CacheSet risk_key risk_result int int

fun call_key :: "cache_call \<Rightarrow> risk_key" where
  "call_key (CacheGet k _) = k"
| "call_key (CacheSet k _ _ _) = k"

fun call_time :: "cache_call \<Rightarrow> int" where
  "call_time (CacheGet _ now) = now"
| "call_time (CacheSet _ _ _ now) = now"

text \<open>The entries after a call; a call that raises leaves them as they were.\<close>

fun run_cache :: "nat \<Rightarrow> cache_call \<Rightarrow> cache_entry list \<Rightarrow> cache_entry list" where
  "run_cache capacity (CacheGet k now) es = fst (cache_get k now es)"
| "run_cache capacity (CacheSet k r ttl now) es =
     (case cache_set capacity k r ttl now es of Inl _ \<Rightarrow> es | Inr es' \<Rightarrow> es')"

definition run_caches :: "nat \<Rightarrow> cache_call list \<Rightarrow> cache_entry list \<Rightarrow> cache_entry list" where
  "run_caches capacity calls es = foldl (\<lambda>es c. run_cache capacity c es) es calls"

section \<open>What the cache keeps\<close>

definition cache_ok :: "nat \<Rightarrow> cache_entry list \<Rightarrow> bool" where
  "cache_ok capacity es \<longleftrightarrow>
     distinct (map fst es) \<and> length es \<le> capacity \<and>
     list_all (\<lambda>(k, expires, r). expires \<le> risk_expires_at r) es"

inductive cache_step :: "nat \<Rightarrow> cache_entry list \<Rightarrow> cache_entry list \<Rightarrow> bool" for capacity where
  "es' = run_cache capacity c es \<Longrightarrow> cache_step capacity es es'"

lemma distinct_filter_keys: "distinct (map fst es) \<Longrightarrow> distinct (map fst (filter P es))"
  by (rule distinct_map_filter)

lemma length_drop_key_in:
  assumes "k \<in> fst ` set es"
  shows "length (drop_key k es) < length es"
proof -
  obtain e where "e \<in> set es" "fst e = k" using assms by blast
  then show ?thesis unfolding drop_key_def by (intro length_filter_less) auto
qed

lemma cache_ok_filter: "cache_ok n es \<Longrightarrow> cache_ok n (filter P es)"
  unfolding cache_ok_def
  by (auto simp: distinct_filter_keys list_all_iff intro: order_trans [OF length_filter_le])

lemma cache_ok_get: "cache_ok n es \<Longrightarrow> cache_ok n (fst (cache_get k now es))"
proof -
  assume ok: "cache_ok n es"
  define live where "live = sweep_expired now es"
  have live: "cache_ok n live" using cache_ok_filter [OF ok] by (simp add: live_def sweep_expired_def)
  show ?thesis
  proof (cases "map_of live k")
    case None
    then show ?thesis using live by (simp add: cache_get_def live_def [symmetric])
  next
    case (Some er)
    obtain expires r where er: "er = (expires, r)" by force
    have m: "(k, expires, r) \<in> set live" using Some by (simp add: er map_of_SomeD)
    then have "length (drop_key k live) < length live"
      using live by (intro length_drop_key_in) (auto simp: cache_ok_def image_iff intro: bexI [of _ "(k, expires, r)"])
    then have "cache_ok n (drop_key k live @ [(k, expires, r)])"
      using live cache_ok_filter [OF live, of "\<lambda>e. fst e \<noteq> k"] m
      by (auto simp: cache_ok_def drop_key_def list_all_iff)
    then show ?thesis using Some er by (simp add: cache_get_def live_def [symmetric])
  qed
qed

lemma cache_ok_set:
  assumes ok: "cache_ok n es" "0 < n" and s: "cache_set n k r ttl now es = Inr es'"
  shows "cache_ok n es'"
proof -
  define live where "live = drop_key k (sweep_expired now es)"
  have live: "cache_ok n live" "k \<notin> fst ` set live"
    using cache_ok_filter [OF cache_ok_filter [OF ok(1)]]
    by (auto simp: live_def drop_key_def sweep_expired_def)
  have e: "es' = live \<or> (\<exists>e. e \<le> risk_expires_at r \<and>
      es' = (if n \<le> length live then drop 1 live else live) @ [(k, e, r)])"
    using s by (auto simp: cache_set_def Let_def live_def [symmetric] min_def split: if_splits)
  show ?thesis
  proof (cases "es' = live")
    case False
    with e obtain e where e: "e \<le> risk_expires_at r"
      "es' = (if n \<le> length live then drop 1 live else live) @ [(k, e, r)]" by blast
    have "k \<notin> fst ` set (drop 1 live)" using live(2) by (auto dest: in_set_dropD)
    moreover have "distinct (map fst (drop 1 live))"
      using live(1) by (simp add: cache_ok_def drop_map [symmetric])
    moreover have "list_all P (drop 1 live)" if "list_all P live" for P
      using that by (auto simp: list_all_iff dest: in_set_dropD)
    ultimately show ?thesis
      using live e ok(2) by (auto simp: cache_ok_def)
  qed (simp add: live)
qed

interpretation risk_cache: invariant_system "\<lambda>es. es = []" "cache_step capacity"
  "\<lambda>es. cache_ok capacity es \<or> capacity = 0" for capacity
proof
  show "es = [] \<Longrightarrow> cache_ok capacity es \<or> capacity = 0" for es by (simp add: cache_ok_def)
  show "cache_ok capacity es' \<or> capacity = 0"
    if "cache_step capacity es es'" "cache_ok capacity es \<or> capacity = 0" for es es'
    using that(1)
  proof cases
    case (1 c)
    then show ?thesis
      using that(2) cache_ok_get cache_ok_set
      by (cases c) (auto split: sum.splits)
  qed
qed

section \<open>The entry of a recent key stays\<close>

text \<open>
  An entry is safe while the keys used since are fewer than the capacity: everything behind it
  in the order is one of them.
\<close>

definition holds :: "risk_key \<Rightarrow> int \<Rightarrow> risk_result \<Rightarrow> risk_key set \<Rightarrow> cache_entry list \<Rightarrow> bool" where
  "holds k expires r used es \<longleftrightarrow>
     (\<exists>older newer. es = older @ (k, expires, r) # newer \<and> fst ` set newer \<subseteq> used) \<and>
     distinct (map fst es)"

lemma holdsI:
  "distinct (map fst (older @ (k, expires, r) # newer)) \<Longrightarrow> fst ` set newer \<subseteq> used \<Longrightarrow>
     holds k expires r used (older @ (k, expires, r) # newer)"
  unfolding holds_def by blast

lemma holds_lookup: "holds k expires r used es \<Longrightarrow> map_of es k = Some (expires, r)"
  by (auto simp: holds_def map_of_eq_Some_iff)

lemma holds_filter:
  assumes "holds k expires r used es" "P (k, expires, r)"
  shows "holds k expires r used (filter P es)"
proof -
  obtain older newer where "es = older @ (k, expires, r) # newer" "fst ` set newer \<subseteq> used"
    using assms(1) by (auto simp: holds_def)
  then have "filter P es = filter P older @ (k, expires, r) # filter P newer" "fst ` set (filter P newer) \<subseteq> used"
    using assms(2) by auto
  moreover have "distinct (map fst (filter P es))"
    using assms(1) by (simp add: holds_def distinct_filter_keys)
  ultimately show ?thesis unfolding holds_def by blast
qed

lemma holds_mono: "holds k expires r used es \<Longrightarrow> used \<subseteq> used' \<Longrightarrow> holds k expires r used' es"
  unfolding holds_def by blast

lemma holds_snoc:
  assumes "holds k expires r used es" "k2 \<notin> fst ` set es" "k2 \<in> used"
  shows "holds k expires r used (es @ [(k2, e2, r2)])"
proof -
  obtain older newer where "es = older @ (k, expires, r) # newer" "fst ` set newer \<subseteq> used"
    using assms(1) by (auto simp: holds_def)
  then have "es @ [(k2, e2, r2)] = older @ (k, expires, r) # (newer @ [(k2, e2, r2)])"
    "fst ` set (newer @ [(k2, e2, r2)]) \<subseteq> used"
    using assms(3) by auto
  moreover have "distinct (map fst (es @ [(k2, e2, r2)]))"
    using assms(1,2) by (simp add: holds_def)
  ultimately show ?thesis unfolding holds_def by blast
qed

text \<open>A full cache drops an older entry, for the entries behind the one held are too few.\<close>

lemma holds_drop:
  assumes h: "holds k expires r (used - {k2}) es" and used: "finite used" "card used < n" "k2 \<in> used"
    and full: "n \<le> length es"
  shows "holds k expires r (used - {k2}) (drop 1 es)"
proof -
  obtain older newer where es: "es = older @ (k, expires, r) # newer" "fst ` set newer \<subseteq> used - {k2}"
    using h by (auto simp: holds_def)
  have d: "distinct (map fst es)" using h by (simp add: holds_def)
  show ?thesis
  proof (cases older)
    case Nil
    have "length newer = card (fst ` set newer)"
      using d es(1) distinct_card [of "map fst newer"] by simp
    also have "\<dots> \<le> card (used - {k2})" using used(1) es(2) by (intro card_mono) auto
    also have "\<dots> < card used" using used by (intro card_Diff1_less)
    finally show ?thesis using used(2) full es Nil by simp
  next
    case (Cons x xs)
    then have "drop 1 es = xs @ (k, expires, r) # newer" using es by simp
    moreover have "distinct (map fst (drop 1 es))" using d by (simp add: drop_map [symmetric])
    ultimately show ?thesis using es(2) unfolding holds_def by blast
  qed
qed

lemma holds_unused:
  assumes "holds k expires r used es" "k2 \<notin> fst ` set es"
  shows "holds k expires r (used - {k2}) es"
proof -
  obtain older newer where es: "es = older @ (k, expires, r) # newer" "fst ` set newer \<subseteq> used"
    "distinct (map fst es)"
    using assms(1) unfolding holds_def by blast
  have "fst ` set newer \<subseteq> used - {k2}" using es(1,2) assms(2) by auto
  then show ?thesis using holdsI es by metis
qed

lemma holds_set_other:
  assumes h: "holds k expires r used es" and k2: "k2 \<noteq> k" "k2 \<in> used"
    and used: "finite used" "card used < n" and fresh: "\<not> expired_at now (k, expires, r)"
    and s: "cache_set n k2 r2 ttl now es = Inr es'"
  shows "holds k expires r used es'"
proof -
  define live where "live = drop_key k2 (sweep_expired now es)"
  have "holds k expires r used live"
    unfolding live_def drop_key_def sweep_expired_def using h fresh k2 by (intro holds_filter) auto
  moreover have out: "k2 \<notin> fst ` set live" by (auto simp: live_def drop_key_def)
  ultimately have live: "holds k expires r (used - {k2}) live" by (rule holds_unused)
  have "holds k expires r (used - {k2}) (if n \<le> length live then drop 1 live else live)"
    using live holds_drop [OF live used k2(2)] by simp
  then have "holds k expires r used ((if n \<le> length live then drop 1 live else live) @ [(k2, e, r2)])" for e
    using out k2 by (intro holds_snoc) (auto elim: holds_mono dest: in_set_dropD)
  moreover have "es' = live \<or> (\<exists>e. es' = (if n \<le> length live then drop 1 live else live) @ [(k2, e, r2)])"
    using s by (auto simp: cache_set_def Let_def live_def [symmetric] split: if_splits)
  ultimately show ?thesis using live holds_mono [of k expires r "used - {k2}" live used] by auto
qed

lemma holds_get:
  assumes h: "holds k expires r used es" and k2: "k2 \<noteq> k \<Longrightarrow> k2 \<in> used"
    and fresh: "\<not> expired_at now (k, expires, r)"
  shows "holds k expires r used (fst (cache_get k2 now es))"
proof -
  define live where "live = sweep_expired now es"
  have live: "holds k expires r used live"
    unfolding live_def sweep_expired_def using h fresh by (intro holds_filter) auto
  show ?thesis
  proof (cases "map_of live k2")
    case None
    then show ?thesis using live by (simp add: cache_get_def live_def [symmetric])
  next
    case (Some er)
    obtain e2 r2 where er: "er = (e2, r2)" by force
    have get: "fst (cache_get k2 now es) = drop_key k2 live @ [(k2, e2, r2)]"
      using Some er by (simp add: cache_get_def live_def [symmetric])
    show ?thesis
    proof (cases "k2 = k")
      case True
      then have "(e2, r2) = (expires, r)" using holds_lookup [OF live] Some er by simp
      moreover have "distinct (map fst (drop_key k live @ [(k, expires, r)]))"
        using live by (auto simp: holds_def drop_key_def distinct_filter_keys)
      ultimately show ?thesis using holdsI [of "drop_key k live" k expires r "[]" used] True unfolding get by simp
    next
      case False
      then have "holds k expires r used (drop_key k2 live)"
        unfolding drop_key_def using live by (intro holds_filter) auto
      then show ?thesis
        unfolding get using k2 False by (intro holds_snoc) (auto simp: drop_key_def)
    qed
  qed
qed

lemma holds_run:
  assumes "holds k expires r used es" "finite used" "card used < n"
    and "\<And>c. c \<in> set calls \<Longrightarrow> call_time c < expires"
    and "\<And>c. c \<in> set calls \<Longrightarrow> call_key c \<noteq> k \<Longrightarrow> call_key c \<in> used"
    and "\<And>r2 ttl now. CacheSet k r2 ttl now \<notin> set calls" "expires \<le> risk_expires_at r"
  shows "holds k expires r used (run_caches n calls es)"
  using assms(1,4-6)
proof (induction calls arbitrary: es)
  case (Cons c calls)
  have fresh: "\<not> expired_at (call_time c) (k, expires, r)"
    using Cons.prems(2) [of c] assms(7) by (simp add: expired_at_def)
  have "holds k expires r used (run_cache n c es)"
  proof (cases c)
    case (CacheGet k2 now)
    then show ?thesis using Cons.prems(3) [of c] fresh Cons.prems(1) by (auto intro: holds_get)
  next
    case (CacheSet k2 r2 ttl now)
    then have "k2 \<noteq> k" using Cons.prems(4) by auto
    then show ?thesis
      using CacheSet Cons.prems(1) Cons.prems(3) [of c] fresh assms(2,3)
      by (auto split: sum.split intro: holds_set_other)
  qed
  then have "holds k expires r used (run_caches n calls (run_cache n c es))"
    using Cons.prems(2-4) by (intro Cons.IH) auto
  then show ?case by (simp add: run_caches_def)
qed (simp add: run_caches_def)

lemma set_holds:
  assumes "cache_ok n es" "cache_set n k r ttl now es = Inr es'"
    and "now < min (risk_expires_at r) (now + ttl * MICROS_PER_SECOND)"
  shows "holds k (min (risk_expires_at r) (now + ttl * MICROS_PER_SECOND)) r {} es'"
proof -
  define live where "live = drop_key k (sweep_expired now es)"
  have d: "distinct (map fst live)" "k \<notin> fst ` set live"
    using assms(1) by (auto simp: cache_ok_def live_def drop_key_def sweep_expired_def distinct_filter_keys)
  then have "distinct (map fst (drop 1 live))" "k \<notin> fst ` set (drop 1 live)"
    by (auto simp: drop_map [symmetric] dest: in_set_dropD)
  then have "holds k e r {} ((if n \<le> length live then drop 1 live else live) @ [(k, e, r)])" for e
    using d unfolding holds_def by auto
  moreover have "es' = (if n \<le> length live then drop 1 live else live)
      @ [(k, min (risk_expires_at r) (now + ttl * MICROS_PER_SECOND), r)]"
    using assms(2,3) by (auto simp: cache_set_def Let_def live_def [symmetric] split: if_splits)
  ultimately show ?thesis by simp
qed

end
