(* ===== verification/Service_Properties.thy ===== *)
theory Service_Properties
  imports Pricing_Exact Risk_Cache
begin

text \<open>
  The properties of service prices and of the risk decision and its cache, each with a witness
  on a concrete input.
\<close>

section \<open>Prices\<close>

text \<open>
  C31. The two forms of a price translate into each other exactly: from any positive number of
  atomic units, the decimal text reads back as the same terms, and a payment that carries both
  forms is accepted with them.
\<close>

theorem price_forms_roundtrip:
  assumes "0 < n"
  shows "\<exists>t. atomic_price_terms (PInt (int n)) = Inr t \<and> price_atomic t = show_nat n \<and>
    price_terms (PStr (price_usd t)) = Inr t \<and> atomic_price_terms (PStr (price_atomic t)) = Inr t \<and>
    payment_terms (PDict [(''price_usd'', PStr (price_usd t)), (''amount_atomic'', PStr (price_atomic t))]) = Inr t"
proof -
  note atomic = atomic_price_pos(1) [OF canonical_atomic_pos(1) [OF assms]]
    atomic_price_pos(1) [OF canonical_atomic_pos(2) [OF assms]]
  show ?thesis
    using atomic price_terms_canonical [OF assms] by (simp add: payment_terms_def)
qed

lemma price_forms_roundtrip_witness:
  "\<exists>t. atomic_price_terms (PInt 300000) = Inr t \<and> price_terms (PStr (price_usd t)) = Inr t"
  using price_forms_roundtrip [of 300000] by auto

text \<open>The amount a fixed-point text denotes.\<close>

definition text_value :: "string \<Rightarrow> rat" where
  "text_value s = of_nat (read_nat (before_point s @ after_point s)) / 10 ^ length (after_point s)"

lemma price_value:
  assumes "atomic_from_decimal (decimal_of_fixed s) z = Inr a"
  shows "text_value s * 10 ^ ATOMIC_SCALE = of_nat a"
proof -
  define k where "k = length (after_point s)"
  define c where "c = read_nat (before_point s @ after_point s)"
  have k: "k \<le> ATOMIC_SCALE" "a = c * 10 ^ (ATOMIC_SCALE - k)"
    using assms by (auto simp: atomic_from_decimal_def decimal_of_fixed_def Let_def and_then_eq_Inr
        ATOMIC_FACTOR_def k_def c_def split: if_splits)
  have "(10::rat) ^ ATOMIC_SCALE = 10 ^ k * 10 ^ (ATOMIC_SCALE - k)"
    using k(1) by (simp flip: power_add)
  then show ?thesis by (simp add: text_value_def k_def [symmetric] c_def [symmetric] k(2))
qed

text \<open>
  C32. A price is exact and depends on the amount alone: the atomic units are the text's value
  times a million with no rounding, and two texts of the same value give the same terms.
\<close>

theorem price_terms_exact:
  assumes "price_terms (PStr s) = Inr t" "price_terms (PStr s') = Inr t'"
  shows "of_nat (read_nat (price_atomic t)) = text_value s * 1000000 \<and>
    (text_value s = text_value s' \<longrightarrow> t = t')"
proof -
  obtain a where a: "atomic_from_decimal (decimal_of_fixed s) False = Inr a"
    "t = \<lparr>price_usd = canonical_price a, price_atomic = show_nat a\<rparr>"
    using assms(1) by (auto elim: price_termsD)
  obtain b where b: "atomic_from_decimal (decimal_of_fixed s') False = Inr b"
    "t' = \<lparr>price_usd = canonical_price b, price_atomic = show_nat b\<rparr>"
    using assms(2) by (auto elim: price_termsD)
  have "(of_nat a :: rat) = of_nat b" if "text_value s = text_value s'"
    using price_value [OF a(1)] price_value [OF b(1)] that by simp
  then show ?thesis
    using a b price_value [OF a(1)] by (auto simp: ATOMIC_SCALE_def)
qed

lemma price_terms_exact_witness:
  "\<exists>t. price_terms (PStr ''0.3'') = Inr t \<and> price_terms (PStr ''00.300'') = Inr t \<and>
     of_nat (read_nat (price_atomic t)) = text_value ''0.3'' * 1000000"
proof -
  let ?t = "\<lparr>price_usd = canonical_price 300000, price_atomic = show_nat 300000\<rparr>"
  have "fixed_point ''0.3''" "fixed_point ''00.300''" by code_simp+
  moreover have "atomic_from_decimal (decimal_of_fixed ''0.3'') False = Inr 300000"
    "atomic_from_decimal (decimal_of_fixed ''00.300'') False = Inr 300000"
    by (simp_all add: atomic_from_decimal_def decimal_of_fixed_def before_point_def after_point_def
        read_nat_def ATOMIC_SCALE_def)
  ultimately have "price_terms (PStr ''0.3'') = Inr ?t" "price_terms (PStr ''00.300'') = Inr ?t"
    by (simp_all add: price_terms_fixed)
  then show ?thesis using price_terms_exact [of "''0.3''" ?t "''00.300''" ?t] by blast
qed

section \<open>Risk\<close>

text \<open>
  An assessment is allowed exactly when nothing speaks against it: it is well formed, its
  score agrees with its level and lies below both thresholds, and it carries no risk detail, no
  hacking event and no indicator text.
\<close>

theorem risk_allowed_iff:
  "verdict (map_risk_result hold_score deny_score r) = Allow \<longleftrightarrow>
     valid_risk_collections r \<and> consistent_score_and_level (risk_score r) (risk_level r) \<and>
     int_value (risk_score r) < hold_score \<and> int_value (risk_score r) < deny_score \<and>
     items_of (risk_details r) = [] \<and> \<not> truthy (hacking_event r) \<and>
     (\<forall>v \<in> set (items_of (risk_indicators r)). \<not> truthy v)"
proof -
  have "\<not> truthy v \<Longrightarrow> lowered v \<notin> set HARD_RISK_INDICATORS" for v
    by (cases v) (auto simp: HARD_RISK_INDICATORS_def lower_def)
  then show ?thesis
    using no_unknown_indicator [of r]
    by (auto simp: verdict_eq score_verdict_Allow direct_hard_risk_def hard_indicator_None)
qed

definition clean_result :: "int \<Rightarrow> string \<Rightarrow> risk_result" where
  "clean_result score level =
     \<lparr>risk_provider = ''misttrack'', risk_endpoint = ''risk_score'', risk_subject = ''0xabc'',
      risk_network = ''base'', risk_asset = ''USDC'', risk_coin = ''USDC-Base'',
      risk_score = PInt score, risk_level = PStr level, risk_indicators = Tuple [],
      risk_details = Tuple [], hacking_event = PNone, risk_assessed_at = 0,
      risk_expires_at = 600000000, response_sha256 = '''', risk_cache_hit = False\<rparr>"

lemma risk_allowed_iff_witness:
  "verdict (map_risk_result 31 71 (clean_result 12 ''low'')) = Allow \<and>
   verdict (map_risk_result 31 71 (clean_result 40 ''low'')) \<noteq> Allow"
  by (simp only: risk_allowed_iff) code_simp

text \<open>
  A worse score never makes a decision milder: of two assessments that agree in everything
  but a consistent score and level, the one with the higher score is decided at least as
  severely, whatever the thresholds.
\<close>

theorem risk_decision_monotone:
  assumes "consistent_score_and_level (PInt s) (PStr l)" "consistent_score_and_level (PInt s') (PStr l')"
    and "s \<le> s'" "valid_risk_collections (r\<lparr>risk_score := PInt s, risk_level := PStr l\<rparr>)"
  shows "\<exists>m n. severity (verdict (map_risk_result h d (r\<lparr>risk_score := PInt s, risk_level := PStr l\<rparr>))) = Some m \<and>
    severity (verdict (map_risk_result h d (r\<lparr>risk_score := PInt s', risk_level := PStr l'\<rparr>))) = Some n \<and> m \<le> n"
proof -
  have same: "direct_hard_risk (r\<lparr>risk_score := a, risk_level := b\<rparr>) = direct_hard_risk r"
    "hard_risk_indicator (r\<lparr>risk_score := a, risk_level := b\<rparr>) = hard_risk_indicator r"
    "unknown_indicator (r\<lparr>risk_score := a, risk_level := b\<rparr>) = unknown_indicator r" for a b
    by (simp_all add: direct_hard_risk_def hard_risk_indicator_def unknown_indicator_def)
  have "valid_risk_collections (r\<lparr>risk_score := PInt s', risk_level := PStr l'\<rparr>)"
    using assms(4) by (simp add: valid_risk_collections_def)
  then show ?thesis
    using assms by (auto simp: verdict_eq same score_verdict_def)
qed

lemma risk_decision_monotone_witness:
  "\<exists>m n. severity (verdict (map_risk_result 31 71 (clean_result 12 ''low''))) = Some m \<and>
     severity (verdict (map_risk_result 31 71 (clean_result 80 ''high''))) = Some n \<and> m \<le> n"
proof -
  have "consistent_score_and_level (PInt 12) (PStr ''low'')"
    "consistent_score_and_level (PInt 80) (PStr ''high'')"
    "valid_risk_collections (clean_result 12 ''low''\<lparr>risk_score := PInt 12, risk_level := PStr ''low''\<rparr>)"
    by code_simp+
  from risk_decision_monotone [OF this(1,2) _ this(3), of 31 71] show ?thesis
    by (simp add: clean_result_def)
qed

text \<open>
  C35. A cached assessment is there while it is needed: after it is stored in a reachable
  cache, a lookup before its expiry returns it, as long as no other result is stored for its
  key and fewer other keys than the capacity were used in between.
\<close>

theorem recent_result_returned:
  assumes "(cache_step capacity)\<^sup>*\<^sup>* [] es" "cache_set capacity k r ttl now es = Inr es1"
    and "expires = min (risk_expires_at r) (now + ttl * MICROS_PER_SECOND)" "now < expires" "t < expires"
    and "\<And>c. c \<in> set calls \<Longrightarrow> call_time c < expires"
    and "\<And>r2 ttl2 now2. CacheSet k r2 ttl2 now2 \<notin> set calls"
    and "card (call_key ` set calls - {k}) < capacity"
  shows "snd (cache_get k t (run_caches capacity calls es1)) = Some r"
proof -
  have "cache_ok capacity es"
    using risk_cache.inv_reachable [of "[]" capacity es] assms(1,8) by simp
  from set_holds [OF this assms(2)] assms(3,4) have "holds k expires r {} es1" by simp
  then have "holds k expires r (call_key ` set calls - {k}) es1" by (rule holds_mono) simp
  then have "holds k expires r (call_key ` set calls - {k}) (run_caches capacity calls es1)"
    using assms(3,6-8) by (intro holds_run) auto
  then have "holds k expires r (call_key ` set calls - {k}) (sweep_expired t (run_caches capacity calls es1))"
    unfolding sweep_expired_def using assms(3,5) by (intro holds_filter) (auto simp: expired_at_def)
  then show ?thesis by (auto simp: cache_get_def dest: holds_lookup)
qed

lemma recent_result_returned_witness:
  "snd (cache_get (''m'', ''a'', ''base'', ''USDC'') 9
     (run_caches 2 [CacheSet (''m'', ''b'', ''base'', ''USDC'') (clean_result 3 ''low'') 60 5,
        CacheGet (''m'', ''b'', ''base'', ''USDC'') 7]
       [((''m'', ''a'', ''base'', ''USDC''), 60000000, clean_result 12 ''low'')]))
   = Some (clean_result 12 ''low'')"
proof (rule recent_result_returned)
  show "(cache_step 2)\<^sup>*\<^sup>* [] []" by simp
  show "cache_set 2 (''m'', ''a'', ''base'', ''USDC'') (clean_result 12 ''low'') 60 0 [] =
      Inr [((''m'', ''a'', ''base'', ''USDC''), 60000000, clean_result 12 ''low'')]"
    by (simp add: cache_set_def sweep_expired_def drop_key_def clean_result_def MICROS_PER_SECOND_def)
qed (auto simp: clean_result_def MICROS_PER_SECOND_def card_insert_if)

end
