(* ===== verification/Authorization_Resolution.thy ===== *)
theory Authorization_Resolution
  imports Account_Grants
begin

text \<open>
  Choosing the wallet, grant and allowance that may pay for a request
  (\<open>resolve_authorization\<close> of \<open>apps/core/services/account_service/service.py\<close>), before an
  action is created and the funding ledger reserves the amount. The registry of canonical
  assets (\<open>shared/canonical_assets.py\<close>) is the map from a network to its token address. The
  reads of one call happen in one database state, which the listing of grants may refresh.
\<close>

section \<open>Requests and results\<close>

record resolution_request =
  az_user_id :: string
  az_agent_id :: string
  az_opc_installation_id :: "string option"
  az_authorization_rail :: string
  az_product :: string
  az_venue :: "string option"
  az_merchant :: "string option"
  az_merchant_trust_tier :: "string option"
  az_network :: string
  az_token_address :: "string option"
  az_asset :: "string option"
  az_spender_address :: "string option"
  az_amount_usdc :: rat

record resolution_result =
  ready :: bool
  res_opc_installation_id :: "string option"
  res_authorization_rail :: "string option"
  reason_code :: "string option"
  res_wallet_identity_id :: "string option"
  res_spending_grant_id :: "string option"
  res_asset_allowance_id :: "string option"
  remaining_amount_usdc :: "rat option"
  remaining_daily_amount_usdc :: "rat option"
  remaining_hourly_amount_usdc :: "rat option"
  res_notification_mode :: "string option"
  user_interaction_required :: "bool option"
  interaction_reason_code :: "string option"
  required_amount_atomic :: "int option"
  res_observed_allowance_atomic :: "int option"
  next_action :: string

definition resolution_failure :: "resolution_request \<Rightarrow> string \<Rightarrow> resolution_result" where
  "resolution_failure req reason =
     \<lparr>ready = False, res_opc_installation_id = az_opc_installation_id req,
      res_authorization_rail = None, reason_code = Some reason, res_wallet_identity_id = None,
      res_spending_grant_id = None, res_asset_allowance_id = None, remaining_amount_usdc = None,
      remaining_daily_amount_usdc = None, remaining_hourly_amount_usdc = None,
      res_notification_mode = None, user_interaction_required = None,
      interaction_reason_code = None, required_amount_atomic = None,
      res_observed_allowance_atomic = None, next_action = ''configure_wallet_authorization''\<rparr>"

section \<open>Grants in scope\<close>

definition REVIEWED_VENUE_BY_PRODUCT :: "(string \<times> string) list" where
  "REVIEWED_VENUE_BY_PRODUCT =
     [(''marketplace'', ''clink_marketplace''), (''transfers'', ''clink_transfers'')]"

definition reviewed_venue :: "resolution_request \<Rightarrow> bool" where
  "reviewed_venue req \<longleftrightarrow>
     (case map_of REVIEWED_VENUE_BY_PRODUCT (az_product req) of
        None \<Rightarrow> True
      | Some v \<Rightarrow> (az_product req = ''marketplace'' \<and> az_venue req = None) \<or> az_venue req = Some v)"

definition trust_tier_ok :: "resolution_request \<Rightarrow> spending_grant_row \<Rightarrow> bool" where
  "trust_tier_ok req g \<longleftrightarrow>
     (az_product req = ''transfers'' \<and> az_merchant_trust_tier req = None) \<or>
     (az_product req \<noteq> ''transfers'' \<and>
       ((az_product req \<noteq> ''marketplace'' \<and> az_merchant_trust_tier req = None)
        \<or> scope_has (az_merchant_trust_tier req) (merchant_trust_scopes g)))"

definition resolution_stages ::
  "resolution_request \<Rightarrow> (string \<times> (spending_grant_row \<Rightarrow> bool)) list" where
  "resolution_stages req =
     [(''PRODUCT_SCOPE_MISMATCH'', \<lambda>g. az_product req \<in> set (product_scopes g)),
      (''VENUE_SCOPE_MISMATCH'',
        \<lambda>g. reviewed_venue req \<and> (venue_scopes g = [] \<or> scope_has (az_venue req) (venue_scopes g))),
      (''MERCHANT_SCOPE_MISMATCH'',
        \<lambda>g. merchant_scopes g = [] \<or> scope_has (az_merchant req) (merchant_scopes g)),
      (''MERCHANT_TRUST_SCOPE_MISMATCH'', trust_tier_ok req),
      (''NETWORK_SCOPE_MISMATCH'', \<lambda>g. az_network req \<in> set (network_scopes g))]"

text \<open>A test that keeps some rows, or its reason code.\<close>

definition keep_or :: "string \<Rightarrow> ('r \<Rightarrow> bool) \<Rightarrow> 'r list \<Rightarrow> string + 'r list" where
  "keep_or reason p rows = (let kept = filter p rows in if kept = [] then Inl reason else Inr kept)"

fun keep_stages :: "(string \<times> ('r \<Rightarrow> bool)) list \<Rightarrow> 'r list \<Rightarrow> string + 'r list" where
  "keep_stages [] rows = Inr rows"
| "keep_stages ((reason, p) # stages) rows = and_then (keep_or reason p rows) (keep_stages stages)"

text \<open>\<open>canonicalize_evm_address\<close>: \<open>None\<close> for a text it refuses.\<close>

definition canonicalize_evm_address :: "string \<Rightarrow> string option" where
  "canonicalize_evm_address s =
     (if length s = 42 \<and> take 1 s = ''0'' \<and> take 1 (drop 1 s) \<in> {''x'', ''X''}
         \<and> list_all is_hex_char (drop 2 s)
      then Some (''0x'' @ lower (drop 2 s)) else None)"

definition resolution_token ::
  "(string \<Rightarrow> string option) \<Rightarrow> resolution_request \<Rightarrow> string + string" where
  "resolution_token registry req =
     (case registry (az_network req) of
        None \<Rightarrow> Inl ''ASSET_SCOPE_MISMATCH''
      | Some token \<Rightarrow>
          if az_token_address req \<notin> {None, Some token} then Inl ''ASSET_SCOPE_MISMATCH''
          else if Option.bind (az_asset req) canonicalize_evm_address \<notin> {None, Some token}
          then Inl ''ASSET_SCOPE_MISMATCH''
          else Inr token)"

section \<open>Budgets\<close>

text \<open>A grant with what remains of its total, its hour and its day.\<close>

record grant_budget =
  budget_grant :: spending_grant_row
  total_remaining :: rat
  hourly_remaining :: rat
  daily_remaining :: rat

definition hourly_left :: "funding_db \<Rightarrow> int \<Rightarrow> spending_grant_row \<Rightarrow> rat" where
  "hourly_left db now g =
     (case spending_grant_rolling_hour_usage (spending_grant_id g) now db of
        (used, reserved) \<Rightarrow> hourly_limit_usdc g - used - reserved)"

definition daily_left :: "funding_db \<Rightarrow> int \<Rightarrow> spending_grant_row \<Rightarrow> rat" where
  "daily_left db now g =
     (case spending_grant_daily_usage (spending_grant_id g) (date_of now) db of
        (used, reserved) \<Rightarrow> daily_limit_usdc g - used - reserved)"

definition grant_budget_of :: "funding_db \<Rightarrow> int \<Rightarrow> spending_grant_row \<Rightarrow> grant_budget" where
  "grant_budget_of db now g =
     \<lparr>budget_grant = g,
      total_remaining = max_amount_usdc g - used_amount_usdc g - reserved_amount_usdc g,
      hourly_remaining = hourly_left db now g, daily_remaining = daily_left db now g\<rparr>"

definition grants_with_budget ::
  "funding_db \<Rightarrow> int \<Rightarrow> rat \<Rightarrow> spending_grant_row list \<Rightarrow> string + grant_budget list" where
  "grants_with_budget db now amount grants =
     and_then (keep_or ''PER_TRANSACTION_LIMIT_EXCEEDED''
       (\<lambda>g. amount \<le> per_transaction_limit_usdc g) grants) (\<lambda>small.
     and_then (keep_or ''BUDGET_EXCEEDED'' (\<lambda>b. amount \<le> total_remaining b)
       (map (grant_budget_of db now) small)) (\<lambda>total.
     keep_or
       (if list_ex (\<lambda>b. amount \<le> hourly_remaining b) total
        then ''DAILY_LIMIT_EXCEEDED'' else ''HOURLY_LIMIT_EXCEEDED'')
       (\<lambda>b. amount \<le> hourly_remaining b \<and> amount \<le> daily_remaining b) total))"

section \<open>Allowances\<close>

definition allowance_matches_asset :: "asset_allowance_row \<Rightarrow> resolution_request \<Rightarrow> bool" where
  "allowance_matches_asset a req \<longleftrightarrow>
     az_token_address req \<in> {None, Some (aa_token_address a)} \<and>
     (case az_asset req of
        None \<Rightarrow> True
      | Some asset \<Rightarrow>
          (case canonicalize_evm_address asset of
             Some address \<Rightarrow> aa_token_address a = address
           | None \<Rightarrow> lower (aa_token_symbol a) = asset))"

definition allowances_of :: "funding_db \<Rightarrow> string \<Rightarrow> asset_allowance_row list" where
  "allowances_of db wid =
     sort_key (\<lambda>a. (aa_created_at a, asset_allowance_id a))
       (filter (\<lambda>a. aa_wallet_identity_id a = wid) (asset_allowances db))"

text \<open>\<open>required_atomic\<close>, when it is an integer.\<close>

definition whole_atomic :: "rat \<Rightarrow> int \<Rightarrow> int option" where
  "whole_atomic amount decimals =
     (let r = scale10 amount decimals in if of_int \<lfloor>r\<rfloor> = r then Some \<lfloor>r\<rfloor> else None)"

definition allowance_candidate :: "resolution_request \<Rightarrow> spending_grant_row \<Rightarrow> asset_allowance_row \<Rightarrow> bool" where
  "allowance_candidate req g a \<longleftrightarrow>
     aa_status a = ''active'' \<and> aa_network a = az_network req \<and>
     Some (aa_spender_address a) = az_spender_address req \<and> allowance_matches_asset a req \<and>
     aa_token_address a \<in> set (asset_scopes g) \<and>
     (case whole_atomic (az_amount_usdc req) (aa_token_decimals a) of
        None \<Rightarrow> False | Some n \<Rightarrow> n \<le> observed_allowance_atomic a)"

definition budget_candidates ::
  "funding_db \<Rightarrow> resolution_request \<Rightarrow> grant_budget list \<Rightarrow> (grant_budget \<times> asset_allowance_row) list" where
  "budget_candidates db req budgets =
     concat (map (\<lambda>b. map (Pair b) (filter (allowance_candidate req (budget_grant b))
       (allowances_of db (grant_wallet_identity_id (budget_grant b))))) budgets)"

definition candidate_key :: "grant_budget \<times> asset_allowance_row \<Rightarrow> string \<times> string" where
  "candidate_key c = (spending_grant_id (budget_grant (fst c)), asset_allowance_id (snd c))"

section \<open>Resolving\<close>

definition resolved_external :: "resolution_request \<Rightarrow> grant_budget \<Rightarrow> resolution_result" where
  "resolved_external req b =
     (let g = budget_grant b in
      \<lparr>ready = True, res_opc_installation_id = az_opc_installation_id req,
       res_authorization_rail = Some ''external_x402'', reason_code = None,
       res_wallet_identity_id = Some (grant_wallet_identity_id g),
       res_spending_grant_id = Some (spending_grant_id g), res_asset_allowance_id = None,
       remaining_amount_usdc = Some (total_remaining b),
       remaining_daily_amount_usdc = Some (daily_remaining b),
       remaining_hourly_amount_usdc = Some (hourly_remaining b),
       res_notification_mode = Some (notification_mode g), user_interaction_required = Some True,
       interaction_reason_code = Some ''EXTERNAL_X402_SIGNATURE_REQUIRED'',
       required_amount_atomic = None, res_observed_allowance_atomic = None,
       next_action = ''create_action_and_evaluate_policy''\<rparr>)"

definition resolved_allowance ::
  "resolution_request \<Rightarrow> grant_budget \<Rightarrow> asset_allowance_row \<Rightarrow> resolution_result" where
  "resolved_allowance req b a =
     (let g = budget_grant b; confirm = notification_mode g \<noteq> ''silent_under_limits'' in
      \<lparr>ready = True, res_opc_installation_id = az_opc_installation_id req,
       res_authorization_rail = Some (az_authorization_rail req), reason_code = None,
       res_wallet_identity_id = Some (grant_wallet_identity_id g),
       res_spending_grant_id = Some (spending_grant_id g),
       res_asset_allowance_id = Some (asset_allowance_id a),
       remaining_amount_usdc = Some (total_remaining b),
       remaining_daily_amount_usdc = Some (daily_remaining b),
       remaining_hourly_amount_usdc = Some (hourly_remaining b),
       res_notification_mode = Some (notification_mode g), user_interaction_required = Some confirm,
       interaction_reason_code =
         (if confirm then Some ''NOTIFICATION_POLICY_REQUIRES_CONFIRMATION'' else None),
       required_amount_atomic = whole_atomic (az_amount_usdc req) (aa_token_decimals a),
       res_observed_allowance_atomic = Some (observed_allowance_atomic a),
       next_action = ''create_action_and_evaluate_policy''\<rparr>)"

text \<open>The part after the listing of grants: a result, or the reason code of a failure.\<close>

definition resolve_grants ::
  "(string \<Rightarrow> string option) \<Rightarrow> int \<Rightarrow> resolution_request \<Rightarrow> spending_grant_row list \<Rightarrow> funding_db
     \<Rightarrow> string + resolution_result" where
  "resolve_grants registry now req grants db =
     and_then (keep_stages (resolution_stages req) grants) (\<lambda>scoped.
     and_then (resolution_token registry req) (\<lambda>token.
     and_then (keep_or ''ASSET_SCOPE_MISMATCH'' (\<lambda>g. token \<in> set (asset_scopes g)) scoped) (\<lambda>held.
     and_then (grants_with_budget db now (az_amount_usdc req) held) (\<lambda>budgets.
       if az_authorization_rail req = ''external_x402''
       then Inr (resolved_external req (arg_min_list (\<lambda>b.
          (spending_grant_id (budget_grant b), grant_wallet_identity_id (budget_grant b))) budgets))
       else
         let candidates = budget_candidates db req budgets in
         if candidates = [] then Inl ''ASSET_ALLOWANCE_REQUIRED''
         else case arg_min_list candidate_key candidates of (b, a) \<Rightarrow> Inr (resolved_allowance req b a)))))"

definition resolve_authorization ::
  "(string \<Rightarrow> string option) \<Rightarrow> int \<Rightarrow> resolution_request \<Rightarrow> (string \<times> string) option \<Rightarrow> funding_db
     \<Rightarrow> py_error + (funding_db \<times> resolution_result)" where
  "resolve_authorization registry now req opc db =
     (if az_opc_installation_id req = None \<and> opc \<noteq> None
      then Inl (ValueErr ''OPC authorization scope requires an installation'')
      else if az_opc_installation_id req \<noteq> None \<and> opc = None
      then Inr (db, resolution_failure req ''OPC_INSTALLATION_NOT_READY'')
      else
        let missing = (\<lambda>reason. if az_opc_installation_id req \<noteq> None
              then ''OPC_INSTALLATION_NOT_READY'' else reason);
            identities = filter (\<lambda>i. opt_all (\<lambda>s. wallet_identity_id i = fst s) opc)
              (active_identities db (az_user_id req))
        in if identities = []
           then Inr (db, resolution_failure req (missing ''WALLET_IDENTITY_REQUIRED''))
           else and_then (active_spending_grants (az_user_id req) now db) (\<lambda>(db', listed).
             let grants = filter (\<lambda>g. grant_wallet_identity_id g \<in> wallet_identity_id ` set identities
                   \<and> grant_agent_id g = az_agent_id req
                   \<and> opt_all (\<lambda>s. spending_grant_id g = snd s) opc) listed
             in Inr (db',
               if grants = [] then resolution_failure req (missing ''SPENDING_GRANT_REQUIRED'')
               else case resolve_grants registry now req grants db' of
                 Inl reason \<Rightarrow> resolution_failure req reason
               | Inr result \<Rightarrow> result)))"

end
