(* ===== verification/Resolution_Safety.thy ===== *)
theory Resolution_Safety
  imports Authorization_Resolution Budget_Invariant
begin

text \<open>
  A resolution that is ready can be reserved: the grants and allowances that the resolver and
  the ledger look at are the same, both take the smallest by the same key, and the ledger's
  checks hold of it.
\<close>

section \<open>Grants in scope\<close>

lemma keep_or_Inr: "keep_or reason p rows = Inr kept \<longleftrightarrow> kept = filter p rows \<and> kept \<noteq> []"
  by (auto simp: keep_or_def Let_def)

lemma keep_stages_Inr:
  "keep_stages stages rows = Inr kept \<Longrightarrow> kept = filter (\<lambda>r. \<forall>(reason, p) \<in> set stages. p r) rows"
proof (induction stages arbitrary: rows)
  case (Cons s stages)
  obtain reason p where s: "s = (reason, p)" by force
  with Cons.prems have "keep_stages stages (filter p rows) = Inr kept"
    by (auto simp: and_then_eq_Inr keep_or_Inr)
  from Cons.IH [OF this] show ?case by (simp add: s conj_commute)
qed simp

lemma apply_stages_some:
  assumes "g \<in> set grants" "\<forall>(reason, p) \<in> set stages. p g"
  shows "apply_stages stages grants = Inr (filter (\<lambda>g. \<forall>(reason, p) \<in> set stages. p g) grants)"
  using assms
proof (induction stages arbitrary: grants)
  case (Cons s stages)
  obtain reason p where s: "s = (reason, p)" by force
  have g: "g \<in> set (filter p grants)" "\<forall>(reason, p) \<in> set stages. p g" using Cons.prems by (auto simp: s)
  then have "filter p grants \<noteq> []" by (metis empty_iff empty_set)
  then show ?case using Cons.IH [OF g] by (simp add: s Let_def conj_commute)
qed simp

lemma eligible_some:
  assumes "may_spend req ctx db g"
  obtains gs where "eligible_grants db req (ctx_user_id ctx) (ctx_agent_id ctx) (ctx_amount ctx) (ctx_now ctx) = Inr gs"
    "set gs = {g. may_spend req ctx db g}"
proof -
  let ?active = "active_grants db (ctx_user_id ctx) (ctx_agent_id ctx) (ctx_now ctx)"
  define scoped where "scoped = filter (\<lambda>g. \<forall>(reason, p) \<in> set (scope_stages req (ctx_amount ctx)). p g) ?active"
  define daily where "daily = filter (within_day db (date_of (ctx_now ctx)) (ctx_amount ctx)) scoped"
  define gs where "gs = filter (within_hour db (ctx_now ctx) (ctx_amount ctx)) daily"
  have g: "g \<in> set ?active" "\<forall>(reason, p) \<in> set (scope_stages req (ctx_amount ctx)). p g" "g \<in> set gs"
    using assms by (auto simp: may_spend_def gs_def daily_def scoped_def)
  have stages: "apply_stages (scope_stages req (ctx_amount ctx)) ?active = Inr scoped"
    unfolding scoped_def using g(1,2) by (rule apply_stages_some)
  have "?active \<noteq> []" "gs \<noteq> []" using g(1,3) by (metis empty_iff empty_set)+
  moreover have "daily \<noteq> []" using g(3) by (metis empty_iff empty_set filter.simps(1) gs_def)
  moreover have "active_identities db (ctx_user_id ctx) \<noteq> []"
  proof
    assume "active_identities db (ctx_user_id ctx) = []"
    then show False using g(1) by (simp add: active_grants_def)
  qed
  ultimately have "eligible_grants db req (ctx_user_id ctx) (ctx_agent_id ctx) (ctx_amount ctx) (ctx_now ctx) = Inr gs"
    using stages by (simp add: eligible_grants_def daily_def [symmetric] gs_def [symmetric] Let_def)
  then show ?thesis
    using that by (auto simp: gs_def daily_def scoped_def may_spend_def)
qed

text \<open>The listing returns the user's grants that are active and in their term.\<close>

lemma views_Inr: "views gs = Inr vs \<Longrightarrow> vs = gs"
  by (induction gs arbitrary: vs) (auto simp: grant_view_def and_then_eq_Inr)

lemma refresh_grant_keeps [simp]:
  "grant_user_id (refresh_grant t g) = grant_user_id g"
  "spending_grant_id (refresh_grant t g) = spending_grant_id g"
  by (simp_all add: refresh_grant_def with_status_def)

lemma active_listed:
  assumes "active_spending_grants user t db = Inr (db', vs)"
  shows "set vs = {g \<in> set (spending_grants db'). grant_user_id g = user \<and> grant_status g = ''active''
      \<and> starts_at g \<le> t \<and> t < expires_at g}"
    "db' = db\<lparr>spending_grants := update_rows (listed_grant user) (refresh_grant t) (spending_grants db)\<rparr>"
proof -
  show db': "db' = db\<lparr>spending_grants := update_rows (listed_grant user) (refresh_grant t) (spending_grants db)\<rparr>"
    using assms by (auto simp: active_spending_grants_def Let_def and_then_eq_Inr)
  have vs: "set vs = {g \<in> refresh_grant t ` {x \<in> set (spending_grants db). listed_grant user x}.
      grant_status g = ''active'' \<and> starts_at g \<le> t \<and> t < expires_at g}"
    using assms by (auto simp: active_spending_grants_def Let_def and_then_eq_Inr dest!: views_Inr)
  show "set vs = {g \<in> set (spending_grants db'). grant_user_id g = user \<and> grant_status g = ''active''
      \<and> starts_at g \<le> t \<and> t < expires_at g}"
    by (auto simp: vs db' set_update_rows listed_grant_def)
qed

section \<open>Remaining amounts\<close>

lemma hourly_total_split:
  "hourly_total db gid now = fst (spending_grant_rolling_hour_usage gid now db)
     + snd (spending_grant_rolling_hour_usage gid now db)"
proof -
  have "sum_list (map rolling_amount_usdc (filter (counts_in_hour gid now) t)) =
      rolling_sum ''used'' (filter (counts_in_hour gid now) t) + rolling_sum ''reserved'' (filter (counts_in_hour gid now) t)"
    for t
  proof (induction t)
    case (Cons r t)
    then show ?case by (cases "rolling_state r = ''used''") (auto simp: rolling_sum_def counts_in_hour_def)
  qed (simp add: rolling_sum_def)
  then show ?thesis by (simp add: hourly_total_def spending_grant_rolling_hour_usage_def Let_def)
qed

lemma budget_limits:
  "amount \<le> hourly_left db now g \<longleftrightarrow> within_hour db now amount g"
  "amount \<le> daily_left db now g \<longleftrightarrow> within_day db (date_of now) amount g"
  by (auto simp: hourly_left_def within_hour_def hourly_total_split daily_left_def within_day_def
      spending_grant_daily_usage_def daily_total_def algebra_simps split: prod.split option.split)

lemma grants_with_budget_Inr:
  assumes "grants_with_budget db now amount gs = Inr budgets"
  shows "budgets \<noteq> []" "set budgets = grant_budget_of db now ` {g \<in> set gs.
      amount \<le> per_transaction_limit_usdc g \<and>
      used_amount_usdc g + reserved_amount_usdc g + amount \<le> max_amount_usdc g \<and>
      within_hour db now amount g \<and> within_day db (date_of now) amount g}"
  using assms
  by (auto simp: grants_with_budget_def and_then_eq_Inr keep_or_Inr grant_budget_of_def budget_limits
      algebra_simps)

lemma budget_grant_of [simp]: "budget_grant (grant_budget_of db now g) = g"
  by (simp add: grant_budget_of_def)

section \<open>The same choice\<close>

lemma arg_min_list_unique:
  assumes "x \<in> set xs" "\<And>y. y \<in> set xs \<Longrightarrow> key x \<le> key y" "\<And>y. y \<in> set xs \<Longrightarrow> key y = key x \<Longrightarrow> y = x"
  shows "arg_min_list (key :: 'a \<Rightarrow> 'b :: linorder) xs = x"
proof -
  have ne: "xs \<noteq> []" using assms(1) by auto
  then have "key (arg_min_list key xs) = Min (key ` set xs)" by (simp add: f_arg_min_list_f)
  also have "\<dots> = key x" using assms(1,2) by (intro Min_eqI) auto
  finally show ?thesis using assms(3) arg_min_list_in [OF ne, of key] by blast
qed

text \<open>The request for a reservation that a resolution leads to.\<close>

definition resolved_key :: "resolution_result \<Rightarrow> selection_key" where
  "resolved_key res =
     \<lparr>sel_wallet_identity_id = the (res_wallet_identity_id res),
      sel_spending_grant_id = the (res_spending_grant_id res),
      sel_asset_allowance_id = res_asset_allowance_id res\<rparr>"

definition follows ::
  "string \<Rightarrow> resolution_request \<Rightarrow> resolution_result \<Rightarrow> reservation_request \<Rightarrow> reserve_context \<Rightarrow> int \<Rightarrow> bool" where
  "follows token ask res req ctx now \<longleftrightarrow>
     az_opc_installation_id ask = None \<and> req_opc_installation_id req = None \<and>
     az_authorization_rail ask \<in> insert ''external_x402'' (set ALLOWANCE_RAILS) \<and>
     req_authorization_rail req = az_authorization_rail ask \<and>
     req_product req = Some (az_product ask) \<and> az_venue ask = Some (req_venue req) \<and>
     az_merchant ask = Some (req_merchant_id req) \<and>
     req_merchant_trust_tier req = az_merchant_trust_tier ask \<and>
     req_network req = az_network ask \<and>
     az_token_address ask = Some token \<and> req_token_address req = Some token \<and>
     az_asset ask = Some (req_asset req) \<and> lower (req_asset req) = req_asset req \<and>
     ctx_user_id ctx = az_user_id ask \<and> ctx_agent_id ctx = az_agent_id ask \<and>
     ctx_amount ctx = az_amount_usdc ask \<and> ctx_now ctx = now \<and>
     ctx_canonical_token ctx = token \<and> ctx_expected ctx = Some (resolved_key res) \<and>
     atomic_amount (req_amount_atomic req) =
       Inr (if az_authorization_rail ask = ''external_x402''
            then \<lfloor>scale10 (az_amount_usdc ask) (ctx_external_decimals ctx)\<rfloor>
            else the (required_amount_atomic res)) \<and>
     (az_authorization_rail ask = ''external_x402'' \<longrightarrow>
        whole_atomic (az_amount_usdc ask) (ctx_external_decimals ctx) \<noteq> None)"

text \<open>
  What the tables keep: primary keys are unique, scopes hold canonical addresses (the schemas
  canonicalize them), and a day's usage id is the digest of its own grant and day.
\<close>

definition tables_ok :: "(string \<Rightarrow> string) \<Rightarrow> int \<Rightarrow> funding_db \<Rightarrow> bool" where
  "tables_ok sha256 now db \<longleftrightarrow>
     distinct (map spending_grant_id (spending_grants db)) \<and>
     distinct (map asset_allowance_id (asset_allowances db)) \<and>
     (\<forall>g \<in> set (spending_grants db). (\<forall>s \<in> set (asset_scopes g). lower s = s) \<and>
        (\<forall>u \<in> set (daily_usages db).
           daily_usage_id u = daily_usage_id_of sha256 (spending_grant_id g) (date_of now) \<longrightarrow>
           in_usage (spending_grant_id g) (date_of now) u))"

text \<open>The grants a ready resolution chose from are the ones that may spend and hold the token.\<close>

lemma stages_agree:
  assumes "follows token ask res req ctx now" "reviewed_venue ask"
  shows "(\<forall>(reason, p) \<in> set (resolution_stages ask). p g) \<and>
      az_amount_usdc ask \<le> per_transaction_limit_usdc g \<and>
      used_amount_usdc g + reserved_amount_usdc g + az_amount_usdc ask \<le> max_amount_usdc g \<and>
      (az_product ask = ''transfers'' \<longrightarrow> az_merchant_trust_tier ask = None)
    \<longleftrightarrow> (\<forall>(reason, p) \<in> set (scope_stages req (ctx_amount ctx)). p g) \<and>
      (az_product ask = ''transfers'' \<longrightarrow> az_merchant_trust_tier ask = None)"
  using assms
  by (auto simp: follows_def resolution_stages_def scope_stages_def scope_has_def trust_tier_ok_def
      merchant_trusted_def split: option.splits)

definition chosen_from ::
  "string \<Rightarrow> reservation_request \<Rightarrow> reserve_context \<Rightarrow> funding_db \<Rightarrow> spending_grant_row \<Rightarrow> bool" where
  "chosen_from token req ctx db g \<longleftrightarrow> may_spend req ctx db g \<and> token \<in> set (asset_scopes g)"

lemma resolve_grantsE:
  assumes f: "follows token ask res req ctx now" and tok: "registry (az_network ask) = Some token"
    and gs: "set gs = set (active_grants db (az_user_id ask) (az_agent_id ask) now)"
    and r: "resolve_grants registry now ask gs db = Inr res"
  obtains budgets where "budgets \<noteq> []"
    "set budgets = grant_budget_of db now ` {g. chosen_from token req ctx db g}"
    "az_authorization_rail ask = ''external_x402'' \<Longrightarrow> res = resolved_external ask
       (arg_min_list (\<lambda>b. (spending_grant_id (budget_grant b), grant_wallet_identity_id (budget_grant b))) budgets)"
    "az_authorization_rail ask \<noteq> ''external_x402'' \<Longrightarrow> budget_candidates db ask budgets \<noteq> []"
    "az_authorization_rail ask \<noteq> ''external_x402'' \<Longrightarrow>
       res = (case arg_min_list candidate_key (budget_candidates db ask budgets) of (b, a) \<Rightarrow> resolved_allowance ask b a)"
    "Option.bind (az_asset ask) canonicalize_evm_address \<in> {None, Some token}"
proof -
  obtain scoped held budgets where s: "keep_stages (resolution_stages ask) gs = Inr scoped"
    and h: "keep_or ''ASSET_SCOPE_MISMATCH'' (\<lambda>g. token \<in> set (asset_scopes g)) scoped = Inr held"
    and b: "grants_with_budget db now (az_amount_usdc ask) held = Inr budgets"
    and rest: "(if az_authorization_rail ask = ''external_x402''
       then Inr (resolved_external ask (arg_min_list (\<lambda>b.
          (spending_grant_id (budget_grant b), grant_wallet_identity_id (budget_grant b))) budgets))
       else let candidates = budget_candidates db ask budgets in
         if candidates = [] then Inl ''ASSET_ALLOWANCE_REQUIRED''
         else case arg_min_list candidate_key candidates of (b, a) \<Rightarrow> Inr (resolved_allowance ask b a)) = Inr res"
    and asset: "Option.bind (az_asset ask) canonicalize_evm_address \<in> {None, Some token}"
    using r f by (auto simp: resolve_grants_def resolution_token_def tok follows_def and_then_eq_Inr split: if_split_asm)
  have scoped: "set scoped = {g \<in> set gs. \<forall>(reason, p) \<in> set (resolution_stages ask). p g}"
    using keep_stages_Inr [OF s] by simp
  have "scoped \<noteq> []" using h by (auto simp: keep_or_Inr)
  then obtain x where "x \<in> set scoped" by (cases scoped) auto
  then have venue: "reviewed_venue ask" and tier: "az_product ask = ''transfers'' \<longrightarrow> az_merchant_trust_tier ask = None"
    by (auto simp: scoped resolution_stages_def trust_tier_ok_def)
  have "(\<forall>(reason, p) \<in> set (resolution_stages ask). p g) \<and> token \<in> set (asset_scopes g) \<and>
      g \<in> set gs \<and> az_amount_usdc ask \<le> per_transaction_limit_usdc g \<and>
      used_amount_usdc g + reserved_amount_usdc g + az_amount_usdc ask \<le> max_amount_usdc g \<and>
      within_hour db now (az_amount_usdc ask) g \<and> within_day db (date_of now) (az_amount_usdc ask) g
    \<longleftrightarrow> chosen_from token req ctx db g" for g
    using stages_agree [OF f venue, of g] tier f
    by (auto simp: chosen_from_def may_spend_def gs follows_def)
  moreover have "set held = {g \<in> set gs. (\<forall>(reason, p) \<in> set (resolution_stages ask). p g) \<and> token \<in> set (asset_scopes g)}"
    using h scoped by (auto simp: keep_or_Inr)
  ultimately have "{g \<in> set held. az_amount_usdc ask \<le> per_transaction_limit_usdc g \<and>
      used_amount_usdc g + reserved_amount_usdc g + az_amount_usdc ask \<le> max_amount_usdc g \<and>
      within_hour db now (az_amount_usdc ask) g \<and> within_day db (date_of now) (az_amount_usdc ask) g}
    = {g. chosen_from token req ctx db g}"
    by (intro set_eqI) (simp only: mem_Collect_eq, blast)
  then have "set budgets = grant_budget_of db now ` {g. chosen_from token req ctx db g}"
    unfolding grants_with_budget_Inr(2) [OF b] by (simp only:)
  with grants_with_budget_Inr(1) [OF b] show ?thesis
    using rest asset by (intro that [of budgets]) (auto simp: Let_def split: if_splits prod.splits)
qed

section \<open>Addresses and atomic amounts\<close>

lemma char_120 [simp]: "char_of (120::nat) = CHR ''x''"
  by code_simp

lemma canonicalize_lower: "canonicalize_evm_address s = Some t \<Longrightarrow> t = lower s"
proof -
  assume c: "canonicalize_evm_address s = Some t"
  then obtain a b cs where s: "s = a # b # cs"
    by (cases s; cases "tl s") (auto simp: canonicalize_evm_address_def split: if_splits)
  with c show ?thesis
    by (auto simp: canonicalize_evm_address_def lower_def lower_char_def is_upper_char_def split: if_splits)
qed

lemma canonical_is_lower: "canonicalize_evm_address s = Some s \<Longrightarrow> lower s = s"
  by (drule canonicalize_lower) simp

lemma atomic_matches_whole: "atomic_matches amount decimals n \<longleftrightarrow> whole_atomic amount decimals = Some n"
  by (auto simp: atomic_matches_def whole_atomic_def Let_def)

lemma asset_agrees:
  assumes f: "follows token ask res req ctx now" and t: "canonicalize_evm_address token = Some token"
    and b: "Option.bind (az_asset ask) canonicalize_evm_address \<in> {None, Some token}"
    and a: "aa_token_address a = token"
  shows "allowance_matches_asset a ask \<longleftrightarrow>
    lower (req_asset req) \<in> {lower (aa_token_symbol a), lower (aa_token_address a)}"
proof (cases "canonicalize_evm_address (req_asset req)")
  case None
  then have "lower (req_asset req) \<noteq> lower token"
    using f t canonical_is_lower [OF t] by (auto simp: follows_def)
  then show ?thesis using f a None by (auto simp: allowance_matches_asset_def follows_def)
next
  case (Some address)
  then have "address = token" "lower (req_asset req) = token"
    using f b canonicalize_lower [OF Some] by (auto simp: follows_def)
  then show ?thesis
    using f a Some canonical_is_lower [OF t] by (auto simp: allowance_matches_asset_def follows_def)
qed

section \<open>Committing\<close>

lemma arg_min_list_le: "x \<in> set xs \<Longrightarrow> f (arg_min_list f xs) \<le> (f x :: 'b :: linorder)"
  by (cases "xs = []") (auto simp: f_arg_min_list_f)

lemma commit_some:
  assumes m: "may_spend req ctx db g" and t: "tables_ok sha256 (ctx_now ctx) db"
    and rid: "ctx_reservation_id ctx \<notin> rolling_reservation_id ` set (rolling_usages db)"
  shows "\<exists>db'. commit_budget_reservation sha256 g (ctx_amount ctx) (ctx_now ctx) (ctx_reservation_id ctx) db = Inr db'"
proof -
  let ?gid = "spending_grant_id g" and ?day = "date_of (ctx_now ctx)"
  have g: "g \<in> set (spending_grants db)" using m by (simp add: may_spend_def active_grants_def)
  have room: "daily_total (daily_usage db ?gid ?day) + ctx_amount ctx \<le> daily_limit_usdc g"
    using m by (simp add: may_spend_def within_day_def)
  obtain db1 where e: "ensure_daily_usage sha256 ?gid ?day (ctx_now ctx) db = Inr db1"
    and same: "daily_total (daily_usage db1 ?gid ?day) = daily_total (daily_usage db ?gid ?day)"
      "rolling_usages db1 = rolling_usages db"
  proof (cases "daily_usage db ?gid ?day")
    case None
    let ?new = "\<lparr>daily_usage_id = daily_usage_id_of sha256 ?gid ?day, daily_spending_grant_id = ?gid,
       daily_usage_date = ?day, daily_used_usdc = 0, daily_reserved_usdc = 0,
       daily_created_at = ctx_now ctx, daily_updated_at = ctx_now ctx\<rparr>"
    have none: "u \<in> set (daily_usages db) \<Longrightarrow> \<not> in_usage ?gid ?day u" for u
      using None unfolding daily_usage_sel sel_by_None in_usage_key by (metis imageI)
    then have "\<not> list_ex (\<lambda>u. daily_usage_id u = daily_usage_id_of sha256 ?gid ?day) (daily_usages db)"
      using t g by (auto simp: tables_ok_def list_ex_iff)
    then have "ensure_daily_usage sha256 ?gid ?day (ctx_now ctx) db = Inr (db\<lparr>daily_usages := daily_usages db @ [?new]\<rparr>)"
      using None by (simp add: ensure_daily_usage_def)
    moreover have "daily_usage (db\<lparr>daily_usages := daily_usages db @ [?new]\<rparr>) ?gid ?day = Some ?new"
      using None unfolding daily_usage_sel sel_by_None
      by (simp, intro sel_by_append_new) (simp_all add: usage_key_def)
    ultimately show ?thesis using that None by (simp add: daily_total_def)
  next
    case (Some u)
    then show ?thesis using that by (simp add: ensure_daily_usage_def)
  qed
  moreover have "\<not> list_ex (\<lambda>x. rolling_reservation_id x = ctx_reservation_id ctx) (rolling_usages db)"
    using rid unfolding list_ex_iff by (metis imageI)
  ultimately show ?thesis
    using room
    by (simp add: commit_budget_reservation_def Let_def add_rolling_def update_usage_def update_grant_def)
qed

lemma commit_selection_some:
  assumes "may_spend req ctx db g" "tables_ok sha256 (ctx_now ctx) db"
    and "ctx_reservation_id ctx \<notin> rolling_reservation_id ` set (rolling_usages db)"
    and "req_opc_installation_id req = None" "ctx_expected ctx = Some key"
  shows "\<exists>db'. commit_selection sha256 req ctx g key sel db = Inr (db', sel)"
  using commit_some [OF assms(1-3)] assms(4,5)
  by (auto simp: commit_selection_def selection_current_def opt_all_def require_opc_installation_authority_def)

section \<open>A ready resolution can be reserved\<close>

lemma chosen_unique:
  assumes "tables_ok sha256 now db" "chosen_from token req ctx db g" "chosen_from token req ctx db h"
    and "spending_grant_id g = spending_grant_id h"
  shows "g = h"
  using assms by (auto simp: tables_ok_def chosen_from_def may_spend_def active_grants_def intro: key_unique)

lemma external_reserved:
  assumes f: "follows token ask res req ctx now" and t: "tables_ok sha256 now db"
    and rail: "az_authorization_rail ask = ''external_x402''"
    and c: "canonicalize_evm_address token = Some token"
    and rid: "ctx_reservation_id ctx \<notin> rolling_reservation_id ` set (rolling_usages db)"
    and budgets: "budgets \<noteq> []" "set budgets = grant_budget_of db now ` {g. chosen_from token req ctx db g}"
    and res: "res = resolved_external ask
       (arg_min_list (\<lambda>b. (spending_grant_id (budget_grant b), grant_wallet_identity_id (budget_grant b))) budgets)"
  shows "\<exists>db' sel. reserve_unified_budget sha256 req ctx db = Inr (db', sel) \<and> selection_key.truncate sel = resolved_key res"
proof -
  let ?key = "\<lambda>g. (spending_grant_id g, grant_wallet_identity_id g)"
  define b where "b = arg_min_list (\<lambda>b. ?key (budget_grant b)) budgets"
  have "b \<in> set budgets" unfolding b_def using budgets(1) by (rule arg_min_list_in)
  then obtain g where g: "chosen_from token req ctx db g" "b = grant_budget_of db now g"
    using budgets(2) by auto
  have low: "lower token = token" using c by (rule canonical_is_lower)
  obtain gs where gs: "eligible_grants db req (ctx_user_id ctx) (ctx_agent_id ctx) (ctx_amount ctx) (ctx_now ctx) = Inr gs"
    "set gs = {g. may_spend req ctx db g}"
    using g(1) eligible_some by (metis chosen_from_def)
  have cand: "set (filter (grant_asset_ok token) gs) = {g. chosen_from token req ctx db g}"
    using t gs(2) by (auto simp: chosen_from_def grant_asset_ok_def tables_ok_def may_spend_def active_grants_def
        image_iff)
  have min: "arg_min_list ?key (filter (grant_asset_ok token) gs) = g"
  proof (rule arg_min_list_unique)
    show "g \<in> set (filter (grant_asset_ok token) gs)" using cand g(1) by blast
    fix h assume "h \<in> set (filter (grant_asset_ok token) gs)"
    then have h: "chosen_from token req ctx db h" using cand by blast
    then have "grant_budget_of db now h \<in> set budgets" using budgets(2) by blast
    from arg_min_list_le [OF this, of "\<lambda>b. ?key (budget_grant b)"] g(2)
    show "?key g \<le> ?key h" by (simp add: b_def [symmetric])
    show "h = g" if "?key h = ?key g" using chosen_unique [OF t h g(1)] that by simp
  qed
  have ne: "filter (grant_asset_ok token) gs \<noteq> []" using cand g(1) by (metis empty_iff empty_set mem_Collect_eq)
  have key: "resolved_key res = \<lparr>sel_wallet_identity_id = grant_wallet_identity_id g,
      sel_spending_grant_id = spending_grant_id g, sel_asset_allowance_id = None\<rparr>"
    by (simp add: res b_def [symmetric] g(2) resolved_key_def resolved_external_def Let_def)
  have atomic: "atomic_matches (ctx_amount ctx) (ctx_external_decimals ctx)
      \<lfloor>scale10 (az_amount_usdc ask) (ctx_external_decimals ctx)\<rfloor>"
    using f rail by (auto simp: follows_def atomic_matches_def whole_atomic_def Let_def split: if_splits)
  let ?sel = "selection_with (resolved_key res) token (ctx_external_decimals ctx) (ctx_external_symbol ctx)
      None (date_of (ctx_now ctx))"
  obtain db' where "commit_selection sha256 req ctx g (resolved_key res) ?sel db = Inr (db', ?sel)"
    using commit_selection_some [of req ctx db g sha256 "resolved_key res" ?sel] g(1) t rid f
    by (auto simp: chosen_from_def follows_def)
  then have "reserve_external sha256 req ctx gs
      \<lfloor>scale10 (az_amount_usdc ask) (ctx_external_decimals ctx)\<rfloor> db = Inr (db', ?sel)"
    using f low ne atomic key by (simp add: reserve_external_def Let_def follows_def min)
  moreover have "trusted_spender db req (ctx_expected ctx) (ctx_canonical_token ctx) = Inr None"
    using f rail by (simp add: trusted_spender_def follows_def ALLOWANCE_RAILS_def)
  ultimately have "reserve_unified_budget sha256 req ctx db = Inr (db', ?sel)"
    using f rail gs(1) by (simp add: reserve_unified_budget_def follows_def)
  then show ?thesis by (auto simp: selection_with_def selection_key.defs)
qed

lemma candidates_set:
  "set (budget_candidates db ask budgets) = {(b, a). b \<in> set budgets \<and> a \<in> set (asset_allowances db) \<and>
     aa_wallet_identity_id a = grant_wallet_identity_id (budget_grant b) \<and>
     allowance_candidate ask (budget_grant b) a}"
  by (auto simp: budget_candidates_def allowances_of_def)

text \<open>The pairs the ledger may take, given the atomic amount of the resolution.\<close>

definition funded_pairs ::
  "string \<Rightarrow> resolution_request \<Rightarrow> reservation_request \<Rightarrow> reserve_context \<Rightarrow> int \<Rightarrow> string \<Rightarrow> funding_db
     \<Rightarrow> (spending_grant_row \<times> asset_allowance_row) set" where
  "funded_pairs token ask req ctx atomic spender db =
     {(g, a). chosen_from token req ctx db g \<and> a \<in> set (asset_allowances db) \<and>
        aa_wallet_identity_id a = grant_wallet_identity_id g \<and> aa_status a = ''active'' \<and>
        aa_network a = az_network ask \<and> aa_token_address a = token \<and> aa_spender_address a = spender \<and>
        allowance_matches_asset a ask \<and>
        whole_atomic (az_amount_usdc ask) (aa_token_decimals a) = Some atomic \<and>
        atomic \<le> observed_allowance_atomic a}"

lemma choose_pair_funded:
  assumes f: "follows token ask res req ctx now" and t: "canonicalize_evm_address token = Some token"
    and b: "Option.bind (az_asset ask) canonicalize_evm_address \<in> {None, Some token}"
    and gs: "set gs = {g. may_spend req ctx db g}"
    and p: "p \<in> funded_pairs token ask req ctx atomic spender db"
    and least: "\<And>q. q \<in> funded_pairs token ask req ctx atomic spender db \<Longrightarrow>
      pair_key p \<le> pair_key q \<and> (pair_key q = pair_key p \<longrightarrow> q = p)"
  shows "choose_pair req (ctx_amount ctx) atomic
    (List.product gs (matching_allowances db req (ctx_canonical_token ctx) (Some spender) gs)) = Inr p"
proof -
  let ?pairs = "List.product gs (matching_allowances db req (ctx_canonical_token ctx) (Some spender) gs)"
  define assets where "assets = filter (asset_pair_matches req) ?pairs"
  define exact where "exact = filter (\<lambda>(g, a). atomic_matches (ctx_amount ctx) (aa_token_decimals a) atomic) assets"
  define funded where "funded = filter (\<lambda>(g, a). atomic \<le> observed_allowance_atomic a) exact"
  have tok: "ctx_canonical_token ctx = token" "req_network req = az_network ask" "ctx_amount ctx = az_amount_usdc ask"
    using f by (simp_all add: follows_def)
  have "(g, a) \<in> set funded \<longleftrightarrow> (g, a) \<in> funded_pairs token ask req ctx atomic spender db" for g a
  proof (cases "aa_token_address a = token")
    case True
    have "allowance_matches_asset a ask \<longleftrightarrow>
        lower (req_asset req) \<in> {lower (aa_token_symbol a), lower (aa_token_address a)}"
      using f t b True by (rule asset_agrees)
    then show ?thesis
      using gs True
      by (auto simp: funded_def exact_def assets_def matching_allowances_def asset_pair_matches_def
          funded_pairs_def chosen_from_def atomic_matches_whole tok opt_all_def)
  next
    case False
    then show ?thesis
      by (simp add: funded_def exact_def assets_def matching_allowances_def funded_pairs_def tok)
  qed
  then have set: "set funded = funded_pairs token ask req ctx atomic spender db" by auto
  then have ne: "funded \<noteq> []" using p by (metis empty_iff empty_set)
  moreover have "exact \<noteq> []" using ne by (metis filter.simps(1) funded_def)
  moreover have "arg_min_list pair_key funded = p"
    using p least by (intro arg_min_list_unique) (auto simp: set)
  ultimately show ?thesis
    unfolding choose_pair_def Let_def assets_def [symmetric] exact_def [symmetric] funded_def [symmetric] by simp
qed

lemma allowance_reserved:
  assumes f: "follows token ask res req ctx now" and t: "tables_ok sha256 now db"
    and rail: "az_authorization_rail ask \<noteq> ''external_x402''"
    and c: "canonicalize_evm_address token = Some token"
    and rid: "ctx_reservation_id ctx \<notin> rolling_reservation_id ` set (rolling_usages db)"
    and budgets: "set budgets = grant_budget_of db now ` {g. chosen_from token req ctx db g}"
    and ne: "budget_candidates db ask budgets \<noteq> []"
    and res: "res = (case arg_min_list candidate_key (budget_candidates db ask budgets) of (b, a) \<Rightarrow> resolved_allowance ask b a)"
    and bind: "Option.bind (az_asset ask) canonicalize_evm_address \<in> {None, Some token}"
  shows "\<exists>db' sel. reserve_unified_budget sha256 req ctx db = Inr (db', sel) \<and> selection_key.truncate sel = resolved_key res"
proof -
  obtain b a where ba: "arg_min_list candidate_key (budget_candidates db ask budgets) = (b, a)" by force
  have "(b, a) \<in> set (budget_candidates db ask budgets)" using arg_min_list_in [OF ne, of candidate_key] ba by simp
  then obtain g where g: "chosen_from token req ctx db g" "b = grant_budget_of db now g"
    and a: "a \<in> set (asset_allowances db)" "aa_wallet_identity_id a = grant_wallet_identity_id g"
      "allowance_candidate ask g a"
    using budgets by (auto simp: candidates_set)
  obtain n where n: "whole_atomic (az_amount_usdc ask) (aa_token_decimals a) = Some n" "n \<le> observed_allowance_atomic a"
    using a(3) by (auto simp: allowance_candidate_def split: option.splits)
  have tok: "aa_token_address a = token"
    using a(3) f by (auto simp: allowance_candidate_def allowance_matches_asset_def follows_def)
  have key: "resolved_key res = \<lparr>sel_wallet_identity_id = grant_wallet_identity_id g,
      sel_spending_grant_id = spending_grant_id g, sel_asset_allowance_id = Some (asset_allowance_id a)\<rparr>"
    and req_n: "required_amount_atomic res = Some n"
    using n by (simp_all add: res ba g(2) resolved_key_def resolved_allowance_def Let_def)
  let ?F = "funded_pairs token ask req ctx n (aa_spender_address a) db"
  have p: "(g, a) \<in> ?F"
    using g a n tok by (auto simp: funded_pairs_def allowance_candidate_def)
  have least: "pair_key (g, a) \<le> pair_key q \<and> (pair_key q = pair_key (g, a) \<longrightarrow> q = (g, a))" if q: "q \<in> ?F" for q
  proof
    obtain h a' where q': "q = (h, a')" by force
    have h: "chosen_from token req ctx db h" "a' \<in> set (asset_allowances db)"
      using q by (auto simp: q' funded_pairs_def)
    have "allowance_candidate ask h a'"
      using q a(3) by (auto simp: q' funded_pairs_def allowance_candidate_def chosen_from_def)
    then have "(grant_budget_of db now h, a') \<in> set (budget_candidates db ask budgets)"
      using q budgets by (auto simp: candidates_set q' funded_pairs_def)
    from arg_min_list_le [OF this, of candidate_key] show "pair_key (g, a) \<le> pair_key q"
      by (simp add: ba candidate_key_def pair_key_def q' g(2))
    show "pair_key q = pair_key (g, a) \<longrightarrow> q = (g, a)"
      using chosen_unique [OF t h(1) g(1)] t a(1) h(2)
      by (auto simp: q' pair_key_def tables_ok_def intro: key_unique)
  qed
  obtain gs where gs: "eligible_grants db req (ctx_user_id ctx) (ctx_agent_id ctx) (ctx_amount ctx) (ctx_now ctx) = Inr gs"
    "set gs = {g. may_spend req ctx db g}"
    using g(1) eligible_some by (metis chosen_from_def)
  have pair: "choose_pair req (ctx_amount ctx) n (List.product gs
      (matching_allowances db req (ctx_canonical_token ctx) (Some (aa_spender_address a)) gs)) = Inr (g, a)"
    by (rule choose_pair_funded [OF f c bind gs(2) p least])
  let ?sel = "selection_with (resolved_key res) (aa_token_address a) (aa_token_decimals a) (aa_token_symbol a)
      (Some (aa_spender_address a)) (date_of (ctx_now ctx))"
  obtain db' where s: "commit_selection sha256 req ctx g (resolved_key res) ?sel db = Inr (db', ?sel)"
    using commit_selection_some [of req ctx db g sha256 "resolved_key res" ?sel] g(1) t rid f
    by (auto simp: chosen_from_def follows_def)
  have "reserve_allowance sha256 req ctx (Some (aa_spender_address a)) gs n db = Inr (db', ?sel)"
    using pair s by (simp add: reserve_allowance_def key)
  moreover have "sel_by asset_allowance_id (asset_allowance_id a) (asset_allowances db) = Some a"
    using t a(1) by (auto simp: tables_ok_def intro: sel_by_eq)
  then have "trusted_spender db req (ctx_expected ctx) (ctx_canonical_token ctx) = Inr (Some (aa_spender_address a))"
    using f rail a(3) tok key
    by (auto simp: trusted_spender_def follows_def allowance_candidate_def)
  ultimately have "reserve_unified_budget sha256 req ctx db = Inr (db', ?sel)"
    using f rail gs(1) req_n by (simp add: reserve_unified_budget_def follows_def)
  then show ?thesis by (auto simp: selection_with_def selection_key.defs)
qed

lemma resolved_reserved:
  assumes r: "resolve_authorization registry now ask None db = Inr (db', res)" "ready res"
    and reg: "registry (az_network ask) = Some token" "canonicalize_evm_address token = Some token"
    and f: "follows token ask res req ctx now" and t: "tables_ok sha256 now db'"
    and rid: "ctx_reservation_id ctx \<notin> rolling_reservation_id ` set (rolling_usages db')"
  shows "\<exists>db'' sel. reserve_unified_budget sha256 req ctx db' = Inr (db'', sel) \<and>
    selection_key.truncate sel = resolved_key res"
proof -
  define ids where "ids = active_identities db (az_user_id ask)"
  have none: "az_opc_installation_id ask = None" using f by (simp add: follows_def)
  define own :: "spending_grant_row list \<Rightarrow> spending_grant_row list" where
    "own = filter (\<lambda>g. grant_wallet_identity_id g \<in> wallet_identity_id ` set ids
        \<and> grant_agent_id g = az_agent_id ask)"
  have failure: "\<not> ready (resolution_failure ask reason)" for reason by (simp add: resolution_failure_def)
  have "ids \<noteq> []"
    using r none failure by (auto simp: resolve_authorization_def opt_all_def ids_def [symmetric])
  then have "and_then (active_spending_grants (az_user_id ask) now db) (\<lambda>(db', listed). Inr (db',
      if own listed = [] then resolution_failure ask ''SPENDING_GRANT_REQUIRED''
      else case resolve_grants registry now ask (own listed) db' of
          Inl reason \<Rightarrow> resolution_failure ask reason | Inr result \<Rightarrow> result)) = Inr (db', res)"
    using r(1) none by (simp add: resolve_authorization_def opt_all_def ids_def [symmetric] own_def cong: if_cong)
  then obtain listed where l: "active_spending_grants (az_user_id ask) now db = Inr (db', listed)"
    and e: "res = (if own listed = [] then resolution_failure ask ''SPENDING_GRANT_REQUIRED''
      else case resolve_grants registry now ask (own listed) db' of
          Inl reason \<Rightarrow> resolution_failure ask reason | Inr result \<Rightarrow> result)"
    by (auto simp: and_then_eq_Inr)
  have ne: "own listed \<noteq> []" using e r(2) failure by (cases "own listed = []") simp_all
  have res: "resolve_grants registry now ask (own listed) db' = Inr res"
  proof (cases "resolve_grants registry now ask (own listed) db'")
    case (Inl reason)
    then have "res = resolution_failure ask reason" using e ne by simp
    then show ?thesis using r(2) failure by simp
  next
    case (Inr result)
    then show ?thesis using e ne by simp
  qed
  have "ids = active_identities db' (az_user_id ask)"
    by (simp add: ids_def active_listed(2) [OF l] active_identities_def)
  then have "set (own listed) = set (active_grants db' (az_user_id ask) (az_agent_id ask) now)"
    using active_listed(1) [OF l] by (auto simp: active_grants_def own_def)
  from resolve_grantsE [OF f reg(1) this res] obtain budgets where b: "budgets \<noteq> []"
    "set budgets = grant_budget_of db' now ` {g. chosen_from token req ctx db' g}"
    "az_authorization_rail ask = ''external_x402'' \<Longrightarrow> res = resolved_external ask
       (arg_min_list (\<lambda>b. (spending_grant_id (budget_grant b), grant_wallet_identity_id (budget_grant b))) budgets)"
    "az_authorization_rail ask \<noteq> ''external_x402'' \<Longrightarrow> budget_candidates db' ask budgets \<noteq> []"
    "az_authorization_rail ask \<noteq> ''external_x402'' \<Longrightarrow>
       res = (case arg_min_list candidate_key (budget_candidates db' ask budgets) of (b, a) \<Rightarrow> resolved_allowance ask b a)"
    "Option.bind (az_asset ask) canonicalize_evm_address \<in> {None, Some token}"
    by blast
  show ?thesis
  proof (cases "az_authorization_rail ask = ''external_x402''")
    case True
    then show ?thesis using external_reserved [OF f t _ reg(2) rid b(1,2)] b(3) by simp
  next
    case False
    then show ?thesis using allowance_reserved [OF f t False reg(2) rid b(2) b(4) b(5) b(6)] by simp
  qed
qed

end
