(* ===== verification/Grant_Planning.thy ===== *)
theory Grant_Planning
  imports Account_Grants Authorization_Resolution Service_Pricing
begin

text \<open>
  Planning a grant from the embedded form (\<open>apps/core/services/account_service/authorization.py\<close>):
  the reviewed product and venue pairs, the terms of a new grant or of an amendment, and the
  advice on the allowance it needs. A \<open>Decimal\<close> is an exact rational here as in the ledger;
  \<open>USDCAmount\<close> bounds it to 38 digits, six of them decimals.
\<close>

section \<open>Amounts\<close>

definition USDC_SCALE :: rat where
  "USDC_SCALE = 1000000"

definition usdc_amount :: "rat \<Rightarrow> bool" where
  "usdc_amount q \<longleftrightarrow> of_int \<lfloor>q * USDC_SCALE\<rfloor> = q * USDC_SCALE \<and> \<bar>q\<bar> < 10 ^ 32"

definition validate_usdc_amount :: "rat \<Rightarrow> string \<Rightarrow> bool \<Rightarrow> py_error + rat" where
  "validate_usdc_amount q field positive =
     (if q < 0 \<or> (positive \<and> q \<le> 0)
      then Inl (ValueErr (field @ '' must be '' @ (if positive then ''positive'' else ''non-negative'')))
      else if \<not> usdc_amount q
      then Inl (ValueErr (field @ '' must be a finite USDC amount with at most 38 digits and 6 decimal places''))
      else Inr q)"

definition atomic_usdc :: "rat \<Rightarrow> py_error + int" where
  "atomic_usdc q =
     (if of_int \<lfloor>q * USDC_SCALE\<rfloor> \<noteq> q * USDC_SCALE
      then Inl (ValueErr ''USDC amount cannot be represented in atomic units'')
      else if \<not> (0 \<le> \<lfloor>q * USDC_SCALE\<rfloor> \<and> \<lfloor>q * USDC_SCALE\<rfloor> \<le> UINT256_CEILING)
      then Inl (ValueErr ''USDC amount exceeds uint256 atomic range'')
      else Inr \<lfloor>q * USDC_SCALE\<rfloor>)"

text \<open>\<open>_format_usdc\<close> of a non-negative USDC amount: no trailing zeros, no trailing point.\<close>

definition format_usdc :: "rat \<Rightarrow> string" where
  "format_usdc q =
     (let n = nat \<lfloor>q * USDC_SCALE\<rfloor>; fraction = rstrip_zeros (pad_left 6 (show_nat (n mod 1000000)))
      in show_nat (n div 1000000) @ (if fraction = '''' then '''' else ''.'' @ fraction))"

section \<open>Scopes\<close>

definition has_control_char :: "string \<Rightarrow> bool" where
  "has_control_char s \<longleftrightarrow> list_ex is_control_char s"

text \<open>\<open>strip()\<close>, where control characters are refused before: only spaces are left to strip.\<close>

definition strip_spaces :: "string \<Rightarrow> string" where
  "strip_spaces s = rev (dropWhile (\<lambda>c. c = CHR '' '') (rev (dropWhile (\<lambda>c. c = CHR '' '') s)))"

fun normalized_scopes :: "string \<Rightarrow> string list \<Rightarrow> py_error + string list" where
  "normalized_scopes field [] = Inr []"
| "normalized_scopes field (s # scopes) =
     (if has_control_char s
      then Inl (ValueErr ''message fields must not contain control characters'')
      else if lower (strip_spaces s) = ''''
      then Inl (ValueErr (field @ '' scopes must not contain empty values''))
      else and_then (normalized_scopes field scopes) (\<lambda>rest. Inr (lower (strip_spaces s) # rest)))"

definition sorted_set :: "string list \<Rightarrow> string list" where
  "sorted_set xs = sort (remdups xs)"

definition normalize_scope_list :: "string \<Rightarrow> string list \<Rightarrow> py_error + string list" where
  "normalize_scope_list field scopes =
     and_then (normalized_scopes field scopes) (\<lambda>xs. Inr (sorted_set xs))"

definition REVIEWED_PRODUCT_SCOPES :: "string list" where
  "REVIEWED_PRODUCT_SCOPES = [''marketplace'', ''transfers'']"

definition REVIEWED_VENUE_SCOPES :: "string list" where
  "REVIEWED_VENUE_SCOPES = map snd REVIEWED_VENUE_BY_PRODUCT"

definition venue_of :: "string \<Rightarrow> string" where
  "venue_of product =
     (case map_of REVIEWED_VENUE_BY_PRODUCT product of Some v \<Rightarrow> v | None \<Rightarrow> '''')"

definition without :: "string list \<Rightarrow> string list \<Rightarrow> string list" where
  "without xs ys = filter (\<lambda>x. x \<notin> set ys) xs"

definition reviewed_scope_selection ::
  "string list \<Rightarrow> string list \<Rightarrow> string list \<Rightarrow> py_error + (string list \<times> string list)" where
  "reviewed_scope_selection products venues selected =
     (if selected = [] \<or> \<not> set selected \<subseteq> set REVIEWED_PRODUCT_SCOPES
      then Inl (ValueErr ''product selection must include only reviewed products'')
      else if products \<noteq> [] \<and> venues = []
      then Inl (ValueErr ''cannot amend a wildcard venue scope'')
      else Inr (sorted_set (without products REVIEWED_PRODUCT_SCOPES @ selected),
                sorted_set (without venues REVIEWED_VENUE_SCOPES @ map venue_of selected)))"

text \<open>The test reads its lists as sets.\<close>

definition same_set :: "string list \<Rightarrow> string list \<Rightarrow> bool" where
  "same_set xs ys \<longleftrightarrow> set xs = set ys"

definition reviewed_scope_amendment_is_valid ::
  "string list \<Rightarrow> string list \<Rightarrow> string list \<Rightarrow> string list \<Rightarrow> bool" where
  "reviewed_scope_amendment_is_valid products venues new_products new_venues \<longleftrightarrow>
     (if same_set new_products products \<and> same_set new_venues venues then True
      else if new_products = [] then False
      else if \<not> same_set (without new_products REVIEWED_PRODUCT_SCOPES) (without products REVIEWED_PRODUCT_SCOPES)
      then False
      else if \<not> same_set (without new_venues REVIEWED_VENUE_SCOPES) (without venues REVIEWED_VENUE_SCOPES)
      then False
      else same_set new_venues (without venues REVIEWED_VENUE_SCOPES @
        map venue_of (filter (\<lambda>p. p \<in> set REVIEWED_PRODUCT_SCOPES) new_products)))"

section \<open>Terms\<close>

record authorization_form =
  form_wallet_identity_id :: string
  form_network :: string
  form_total_usdc :: rat
  form_hourly_usdc :: rat
  form_duration_days :: "int option"
  form_spending_grant_id :: "string option"
  form_products :: "string list option"

text \<open>The form's validators, in the order of its fields.\<close>

definition safe_identifier :: "string \<Rightarrow> nat \<Rightarrow> bool" where
  "safe_identifier s n \<longleftrightarrow>
     s \<noteq> '''' \<and> length s \<le> n \<and> \<not> has_control_char s \<and> strip_spaces s \<noteq> ''''"

definition valid_form :: "authorization_form \<Rightarrow> bool" where
  "valid_form f \<longleftrightarrow>
     safe_identifier (form_wallet_identity_id f) 96 \<and> safe_identifier (form_network f) 64 \<and>
     0 < form_total_usdc f \<and> usdc_amount (form_total_usdc f) \<and> 0 < form_hourly_usdc f \<and> usdc_amount (form_hourly_usdc f) \<and>
     opt_all (\<lambda>d. 1 \<le> d \<and> d \<le> 365) (form_duration_days f) \<and>
     opt_all (\<lambda>s. safe_identifier s 96) (form_spending_grant_id f) \<and>
     opt_all (\<lambda>ps. ps \<noteq> [] \<and> set ps \<subseteq> set REVIEWED_PRODUCT_SCOPES \<and> sorted_set ps = ps) (form_products f)"

text \<open>The terms of a \<open>SpendingGrantRequest\<close>; the browser gets all of them but the user id.\<close>

record grant_terms =
  terms_user_id :: string
  terms_wallet_identity_id :: string
  terms_agent_id :: string
  terms_max :: rat
  terms_per_transaction :: rat
  terms_hourly :: rat
  terms_daily :: rat
  terms_products :: "string list"
  terms_venues :: "string list"
  terms_merchants :: "string list"
  terms_trust :: "string list"
  terms_notification :: string
  terms_networks :: "string list"
  terms_assets :: "string list"
  terms_starts_at :: int
  terms_expires_at :: int
  terms_amends :: "string option"

fun canonical_assets :: "string list \<Rightarrow> py_error + string list" where
  "canonical_assets [] = Inr []"
| "canonical_assets (s # ss) =
     and_then (lift_opt (ValueErr ''EVM address must be 0x followed by 40 hex characters'')
       (canonicalize_evm_address s)) (\<lambda>a. and_then (canonical_assets ss) (\<lambda>as. Inr (a # as)))"

definition require_some :: "'a list \<Rightarrow> string \<Rightarrow> py_error + unit" where
  "require_some xs what =
     reject_if (xs = []) (''at least one '' @ what @ '' scope is required'')"

text \<open>\<open>_validate_grant_policy\<close> reads only the amounts and dates of what it is given.\<close>

definition validate_terms_policy :: "grant_terms \<Rightarrow> py_error + unit" where
  "validate_terms_policy t =
     (if terms_max t \<le> 0 \<or> terms_per_transaction t \<le> 0 \<or> terms_hourly t \<le> 0 \<or> terms_daily t \<le> 0
      then Inl (ValueErr ''grant amounts must be positive'')
      else if terms_max t < terms_per_transaction t
      then Inl (ValueErr ''per-transaction limit exceeds total grant'')
      else if terms_hourly t < terms_per_transaction t
      then Inl (ValueErr ''per-transaction limit exceeds hourly limit'')
      else if terms_daily t < terms_hourly t
      then Inl (ValueErr ''hourly limit exceeds daily limit'')
      else if terms_max t < terms_daily t
      then Inl (ValueErr ''daily limit exceeds total grant'')
      else if terms_expires_at t \<le> terms_starts_at t
      then Inl (ValueErr ''starts_at must be before expires_at'')
      else Inr ())"

text \<open>The validators of \<open>SpendingGrantRequest\<close> on the fields that the plan fills in.\<close>

definition safe_terms :: "grant_terms \<Rightarrow> bool" where
  "safe_terms t \<longleftrightarrow>
     list_all (\<lambda>s. \<not> has_control_char s) [terms_user_id t, terms_wallet_identity_id t, terms_agent_id t] \<and>
     opt_all (\<lambda>s. length s \<le> 96 \<and> \<not> has_control_char s) (terms_amends t) \<and>
     list_all usdc_amount [terms_max t, terms_per_transaction t, terms_hourly t, terms_daily t]"

definition spending_grant_request :: "grant_terms \<Rightarrow> py_error + grant_terms" where
  "spending_grant_request t =
     and_then (reject_if (\<not> safe_terms t) ''spending grant request is invalid'') (\<lambda>_.
     and_then (require_some (terms_products t) ''product'') (\<lambda>_.
     and_then (normalize_scope_list ''product'' (terms_products t)) (\<lambda>ps.
     and_then (normalize_scope_list ''venue'' (terms_venues t)) (\<lambda>vs.
     and_then (normalize_scope_list ''merchant'' (terms_merchants t)) (\<lambda>ms.
     and_then (require_some (terms_trust t) ''merchant trust'') (\<lambda>_.
     and_then (require_some (terms_networks t) ''network'') (\<lambda>_.
     and_then (normalize_scope_list ''network'' (terms_networks t)) (\<lambda>ns.
     and_then (require_some (terms_assets t) ''asset'') (\<lambda>_.
     and_then (canonical_assets (terms_assets t)) (\<lambda>as.
     and_then (validate_terms_policy t) (\<lambda>_.
       Inr (t\<lparr>terms_products := ps, terms_venues := vs, terms_merchants := ms,
              terms_trust := sorted_set (terms_trust t), terms_networks := ns,
              terms_assets := sorted_set as\<rparr>))))))))))))"

definition new_grant_terms ::
  "authorization_form \<Rightarrow> wallet_identity_row \<Rightarrow> string \<Rightarrow> int \<Rightarrow> py_error + (string \<times> grant_terms)" where
  "new_grant_terms form identity token now =
     (case form_duration_days form of
        None \<Rightarrow> Inl (ValueErr ''duration_days is required for a new grant'')
      | Some days \<Rightarrow>
          and_then (reviewed_scope_selection [] []
            (case form_products form of None \<Rightarrow> [''marketplace''] | Some ps \<Rightarrow> ps)) (\<lambda>(ps, vs).
          Inr (''sign'',
            \<lparr>terms_user_id = wi_user_id identity,
             terms_wallet_identity_id = wallet_identity_id identity, terms_agent_id = ''hermes'',
             terms_max = form_total_usdc form, terms_per_transaction = form_hourly_usdc form,
             terms_hourly = form_hourly_usdc form, terms_daily = form_total_usdc form,
             terms_products = ps, terms_venues = vs, terms_merchants = [],
             terms_trust = [''clink_verified'', ''registry_verified''],
             terms_notification = ''silent_under_limits'',
             terms_networks = [form_network form], terms_assets = [token],
             terms_starts_at = now, terms_expires_at = now + days * MICROS_PER_DAY,
             terms_amends = None\<rparr>)))"

definition amended_grant_terms ::
  "authorization_form \<Rightarrow> wallet_identity_row \<Rightarrow> spending_grant_row \<Rightarrow> string \<Rightarrow> int
     \<Rightarrow> py_error + (string \<times> grant_terms)" where
  "amended_grant_terms form identity current token now =
     and_then (reject_if (form_duration_days form \<noteq> None) ''duration_days must be omitted for a current grant'') (\<lambda>_.
     and_then (reject_if (grant_status current \<noteq> ''active'') ''only an active grant can be amended'') (\<lambda>_.
     and_then (reject_if (Some (spending_grant_id current) \<noteq> form_spending_grant_id form)
       ''current grant does not match form'') (\<lambda>_.
     and_then (reject_if (grant_wallet_identity_id current \<noteq> wallet_identity_id identity)
       ''current grant identity does not match form'') (\<lambda>_.
     and_then (reject_if (grant_user_id current \<noteq> wi_user_id identity)
       ''current grant user does not match identity'') (\<lambda>_.
     and_then (reject_if (grant_agent_id current \<noteq> ''hermes'') ''only the Hermes grant can be amended'') (\<lambda>_.
     and_then (reject_if (\<not> (starts_at current \<le> now \<and> now < expires_at current))
       ''current grant is not active at the server time'') (\<lambda>_.
     and_then (reject_if (form_network form \<notin> set (network_scopes current))
       ''form network is outside the current grant scope'') (\<lambda>_.
     and_then (reject_if (token \<notin> set (asset_scopes current))
       ''form token is outside the current grant scope'') (\<lambda>_.
     and_then (validate_usdc_amount (used_amount_usdc current) ''used amount'' False) (\<lambda>used.
     and_then (validate_usdc_amount (reserved_amount_usdc current) ''reserved amount'' False) (\<lambda>reserved.
     and_then (reject_if (form_total_usdc form < used + reserved)
       ''total cannot be below used plus reserved amount'') (\<lambda>_.
     let daily = min (daily_limit_usdc current) (form_total_usdc form) in
     and_then (reject_if (daily < form_hourly_usdc form) ''hourly limit exceeds resulting daily limit'') (\<lambda>_.
     and_then (case form_products form of
         None \<Rightarrow> Inr (product_scopes current, venue_scopes current)
       | Some ps \<Rightarrow> reviewed_scope_selection (product_scopes current) (venue_scopes current) ps) (\<lambda>(ps, vs).
     Inr (if form_total_usdc form \<noteq> max_amount_usdc current \<or> form_hourly_usdc form \<noteq> hourly_limit_usdc current
            \<or> ps \<noteq> product_scopes current \<or> vs \<noteq> venue_scopes current then ''sign'' else ''none'',
       \<lparr>terms_user_id = wi_user_id identity,
        terms_wallet_identity_id = wallet_identity_id identity, terms_agent_id = ''hermes'',
        terms_max = form_total_usdc form,
        terms_per_transaction = min (per_transaction_limit_usdc current) (form_hourly_usdc form),
        terms_hourly = form_hourly_usdc form, terms_daily = daily,
        terms_products = ps, terms_venues = vs, terms_merchants = merchant_scopes current,
        terms_trust = merchant_trust_scopes current, terms_notification = notification_mode current,
        terms_networks = network_scopes current, terms_assets = asset_scopes current,
        terms_starts_at = starts_at current, terms_expires_at = expires_at current,
        terms_amends = Some (spending_grant_id current)\<rparr>)))))))))))))))"

definition authorization_terms ::
  "authorization_form \<Rightarrow> wallet_identity_row \<Rightarrow> spending_grant_row option \<Rightarrow> string \<Rightarrow> int
     \<Rightarrow> py_error + (string \<times> grant_terms)" where
  "authorization_terms form identity current token now =
     and_then (reject_if (wi_status identity \<noteq> ''active'') ''wallet identity is not active'') (\<lambda>_.
     and_then (reject_if (wallet_identity_id identity \<noteq> form_wallet_identity_id form)
       ''wallet identity does not match form'') (\<lambda>_.
     and_then (lift_opt (ValueErr ''EVM address must be 0x followed by 40 hex characters'')
       (canonicalize_evm_address token)) (\<lambda>selected.
     and_then (reject_if ((current = None) \<noteq> (form_spending_grant_id form = None))
       ''form grant id and current grant must agree'') (\<lambda>_.
     and_then (case current of
         None \<Rightarrow> new_grant_terms form identity selected now
       | Some g \<Rightarrow> amended_grant_terms form identity g selected now) (\<lambda>(action, terms).
     and_then (spending_grant_request terms) (\<lambda>request. Inr (action, request)))))))"

section \<open>Allowance advice\<close>

record allowance_advice =
  advice_status :: string
  required_usdc :: string
  target_usdc :: string
  target_atomic :: string
  observed_atomic :: "string option"
  exceeds_budget :: "bool option"

definition allowance_advice_for ::
  "rat \<Rightarrow> rat \<Rightarrow> rat \<Rightarrow> int option \<Rightarrow> py_error + allowance_advice" where
  "allowance_advice_for whole used per_transaction observed =
     and_then (validate_usdc_amount whole ''total amount'' False) (\<lambda>total_amount.
     and_then (validate_usdc_amount used ''used amount'' False) (\<lambda>used_amount.
     and_then (validate_usdc_amount per_transaction ''per-transaction amount'' True) (\<lambda>per_amount.
     and_then (reject_if (total_amount < used_amount) ''used amount cannot exceed total amount'') (\<lambda>_.
     and_then (reject_if (\<not> opt_all (\<lambda>n. 0 \<le> n \<and> n \<le> UINT256_CEILING) observed)
       ''observed allowance atomic amount is outside uint256'') (\<lambda>_.
     let target = total_amount - used_amount; required = min per_amount target in
     and_then (atomic_usdc target) (\<lambda>target_n.
     and_then (if target = 0 then Inr ''exhausted''
       else case observed of
         None \<Rightarrow> Inr ''unknown''
       | Some n \<Rightarrow> and_then (atomic_usdc required) (\<lambda>r.
           Inr (if r \<le> n then ''sufficient'' else ''insufficient''))) (\<lambda>status.
     Inr \<lparr>advice_status = status, required_usdc = format_usdc required, target_usdc = format_usdc target,
          target_atomic = show_int target_n, observed_atomic = map_option show_int observed,
          exceeds_budget = map_option (\<lambda>n. target_n < n) observed\<rparr>)))))))"

end
