(* ===== verification/Planning_Safety.thy ===== *)
theory Planning_Safety
  imports Grant_Planning Resolution_Safety
begin

text \<open>
  Lemmas on the planning of grants: normalising scopes twice changes nothing, and a selection of
  reviewed products changes only reviewed products and venues.
\<close>

section \<open>Normalised scopes\<close>

lemma lower_char_is_space [simp]: "lower_char c = CHR '' '' \<longleftrightarrow> c = CHR '' ''"
  by (cases c) (auto simp: lower_char_bits is_upper_char_bits)

lemma lower_char_control [simp]: "is_control_char (lower_char c) = is_control_char c"
  by (auto simp: is_control_char_def lower_char_def is_upper_char_def)

lemma lower_control [simp]: "has_control_char (lower s) = has_control_char s"
  by (simp add: has_control_char_def lower_def list_ex_iff)

lemma set_strip_spaces: "set (strip_spaces s) \<subseteq> set s"
  unfolding strip_spaces_def by (auto dest!: set_dropWhileD)

lemma strip_spaces_control: "\<not> has_control_char s \<Longrightarrow> \<not> has_control_char (strip_spaces s)"
  using set_strip_spaces [of s] by (auto simp: has_control_char_def list_ex_iff)

lemma strip_spaces_fixed:
  "hd s \<noteq> CHR '' '' \<Longrightarrow> last s \<noteq> CHR '' '' \<Longrightarrow> strip_spaces s = s"
proof -
  assume "hd s \<noteq> CHR '' ''" "last s \<noteq> CHR '' ''"
  then have "dropWhile (\<lambda>c. c = CHR '' '') s = s" "dropWhile (\<lambda>c. c = CHR '' '') (rev s) = rev s"
    by (cases s, simp_all, cases s rule: rev_cases, simp_all)
  then show ?thesis by (simp add: strip_spaces_def)
qed

lemma strip_spaces_ends: "strip_spaces s = [] \<or> hd (strip_spaces s) \<noteq> CHR '' '' \<and> last (strip_spaces s) \<noteq> CHR '' ''"
proof -
  let ?p = "\<lambda>c. c = CHR '' ''"
  define t where "t = dropWhile ?p s"
  define u where "u = dropWhile ?p (rev t)"
  have t: "t = [] \<or> hd t \<noteq> CHR '' ''" unfolding t_def using hd_dropWhile [of ?p s] by blast
  have u: "u = [] \<or> hd u \<noteq> CHR '' ''" unfolding u_def using hd_dropWhile [of ?p "rev t"] by blast
  have s: "strip_spaces s = rev u" by (simp add: strip_spaces_def u_def t_def)
  have "rev t = takeWhile ?p (rev t) @ u" by (simp add: u_def)
  then have "t = rev u @ rev (takeWhile ?p (rev t))" by (metis rev_append rev_rev_ident)
  then have "u \<noteq> [] \<Longrightarrow> hd t = hd (rev u)" by (metis hd_append2 rev_is_Nil_conv)
  moreover have "u \<noteq> [] \<Longrightarrow> t \<noteq> []" by (auto simp: u_def)
  ultimately show ?thesis using t u by (cases "u = []") (auto simp: s last_rev)
qed

text \<open>A scope as it is stored: no control character, no blank ends, lower case, not empty.\<close>

definition normal_scope :: "string \<Rightarrow> bool" where
  "normal_scope s \<longleftrightarrow> \<not> has_control_char s \<and> lower (strip_spaces s) = s \<and> s \<noteq> ''''"

definition normal_scopes :: "string list \<Rightarrow> bool" where
  "normal_scopes xs \<longleftrightarrow> list_all normal_scope xs \<and> sorted_set xs = xs"

lemma normal_scope_lower_strip:
  assumes "\<not> has_control_char s" "lower (strip_spaces s) \<noteq> ''''"
  shows "normal_scope (lower (strip_spaces s))"
proof -
  let ?t = "lower (strip_spaces s)"
  have "strip_spaces ?t = ?t"
    using strip_spaces_ends [of s] assms(2)
    by (intro strip_spaces_fixed) (auto simp: lower_def hd_map last_map)
  then show ?thesis using assms strip_spaces_control by (simp add: normal_scope_def)
qed

lemma sorted_set_idem [simp]: "sorted_set (sorted_set xs) = sorted_set xs"
  by (simp add: sorted_set_def distinct_remdups_id sorted_sort_id)

lemma set_sorted_set [simp]: "set (sorted_set xs) = set xs"
  by (simp add: sorted_set_def)

lemma sorted_set_cong: "set xs = set ys \<Longrightarrow> sorted_set xs = sorted_set ys"
  by (simp add: sorted_set_def sorted_list_of_set_sort_remdups [symmetric])

lemma normalized_scopes_normal:
  "list_all normal_scope xs \<Longrightarrow> normalized_scopes field xs = Inr xs"
  by (induction xs) (auto simp: normal_scope_def)

lemma normalized_scopes_Inr:
  "normalized_scopes field xs = Inr ys \<Longrightarrow> list_all normal_scope ys \<and> length ys = length xs"
  by (induction xs arbitrary: ys)
    (auto simp: and_then_eq_Inr normal_scope_lower_strip split: if_splits)

lemma list_all_sorted_set [simp]: "list_all p (sorted_set xs) = list_all p xs"
  by (simp add: list_all_iff)

lemma normalize_list_normal: "normal_scopes xs \<Longrightarrow> normalize_scope_list field xs = Inr xs"
  by (simp add: normalize_scope_list_def normalized_scopes_normal normal_scopes_def)

lemma normalize_list_Inr: "normalize_scope_list field xs = Inr ys \<Longrightarrow> normal_scopes ys"
  by (auto simp: normalize_scope_list_def and_then_eq_Inr normal_scopes_def dest: normalized_scopes_Inr)

lemma sorted_set_Nil [simp]: "sorted_set xs = [] \<longleftrightarrow> xs = []"
  using set_sorted_set [of xs] by (metis empty_set set_empty)

lemma normalize_list_nonempty: "normalize_scope_list field xs = Inr ys \<Longrightarrow> ys = [] \<longleftrightarrow> xs = []"
  by (auto simp: normalize_scope_list_def and_then_eq_Inr dest!: normalized_scopes_Inr)

section \<open>Addresses\<close>

lemma canonical_again:
  assumes "canonicalize_evm_address s = Some t"
  shows "canonicalize_evm_address t = Some t"
  using assms is_hex_lower_char is_lower_hex_char_hex
  by (auto simp: canonicalize_evm_address_def lower_def list_all_iff split: if_splits)

lemma canonical_assets_fixed:
  "canonical_assets xs = Inr ys \<longleftrightarrow> list_all2 (\<lambda>x y. canonicalize_evm_address x = Some y) xs ys"
  by (induction xs arbitrary: ys) (auto simp: and_then_eq_Inr list_all2_Cons1)

lemma canonical_assets_same: "\<forall>a \<in> set xs. canonicalize_evm_address a = Some a \<Longrightarrow> canonical_assets xs = Inr xs"
  by (induction xs) auto

lemma canonical_assets_again:
  assumes "canonical_assets xs = Inr ys"
  shows "canonical_assets (sorted_set ys) = Inr (sorted_set ys)"
proof -
  have "\<forall>y \<in> set ys. canonicalize_evm_address y = Some y"
    using assms canonical_again
    by (fastforce simp: canonical_assets_fixed list_all2_conv_all_nth in_set_conv_nth)
  then show ?thesis by (intro canonical_assets_same) simp
qed

section \<open>Reviewed scopes\<close>

lemma venue_reviewed: "p \<in> set REVIEWED_PRODUCT_SCOPES \<Longrightarrow> venue_of p \<in> set REVIEWED_VENUE_SCOPES"
  by (auto simp: REVIEWED_PRODUCT_SCOPES_def REVIEWED_VENUE_SCOPES_def REVIEWED_VENUE_BY_PRODUCT_def venue_of_def)

lemma reviewed_products_normal: "list_all normal_scope REVIEWED_PRODUCT_SCOPES"
  and reviewed_venues_normal: "list_all normal_scope REVIEWED_VENUE_SCOPES"
  by code_simp+

lemma selection_sets:
  assumes "reviewed_scope_selection products venues chosen = Inr (ps, vs)"
  shows "set chosen \<subseteq> set REVIEWED_PRODUCT_SCOPES" "chosen \<noteq> []"
    "set ps = set products - set REVIEWED_PRODUCT_SCOPES \<union> set chosen"
    "set vs = set venues - set REVIEWED_VENUE_SCOPES \<union> venue_of ` set chosen"
    "sorted_set ps = ps" "sorted_set vs = vs"
  using assms by (auto simp: reviewed_scope_selection_def without_def split: if_splits)

lemma set_without: "set (without xs ys) = set xs - set ys"
  by (auto simp: without_def)

lemma selection_valid:
  assumes "reviewed_scope_selection products venues chosen = Inr (ps, vs)"
  shows "reviewed_scope_amendment_is_valid products venues ps vs"
proof -
  note s = selection_sets [OF assms]
  have c: "set ps \<inter> set REVIEWED_PRODUCT_SCOPES = set chosen" using s(1,3) by blast
  have "venue_of ` set chosen \<subseteq> set REVIEWED_VENUE_SCOPES" using s(1) venue_reviewed by blast
  then have v: "set vs - set REVIEWED_VENUE_SCOPES = set venues - set REVIEWED_VENUE_SCOPES"
    using s(4) by blast
  have "ps \<noteq> []" using s(2,3) by (cases chosen) auto
  moreover have "set ps - set REVIEWED_PRODUCT_SCOPES = set products - set REVIEWED_PRODUCT_SCOPES"
    using s(1,3) by blast
  moreover have "{x \<in> set ps. x \<in> set REVIEWED_PRODUCT_SCOPES} = set chosen" using c by blast
  ultimately show ?thesis
    using v s(4) by (simp add: reviewed_scope_amendment_is_valid_def same_set_def set_without)
qed

lemma selection_normal:
  assumes "reviewed_scope_selection products venues chosen = Inr (ps, vs)"
    and "list_all normal_scope products" "list_all normal_scope venues"
  shows "normal_scopes ps" "normal_scopes vs"
proof -
  note s = selection_sets [OF assms(1)]
  have "venue_of ` set chosen \<subseteq> set REVIEWED_VENUE_SCOPES" using s(1) venue_reviewed by blast
  with s assms(2,3) reviewed_products_normal reviewed_venues_normal
  show "normal_scopes ps" "normal_scopes vs"
    unfolding normal_scopes_def list_all_iff by blast+
qed

section \<open>Terms\<close>

lemma validate_terms_again:
  "validate_terms_policy t = Inr () \<longleftrightarrow>
     0 < terms_max t \<and> 0 < terms_per_transaction t \<and> terms_per_transaction t \<le> terms_hourly t \<and>
     terms_hourly t \<le> terms_daily t \<and> terms_daily t \<le> terms_max t \<and> terms_starts_at t < terms_expires_at t"
  by (auto simp: validate_terms_policy_def)

text \<open>A request that was accepted is accepted again, unchanged.\<close>

lemma request_again:
  assumes "spending_grant_request t = Inr r"
  shows "spending_grant_request r = Inr r"
proof -
  from assms obtain ps vs ms ns as where t: "safe_terms t" "validate_terms_policy t = Inr ()"
    "terms_products t \<noteq> []" "terms_networks t \<noteq> []" "terms_assets t \<noteq> []" "terms_trust t \<noteq> []"
    "normalize_scope_list ''product'' (terms_products t) = Inr ps"
    "normalize_scope_list ''venue'' (terms_venues t) = Inr vs"
    "normalize_scope_list ''merchant'' (terms_merchants t) = Inr ms"
    "normalize_scope_list ''network'' (terms_networks t) = Inr ns"
    "canonical_assets (terms_assets t) = Inr as"
    and r: "r = t\<lparr>terms_products := ps, terms_venues := vs, terms_merchants := ms,
              terms_trust := sorted_set (terms_trust t), terms_networks := ns, terms_assets := sorted_set as\<rparr>"
    by (auto simp: spending_grant_request_def and_then_eq_Inr require_some_def)
  have "safe_terms r" "validate_terms_policy r = Inr ()"
    using t(1,2) by (simp_all add: r safe_terms_def validate_terms_again)
  moreover have "ps \<noteq> []" "ns \<noteq> []"
    using normalize_list_nonempty [OF t(7)] normalize_list_nonempty [OF t(10)] t(3,4) by simp_all
  moreover have "as \<noteq> []" using t(5,11) by (auto simp: canonical_assets_fixed)
  ultimately show ?thesis
    using t(6) t(7-10) [THEN normalize_list_Inr, THEN normalize_list_normal] canonical_assets_again [OF t(11)]
    by (simp add: spending_grant_request_def require_some_def reject_if_def r)
qed

end
