(* ===== verification/Authorization_Properties.thy ===== *)
theory Authorization_Properties
  imports Resolution_Safety Planning_Safety Funding_Example
begin

text \<open>
  The properties of authorization: what a resolution promises the ledger, and what a planned
  grant or amendment may ask the wallet to sign.
\<close>

section \<open>From a resolution to a reservation\<close>

text \<open>
  C36. A resolution that says ready can be acted on, when it was asked for outside an OPC
  installation and with its venue, merchant, token and asset: the reservation that follows it,
  made in the state the resolver left and before anything else happens, succeeds and takes
  exactly the wallet, grant and allowance that the resolver named. The request repeats the
  question (\<open>follows\<close>), the registry's token is canonical, and the reservation's id is fresh.
  For an installation it does not hold: \<open>installation_resolution_stale\<close>.
\<close>

theorem ready_resolution_reserved:
  assumes "resolve_authorization registry now ask None db = Inr (db', res)" "ready res"
    and "registry (az_network ask) = Some token" "canonicalize_evm_address token = Some token"
    and "follows token ask res req ctx now" "tables_ok sha256 now db'"
    and "ctx_reservation_id ctx \<notin> rolling_reservation_id ` set (rolling_usages db')"
  shows "\<exists>db'' sel. reserve_unified_budget sha256 req ctx db' = Inr (db'', sel) \<and>
    selection_key.truncate sel = resolved_key res"
  using assms by (rule resolved_reserved)

definition ask_of :: "reservation_request \<Rightarrow> resolution_request" where
  "ask_of req =
     \<lparr>az_user_id = ''user_1'', az_agent_id = ''agent_1'', az_opc_installation_id = None,
      az_authorization_rail = req_authorization_rail req, az_product = ''marketplace'',
      az_venue = Some (req_venue req), az_merchant = Some (req_merchant_id req),
      az_merchant_trust_tier = req_merchant_trust_tier req, az_network = req_network req,
      az_token_address = Some ex_token, az_asset = Some ''usdc'', az_spender_address = Some ex_spender,
      az_amount_usdc = 4\<rparr>"

definition ex_req :: reservation_request where
  "ex_req = ex_request\<lparr>req_asset := ''usdc'', req_token_address := Some ex_token\<rparr>"

definition ex_resolved :: "funding_db \<times> resolution_result" where
  "ex_resolved = ok_state (resolve_authorization (\<lambda>_. Some ex_token) ex_now (ask_of ex_req) None ex_db)"

lemma ex_resolves: "succeeds (resolve_authorization (\<lambda>_. Some ex_token) ex_now (ask_of ex_req) None ex_db)"
  by code_simp

lemma ready_resolution_reserved_witness:
  "\<exists>db'' sel. reserve_unified_budget ex_digest ex_req
      (ex_context\<lparr>ctx_expected := Some (resolved_key (snd ex_resolved))\<rparr>) (fst ex_resolved) = Inr (db'', sel) \<and>
    selection_key.truncate sel = resolved_key (snd ex_resolved)"
proof (rule ready_resolution_reserved [where token = ex_token and ask = "ask_of ex_req" and db = ex_db and now = ex_now])
  show "resolve_authorization (\<lambda>_. Some ex_token) ex_now (ask_of ex_req) None ex_db = Inr (fst ex_resolved, snd ex_resolved)"
    using succeedsE [OF ex_resolves] by (simp add: ex_resolved_def)
  show "ready (snd ex_resolved)" by code_simp
  show "canonicalize_evm_address ex_token = Some ex_token" by code_simp
  show "follows ex_token (ask_of ex_req) (snd ex_resolved) ex_req
    (ex_context\<lparr>ctx_expected := Some (resolved_key (snd ex_resolved))\<rparr>) ex_now" by code_simp
  show "tables_ok ex_digest ex_now (fst ex_resolved)" by code_simp
  show "ctx_reservation_id (ex_context\<lparr>ctx_expected := Some (resolved_key (snd ex_resolved))\<rparr>)
    \<notin> rolling_reservation_id ` set (rolling_usages (fst ex_resolved))" by code_simp
qed simp

text \<open>
  The resolver keeps to the grant of an OPC installation, the ledger chooses among all active
  grants of the user and agent: with a second grant that it takes first, every reservation of
  the installation is refused as stale.
\<close>

definition ex_installed :: funding_db where
  "ex_installed = ex_two\<lparr>opc_installations :=
     [\<lparr>installation_id = ''inst_1'', opc_status = ''active'', opc_scope = ''payments'',
       opc_user_id = Some ''user_1'', opc_wallet_identity_id = Some ''wallet_1'',
       opc_spending_grant_id = Some ''grant_1'', consent_expires_at = Some (expires_at ex_grant),
       approved_at = Some 0\<rparr>]\<rparr>"

lemma installation_resolution_stale:
  "case resolve_authorization (\<lambda>_. Some ex_token) ex_now
       ((ask_of ex_req)\<lparr>az_opc_installation_id := Some ''inst_1''\<rparr>) (Some (''wallet_1'', ''grant_1'')) ex_installed of
     Inl _ \<Rightarrow> False
   | Inr (db, res) \<Rightarrow> ready res \<and>
       (case reserve_unified_budget ex_digest (ex_req\<lparr>req_opc_installation_id := Some ''inst_1''\<rparr>)
          (ex_context\<lparr>ctx_expected := Some (resolved_key res)\<rparr>) db of
          Inl e \<Rightarrow> e = ValueErr ''authorization resolution is stale''
        | Inr _ \<Rightarrow> False)"
  by code_simp

section \<open>Planned grants\<close>

lemma authorization_termsE:
  assumes "authorization_terms form identity current token now = Inr (action, r)"
  obtains t where "wi_status identity = ''active''" "wallet_identity_id identity = form_wallet_identity_id form"
    "spending_grant_request t = Inr r"
    "current = None \<Longrightarrow> \<exists>a. canonicalize_evm_address token = Some a \<and> new_grant_terms form identity a now = Inr (action, t)"
    "\<And>g. current = Some g \<Longrightarrow> \<exists>a. canonicalize_evm_address token = Some a \<and>
       amended_grant_terms form identity g a now = Inr (action, t)"
  using assms by (cases current) (auto simp: authorization_terms_def and_then_eq_Inr split: prod.splits)

lemma requestD:
  assumes "spending_grant_request t = Inr r"
  shows "terms_user_id r = terms_user_id t" "terms_wallet_identity_id r = terms_wallet_identity_id t"
    "terms_agent_id r = terms_agent_id t" "terms_max r = terms_max t"
    "terms_per_transaction r = terms_per_transaction t" "terms_hourly r = terms_hourly t"
    "terms_daily r = terms_daily t" "terms_notification r = terms_notification t"
    "terms_starts_at r = terms_starts_at t" "terms_expires_at r = terms_expires_at t"
    "terms_amends r = terms_amends t" "validate_terms_policy r = Inr ()"
  using assms
  by (auto simp: spending_grant_request_def and_then_eq_Inr validate_terms_again)

text \<open>
  C37. Whatever the plan hands to the wallet to sign is well formed: it is the identity's own
  user and an active wallet, it is in force at the server's time, and it is a fixed point of
  the request's validation: every limit positive and no larger than the next, every required
  scope present and every scope and address in its one canonical spelling.
\<close>

theorem planned_terms_wellformed:
  assumes "authorization_terms form identity current token now = Inr (action, terms)"
    and "valid_form form"
  shows "spending_grant_request terms = Inr terms \<and> terms_user_id terms = wi_user_id identity \<and>
    terms_wallet_identity_id terms = form_wallet_identity_id form \<and> wi_status identity = ''active'' \<and>
    0 < terms_per_transaction terms \<and> terms_per_transaction terms \<le> terms_hourly terms \<and>
    terms_hourly terms \<le> terms_daily terms \<and> terms_daily terms \<le> terms_max terms \<and>
    terms_max terms = form_total_usdc form \<and> terms_hourly terms = form_hourly_usdc form \<and>
    terms_starts_at terms \<le> now \<and> now < terms_expires_at terms"
proof -
  obtain t where t: "wi_status identity = ''active''" "wallet_identity_id identity = form_wallet_identity_id form"
    "spending_grant_request t = Inr terms"
    "current = None \<Longrightarrow> \<exists>a. new_grant_terms form identity a now = Inr (action, t)"
    "\<And>g. current = Some g \<Longrightarrow> \<exists>a. amended_grant_terms form identity g a now = Inr (action, t)"
    using authorization_termsE [OF assms(1)] by metis
  have "terms_user_id t = wi_user_id identity \<and> terms_wallet_identity_id t = wallet_identity_id identity \<and>
    terms_max t = form_total_usdc form \<and> terms_hourly t = form_hourly_usdc form \<and>
    terms_starts_at t \<le> now \<and> now < terms_expires_at t"
  proof (cases current)
    case None
    then show ?thesis
      using t(4) assms(2)
      by (auto simp: new_grant_terms_def valid_form_def opt_all_def MICROS_PER_DAY_def and_then_eq_Inr
          split: option.splits prod.splits)
  next
    case (Some g)
    then show ?thesis
      using t(5) by (auto simp: amended_grant_terms_def Let_def and_then_eq_Inr split: prod.splits)
  qed
  then show ?thesis
    using t(1,2) requestD [OF t(3)] request_again [OF t(3)] by (auto simp: validate_terms_again)
qed

text \<open>
  A grant as the repository stores it, and its terms as a request would state them.
\<close>

definition stored_grant :: "spending_grant_row \<Rightarrow> bool" where
  "stored_grant g \<longleftrightarrow>
     validate_grant_policy g = Inr () \<and> normal_scopes (product_scopes g) \<and> normal_scopes (venue_scopes g) \<and>
     normal_scopes (merchant_scopes g) \<and> normal_scopes (network_scopes g) \<and>
     sorted_set (merchant_trust_scopes g) = merchant_trust_scopes g \<and>
     sorted_set (asset_scopes g) = asset_scopes g \<and>
     list_all (\<lambda>a. canonicalize_evm_address a = Some a) (asset_scopes g)"

definition terms_of_grant :: "spending_grant_row \<Rightarrow> grant_terms" where
  "terms_of_grant g =
     \<lparr>terms_user_id = grant_user_id g, terms_wallet_identity_id = grant_wallet_identity_id g,
      terms_agent_id = grant_agent_id g, terms_max = max_amount_usdc g,
      terms_per_transaction = per_transaction_limit_usdc g, terms_hourly = hourly_limit_usdc g,
      terms_daily = daily_limit_usdc g, terms_products = product_scopes g, terms_venues = venue_scopes g,
      terms_merchants = merchant_scopes g, terms_trust = merchant_trust_scopes g,
      terms_notification = notification_mode g, terms_networks = network_scopes g,
      terms_assets = asset_scopes g, terms_starts_at = starts_at g, terms_expires_at = expires_at g,
      terms_amends = Some (spending_grant_id g)\<rparr>"

lemma request_of_stored:
  assumes "spending_grant_request t = Inr r"
    and "normal_scopes (terms_products t)" "normal_scopes (terms_venues t)" "normal_scopes (terms_merchants t)"
    and "normal_scopes (terms_networks t)" "sorted_set (terms_trust t) = terms_trust t"
    and "sorted_set (terms_assets t) = terms_assets t"
    and "list_all (\<lambda>a. canonicalize_evm_address a = Some a) (terms_assets t)"
  shows "r = t"
  using assms canonical_assets_same [of "terms_assets t"]
  by (auto simp: spending_grant_request_def and_then_eq_Inr normalize_list_normal list_all_iff)

lemma validate_usdc_same: "validate_usdc_amount q field positive = Inr r \<Longrightarrow> r = q"
  by (simp add: validate_usdc_amount_def split: if_splits)

lemma amended_termsE:
  assumes "amended_grant_terms form identity g token now = Inr (action, t)"
  obtains ps vs where "grant_user_id g = wi_user_id identity" "grant_wallet_identity_id g = wallet_identity_id identity"
    "used_amount_usdc g + reserved_amount_usdc g \<le> form_total_usdc form"
    "reviewed_scope_amendment_is_valid (product_scopes g) (venue_scopes g) ps vs"
    "list_all normal_scope (product_scopes g) \<Longrightarrow> list_all normal_scope (venue_scopes g) \<Longrightarrow>
       sorted_set (product_scopes g) = product_scopes g \<Longrightarrow> sorted_set (venue_scopes g) = venue_scopes g \<Longrightarrow>
       normal_scopes ps \<and> normal_scopes vs"
    "t = (terms_of_grant g)\<lparr>terms_max := form_total_usdc form,
       terms_per_transaction := min (per_transaction_limit_usdc g) (form_hourly_usdc form),
       terms_hourly := form_hourly_usdc form, terms_daily := min (daily_limit_usdc g) (form_total_usdc form),
       terms_products := ps, terms_venues := vs\<rparr>"
    "action = (if form_total_usdc form \<noteq> max_amount_usdc g \<or> form_hourly_usdc form \<noteq> hourly_limit_usdc g
       \<or> ps \<noteq> product_scopes g \<or> vs \<noteq> venue_scopes g then ''sign'' else ''none'')"
proof -
  obtain ps vs where scopes: "(case form_products form of None \<Rightarrow> Inr (product_scopes g, venue_scopes g)
      | Some chosen \<Rightarrow> reviewed_scope_selection (product_scopes g) (venue_scopes g) chosen) = Inr (ps, vs)"
    using assms by (auto simp: amended_grant_terms_def Let_def and_then_eq_Inr)
  have valid: "reviewed_scope_amendment_is_valid (product_scopes g) (venue_scopes g) ps vs"
  proof (cases "form_products form")
    case None
    then show ?thesis using scopes by (simp add: reviewed_scope_amendment_is_valid_def same_set_def)
  next
    case (Some chosen)
    then show ?thesis using scopes by (simp add: selection_valid)
  qed
  have normal: "normal_scopes ps \<and> normal_scopes vs"
    if "list_all normal_scope (product_scopes g)" "list_all normal_scope (venue_scopes g)"
      "sorted_set (product_scopes g) = product_scopes g" "sorted_set (venue_scopes g) = venue_scopes g"
    using scopes selection_normal that by (auto simp: normal_scopes_def split: option.splits)
  have "grant_user_id g = wi_user_id identity \<and> grant_wallet_identity_id g = wallet_identity_id identity \<and>
      grant_agent_id g = ''hermes'' \<and> used_amount_usdc g + reserved_amount_usdc g \<le> form_total_usdc form"
    using assms by (auto simp: amended_grant_terms_def Let_def and_then_eq_Inr not_less dest!: validate_usdc_same)
  moreover have "t = (terms_of_grant g)\<lparr>terms_max := form_total_usdc form,
       terms_per_transaction := min (per_transaction_limit_usdc g) (form_hourly_usdc form),
       terms_hourly := form_hourly_usdc form, terms_daily := min (daily_limit_usdc g) (form_total_usdc form),
       terms_products := ps, terms_venues := vs\<rparr>"
    using assms scopes calculation
    by (auto simp: amended_grant_terms_def Let_def and_then_eq_Inr terms_of_grant_def)
  moreover have "action = (if form_total_usdc form \<noteq> max_amount_usdc g \<or> form_hourly_usdc form \<noteq> hourly_limit_usdc g
       \<or> ps \<noteq> product_scopes g \<or> vs \<noteq> venue_scopes g then ''sign'' else ''none'')"
    using assms scopes
    by (clarsimp simp: amended_grant_terms_def Let_def and_then_eq_Inr simp del: if_split cong: if_cong)
  ultimately show ?thesis using that [of ps vs] valid normal by blast
qed

text \<open>
  C38. An amendment stays within what the user is shown. Of a stored grant it changes only the
  two budgets, what follows from them, and reviewed products with their venues, in the way the
  server's own check of amendments accepts; it never goes below what is used and reserved; and
  the action asks for no signature exactly when the terms are those the grant already has.
\<close>

theorem amendment_within_review:
  assumes "authorization_terms form identity (Some g) token now = Inr (action, terms)"
    and "stored_grant g"
  shows "reviewed_scope_amendment_is_valid (product_scopes g) (venue_scopes g) (terms_products terms) (terms_venues terms) \<and>
    (terms_of_grant g)\<lparr>terms_max := terms_max terms, terms_per_transaction := terms_per_transaction terms,
        terms_hourly := terms_hourly terms, terms_daily := terms_daily terms,
        terms_products := terms_products terms, terms_venues := terms_venues terms\<rparr> = terms \<and>
    used_amount_usdc g + reserved_amount_usdc g \<le> terms_max terms \<and>
    terms_per_transaction terms \<le> per_transaction_limit_usdc g \<and> terms_daily terms \<le> daily_limit_usdc g \<and>
    (action = ''none'' \<longleftrightarrow> terms = terms_of_grant g)"
proof -
  obtain t a where r: "spending_grant_request t = Inr terms"
    and t: "amended_grant_terms form identity g a now = Inr (action, t)"
    using authorization_termsE [OF assms(1)] by metis
  note g = assms(2) [unfolded stored_grant_def]
  from t obtain ps vs where e: "used_amount_usdc g + reserved_amount_usdc g \<le> form_total_usdc form"
    "reviewed_scope_amendment_is_valid (product_scopes g) (venue_scopes g) ps vs"
    "normal_scopes ps \<and> normal_scopes vs"
    "t = (terms_of_grant g)\<lparr>terms_max := form_total_usdc form,
       terms_per_transaction := min (per_transaction_limit_usdc g) (form_hourly_usdc form),
       terms_hourly := form_hourly_usdc form, terms_daily := min (daily_limit_usdc g) (form_total_usdc form),
       terms_products := ps, terms_venues := vs\<rparr>"
    "action = (if form_total_usdc form \<noteq> max_amount_usdc g \<or> form_hourly_usdc form \<noteq> hourly_limit_usdc g
       \<or> ps \<noteq> product_scopes g \<or> vs \<noteq> venue_scopes g then ''sign'' else ''none'')"
    using g by (elim amended_termsE) (auto simp: normal_scopes_def)
  have terms: "terms = t"
    using r e(3) g by (intro request_of_stored) (simp_all add: e(4) terms_of_grant_def)
  have limits: "per_transaction_limit_usdc g \<le> hourly_limit_usdc g" "daily_limit_usdc g \<le> max_amount_usdc g"
    using g by (auto simp: validate_grant_policy_def split: if_splits)
  have "action = ''none'' \<longleftrightarrow> terms = terms_of_grant g"
    using limits by (auto simp: terms e(4,5) terms_of_grant_def)
  then show ?thesis
    using e(1,2) by (simp add: terms e(4))
qed

definition ex_hermes_grant :: spending_grant_row where
  "ex_hermes_grant = ex_grant\<lparr>grant_agent_id := ''hermes'', venue_scopes := [''clink_marketplace''],
     used_amount_usdc := 1, reserved_amount_usdc := 2, hourly_limit_usdc := 10\<rparr>"

definition ex_form :: authorization_form where
  "ex_form = \<lparr>form_wallet_identity_id = ''wallet_1'', form_network = ''base'', form_total_usdc = 8,
     form_hourly_usdc = 2, form_duration_days = None, form_spending_grant_id = Some ''grant_1'',
     form_products = Some [''marketplace'', ''transfers'']\<rparr>"

definition ex_plan :: "string \<times> grant_terms" where
  "ex_plan = ok_state (authorization_terms ex_form ex_identity (Some ex_hermes_grant) ex_token ex_now)"

lemma ex_plans: "succeeds (authorization_terms ex_form ex_identity (Some ex_hermes_grant) ex_token ex_now)"
  by code_simp

lemma ex_planned: "authorization_terms ex_form ex_identity (Some ex_hermes_grant) ex_token ex_now = Inr (fst ex_plan, snd ex_plan)"
  using succeedsE [OF ex_plans] by (simp add: ex_plan_def)

lemma planned_terms_wellformed_witness:
  "spending_grant_request (snd ex_plan) = Inr (snd ex_plan) \<and> 0 < terms_per_transaction (snd ex_plan)"
proof -
  have "valid_form ex_form" by code_simp
  from planned_terms_wellformed [OF ex_planned this] show ?thesis by simp
qed

lemma amendment_within_review_witness:
  "reviewed_scope_amendment_is_valid [''marketplace''] [''clink_marketplace'']
      (terms_products (snd ex_plan)) (terms_venues (snd ex_plan)) \<and>
    terms_per_transaction (snd ex_plan) \<le> 10 \<and> snd ex_plan \<noteq> terms_of_grant ex_hermes_grant"
proof -
  have "stored_grant ex_hermes_grant" "fst ex_plan = ''sign''" by code_simp+
  with amendment_within_review [OF ex_planned] show ?thesis
    by (auto simp: ex_hermes_grant_def ex_grant_def)
qed

end
