(* ===== verification/Marketplace_Rows.thy ===== *)
theory Marketplace_Rows
  imports Py_Values "HOL-Library.Char_ord" "HOL-Library.List_Lexorder" "HOL-Library.Product_Lexorder"
begin

text \<open>
  The marketplace's catalogue and its tables (\<open>apps/marketplace/shared/models.py\<close>,
  \<open>storage/tables.py\<close>): providers, offerings, where an offering was found, and the cursor of
  each registry. A JSON payload is the record of the model that was dumped into it; a time is a
  number of microseconds; a \<open>Decimal\<close> price is its text. Column widths are not modelled.
\<close>

section \<open>Models\<close>

record payment_option =
  po_scheme :: string
  po_network :: string
  po_asset :: string
  po_amount_atomic :: string
  po_pay_to :: string
  po_max_timeout_seconds :: "int option"
  po_price_usd :: "string option"
  po_metadata :: pydict

record provider =
  pv_provider_id :: string
  pv_name :: string
  pv_domain :: string
  pv_source :: string
  pv_status :: string
  pv_verified_wallets :: "string list"
  pv_metadata :: pydict

record offering =
  of_offering_id :: string
  of_provider_id :: string
  of_source :: string
  of_source_id :: string
  of_name :: string
  of_description :: string
  of_endpoint :: string
  of_method :: string
  of_input_schema :: pydict
  of_output_schema :: pydict
  of_tags :: "string list"
  of_payment_options :: "payment_option list"
  of_status :: string
  of_last_synced_at :: int
  of_metadata :: pydict

section \<open>Tables\<close>

record provider_row =
  pr_provider_id :: string
  pr_domain :: string
  pr_wallet_address :: "string option"
  pr_status :: string
  pr_payload :: provider
  pr_domain_failures :: int
  pr_last_domain_verified_at :: "int option"
  pr_last_domain_check_at :: "int option"
  pr_updated_at :: int

record offering_row =
  or_offering_id :: string
  or_provider_id :: string
  or_status :: string
  or_payload :: offering
  or_candidate_payload :: "offering option"
  or_candidate_registry_id :: "string option"
  or_last_verified_at :: "int option"
  or_last_check_attempt_at :: "int option"
  or_updated_at :: int

record provenance_row =
  pn_offering_id :: string
  pn_registry_id :: string
  pn_source_id :: string
  pn_etag :: "string option"
  pn_cursor :: "string option"
  pn_payload :: offering
  pn_updated_at :: int

record registry_cursor_row =
  rc_registry_id :: string
  rc_cursor :: "string option"
  rc_etag :: "string option"
  rc_status :: string
  rc_last_error :: "string option"
  rc_owner_token :: "string option"
  rc_lease_until :: "int option"
  rc_updated_at :: int

record catalog_db =
  provider_rows :: "provider_row list"
  offering_rows :: "offering_row list"
  provenance_rows :: "provenance_row list"
  cursor_rows :: "registry_cursor_row list"

definition empty_catalog :: catalog_db where
  "empty_catalog = \<lparr>provider_rows = [], offering_rows = [], provenance_rows = [], cursor_rows = []\<rparr>"

definition find_provider :: "string \<Rightarrow> catalog_db \<Rightarrow> provider_row option" where
  "find_provider pid db = sel_by pr_provider_id pid (provider_rows db)"

definition find_offering :: "string \<Rightarrow> catalog_db \<Rightarrow> offering_row option" where
  "find_offering oid db = sel_by or_offering_id oid (offering_rows db)"

definition find_cursor :: "string \<Rightarrow> catalog_db \<Rightarrow> registry_cursor_row option" where
  "find_cursor rid db = sel_by rc_registry_id rid (cursor_rows db)"

text \<open>Reads after writes.\<close>

lemma sel_by_snoc:
  "sel_by key k (t @ [r]) = (case sel_by key k t of None \<Rightarrow> if key r = k then Some r else None | Some x \<Rightarrow> Some x)"
  by (induction t) (auto simp: sel_by_def)

lemma sel_by_upd:
  "(\<And>r. key (f r) = key r) \<Longrightarrow>
     sel_by key k' (upd_by key k f t) = (if k' = k then map_option f (sel_by key k t) else sel_by key k' t)"
  by (simp add: sel_by_upd_same sel_by_upd_other)

section \<open>What is sold\<close>

text \<open>\<open>_offering_safety_payload\<close>: what a buyer's payment depends on.\<close>

record safety_payment =
  sp_scheme :: string
  sp_network :: string
  sp_asset :: string
  sp_amount_atomic :: string
  sp_pay_to :: string
  sp_price_usd :: "string option"

definition safety_payment_of :: "payment_option \<Rightarrow> safety_payment" where
  "safety_payment_of p =
     \<lparr>sp_scheme = po_scheme p, sp_network = po_network p, sp_asset = po_asset p,
      sp_amount_atomic = po_amount_atomic p, sp_pay_to = po_pay_to p, sp_price_usd = po_price_usd p\<rparr>"

definition offering_safety_payload :: "offering \<Rightarrow> string \<times> string \<times> safety_payment list" where
  "offering_safety_payload o1 =
     (of_endpoint o1, of_method o1, map safety_payment_of (of_payment_options o1))"

definition trust_tier :: "string \<Rightarrow> string" where
  "trust_tier status = (if status = ''registry_verified'' then ''registry_verified'' else ''clink_verified'')"

text \<open>\<open>isoformat()\<close> of a stored time is left open.\<close>

definition public_offering :: "(int \<Rightarrow> string) \<Rightarrow> offering_row \<Rightarrow> offering" where
  "public_offering render row =
     (let o1 = (or_payload row)\<lparr>of_status := or_status row\<rparr> in
      if or_status row \<in> {''registry_verified'', ''verified''}
      then o1\<lparr>of_metadata :=
        dset ''last_verified_at'' (case or_last_verified_at row of None \<Rightarrow> PNone | Some t \<Rightarrow> PStr (render t))
        (dset ''verification_source''
          (let v = dget (of_metadata o1) ''verification_source'' in
           if v \<in> {PNone, PStr '''', PBool False, PInt 0, PList [], PDict []}
           then PStr (if or_status row = ''registry_verified'' then ''external_registry'' else ''clink_manifest'')
           else v)
        (dset ''trust_tier'' (PStr (trust_tier (or_status row))) (of_metadata o1)))\<rparr>
      else o1)"

definition active_offering :: "(int \<Rightarrow> string) \<Rightarrow> catalog_db \<Rightarrow> string \<Rightarrow> bool \<Rightarrow> offering option" where
  "active_offering render db oid require_verified =
     (case find_offering oid db of
        None \<Rightarrow> None
      | Some row \<Rightarrow>
          (case find_provider (or_provider_id row) db of
             None \<Rightarrow> None
           | Some p \<Rightarrow>
               if (pr_status p = ''active'' \<or> pr_status p = ''discovered'' \<and> or_status row = ''registry_verified'')
                  \<and> (require_verified \<longrightarrow> or_status row \<in> {''registry_verified'', ''verified''})
               then Some (public_offering render row) else None))"

end
