(* ===== verification/Registry_Store.thy ===== *)
theory Registry_Store
  imports Marketplace_Rows
begin

text \<open>
  Writing the catalogue (\<open>apps/marketplace/services/marketplace_repository.py\<close>): providers,
  offerings and provenance, the lease on a registry's cursor, and the commit of one registry
  page under that lease. One call is one transaction: an error leaves the tables as they were.
\<close>

section \<open>Providers and offerings\<close>

text \<open>\<open>_upsert_provider\<close>; the boolean is its result.\<close>

definition upsert_provider :: "provider \<Rightarrow> string option \<Rightarrow> int \<Rightarrow> catalog_db \<Rightarrow> catalog_db \<times> bool" where
  "upsert_provider p wallet now db =
     (let owner = (case wallet of None \<Rightarrow> None | Some w \<Rightarrow> if w = '''' then None else Some (lower w)) in
      case find_provider (pv_provider_id p) db of
        Some row \<Rightarrow>
          if owner \<noteq> None \<and> (case pr_wallet_address row of None \<Rightarrow> False | Some w \<Rightarrow> w \<noteq> '''' \<and> Some (lower w) \<noteq> owner)
          then (db, False)
          else (db\<lparr>provider_rows := upd_by pr_provider_id (pv_provider_id p) (\<lambda>r.
                  r\<lparr>pr_domain := lower (pv_domain p),
                    pr_wallet_address := (case pr_wallet_address r of None \<Rightarrow> owner
                      | Some w \<Rightarrow> if w = '''' then owner else Some w),
                    pr_status := pv_status p, pr_payload := p, pr_updated_at := now\<rparr>) (provider_rows db)\<rparr>, True)
      | None \<Rightarrow>
          (db\<lparr>provider_rows := provider_rows db @
             [\<lparr>pr_provider_id = pv_provider_id p, pr_domain = lower (pv_domain p),
               pr_wallet_address = owner, pr_status = pv_status p, pr_payload = p,
               pr_domain_failures = 0, pr_last_domain_verified_at = None,
               pr_last_domain_check_at = None, pr_updated_at = now\<rparr>]\<rparr>, True))"

definition upsert_offering :: "offering \<Rightarrow> int option \<Rightarrow> int \<Rightarrow> catalog_db \<Rightarrow> catalog_db" where
  "upsert_offering o1 verified_at now db =
     (case find_offering (of_offering_id o1) db of
        Some _ \<Rightarrow> db\<lparr>offering_rows := upd_by or_offering_id (of_offering_id o1) (\<lambda>r.
          r\<lparr>or_provider_id := of_provider_id o1, or_status := of_status o1, or_payload := o1,
            or_last_verified_at := (case verified_at of None \<Rightarrow> or_last_verified_at r | Some t \<Rightarrow> Some t),
            or_updated_at := now\<rparr>) (offering_rows db)\<rparr>
      | None \<Rightarrow> db\<lparr>offering_rows := offering_rows db @
          [\<lparr>or_offering_id = of_offering_id o1, or_provider_id = of_provider_id o1,
            or_status = of_status o1, or_payload = o1, or_candidate_payload = None,
            or_candidate_registry_id = None, or_last_verified_at = verified_at,
            or_last_check_attempt_at = None, or_updated_at = now\<rparr>]\<rparr>)"

text \<open>\<open>sha256(s.encode()).hexdigest()\<close> is an argument.\<close>

definition provenance_source_id :: "(string \<Rightarrow> string) \<Rightarrow> string \<Rightarrow> string" where
  "provenance_source_id sha256 s = (if length s \<le> 512 then s else ''sha256:'' @ sha256 s)"

definition add_provenance ::
  "(string \<Rightarrow> string) \<Rightarrow> string \<Rightarrow> string \<Rightarrow> string \<Rightarrow> offering \<Rightarrow> string option \<Rightarrow> string option \<Rightarrow> int
     \<Rightarrow> catalog_db \<Rightarrow> catalog_db" where
  "add_provenance sha256 oid rid source payload cursor etag now db =
     (let sid = provenance_source_id sha256 source;
          this = (\<lambda>r. pn_offering_id r = oid \<and> pn_registry_id r = rid \<and> pn_source_id r = sid)
      in if list_ex this (provenance_rows db)
         then db\<lparr>provenance_rows := update_rows this (\<lambda>r. r\<lparr>pn_payload := payload, pn_cursor := cursor,
                pn_etag := etag, pn_updated_at := now\<rparr>) (provenance_rows db)\<rparr>
         else db\<lparr>provenance_rows := provenance_rows db @
                [\<lparr>pn_offering_id = oid, pn_registry_id = rid, pn_source_id = sid, pn_etag = etag,
                  pn_cursor = cursor, pn_payload = payload, pn_updated_at = now\<rparr>]\<rparr>)"

section \<open>The lease of a registry\<close>

definition SECOND :: int where
  "SECOND = 1000000"

definition LEASE_SECONDS :: int where
  "LEASE_SECONDS = 120"

definition lease_free :: "string \<Rightarrow> int \<Rightarrow> registry_cursor_row \<Rightarrow> bool" where
  "lease_free token now r \<longleftrightarrow>
     rc_owner_token r = Some token \<or> (case rc_lease_until r of None \<Rightarrow> True | Some t \<Rightarrow> t \<le> now)"

definition lease_held :: "string \<Rightarrow> int \<Rightarrow> registry_cursor_row \<Rightarrow> bool" where
  "lease_held token now r \<longleftrightarrow>
     rc_owner_token r = Some token \<and> (case rc_lease_until r of None \<Rightarrow> False | Some t \<Rightarrow> now < t)"

definition acquire_registry_lease :: "string \<Rightarrow> string \<Rightarrow> int \<Rightarrow> catalog_db \<Rightarrow> catalog_db \<times> bool" where
  "acquire_registry_lease rid token now db =
     (let until = now + LEASE_SECONDS * SECOND in
      case find_cursor rid db of
        Some r \<Rightarrow>
          if lease_free token now r
          then (db\<lparr>cursor_rows := upd_by rc_registry_id rid (\<lambda>r. r\<lparr>rc_owner_token := Some token,
                 rc_lease_until := Some until\<rparr>) (cursor_rows db)\<rparr>, True)
          else (db, False)
      | None \<Rightarrow>
          (db\<lparr>cursor_rows := cursor_rows db @
             [\<lparr>rc_registry_id = rid, rc_cursor = None, rc_etag = None, rc_status = ''running'',
               rc_last_error = None, rc_owner_token = Some token, rc_lease_until = Some until,
               rc_updated_at = now\<rparr>]\<rparr>, True))"

definition initialize_registry_cursor ::
  "string \<Rightarrow> string option \<Rightarrow> string option \<Rightarrow> string \<Rightarrow> int \<Rightarrow> catalog_db \<Rightarrow> catalog_db \<times> bool" where
  "initialize_registry_cursor rid cursor etag status now db =
     (case find_cursor rid db of
        Some _ \<Rightarrow> (db, False)
      | None \<Rightarrow> (db\<lparr>cursor_rows := cursor_rows db @
          [\<lparr>rc_registry_id = rid, rc_cursor = cursor, rc_etag = etag, rc_status = status,
            rc_last_error = None, rc_owner_token = None, rc_lease_until = None, rc_updated_at = now\<rparr>]\<rparr>, True))"

record cursor_update =
  cu_cursor :: "string option"
  cu_etag :: "string option"
  cu_status :: string
  cu_last_error :: "string option"
  cu_release :: bool

definition updated_cursor :: "cursor_update \<Rightarrow> string \<Rightarrow> int \<Rightarrow> registry_cursor_row \<Rightarrow> registry_cursor_row" where
  "updated_cursor u token now r =
     r\<lparr>rc_cursor := cu_cursor u, rc_etag := cu_etag u, rc_status := cu_status u,
       rc_last_error := cu_last_error u, rc_updated_at := now,
       rc_owner_token := (if cu_release u then None else Some token),
       rc_lease_until := (if cu_release u then None else Some (now + LEASE_SECONDS * SECOND))\<rparr>"

definition save_registry_cursor ::
  "string \<Rightarrow> string option \<Rightarrow> cursor_update \<Rightarrow> int \<Rightarrow> catalog_db \<Rightarrow> py_error + (catalog_db \<times> bool)" where
  "save_registry_cursor rid owner u now db =
     (case owner of
        None \<Rightarrow> Inl (ValueErr ''registry cursor updates require an owner token'')
      | Some token \<Rightarrow>
          if token = '''' then Inl (ValueErr ''registry cursor updates require an owner token'')
          else (case find_cursor rid db of
              None \<Rightarrow> Inr (db, False)
            | Some r \<Rightarrow>
                if lease_held token now r
                then Inr (db\<lparr>cursor_rows := upd_by rc_registry_id rid (updated_cursor u token now) (cursor_rows db)\<rparr>, True)
                else Inr (db, False)))"

section \<open>One page\<close>

type_synonym page_entry = "provider \<times> offering \<times> string"

definition entry_key :: "page_entry \<Rightarrow> string \<times> string \<times> string" where
  "entry_key e = (case e of (p, o1, source) \<Rightarrow> (pv_provider_id p, of_offering_id o1, source))"

text \<open>The first provider of each identifier, in the order of the identifiers.\<close>

fun page_providers :: "page_entry list \<Rightarrow> string list \<Rightarrow> provider list" where
  "page_providers [] seen = []"
| "page_providers ((p, o1, source) # es) seen =
     (if pv_provider_id p \<in> set seen then page_providers es seen
      else p # page_providers es (pv_provider_id p # seen))"

definition import_provider :: "int \<Rightarrow> provider \<Rightarrow> catalog_db \<Rightarrow> catalog_db" where
  "import_provider now p db =
     (case find_provider (pv_provider_id p) db of
        Some row \<Rightarrow>
          if pr_wallet_address row \<noteq> None \<or> pr_status row \<noteq> ''discovered'' then db
          else fst (upsert_provider (p\<lparr>pv_status := ''discovered''\<rparr>) None now db)
      | None \<Rightarrow> fst (upsert_provider (p\<lparr>pv_status := ''discovered''\<rparr>) None now db))"

definition reverify :: "string \<Rightarrow> offering \<Rightarrow> int \<Rightarrow> offering_row \<Rightarrow> offering_row" where
  "reverify rid imported now r =
     r\<lparr>or_status := ''verifying'', or_payload := (or_payload r)\<lparr>of_status := ''verifying''\<rparr>,
       or_candidate_payload := Some (imported\<lparr>of_status := ''verifying''\<rparr>),
       or_candidate_registry_id := Some rid, or_updated_at := now\<rparr>"

definition import_offering :: "string \<Rightarrow> int \<Rightarrow> offering \<Rightarrow> catalog_db \<Rightarrow> catalog_db" where
  "import_offering rid now o1 db =
     (let imported = o1\<lparr>of_status := ''discovered''\<rparr> in
      case find_offering (of_offering_id o1) db of
        None \<Rightarrow> upsert_offering imported None now db
      | Some r \<Rightarrow>
          if or_status r = ''disabled'' then db
          else if or_status r \<in> {''registry_verified'', ''verified'', ''stale'', ''verifying''}
          then (if offering_safety_payload (or_payload r) \<noteq> offering_safety_payload imported
                then db\<lparr>offering_rows := upd_by or_offering_id (of_offering_id o1) (reverify rid imported now)
                       (offering_rows db)\<rparr>
                else db)
          else upsert_offering imported None now db)"

text \<open>
  The database refuses two providers of one domain, and an offering of no provider: the flushes
  raise.
\<close>

definition domains_unique :: "catalog_db \<Rightarrow> bool" where
  "domains_unique db \<longleftrightarrow> distinct (map pr_domain (provider_rows db))"

definition has_provider :: "catalog_db \<Rightarrow> offering \<Rightarrow> bool" where
  "has_provider db o1 \<longleftrightarrow> find_provider (of_provider_id o1) db \<noteq> None"

definition provider_needed :: "catalog_db \<Rightarrow> offering \<Rightarrow> bool" where
  "provider_needed db o1 \<longleftrightarrow>
     (case find_offering (of_offering_id o1) db of
        None \<Rightarrow> True
      | Some r \<Rightarrow> or_status r \<notin> {''disabled'', ''registry_verified'', ''verified'', ''stale'', ''verifying''})"

fun import_entries ::
  "(string \<Rightarrow> string) \<Rightarrow> string \<Rightarrow> cursor_update \<Rightarrow> int \<Rightarrow> page_entry list \<Rightarrow> catalog_db
     \<Rightarrow> py_error + catalog_db" where
  "import_entries sha256 rid u now [] db = Inr db"
| "import_entries sha256 rid u now ((p, o1, source) # es) db =
     (if provider_needed db o1 \<and> \<not> has_provider db o1 then Inl DbIntegrityErr
      else import_entries sha256 rid u now es
        (add_provenance sha256 (of_offering_id o1) rid source (o1\<lparr>of_status := ''discovered''\<rparr>)
          (cu_cursor u) (cu_etag u) now (import_offering rid now o1 db)))"

definition commit_registry_page ::
  "(string \<Rightarrow> string) \<Rightarrow> string \<Rightarrow> string \<Rightarrow> page_entry list \<Rightarrow> cursor_update \<Rightarrow> int \<Rightarrow> catalog_db
     \<Rightarrow> py_error + (catalog_db \<times> bool)" where
  "commit_registry_page sha256 rid token entries u now db =
     (case find_cursor rid db of
        None \<Rightarrow> Inr (db, False)
      | Some r \<Rightarrow>
          if \<not> lease_held token now r then Inr (db, False)
          else
            let ordered = sort_key entry_key entries;
                providers = sort_key pv_provider_id (page_providers ordered []);
                db1 = fold (import_provider now) providers db
            in if \<not> domains_unique db1 then Inl DbIntegrityErr
               else and_then (import_entries sha256 rid u now ordered db1) (\<lambda>db2.
                 Inr (db2\<lparr>cursor_rows := upd_by rc_registry_id rid (updated_cursor u token now)
                        (cursor_rows db2)\<rparr>, True)))"

end
