(* ===== verification/Registry_Sync.thy ===== *)
theory Registry_Sync
  imports Registry_Store
begin

text \<open>
  Importing a registry's inventory (\<open>apps/marketplace/services/registry_aggregation.py\<close>): the
  pages of one run, each committed with the cursor it leads to, and the refresh of the targeted
  supply. What an adapter fetches, finds and normalises is an argument; an error carries the
  text that \<open>_safe_error\<close> makes of the exception. The repository reads the clock in each call:
  \<open>clock i\<close> is its \<open>i\<close>-th reading. Progress callbacks are left out: they write another table.
\<close>

section \<open>Numbers\<close>

text \<open>\<open>int(cursor or 0)\<close>, and 0 for a text it refuses. \<open>int\<close> also takes blanks and underscores, which no cursor has.\<close>

definition read_offset :: "string option \<Rightarrow> int" where
  "read_offset c =
     (case c of
        None \<Rightarrow> 0
      | Some s \<Rightarrow>
          if is_digits s then int (read_nat s)
          else if take 1 s = ''-'' \<and> is_digits (drop 1 s) then - int (read_nat (drop 1 s))
          else if take 1 s = ''+'' \<and> is_digits (drop 1 s) then int (read_nat (drop 1 s))
          else 0)"

section \<open>Pages\<close>

text \<open>
  A page as the adapter returns it: \<open>page_items\<close> is \<open>None\<close> when it is not a list,
  \<open>page_numbers\<close> are its offset, count and total, or the text of the error their conversion raises.
\<close>

record 'r inventory_page =
  not_modified :: bool
  page_etag :: "string option"
  page_items :: "'r list option"
  page_numbers :: "string + int \<times> int \<times> int"

definition INVALID_PAGINATION :: string where
  "INVALID_PAGINATION = ''ValueError: invalid inventory pagination''"

definition read_page :: "'r inventory_page \<Rightarrow> int \<Rightarrow> string + 'r list \<times> int" where
  "read_page page offset =
     (case page_items page of
        None \<Rightarrow> Inl INVALID_PAGINATION
      | Some items \<Rightarrow>
          and_then (page_numbers page) (\<lambda>(page_offset, count, size_all).
            if page_offset \<noteq> offset \<or> count \<noteq> int (length items) \<or> page_offset < 0 \<or> size_all < page_offset + count
            then Inl INVALID_PAGINATION
            else Inr (items, size_all)))"

text \<open>\<open>_normalize_entries\<close>: what cannot be normalised is skipped and reported.\<close>

fun normalize_entries ::
  "('r \<Rightarrow> string + provider \<times> offering) \<Rightarrow> nat \<Rightarrow> 'r list \<Rightarrow> page_entry list \<times> (nat \<times> string) list" where
  "normalize_entries norm1 i [] = ([], [])"
| "normalize_entries norm1 i (r # rs) =
     (case normalize_entries norm1 (Suc i) rs of (entries, errors) \<Rightarrow>
       (case norm1 r of
          Inl e \<Rightarrow> (entries, (i, e) # errors)
        | Inr (p, o1) \<Rightarrow> ((p, o1, of_source_id o1) # entries, errors)))"

section \<open>One run\<close>

record 'r registry_adapter =
  fetch_page :: "int \<Rightarrow> int \<Rightarrow> string option \<Rightarrow> string + 'r inventory_page"
  normalize_resource :: "'r \<Rightarrow> string + provider \<times> offering"

record sync_result =
  sync_status :: string
  sync_count :: int
  sync_next_offset :: int
  sync_targeted_count :: nat
  sync_last_error :: "string option"
  sync_target_errors :: "(string \<times> string) list"
  sync_skipped_count :: nat
  sync_item_errors :: "(nat \<times> string) list"

record sync_state =
  st_db :: catalog_db
  st_offset :: int
  st_etag :: "string option"
  st_count :: int
  st_skipped :: nat
  st_item_errors :: "(nat \<times> string) list"

text \<open>What stays fixed in a run.\<close>

record sync_run =
  run_registry :: string
  run_token :: string
  run_sha256 :: "string \<Rightarrow> string"
  run_clock :: "nat \<Rightarrow> int"
  run_db_error :: string
  run_page_size :: int
  run_targeted :: nat
  run_target_errors :: "(string \<times> string) list"

definition busy_result :: "int \<Rightarrow> int \<Rightarrow> sync_result" where
  "busy_result offset count =
     \<lparr>sync_status = ''busy'', sync_count = count, sync_next_offset = offset, sync_targeted_count = 0,
      sync_last_error = None, sync_target_errors = [], sync_skipped_count = 0, sync_item_errors = []\<rparr>"

text \<open>\<open>_result\<close>: at most twenty item errors are shown.\<close>

definition run_result :: "sync_run \<Rightarrow> string \<Rightarrow> int \<Rightarrow> string option \<Rightarrow> sync_state \<Rightarrow> sync_result" where
  "run_result run status next error st =
     \<lparr>sync_status = status, sync_count = st_count st, sync_next_offset = next,
      sync_targeted_count = run_targeted run, sync_last_error = error,
      sync_target_errors = run_target_errors run, sync_skipped_count = st_skipped st,
      sync_item_errors = take 20 (st_item_errors st)\<rparr>"

definition cursor_to :: "string \<Rightarrow> string option \<Rightarrow> string \<Rightarrow> string option \<Rightarrow> bool \<Rightarrow> cursor_update" where
  "cursor_to cursor etag status error release =
     \<lparr>cu_cursor = Some cursor, cu_etag = etag, cu_status = status, cu_last_error = error, cu_release = release\<rparr>"

definition commit_page :: "sync_run \<Rightarrow> nat \<Rightarrow> page_entry list \<Rightarrow> cursor_update \<Rightarrow> catalog_db
    \<Rightarrow> py_error + (catalog_db \<times> bool)" where
  "commit_page run i entries u db =
     commit_registry_page (run_sha256 run) (run_registry run) (run_token run) entries u (run_clock run i) db"

text \<open>
  The handler of \<open>except Exception\<close>: a commit of no entries never raises, so its error is the
  first component.
\<close>

definition run_failed :: "sync_run \<Rightarrow> nat \<Rightarrow> string \<Rightarrow> sync_state \<Rightarrow> catalog_db \<times> sync_result" where
  "run_failed run i error st =
     (case commit_page run i [] (cursor_to (show_int (st_offset st)) (st_etag st) ''partial'' (Some error) True) (st_db st) of
        Inl _ \<Rightarrow> (st_db st, busy_result (st_offset st) (st_count st))
      | Inr (db, True) \<Rightarrow> (db, run_result run ''partial'' (st_offset st) (Some error) st)
      | Inr (db, False) \<Rightarrow> (db, busy_result (st_offset st) (st_count st)))"

datatype page_outcome = Stop catalog_db sync_result | Go sync_state

text \<open>A commit inside the \<open>try\<close>: an integrity error is caught, a lost lease ends the run.\<close>

definition commit_or ::
  "sync_run \<Rightarrow> nat \<Rightarrow> page_entry list \<Rightarrow> cursor_update \<Rightarrow> sync_state \<Rightarrow> (catalog_db \<Rightarrow> page_outcome) \<Rightarrow> page_outcome" where
  "commit_or run i entries u st continue =
     (case commit_page run i entries u (st_db st) of
        Inl _ \<Rightarrow> (case run_failed run (Suc i) (run_db_error run) st of (db, res) \<Rightarrow> Stop db res)
      | Inr (db, True) \<Rightarrow> continue db
      | Inr (db, False) \<Rightarrow> Stop db (busy_result (st_offset st) (st_count st)))"

definition or_else :: "string option \<Rightarrow> string option \<Rightarrow> string option" where
  "or_else a b = (if a = None \<or> a = Some '''' then b else a)"

definition sync_page :: "sync_run \<Rightarrow> 'r registry_adapter \<Rightarrow> nat \<Rightarrow> sync_state \<Rightarrow> page_outcome" where
  "sync_page run adapter i st =
     (let failed = (\<lambda>e st. case run_failed run i e st of (db, res) \<Rightarrow> Stop db res) in
      case fetch_page adapter (st_offset st) (run_page_size run) (if st_offset st = 0 then st_etag st else None) of
        Inl e \<Rightarrow> failed e st
      | Inr page \<Rightarrow>
          if not_modified page
          then commit_or run i [] (cursor_to ''0'' (or_else (page_etag page) (st_etag st)) ''succeeded'' None True) st
                 (\<lambda>db. Stop db (run_result run ''succeeded'' 0 None st))
          else (case read_page page (st_offset st) of
              Inl e \<Rightarrow> failed e st
            | Inr (items, size_all) \<Rightarrow>
                (case normalize_entries (normalize_resource adapter) 0 items of (entries, errors) \<Rightarrow>
                 let st1 = st\<lparr>st_skipped := st_skipped st + length errors,
                       st_item_errors := st_item_errors st @ errors,
                       st_etag := (if st_offset st = 0 then or_else (page_etag page) (st_etag st) else st_etag st)\<rparr>;
                     next = st_offset st + int (length items);
                     count = st_count st + int (length items)
                 in if size_all \<le> next
                    then commit_or run i entries (cursor_to ''0'' (st_etag st1) ''succeeded'' None True) st1
                      (\<lambda>db. Stop db (run_result run ''succeeded'' 0 None (st1\<lparr>st_count := count\<rparr>)))
                    else if next \<le> st_offset st
                    then failed ''ValueError: inventory pagination did not advance'' st1
                    else commit_or run i entries (cursor_to (show_int next) (st_etag st1) ''running'' None False) st1
                      (\<lambda>db. Go (st1\<lparr>st_db := db, st_count := count, st_offset := next\<rparr>)))))"

text \<open>\<open>for _ in range(n)\<close>; a page reads the clock at most twice.\<close>

fun sync_pages :: "sync_run \<Rightarrow> 'r registry_adapter \<Rightarrow> nat \<Rightarrow> nat \<Rightarrow> sync_state \<Rightarrow> catalog_db \<times> sync_result" where
  "sync_pages run adapter 0 i st =
     (case commit_page run i [] (cursor_to (show_int (st_offset st)) (st_etag st) ''running'' None True) (st_db st) of
        Inl _ \<Rightarrow> (st_db st, busy_result (st_offset st) (st_count st))
      | Inr (db, True) \<Rightarrow> (db, run_result run ''in_progress'' (st_offset st) None st)
      | Inr (db, False) \<Rightarrow> (db, busy_result (st_offset st) (st_count st)))"
| "sync_pages run adapter (Suc n) i st =
     (case sync_page run adapter i st of
        Stop db res \<Rightarrow> (db, res)
      | Go st' \<Rightarrow> sync_pages run adapter n (i + 2) st')"

section \<open>Targeted supply\<close>

text \<open>
  \<open>bazaar_target_coverage\<close> of the repository: which offerings found for a target exist, and how
  far they are verified.
\<close>

record bazaar_target =
  bt_category :: string
  bt_name :: string
  bt_first_party_domains :: "string list"

definition falsy :: "pyval \<Rightarrow> bool" where
  "falsy v \<longleftrightarrow> v \<in> {PNone, PBool False, PInt 0, PStr '''', PList [], PDict []}"

definition marker_name :: "pyval \<Rightarrow> string" where
  "marker_name m =
     (case m of
        PDict d \<Rightarrow> if falsy (dget d ''name'') then '''' else lower (py_str (dget d ''name''))
      | _ \<Rightarrow> '''')"

definition target_markers :: "pydict \<Rightarrow> pyval list" where
  "target_markers metadata = (case dget metadata ''bazaar_targets'' of PList ms \<Rightarrow> ms | _ \<Rightarrow> [])"

definition CDP_BAZAAR :: string where
  "CDP_BAZAAR = ''cdp_bazaar''"

definition bazaar_rows :: "catalog_db \<Rightarrow> (offering_row \<times> provider_row \<times> offering) list" where
  "bazaar_rows db =
     concat (map (\<lambda>r. case find_provider (or_provider_id r) db of
         None \<Rightarrow> []
       | Some p \<Rightarrow> map (\<lambda>n. (r, p, pn_payload n)) (filter (\<lambda>n.
           pn_offering_id n = or_offering_id r \<and> pn_registry_id n = CDP_BAZAAR) (provenance_rows db)))
       (offering_rows db))"

record target_coverage =
  tc_name :: string
  tc_category :: string
  tc_status :: string
  tc_candidates :: nat
  tc_registry_verified :: nat
  tc_clink_verified :: nat

definition target_coverage_of :: "catalog_db \<Rightarrow> bazaar_target \<Rightarrow> target_coverage" where
  "target_coverage_of db t =
     (let rows = filter (\<lambda>(r, p, payload). lower (bt_name t) \<in> marker_name ` set (target_markers (of_metadata payload)))
            (bazaar_rows db);
          ids = (\<lambda>keep. remdups (map (\<lambda>(r, p, payload). or_offering_id r) (filter (\<lambda>(r, p, payload). keep r p) rows)));
          registry = ids (\<lambda>r p. or_status r = ''registry_verified'');
          clink = ids (\<lambda>r p. or_status r = ''verified'' \<and> pr_status p = ''active'');
          candidates = filter (\<lambda>i. i \<notin> set registry \<and> i \<notin> set clink) (ids (\<lambda>r p. True));
          claimed = list_ex (\<lambda>(r, p, payload). pr_wallet_address p \<noteq> None) rows
      in \<lparr>tc_name = bt_name t, tc_category = bt_category t,
          tc_status = (if clink \<noteq> [] then ''clink_verified'' else if registry \<noteq> [] then ''registry_verified''
            else if claimed then ''claimed'' else if candidates \<noteq> [] then ''discovered'' else ''missing''),
          tc_candidates = length candidates, tc_registry_verified = length registry,
          tc_clink_verified = length clink\<rparr>)"

definition bazaar_target_coverage :: "catalog_db \<Rightarrow> bazaar_target list \<Rightarrow> target_coverage list" where
  "bazaar_target_coverage db targets = map (target_coverage_of db) targets"

definition should_refresh_targets :: "catalog_db \<Rightarrow> bazaar_target list \<Rightarrow> int \<Rightarrow> bool" where
  "should_refresh_targets db targets offset \<longleftrightarrow>
     offset = 0 \<or> list_ex (\<lambda>c. tc_status c = ''missing'') (bazaar_target_coverage db targets)"

text \<open>
  What a search finds for a target and how a found resource relates to it are arguments; an
  error ends the target, keeping what it already gave.
\<close>

record 'r target_search =
  ts_search :: "(string \<Rightarrow> string + 'r list) option"
  ts_classify :: "bazaar_target \<Rightarrow> 'r \<Rightarrow> string + string option"

definition target_metadata :: "bazaar_target \<Rightarrow> string \<Rightarrow> pyval" where
  "target_metadata t relationship =
     PDict [(''name'', PStr (bt_name t)), (''category'', PStr (bt_category t)), (''relationship'', PStr relationship)]"

definition mark_target ::
  "bazaar_target \<Rightarrow> string \<Rightarrow> provider \<Rightarrow> offering \<Rightarrow> (string \<times> page_entry) list \<Rightarrow> (string \<times> page_entry) list" where
  "mark_target t relationship p o1 entries =
     (let known = (case map_of entries (of_offering_id o1) of
            None \<Rightarrow> [] | Some (_, o2, _) \<Rightarrow> target_markers (of_metadata o2));
          marker = target_metadata t relationship;
          markers = (if list_ex (py_eq marker) known then known else known @ [marker])
      in AList.update (of_offering_id o1)
           (p, o1\<lparr>of_metadata := dset ''bazaar_targets'' (PList markers) (of_metadata o1)\<rparr>, of_source_id o1) entries)"

fun target_resources ::
  "('r \<Rightarrow> string + string option) \<Rightarrow> ('r \<Rightarrow> string + provider \<times> offering) \<Rightarrow> bazaar_target \<Rightarrow> 'r list
     \<Rightarrow> (string \<times> page_entry) list \<Rightarrow> (string \<times> page_entry) list \<times> string option" where
  "target_resources classify norm1 t [] entries = (entries, None)"
| "target_resources classify norm1 t (r # rs) entries =
     (case classify r of
        Inl e \<Rightarrow> (entries, Some e)
      | Inr None \<Rightarrow> target_resources classify norm1 t rs entries
      | Inr (Some relationship) \<Rightarrow>
          (case norm1 r of
             Inl e \<Rightarrow> (entries, Some e)
           | Inr (p, o1) \<Rightarrow> target_resources classify norm1 t rs (mark_target t relationship p o1 entries)))"

fun targeted_entries_from ::
  "'r target_search \<Rightarrow> ('r \<Rightarrow> string + provider \<times> offering) \<Rightarrow> (string \<Rightarrow> string + 'r list) \<Rightarrow> bazaar_target list
     \<Rightarrow> (string \<times> page_entry) list \<Rightarrow> (string \<times> string) list \<Rightarrow> page_entry list \<times> (string \<times> string) list" where
  "targeted_entries_from ts norm1 search [] entries errors = (map snd entries, errors)"
| "targeted_entries_from ts norm1 search (t # targets) entries errors =
     (case search (bt_name t) of
        Inl e \<Rightarrow> targeted_entries_from ts norm1 search targets entries (errors @ [(bt_name t, e)])
      | Inr resources \<Rightarrow>
          (case target_resources (ts_classify ts t) norm1 t resources entries of
             (entries', None) \<Rightarrow> targeted_entries_from ts norm1 search targets entries' errors
           | (entries', Some e) \<Rightarrow> targeted_entries_from ts norm1 search targets entries' (errors @ [(bt_name t, e)])))"

definition targeted_entries ::
  "'r target_search \<Rightarrow> ('r \<Rightarrow> string + provider \<times> offering) \<Rightarrow> bazaar_target list
     \<Rightarrow> page_entry list \<times> (string \<times> string) list" where
  "targeted_entries ts norm1 targets =
     (case ts_search ts of None \<Rightarrow> ([], []) | Some search \<Rightarrow> targeted_entries_from ts norm1 search targets [] [])"

section \<open>Syncing a registry\<close>

record 'r aggregator =
  ag_adapter :: "'r registry_adapter"
  ag_search :: "'r target_search"
  ag_targets :: "bazaar_target list"
  ag_max_pages :: nat

definition start_state :: "catalog_db \<Rightarrow> int \<Rightarrow> string option \<Rightarrow> sync_state" where
  "start_state db offset etag =
     \<lparr>st_db = db, st_offset = offset, st_etag = etag, st_count = 0, st_skipped = 0, st_item_errors = []\<rparr>"

text \<open>\<open>sync_registry\<close> of an adapter that pages by offset, with the token it drew for the lease.\<close>

definition sync_registry :: "sync_run \<Rightarrow> 'r aggregator \<Rightarrow> catalog_db \<Rightarrow> catalog_db \<times> sync_result" where
  "sync_registry run0 ag db =
     (let row = find_cursor (run_registry run0) db;
          offset = read_offset (Option.bind row rc_cursor);
          etag = Option.bind row rc_etag;
          run = run0\<lparr>run_targeted := 0, run_target_errors := []\<rparr>
      in case acquire_registry_lease (run_registry run) (run_token run) (run_clock run 0) db of
           (db1, False) \<Rightarrow> (db1, busy_result offset 0)
         | (db1, True) \<Rightarrow>
             if run_registry run = CDP_BAZAAR \<and> ag_targets ag \<noteq> [] \<and> should_refresh_targets db1 (ag_targets ag) offset
             then (case targeted_entries (ag_search ag) (normalize_resource (ag_adapter ag)) (ag_targets ag) of
                 (entries, errors) \<Rightarrow>
                   let run1 = run\<lparr>run_targeted := length entries, run_target_errors := errors\<rparr> in
                   if entries = [] then sync_pages run1 (ag_adapter ag) (ag_max_pages ag) 3 (start_state db1 offset etag)
                   else (case commit_page run1 1 entries (cursor_to (show_int offset) etag ''running'' None False) db1 of
                       Inl _ \<Rightarrow> run_failed run1 2 (run_db_error run1) (start_state db1 offset etag)
                     | Inr (db2, False) \<Rightarrow> (db2, busy_result offset 0)
                     | Inr (db2, True) \<Rightarrow>
                         sync_pages run1 (ag_adapter ag) (ag_max_pages ag) 3 (start_state db2 offset etag)))
             else sync_pages run (ag_adapter ag) (ag_max_pages ag) 3 (start_state db1 offset etag))"

section \<open>Registries that page by cursor\<close>

text \<open>\<open>_sync_cursor_registry\<close>; every exception ends the run the same way, so a page that fails is \<open>None\<close>.\<close>

record 'r peer_page =
  pp_not_modified :: bool
  pp_etag :: "string option"
  pp_items :: "'r list option"
  pp_cursor :: pyval
  pp_next_cursor :: pyval

record 'r peer_adapter =
  peer_fetch :: "string option \<Rightarrow> int \<Rightarrow> string option \<Rightarrow> 'r peer_page option"
  peer_normalize :: "'r \<Rightarrow> (provider \<times> offering) option"
  peer_source_id :: "'r \<Rightarrow> pyval"

record peer_result =
  peer_status :: string
  peer_count :: int
  peer_next_cursor :: "string option"

definition peer_res :: "string \<Rightarrow> int \<Rightarrow> string option \<Rightarrow> peer_result" where
  "peer_res status count cursor = \<lparr>peer_status = status, peer_count = count, peer_next_cursor = cursor\<rparr>"

fun peer_entries :: "'r peer_adapter \<Rightarrow> 'r list \<Rightarrow> page_entry list option" where
  "peer_entries adapter [] = Some []"
| "peer_entries adapter (r # rs) =
     (case (peer_normalize adapter r, peer_entries adapter rs) of
        (Some (p, o1), Some es) \<Rightarrow>
          Some ((p, o1, if falsy (peer_source_id adapter r) then of_source_id o1
                        else py_str (peer_source_id adapter r)) # es)
      | _ \<Rightarrow> None)"

definition cursor_value :: "string option \<Rightarrow> pyval" where
  "cursor_value c = (case c of None \<Rightarrow> PNone | Some s \<Rightarrow> PStr s)"

definition cursor_or_zero :: "string option \<Rightarrow> string" where
  "cursor_or_zero c = (case c of None \<Rightarrow> ''0'' | Some s \<Rightarrow> if s = '''' then ''0'' else s)"

record peer_state =
  ps_db :: catalog_db
  ps_cursor :: "string option"
  ps_etag :: "string option"
  ps_count :: int

datatype peer_outcome = PeerStop catalog_db peer_result | PeerGo peer_state

text \<open>The result of the handler's commit is not looked at.\<close>

definition peer_failed :: "sync_run \<Rightarrow> nat \<Rightarrow> peer_state \<Rightarrow> peer_outcome" where
  "peer_failed run i st =
     PeerStop
       (case commit_page run i [] (cursor_to (cursor_or_zero (ps_cursor st)) (ps_etag st) ''partial''
            (Some ''inventory page failed'') True) (ps_db st) of
          Inl _ \<Rightarrow> ps_db st | Inr (db, _) \<Rightarrow> db)
       (peer_res ''partial'' (ps_count st) (ps_cursor st))"

definition peer_commit ::
  "sync_run \<Rightarrow> nat \<Rightarrow> page_entry list \<Rightarrow> cursor_update \<Rightarrow> peer_state \<Rightarrow> (catalog_db \<Rightarrow> peer_outcome) \<Rightarrow> peer_outcome" where
  "peer_commit run i entries u st continue =
     (case commit_page run i entries u (ps_db st) of
        Inl _ \<Rightarrow> peer_failed run (Suc i) st
      | Inr (db, True) \<Rightarrow> continue db
      | Inr (db, False) \<Rightarrow> PeerStop db (peer_res ''busy'' (ps_count st) (ps_cursor st)))"

definition peer_page_step :: "sync_run \<Rightarrow> 'r peer_adapter \<Rightarrow> nat \<Rightarrow> peer_state \<Rightarrow> peer_outcome" where
  "peer_page_step run adapter i st =
     (case peer_fetch adapter (ps_cursor st) (run_page_size run) (if ps_cursor st = None then ps_etag st else None) of
        None \<Rightarrow> peer_failed run i st
      | Some page \<Rightarrow>
          if pp_not_modified page
          then peer_commit run i [] (cursor_to ''0'' (or_else (pp_etag page) (ps_etag st)) ''succeeded'' None True) st
                 (\<lambda>db. PeerStop db (peer_res ''succeeded'' (ps_count st) None))
          else
            (case (pp_items page, Option.bind (pp_items page) (peer_entries adapter)) of
               (Some items, Some entries) \<Rightarrow>
                 if \<not> py_eq (pp_cursor page) (cursor_value (ps_cursor st)) then peer_failed run i st
                 else if pp_next_cursor page \<noteq> PNone \<and> py_eq (pp_next_cursor page) (cursor_value (ps_cursor st))
                 then peer_failed run i st
                 else
                   let st1 = st\<lparr>ps_etag := (if ps_cursor st = None then or_else (pp_etag page) (ps_etag st) else ps_etag st)\<rparr>;
                       done = (pp_next_cursor page = PNone);
                       count = ps_count st + int (length items);
                       next = py_str (pp_next_cursor page)
                   in peer_commit run i entries
                        (cursor_to (if done then ''0'' else next) (ps_etag st1)
                          (if done then ''succeeded'' else ''running'') None done) st1
                        (\<lambda>db. if done then PeerStop db (peer_res ''succeeded'' count None)
                              else PeerGo (st1\<lparr>ps_db := db, ps_count := count, ps_cursor := Some next\<rparr>))
             | _ \<Rightarrow> peer_failed run i st))"

fun peer_pages :: "sync_run \<Rightarrow> 'r peer_adapter \<Rightarrow> nat \<Rightarrow> nat \<Rightarrow> peer_state \<Rightarrow> catalog_db \<times> peer_result" where
  "peer_pages run adapter 0 i st =
     (case commit_page run i [] (cursor_to (cursor_or_zero (ps_cursor st)) (ps_etag st) ''partial''
          (Some ''inventory page limit reached'') True) (ps_db st) of
        Inl _ \<Rightarrow> (ps_db st, peer_res ''busy'' (ps_count st) (ps_cursor st))
      | Inr (db, True) \<Rightarrow> (db, peer_res ''partial'' (ps_count st) (ps_cursor st))
      | Inr (db, False) \<Rightarrow> (db, peer_res ''busy'' (ps_count st) (ps_cursor st)))"
| "peer_pages run adapter (Suc n) i st =
     (case peer_page_step run adapter i st of
        PeerStop db res \<Rightarrow> (db, res)
      | PeerGo st' \<Rightarrow> peer_pages run adapter n (i + 2) st')"

definition sync_cursor_registry ::
  "sync_run \<Rightarrow> 'r peer_adapter \<Rightarrow> nat \<Rightarrow> catalog_db \<Rightarrow> catalog_db \<times> peer_result" where
  "sync_cursor_registry run adapter max_pages db =
     (let row = find_cursor (run_registry run) db;
          stored = Option.bind row rc_cursor;
          cursor = (if stored = Some ''0'' then None else stored)
      in case acquire_registry_lease (run_registry run) (run_token run) (run_clock run 0) db of
           (db1, False) \<Rightarrow> (db1, peer_res ''busy'' 0 cursor)
         | (db1, True) \<Rightarrow> peer_pages run adapter max_pages 1
             \<lparr>ps_db = db1, ps_cursor = cursor, ps_etag = Option.bind row rc_etag, ps_count = 0\<rparr>)"

end
