(* ===== verification/Registry_Safety.thy ===== *)
theory Registry_Safety
  imports Registry_Sync
begin

text \<open>
  What an import can do to the catalogue, and how far a run moves its cursor. Every write of a
  run only imports: what is on sale stays as it is and nothing is put on sale.
\<close>

section \<open>Imports\<close>

text \<open>The database's foreign key: an offering's provider is in the table.\<close>

definition offerings_owned :: "catalog_db \<Rightarrow> bool" where
  "offerings_owned db \<longleftrightarrow>
     (\<forall>r \<in> set (offering_rows db). find_provider (or_provider_id r) db \<noteq> None)"

definition on_sale_status :: "string \<Rightarrow> bool" where
  "on_sale_status s \<longleftrightarrow> s = ''registry_verified'' \<or> s = ''verified''"

definition offerings_import :: "catalog_db \<Rightarrow> catalog_db \<Rightarrow> bool" where
  "offerings_import db db' \<longleftrightarrow>
     (\<forall>oid r. find_offering oid db' = Some r \<longrightarrow> on_sale_status (or_status r) \<longrightarrow> find_offering oid db = Some r)"

definition providers_import :: "catalog_db \<Rightarrow> catalog_db \<Rightarrow> bool" where
  "providers_import db db' \<longleftrightarrow>
     (\<forall>pid p. find_provider pid db = Some p \<longrightarrow>
        (\<exists>p'. find_provider pid db' = Some p' \<and> (p' = p \<or> pr_status p = ''discovered'' \<and> pr_status p' = ''discovered'')))"

definition only_imports :: "catalog_db \<Rightarrow> catalog_db \<Rightarrow> bool" where
  "only_imports db db' \<longleftrightarrow> offerings_import db db' \<and> providers_import db db' \<and>
     (offerings_owned db \<longrightarrow> offerings_owned db')"

lemma imports_refl [simp]: "only_imports db db"
  by (auto simp: only_imports_def offerings_import_def providers_import_def)

lemma offerings_import_trans: "offerings_import a b \<Longrightarrow> offerings_import b c \<Longrightarrow> offerings_import a c"
  unfolding offerings_import_def by blast

lemma providers_import_trans:
  assumes "providers_import a b" "providers_import b c"
  shows "providers_import a c"
  unfolding providers_import_def
proof (intro allI impI)
  fix pid p assume "find_provider pid a = Some p"
  then obtain q where q: "find_provider pid b = Some q"
    "q = p \<or> pr_status p = ''discovered'' \<and> pr_status q = ''discovered''"
    using assms(1) unfolding providers_import_def by blast
  then obtain r where "find_provider pid c = Some r"
    "r = q \<or> pr_status q = ''discovered'' \<and> pr_status r = ''discovered''"
    using assms(2) unfolding providers_import_def by blast
  then show "\<exists>p'. find_provider pid c = Some p' \<and>
      (p' = p \<or> pr_status p = ''discovered'' \<and> pr_status p' = ''discovered'')"
    using q(2) by auto
qed

lemma imports_trans: "only_imports a b \<Longrightarrow> only_imports b c \<Longrightarrow> only_imports a c"
  using offerings_import_trans providers_import_trans by (simp add: only_imports_def) blast

lemma imports_same:
  assumes "offering_rows db' = offering_rows db" "provider_rows db' = provider_rows db"
  shows "only_imports db db'"
  using assms
  by (auto simp: only_imports_def offerings_import_def providers_import_def offerings_owned_def find_offering_def
      find_provider_def)

lemma owned_find:
  assumes "offering_rows db' = offering_rows db" "\<And>pid. find_provider pid db \<noteq> None \<Longrightarrow> find_provider pid db' \<noteq> None"
  shows "offerings_owned db \<Longrightarrow> offerings_owned db'"
  using assms by (auto simp: offerings_owned_def)

lemma import_provider_imports: "only_imports db (import_provider now p db)"
proof -
  let ?p = "p\<lparr>pv_status := ''discovered''\<rparr>"
  have rows: "offering_rows (import_provider now p db) = offering_rows db"
    by (auto simp: import_provider_def upsert_provider_def Let_def split: option.split)
  have "providers_import db (import_provider now p db)"
    unfolding providers_import_def
  proof (intro allI impI)
    fix pid q assume q: "find_provider pid db = Some q"
    show "\<exists>p'. find_provider pid (import_provider now p db) = Some p' \<and>
        (p' = q \<or> pr_status q = ''discovered'' \<and> pr_status p' = ''discovered'')"
      using q by (auto simp: import_provider_def upsert_provider_def Let_def find_provider_def sel_by_snoc sel_by_upd
          split: option.split)
  qed
  then show ?thesis
    using rows owned_find [OF rows] unfolding only_imports_def
    by (auto simp: offerings_import_def find_offering_def providers_import_def)
qed

lemma fold_import_providers: "only_imports db (fold (import_provider now) ps db)"
  by (induction ps arbitrary: db) (auto intro: imports_trans import_provider_imports)

lemma import_offering_imports:
  assumes "provider_needed db o1 \<Longrightarrow> has_provider db o1"
  shows "only_imports db (import_offering rid now o1 db)"
proof -
  have providers: "provider_rows (import_offering rid now o1 db) = provider_rows db"
    by (auto simp: import_offering_def upsert_offering_def Let_def split: option.split)
  have "offerings_import db (import_offering rid now o1 db)"
    unfolding offerings_import_def find_offering_def
    by (auto simp: import_offering_def upsert_offering_def reverify_def Let_def find_offering_def sel_by_snoc sel_by_upd
        on_sale_status_def split: option.splits if_splits)
  moreover have "offerings_owned (import_offering rid now o1 db)" if "offerings_owned db"
    using that assms
    by (auto simp: offerings_owned_def import_offering_def upsert_offering_def reverify_def Let_def find_provider_def
        has_provider_def provider_needed_def upd_by_def set_update_rows split: option.splits if_splits)
  ultimately show ?thesis
    using providers by (auto simp: only_imports_def providers_import_def find_provider_def)
qed

lemma add_provenance_frame [simp]:
  "offering_rows (add_provenance sha256 oid rid source payload cursor etag now db) = offering_rows db"
  "provider_rows (add_provenance sha256 oid rid source payload cursor etag now db) = provider_rows db"
  "cursor_rows (add_provenance sha256 oid rid source payload cursor etag now db) = cursor_rows db"
  by (simp_all add: add_provenance_def Let_def)

lemma import_entries_imports:
  "import_entries sha256 rid u now es db = Inr db' \<Longrightarrow> only_imports db db'"
proof (induction es arbitrary: db)
  case (Cons e es)
  obtain p o1 source where e: "e = (p, o1, source)" by (cases e) auto
  let ?next = "add_provenance sha256 (of_offering_id o1) rid source (o1\<lparr>of_status := ''discovered''\<rparr>)
      (cu_cursor u) (cu_etag u) now (import_offering rid now o1 db)"
  have c: "provider_needed db o1 \<longrightarrow> has_provider db o1" "import_entries sha256 rid u now es ?next = Inr db'"
    using Cons.prems by (auto simp: e split: if_splits)
  have "only_imports db (import_offering rid now o1 db)"
    using c(1) by (simp add: import_offering_imports)
  moreover have "only_imports (import_offering rid now o1 db) ?next" by (rule imports_same) simp_all
  ultimately show ?case using Cons.IH [OF c(2)] imports_trans by blast
qed simp

lemma commit_imports:
  assumes "commit_registry_page sha256 rid token entries u now db = Inr (db', ok)"
  shows "only_imports db db'"
proof (cases "find_cursor rid db")
  case None
  then show ?thesis using assms by (simp add: commit_registry_page_def)
next
  case (Some r)
  show ?thesis
  proof (cases "lease_held token now r")
    case True
    then obtain ps ordered db2 where
      "import_entries sha256 rid u now ordered (fold (import_provider now) ps db) = Inr db2"
      "db' = db2\<lparr>cursor_rows := upd_by rc_registry_id rid (updated_cursor u token now) (cursor_rows db2)\<rparr>"
      using assms Some by (auto simp: commit_registry_page_def Let_def and_then_eq_Inr split: if_splits)
    then show ?thesis
      using imports_trans [OF fold_import_providers imports_trans [OF import_entries_imports imports_same]]
      by simp
  qed (use assms Some in \<open>simp add: commit_registry_page_def\<close>)
qed

lemma acquire_imports: "acquire_registry_lease rid token now db = (db', ok) \<Longrightarrow> only_imports db db'"
  by (rule imports_same) (auto simp: acquire_registry_lease_def Let_def split: option.splits if_splits)

lemma run_failed_imports: "run_failed run i e st = (db', res) \<Longrightarrow> only_imports (st_db st) db'"
  by (auto simp: run_failed_def commit_page_def split: sum.splits bool.splits dest: commit_imports)

definition page_keeps :: "(catalog_db \<Rightarrow> bool) \<Rightarrow> page_outcome \<Rightarrow> bool" where
  "page_keeps P out \<longleftrightarrow> (case out of Stop db res \<Rightarrow> P db | Go st \<Rightarrow> P (st_db st))"

lemma page_keeps_simps [simp]:
  "page_keeps P (Stop db res) = P db" "page_keeps P (Go st) = P (st_db st)"
  by (simp_all add: page_keeps_def)

lemma failed_keeps:
  "page_keeps (only_imports (st_db st)) (case run_failed run i e st of (db, res) \<Rightarrow> Stop db res)"
  by (auto split: prod.split dest: run_failed_imports)

lemma commit_or_keeps:
  assumes "\<And>db. only_imports (st_db st) db \<Longrightarrow> page_keeps (only_imports (st_db st)) (continue db)"
  shows "page_keeps (only_imports (st_db st)) (commit_or run i entries u st continue)"
  using assms
  by (auto simp: commit_or_def commit_page_def failed_keeps split: sum.splits bool.splits prod.splits dest: commit_imports)

lemma sync_page_imports: "page_keeps (only_imports (st_db st)) (sync_page run adapter i st)"
proof -
  have same: "page_keeps (only_imports (st_db st)) (commit_or run i entries u st1 continue)"
    if "st_db st1 = st_db st" "\<And>db. only_imports (st_db st) db \<Longrightarrow> page_keeps (only_imports (st_db st)) (continue db)"
    for entries u st1 continue
    using commit_or_keeps [of st1 continue run i entries u] that by simp
  have failed: "page_keeps (only_imports (st_db st)) (case run_failed run i e st1 of (db, res) \<Rightarrow> Stop db res)"
    if "st_db st1 = st_db st" for e st1
    using failed_keeps [of st1 run i e] that by simp
  show ?thesis
    unfolding sync_page_def Let_def
    by (auto simp: failed intro!: same failed split: sum.split prod.split)
qed

lemma sync_pages_imports: "sync_pages run adapter n i st = (db', res) \<Longrightarrow> only_imports (st_db st) db'"
proof (induction n arbitrary: i st)
  case 0
  then show ?case by (auto simp: commit_page_def split: sum.splits bool.splits dest: commit_imports)
next
  case (Suc n)
  then show ?case
    using sync_page_imports [of st run adapter i] imports_trans
    by (fastforce split: page_outcome.splits)
qed

text \<open>The same for a registry that pages by cursor.\<close>

definition peer_keeps :: "(catalog_db \<Rightarrow> bool) \<Rightarrow> peer_outcome \<Rightarrow> bool" where
  "peer_keeps P out \<longleftrightarrow> (case out of PeerStop db res \<Rightarrow> P db | PeerGo st \<Rightarrow> P (ps_db st))"

lemma peer_keeps_simps [simp]:
  "peer_keeps P (PeerStop db res) = P db" "peer_keeps P (PeerGo st) = P (ps_db st)"
  by (simp_all add: peer_keeps_def)

lemma peer_failed_keeps: "ps_db st1 = ps_db st \<Longrightarrow> peer_keeps (only_imports (ps_db st)) (peer_failed run i st1)"
  by (auto simp: peer_failed_def commit_page_def split: sum.split dest: commit_imports)

lemma peer_commit_keeps:
  assumes "ps_db st1 = ps_db st"
    and "\<And>db. only_imports (ps_db st) db \<Longrightarrow> peer_keeps (only_imports (ps_db st)) (continue db)"
  shows "peer_keeps (only_imports (ps_db st)) (peer_commit run i entries u st1 continue)"
  using assms
  by (auto simp: peer_commit_def commit_page_def peer_failed_keeps split: sum.splits bool.splits dest: commit_imports)

lemma peer_page_imports: "peer_keeps (only_imports (ps_db st)) (peer_page_step run adapter i st)"
proof -
  note failed = peer_failed_keeps [of st st run i, OF refl]
  show ?thesis
  proof (cases "peer_fetch adapter (ps_cursor st) (run_page_size run) (if ps_cursor st = None then ps_etag st else None)")
    case None
    then show ?thesis by (simp add: peer_page_step_def failed)
  next
    case (Some page)
    show ?thesis
    proof (cases "pp_not_modified page")
      case True
      then show ?thesis using Some by (simp add: peer_page_step_def peer_commit_keeps)
    next
      case False
      show ?thesis
        unfolding peer_page_step_def Some option.case if_not_P [OF False] Let_def
        by (split option.split prod.split if_split | simp only: failed prod.case option.case
            | intro allI impI conjI peer_commit_keeps | simp)+
    qed
  qed
qed

lemma peer_pages_imports: "peer_pages run adapter n i st = (db', res) \<Longrightarrow> only_imports (ps_db st) db'"
proof (induction n arbitrary: i st)
  case 0
  then show ?case by (auto simp: commit_page_def split: sum.splits bool.splits dest: commit_imports)
next
  case (Suc n)
  then show ?case
    using peer_page_imports [of st run adapter i] imports_trans
    by (fastforce split: peer_outcome.splits)
qed

lemma sync_cursor_imports: "sync_cursor_registry run adapter n db = (db', res) \<Longrightarrow> only_imports db db'"
  using peer_pages_imports acquire_imports imports_trans
  by (fastforce simp: sync_cursor_registry_def Let_def split: prod.splits bool.splits)

lemma start_pages:
  "sync_pages run adapter n i (start_state db offset etag) = (db', res) \<Longrightarrow> only_imports db db'"
  using sync_pages_imports [of run adapter n i "start_state db offset etag"] by (simp add: start_state_def)

lemma targeted_imports:
  assumes "(case commit_page run 1 entries u db of
      Inl _ \<Rightarrow> run_failed run 2 e (start_state db offset etag)
    | Inr (db2, False) \<Rightarrow> (db2, busy_result offset 0)
    | Inr (db2, True) \<Rightarrow> sync_pages run adapter n 3 (start_state db2 offset etag)) = (db', res)"
  shows "only_imports db db'"
proof (cases "commit_page run 1 entries u db")
  case (Inl x)
  then show ?thesis
    using assms run_failed_imports [of run 2 e "start_state db offset etag"] by (simp add: start_state_def)
next
  case (Inr y)
  then obtain db2 ok where y: "y = (db2, ok)" "only_imports db db2"
    by (cases y) (auto simp: commit_page_def dest: commit_imports)
  show ?thesis
  proof (cases ok)
    case True
    then show ?thesis using assms Inr y start_pages [of run adapter n 3 db2 offset etag] imports_trans by auto
  next
    case False
    then show ?thesis using assms Inr y by simp
  qed
qed

lemma sync_imports:
  assumes "sync_registry run0 ag db = (db', res)"
  shows "only_imports db db'"
proof -
  obtain db1 ok where a: "acquire_registry_lease (run_registry run0) (run_token run0) (run_clock run0 0) db = (db1, ok)"
    by force
  have "only_imports db1 db'" if ok
    using assms that a
    by (simp add: sync_registry_def Let_def split: if_splits prod.splits)
      (auto intro: start_pages targeted_imports)
  moreover have "db' = db1" if "\<not> ok" using assms a that by (simp add: sync_registry_def Let_def)
  ultimately show ?thesis using acquire_imports [OF a] imports_trans by (cases ok) auto
qed

lemma imports_keep_sale:
  assumes i: "only_imports db db'" "offerings_owned db" and s: "active_offering render db' oid True = Some o1"
  shows "active_offering render db oid True = Some o1"
proof -
  obtain r p where r: "find_offering oid db' = Some r" "find_provider (or_provider_id r) db' = Some p"
    "pr_status p = ''active'' \<or> pr_status p = ''discovered'' \<and> or_status r = ''registry_verified''"
    "on_sale_status (or_status r)" "o1 = public_offering render r"
    using s by (auto simp: active_offering_def on_sale_status_def split: option.splits if_splits)
  then have db: "find_offering oid db = Some r"
    using i(1) by (auto simp: only_imports_def offerings_import_def)
  then have "r \<in> set (offering_rows db)" by (auto simp: find_offering_def dest: sel_by_in)
  then obtain q where q: "find_provider (or_provider_id r) db = Some q"
    using i(2) by (auto simp: offerings_owned_def)
  then have "p = q \<or> pr_status q = ''discovered'' \<and> pr_status p = ''discovered''"
    using i(1) r(2) unfolding only_imports_def providers_import_def by fastforce
  then show ?thesis
    using r db q by (auto simp: active_offering_def on_sale_status_def)
qed

section \<open>Progress of the cursor\<close>

definition stored_cursor :: "string \<Rightarrow> catalog_db \<Rightarrow> string option" where
  "stored_cursor rid db = Option.bind (find_cursor rid db) rc_cursor"

lemma read_show_int [simp]: "read_offset (Some (show_int k)) = k"
proof (cases "k < 0")
  case True
  then show ?thesis
    using show_nat_digits [of "nat (- k)"]
    by (simp add: read_offset_def show_int_def is_digits_def is_digit_char_def)
next
  case False
  then show ?thesis using show_nat_digits [of "nat k"] by (simp add: read_offset_def show_int_def)
qed

lemma import_provider_cursors [simp]: "cursor_rows (import_provider now p db) = cursor_rows db"
  by (auto simp: import_provider_def upsert_provider_def Let_def split: option.split)

lemma fold_import_cursors [simp]: "cursor_rows (fold (import_provider now) ps db) = cursor_rows db"
  by (induction ps arbitrary: db) simp_all

lemma import_offering_cursors [simp]: "cursor_rows (import_offering rid now o1 db) = cursor_rows db"
  by (auto simp: import_offering_def upsert_offering_def Let_def split: option.split)

lemma import_entries_cursors: "import_entries sha256 rid u now es db = Inr db' \<Longrightarrow> cursor_rows db' = cursor_rows db"
  by (induction es arbitrary: db) (auto split: if_splits)

lemma commit_stores_cursor:
  assumes "commit_page run i entries u db = Inr (db', True)"
  shows "stored_cursor (run_registry run) db' = cu_cursor u"
  using assms import_entries_cursors
  by (fastforce simp: commit_page_def commit_registry_page_def Let_def and_then_eq_Inr stored_cursor_def find_cursor_def
      sel_by_upd updated_cursor_def split: option.splits if_splits)

text \<open>A registry that never claims more than \<open>n\<close> resources.\<close>

definition claims_at_most :: "int \<Rightarrow> 'r registry_adapter \<Rightarrow> bool" where
  "claims_at_most n adapter \<longleftrightarrow>
     (\<forall>offset limit etag page first count size_all. fetch_page adapter offset limit etag = Inr page \<longrightarrow>
        page_numbers page = Inr (first, count, size_all) \<longrightarrow> size_all \<le> n)"

lemma claims_bound:
  "claims_at_most n adapter \<Longrightarrow> fetch_page adapter offset limit etag = Inr page \<Longrightarrow>
     page_numbers page = Inr (first, count, size_all) \<Longrightarrow> size_all \<le> n"
  by (simp add: claims_at_most_def)

lemma commit_or_Go:
  "commit_or run i entries u st continue = Go st' \<Longrightarrow>
     \<exists>db. commit_page run i entries u (st_db st) = Inr (db, True) \<and> continue db = Go st'"
  by (auto simp: commit_or_def split: sum.splits bool.splits prod.splits)

lemma sync_page_Go:
  assumes "sync_page run adapter i st = Go st'" "claims_at_most n adapter"
  shows "0 \<le> st_offset st \<and> st_offset st < st_offset st' \<and> st_offset st' < n"
  using assms(1)
  by (auto simp: sync_page_def read_page_def Let_def and_then_eq_Inr dest!: commit_or_Go
      dest: claims_bound [OF assms(2)] split: sum.splits if_splits prod.splits option.splits)

lemma failed_not_in_progress:
  "run_failed run i e st = (db', res) \<Longrightarrow> sync_status res \<noteq> ''in_progress''"
  by (auto simp: run_failed_def busy_result_def run_result_def split: sum.splits bool.splits)

lemma commit_or_Stop:
  assumes "commit_or run i entries u st continue = Stop db' res"
    and "\<And>db. continue db = Stop db' res \<Longrightarrow> sync_status res \<noteq> ''in_progress''"
  shows "sync_status res \<noteq> ''in_progress''"
  using assms
  by (auto simp: commit_or_def busy_result_def split: sum.splits bool.splits prod.splits
      dest: failed_not_in_progress)

lemma sync_page_Stop: "sync_page run adapter i st = Stop db' res \<Longrightarrow> sync_status res \<noteq> ''in_progress''"
  by (auto simp: sync_page_def Let_def run_result_def dest: failed_not_in_progress elim!: commit_or_Stop
      split: sum.splits if_splits prod.splits)

lemma sync_pages_progress:
  assumes "sync_pages run adapter m i st = (db', res)" "sync_status res = ''in_progress''" "claims_at_most n adapter"
  shows "\<exists>k. stored_cursor (run_registry run) db' = Some (show_int k) \<and> (m = 0 \<longrightarrow> k = st_offset st) \<and>
    (0 < m \<longrightarrow> 0 \<le> st_offset st \<and> st_offset st < k \<and> k < n)"
  using assms(1,2)
proof (induction m arbitrary: i st)
  case 0
  then show ?case
    using commit_stores_cursor
    by (fastforce simp: busy_result_def cursor_to_def split: sum.splits bool.splits)
next
  case (Suc m)
  show ?case
  proof (cases "sync_page run adapter i st")
    case (Stop db res')
    then show ?thesis using Suc.prems sync_page_Stop [OF Stop] by simp
  next
    case (Go st')
    with Suc.prems have "sync_pages run adapter m (i + 2) st' = (db', res)" by simp
    from Suc.IH [OF this Suc.prems(2)] obtain k where
      "stored_cursor (run_registry run) db' = Some (show_int k)" "m = 0 \<longrightarrow> k = st_offset st'"
      "0 < m \<longrightarrow> 0 \<le> st_offset st' \<and> st_offset st' < k \<and> k < n" by blast
    with sync_page_Go [OF Go assms(3)] show ?thesis by (cases m) (auto intro!: exI [of _ k])
  qed
qed

lemma sync_progress:
  assumes "sync_registry run ag db = (db', res)" "sync_status res = ''in_progress''"
    and "claims_at_most n (ag_adapter ag)" "0 < ag_max_pages ag"
  shows "0 \<le> read_offset (stored_cursor (run_registry run) db) \<and>
    read_offset (stored_cursor (run_registry run) db) < read_offset (stored_cursor (run_registry run) db') \<and>
    read_offset (stored_cursor (run_registry run) db') < n"
proof -
  have pages: "0 \<le> offset \<and> offset < read_offset (stored_cursor (run_registry run) db') \<and>
      read_offset (stored_cursor (run_registry run) db') < n"
    if "sync_pages run1 (ag_adapter ag) (ag_max_pages ag) i (start_state db1 offset etag) = (db', res)"
      "run_registry run1 = run_registry run"
    for run1 i db1 offset etag
    using sync_pages_progress [OF that(1) assms(2,3)] assms(4) that(2) by (auto simp: start_state_def)
  have "\<exists>run1 i db1 etag. sync_pages run1 (ag_adapter ag) (ag_max_pages ag) i
      (start_state db1 (read_offset (stored_cursor (run_registry run) db)) etag) = (db', res) \<and>
      run_registry run1 = run_registry run"
  proof -
    have busy: "busy_result offset count \<noteq> res" for offset count using assms(2) by (auto simp: busy_result_def)
    have failed: "run_failed run1 i e st \<noteq> (db', res)" for run1 i e st
      using failed_not_in_progress [of run1 i e st] assms(2) by blast
    show ?thesis
      using assms(1) busy failed
      by (simp add: sync_registry_def Let_def stored_cursor_def split: prod.splits bool.splits if_splits sum.splits)
        (fastforce | blast)+
  qed
  then show ?thesis using pages by blast
qed

end
