(* ===== verification/Purchase_Ledger.thy ===== *)
theory Purchase_Ledger
  imports Registry_Store
begin

text \<open>
  The purchases of the marketplace (\<open>marketplace_repository.py\<close>, with \<open>PurchaseRow\<close>,
  \<open>ReputationEventRow\<close> and \<open>PurchaseFinalizationRow\<close> of \<open>tables.py\<close>): the execution claim of a
  purchase, saves under it, the reputation event of a finished purchase and the outbox of what
  Core must still be told. One call is one transaction; the transaction's commit is refused when
  a unique column repeats a value.
\<close>

section \<open>Rows\<close>

record purchase =
  pu_purchase_id :: string
  pu_preview_id :: string
  pu_offering_id :: string
  pu_user_id :: string
  pu_state :: string
  pu_execution_mode :: string
  pu_input_hash :: string
  pu_output_hash :: "string option"
  pu_reservation_id :: "string option"
  pu_action_id :: "string option"
  pu_policy_decision_id :: "string option"
  pu_receipt_id :: "string option"
  pu_audit_event_ids :: "string list"
  pu_reason_code :: "string option"
  pu_metadata :: pydict
  pu_created_at :: int
  pu_updated_at :: int

record purchase_row = purchase +
  pu_latency_ms :: "int option"
  pu_claim_token :: "string option"
  pu_claim_until :: "int option"

type_synonym dimensions = "(string \<times> int) list"

record reputation_event_row =
  re_offering_id :: string
  re_purchase_id :: string
  re_event_type :: string
  re_dimensions :: dimensions
  re_created_at :: int

record finalization_row =
  fz_outbox_id :: nat
  fz_purchase_id :: string
  fz_target_state :: string
  fz_payload :: pydict
  fz_claim_token :: "string option"
  fz_claimed_until :: "int option"
  fz_attempts :: nat
  fz_last_error :: "string option"
  fz_created_at :: int
  fz_updated_at :: int

record market_db = catalog_db +
  purchase_rows :: "purchase_row list"
  reputation_events :: "reputation_event_row list"
  finalization_rows :: "finalization_row list"
  next_outbox_id :: nat

definition find_purchase :: "string \<Rightarrow> market_db \<Rightarrow> purchase_row option" where
  "find_purchase pid db = sel_by pu_purchase_id pid (purchase_rows db)"

definition find_event :: "string \<Rightarrow> market_db \<Rightarrow> reputation_event_row option" where
  "find_event pid db = sel_by re_purchase_id pid (reputation_events db)"

definition find_finalization :: "string \<Rightarrow> market_db \<Rightarrow> finalization_row option" where
  "find_finalization pid db = sel_by fz_purchase_id pid (finalization_rows db)"

text \<open>The unique columns of the table.\<close>

definition some_distinct :: "'a option list \<Rightarrow> bool" where
  "some_distinct xs \<longleftrightarrow> distinct (filter (\<lambda>x. x \<noteq> None) xs)"

definition purchases_unique :: "purchase_row list \<Rightarrow> bool" where
  "purchases_unique rows \<longleftrightarrow>
     distinct (map pu_purchase_id rows) \<and> distinct (map pu_preview_id rows) \<and>
     some_distinct (map pu_reservation_id rows) \<and> some_distinct (map pu_action_id rows) \<and>
     some_distinct (map pu_policy_decision_id rows) \<and> some_distinct (map pu_receipt_id rows)"

datatype purchase_error = PyErr py_error | ClaimLost

section \<open>Saving a purchase\<close>

text \<open>
  \<open>_purchase_data\<close> drops the service's result from the metadata; a latency is stored only when
  it is given.
\<close>

definition purchase_data :: "purchase \<Rightarrow> purchase" where
  "purchase_data p = p\<lparr>pu_metadata := dpop ''service_result'' (pu_metadata p)\<rparr>"

definition row_data :: "purchase \<Rightarrow> int option \<Rightarrow> string option \<Rightarrow> int option \<Rightarrow> purchase_row \<Rightarrow> purchase_row" where
  "row_data p latency token until r =
     purchase.extend (purchase_data p)
       (purchase_row.fields (case latency of None \<Rightarrow> pu_latency_ms r | Some l \<Rightarrow> Some (max 0 l)) token until)"

text \<open>
  \<open>save_purchase\<close> writes a purchase whoever holds its claim, which it leaves in place. The services
  save under a claim; only tests call this one.
\<close>

definition save_purchase :: "purchase \<Rightarrow> int option \<Rightarrow> market_db \<Rightarrow> purchase_error + market_db" where
  "save_purchase p latency db =
     (let rows = (case find_purchase (pu_purchase_id p) db of
          None \<Rightarrow> purchase_rows db @
            [purchase.extend (purchase_data p) (purchase_row.fields (map_option (max 0) latency) None None)]
        | Some r \<Rightarrow> upd_by pu_purchase_id (pu_purchase_id p)
            (\<lambda>_. row_data p latency (pu_claim_token r) (pu_claim_until r) r) (purchase_rows db))
      in if purchases_unique rows then Inr (db\<lparr>purchase_rows := rows\<rparr>) else Inl (PyErr DbIntegrityErr))"

definition claim_free :: "int \<Rightarrow> purchase_row \<Rightarrow> bool" where
  "claim_free now r \<longleftrightarrow>
     pu_claim_token r = None \<or> (case pu_claim_until r of None \<Rightarrow> True | Some t \<Rightarrow> t \<le> now)"

definition put_purchase :: "purchase_row \<Rightarrow> market_db \<Rightarrow> market_db" where
  "put_purchase r db =
     db\<lparr>purchase_rows := upd_by pu_purchase_id (pu_purchase_id r) (\<lambda>_. r) (purchase_rows db)\<rparr>"

definition mode_mismatch :: py_error where
  "mode_mismatch = ValueErr ''purchase execution mode mismatch''"

text \<open>
  \<open>claim_purchase_execution\<close>: the purchase as it now is and, when the claim is granted, the new
  token. A purchase that is not there yet is inserted claimed.
\<close>

definition claim_purchase_execution ::
  "purchase \<Rightarrow> string list \<Rightarrow> string \<Rightarrow> int \<Rightarrow> string \<Rightarrow> int \<Rightarrow> market_db
     \<Rightarrow> purchase_error + market_db \<times> purchase option \<times> string option" where
  "claim_purchase_execution p allowed mode lease token now db =
     (if pu_execution_mode p \<noteq> mode then Inl (PyErr mode_mismatch)
      else case find_purchase (pu_purchase_id p) db of
        None \<Rightarrow>
          let row = purchase.extend (purchase_data p)
                (purchase_row.fields None (Some token) (Some (now + lease * SECOND)));
              rows = purchase_rows db @ [row]
          in if purchases_unique rows then Inr (db\<lparr>purchase_rows := rows\<rparr>, Some p, Some token)
             else Inr (db, None, None)
      | Some r \<Rightarrow>
          if pu_execution_mode r \<noteq> mode then Inl (PyErr mode_mismatch)
          else if pu_state r \<notin> set allowed then Inr (db, Some (purchase.truncate r), None)
          else if claim_free now r
          then Inr (put_purchase (r\<lparr>pu_claim_token := Some token, pu_claim_until := Some (now + lease * SECOND)\<rparr>) db,
                    Some (purchase.truncate r), Some token)
          else Inr (db, Some (purchase.truncate r), None))"

definition holds_claim :: "string \<Rightarrow> string \<Rightarrow> string list \<Rightarrow> purchase_row \<Rightarrow> bool" where
  "holds_claim token mode expected r \<longleftrightarrow>
     pu_claim_token r = Some token \<and> pu_execution_mode r = mode \<and>
     (expected \<noteq> [] \<longrightarrow> pu_state r \<in> set expected)"

definition save_claimed_purchase ::
  "purchase \<Rightarrow> string \<Rightarrow> string \<Rightarrow> int option \<Rightarrow> bool \<Rightarrow> string list \<Rightarrow> int \<Rightarrow> market_db
     \<Rightarrow> purchase_error + market_db" where
  "save_claimed_purchase p token mode latency release expected now db =
     (if token = '''' then Inl (PyErr (ValueErr ''purchase execution claim required''))
      else if pu_execution_mode p \<noteq> mode then Inl (PyErr mode_mismatch)
      else case find_purchase (pu_purchase_id p) db of
        None \<Rightarrow> Inl ClaimLost
      | Some r \<Rightarrow>
          if \<not> holds_claim token mode expected r then Inl ClaimLost
          else let db' = put_purchase (row_data p latency (if release then None else Some token)
                     (if release then None else Some (now + LEASE_SECONDS * SECOND)) r) db
               in if purchases_unique (purchase_rows db') then Inr db' else Inl (PyErr DbIntegrityErr))"

definition free_to_reconcile :: "int \<Rightarrow> purchase_row \<Rightarrow> bool" where
  "free_to_reconcile now r \<longleftrightarrow>
     pu_state r = ''payment_submitted'' \<and> pu_reason_code r \<noteq> Some ''PAYMENT_MANUAL_REVIEW_REQUIRED'' \<and>
     claim_free now r"

text \<open>
  \<open>claim_payment_reconciliations\<close>: the oldest purchases that wait for a settlement, claimed one
  by one; \<open>tokens i\<close> and \<open>clock i\<close> are what the \<open>i\<close>-th claim draws and reads.
\<close>

fun claim_each ::
  "(nat \<Rightarrow> string) \<Rightarrow> (nat \<Rightarrow> int) \<Rightarrow> nat \<Rightarrow> string list \<Rightarrow> market_db
     \<Rightarrow> purchase_error + market_db \<times> (purchase \<times> string) list" where
  "claim_each tokens clock i [] db = Inr (db, [])"
| "claim_each tokens clock i (pid # pids) db =
     (case find_purchase pid db of
        None \<Rightarrow> claim_each tokens clock (Suc i) pids db
      | Some r \<Rightarrow>
          and_then (claim_purchase_execution (purchase.truncate r) [''payment_submitted''] (pu_execution_mode r)
            LEASE_SECONDS (tokens i) (clock i) db) (\<lambda>(db1, p, token).
          and_then (claim_each tokens clock (Suc i) pids db1) (\<lambda>(db2, rest).
            Inr (db2, (case (p, token) of (Some p, Some t) \<Rightarrow> (p, t) # rest | _ \<Rightarrow> rest)))))"

definition claim_payment_reconciliations ::
  "(nat \<Rightarrow> string) \<Rightarrow> (nat \<Rightarrow> int) \<Rightarrow> nat \<Rightarrow> int \<Rightarrow> market_db \<Rightarrow> purchase_error + market_db \<times> (purchase \<times> string) list" where
  "claim_payment_reconciliations tokens clock limit now db =
     claim_each tokens clock 0
       (take limit (map pu_purchase_id (sort_key (\<lambda>r. (pu_updated_at r, pu_purchase_id r))
         (filter (free_to_reconcile now) (purchase_rows db))))) db"

section \<open>Reputation\<close>

text \<open>
  \<open>validate_reputation_event\<close> of \<open>reputation_service.py\<close>. A dimension is an integer here: the
  program records only 0 and 100.
\<close>

definition WEIGHTS :: "(string \<times> int) list" where
  "WEIGHTS = [(''identity'', 25), (''quote_consistency'', 15), (''availability'', 15),
     (''payment_success'', 20), (''delivery_success'', 15), (''dispute'', 10)]"

definition TERMINAL_STATES :: "string list" where
  "TERMINAL_STATES = [''delivered'', ''paid_but_undelivered'', ''failed'']"

fun normal_dimensions :: "(string \<times> pyval) list \<Rightarrow> py_error + dimensions" where
  "normal_dimensions [] = Inr []"
| "normal_dimensions ((key, v) # dims) =
     (if map_of WEIGHTS key = None then Inl (ValueErr (''unsupported reputation dimension: '' @ key))
      else case v of
        PInt n \<Rightarrow>
          if n < 0 \<or> 100 < n
          then Inl (ValueErr (''reputation dimension '' @ key @ '' must be between 0 and 100''))
          else and_then (normal_dimensions dims) (\<lambda>rest. Inr ((key, n) # rest))
      | _ \<Rightarrow> Inl (ValueErr (''reputation dimension '' @ key @ '' must be numeric'')))"

definition validate_reputation_event :: "string \<Rightarrow> (string \<times> pyval) list \<Rightarrow> py_error + dimensions" where
  "validate_reputation_event event_type dims =
     (if event_type \<notin> set TERMINAL_STATES then Inl (ValueErr ''unsupported reputation event type'')
      else if dims = [] then Inl (ValueErr ''reputation dimensions must not be empty'')
      else normal_dimensions dims)"

definition same_dimensions :: "dimensions \<Rightarrow> dimensions \<Rightarrow> bool" where
  "same_dimensions xs ys \<longleftrightarrow>
     list_all (\<lambda>(k, n). map_of ys k = map_of xs k) xs \<and> list_all (\<lambda>(k, n). map_of xs k = map_of ys k) ys"

definition same_reputation_event :: "reputation_event_row \<Rightarrow> string \<Rightarrow> string \<Rightarrow> dimensions \<Rightarrow> bool" where
  "same_reputation_event row oid event_type dims \<longleftrightarrow>
     re_offering_id row = oid \<and> re_event_type row = event_type \<and>
     same_dimensions (re_dimensions row) dims"

definition PRE_PAYMENT_FAILURES :: "string list" where
  "PRE_PAYMENT_FAILURES = [''PREVIEW_EXPIRED'', ''QUOTE_DRIFT'', ''USER_CONFIRMATION_REQUIRED'',
     ''SPENDING_AUTHORIZATION_REQUIRED'']"

definition attributable :: "purchase_row \<Rightarrow> bool" where
  "attributable r \<longleftrightarrow>
     \<not> (pu_state r = ''failed'' \<and> (\<exists>c \<in> set PRE_PAYMENT_FAILURES. pu_reason_code r = Some c))"

definition validate_reputation_purchase :: "purchase_row option \<Rightarrow> string \<Rightarrow> string \<Rightarrow> py_error + unit" where
  "validate_reputation_purchase row oid event_type =
     (case row of
        None \<Rightarrow> Inl (ValueErr ''reputation purchase not found'')
      | Some r \<Rightarrow>
          if pu_offering_id r \<noteq> oid then Inl (ValueErr ''reputation offering does not match purchase'')
          else if pu_state r \<notin> set TERMINAL_STATES
          then Inl (ValueErr ''reputation purchase is not in a terminal state'')
          else if pu_state r \<noteq> event_type
          then Inl (ValueErr ''reputation event type does not match purchase terminal state'')
          else if \<not> attributable r
          then Inl (ValueErr ''pre-payment failure is not attributable to the merchant'')
          else Inr ())"

definition lift_py :: "py_error + 'a \<Rightarrow> purchase_error + 'a" where
  "lift_py r = (case r of Inl e \<Rightarrow> Inl (PyErr e) | Inr x \<Rightarrow> Inr x)"

definition refuse :: "string \<Rightarrow> purchase_error + 'a" where
  "refuse msg = Inl (PyErr (ValueErr msg))"

definition new_event :: "string \<Rightarrow> string \<Rightarrow> string \<Rightarrow> dimensions \<Rightarrow> int \<Rightarrow> reputation_event_row" where
  "new_event oid pid event_type dims now =
     \<lparr>re_offering_id = oid, re_purchase_id = pid, re_event_type = event_type, re_dimensions = dims,
      re_created_at = now\<rparr>"

definition valid_id :: "string \<Rightarrow> bool" where
  "valid_id s \<longleftrightarrow> s \<noteq> '''' \<and> length s \<le> 64"

definition record_reputation_event ::
  "string \<Rightarrow> string \<Rightarrow> string \<Rightarrow> (string \<times> pyval) list \<Rightarrow> int \<Rightarrow> market_db
     \<Rightarrow> purchase_error + market_db \<times> reputation_event_row" where
  "record_reputation_event oid event_type pid dims now db =
     (if \<not> valid_id oid then refuse ''invalid reputation offering id''
      else if \<not> valid_id pid then refuse ''invalid reputation purchase id''
      else and_then (lift_py (validate_reputation_event event_type dims)) (\<lambda>normalized.
        case find_event pid db of
          Some existing \<Rightarrow>
            if \<not> same_reputation_event existing oid event_type normalized then refuse ''conflicting reputation event''
            else and_then (lift_py (validate_reputation_purchase (find_purchase pid db) oid event_type)) (\<lambda>_.
              Inr (db, existing))
        | None \<Rightarrow>
            and_then (lift_py (validate_reputation_purchase (find_purchase pid db) oid event_type)) (\<lambda>_.
            if sel_by or_offering_id oid (offering_rows db) = None then refuse ''reputation offering not found''
            else let row = new_event oid pid event_type normalized now
                 in Inr (db\<lparr>reputation_events := reputation_events db @ [row]\<rparr>, row))))"

section \<open>The outbox\<close>

definition enqueue_finalization :: "string \<Rightarrow> string \<Rightarrow> pydict \<Rightarrow> int \<Rightarrow> market_db \<Rightarrow> market_db" where
  "enqueue_finalization pid target payload now db =
     (case find_finalization pid db of
        Some _ \<Rightarrow> db\<lparr>finalization_rows := upd_by fz_purchase_id pid (\<lambda>r.
          r\<lparr>fz_target_state := target, fz_payload := payload, fz_updated_at := now\<rparr>) (finalization_rows db)\<rparr>
      | None \<Rightarrow> db\<lparr>finalization_rows := finalization_rows db @
          [\<lparr>fz_outbox_id = next_outbox_id db, fz_purchase_id = pid, fz_target_state = target,
            fz_payload = payload, fz_claim_token = None, fz_claimed_until = None, fz_attempts = 0,
            fz_last_error = None, fz_created_at = now, fz_updated_at = now\<rparr>],
          next_outbox_id := Suc (next_outbox_id db)\<rparr>)"

definition unclaimed :: "int \<Rightarrow> finalization_row \<Rightarrow> bool" where
  "unclaimed now r \<longleftrightarrow> (case fz_claimed_until r of None \<Rightarrow> True | Some t \<Rightarrow> t < now)"

text \<open>Without an order the rows come as they are stored.\<close>

fun claim_rows :: "(nat \<Rightarrow> string) \<Rightarrow> int \<Rightarrow> int \<Rightarrow> nat \<Rightarrow> nat \<Rightarrow> finalization_row list
    \<Rightarrow> finalization_row list \<times> finalization_row list" where
  "claim_rows tokens until now i 0 rows = (rows, [])"
| "claim_rows tokens until now i (Suc n) [] = ([], [])"
| "claim_rows tokens until now i (Suc n) (r # rows) =
     (if unclaimed now r
      then let r' = r\<lparr>fz_claim_token := Some (tokens i), fz_claimed_until := Some until\<rparr>
           in (case claim_rows tokens until now (Suc i) n rows of (rest, claimed) \<Rightarrow> (r' # rest, r' # claimed))
      else (case claim_rows tokens until now i (Suc n) rows of (rest, claimed) \<Rightarrow> (r # rest, claimed)))"

definition claim_finalizations ::
  "(nat \<Rightarrow> string) \<Rightarrow> int \<Rightarrow> nat \<Rightarrow> int \<Rightarrow> market_db \<Rightarrow> market_db \<times> finalization_row list" where
  "claim_finalizations tokens lease limit now db =
     (case claim_rows tokens (now + lease * SECOND) now 0 limit (finalization_rows db) of (rows, claimed) \<Rightarrow>
       (db\<lparr>finalization_rows := rows\<rparr>, claimed))"

definition finish_finalization ::
  "nat \<Rightarrow> string \<Rightarrow> string option \<Rightarrow> int \<Rightarrow> market_db \<Rightarrow> market_db \<times> bool" where
  "finish_finalization outbox token error now db =
     (case sel_by fz_outbox_id outbox (finalization_rows db) of
        None \<Rightarrow> (db, False)
      | Some r \<Rightarrow>
          if fz_claim_token r \<noteq> Some token then (db, False)
          else if error \<noteq> None \<and> error \<noteq> Some ''''
          then (db\<lparr>finalization_rows := upd_by fz_outbox_id outbox (\<lambda>r.
                  r\<lparr>fz_attempts := Suc (fz_attempts r), fz_last_error := error, fz_claim_token := None,
                    fz_claimed_until := None, fz_updated_at := now\<rparr>) (finalization_rows db)\<rparr>, True)
          else (db\<lparr>finalization_rows := filter (\<lambda>r. fz_outbox_id r \<noteq> outbox) (finalization_rows db)\<rparr>, True))"

definition complete_finalization_for_purchase :: "string \<Rightarrow> market_db \<Rightarrow> market_db" where
  "complete_finalization_for_purchase pid db =
     db\<lparr>finalization_rows := filter (\<lambda>r. fz_purchase_id r \<noteq> pid) (finalization_rows db)\<rparr>"

section \<open>Finishing a purchase\<close>

text \<open>
  \<open>save_purchase_with_reputation_event\<close>: the purchase, its event and the outbox entry in one
  transaction. \<open>event_transaction\<close> is the \<open>try\<close>; the handler looks again after a rollback.
\<close>

definition save_terminal_row ::
  "purchase \<Rightarrow> string \<Rightarrow> string \<Rightarrow> int option \<Rightarrow> string list \<Rightarrow> purchase_row \<Rightarrow> market_db
     \<Rightarrow> purchase_error + market_db" where
  "save_terminal_row p token mode latency expected r db =
     (if token = '''' then refuse ''purchase execution claim required''
      else if \<not> holds_claim token mode expected r then Inl ClaimLost
      else let db' = put_purchase (row_data p latency None None r) db
           in if purchases_unique (purchase_rows db') then Inr db' else Inl (PyErr DbIntegrityErr))"

definition event_transaction ::
  "purchase \<Rightarrow> string \<Rightarrow> dimensions \<Rightarrow> string \<Rightarrow> string \<Rightarrow> int option \<Rightarrow> (string \<times> pydict) option \<Rightarrow> string list
     \<Rightarrow> int \<Rightarrow> market_db \<Rightarrow> purchase_error + market_db \<times> purchase" where
  "event_transaction p event_type normalized token mode latency finalization expected now db =
     (let pid = pu_purchase_id p; current = find_purchase pid db in
      if (case current of None \<Rightarrow> False | Some r \<Rightarrow> pu_execution_mode r \<noteq> mode) then Inl (PyErr mode_mismatch)
      else case find_event pid db of
        Some existing \<Rightarrow>
          if \<not> same_reputation_event existing (pu_offering_id p) event_type normalized
          then refuse ''conflicting reputation event''
          else and_then (lift_py (validate_reputation_purchase current (pu_offering_id p) event_type)) (\<lambda>_.
            Inr (db, purchase.truncate (the current)))
      | None \<Rightarrow>
          (case current of
             None \<Rightarrow> refuse ''reputation purchase not found''
           | Some r \<Rightarrow>
               if pu_offering_id r \<noteq> pu_offering_id p then refuse ''reputation offering does not match purchase''
               else
                 and_then
                   (if pu_state r \<in> set TERMINAL_STATES
                    then if pu_state r \<noteq> event_type then refuse ''conflicting reputation event'' else Inr db
                    else save_terminal_row p token mode latency expected r db) (\<lambda>db1.
                 let saved = find_purchase pid db1 in
                 and_then (lift_py (validate_reputation_purchase saved (pu_offering_id p) event_type)) (\<lambda>_.
                 let db2 = db1\<lparr>reputation_events := reputation_events db1 @
                       [new_event (pu_offering_id p) pid event_type normalized now]\<rparr>;
                     db3 = (case finalization of None \<Rightarrow> db2
                       | Some (target, payload) \<Rightarrow> enqueue_finalization pid target payload now db2)
                 in Inr (db3, purchase.truncate (the saved))))))"

definition save_purchase_with_reputation_event ::
  "purchase \<Rightarrow> string \<Rightarrow> (string \<times> pyval) list \<Rightarrow> string \<Rightarrow> string \<Rightarrow> int option \<Rightarrow> (string \<times> pydict) option
     \<Rightarrow> string list \<Rightarrow> int \<Rightarrow> market_db \<Rightarrow> purchase_error + market_db \<times> purchase" where
  "save_purchase_with_reputation_event p event_type dims token mode latency finalization expected now db =
     and_then (lift_py (validate_reputation_event event_type dims)) (\<lambda>normalized.
     if pu_execution_mode p \<noteq> mode then Inl (PyErr mode_mismatch)
     else if event_type \<noteq> pu_state p
     then refuse ''reputation event type does not match purchase terminal state''
     else case event_transaction p event_type normalized token mode latency finalization expected now db of
         Inr result \<Rightarrow> Inr result
       | Inl e \<Rightarrow>
           if e \<noteq> ClaimLost \<and> e \<noteq> PyErr DbIntegrityErr then Inl e
           else
             let current = find_purchase (pu_purchase_id p) db in
             if (case current of None \<Rightarrow> False | Some r \<Rightarrow> pu_execution_mode r \<noteq> mode) then Inl (PyErr mode_mismatch)
             else case find_event (pu_purchase_id p) db of
               Some existing \<Rightarrow>
                 if same_reputation_event existing (pu_offering_id p) event_type normalized
                 then and_then (lift_py (validate_reputation_purchase current (pu_offering_id p) event_type)) (\<lambda>_.
                   Inr (db, purchase.truncate (the current)))
                 else refuse ''conflicting reputation event''
             | None \<Rightarrow> Inl e)"

end
