(* ===== verification/Purchase_Safety.thy ===== *)
theory Purchase_Safety
  imports Purchase_Ledger
begin

text \<open>
  What the purchase table keeps over any sequence of calls: unique purchases, no claim on a
  finished one, and at most one reputation event for each, which agrees with it. A finished
  purchase never changes again, and a granted claim excludes every other writer of its purchase
  while it lasts.
\<close>

section \<open>Calls\<close>

datatype purchase_call =
    ClaimExecution purchase "string list" string int string
  | SaveClaimed purchase string string "int option" bool "string list"
  | SaveTerminal purchase string "(string \<times> pyval) list" string string "int option"
      "(string \<times> pydict) option" "string list"
  | RecordEvent string string string "(string \<times> pyval) list"
  | Enqueue string string pydict
  | ClaimOutbox "nat \<Rightarrow> string" int nat
  | FinishOutbox nat string "string option"
  | CompleteOutbox string

text \<open>
  How the services call the repository: a claim is only asked for in states that are not final,
  a new purchase is not final, and a save that ends a purchase gives its claim back.
  \<open>claim_payment_reconciliations\<close> is a sequence of claims (\<open>reconciliation_claims\<close> below);
  \<open>save_purchase\<close> is called by no service.
\<close>

definition service_call :: "market_db \<Rightarrow> purchase_call \<Rightarrow> bool" where
  "service_call db c \<longleftrightarrow>
     (case c of
        ClaimExecution p allowed mode lease token \<Rightarrow> set allowed \<inter> set TERMINAL_STATES = {} \<and>
          (pu_state p \<in> set TERMINAL_STATES \<longrightarrow> find_purchase (pu_purchase_id p) db \<noteq> None)
      | SaveClaimed p token mode latency release expected \<Rightarrow> pu_state p \<in> set TERMINAL_STATES \<longrightarrow> release
      | _ \<Rightarrow> True)"

definition result_db :: "'e + 'a \<Rightarrow> ('a \<Rightarrow> market_db) \<Rightarrow> market_db \<Rightarrow> market_db" where
  "result_db r f db = (case r of Inl _ \<Rightarrow> db | Inr x \<Rightarrow> f x)"

fun run_purchase :: "int \<Rightarrow> purchase_call \<Rightarrow> market_db \<Rightarrow> market_db" where
  "run_purchase now (ClaimExecution p allowed mode lease token) db =
     result_db (claim_purchase_execution p allowed mode lease token now db) fst db"
| "run_purchase now (SaveClaimed p token mode latency release expected) db =
     result_db (save_claimed_purchase p token mode latency release expected now db) (\<lambda>x. x) db"
| "run_purchase now (SaveTerminal p kind dims token mode latency finalization expected) db =
     result_db (save_purchase_with_reputation_event p kind dims token mode latency finalization expected now db) fst db"
| "run_purchase now (RecordEvent oid kind pid dims) db =
     result_db (record_reputation_event oid kind pid dims now db) fst db"
| "run_purchase now (Enqueue pid target payload) db = enqueue_finalization pid target payload now db"
| "run_purchase now (ClaimOutbox tokens lease limit) db = fst (claim_finalizations tokens lease limit now db)"
| "run_purchase now (FinishOutbox outbox token error) db = fst (finish_finalization outbox token error now db)"
| "run_purchase now (CompleteOutbox pid) db = complete_finalization_for_purchase pid db"

inductive purchase_step :: "market_db \<Rightarrow> market_db \<Rightarrow> bool" where
  "service_call db c \<Longrightarrow> purchase_step db (run_purchase now c db)"

inductive_cases purchase_stepE: "purchase_step db db'"

section \<open>The invariant\<close>

definition event_agrees :: "market_db \<Rightarrow> reputation_event_row \<Rightarrow> bool" where
  "event_agrees db e \<longleftrightarrow>
     (\<exists>r. find_purchase (re_purchase_id e) db = Some r \<and> pu_state r = re_event_type e \<and>
        pu_offering_id r = re_offering_id e \<and> pu_state r \<in> set TERMINAL_STATES \<and> attributable r)"

definition purchases_ok :: "market_db \<Rightarrow> bool" where
  "purchases_ok db \<longleftrightarrow>
     purchases_unique (purchase_rows db) \<and>
     (\<forall>r \<in> set (purchase_rows db). pu_state r \<in> set TERMINAL_STATES \<longrightarrow> pu_claim_token r = None) \<and>
     distinct (map re_purchase_id (reputation_events db)) \<and>
     (\<forall>e \<in> set (reputation_events db). event_agrees db e)"

text \<open>What a call does to the purchases: it adds one that is not final, or replaces one that is not final.\<close>

definition replaces :: "purchase_row \<Rightarrow> purchase_row \<Rightarrow> market_db \<Rightarrow> market_db \<Rightarrow> bool" where
  "replaces r r' db db' \<longleftrightarrow>
     find_purchase (pu_purchase_id r) db = Some r \<and> pu_state r \<notin> set TERMINAL_STATES \<and>
     pu_purchase_id r' = pu_purchase_id r \<and> (pu_state r' \<in> set TERMINAL_STATES \<longrightarrow> pu_claim_token r' = None) \<and>
     purchase_rows db' = upd_by pu_purchase_id (pu_purchase_id r) (\<lambda>_. r') (purchase_rows db)"

definition adds :: "purchase_row \<Rightarrow> market_db \<Rightarrow> market_db \<Rightarrow> bool" where
  "adds r db db' \<longleftrightarrow>
     find_purchase (pu_purchase_id r) db = None \<and> pu_state r \<notin> set TERMINAL_STATES \<and>
     purchase_rows db' = purchase_rows db @ [r]"

definition purchases_move :: "market_db \<Rightarrow> market_db \<Rightarrow> bool" where
  "purchases_move db db' \<longleftrightarrow>
     purchases_unique (purchase_rows db') \<and>
     (purchase_rows db' = purchase_rows db \<or> (\<exists>r. adds r db db') \<or> (\<exists>r r'. replaces r r' db db'))"

definition events_move :: "market_db \<Rightarrow> market_db \<Rightarrow> bool" where
  "events_move db db' \<longleftrightarrow>
     reputation_events db' = reputation_events db \<or>
     (\<exists>e. find_event (re_purchase_id e) db = None \<and> event_agrees db' e \<and>
        reputation_events db' = reputation_events db @ [e])"

lemma sel_by_replace:
  "key r = k \<Longrightarrow> sel_by key k' (upd_by key k (\<lambda>_. r) t) =
     (if k' = k then map_option (\<lambda>_. r) (sel_by key k t) else sel_by key k' t)"
  by (induction t) (auto simp: sel_by_def upd_by_def)

lemma map_replace:
  "distinct (map key t) \<Longrightarrow> sel_by key k t = Some r \<Longrightarrow> f r' = f r \<Longrightarrow>
     map f (upd_by key k (\<lambda>_. r') t) = map f t"
  using key_unique sel_by_in
  by (fastforce simp: upd_by_def update_rows_def)

lemma find_put [simp]:
  "find_purchase pid (put_purchase r db) =
     (if pid = pu_purchase_id r then map_option (\<lambda>_. r) (find_purchase pid db) else find_purchase pid db)"
  by (simp add: find_purchase_def put_purchase_def sel_by_replace)

lemma find_purchase_in: "find_purchase pid db = Some r \<Longrightarrow> r \<in> set (purchase_rows db) \<and> pu_purchase_id r = pid"
  unfolding find_purchase_def by (rule sel_by_in)

lemma unique_replace:
  assumes "purchases_unique t" "sel_by pu_purchase_id k t = Some r"
    and "pu_purchase_id r' = pu_purchase_id r" "pu_preview_id r' = pu_preview_id r"
    "pu_reservation_id r' = pu_reservation_id r" "pu_action_id r' = pu_action_id r"
    "pu_policy_decision_id r' = pu_policy_decision_id r" "pu_receipt_id r' = pu_receipt_id r"
  shows "purchases_unique (upd_by pu_purchase_id k (\<lambda>_. r') t)"
proof -
  have "distinct (map pu_purchase_id t)" using assms(1) by (simp add: purchases_unique_def)
  note same = map_replace [OF this assms(2)]
  show ?thesis using assms by (simp add: purchases_unique_def same)
qed

lemma row_data_simps [simp]:
  "pu_purchase_id (row_data p latency token until r) = pu_purchase_id p"
  "pu_state (row_data p latency token until r) = pu_state p"
  "pu_offering_id (row_data p latency token until r) = pu_offering_id p"
  "pu_reason_code (row_data p latency token until r) = pu_reason_code p"
  "pu_claim_token (row_data p latency token until r) = token"
  by (simp_all add: row_data_def purchase_data_def purchase.defs purchase_row.defs)

lemma inserted_simps [simp]:
  "pu_purchase_id (purchase.extend (purchase_data p) (purchase_row.fields l token until)) = pu_purchase_id p"
  "pu_state (purchase.extend (purchase_data p) (purchase_row.fields l token until)) = pu_state p"
  by (simp_all add: purchase_data_def purchase.defs purchase_row.defs)

lemma claim_moves:
  assumes "claim_purchase_execution p allowed mode lease token now db = Inr (db', q, granted)"
    and "set allowed \<inter> set TERMINAL_STATES = {}"
    and "pu_state p \<in> set TERMINAL_STATES \<longrightarrow> find_purchase (pu_purchase_id p) db \<noteq> None"
    and "purchases_unique (purchase_rows db)"
  shows "purchases_move db db' \<and> reputation_events db' = reputation_events db"
proof (cases "find_purchase (pu_purchase_id p) db")
  case None
  then show ?thesis
    using assms by (auto simp: claim_purchase_execution_def purchases_move_def adds_def Let_def split: if_splits)
next
  case (Some r)
  let ?r = "r\<lparr>pu_claim_token := Some token, pu_claim_until := Some (now + lease * SECOND)\<rparr>"
  note r = find_purchase_in [OF Some]
  have "purchases_move db (put_purchase ?r db)" if "pu_state r \<in> set allowed"
  proof -
    have "purchases_unique (purchase_rows (put_purchase ?r db))"
      using assms(4) Some r by (simp add: put_purchase_def find_purchase_def unique_replace)
    moreover have "replaces r ?r db (put_purchase ?r db)"
      using that assms(2) Some r by (auto simp: replaces_def put_purchase_def)
    ultimately show ?thesis unfolding purchases_move_def by blast
  qed
  then show ?thesis
    using assms Some by (auto simp: claim_purchase_execution_def purchases_move_def put_purchase_def split: if_splits)
qed

text \<open>No token opens a finished purchase.\<close>

lemma claimed_not_final:
  assumes "purchases_ok db" "find_purchase pid db = Some r" "holds_claim token mode expected r"
  shows "pu_state r \<notin> set TERMINAL_STATES"
  using assms find_purchase_in by (fastforce simp: purchases_ok_def holds_claim_def)

lemma save_moves:
  assumes "save_claimed_purchase p token mode latency release expected now db = Inr db'" "purchases_ok db"
    and "pu_state p \<in> set TERMINAL_STATES \<Longrightarrow> release"
  shows "purchases_move db db' \<and> reputation_events db' = reputation_events db"
proof -
  obtain r where r: "find_purchase (pu_purchase_id p) db = Some r" "holds_claim token mode expected r"
    and db': "\<exists>t u. db' = put_purchase (row_data p latency t u r) db \<and> (release \<longrightarrow> t = None)"
    "purchases_unique (purchase_rows db')"
    using assms(1) by (auto simp: save_claimed_purchase_def Let_def split: option.splits if_splits)
  from db'(1) obtain t u where db1: "db' = put_purchase (row_data p latency t u r) db" "release \<longrightarrow> t = None" by blast
  have "replaces r (row_data p latency t u r) db db'"
    using claimed_not_final [OF assms(2) r] r(1) find_purchase_in [OF r(1)] assms(3) db1
    by (auto simp: replaces_def put_purchase_def)
  then show ?thesis using db'(2) db1(1) unfolding purchases_move_def by (auto simp: put_purchase_def)
qed

lemma enqueue_frame [simp]:
  "purchase_rows (enqueue_finalization pid target payload now db) = purchase_rows db"
  "reputation_events (enqueue_finalization pid target payload now db) = reputation_events db"
  by (simp_all add: enqueue_finalization_def split: option.split)

lemma event_agrees_cong: "purchase_rows db' = purchase_rows db \<Longrightarrow> event_agrees db' e = event_agrees db e"
  by (simp add: event_agrees_def find_purchase_def)

lemma validated_agrees:
  assumes "validate_reputation_purchase (find_purchase pid db) oid kind = Inr ()"
  shows "event_agrees db (new_event oid pid kind dims now)"
  using assms
  by (auto simp: validate_reputation_purchase_def event_agrees_def new_event_def split: option.splits if_splits)

lemma lift_py_Inr [simp]: "lift_py r = Inr x \<longleftrightarrow> r = Inr x"
  by (auto simp: lift_py_def split: sum.split)

lemma refuse_Inr [simp]: "refuse msg \<noteq> Inr x"
  by (simp add: refuse_def)

text \<open>The transaction of a purchase without an event: what it writes to the purchase, and the event.\<close>

lemma event_writes:
  assumes "event_transaction p kind normalized token mode latency finalization expected now db = Inr (db', q)"
    and "find_event (pu_purchase_id p) db = None"
  shows "\<exists>r db1. find_purchase (pu_purchase_id p) db = Some r \<and>
    (db1 = db \<or> pu_state r \<notin> set TERMINAL_STATES \<and> save_terminal_row p token mode latency expected r db = Inr db1) \<and>
    validate_reputation_purchase (find_purchase (pu_purchase_id p) db1) (pu_offering_id p) kind = Inr () \<and>
    purchase_rows db' = purchase_rows db1 \<and>
    reputation_events db' = reputation_events db1 @ [new_event (pu_offering_id p) (pu_purchase_id p) kind normalized now]"
proof -
  let ?pid = "pu_purchase_id p"
  let ?e = "new_event (pu_offering_id p) ?pid kind normalized now"
  note transaction = assms(1) [unfolded event_transaction_def Let_def assms(2) option.case]
  obtain r where r: "find_purchase ?pid db = Some r"
    using transaction by (cases "find_purchase ?pid db") simp_all
  obtain db1 where db1: "(if pu_state r \<in> set TERMINAL_STATES
        then if pu_state r \<noteq> kind then refuse ''conflicting reputation event'' else Inr db
        else save_terminal_row p token mode latency expected r db) = Inr db1"
    and v: "validate_reputation_purchase (find_purchase ?pid db1) (pu_offering_id p) kind = Inr ()"
    and db': "db' = (case finalization of
          None \<Rightarrow> db1\<lparr>reputation_events := reputation_events db1 @ [?e]\<rparr>
        | Some (target, payload) \<Rightarrow> enqueue_finalization ?pid target payload now
            (db1\<lparr>reputation_events := reputation_events db1 @ [?e]\<rparr>))"
    using transaction r
    by (cases "pu_execution_mode r \<noteq> mode"; cases "pu_offering_id r \<noteq> pu_offering_id p")
      (simp_all add: and_then_eq_Inr, blast)
  have "purchase_rows db' = purchase_rows db1" "reputation_events db' = reputation_events db1 @ [?e]"
    by (auto simp: db' split: option.split)
  then show ?thesis using r db1 v by (auto split: if_splits)
qed

lemma event_moves:
  assumes "event_transaction p kind normalized token mode latency finalization expected now db = Inr (db', q)"
    and "purchases_ok db"
  shows "purchases_move db db' \<and> events_move db db'"
proof -
  let ?pid = "pu_purchase_id p"
  have u: "purchases_unique (purchase_rows db)" using assms(2) by (simp add: purchases_ok_def)
  show ?thesis
  proof (cases "find_event ?pid db")
    case (Some e)
    then have "db' = db"
      using assms(1) by (auto simp: event_transaction_def Let_def and_then_eq_Inr split: if_splits)
    then show ?thesis using u by (simp add: purchases_move_def events_move_def)
  next
    case None
    from event_writes [OF assms(1) None] obtain r db1 where r: "find_purchase ?pid db = Some r"
      and db1: "db1 = db \<or> pu_state r \<notin> set TERMINAL_STATES \<and> save_terminal_row p token mode latency expected r db = Inr db1"
      and v: "validate_reputation_purchase (find_purchase ?pid db1) (pu_offering_id p) kind = Inr ()"
      and db': "purchase_rows db' = purchase_rows db1"
        "reputation_events db' = reputation_events db1 @ [new_event (pu_offering_id p) ?pid kind normalized now]"
      by blast
    have "purchases_move db db' \<and> reputation_events db1 = reputation_events db"
      using db1
    proof
      assume "db1 = db"
      then show ?thesis using u db'(1) by (simp add: purchases_move_def)
    next
      assume s: "pu_state r \<notin> set TERMINAL_STATES \<and> save_terminal_row p token mode latency expected r db = Inr db1"
      then have p1: "db1 = put_purchase (row_data p latency None None r) db" "purchases_unique (purchase_rows db1)"
        by (auto simp: save_terminal_row_def Let_def split: if_splits)
      have "replaces r (row_data p latency None None r) db db'"
        using s r find_purchase_in [OF r] db'(1) p1(1) by (auto simp: replaces_def put_purchase_def)
      then show ?thesis using p1 db'(1) unfolding purchases_move_def by (auto simp: put_purchase_def)
    qed
    moreover have "event_agrees db' (new_event (pu_offering_id p) ?pid kind normalized now)"
      using validated_agrees [OF v] event_agrees_cong [OF db'(1)] by simp
    ultimately show ?thesis using None db'(2) unfolding events_move_def by (auto simp: new_event_def)
  qed
qed

lemma terminal_moves:
  assumes "save_purchase_with_reputation_event p kind dims token mode latency finalization expected now db = Inr (db', q)"
    and "purchases_ok db"
  shows "purchases_move db db' \<and> events_move db db'"
proof -
  have same: "purchases_move db db \<and> events_move db db"
    using assms(2) by (simp add: purchases_move_def events_move_def purchases_ok_def)
  obtain normalized where n: "(case event_transaction p kind normalized token mode latency finalization expected now db of
         Inr result \<Rightarrow> Inr result
       | Inl e \<Rightarrow> if e \<noteq> ClaimLost \<and> e \<noteq> PyErr DbIntegrityErr then Inl e
           else let current = find_purchase (pu_purchase_id p) db in
             if (case current of None \<Rightarrow> False | Some r \<Rightarrow> pu_execution_mode r \<noteq> mode) then Inl (PyErr mode_mismatch)
             else case find_event (pu_purchase_id p) db of
               Some existing \<Rightarrow>
                 if same_reputation_event existing (pu_offering_id p) kind normalized
                 then and_then (lift_py (validate_reputation_purchase current (pu_offering_id p) kind)) (\<lambda>_.
                   Inr (db, purchase.truncate (the current)))
                 else refuse ''conflicting reputation event''
             | None \<Rightarrow> Inl e) = Inr (db', q)"
    using assms(1)
    by (auto simp: save_purchase_with_reputation_event_def and_then_eq_Inr simp del: not_None_eq split: if_splits)
  show ?thesis
  proof (cases "event_transaction p kind normalized token mode latency finalization expected now db")
    case (Inl e)
    then have "db' = db" using n by (auto simp: Let_def and_then_eq_Inr split: if_splits option.splits)
    then show ?thesis using same by simp
  next
    case (Inr result)
    then show ?thesis using n event_moves assms(2) by simp
  qed
qed

lemma record_moves:
  assumes "record_reputation_event oid kind pid dims now db = Inr (db', row)" "purchases_ok db"
  shows "purchases_move db db' \<and> events_move db db'"
proof -
  have u: "purchases_unique (purchase_rows db)" using assms(2) by (simp add: purchases_ok_def)
  show ?thesis
  proof (cases "find_event pid db")
    case (Some e)
    then have "db' = db" using assms(1)
      by (auto simp: record_reputation_event_def and_then_eq_Inr split: if_splits)
    then show ?thesis using u by (simp add: purchases_move_def events_move_def)
  next
    case None
    then obtain normalized where v: "validate_reputation_purchase (find_purchase pid db) oid kind = Inr ()"
      and db': "purchase_rows db' = purchase_rows db"
        "reputation_events db' = reputation_events db @ [new_event oid pid kind normalized now]"
      using assms(1) by (auto simp: record_reputation_event_def and_then_eq_Inr Let_def split: if_splits)
    have "event_agrees db' (new_event oid pid kind normalized now)"
      using validated_agrees [OF v] event_agrees_cong [OF db'(1)] by simp
    then show ?thesis using u None db' unfolding purchases_move_def events_move_def
      by (auto simp: new_event_def)
  qed
qed

lemma outbox_frame [simp]:
  "purchase_rows (fst (claim_finalizations tokens lease limit now db)) = purchase_rows db"
  "reputation_events (fst (claim_finalizations tokens lease limit now db)) = reputation_events db"
  "purchase_rows (fst (finish_finalization outbox token error now db)) = purchase_rows db"
  "reputation_events (fst (finish_finalization outbox token error now db)) = reputation_events db"
  "purchase_rows (complete_finalization_for_purchase pid db) = purchase_rows db"
  "reputation_events (complete_finalization_for_purchase pid db) = reputation_events db"
  by (auto simp: claim_finalizations_def finish_finalization_def complete_finalization_for_purchase_def
      split: prod.split option.split)

lemma step_moves:
  assumes "purchase_step db db'" "purchases_ok db"
  shows "purchases_move db db' \<and> events_move db db'"
proof -
  have u: "purchases_unique (purchase_rows db)" using assms(2) by (simp add: purchases_ok_def)
  then have same: "purchases_move db db'' \<and> events_move db db''"
    if "purchase_rows db'' = purchase_rows db" "reputation_events db'' = reputation_events db" for db''
    using that by (simp add: purchases_move_def events_move_def)
  obtain c now where c: "service_call db c" "db' = run_purchase now c db" using assms(1) by (rule purchase_stepE)
  show ?thesis
  proof (cases c)
    case (ClaimExecution p allowed mode lease token)
    show ?thesis
    proof (cases "claim_purchase_execution p allowed mode lease token now db")
      case (Inr x)
      obtain db1 q g where x: "x = (db1, q, g)" by (cases x)
      show ?thesis
        using claim_moves [OF Inr [unfolded x]] c u by (simp add: ClaimExecution Inr x result_db_def service_call_def events_move_def)
    qed (use c same in \<open>simp add: ClaimExecution result_db_def\<close>)
  next
    case (SaveClaimed p token mode latency release expected)
    show ?thesis
    proof (cases "save_claimed_purchase p token mode latency release expected now db")
      case (Inr x)
      show ?thesis
        using save_moves [OF Inr assms(2)] c by (simp add: SaveClaimed Inr result_db_def service_call_def events_move_def)
    qed (use c same in \<open>simp add: SaveClaimed result_db_def\<close>)
  next
    case (SaveTerminal p kind dims token mode latency finalization expected)
    show ?thesis
    proof (cases "save_purchase_with_reputation_event p kind dims token mode latency finalization expected now db")
      case (Inr x)
      then show ?thesis
        using terminal_moves [of p kind dims token mode latency finalization expected now db "fst x" "snd x"] assms(2) c
        by (simp add: SaveTerminal result_db_def)
    qed (use c same in \<open>simp add: SaveTerminal result_db_def\<close>)
  next
    case (RecordEvent oid kind pid dims)
    show ?thesis
    proof (cases "record_reputation_event oid kind pid dims now db")
      case (Inr x)
      then show ?thesis
        using record_moves [of oid kind pid dims now db "fst x" "snd x"] assms(2) c
        by (simp add: RecordEvent result_db_def)
    qed (use c same in \<open>simp add: RecordEvent result_db_def\<close>)
  qed (use c same in simp_all)
qed

section \<open>What a step keeps\<close>

lemma find_event_append:
  "reputation_events db' = reputation_events db @ [e] \<Longrightarrow> find_event (re_purchase_id e) db = None \<Longrightarrow>
     distinct (map re_purchase_id (reputation_events db)) \<Longrightarrow> distinct (map re_purchase_id (reputation_events db'))"
  by (auto simp: find_event_def sel_by_None)

lemma final_kept_move:
  assumes "purchases_move db db'" "find_purchase pid db = Some r" "pu_state r \<in> set TERMINAL_STATES"
  shows "find_purchase pid db' = Some r"
proof -
  consider "purchase_rows db' = purchase_rows db" | r1 where "adds r1 db db'" | r1 r2 where "replaces r1 r2 db db'"
    using assms(1) by (auto simp: purchases_move_def)
  then show ?thesis
  proof cases
    case 1
    then show ?thesis using assms(2) by (simp add: find_purchase_def)
  next
    case 2
    then have "purchase_rows db' = purchase_rows db @ [r1]" by (simp add: adds_def)
    then show ?thesis using assms(2) by (simp add: find_purchase_def sel_by_snoc)
  next
    case 3
    then have "pid \<noteq> pu_purchase_id r1" using assms(2,3) by (auto simp: replaces_def)
    then show ?thesis using 3 assms(2) by (simp add: replaces_def find_purchase_def sel_by_replace)
  qed
qed

lemma step_keeps_ok:
  assumes "purchases_ok db" "purchase_step db db'"
  shows "purchases_ok db'"
proof -
  have m: "purchases_move db db'" "events_move db db'" using step_moves [OF assms(2,1)] by simp_all
  have u: "purchases_unique (purchase_rows db')" using m(1) by (simp add: purchases_move_def)
  have "pu_claim_token x = None" if "x \<in> set (purchase_rows db')" "pu_state x \<in> set TERMINAL_STATES" for x
    using m(1) that assms(1)
    by (auto simp: purchases_move_def purchases_ok_def adds_def replaces_def upd_by_def set_update_rows)
  moreover have "distinct (map re_purchase_id (reputation_events db'))"
    using m(2) assms(1) find_event_append by (auto simp: events_move_def purchases_ok_def)
  moreover have "event_agrees db' e" if e: "e \<in> set (reputation_events db')" for e
  proof -
    have "e \<in> set (reputation_events db) \<or> event_agrees db' e" using m(2) e by (auto simp: events_move_def)
    then show ?thesis
      using assms(1) final_kept_move [OF m(1)] by (fastforce simp: purchases_ok_def event_agrees_def)
  qed
  ultimately show ?thesis using u by (simp add: purchases_ok_def)
qed

definition no_purchases :: "market_db \<Rightarrow> bool" where
  "no_purchases db \<longleftrightarrow> purchase_rows db = [] \<and> reputation_events db = []"

interpretation purchases: invariant_system no_purchases purchase_step purchases_ok
  by unfold_locales
    (simp add: no_purchases_def purchases_ok_def purchases_unique_def some_distinct_def, rule step_keeps_ok)

lemma final_kept:
  assumes "purchase_step\<^sup>*\<^sup>* db db'" "purchases_ok db" "find_purchase pid db = Some r" "pu_state r \<in> set TERMINAL_STATES"
  shows "find_purchase pid db' = Some r"
  using assms(1)
proof (induction rule: rtranclp_induct)
  case (step y z)
  have "purchases_ok y" using purchases.inv_steps [OF step.hyps(1) assms(2)] .
  then show ?case using final_kept_move step_moves [OF step.hyps(2)] step.IH assms(4) by blast
qed (rule assms(3))

text \<open>A reputation event, once recorded, stays as it was recorded.\<close>

lemma events_kept:
  assumes "purchase_step\<^sup>*\<^sup>* db db'" "purchases_ok db" "e \<in> set (reputation_events db)"
  shows "e \<in> set (reputation_events db')"
  using assms(1)
proof (induction rule: rtranclp_induct)
  case (step y z)
  have "purchases_ok y" using purchases.inv_steps [OF step.hyps(1) assms(2)] .
  then have "events_move y z" using step_moves [OF step.hyps(2)] by simp
  then show ?case using step.IH by (auto simp: events_move_def)
qed (rule assms(3))

section \<open>Claims\<close>

text \<open>A call of somebody who does not have the token of this purchase.\<close>

definition stranger :: "string \<Rightarrow> string \<Rightarrow> purchase_call \<Rightarrow> bool" where
  "stranger pid token c \<longleftrightarrow>
     (case c of
        SaveClaimed p t mode latency release expected \<Rightarrow> pu_purchase_id p = pid \<longrightarrow> t \<noteq> token
      | SaveTerminal p kind dims t mode latency finalization expected \<Rightarrow> pu_purchase_id p = pid \<longrightarrow> t \<noteq> token
      | _ \<Rightarrow> True)"

definition claimed_until :: "string \<Rightarrow> int \<Rightarrow> purchase_row \<Rightarrow> bool" where
  "claimed_until token until r \<longleftrightarrow> pu_claim_token r = Some token \<and> pu_claim_until r = Some until"

lemma other_claim_refused:
  assumes "find_purchase (pu_purchase_id p) db = Some r" "claimed_until token until r" "now < until"
    and "claim_purchase_execution p allowed mode lease t now db = Inr (db', q, g)"
  shows "g = None \<and> db' = db"
  using assms by (auto simp: claim_purchase_execution_def claim_free_def claimed_until_def split: if_splits)

lemma put_other_kept: "pu_purchase_id r \<noteq> pid \<Longrightarrow> find_purchase pid (put_purchase r db) = find_purchase pid db"
  by simp

lemma claim_other_kept:
  assumes "claim_purchase_execution p allowed mode lease t now db = Inr (db', q, g)" "pu_purchase_id p \<noteq> pid"
  shows "find_purchase pid db' = find_purchase pid db"
proof (cases "find_purchase (pu_purchase_id p) db")
  case None
  then show ?thesis
    using assms
    by (auto simp: claim_purchase_execution_def Let_def find_purchase_def sel_by_snoc split: if_splits option.split)
next
  case (Some r)
  then show ?thesis
    using assms find_purchase_in [OF Some]
    by (auto simp: claim_purchase_execution_def put_other_kept simp del: find_put split: if_splits)
qed

lemma save_stranger_kept:
  assumes "save_claimed_purchase p t mode latency release expected now db = Inr db'"
    and "find_purchase pid db = Some r" "claimed_until token until r" "pu_purchase_id p = pid \<longrightarrow> t \<noteq> token"
  shows "find_purchase pid db' = Some r"
  using assms
  by (auto simp: save_claimed_purchase_def holds_claim_def claimed_until_def Let_def split: option.splits if_splits)

lemma terminal_stranger_kept:
  assumes "event_transaction p kind normalized t mode latency finalization expected now db = Inr (db', q)"
    and "find_purchase pid db = Some r" "claimed_until token until r" "pu_purchase_id p = pid \<longrightarrow> t \<noteq> token"
  shows "find_purchase pid db' = Some r"
proof (cases "find_event (pu_purchase_id p) db")
  case (Some e)
  then have "db' = db"
    using assms(1) by (auto simp: event_transaction_def Let_def and_then_eq_Inr split: if_splits)
  then show ?thesis using assms(2) by simp
next
  case None
  from event_writes [OF assms(1) None] obtain r0 db1 where r0: "find_purchase (pu_purchase_id p) db = Some r0"
    "db1 = db \<or> pu_state r0 \<notin> set TERMINAL_STATES \<and> save_terminal_row p t mode latency expected r0 db = Inr db1"
    "purchase_rows db' = purchase_rows db1"
    by blast
  have "find_purchase pid db1 = Some r"
    using r0(1,2) assms(2-4)
    by (auto simp: save_terminal_row_def holds_claim_def claimed_until_def Let_def split: if_splits)
  then show ?thesis using r0(3) by (simp add: find_purchase_def)
qed

lemma record_rows:
  assumes "record_reputation_event oid kind pid dims now db = Inr (db', row)"
  shows "purchase_rows db' = purchase_rows db"
proof (cases "find_event pid db")
  case None
  then show ?thesis
    using assms by (auto simp: record_reputation_event_def and_then_eq_Inr Let_def split: if_splits)
next
  case (Some e)
  then show ?thesis
    using assms by (auto simp: record_reputation_event_def and_then_eq_Inr split: if_splits)
qed

lemma stranger_kept:
  assumes r: "find_purchase pid db = Some r" "claimed_until token until r" and t: "now < until" "stranger pid token c"
  shows "find_purchase pid (run_purchase now c db) = Some r"
proof (cases c)
  case (ClaimExecution p allowed mode lease t)
  show ?thesis
  proof (cases "claim_purchase_execution p allowed mode lease t now db")
    case (Inr x)
    obtain db1 q g where x: "claim_purchase_execution p allowed mode lease t now db = Inr (db1, q, g)"
      using Inr by (cases x) simp
    have "find_purchase pid db1 = Some r"
      using other_claim_refused [OF _ r(2) t(1) x] claim_other_kept [OF x] r(1) by (cases "pu_purchase_id p = pid") auto
    then show ?thesis using x by (simp add: ClaimExecution result_db_def)
  qed (use r in \<open>simp add: ClaimExecution result_db_def\<close>)
next
  case (SaveClaimed p t mode latency release expected)
  show ?thesis
  proof (cases "save_claimed_purchase p t mode latency release expected now db")
    case (Inr db1)
    then show ?thesis
      using save_stranger_kept [OF Inr r] t(2) by (simp add: SaveClaimed result_db_def stranger_def)
  qed (use r in \<open>simp add: SaveClaimed result_db_def\<close>)
next
  case (SaveTerminal p kind dims t mode latency finalization expected)
  show ?thesis
  proof (cases "save_purchase_with_reputation_event p kind dims t mode latency finalization expected now db")
    case (Inr x)
    then obtain db1 q where x: "save_purchase_with_reputation_event p kind dims t mode latency finalization expected now db
        = Inr (db1, q)" by (cases x) simp
    have stranger: "pu_purchase_id p = pid \<longrightarrow> t \<noteq> token" using t(2) by (simp add: SaveTerminal stranger_def)
    have "find_purchase pid db1 = Some r"
    proof (cases "db1 = db")
      case False
      with x obtain normalized where
        "event_transaction p kind normalized t mode latency finalization expected now db = Inr (db1, q)"
        by (auto simp: save_purchase_with_reputation_event_def and_then_eq_Inr Let_def
            split: if_splits sum.splits option.splits)
      then show ?thesis using terminal_stranger_kept r stranger by blast
    qed (simp add: r)
    then show ?thesis using x by (simp add: SaveTerminal result_db_def)
  qed (use r in \<open>simp add: SaveTerminal result_db_def\<close>)
next
  case (RecordEvent oid kind pid' dims)
  show ?thesis
  proof (cases "record_reputation_event oid kind pid' dims now db")
    case (Inr x)
    then show ?thesis
      using record_rows [of oid kind pid' dims now db "fst x" "snd x"] r
      by (simp add: RecordEvent result_db_def find_purchase_def)
  qed (use r in \<open>simp add: RecordEvent result_db_def\<close>)
qed (use r in \<open>simp_all add: find_purchase_def\<close>)

primrec run_purchases :: "(int \<times> purchase_call) list \<Rightarrow> market_db \<Rightarrow> market_db" where
  "run_purchases [] db = db"
| "run_purchases (c # cs) db = run_purchases cs (run_purchase (fst c) (snd c) db)"

lemma strangers_kept:
  assumes "find_purchase pid db = Some r" "claimed_until token until r"
    and "\<forall>x \<in> set calls. fst x < until \<and> stranger pid token (snd x)"
  shows "find_purchase pid (run_purchases calls db) = Some r"
  using assms
proof (induction calls arbitrary: db)
  case (Cons c cs)
  have "find_purchase pid (run_purchase (fst c) (snd c) db) = Some r"
    using stranger_kept [OF Cons.prems(1,2)] Cons.prems(3) by simp
  then have "find_purchase pid (run_purchases cs (run_purchase (fst c) (snd c) db)) = Some r"
    using Cons.prems(2,3) by (intro Cons.IH) simp_all
  then show ?case by simp
qed simp

lemma run_purchases_append: "run_purchases (cs @ ds) db = run_purchases ds (run_purchases cs db)"
  by (induction cs arbitrary: db) simp_all

lemma truncate_simps [simp]:
  "pu_purchase_id (purchase.truncate r) = pu_purchase_id r" "pu_state (purchase.truncate r) = pu_state r"
  "pu_execution_mode (purchase.truncate r) = pu_execution_mode r"
  by (simp_all add: purchase.defs)

text \<open>
  Looking for settlements is a sequence of claims on stored purchases, each at a time its clock
  gave and none with a token of its own, so all that follows holds of it, too.
\<close>

inductive claim_steps :: "int set \<Rightarrow> market_db \<Rightarrow> (int \<times> purchase_call) list \<Rightarrow> bool" for ticks where
  "claim_steps ticks db []"
| "now \<in> ticks \<Longrightarrow> c = ClaimExecution p [''payment_submitted''] mode lease token \<Longrightarrow> service_call db c \<Longrightarrow>
    claim_steps ticks (run_purchase now c db) cs \<Longrightarrow> claim_steps ticks db ((now, c) # cs)"

lemma claim_each_claims:
  "\<exists>calls claimed. claim_each tokens clock i pids db = Inr (run_purchases calls db, claimed) \<and>
     claim_steps (range clock) db calls"
proof (induction pids arbitrary: i db)
  case Nil
  have "claim_each tokens clock i [] db = Inr (run_purchases [] db, []) \<and> claim_steps (range clock) db []"
    by (simp add: claim_steps.intros)
  then show ?case by blast
next
  case (Cons pid pids)
  show ?case
  proof (cases "find_purchase pid db")
    case None
    then show ?thesis using Cons.IH [of "Suc i" db] by simp
  next
    case (Some r)
    let ?c = "ClaimExecution (purchase.truncate r) [''payment_submitted''] (pu_execution_mode r) LEASE_SECONDS (tokens i)"
    have pid: "pu_purchase_id r = pid" using find_purchase_in [OF Some] by simp
    have "\<exists>x. claim_purchase_execution (purchase.truncate r) [''payment_submitted''] (pu_execution_mode r)
        LEASE_SECONDS (tokens i) (clock i) db = Inr x"
      using Some pid by (simp add: claim_purchase_execution_def)
    then obtain db1 q g where c: "claim_purchase_execution (purchase.truncate r) [''payment_submitted''] (pu_execution_mode r)
        LEASE_SECONDS (tokens i) (clock i) db = Inr (db1, q, g)" by auto
    then have db1: "run_purchase (clock i) ?c db = db1" by (simp add: result_db_def)
    have "service_call db ?c" using Some pid by (simp add: service_call_def TERMINAL_STATES_def)
    moreover obtain calls claimed where "claim_each tokens clock (Suc i) pids db1 = Inr (run_purchases calls db1, claimed)"
      "claim_steps (range clock) db1 calls" using Cons.IH by blast
    ultimately have "claim_each tokens clock i (pid # pids) db = Inr (run_purchases ((clock i, ?c) # calls) db,
        case (q, g) of (Some p, Some t) \<Rightarrow> (p, t) # claimed | _ \<Rightarrow> claimed)"
      "claim_steps (range clock) db ((clock i, ?c) # calls)"
      using Some c db1 by (auto intro: claim_steps.intros)
    then show ?thesis by blast
  qed
qed

lemma claim_steps_reach: "claim_steps ticks db calls \<Longrightarrow> purchase_step\<^sup>*\<^sup>* db (run_purchases calls db)"
  by (induction rule: claim_steps.induct)
    (auto intro: converse_rtranclp_into_rtranclp purchase_step.intros)

lemma claim_steps_strangers: "claim_steps ticks db calls \<Longrightarrow> x \<in> set calls \<Longrightarrow> fst x \<in> ticks \<and> stranger pid token (snd x)"
  by (induction rule: claim_steps.induct) (auto simp: stranger_def)

lemma reconciliation_claims:
  obtains calls claimed where
    "claim_payment_reconciliations tokens clock limit now db = Inr (run_purchases calls db, claimed)"
    "purchase_step\<^sup>*\<^sup>* db (run_purchases calls db)"
    "\<And>x pid token. x \<in> set calls \<Longrightarrow> fst x \<in> range clock \<and> stranger pid token (snd x)"
proof -
  obtain calls claimed where c: "claim_payment_reconciliations tokens clock limit now db = Inr (run_purchases calls db, claimed)"
    "claim_steps (range clock) db calls"
    using claim_each_claims unfolding claim_payment_reconciliations_def by blast
  from that [OF c(1) claim_steps_reach [OF c(2)] claim_steps_strangers [OF c(2)]] show ?thesis .
qed

lemma save_purchase_keeps_claim:
  assumes "save_purchase p latency db = Inr db'" "find_purchase pid db = Some r"
  shows "\<exists>r'. find_purchase pid db' = Some r' \<and> pu_claim_token r' = pu_claim_token r \<and>
    pu_claim_until r' = pu_claim_until r"
  using assms find_purchase_in [of "pu_purchase_id p" db]
  by (auto simp: save_purchase_def Let_def find_purchase_def sel_by_snoc sel_by_replace row_data_def
      purchase_data_def purchase.defs purchase_row.defs split: if_splits option.splits)

lemma granted_claim:
  assumes "claim_purchase_execution p allowed mode lease token now db = Inr (db', q, Some t)"
  shows "t = token \<and> (\<exists>r. find_purchase (pu_purchase_id p) db' = Some r \<and> claimed_until token (now + lease * SECOND) r
    \<and> pu_execution_mode r = mode)"
proof (cases "find_purchase (pu_purchase_id p) db")
  case None
  then show ?thesis
    using assms
    by (auto simp: claim_purchase_execution_def Let_def find_purchase_def sel_by_snoc claimed_until_def purchase_data_def
        purchase.defs purchase_row.defs split: if_splits)
next
  case (Some r)
  then show ?thesis
    using assms find_purchase_in [OF Some]
    by (auto simp: claim_purchase_execution_def claimed_until_def split: if_splits)
qed

end
