(* ===== verification/Marketplace_Properties.thy ===== *)
theory Marketplace_Properties
  imports Registry_Safety Purchase_Safety
begin

text \<open>
  The properties of the marketplace: importing a registry comes to an end and changes nothing
  that is on sale; a purchase is worked on by one claim at a time and is final once it is finished.
\<close>

section \<open>Example\<close>

definition ex_provider :: "string \<Rightarrow> provider" where
  "ex_provider pid = \<lparr>pv_provider_id = pid, pv_name = pid, pv_domain = pid @ ''.example'', pv_source = ''cdp_bazaar'',
     pv_status = ''discovered'', pv_verified_wallets = [], pv_metadata = []\<rparr>"

definition ex_offering :: "string \<Rightarrow> string \<Rightarrow> string \<Rightarrow> offering" where
  "ex_offering oid pid price = \<lparr>of_offering_id = oid, of_provider_id = pid, of_source = ''cdp_bazaar'',
     of_source_id = ''GET '' @ oid, of_name = oid, of_description = '''', of_endpoint = ''https://'' @ oid,
     of_method = ''GET'', of_input_schema = [], of_output_schema = [], of_tags = [],
     of_payment_options = [\<lparr>po_scheme = ''exact'', po_network = ''eip155:8453'', po_asset = ''usdc'',
       po_amount_atomic = price, po_pay_to = ''payee'', po_max_timeout_seconds = None, po_price_usd = None,
       po_metadata = []\<rparr>],
     of_status = ''discovered'', of_last_synced_at = 0, of_metadata = []\<rparr>"

text \<open>A registry of three resources, one to a page; the last cannot be normalised.\<close>

definition ex_adapter :: "nat registry_adapter" where
  "ex_adapter =
     \<lparr>fetch_page = (\<lambda>offset limit etag.
        if 0 \<le> offset \<and> offset < 3
        then Inr \<lparr>not_modified = False, page_etag = Some ''v1'', page_items = Some [nat offset],
               page_numbers = Inr (offset, 1, 3)\<rparr>
        else Inl ''HTTPError: bad offset''),
      normalize_resource = (\<lambda>n. if n = 0 then Inr (ex_provider ''p0'', ex_offering ''o0'' ''p0'' ''9'')
        else if n = 1 then Inr (ex_provider ''p1'', ex_offering ''o1'' ''p1'' ''5'')
        else Inl ''ValueError: Bazaar resource has no hostname'')\<rparr>"

definition ex_aggregator :: "nat aggregator" where
  "ex_aggregator = \<lparr>ag_adapter = ex_adapter, ag_search = \<lparr>ts_search = None, ts_classify = (\<lambda>_ _. Inr None)\<rparr>,
     ag_targets = [], ag_max_pages = 2\<rparr>"

definition ex_run :: sync_run where
  "ex_run = \<lparr>run_registry = ''cdp_bazaar'', run_token = ''token'', run_sha256 = (\<lambda>s. s),
     run_clock = (\<lambda>i. int i), run_db_error = ''IntegrityError'', run_page_size = 1, run_targeted = 0,
     run_target_errors = []\<rparr>"

definition ex_catalog :: catalog_db where
  "ex_catalog = empty_catalog
     \<lparr>provider_rows := [\<lparr>pr_provider_id = ''p2'', pr_domain = ''p2.example'', pr_wallet_address = Some ''0xa'',
        pr_status = ''active'', pr_payload = ex_provider ''p2'', pr_domain_failures = 0,
        pr_last_domain_verified_at = None, pr_last_domain_check_at = None, pr_updated_at = 0\<rparr>],
      offering_rows := [\<lparr>or_offering_id = ''o2'', or_provider_id = ''p2'', or_status = ''verified'',
        or_payload = ex_offering ''o2'' ''p2'' ''7'', or_candidate_payload = None, or_candidate_registry_id = None,
        or_last_verified_at = Some 0, or_last_check_attempt_at = None, or_updated_at = 0\<rparr>]\<rparr>"

lemma ex_claims: "claims_at_most 3 ex_adapter"
  by (auto simp: claims_at_most_def ex_adapter_def)

section \<open>Syncs come to an end\<close>

text \<open>
  C39. A registry that never claims more than n resources cannot keep the aggregator paging:
  whatever its pages hold and whatever else is written between the runs, as long as only the
  runs move the registry's cursor, one of the first n + 1 runs ends otherwise than in
  progress.
\<close>

theorem syncs_come_to_end:
  assumes "\<And>k. claims_at_most n (ag_adapter (ags k))" "\<And>k. 0 < ag_max_pages (ags k)"
    and "\<And>k. run_registry (runs k) = rid"
    and "\<And>k. stored_cursor rid (dbs (Suc k)) = stored_cursor rid (fst (sync_registry (runs k) (ags k) (dbs k)))"
  shows "\<exists>k \<le> nat n. sync_status (snd (sync_registry (runs k) (ags k) (dbs k))) \<noteq> ''in_progress''"
proof (rule ccontr)
  assume "\<not> ?thesis"
  then have going: "sync_status (snd (sync_registry (runs k) (ags k) (dbs k))) = ''in_progress''" if "k \<le> nat n" for k
    using that by blast
  define pos where "pos k = read_offset (stored_cursor rid (dbs k))" for k
  have step: "0 \<le> pos k \<and> pos k < pos (Suc k) \<and> pos (Suc k) < n" if "k \<le> nat n" for k
    using sync_progress [OF prod.collapse [symmetric] going [OF that] assms(1,2)] assms(3,4) by (simp add: pos_def)
  have "int k \<le> pos k" if "k \<le> Suc (nat n)" for k
    using that
  proof (induction k)
    case 0
    then show ?case using step [of 0] by simp
  next
    case (Suc k)
    then show ?case using step [of k] by simp
  qed
  from this [of "Suc (nat n)"] step [of "nat n"] show False by simp
qed

lemma syncs_come_to_end_witness:
  "\<exists>k \<le> 3. sync_status (snd (sync_registry ex_run ex_aggregator
      (((\<lambda>db. fst (sync_registry ex_run ex_aggregator db)) ^^ k) ex_catalog))) \<noteq> ''in_progress''"
  using syncs_come_to_end [of 3 "\<lambda>_. ex_aggregator" "\<lambda>_. ex_run" "''cdp_bazaar''"
      "\<lambda>k. ((\<lambda>db. fst (sync_registry ex_run ex_aggregator db)) ^^ k) ex_catalog"]
  by (simp add: ex_aggregator_def ex_claims) (simp add: ex_run_def)

section \<open>What is on sale\<close>

text \<open>
  C40. Importing a registry, whichever way it pages and whatever it answers, never puts
  anything on sale and never changes an offering on sale: an offering that a buyer can find
  after a run was there before it with the same endpoint, terms and trust tier.
\<close>

theorem sync_changes_no_sale:
  assumes "offerings_owned db"
    and "db' = fst (sync_registry run ag db) \<or> db' = fst (sync_cursor_registry run peer pages db)"
    and "active_offering render db' oid True = Some o1"
  shows "active_offering render db oid True = Some o1 \<and> offerings_owned db'"
proof -
  have i: "only_imports db db'"
    using assms(2) sync_imports [OF prod.collapse [symmetric]] sync_cursor_imports [OF prod.collapse [symmetric]]
    by blast
  show ?thesis
    using imports_keep_sale [OF i assms(1,3)] i assms(1) by (simp add: only_imports_def)
qed

lemma sync_changes_no_sale_witness:
  "\<exists>o1. active_offering (\<lambda>_. ''t'') (fst (sync_registry ex_run ex_aggregator ex_catalog)) ''o2'' True = Some o1 \<and>
     active_offering (\<lambda>_. ''t'') ex_catalog ''o2'' True = Some o1"
proof -
  have owned: "offerings_owned ex_catalog" by code_simp
  have "active_offering (\<lambda>_. ''t'') (fst (sync_registry ex_run ex_aggregator ex_catalog)) ''o2'' True \<noteq> None"
    by code_simp
  then show ?thesis using sync_changes_no_sale [OF owned disjI1 [OF refl]] by blast
qed

section \<open>Purchases\<close>

text \<open>
  C16. A finished purchase is final: whatever calls the services make after it is delivered,
  failed or paid without delivery, its row stays as it is, and it has at most one reputation
  event, of its own outcome and offering and never for a failure before payment. An event that
  it has stays as it was recorded, dimensions included.
\<close>

theorem finished_purchase_final:
  assumes "no_purchases db0" "purchase_step\<^sup>*\<^sup>* db0 db" "purchase_step\<^sup>*\<^sup>* db db'"
    and "find_purchase pid db = Some r" "pu_state r \<in> set TERMINAL_STATES"
  shows "find_purchase pid db' = Some r \<and>
    length (filter (\<lambda>e. re_purchase_id e = pid) (reputation_events db')) \<le> 1 \<and>
    (\<forall>e \<in> set (reputation_events db'). re_purchase_id e = pid \<longrightarrow>
       re_event_type e = pu_state r \<and> re_offering_id e = pu_offering_id r \<and> attributable r) \<and>
    (\<forall>e \<in> set (reputation_events db). e \<in> set (reputation_events db'))"
proof -
  have ok: "purchases_ok db" "purchases_ok db'"
    using purchases.inv_reachable [OF assms(1,2)] purchases.inv_steps [OF assms(3)] by blast+
  have kept: "find_purchase pid db' = Some r" by (rule final_kept [OF assms(3) ok(1) assms(4,5)])
  have single: "length (filter (\<lambda>e. re_purchase_id e = pid) es) \<le> 1" if "distinct (map re_purchase_id es)" for es
    using that by (induction es) (auto simp: filter_empty_conv image_iff)
  have "length (filter (\<lambda>e. re_purchase_id e = pid) (reputation_events db')) \<le> 1"
    using ok(2) by (intro single) (simp add: purchases_ok_def)
  moreover have "re_event_type e = pu_state r \<and> re_offering_id e = pu_offering_id r \<and> attributable r"
    if "e \<in> set (reputation_events db')" "re_purchase_id e = pid" for e
    using ok(2) kept that by (fastforce simp: purchases_ok_def event_agrees_def)
  moreover have "\<forall>e \<in> set (reputation_events db). e \<in> set (reputation_events db')"
    using events_kept [OF assms(3) ok(1)] by blast
  ultimately show ?thesis using kept by simp
qed

definition ex_purchase :: "string \<Rightarrow> purchase" where
  "ex_purchase state = \<lparr>pu_purchase_id = ''purchase_1'', pu_preview_id = ''preview_1'', pu_offering_id = ''o2'',
     pu_user_id = ''user_1'', pu_state = state, pu_execution_mode = ''clink_allowance'', pu_input_hash = ''0x1'',
     pu_output_hash = None, pu_reservation_id = Some ''reserve_1'', pu_action_id = None,
     pu_policy_decision_id = None, pu_receipt_id = Some ''receipt_1'', pu_audit_event_ids = [],
     pu_reason_code = None, pu_metadata = [], pu_created_at = 0, pu_updated_at = 0\<rparr>"

definition ex_market :: market_db where
  "ex_market = catalog_db.extend ex_catalog
     (market_db.fields [] [] [] 0)"

definition ex_claim :: purchase_call where
  "ex_claim = ClaimExecution (ex_purchase ''payment_submitted'') [''payment_submitted''] ''clink_allowance'' 120 ''t1''"

definition ex_finish :: purchase_call where
  "ex_finish = SaveTerminal (ex_purchase ''delivered'') ''delivered''
     [(''payment_success'', PInt 100), (''delivery_success'', PInt 100)] ''t1'' ''clink_allowance'' (Some 5)
     (Some (''delivered'', [])) [''payment_submitted'']"

definition ex_late_save :: purchase_call where
  "ex_late_save = SaveClaimed (ex_purchase ''failed'') ''t1'' ''clink_allowance'' None True []"

definition ex_sold :: market_db where
  "ex_sold = run_purchase 20 ex_finish (run_purchase 10 ex_claim ex_market)"

lemma ex_sold_reached: "no_purchases ex_market" "purchase_step\<^sup>*\<^sup>* ex_market ex_sold"
proof -
  show "no_purchases ex_market" by code_simp
  have "service_call ex_market ex_claim" "service_call (run_purchase 10 ex_claim ex_market) ex_finish" by code_simp+
  then have "purchase_step ex_market (run_purchase 10 ex_claim ex_market)"
    "purchase_step (run_purchase 10 ex_claim ex_market) ex_sold"
    by (auto simp: ex_sold_def intro: purchase_step.intros)
  then show "purchase_step\<^sup>*\<^sup>* ex_market ex_sold" by (meson converse_rtranclp_into_rtranclp rtranclp.rtrancl_refl)
qed

text \<open>Afterwards: a late save, and a second event with other dimensions.\<close>

definition ex_second_event :: purchase_call where
  "ex_second_event = RecordEvent ''o2'' ''delivered'' ''purchase_1'' [(''delivery_success'', PInt 0)]"

definition ex_after :: market_db where
  "ex_after = run_purchase 40 ex_second_event (run_purchase 30 ex_late_save ex_sold)"

lemma ex_after_reached: "purchase_step\<^sup>*\<^sup>* ex_sold ex_after"
proof -
  have "service_call ex_sold ex_late_save" "service_call (run_purchase 30 ex_late_save ex_sold) ex_second_event"
    by code_simp+
  then have "purchase_step ex_sold (run_purchase 30 ex_late_save ex_sold)"
    "purchase_step (run_purchase 30 ex_late_save ex_sold) ex_after"
    by (auto simp: ex_after_def intro: purchase_step.intros)
  then show ?thesis by (meson converse_rtranclp_into_rtranclp rtranclp.rtrancl_refl)
qed

lemma finished_purchase_final_witness:
  "\<exists>r e. find_purchase ''purchase_1'' ex_after = Some r \<and> pu_state r = ''delivered'' \<and>
     e \<in> set (reputation_events ex_after) \<and> re_purchase_id e = ''purchase_1'' \<and>
     re_dimensions e = [(''payment_success'', 100), (''delivery_success'', 100)] \<and>
     length (filter (\<lambda>e. re_purchase_id e = ''purchase_1'') (reputation_events ex_after)) \<le> 1"
proof -
  have "map_option pu_state (find_purchase ''purchase_1'' ex_sold) = Some ''delivered''" by code_simp
  then obtain r where r: "find_purchase ''purchase_1'' ex_sold = Some r" "pu_state r = ''delivered''"
    by (auto simp: map_option_case split: option.splits)
  have "map (\<lambda>e. (re_purchase_id e, re_dimensions e)) (reputation_events ex_sold) =
    [(''purchase_1'', [(''payment_success'', 100), (''delivery_success'', 100)])]" by code_simp
  then obtain e where e: "e \<in> set (reputation_events ex_sold)" "re_purchase_id e = ''purchase_1''"
    "re_dimensions e = [(''payment_success'', 100), (''delivery_success'', 100)]"
    by (auto simp: map_eq_Cons_conv)
  have "pu_state r \<in> set TERMINAL_STATES" using r(2) by (simp add: TERMINAL_STATES_def)
  from finished_purchase_final [OF ex_sold_reached ex_after_reached r(1) this] r(2) e show ?thesis by blast
qed

text \<open>
  C23. A granted claim excludes every other writer while it lasts: calls made without its token
  before the lease ends leave the purchase as the claim found it, no other claim on it is
  granted, and the holder's own save is not refused for a lost claim. Claiming purchases that
  wait for a settlement is a sequence of such calls (\<open>reconciliation_claims\<close>).
\<close>

theorem claim_excludes_writers:
  assumes "claim_purchase_execution p allowed mode lease token now db = Inr (db1, q, Some token)"
    and "\<forall>x \<in> set calls. fst x < now + lease * SECOND \<and> stranger (pu_purchase_id p) token (snd x)"
    and "db2 = run_purchases calls db1"
  shows "find_purchase (pu_purchase_id p) db2 = find_purchase (pu_purchase_id p) db1 \<and>
    (\<forall>p2 allowed2 mode2 lease2 token2 now2 db3 q2 granted.
       pu_purchase_id p2 = pu_purchase_id p \<longrightarrow> now2 < now + lease * SECOND \<longrightarrow>
       claim_purchase_execution p2 allowed2 mode2 lease2 token2 now2 db2 = Inr (db3, q2, granted) \<longrightarrow> granted = None) \<and>
    (\<forall>p2 latency release now2. pu_purchase_id p2 = pu_purchase_id p \<longrightarrow>
       save_claimed_purchase p2 token mode latency release [] now2 db2 \<noteq> Inl ClaimLost)"
proof -
  obtain r where r: "find_purchase (pu_purchase_id p) db1 = Some r" "claimed_until token (now + lease * SECOND) r"
    "pu_execution_mode r = mode"
    using granted_claim [OF assms(1)] by blast
  have kept: "find_purchase (pu_purchase_id p) db2 = Some r"
    unfolding assms(3) by (rule strangers_kept [OF r(1,2) assms(2)])
  have "save_claimed_purchase p2 token mode latency release [] now2 db2 \<noteq> Inl ClaimLost"
    if "pu_purchase_id p2 = pu_purchase_id p" for p2 latency release now2
    using that kept r(2,3) by (simp add: save_claimed_purchase_def holds_claim_def claimed_until_def Let_def)
  moreover have "granted = None"
    if "pu_purchase_id p2 = pu_purchase_id p" "now2 < now + lease * SECOND"
      "claim_purchase_execution p2 allowed2 mode2 lease2 token2 now2 db2 = Inr (db3, q2, granted)"
    for p2 allowed2 mode2 lease2 token2 now2 db3 q2 granted
    using other_claim_refused [OF _ r(2) that(2,3)] that(1) kept by simp
  ultimately show ?thesis using kept r(1) by metis
qed

lemma claim_excludes_writers_witness:
  "\<exists>r. find_purchase ''purchase_1''
      (run_purchases [(11, ClaimExecution (ex_purchase ''payment_submitted'') [''payment_submitted''] ''clink_allowance'' 120 ''t2''),
        (12, SaveClaimed (ex_purchase ''failed'') ''t2'' ''clink_allowance'' None True [])]
      (run_purchase 10 ex_claim ex_market)) = Some r \<and> pu_state r = ''payment_submitted''"
proof -
  let ?p = "ex_purchase ''payment_submitted''"
  let ?db1 = "run_purchase 10 ex_claim ex_market"
  let ?calls = "[(11, ClaimExecution ?p [''payment_submitted''] ''clink_allowance'' 120 ''t2''),
    (12, SaveClaimed (ex_purchase ''failed'') ''t2'' ''clink_allowance'' None True [])]"
  have c: "claim_purchase_execution ?p [''payment_submitted''] ''clink_allowance'' 120 ''t1'' 10 ex_market
      = Inr (?db1, Some ?p, Some ''t1'')" by code_simp
  have "\<forall>x \<in> set ?calls. fst x < 10 + 120 * SECOND \<and> stranger (pu_purchase_id ?p) ''t1'' (snd x)" by code_simp
  from claim_excludes_writers [OF c this refl]
  have "find_purchase ''purchase_1'' (run_purchases ?calls ?db1) = find_purchase ''purchase_1'' ?db1"
    by (simp add: ex_purchase_def)
  moreover have "map_option pu_state (find_purchase ''purchase_1'' ?db1) = Some ''payment_submitted''" by code_simp
  ultimately show ?thesis by (auto simp: map_option_case split: option.splits)
qed

end
