(* ===== verification/Spec2Isabelle.thy ===== *)
theory Spec2Isabelle
  imports Execution_Properties Relayer_Properties Watcher_Properties Funding_Properties Service_Properties Authorization_Properties Marketplace_Properties
begin

text \<open>
  Clink: agent payments on chain, under spending authority that a user signs once. Core
  (\<open>src/apps/core\<close>) keeps wallets, grants, allowances and the ledger of reservations; the Hosted
  facilitator (\<open>src/apps/facilitator\<close>) signs and sends what a reservation allows; the marketplace
  (\<open>src/apps/marketplace\<close>) sells services found in registries; the commerce gateway
  (\<open>src/agentonomy_commerce\<close>) prices them. A purchase resolves a wallet, a grant and an allowance,
  reserves its amount, is executed with one relayer nonce, and its finality settles or releases
  the reservation.

  This development models the parts of these programs that decide and that keep state. Each
  operation is a function from the tables to an error or to new tables and a result; an error
  keeps the tables of a transaction. A sequence of calls is a step relation, and what holds in
  every reachable state is proved once for it (locale \<open>invariant_system\<close> of \<open>Clink_Prelude\<close>).

  \<^bold>\<open>Shared\<close>
  \<^item> \<open>Clink_Prelude\<close>: results as sums, keyed tables, digits and strings, invariants of step
    relations; \<open>Py_Values\<close>: the values of JSON columns, with Python's equality and truth;
    \<open>Json_Text\<close>: \<open>json.dumps\<close> as it is called before hashing; \<open>Calendar_Dates\<close>: ISO dates.

  \<^bold>\<open>Hosted execution\<close> (\<open>apps/facilitator/execution_repository.py\<close>, \<open>execution_models.py\<close>,
  \<open>pilot_gate.py\<close>, chain profiles of \<open>core/shared/hosted_facilitator_protocol.py\<close>)
  \<^item> \<open>Hosted_Models\<close>: chain profiles, policy, states, transition table, intents.
    \<open>Execution_Rows\<close>: the tables and their checks. \<open>Pilot_Gate\<close>: pauses, admission, gas.
    \<open>Execution_Repository\<close>: allocation, signing claims, signatures, submission, observation,
    finality, release, watching. \<open>Execution_Calls\<close>: the calls as a step relation.
  \<^item> \<open>Nonce_Safety\<close> (one live execution for a nonce), \<open>Execution_Frame\<close> and
    \<open>Execution_Evolution\<close> (how one call may change a row), \<open>Gate_Safety\<close> and
    \<open>Gate_Operations\<close> (quotas and gas budget), \<open>Execution_Claims\<close> (fencing),
    \<open>Execution_Errors\<close> and \<open>Execution_Retries\<close> (errors and repeated calls); their properties
    in \<open>Execution_Properties\<close> on the history of \<open>Execution_Example\<close>.

  \<^bold>\<open>Hosted relayer\<close> (\<open>apps/facilitator/relayer.py\<close>, \<open>evm.py\<close>): an approved intent becomes one
  signed Executor transaction, which is persisted and then sent, and sent again when its fate is
  unknown.
  \<^item> \<open>Evm_Encoding\<close>: the authorization, its EIP-712 digest, the \<open>execute\<close> calldata, the EIP-1559
    transaction. \<open>Relay_World\<close>: a computation (\<open>'a relay\<close>) reads an environment (\<open>relay_env\<close>: RPC
    providers, signers, clock, Core's approval, other workers) and changes a \<open>world\<close>: the
    repository above and the log of what left the process. Before each repository call of a
    relayer any calls of other workers may run. Locale \<open>relay_logic\<close> states the rules by which
    what holds of the repository calls and requests holds of every computation made from them.
    \<open>Hosted_Relayer\<close>: \<open>HostedSubmissionReconciler\<close> and \<open>HostedRelayer\<close>, step by step.
  \<^item> \<open>Relayer_Safety\<close> (nothing is sent that is not persisted and counted) and
    \<open>Relayer_Requests\<close> (nothing is given to a signer that is not the stored intent's); the
    properties in \<open>Relayer_Properties\<close> on the runs of \<open>Relayer_Example\<close>.

  \<^bold>\<open>Chain watcher\<close> (\<open>apps/facilitator/watcher.py\<close>, \<open>watcher_worker.py\<close>): what the chain shows of
  an execution moves its row to confirmed, reverted, finalized, released or under review.
  \<^item> \<open>Watcher_Evidence\<close>: fields of RPC answers, canonical decoding of the calldata, the two events
    of a payment. \<open>Hosted_Watcher\<close>: \<open>HostedChainWatcher\<close> and \<open>WatcherWorker\<close> in the same world as
    the relayer. \<open>Watcher_Calldata\<close>: what the relayer encodes, the watcher decodes.
  \<^item> \<open>Watcher_Safety\<close>: \<open>settlement\<close>, the abstract contract of an observation, and that each
    observation meets it. \<open>Watcher_Outcomes\<close>: which settlement a result of the watcher rests on,
    and the worker's loop. The properties in \<open>Watcher_Properties\<close> on the chain of
    \<open>Watcher_Example\<close>.

  \<^bold>\<open>Core funding\<close> (\<open>funding_service/ledger.py\<close>, \<open>account_service/repository.py\<close>)
  \<^item> \<open>Funding_Rows\<close>: the tables. \<open>Funding_Reservation\<close>: provenance, immutable fields and the
    single-submission state machine. \<open>Funding_Ledger\<close>: records, bindings, relayer nonces.
    \<open>Funding_Budget\<close>: reserve, release and settle. \<open>Funding_Evidence\<close>: watcher evidence and
    the checks before a payment. \<open>Account_Grants\<close>: grants over their life.
  \<^item> \<open>Budget_Books\<close>, \<open>Budget_Safety\<close>, \<open>Budget_Invariant\<close>: the books balance in every reachable
    state. \<open>Budget_Accounts\<close>: the abstract accounts that every budget step refines.
    \<open>Grant_Lifecycle\<close>, \<open>Ledger_Safety\<close>, \<open>Evidence_Safety\<close>: statuses, bindings, evidence. The
    properties in \<open>Funding_Properties\<close> on the ledger of \<open>Funding_Example\<close>.

  \<^bold>\<open>Account authorization\<close> (\<open>account_service/service.py\<close>, \<open>authorization.py\<close>, \<open>schemas.py\<close>)
  \<^item> \<open>Authorization_Resolution\<close>: \<open>resolve_authorization\<close>. \<open>Grant_Planning\<close>: the terms a form
    leads to. \<open>Resolution_Safety\<close>: the resolver and the ledger agree. \<open>Planning_Safety\<close>:
    scopes. The properties, which span resolver, plan and ledger, in
    \<open>Authorization_Properties\<close>.

  \<^bold>\<open>Prices and risk\<close> (\<open>agentonomy_commerce/service_pricing.py\<close>, \<open>policy_service/risk_policy.py\<close>,
  \<open>risk_cache.py\<close>)
  \<^item> \<open>Service_Pricing\<close> and \<open>Pricing_Exact\<close>; \<open>Risk_Policy\<close>; \<open>Risk_Cache\<close>; the properties in
    \<open>Service_Properties\<close>.

  \<^bold>\<open>Marketplace\<close> (\<open>services/marketplace_repository.py\<close>, \<open>registry_aggregation.py\<close>,
  \<open>storage/tables.py\<close>)
  \<^item> \<open>Marketplace_Rows\<close>: catalogue and tables. \<open>Registry_Store\<close>: upserts, leases, the commit of
    a page. \<open>Registry_Sync\<close>: a run over a registry. \<open>Registry_Safety\<close>: a run only imports.
    \<open>Purchase_Ledger\<close>: claims, saves, events, the outbox. \<open>Purchase_Safety\<close>: the purchase
    table over any calls. The properties in \<open>Marketplace_Properties\<close>.

  \<^bold>\<open>Bounds.\<close> Every definition ends: loops run over lists, over the four attempts of the nonce
  allocator (the code's bound) or over the code's page limit. The one exception is the polling
  loop of \<open>watcher_worker.py\<close>, which runs until it is told to stop: \<open>run_rounds\<close> has fuel, one
  unit a round, and \<open>polling_loop_stops\<close> proves that the rounds before the stop are enough.
  Integers of Python are unbounded and so is \<open>int\<close>; the 64-bit columns are CHECK constraints of
  the rows.

  \<^bold>\<open>Parameters.\<close> Hashes (SHA-256, keccak), random tokens and identifiers, the clock, the asset
  registry, registry adapters and the text of a foreign exception are arguments, as are the ABI
  and RLP encoders (\<open>evm_lib\<close>) and the answers of RPC providers, signers and Core (\<open>relay_env\<close>); a
  property that relies on one says so as a hypothesis, such as \<open>standard_abi\<close>, the documented
  layout of the one shape that \<open>eth_abi\<close> is used for.

  \<^bold>\<open>Not modelled.\<close> Strings are ASCII. \<open>Numeric(38, 6)\<close> and \<open>Decimal\<close> contexts are exact
  rationals; texts of any length are numbers where Python stops at 4300 digits, and \<open>NaN\<close> and
  infinities are refused. The usage row of a day is inserted when it is added to the session, which
  flushes it after the test of the day's limit; only a colliding digest tells them apart. The fee
  that a rollup charges beyond the gas is no part of the relayer's limits. \<open>save_purchase\<close> of the marketplace, which no service calls, is defined but
  is no step of the purchase table. Row locks and advisory locks only order transactions, so transactions run one after
  the other. Column widths are left out, as are foreign keys that no modelled operation can
  violate. Reputation dimensions are integers where Python converts them to floats. The signed
  \<open>HostedExecutionResponse\<close> documents and what verifies them, KMS, the transport of RPC and JWS are
  cryptography and I/O. The facilitator's budget protocol and its watcher, the HTTP applications,
  MCP servers, consoles, sessions, the purchase orchestration over HTTP, the node and the
  prediction-market adapters are not modelled.
\<close>

end
